(* ===== verification/Prelude.thy ===== *)
theory Prelude
  imports Main "HOL-Library.Word" "HOL-Library.List_Lexorder" "HOL-Library.Char_ord"
begin

text \<open>
  Shared vocabulary of the development: the Rust machine types, results and panics as values, the
  iterator and option combinators the binding uses on fallible conversions, and the Erlang terms
  with the encoders of scalar types.
\<close>

section \<open>Machine types\<close>

text \<open>
  An \<open>f64\<close> is carried as its IEEE-754 bit pattern: the binding moves floating-point values
  across the boundary without computing on them, and the few comparisons it makes are defined on
  the pattern below. \<open>usize\<close> and \<open>u64\<close> coincide, as on every 64-bit target the release builds.
\<close>

type_synonym u8 = "8 word"
type_synonym u16 = "16 word"
type_synonym u32 = "32 word"
type_synonym u64 = "64 word"
type_synonym i32 = "32 word"
type_synonym i64 = "64 word"
type_synonym f64 = "64 word"

lemma unat_u8_less: "unat (x :: u8) < 256"
  using unsigned_less [of x, where ?'a = nat] by simp

named_theorems result_simps \<open>evaluation of the result combinators\<close>
named_theorems codec_simps \<open>a decoder applied to its encoder\<close>

section \<open>Results and panics\<close>

text \<open>
  \<open>Result<A, E>\<close> is \<open>'e + 'a\<close> with \<open>Inl\<close> the error. Code that can panic (a slice index out of
  range, an unsigned subtraction below zero) returns a \<open>'e fault + 'a\<close>, so that a panic is a
  value a theorem can exclude.
\<close>

datatype 'e fault = Err 'e | Panic

definition and_then :: "'e + 'a \<Rightarrow> ('a \<Rightarrow> 'e + 'b) \<Rightarrow> 'e + 'b" where
  "and_then r f = (case r of Inl e \<Rightarrow> Inl e | Inr a \<Rightarrow> f a)"

definition map_ok :: "('a \<Rightarrow> 'b) \<Rightarrow> 'e + 'a \<Rightarrow> 'e + 'b" where
  "map_ok f r = and_then r (\<lambda>a. Inr (f a))"

definition map_err :: "('e \<Rightarrow> 'f) \<Rightarrow> 'e + 'a \<Rightarrow> 'f + 'a" where
  "map_err f r = (case r of Inl e \<Rightarrow> Inl (f e) | Inr a \<Rightarrow> Inr a)"

definition ok_or :: "'e \<Rightarrow> 'a option \<Rightarrow> 'e + 'a" where
  "ok_or e x = (case x of None \<Rightarrow> Inl e | Some a \<Rightarrow> Inr a)"

lemma and_then_simps [simp, result_simps]:
  "and_then (Inl e) f = Inl e"
  "and_then (Inr a) f = f a"
  by (simp_all add: and_then_def)

lemma map_ok_simps [simp, result_simps]:
  "map_ok g (Inl e) = Inl e"
  "map_ok g (Inr a) = Inr (g a)"
  by (simp_all add: map_ok_def)

lemma map_err_simps [simp, result_simps]:
  "map_err g (Inl e) = Inl (g e)"
  "map_err g (Inr a) = Inr a"
  by (simp_all add: map_err_def)

lemma ok_or_simps [simp, result_simps]:
  "ok_or e None = Inl e"
  "ok_or e (Some a) = Inr a"
  by (simp_all add: ok_or_def)

lemma and_then_eq_Inr:
  "and_then r f = Inr b \<longleftrightarrow> (\<exists>a. r = Inr a \<and> f a = Inr b)"
  by (cases r) simp_all

lemma and_then_eq_Inl:
  "and_then r f = Inl e \<longleftrightarrow> r = Inl e \<or> (\<exists>a. r = Inr a \<and> f a = Inl e)"
  by (cases r) simp_all

lemma map_err_eq_Inr: "map_err f r = Inr a \<longleftrightarrow> r = Inr a"
  by (cases r) simp_all

lemma ok_or_eq_Inr: "ok_or e x = Inr a \<longleftrightarrow> x = Some a"
  by (cases x) simp_all

lemmas result_iffs = and_then_eq_Inr and_then_eq_Inl map_err_eq_Inr ok_or_eq_Inr

text \<open>\<open>Option<Result<A, E>>::transpose\<close> and collecting an iterator of results into a \<open>Vec\<close>,
  which stops at the first error.\<close>

definition transpose_option :: "('e + 'a) option \<Rightarrow> 'e + 'a option" where
  "transpose_option x = (case x of None \<Rightarrow> Inr None | Some r \<Rightarrow> map_ok Some r)"

fun collect_results :: "('e + 'a) list \<Rightarrow> 'e + 'a list" where
  "collect_results [] = Inr []"
| "collect_results (r # rs) = and_then r (\<lambda>a. map_ok ((#) a) (collect_results rs))"

lemma transpose_option_simps [simp, result_simps]:
  "transpose_option None = Inr None"
  "transpose_option (Some r) = map_ok Some r"
  by (simp_all add: transpose_option_def)

lemma collect_results_Inr: "collect_results (map Inr xs) = Inr xs"
  by (induction xs) simp_all

lemma collect_results_map_Inr:
  assumes "\<And>x. x \<in> set xs \<Longrightarrow> f x = Inr (g x)"
  shows "collect_results (map f xs) = Inr (map g xs)"
  using assms by (induction xs) simp_all

lemma collect_results_length:
  "collect_results rs = Inr xs \<Longrightarrow> length xs = length rs"
proof (induction rs arbitrary: xs)
  case (Cons r rs)
  then show ?case by (auto simp: map_ok_def and_then_eq_Inr)
qed simp

text \<open>A slice index panics out of range.\<close>

definition index :: "'a list \<Rightarrow> nat \<Rightarrow> 'e fault + 'a" where
  "index xs i = (if i < length xs then Inr (xs ! i) else Inl Panic)"

lemma index_in_range [simp]: "i < length xs \<Longrightarrow> index xs i = Inr (xs ! i)"
  by (simp add: index_def)

text \<open>Unsigned subtraction: below zero it panics with overflow checks and wraps without them; the
  model takes the panic, and the theorems exclude it.\<close>

definition usub :: "nat \<Rightarrow> nat \<Rightarrow> 'e fault + nat" where
  "usub a b = (if b \<le> a then Inr (a - b) else Inl Panic)"

lemma usub_in_range [simp]: "b \<le> a \<Longrightarrow> usub a b = Inr (a - b)"
  by (simp add: usub_def)

section \<open>Erlang terms\<close>

text \<open>The terms a NIF hands back. A binary that carries text (\<open>String::encode\<close>) is \<open>Utf8\<close>, a raw
  byte binary is \<open>Bin\<close>, a \<open>ResourceArc\<close> is the number of the resource it refers to, and a map with
  atom keys is its key-ordered list of entries, so that equal maps are equal terms.\<close>

datatype nterm =
    Atom string
  | Integer int
  | Float f64
  | Bin "u8 list"
  | Utf8 string
  | Tup "nterm list"
  | Lst "nterm list"
  | Dict "(string \<times> nterm) list"
  | Resource nat

abbreviation ok_term :: "nterm \<Rightarrow> nterm" where
  "ok_term t \<equiv> Tup [Atom ''ok'', t]"

abbreviation error_term :: "nterm \<Rightarrow> nterm" where
  "error_term t \<equiv> Tup [Atom ''error'', t]"

text \<open>\<open>Term::map_put\<close>: a new key takes its place in the order, an old one gets the new value.\<close>

fun map_put :: "string \<Rightarrow> nterm \<Rightarrow> (string \<times> nterm) list \<Rightarrow> (string \<times> nterm) list" where
  "map_put k v [] = [(k, v)]"
| "map_put k v ((k', v') # d) =
     (if k < k' then (k, v) # (k', v') # d
      else if k = k' then (k, v) # d
      else (k', v') # map_put k v d)"

lemma map_of_map_put [simp]: "map_of (map_put k v d) = (map_of d)(k \<mapsto> v)"
  by (induction k v d rule: map_put.induct) auto

lemma set_map_put: "fst ` set (map_put k v d) = insert k (fst ` set d)"
  by (induction k v d rule: map_put.induct) auto

lemma map_put_ordered:
  "sorted_wrt (<) (map fst d) \<Longrightarrow> sorted_wrt (<) (map fst (map_put k v d))"
proof (induction k v d rule: map_put.induct)
  case (2 k v k' v' d)
  have keys: "set (map fst (map_put k v d)) = insert k (set (map fst d))" by (simp add: set_map_put)
  consider "k < k'" | "k = k'" | "k' < k" by (rule linorder_cases)
  then show ?case
  proof cases
    case 3
    with 2 keys show ?thesis by (auto simp del: set_map)
  qed (use "2.prems" in \<open>auto dest: less_trans\<close>)
qed simp

text \<open>The encoders of the scalar types the binding returns.\<close>

definition enc_option :: "('a \<Rightarrow> nterm) \<Rightarrow> 'a option \<Rightarrow> nterm" where
  "enc_option f x = (case x of None \<Rightarrow> Atom ''nil'' | Some a \<Rightarrow> f a)"

definition enc_list :: "('a \<Rightarrow> nterm) \<Rightarrow> 'a list \<Rightarrow> nterm" where
  "enc_list f xs = Lst (map f xs)"

definition enc_u8 :: "u8 \<Rightarrow> nterm" where
  "enc_u8 x = Integer (uint x)"

definition enc_i32 :: "i32 \<Rightarrow> nterm" where
  "enc_i32 x = Integer (sint x)"

definition enc_u64 :: "u64 \<Rightarrow> nterm" where
  "enc_u64 x = Integer (uint x)"

lemma enc_scalar_inj [simp]:
  "enc_u8 a = enc_u8 b \<longleftrightarrow> a = b" "enc_i32 i = enc_i32 j \<longleftrightarrow> i = j" "enc_u64 x = enc_u64 y \<longleftrightarrow> x = y"
  by (auto simp: enc_u8_def enc_i32_def enc_u64_def intro: unsigned_word_eqI signed_word_eqI)

end
