(* ===== verification/UnixCompress.thy ===== *)
theory UnixCompress
  imports Prelude
begin

text \<open>
  The size-bounded LZC (\<open>.Z\<close>) decoder of \<open>native/sidereon_nif/src/unix_compress.rs\<close>.

  The model follows the Rust function by function. Bytes are 8-bit words; codes, widths and bit
  positions are natural numbers, and \<open>UnixCompress_Safe\<close> proves that every one of them stays
  inside its \<open>u32\<close> or \<open>u64\<close>. A slice index or unsigned subtraction that would panic is the value
  \<open>Panic\<close>, and the two \<open>while\<close> loops whose termination depends on the dictionary's shape are
  partial functions into \<open>option\<close>, where \<open>None\<close> is divergence: that neither ever happens is a
  theorem, not a convention. The output vector is modelled with its capacity, so the bound on
  requested memory is a statement about the model too; \<open>alloc n\<close> says whether the allocator
  grants a buffer of \<open>n\<close> bytes.
\<close>

unbundle bit_operations_syntax

section \<open>Constants, errors, the output vector\<close>

definition MAGIC :: "u8 list" where
  "MAGIC = [0x1f, 0x9d]"

definition BLOCK_MODE_FLAG :: u8 where
  "BLOCK_MODE_FLAG = 0x80"

definition MAXBITS_MASK :: u8 where
  "MAXBITS_MASK = 0x1f"

definition INIT_BITS :: nat where
  "INIT_BITS = 9"

definition MAX_MAXBITS :: nat where
  "MAX_MAXBITS = 16"

definition CLEAR :: nat where
  "CLEAR = 256"

datatype DecodeError = BadMagic | BadMaxBits | InvalidCode | Truncated | SizeLimit

type_synonym 'a decoded = "DecodeError fault + 'a"

text \<open>\<open>Vec<u8>\<close>: its bytes and its allocated capacity.\<close>

record vec =
  bytes :: "u8 list"
  capacity :: nat

abbreviation vec_len :: "vec \<Rightarrow> nat" where
  "vec_len v \<equiv> length (bytes v)"

definition vec_new :: vec where
  "vec_new = \<lparr>bytes = [], capacity = 0\<rparr>"

text \<open>\<open>Vec::try_reserve_exact\<close>: nothing to do when the spare capacity suffices, otherwise exactly
  \<open>len + additional\<close> bytes are requested. \<open>Vec::push\<close>: a full vector doubles (at least 8 bytes),
  the uncontrolled growth the decoder is written to avoid.\<close>

definition try_reserve_exact :: "(nat \<Rightarrow> bool) \<Rightarrow> vec \<Rightarrow> nat \<Rightarrow> vec option" where
  "try_reserve_exact alloc v additional =
     (if vec_len v + additional \<le> capacity v then Some v
      else if alloc (vec_len v + additional) then Some (v\<lparr>capacity := vec_len v + additional\<rparr>)
      else None)"

definition vec_push :: "vec \<Rightarrow> u8 \<Rightarrow> vec" where
  "vec_push v b =
     (if vec_len v < capacity v then v\<lparr>bytes := bytes v @ [b]\<rparr>
      else v\<lparr>bytes := bytes v @ [b], capacity := max 8 (max (2 * capacity v) (vec_len v + 1))\<rparr>)"

definition USIZE_MAX :: nat where
  "USIZE_MAX = 2 ^ 64 - 1"

section \<open>Bit reader, padding and group alignment\<close>

function read_bits :: "u8 list \<Rightarrow> nat \<Rightarrow> nat \<Rightarrow> nat \<Rightarrow> nat \<Rightarrow> nat decoded" where
  "read_bits data bitpos n_bits i code =
     (if i < n_bits then
        let position = bitpos + i in
        and_then (index data (position div 8)) (\<lambda>byte.
          let b = drop_bit (position mod 8) byte AND 1 in
          read_bits data bitpos n_bits (i + 1) (code OR push_bit i (unat b)))
      else Inr code)"
  by pat_completeness auto
termination
  by (relation "measure (\<lambda>(data, bitpos, n_bits, i, code). n_bits - i)") auto

declare read_bits.simps [simp del]

definition read_code :: "u8 list \<Rightarrow> nat \<Rightarrow> nat \<Rightarrow> nat \<Rightarrow> nat option decoded" where
  "read_code data total_bits bitpos n_bits =
     (if bitpos + n_bits > total_bits then Inr None
      else map_ok Some (read_bits data bitpos n_bits 0 0))"

fun check_padding :: "u8 list \<Rightarrow> nat list \<Rightarrow> unit decoded" where
  "check_padding data [] = Inr ()"
| "check_padding data (position # rest) =
     and_then (index data (position div 8)) (\<lambda>byte.
       if drop_bit (position mod 8) byte AND 1 \<noteq> 0 then Inl (Err Truncated)
       else check_padding data rest)"

definition validate_terminal_padding :: "u8 list \<Rightarrow> nat \<Rightarrow> nat \<Rightarrow> unit decoded" where
  "validate_terminal_padding data total_bits bitpos =
     (if bitpos > total_bits then Inl (Err Truncated)
      else if total_bits - bitpos > 7 then Inl (Err Truncated)
      else check_padding data [bitpos..<total_bits])"

definition align_to_group :: "nat \<Rightarrow> nat \<Rightarrow> nat \<Rightarrow> nat decoded" where
  "align_to_group bitpos n_bits boundary_offset =
     (let group_bits = n_bits * 8 in
      and_then (usub bitpos 1) (\<lambda>previous.
      and_then (usub previous boundary_offset) (\<lambda>relative.
      and_then (usub group_bits ((relative + group_bits) mod group_bits)) (\<lambda>padding.
      Inr (previous + padding)))))"

section \<open>Bounded output\<close>

definition reserve_output :: "(nat \<Rightarrow> bool) \<Rightarrow> vec \<Rightarrow> nat \<Rightarrow> nat \<Rightarrow> vec decoded" where
  "reserve_output alloc out additional limit =
     (let new_len = vec_len out + additional in
      if new_len > USIZE_MAX then Inl (Err SizeLimit)
      else if new_len > limit then Inl (Err SizeLimit)
      else if new_len > capacity out then
        let initial_chunk = min limit (4 * 1024);
            target_capacity =
              min (max (max new_len (min (capacity out * 2) USIZE_MAX)) initial_chunk) limit
        in and_then (usub target_capacity (vec_len out)) (\<lambda>extra.
           ok_or (Err SizeLimit) (try_reserve_exact alloc out extra))
      else Inr out)"

definition push_output :: "(nat \<Rightarrow> bool) \<Rightarrow> vec \<Rightarrow> u8 \<Rightarrow> nat \<Rightarrow> vec decoded" where
  "push_output alloc out byte limit =
     and_then (reserve_output alloc out 1 limit) (\<lambda>out. Inr (vec_push out byte))"

text \<open>The stack is a list with its top first, so popping it empty pushes it in list order.\<close>

definition append_stack :: "(nat \<Rightarrow> bool) \<Rightarrow> vec \<Rightarrow> u8 list \<Rightarrow> nat \<Rightarrow> vec decoded" where
  "append_stack alloc out stack limit =
     and_then (reserve_output alloc out (length stack) limit) (\<lambda>out.
       Inr (foldl vec_push out stack))"

section \<open>The code loop\<close>

record decoder =
  prefix :: "nat list"
  suffix :: "u8 list"
  free_entry :: nat
  code_width :: nat
  max_code :: nat
  bit_position :: nat
  boundary_offset :: nat
  out :: vec
  old_code :: nat
  final_character :: u8

text \<open>Unwinding a dictionary entry: suffixes are pushed while the code is not a literal.\<close>

partial_function (option) unwind ::
  "nat list \<Rightarrow> u8 list \<Rightarrow> nat \<Rightarrow> u8 list \<Rightarrow> (nat \<times> u8 list) decoded option" where
  "unwind pre suf code stack =
     (if code \<ge> 256 then
        (case index suf code of
           Inl e \<Rightarrow> Some (Inl e)
         | Inr s \<Rightarrow>
             (case index pre code of
                Inl e \<Rightarrow> Some (Inl e)
              | Inr p \<Rightarrow> unwind pre suf p (s # stack)))
      else Some (Inr (code, stack)))"

text \<open>A CLEAR code: realign, reset the table size and the width, and take the next code as a
  literal. \<open>d\<close> is the state after the CLEAR code itself was consumed.\<close>

definition clear_step :: "(nat \<Rightarrow> bool) \<Rightarrow> u8 list \<Rightarrow> nat \<Rightarrow> decoder \<Rightarrow> decoder decoded" where
  "clear_step alloc data limit d =
     and_then (align_to_group (bit_position d) (code_width d) (boundary_offset d)) (\<lambda>new_position.
     let d = d\<lparr>boundary_offset := new_position, bit_position := new_position,
               free_entry := CLEAR + 1, code_width := INIT_BITS, max_code := 2 ^ INIT_BITS - 1\<rparr> in
     and_then (read_code data (length data * 8) (bit_position d) (code_width d)) (\<lambda>c.
     case c of
       None \<Rightarrow> Inl (Err Truncated)
     | Some literal \<Rightarrow>
         let d = d\<lparr>bit_position := bit_position d + code_width d\<rparr> in
         if literal \<ge> 256 then Inl (Err InvalidCode)
         else and_then (push_output alloc (out d) (word_of_nat literal) limit) (\<lambda>o'.
           Inr (d\<lparr>old_code := literal, final_character := word_of_nat literal, out := o'\<rparr>))))"

text \<open>Entering \<open>old_code\<close> extended by \<open>final_character\<close> in the table and widening the code.\<close>

definition add_entry :: "nat \<Rightarrow> decoder \<Rightarrow> decoder decoded" where
  "add_entry maxbits d =
     (let max_code_count = 2 ^ maxbits in
      if free_entry d < max_code_count then
        if free_entry d < length (prefix d) \<and> free_entry d < length (suffix d) then
          let d = d\<lparr>prefix := (prefix d)[free_entry d := old_code d],
                    suffix := (suffix d)[free_entry d := final_character d],
                    free_entry := free_entry d + 1\<rparr> in
          if free_entry d > max_code d \<and> code_width d < maxbits then
            and_then (align_to_group (bit_position d) (code_width d) (boundary_offset d))
              (\<lambda>new_position.
                let w = code_width d + 1 in
                Inr (d\<lparr>boundary_offset := new_position, bit_position := new_position,
                       code_width := w,
                       max_code := (if w = maxbits then max_code_count else 2 ^ w - 1)\<rparr>))
          else Inr d
        else Inl Panic
      else Inr d)"

definition code_step :: "(nat \<Rightarrow> bool) \<Rightarrow> nat \<Rightarrow> nat \<Rightarrow> decoder \<Rightarrow> nat \<Rightarrow> decoder decoded option" where
  "code_step alloc maxbits limit d input_code =
     (if input_code > free_entry d then Some (Inl (Err InvalidCode))
      else
        let (code, stack) =
          (if input_code = free_entry d then (old_code d, [final_character d])
           else (input_code, [])) in
        (case unwind (prefix d) (suffix d) code stack of
           None \<Rightarrow> None
         | Some (Inl e) \<Rightarrow> Some (Inl e)
         | Some (Inr (code, stack)) \<Rightarrow>
             let fc = word_of_nat code; stack = fc # stack in
             Some (and_then (append_stack alloc (out d) stack limit) (\<lambda>o'.
                   and_then (add_entry maxbits (d\<lparr>final_character := fc, out := o'\<rparr>)) (\<lambda>d.
                   Inr (d\<lparr>old_code := input_code\<rparr>))))))"

partial_function (option) decode_loop ::
  "(nat \<Rightarrow> bool) \<Rightarrow> u8 list \<Rightarrow> bool \<Rightarrow> nat \<Rightarrow> nat \<Rightarrow> decoder \<Rightarrow> decoder decoded option" where
  "decode_loop alloc data block_mode maxbits limit d =
     (case read_code data (length data * 8) (bit_position d) (code_width d) of
        Inl e \<Rightarrow> Some (Inl e)
      | Inr None \<Rightarrow> Some (Inr d)
      | Inr (Some raw_code) \<Rightarrow>
          (case (let d = d\<lparr>bit_position := bit_position d + code_width d\<rparr> in
                 if block_mode \<and> raw_code = CLEAR then Some (clear_step alloc data limit d)
                 else code_step alloc maxbits limit d raw_code) of
             None \<Rightarrow> None
           | Some (Inl e) \<Rightarrow> Some (Inl e)
           | Some (Inr d') \<Rightarrow> decode_loop alloc data block_mode maxbits limit d'))"

definition init_decoder :: "bool \<Rightarrow> nat \<Rightarrow> decoder" where
  "init_decoder block_mode maxbits =
     \<lparr>prefix = replicate (2 ^ maxbits) 0,
      suffix = map word_of_nat [0..<256] @ replicate (2 ^ maxbits - 256) 0,
      free_entry = (if block_mode then CLEAR + 1 else 256),
      code_width = INIT_BITS, max_code = 2 ^ INIT_BITS - 1,
      bit_position = 0, boundary_offset = 0, out = vec_new,
      old_code = 0, final_character = 0\<rparr>"

definition decode_codes ::
  "(nat \<Rightarrow> bool) \<Rightarrow> u8 list \<Rightarrow> bool \<Rightarrow> nat \<Rightarrow> nat \<Rightarrow> vec decoded option" where
  "decode_codes alloc data block_mode maxbits limit =
     (let d = init_decoder block_mode maxbits; total_bits = length data * 8 in
      case read_code data total_bits (bit_position d) (code_width d) of
        Inl e \<Rightarrow> Some (Inl e)
      | Inr None \<Rightarrow>
          if total_bits = 0 then Some (Inr (out d)) else Some (Inl (Err Truncated))
      | Inr (Some code) \<Rightarrow>
          if code \<ge> 256 then Some (Inl (Err InvalidCode))
          else
            (case push_output alloc (out d) (word_of_nat code) limit of
               Inl e \<Rightarrow> Some (Inl e)
             | Inr o' \<Rightarrow>
                 (case decode_loop alloc data block_mode maxbits limit
                    (d\<lparr>bit_position := bit_position d + code_width d, old_code := code,
                       final_character := word_of_nat code, out := o'\<rparr>) of
                    None \<Rightarrow> None
                  | Some r \<Rightarrow>
                      Some (and_then r (\<lambda>d.
                        and_then (validate_terminal_padding data total_bits (bit_position d)) (\<lambda>_.
                        Inr (out d)))))))"

definition decode_bounded ::
  "(nat \<Rightarrow> bool) \<Rightarrow> u8 list \<Rightarrow> nat \<Rightarrow> u8 list decoded option" where
  "decode_bounded alloc input limit =
     (if input = [] then Some (Inr [])
      else if length input < 2 then Some (Inl (Err Truncated))
      else if input ! 0 \<noteq> MAGIC ! 0 \<or> input ! 1 \<noteq> MAGIC ! 1 then Some (Inl (Err BadMagic))
      else if length input < 3 then Some (Inl (Err Truncated))
      else
        let flags = input ! 2;
            block_mode = (flags AND BLOCK_MODE_FLAG \<noteq> 0);
            maxbits = unat (flags AND MAXBITS_MASK) in
        if \<not> (INIT_BITS \<le> maxbits \<and> maxbits \<le> MAX_MAXBITS) then Some (Inl (Err BadMaxBits))
        else map_option (map_ok bytes) (decode_codes alloc (drop 3 input) block_mode maxbits limit))"

section \<open>The NIF\<close>

text \<open>\<open>data_unix_compress_decompress\<close> of \<open>data.rs\<close>: a \<open>u64\<close> limit, and the three replies Elixir
  sees. A panic would surface as a raised exception, here \<open>None\<close> inside the outer \<open>Some\<close>.\<close>

definition data_unix_compress_decompress ::
  "(nat \<Rightarrow> bool) \<Rightarrow> u8 list \<Rightarrow> u64 \<Rightarrow> nterm option option" where
  "data_unix_compress_decompress alloc archive limit =
     map_option (\<lambda>r. case r of
         Inr bs \<Rightarrow> Some (ok_term (Bin bs))
       | Inl (Err SizeLimit) \<Rightarrow> Some (error_term (Tup [Atom ''decompress'', Atom ''size_limit'']))
       | Inl (Err _) \<Rightarrow> Some (error_term (Tup [Atom ''decompress'', Atom ''invalid_unix_compress'']))
       | Inl Panic \<Rightarrow> None)
     (decode_bounded alloc archive (unat limit))"

end
