(* ===== verification/UnixCompress_Safe.thy ===== *)
theory UnixCompress_Safe
  imports UnixCompress
begin

text \<open>
  Safety of the \<open>.Z\<close> decoder and its refinement: the decoder invariant and that every step keeps
  it, termination of unwinding and of the code loop, absence of panics, and the string-dictionary
  specification of LZC that the table-driven code implements.
\<close>

unbundle bit_operations_syntax

section \<open>The bit reader\<close>

definition data_bit :: "u8 list \<Rightarrow> nat \<Rightarrow> bool" where
  "data_bit data pos = bit (data ! (pos div 8)) (pos mod 8)"

fun code_at :: "u8 list \<Rightarrow> nat \<Rightarrow> nat \<Rightarrow> nat" where
  "code_at data pos 0 = 0"
| "code_at data pos (Suc n) = code_at data pos n + of_bool (data_bit data (pos + n)) * 2 ^ n"

lemma or_push_bit_eq_add:
  fixes c x :: nat
  assumes "c < 2 ^ i"
  shows "c OR push_bit i x = c + x * 2 ^ i"
proof -
  have "take_bit i c = c"
    using assms by (simp add: take_bit_nat_eq_self_iff)
  then have "c AND push_bit i x = take_bit i c AND push_bit i x" by simp
  also have "\<dots> = 0"
    by (rule bit_eqI) (auto simp: bit_simps)
  finally have "c + push_bit i x = c OR push_bit i x"
    by (rule disjunctive_add_eq_or)
  then show ?thesis
    by (simp add: push_bit_eq_mult)
qed

lemma unat_bit_of_byte:
  fixes b :: u8
  shows "unat (drop_bit k b AND 1) = of_bool (bit b k)"
  by (simp add: and_one_eq bit_iff_odd_drop_bit mod_2_eq_odd)

lemma code_at_less: "code_at data pos n < 2 ^ n"
  by (induction n) auto

lemma read_bits_eq:
  assumes "bitpos + n \<le> length data * 8" "i \<le> n"
  shows "read_bits data bitpos n i (code_at data bitpos i) = Inr (code_at data bitpos n)"
  using assms
proof (induction "n - i" arbitrary: i)
  case 0
  then show ?case by (simp add: read_bits.simps)
next
  case (Suc m)
  then have i: "i < n" by simp
  have idx: "(bitpos + i) div 8 < length data"
    using Suc.prems(1) i by (simp add: less_mult_imp_div_less)
  have "read_bits data bitpos n i (code_at data bitpos i)
      = read_bits data bitpos n (Suc i) (code_at data bitpos (Suc i))"
    using i idx
    by (subst read_bits.simps)
      (simp add: Let_def or_push_bit_eq_add [OF code_at_less] unat_bit_of_byte data_bit_def
        del: of_bool_eq_iff)
  also have "\<dots> = Inr (code_at data bitpos n)"
    using Suc i by (intro Suc.hyps(1)) auto
  finally show ?case .
qed

lemma read_bits_start:
  "bitpos + n \<le> length data * 8 \<Longrightarrow> read_bits data bitpos n 0 0 = Inr (code_at data bitpos n)"
  using read_bits_eq [of bitpos n data 0] by simp

lemma read_code_eq:
  "read_code data (length data * 8) bitpos n =
     Inr (if bitpos + n \<le> length data * 8 then Some (code_at data bitpos n) else None)"
  by (auto simp: read_code_def read_bits_start)

lemma check_padding_eq:
  assumes "\<forall>p \<in> set ps. p < length data * 8"
  shows "check_padding data ps = (if \<exists>p \<in> set ps. data_bit data p then Inl (Err Truncated) else Inr ())"
  using assms
  by (induction ps)
    (auto simp: less_mult_imp_div_less data_bit_def and_one_eq bit_iff_odd_drop_bit mod_2_eq_odd)

lemma validate_terminal_padding_eq:
  "validate_terminal_padding data (length data * 8) bitpos =
     (if bitpos \<le> length data * 8 \<and> length data * 8 - bitpos \<le> 7
         \<and> (\<forall>p \<in> {bitpos..<length data * 8}. \<not> data_bit data p)
      then Inr () else Inl (Err Truncated))"
  by (auto simp: validate_terminal_padding_def check_padding_eq)

text \<open>Alignment moves to the least position at or after \<open>bitpos\<close> that lies a whole number of
  eight-code groups after the boundary.\<close>

lemma align_to_group_eq:
  assumes "boundary < bitpos" "0 < n"
  shows "align_to_group bitpos n boundary =
    Inr (boundary + n * 8 * ((bitpos - boundary + (n * 8 - 1)) div (n * 8)))"
proof -
  let ?g = "n * 8"
  define r where "r = bitpos - Suc boundary"
  have g: "0 < ?g" using assms by simp
  have "r mod ?g < ?g" using g by (rule mod_less_divisor)
  then have le: "r mod ?g \<le> ?g" by simp
  have "bitpos - boundary + (?g - 1) = r + ?g"
    using assms g by (simp add: r_def)
  then have "(bitpos - boundary + (?g - 1)) div ?g = (r + ?g) div ?g" by (rule arg_cong)
  also have "\<dots> = r div ?g + 1"
    using g by (intro div_add_self2) simp
  finally have "(bitpos - boundary + (?g - 1)) div ?g = r div ?g + 1" .
  moreover have "?g * (r div ?g) + r mod ?g = r" by simp
  then have "bitpos - 1 + (?g - r mod ?g) = boundary + ?g * (r div ?g + 1)"
    using le assms unfolding distrib_left r_def by linarith
  ultimately show ?thesis
    using assms le by (simp add: align_to_group_def Let_def r_def [symmetric])
qed

lemma align_to_group_ok:
  assumes "boundary < bitpos" "0 < n"
  obtains p where "align_to_group bitpos n boundary = Inr p" "bitpos \<le> p" "p < bitpos + n * 8"
proof
  let ?g = "n * 8"
  let ?p = "boundary + ?g * ((bitpos - boundary + (?g - 1)) div ?g)"
  show "align_to_group bitpos n boundary = Inr ?p"
    using assms by (rule align_to_group_eq)
  define x where "x = bitpos - boundary"
  have x: "bitpos = boundary + x" "0 < ?g" using assms by (simp_all add: x_def)
  have eq: "?g * ((x + (?g - 1)) div ?g) + (x + (?g - 1)) mod ?g = x + (?g - 1)" by simp
  have "(x + (?g - 1)) mod ?g < ?g" using x(2) by (rule mod_less_divisor)
  with eq x show "bitpos \<le> ?p" "?p < bitpos + ?g"
    unfolding x_def [symmetric] by linarith+
qed


section \<open>Bounded output\<close>

text \<open>The output vector never holds, nor reserves, more than \<open>limit\<close> bytes.\<close>

definition vec_inv :: "nat \<Rightarrow> vec \<Rightarrow> bool" where
  "vec_inv limit v \<longleftrightarrow> vec_len v \<le> capacity v \<and> capacity v \<le> limit"

definition size_exceeded :: "(nat \<Rightarrow> bool) \<Rightarrow> vec \<Rightarrow> nat \<Rightarrow> nat \<Rightarrow> bool" where
  "size_exceeded alloc v k limit \<longleftrightarrow> reserve_output alloc v k limit = Inl (Err SizeLimit)"

lemma vec_new_inv: "vec_inv limit vec_new"
  by (simp add: vec_inv_def vec_new_def)

lemma reserve_output_grow:
  assumes "capacity v < vec_len v + k" "vec_len v + k \<le> limit" "vec_len v + k \<le> USIZE_MAX"
  obtains t where "reserve_output alloc v k limit
      = ok_or (Err SizeLimit) (try_reserve_exact alloc v (t - vec_len v))"
    "vec_len v + k \<le> t" "t \<le> limit"
proof -
  define t where
    "t = min (max (max (vec_len v + k) (min (capacity v * 2) USIZE_MAX)) (min limit 4096)) limit"
  have t: "vec_len v + k \<le> t" "t \<le> limit"
    using assms unfolding t_def by linarith+
  then have "reserve_output alloc v k limit
      = ok_or (Err SizeLimit) (try_reserve_exact alloc v (t - vec_len v))"
    using assms by (simp add: reserve_output_def Let_def t_def [symmetric])
  with t that show ?thesis by blast
qed

lemma reserve_output_spare:
  assumes "vec_len v + k \<le> capacity v" "vec_len v + k \<le> limit" "vec_len v + k \<le> USIZE_MAX"
  shows "reserve_output alloc v k limit = Inr v"
  using assms by (simp add: reserve_output_def Let_def)

lemma size_exceededI:
  "limit < vec_len v + k \<or> USIZE_MAX < vec_len v + k \<Longrightarrow> size_exceeded alloc v k limit"
  by (auto simp: size_exceeded_def reserve_output_def Let_def)

lemma not_size_exceeded:
  assumes "\<not> size_exceeded alloc v k limit"
  shows "vec_len v + k \<le> limit" "vec_len v + k \<le> USIZE_MAX"
  using assms size_exceededI [of limit v k alloc] by linarith+

lemma reserve_output_ok:
  assumes "vec_inv limit v" "\<not> size_exceeded alloc v k limit"
  obtains c where "reserve_output alloc v k limit = Inr (v\<lparr>capacity := c\<rparr>)"
    "vec_len v + k \<le> c" "c \<le> limit"
proof (cases "vec_len v + k \<le> capacity v")
  case True
  then show ?thesis
    using that [of "capacity v"] reserve_output_spare [OF True not_size_exceeded [OF assms(2)]] assms(1)
    by (simp add: vec_inv_def)
next
  case False
  then obtain t where t: "reserve_output alloc v k limit
      = ok_or (Err SizeLimit) (try_reserve_exact alloc v (t - vec_len v))"
      "vec_len v + k \<le> t" "t \<le> limit"
    using reserve_output_grow [OF _ not_size_exceeded [OF assms(2)]] by (auto simp: not_le)
  with assms(2) have "try_reserve_exact alloc v (t - vec_len v) = Some (v\<lparr>capacity := t\<rparr>)"
    using False by (auto simp: size_exceeded_def try_reserve_exact_def split: if_splits)
  with t that show ?thesis by simp
qed

lemma foldl_vec_push:
  "vec_len v + length st \<le> capacity v \<Longrightarrow> foldl vec_push v st = v\<lparr>bytes := bytes v @ st\<rparr>"
  by (induction st arbitrary: v) (simp_all add: vec_push_def)

lemma append_stack_cases:
  assumes "vec_inv limit v"
  obtains (exceeded) "append_stack alloc v st limit = Inl (Err SizeLimit)"
      "size_exceeded alloc v (length st) limit"
  | (appended) w where "append_stack alloc v st limit = Inr w" "bytes w = bytes v @ st"
      "vec_inv limit w" "\<not> size_exceeded alloc v (length st) limit"
proof (cases "size_exceeded alloc v (length st) limit")
  case True
  then show ?thesis
    by (intro exceeded) (simp_all add: append_stack_def size_exceeded_def)
next
  case False
  from reserve_output_ok [OF assms False] obtain c where c:
      "reserve_output alloc v (length st) limit = Inr (v\<lparr>capacity := c\<rparr>)"
      "vec_len v + length st \<le> c" "c \<le> limit" .
  show ?thesis
  proof (rule appended)
    show "append_stack alloc v st limit = Inr (v\<lparr>capacity := c, bytes := bytes v @ st\<rparr>)"
      using c by (simp add: append_stack_def foldl_vec_push)
    show "vec_inv limit (v\<lparr>capacity := c, bytes := bytes v @ st\<rparr>)"
      using c by (simp add: vec_inv_def)
  qed (use False in simp_all)
qed

lemma push_output_append_stack: "push_output alloc v b limit = append_stack alloc v [b] limit"
  by (simp add: push_output_def append_stack_def)

text \<open>With a willing allocator the limit alone decides.\<close>

lemma size_exceeded_iff:
  assumes "vec_inv limit v" "limit \<le> USIZE_MAX" "\<forall>n. alloc n"
  shows "size_exceeded alloc v k limit \<longleftrightarrow> vec_len v + k > limit"
proof (cases "vec_len v + k > limit")
  case True
  then show ?thesis
    by (simp add: size_exceeded_def reserve_output_def Let_def)
next
  case False
  then have le: "vec_len v + k \<le> limit" "vec_len v + k \<le> USIZE_MAX"
    using assms(2) by simp_all
  show ?thesis
  proof (cases "vec_len v + k \<le> capacity v")
    case True
    with le False show ?thesis by (simp add: size_exceeded_def reserve_output_spare)
  next
    case full: False
    then obtain t where "reserve_output alloc v k limit
        = ok_or (Err SizeLimit) (try_reserve_exact alloc v (t - vec_len v))" "vec_len v + k \<le> t"
      using reserve_output_grow [OF _ le] by (auto simp: not_le)
    with full assms(3) False show ?thesis
      by (auto simp: size_exceeded_def try_reserve_exact_def)
  qed
qed

section \<open>Dictionary chains\<close>

definition first_free :: "bool \<Rightarrow> nat" where
  "first_free block_mode = (if block_mode then CLEAR + 1 else 256)"

lemma first_free_bounds: "256 \<le> first_free b" "first_free b \<le> 257"
  by (simp_all add: first_free_def CLEAR_def)

text \<open>The string a code stands for, read off the chain of prefixes.\<close>

function expand :: "nat list \<Rightarrow> u8 list \<Rightarrow> nat \<Rightarrow> u8 list" where
  "expand pre suf c =
     (if 256 \<le> c \<and> pre ! c < c then expand pre suf (pre ! c) @ [suf ! c] else [word_of_nat c])"
  by pat_completeness auto
termination
  by (relation "measure (\<lambda>(pre, suf, c). c)") auto

declare expand.simps [simp del]

definition valid_code :: "nat \<Rightarrow> nat \<Rightarrow> nat \<Rightarrow> bool" where
  "valid_code base free c \<longleftrightarrow> c < 256 \<or> base \<le> c \<and> c < free"

definition chains_ok :: "nat \<Rightarrow> nat \<Rightarrow> nat list \<Rightarrow> bool" where
  "chains_ok base free pre \<longleftrightarrow>
     (\<forall>c. base \<le> c \<and> c < free \<longrightarrow> pre ! c < c \<and> (pre ! c < 256 \<or> base \<le> pre ! c))"

lemma expand_literal: "c < 256 \<Longrightarrow> expand pre suf c = [word_of_nat c]"
  by (simp add: expand.simps)

lemma expand_nonempty [simp]: "expand pre suf c \<noteq> []"
  by (subst expand.simps) simp

lemma chains_okD:
  assumes "chains_ok base free pre" "256 \<le> base" "valid_code base free c" "256 \<le> c"
  shows "pre ! c < c" "valid_code base free (pre ! c)"
  using assms by (auto simp: chains_ok_def valid_code_def)

lemma unwind_expand:
  assumes "chains_ok base free pre" "256 \<le> base" "free \<le> length pre" "free \<le> length suf"
    and "valid_code base free c"
  shows "\<exists>l rest. unwind pre suf c stack = Some (Inr (l, rest)) \<and> l < 256
      \<and> word_of_nat l # rest = expand pre suf c @ stack"
  using assms(5)
proof (induction c arbitrary: stack rule: less_induct)
  case (less c)
  show ?case
  proof (cases "256 \<le> c")
    case False
    then show ?thesis by (simp add: unwind.simps expand_literal)
  next
    case True
    note prev = chains_okD [OF assms(1,2) less.prems True]
    have "c < free" using less.prems True by (simp add: valid_code_def)
    then have step: "unwind pre suf c stack = unwind pre suf (pre ! c) (suf ! c # stack)"
      using True assms(3,4) by (subst unwind.simps) simp
    have "expand pre suf c = expand pre suf (pre ! c) @ [suf ! c]"
      using True prev(1) by (subst expand.simps) simp
    then show ?thesis
      using less.IH [OF prev, of "suf ! c # stack"] step by simp
  qed
qed

lemma expand_cong:
  assumes "chains_ok base free pre" "256 \<le> base" "valid_code base free c"
    and "\<And>k. k < free \<Longrightarrow> pre' ! k = pre ! k \<and> suf' ! k = suf ! k"
  shows "expand pre' suf' c = expand pre suf c"
  using assms(3)
proof (induction c rule: less_induct)
  case (less c)
  show ?case
  proof (cases "256 \<le> c")
    case True
    note prev = chains_okD [OF assms(1,2) less.prems True]
    have "c < free" using less.prems True by (simp add: valid_code_def)
    with assms(4) have "pre' ! c = pre ! c" "suf' ! c = suf ! c" by simp_all
    with True prev(1) less.IH [OF prev] show ?thesis
      by (simp add: expand.simps [of pre' suf' c] expand.simps [of pre suf c])
  qed (simp add: expand_literal)
qed


section \<open>The string-dictionary decoder\<close>

text \<open>
  What the decoder promises, with no tables, no stack and no allocation: the dictionary is the
  list of its strings (the code \<open>base + k\<close> stands for \<open>dict ! k\<close>), the width is
  \<open>INIT_BITS + extra\<close>, and the output is a plain list.
\<close>

record lzc =
  dict :: "u8 list list"
  previous :: "u8 list"
  extra :: nat
  top_code :: nat
  cursor :: nat
  boundary :: nat
  text_out :: "u8 list"

abbreviation lzc_width :: "lzc \<Rightarrow> nat" where
  "lzc_width s \<equiv> INIT_BITS + extra s"

definition lzc_word :: "nat \<Rightarrow> lzc \<Rightarrow> nat \<Rightarrow> u8 list option" where
  "lzc_word base s c =
     (if c < 256 then Some [word_of_nat c]
      else if base \<le> c \<and> c < base + length (dict s) then Some (dict s ! (c - base))
      else if c = base + length (dict s) then Some (previous s @ [hd (previous s)])
      else None)"

definition group_ceiling :: "nat \<Rightarrow> nat \<Rightarrow> nat \<Rightarrow> nat" where
  "group_ceiling pos width bound =
     (let g = width * 8 in bound + g * ((pos - bound + (g - 1)) div g))"

definition lzc_enter :: "nat \<Rightarrow> nat \<Rightarrow> lzc \<Rightarrow> u8 list \<Rightarrow> lzc" where
  "lzc_enter base maxbits s w =
     (let s1 = (if base + length (dict s) < 2 ^ maxbits
                then s\<lparr>dict := dict s @ [previous s @ [hd w]]\<rparr> else s);
          s2 = (if base + length (dict s) < 2 ^ maxbits \<and> base + length (dict s1) > top_code s
                   \<and> lzc_width s < maxbits
                then let p = group_ceiling (cursor s) (lzc_width s) (boundary s) in
                     s1\<lparr>boundary := p, cursor := p, extra := extra s + 1,
                        top_code := (if lzc_width s + 1 = maxbits then 2 ^ maxbits
                                     else 2 ^ (lzc_width s + 1) - 1)\<rparr>
                else s1)
      in s2\<lparr>previous := w, text_out := text_out s @ w\<rparr>)"

definition lzc_code :: "nat \<Rightarrow> nat \<Rightarrow> lzc \<Rightarrow> nat \<Rightarrow> DecodeError + u8 list \<times> lzc" where
  "lzc_code base maxbits s raw =
     (case lzc_word base s raw of
        None \<Rightarrow> Inl InvalidCode
      | Some w \<Rightarrow> Inr (w, lzc_enter base maxbits s w))"

definition lzc_clear :: "u8 list \<Rightarrow> lzc \<Rightarrow> DecodeError + u8 list \<times> lzc" where
  "lzc_clear data s =
     (let p = group_ceiling (cursor s) (lzc_width s) (boundary s); c = code_at data p INIT_BITS;
          w = [word_of_nat c]
      in if p + INIT_BITS > length data * 8 then Inl Truncated
         else if c \<ge> 256 then Inl InvalidCode
         else Inr (w, s\<lparr>dict := [], previous := w, extra := 0, top_code := 2 ^ INIT_BITS - 1,
                        cursor := p + INIT_BITS, boundary := p, text_out := text_out s @ w\<rparr>))"

definition lzc_step :: "u8 list \<Rightarrow> bool \<Rightarrow> nat \<Rightarrow> lzc \<Rightarrow> nat \<Rightarrow> DecodeError + u8 list \<times> lzc" where
  "lzc_step data block_mode maxbits s raw =
     (if block_mode \<and> raw = CLEAR then lzc_clear data s
      else lzc_code (first_free block_mode) maxbits s raw)"

definition abs_decoder :: "nat \<Rightarrow> decoder \<Rightarrow> lzc" where
  "abs_decoder base d =
     \<lparr>dict = map (expand (prefix d) (suffix d)) [base..<free_entry d],
      previous = expand (prefix d) (suffix d) (old_code d),
      extra = code_width d - INIT_BITS, top_code = max_code d,
      cursor = bit_position d, boundary = boundary_offset d, text_out = bytes (out d)\<rparr>"

lemma abs_decoder_fields [simp]:
  "length (dict (abs_decoder base d)) = free_entry d - base"
  "extra (abs_decoder base d) = code_width d - INIT_BITS"
  "top_code (abs_decoder base d) = max_code d" "cursor (abs_decoder base d) = bit_position d"
  "boundary (abs_decoder base d) = boundary_offset d"
  "text_out (abs_decoder base d) = bytes (out d)"
  by (simp_all add: abs_decoder_def)

definition decoder_inv :: "bool \<Rightarrow> nat \<Rightarrow> nat \<Rightarrow> decoder \<Rightarrow> bool" where
  "decoder_inv block_mode maxbits limit d \<longleftrightarrow>
     INIT_BITS \<le> code_width d \<and> code_width d \<le> maxbits \<and> maxbits \<le> MAX_MAXBITS
   \<and> length (prefix d) = 2 ^ maxbits \<and> length (suffix d) = 2 ^ maxbits
   \<and> first_free block_mode \<le> free_entry d \<and> free_entry d \<le> 2 ^ maxbits
   \<and> chains_ok (first_free block_mode) (free_entry d) (prefix d)
   \<and> valid_code (first_free block_mode) (free_entry d) (old_code d)
   \<and> final_character d = hd (expand (prefix d) (suffix d) (old_code d))
   \<and> boundary_offset d \<le> bit_position d
   \<and> vec_inv limit (out d)
   \<and> max_code d \<le> 2 ^ maxbits"

lemma two_pow_ge_512: "9 \<le> n \<Longrightarrow> (512::nat) \<le> 2 ^ n"
  using power_increasing [of 9 n "2::nat"] by simp

subsection \<open>Entering a word\<close>

lemma table_entry:
  assumes ch: "chains_ok base free pre" and base: "256 \<le> base" "base \<le> free"
    and old: "valid_code base free old" and len: "free < length pre" "free < length suf"
  shows "chains_ok base (Suc free) (pre[free := old])"
    and "valid_code base free c \<Longrightarrow>
      expand (pre[free := old]) (suf[free := fc]) c = expand pre suf c"
    and "expand (pre[free := old]) (suf[free := fc]) free = expand pre suf old @ [fc]"
proof -
  have less: "old < free" using old base by (auto simp: valid_code_def)
  show "chains_ok base (Suc free) (pre[free := old])"
    using ch base old less len by (auto simp: chains_ok_def valid_code_def nth_list_update)
  have same: "expand (pre[free := old]) (suf[free := fc]) c = expand pre suf c"
    if "valid_code base free c" for c
    by (rule expand_cong [OF ch base(1) that]) simp
  then show "valid_code base free c \<Longrightarrow>
      expand (pre[free := old]) (suf[free := fc]) c = expand pre suf c" .
  show "expand (pre[free := old]) (suf[free := fc]) free = expand pre suf old @ [fc]"
    using less base len same [OF old] by (subst expand.simps) simp
qed

text \<open>The word a code stands for, before its entry is made.\<close>

definition word_of :: "decoder \<Rightarrow> nat \<Rightarrow> u8 list" where
  "word_of d raw =
     (if raw = free_entry d then expand (prefix d) (suffix d) (old_code d) @ [final_character d]
      else expand (prefix d) (suffix d) raw)"

lemma word_of_lzc_word:
  assumes "decoder_inv b m limit d" "\<not> (b \<and> raw = CLEAR)"
  shows "lzc_word (first_free b) (abs_decoder (first_free b) d) raw =
    (if raw \<le> free_entry d then Some (word_of d raw) else None)"
proof -
  have "256 \<le> raw \<Longrightarrow> first_free b \<le> raw"
    using assms(2) by (auto simp: first_free_def CLEAR_def)
  then show ?thesis
    using assms(1) first_free_bounds [of b]
    by (auto simp: lzc_word_def abs_decoder_def decoder_inv_def word_of_def expand_literal)
qed

lemma add_entry_full:
  assumes "free_entry d = 2 ^ m"
  shows "add_entry m d = Inr d"
  using assms by (simp add: add_entry_def)

definition with_entry :: "decoder \<Rightarrow> decoder" where
  "with_entry d = d\<lparr>prefix := (prefix d)[free_entry d := old_code d],
                   suffix := (suffix d)[free_entry d := final_character d],
                   free_entry := free_entry d + 1\<rparr>"

definition widened :: "nat \<Rightarrow> decoder \<Rightarrow> decoder" where
  "widened m d =
     (let p = group_ceiling (bit_position d) (code_width d) (boundary_offset d);
          w = code_width d + 1
      in d\<lparr>boundary_offset := p, bit_position := p, code_width := w,
           max_code := (if w = m then 2 ^ m else 2 ^ w - 1)\<rparr>)"

lemma align_group_ceiling:
  "bound < pos \<Longrightarrow> 0 < n \<Longrightarrow> align_to_group pos n bound = Inr (group_ceiling pos n bound)"
  by (simp only: align_to_group_eq group_ceiling_def Let_def)

lemma group_ceiling_bounds:
  assumes "bound < pos" "0 < n"
  shows "pos \<le> group_ceiling pos n bound" "group_ceiling pos n bound < pos + n * 8"
  using align_to_group_ok [OF assms] align_group_ceiling [OF assms] by fastforce+

lemma add_entry_eq:
  assumes "free_entry d < 2 ^ m" "length (prefix d) = 2 ^ m" "length (suffix d) = 2 ^ m"
    "boundary_offset d < bit_position d" "0 < code_width d"
  shows "add_entry m d = Inr
    (if free_entry d + 1 > max_code d \<and> code_width d < m then widened m (with_entry d) else with_entry d)"
  using assms(1-3) align_group_ceiling [OF assms(4,5)]
  by (simp add: add_entry_def with_entry_def widened_def Let_def)

lemma decoder_invD:
  assumes "decoder_inv b m limit d"
  shows "INIT_BITS \<le> code_width d" "code_width d \<le> m" "m \<le> MAX_MAXBITS"
    "length (prefix d) = 2 ^ m" "length (suffix d) = 2 ^ m"
    "first_free b \<le> free_entry d" "free_entry d \<le> 2 ^ m"
    "chains_ok (first_free b) (free_entry d) (prefix d)"
    "valid_code (first_free b) (free_entry d) (old_code d)"
    "final_character d = hd (expand (prefix d) (suffix d) (old_code d))"
    "boundary_offset d \<le> bit_position d" "vec_inv limit (out d)" "max_code d \<le> 2 ^ m"
  using assms by (simp_all add: decoder_inv_def)

definition entered :: "nat \<Rightarrow> decoder \<Rightarrow> nat \<Rightarrow> vec \<Rightarrow> decoder" where
  "entered m d raw o' =
     (let d0 = d\<lparr>final_character := hd (word_of d raw), out := o'\<rparr>
      in (if free_entry d < 2 ^ m then with_entry d0 else d0)\<lparr>old_code := raw\<rparr>)"

lemma entered_expand:
  fixes o' :: vec
  assumes inv: "decoder_inv b m limit d" and raw: "raw \<le> free_entry d" "raw < 2 ^ m"
    "valid_code (first_free b) (Suc (free_entry d)) raw"
  defines "e \<equiv> entered m d raw o'"
  shows "chains_ok (first_free b) (free_entry e) (prefix e)"
    "valid_code (first_free b) (free_entry e) raw"
    "expand (prefix e) (suffix e) raw = word_of d raw"
    "map (expand (prefix e) (suffix e)) [first_free b..<free_entry e] =
       map (expand (prefix d) (suffix d)) [first_free b..<free_entry d]
       @ (if free_entry d < 2 ^ m
          then [expand (prefix d) (suffix d) (old_code d) @ [hd (word_of d raw)]] else [])"
proof -
  note i = decoder_invD [OF inv] and base = first_free_bounds(1) [of b]
  have "chains_ok (first_free b) (free_entry e) (prefix e)
    \<and> valid_code (first_free b) (free_entry e) raw
    \<and> expand (prefix e) (suffix e) raw = word_of d raw
    \<and> map (expand (prefix e) (suffix e)) [first_free b..<free_entry e] =
       map (expand (prefix d) (suffix d)) [first_free b..<free_entry d]
       @ (if free_entry d < 2 ^ m
          then [expand (prefix d) (suffix d) (old_code d) @ [hd (word_of d raw)]] else [])"
  proof (cases "free_entry d < 2 ^ m")
    case False
    with raw i(7) have "raw \<noteq> free_entry d" by simp
    with False raw i show ?thesis
      by (auto simp: e_def entered_def Let_def word_of_def valid_code_def)
  next
    case True
    then have len: "free_entry d < length (prefix d)" "free_entry d < length (suffix d)"
      using i(4,5) by simp_all
    let ?fc = "hd (word_of d raw)"
    have e: "prefix e = (prefix d)[free_entry d := old_code d]"
      "suffix e = (suffix d)[free_entry d := ?fc]" "free_entry e = Suc (free_entry d)"
      using True by (simp_all add: e_def entered_def with_entry_def)
    note te = table_entry(1) [OF i(8) base i(6,9) len, folded e(1)]
      table_entry(2,3) [OF i(8) base i(6,9) len, where fc = ?fc, folded e(1,2)]
    have old: "map (expand (prefix e) (suffix e)) [first_free b..<free_entry d]
        = map (expand (prefix d) (suffix d)) [first_free b..<free_entry d]"
      by (rule map_cong [OF refl]) (simp add: te(2) valid_code_def)
    have "raw = free_entry d \<Longrightarrow> ?fc = final_character d"
      using i(10) by (simp add: word_of_def)
    then have "expand (prefix e) (suffix e) raw = word_of d raw"
      using te(2) [of raw] te(3) raw by (auto simp: word_of_def valid_code_def)
    with te(1,3) old raw(3) True i(6) e(3) show ?thesis by simp
  qed
  then show "chains_ok (first_free b) (free_entry e) (prefix e)"
    "valid_code (first_free b) (free_entry e) raw"
    "expand (prefix e) (suffix e) raw = word_of d raw"
    "map (expand (prefix e) (suffix e)) [first_free b..<free_entry e] =
       map (expand (prefix d) (suffix d)) [first_free b..<free_entry d]
       @ (if free_entry d < 2 ^ m
          then [expand (prefix d) (suffix d) (old_code d) @ [hd (word_of d raw)]] else [])"
    by blast+
qed

lemma entered_fields [simp]:
  "code_width (entered m d raw o') = code_width d" "max_code (entered m d raw o') = max_code d"
  "bit_position (entered m d raw o') = bit_position d"
  "boundary_offset (entered m d raw o') = boundary_offset d"
  "out (entered m d raw o') = o'" "old_code (entered m d raw o') = raw"
  "final_character (entered m d raw o') = hd (word_of d raw)"
  "length (prefix (entered m d raw o')) = length (prefix d)"
  "length (suffix (entered m d raw o')) = length (suffix d)"
  "free_entry (entered m d raw o') = (if free_entry d < 2 ^ m then Suc (free_entry d) else free_entry d)"
  by (simp_all add: entered_def with_entry_def Let_def)

lemma entered_inv:
  assumes "decoder_inv b m limit d" "raw \<le> free_entry d" "raw < 2 ^ m"
    "valid_code (first_free b) (Suc (free_entry d)) raw" "vec_inv limit o'"
  shows "decoder_inv b m limit (entered m d raw o')"
  using decoder_invD [OF assms(1)] entered_expand [OF assms(1-4), where o' = o'] assms(5)
  unfolding decoder_inv_def by auto

lemma entered_abs:
  assumes "decoder_inv b m limit d" "raw \<le> free_entry d" "raw < 2 ^ m"
    "valid_code (first_free b) (Suc (free_entry d)) raw" "bytes o' = bytes (out d) @ word_of d raw"
  defines "s \<equiv> abs_decoder (first_free b) d"
  shows "abs_decoder (first_free b) (entered m d raw o') =
    s\<lparr>dict := dict s @ (if free_entry d < 2 ^ m then [previous s @ [hd (word_of d raw)]] else []),
      previous := word_of d raw, text_out := text_out s @ word_of d raw\<rparr>"
  using entered_expand(3,4) [OF assms(1-4), where o' = o'] assms(5)
  by (simp add: abs_decoder_def s_def)

lemma lzc_enter_abs:
  assumes inv: "decoder_inv b m limit d" and raw: "raw \<le> free_entry d" "raw < 2 ^ m"
    "valid_code (first_free b) (Suc (free_entry d)) raw"
    and o': "vec_inv limit o'" "bytes o' = bytes (out d) @ word_of d raw"
    and strict: "boundary_offset d < bit_position d"
  shows "\<exists>d'. add_entry m (d\<lparr>final_character := hd (word_of d raw), out := o'\<rparr>) = Inr d'
      \<and> decoder_inv b m limit (d'\<lparr>old_code := raw\<rparr>)
      \<and> abs_decoder (first_free b) (d'\<lparr>old_code := raw\<rparr>)
          = lzc_enter (first_free b) m (abs_decoder (first_free b) d) (word_of d raw)
      \<and> bit_position d \<le> bit_position d'"
proof -
  let ?d0 = "d\<lparr>final_character := hd (word_of d raw), out := o'\<rparr>"
  let ?e = "entered m d raw o'" and ?base = "first_free b"
  let ?w = "free_entry d < 2 ^ m \<and> free_entry d + 1 > max_code d \<and> code_width d < m"
  note i = decoder_invD [OF inv]
  have pos: "0 < code_width d" using i(1) by (simp add: INIT_BITS_def)
  define d' where "d' = (if free_entry d < 2 ^ m
    then if free_entry d + 1 > max_code d \<and> code_width d < m then widened m (with_entry ?d0)
         else with_entry ?d0 else ?d0)"
  have add: "add_entry m ?d0 = Inr d'"
    using add_entry_eq [of ?d0 m] add_entry_full [of ?d0 m] i(4,5,7) strict pos
    by (simp add: d'_def)
  have d': "d'\<lparr>old_code := raw\<rparr> = (if ?w then widened m ?e else ?e)"
    by (simp add: d'_def entered_def widened_def with_entry_def Let_def)
  note e_inv = entered_inv [OF inv raw o'(1)] and e_abs = entered_abs [OF inv raw o'(2)]
  note gc = group_ceiling_bounds(1) [OF strict pos]
  have "decoder_inv b m limit (widened m ?e)" if ?w
  proof -
    have "(2::nat) ^ Suc (code_width d) \<le> 2 ^ m"
      using that by (intro power_increasing) auto
    then show ?thesis
      using e_inv that gc by (simp add: decoder_inv_def widened_def Let_def le_diff_conv)
  qed
  then have inv': "decoder_inv b m limit (d'\<lparr>old_code := raw\<rparr>)"
    unfolding d' using e_inv by simp
  have wd: "INIT_BITS + (code_width d - INIT_BITS) = code_width d"
    "Suc (code_width d) - INIT_BITS = Suc (code_width d - INIT_BITS)"
    using i(1) by simp_all
  have "abs_decoder ?base (d'\<lparr>old_code := raw\<rparr>)
      = lzc_enter ?base m (abs_decoder ?base d) (word_of d raw)"
  proof (cases ?w)
    case True
    then have "abs_decoder ?base (widened m ?e) = (abs_decoder ?base ?e)
      \<lparr>extra := Suc (code_width d - INIT_BITS),
        top_code := (if Suc (code_width d) = m then 2 ^ m else 2 ^ Suc (code_width d) - 1),
        cursor := group_ceiling (bit_position d) (code_width d) (boundary_offset d),
        boundary := group_ceiling (bit_position d) (code_width d) (boundary_offset d)\<rparr>"
      by (simp add: abs_decoder_def widened_def Let_def wd)
    then show ?thesis
      unfolding d' e_abs using True i(6) by (simp add: lzc_enter_def Let_def wd)
  next
    case False
    then have same: "d'\<lparr>old_code := raw\<rparr> = ?e" unfolding d' by (rule if_not_P)
    show ?thesis
      unfolding same e_abs using False i(6) by (auto simp: lzc_enter_def Let_def wd)
  qed
  moreover have "bit_position d \<le> bit_position d'"
    using gc by (simp add: d'_def widened_def with_entry_def Let_def)
  ultimately show ?thesis using add inv' by blast
qed

subsection \<open>One iteration\<close>

text \<open>The result \<open>r\<close> of a concrete step implements the abstract one: the same error, or
  \<open>SizeLimit\<close> exactly when the output vector refuses the word, or a state that keeps the
  invariant, has not moved backwards and stands for the abstract successor.\<close>

definition step_refines ::
  "(nat \<Rightarrow> bool) \<Rightarrow> bool \<Rightarrow> nat \<Rightarrow> nat \<Rightarrow> decoder \<Rightarrow> DecodeError + u8 list \<times> lzc \<Rightarrow> decoder decoded \<Rightarrow> bool"
where
  "step_refines alloc b m limit d spec r =
     (case spec of
        Inl e \<Rightarrow> r = Inl (Err e)
      | Inr (w, s') \<Rightarrow>
          if size_exceeded alloc (out d) (length w) limit then r = Inl (Err SizeLimit)
          else \<exists>d'. r = Inr d' \<and> decoder_inv b m limit d' \<and> bit_position d \<le> bit_position d'
            \<and> abs_decoder (first_free b) d' = s')"

lemma code_step_sim:
  assumes inv: "decoder_inv b m limit d" and strict: "boundary_offset d < bit_position d"
    and raw: "raw < 2 ^ m" "\<not> (b \<and> raw = CLEAR)"
  shows "\<exists>r. code_step alloc m limit d raw = Some r
    \<and> step_refines alloc b m limit d
        (lzc_code (first_free b) m (abs_decoder (first_free b) d) raw) r"
proof (cases "raw \<le> free_entry d")
  case False
  then show ?thesis
    using word_of_lzc_word [OF inv raw(2)]
    by (simp add: code_step_def lzc_code_def step_refines_def)
next
  case True
  note i = decoder_invD [OF inv]
  have valid: "valid_code (first_free b) (Suc (free_entry d)) raw"
    using True raw(2) by (auto simp: valid_code_def first_free_def CLEAR_def)
  define code stack where "code = (if raw = free_entry d then old_code d else raw)"
    and "stack = (if raw = free_entry d then [final_character d] else [])"
  have "valid_code (first_free b) (free_entry d) code"
    using valid True i(9) by (auto simp: code_def valid_code_def)
  then obtain l rest where u: "unwind (prefix d) (suffix d) code stack = Some (Inr (l, rest))"
      "word_of_nat l # rest = expand (prefix d) (suffix d) code @ stack"
    using unwind_expand [OF i(8) first_free_bounds(1)] i(4,5,7) by metis
  have w: "word_of d raw = word_of_nat l # rest"
    using u(2) by (simp add: word_of_def code_def stack_def split: if_splits)
  have step: "code_step alloc m limit d raw = Some
      (and_then (append_stack alloc (out d) (word_of d raw) limit) (\<lambda>o'.
       and_then (add_entry m (d\<lparr>final_character := hd (word_of d raw), out := o'\<rparr>)) (\<lambda>d.
       Inr (d\<lparr>old_code := raw\<rparr>))))"
    using True u(1) by (auto simp: code_step_def code_def stack_def w Let_def)
  have word: "lzc_word (first_free b) (abs_decoder (first_free b) d) raw = Some (word_of d raw)"
    using word_of_lzc_word [OF inv raw(2)] True by simp
  from i(12) show ?thesis
  proof (cases rule: append_stack_cases [where alloc = alloc and st = "word_of d raw"])
    case exceeded
    then show ?thesis by (simp add: step word lzc_code_def step_refines_def)
  next
    case (appended o')
    from lzc_enter_abs [OF inv True raw(1) valid appended(3,2) strict] appended(1,4)
    show ?thesis by (auto simp: step word lzc_code_def step_refines_def)
  qed
qed

lemma clear_step_sim:
  assumes inv: "decoder_inv True m limit d" and strict: "boundary_offset d < bit_position d"
  shows "step_refines alloc True m limit d (lzc_clear data (abs_decoder (first_free True) d))
    (clear_step alloc data limit d)"
proof -
  note i = decoder_invD [OF inv]
  have pos: "0 < code_width d" using i(1) by (simp add: INIT_BITS_def)
  define p where "p = group_ceiling (bit_position d) (code_width d) (boundary_offset d)"
  have p: "bit_position d \<le> p" and al: "align_to_group (bit_position d) (code_width d) (boundary_offset d) = Inr p"
    using group_ceiling_bounds(1) [OF strict pos] align_group_ceiling [OF strict pos]
    by (simp_all add: p_def)
  have wd: "INIT_BITS + (code_width d - INIT_BITS) = code_width d" using i(1) by simp
  let ?c = "code_at data p INIT_BITS"
  let ?e = "\<lambda>o'. d\<lparr>boundary_offset := p, free_entry := CLEAR + 1, code_width := INIT_BITS,
      max_code := 2 ^ INIT_BITS - 1, bit_position := p + INIT_BITS, old_code := ?c,
      final_character := word_of_nat ?c, out := o'\<rparr>"
  have step: "clear_step alloc data limit d =
      (if p + INIT_BITS > length data * 8 then Inl (Err Truncated)
       else if ?c \<ge> 256 then Inl (Err InvalidCode)
       else and_then (append_stack alloc (out d) [word_of_nat ?c] limit) (\<lambda>o'. Inr (?e o')))"
    by (simp add: clear_step_def al read_code_eq push_output_append_stack Let_def not_le)
  have "512 \<le> (2::nat) ^ m" using i(1,2) two_pow_ge_512 by (simp add: INIT_BITS_def)
  then have "512 \<le> (2::nat) ^ m" "2 ^ INIT_BITS - Suc 0 \<le> (2::nat) ^ m"
    by (simp_all add: INIT_BITS_def)
  then have e_inv: "decoder_inv True m limit (?e o')" if "vec_inv limit o'" "?c < 256" for o'
    using inv that
    by (auto simp: decoder_inv_def first_free_def CLEAR_def chains_ok_def valid_code_def expand_literal)
  from i(12) show ?thesis
  proof (cases rule: append_stack_cases [where alloc = alloc and st = "[word_of_nat ?c]"])
    case exceeded
    then show ?thesis
      by (simp add: step step_refines_def lzc_clear_def Let_def wd p_def [symmetric])
  next
    case (appended o')
    then show ?thesis
      using e_inv [of o'] p
      by (auto simp: step step_refines_def lzc_clear_def Let_def wd p_def [symmetric] abs_decoder_def first_free_def
          expand_literal)
  qed
qed

text \<open>Both kinds of code together, from the state at the head of the loop.\<close>

definition iteration ::
  "(nat \<Rightarrow> bool) \<Rightarrow> u8 list \<Rightarrow> bool \<Rightarrow> nat \<Rightarrow> nat \<Rightarrow> decoder \<Rightarrow> nat \<Rightarrow> decoder decoded option" where
  "iteration alloc data b m limit d raw =
     (let d = d\<lparr>bit_position := bit_position d + code_width d\<rparr> in
      if b \<and> raw = CLEAR then Some (clear_step alloc data limit d)
      else code_step alloc m limit d raw)"

definition lzc_advance :: "lzc \<Rightarrow> lzc" where
  "lzc_advance s = s\<lparr>cursor := cursor s + lzc_width s\<rparr>"

lemma decode_loop_unfold:
  "decode_loop alloc data b m limit d =
     (if bit_position d + code_width d \<le> length data * 8 then
        (case iteration alloc data b m limit d (code_at data (bit_position d) (code_width d)) of
           None \<Rightarrow> None
         | Some (Inl e) \<Rightarrow> Some (Inl e)
         | Some (Inr d') \<Rightarrow> decode_loop alloc data b m limit d')
      else Some (Inr d))"
  by (subst decode_loop.simps) (simp add: read_code_eq iteration_def)

lemma iteration_sim:
  fixes data :: "u8 list"
  assumes inv: "decoder_inv b m limit d"
  defines "raw \<equiv> code_at data (bit_position d) (code_width d)"
    and "d1 \<equiv> d\<lparr>bit_position := bit_position d + code_width d\<rparr>"
  shows "\<exists>r. iteration alloc data b m limit d raw = Some r
    \<and> step_refines alloc b m limit d1
        (lzc_step data b m (lzc_advance (abs_decoder (first_free b) d)) raw) r"
proof -
  note i = decoder_invD [OF inv]
  have w: "0 < code_width d" "INIT_BITS + (code_width d - INIT_BITS) = code_width d"
    using i(1) by (simp_all add: INIT_BITS_def)
  have inv1: "decoder_inv b m limit d1" and strict: "boundary_offset d1 < bit_position d1"
    using inv w(1) by (auto simp: decoder_inv_def d1_def)
  have abs1: "abs_decoder (first_free b) d1 = lzc_advance (abs_decoder (first_free b) d)"
    by (simp add: abs_decoder_def lzc_advance_def d1_def w(2))
  have raw: "raw < 2 ^ m"
    using code_at_less power_increasing [OF i(2), of "2::nat"] unfolding raw_def
    by (metis less_le_trans one_le_numeral)
  show ?thesis
  proof (cases "b \<and> raw = CLEAR")
    case True
    then show ?thesis
      using clear_step_sim [of m limit d1 alloc data] inv1 strict abs1
      by (simp add: iteration_def lzc_step_def d1_def [symmetric])
  next
    case False
    then show ?thesis
      using code_step_sim [OF inv1 strict raw False, of alloc]
      by (auto simp: iteration_def lzc_step_def abs1 d1_def [symmetric])
  qed
qed

subsection \<open>The whole loop\<close>

text \<open>Whatever the allocator answers, the loop ends, never panics, and leaves a state that keeps
  the invariant and from which no further code can be read.\<close>

lemma decode_loop_total:
  assumes "decoder_inv b m limit d"
  shows "\<exists>r. decode_loop alloc data b m limit d = Some r \<and> r \<noteq> Inl Panic
    \<and> (\<forall>d'. r = Inr d' \<longrightarrow> decoder_inv b m limit d'
          \<and> length data * 8 < bit_position d' + code_width d')"
  using assms
proof (induction "length data * 8 - bit_position d" arbitrary: d rule: less_induct)
  case less
  let ?raw = "code_at data (bit_position d) (code_width d)"
  show ?case
  proof (cases "bit_position d + code_width d \<le> length data * 8")
    case False
    with less.prems show ?thesis by (subst decode_loop_unfold) auto
  next
    case True
    have w: "0 < code_width d"
      using decoder_invD(1) [OF less.prems] by (simp add: INIT_BITS_def)
    from iteration_sim [OF less.prems, of alloc data] obtain r where
      it: "iteration alloc data b m limit d ?raw = Some r" and ref:
      "step_refines alloc b m limit (d\<lparr>bit_position := bit_position d + code_width d\<rparr>)
        (lzc_step data b m (lzc_advance (abs_decoder (first_free b) d)) ?raw) r" by blast
    show ?thesis
    proof (cases r)
      case (Inl e)
      with ref have "e \<noteq> Panic" by (auto simp: step_refines_def split: sum.splits if_splits)
      with Inl it True show ?thesis by (subst decode_loop_unfold) simp
    next
      case (Inr d')
      with ref have d': "decoder_inv b m limit d'" "bit_position d + code_width d \<le> bit_position d'"
        by (auto simp: step_refines_def split: sum.splits if_splits)
      with w True have "length data * 8 - bit_position d' < length data * 8 - bit_position d" by simp
      from less.hyps [OF this d'(1)] Inr it True show ?thesis by (subst decode_loop_unfold) simp
    qed
  qed
qed

section \<open>Decoding a whole stream\<close>

lemma lzc_step_cursor:
  "lzc_step data b m s raw = Inr (w, s') \<Longrightarrow> cursor s \<le> cursor s'"
proof -
  have gc: "p \<le> group_ceiling p (lzc_width s) bnd" for p bnd
    using group_ceiling_bounds(1) [of bnd p "lzc_width s"]
    by (cases "bnd < p") (auto simp: INIT_BITS_def group_ceiling_def Let_def)
  show "lzc_step data b m s raw = Inr (w, s') \<Longrightarrow> cursor s \<le> cursor s'"
    using gc [of "cursor s" "boundary s"]
    by (auto simp: lzc_step_def lzc_code_def lzc_clear_def lzc_enter_def Let_def trans_le_add1
        split: option.splits if_splits)
qed

function lzc_loop :: "u8 list \<Rightarrow> bool \<Rightarrow> nat \<Rightarrow> nat \<Rightarrow> lzc \<Rightarrow> DecodeError + lzc" where
  "lzc_loop data b m limit s =
     (if cursor s + lzc_width s \<le> length data * 8 then
        (case lzc_step data b m (lzc_advance s) (code_at data (cursor s) (lzc_width s)) of
           Inl e \<Rightarrow> Inl e
         | Inr (w, s') \<Rightarrow>
             if length (text_out s) + length w > limit then Inl SizeLimit
             else lzc_loop data b m limit s')
      else Inr s)"
  by pat_completeness auto
termination
  by (relation "measure (\<lambda>(data, b, m, limit, s). length data * 8 - cursor s)")
    (auto dest!: lzc_step_cursor simp: lzc_advance_def INIT_BITS_def)

declare lzc_loop.simps [simp del]

definition lzc_decode :: "u8 list \<Rightarrow> bool \<Rightarrow> nat \<Rightarrow> nat \<Rightarrow> DecodeError + u8 list" where
  "lzc_decode data b m limit =
     (let total = length data * 8; c = code_at data 0 INIT_BITS; w = [word_of_nat c] in
      if total = 0 then Inr []
      else if total < INIT_BITS then Inl Truncated
      else if c \<ge> 256 then Inl InvalidCode
      else if limit < 1 then Inl SizeLimit
      else and_then (lzc_loop data b m limit
             \<lparr>dict = [], previous = w, extra = 0, top_code = 2 ^ INIT_BITS - 1,
              cursor = INIT_BITS, boundary = 0, text_out = w\<rparr>) (\<lambda>s.
           if cursor s \<le> total \<and> total - cursor s \<le> 7
              \<and> (\<forall>p \<in> {cursor s..<total}. \<not> data_bit data p)
           then Inr (text_out s) else Inl Truncated))"

text \<open>Refinement: with a willing allocator, the table-driven loop computes what the
  string-dictionary loop computes.\<close>

definition abs_result :: "bool \<Rightarrow> decoder decoded \<Rightarrow> DecodeError fault + lzc" where
  "abs_result b r = map_ok (abs_decoder (first_free b)) r"

lemma decode_loop_refines:
  assumes "decoder_inv b m limit d" "limit \<le> USIZE_MAX" "\<forall>n. alloc n"
  shows "map_option (abs_result b) (decode_loop alloc data b m limit d)
    = Some (map_err Err (lzc_loop data b m limit (abs_decoder (first_free b) d)))"
  using assms(1)
proof (induction "length data * 8 - bit_position d" arbitrary: d rule: less_induct)
  case less
  let ?s = "abs_decoder (first_free b) d"
  let ?raw = "code_at data (bit_position d) (code_width d)"
  note i = decoder_invD [OF less.prems]
  have w: "0 < code_width d" and width: "lzc_width ?s = code_width d"
    using i(1) by (simp_all add: INIT_BITS_def)
  show ?case
  proof (cases "bit_position d + code_width d \<le> length data * 8")
    case False
    then have "decode_loop alloc data b m limit d = Some (Inr d)"
      by (subst decode_loop_unfold) simp
    moreover have "lzc_loop data b m limit ?s = Inr ?s"
      using False width by (subst lzc_loop.simps) simp
    ultimately show ?thesis by (simp add: abs_result_def)
  next
    case True
    from iteration_sim [OF less.prems, of alloc data] obtain r where
      it: "iteration alloc data b m limit d ?raw = Some r" and ref:
      "step_refines alloc b m limit (d\<lparr>bit_position := bit_position d + code_width d\<rparr>)
        (lzc_step data b m (lzc_advance ?s) ?raw) r" by blast
    have ex: "size_exceeded alloc (out d) k limit \<longleftrightarrow> length (text_out ?s) + k > limit" for k
      using size_exceeded_iff [OF i(12) assms(2,3)] by simp
    have dl: "decode_loop alloc data b m limit d =
        (case r of Inl e \<Rightarrow> Some (Inl e) | Inr d' \<Rightarrow> decode_loop alloc data b m limit d')"
      using it True by (subst decode_loop_unfold) simp
    have ll: "lzc_loop data b m limit ?s =
        (case lzc_step data b m (lzc_advance ?s) ?raw of
           Inl e \<Rightarrow> Inl e
         | Inr (w, s') \<Rightarrow>
             if length (text_out ?s) + length w > limit then Inl SizeLimit
             else lzc_loop data b m limit s')"
      using True width by (subst lzc_loop.simps) simp
    show ?thesis
    proof (cases r)
      case (Inl e)
      with ref show ?thesis
        unfolding dl ll
        by (auto simp: abs_result_def step_refines_def ex split: sum.splits if_splits)
    next
      case (Inr d')
      with ref obtain w where d': "decoder_inv b m limit d'"
          "bit_position d + code_width d \<le> bit_position d'"
        and ab: "lzc_step data b m (lzc_advance ?s) ?raw = Inr (w, abs_decoder (first_free b) d')"
        and sz: "\<not> length (text_out ?s) + length w > limit"
        using ex by (auto simp: step_refines_def split: sum.splits if_splits)
      with w True have "length data * 8 - bit_position d' < length data * 8 - bit_position d" by simp
      from less.hyps [OF this d'(1)] ab sz show ?thesis
        unfolding dl ll Inr by simp
    qed
  qed
qed

lemma first_literal_inv:
  fixes b :: bool
  assumes "INIT_BITS \<le> m" "m \<le> MAX_MAXBITS" "vec_inv limit o'" "c < 256"
  defines "d \<equiv> (init_decoder b m)\<lparr>bit_position := INIT_BITS, old_code := c,
             final_character := word_of_nat c, out := o'\<rparr>"
  shows "decoder_inv b m limit d"
    and "abs_decoder (first_free b) d =
      \<lparr>dict = [], previous = [word_of_nat c], extra = 0, top_code = 2 ^ INIT_BITS - 1,
       cursor = INIT_BITS, boundary = 0, text_out = bytes o'\<rparr>"
proof -
  have "512 \<le> (2::nat) ^ m" using assms(1) two_pow_ge_512 by (simp add: INIT_BITS_def)
  then show "decoder_inv b m limit d"
    using assms(1-4)
    by (auto simp: d_def decoder_inv_def init_decoder_def first_free_def CLEAR_def INIT_BITS_def
        chains_ok_def valid_code_def expand_literal)
  show "abs_decoder (first_free b) d =
      \<lparr>dict = [], previous = [word_of_nat c], extra = 0, top_code = 2 ^ INIT_BITS - 1,
       cursor = INIT_BITS, boundary = 0, text_out = bytes o'\<rparr>"
    using assms(4)
    by (simp add: d_def abs_decoder_def init_decoder_def first_free_def expand_literal)
qed

lemma init_decoder_fields [simp]:
  "bit_position (init_decoder b m) = 0" "code_width (init_decoder b m) = INIT_BITS"
  "out (init_decoder b m) = vec_new"
  by (simp_all add: init_decoder_def)

lemma decode_codes_unfold:
  "decode_codes alloc data b m limit =
     (let total = length data * 8; c = code_at data 0 INIT_BITS in
      if total = 0 then Some (Inr vec_new)
      else if total < INIT_BITS then Some (Inl (Err Truncated))
      else if c \<ge> 256 then Some (Inl (Err InvalidCode))
      else (case append_stack alloc vec_new [word_of_nat c] limit of
          Inl e \<Rightarrow> Some (Inl e)
        | Inr o' \<Rightarrow>
            (case decode_loop alloc data b m limit
               ((init_decoder b m)\<lparr>bit_position := INIT_BITS, old_code := c,
                  final_character := word_of_nat c, out := o'\<rparr>) of
               None \<Rightarrow> None
             | Some r \<Rightarrow> Some (and_then r (\<lambda>d.
                 if bit_position d \<le> total \<and> total - bit_position d \<le> 7
                    \<and> (\<forall>p \<in> {bit_position d..<total}. \<not> data_bit data p)
                 then Inr (out d) else Inl (Err Truncated))))))"
proof -
  have pad: "and_then (validate_terminal_padding data (length data * 8) (bit_position d)) (\<lambda>_. Inr (out d))
      = (if bit_position d \<le> length data * 8 \<and> length data * 8 - bit_position d \<le> 7
            \<and> (\<forall>p \<in> {bit_position d..<length data * 8}. \<not> data_bit data p)
         then Inr (out d) else Inl (Err Truncated))" for d
    by (simp add: validate_terminal_padding_eq)
  show ?thesis
    unfolding decode_codes_def Let_def pad
    by (auto simp: read_code_eq push_output_append_stack INIT_BITS_def split: sum.splits)
qed

lemma decode_codes_total:
  assumes "INIT_BITS \<le> m" "m \<le> MAX_MAXBITS"
  shows "\<exists>r. decode_codes alloc data b m limit = Some r \<and> r \<noteq> Inl Panic
    \<and> (\<forall>v. r = Inr v \<longrightarrow> vec_inv limit v)"
proof -
  let ?c = "code_at data 0 INIT_BITS"
  from vec_new_inv [of limit] show ?thesis
  proof (cases rule: append_stack_cases [where alloc = alloc and st = "[word_of_nat ?c]"])
    case exceeded
    then show ?thesis
      by (auto simp: decode_codes_unfold Let_def vec_new_inv)
  next
    case (appended o')
    show ?thesis
    proof (cases "?c < 256")
      case True
      from decode_loop_total [OF first_literal_inv(1) [OF assms appended(3) True], of alloc data]
      obtain r where "decode_loop alloc data b m limit
          ((init_decoder b m)\<lparr>bit_position := INIT_BITS, old_code := ?c,
             final_character := word_of_nat ?c, out := o'\<rparr>) = Some r"
        "r \<noteq> Inl Panic" "\<forall>d'. r = Inr d' \<longrightarrow> vec_inv limit (out d')"
        using decoder_invD(12) by metis
      with appended(1) True show ?thesis
        by (cases r) (auto simp: decode_codes_unfold Let_def vec_new_inv)
    qed (auto simp: decode_codes_unfold Let_def vec_new_inv)
  qed
qed

lemma decode_codes_refines:
  assumes "INIT_BITS \<le> m" "m \<le> MAX_MAXBITS" "limit \<le> USIZE_MAX" "\<forall>n. alloc n"
  shows "map_option (map_ok bytes) (decode_codes alloc data b m limit)
    = Some (map_err Err (lzc_decode data b m limit))"
proof -
  let ?c = "code_at data 0 INIT_BITS"
  have ex: "size_exceeded alloc vec_new 1 limit \<longleftrightarrow> limit < 1"
    using size_exceeded_iff [OF vec_new_inv assms(3,4), where k = 1] by (auto simp: vec_new_def)
  from vec_new_inv [of limit] show ?thesis
  proof (cases rule: append_stack_cases [where alloc = alloc and st = "[word_of_nat ?c]"])
    case exceeded
    with ex show ?thesis
      by (auto simp: decode_codes_unfold lzc_decode_def Let_def vec_new_def)
  next
    case (appended o')
    have bytes: "bytes o' = [word_of_nat ?c]" using appended(2) by (simp add: vec_new_def)
    have lim: "\<not> limit < 1" using appended(4) ex by simp
    show ?thesis
    proof (cases "?c < 256")
      case True
      note fl = first_literal_inv [OF assms(1,2) appended(3) True, of b]
      from decode_loop_refines [OF fl(1) assms(3,4), where data = data] obtain r where
        r: "decode_loop alloc data b m limit
          ((init_decoder b m)\<lparr>bit_position := INIT_BITS, old_code := ?c,
             final_character := word_of_nat ?c, out := o'\<rparr>) = Some r"
        "map_err Err (lzc_loop data b m limit
          \<lparr>dict = [], previous = [word_of_nat ?c], extra = 0, top_code = 2 ^ INIT_BITS - 1,
           cursor = INIT_BITS, boundary = 0, text_out = [word_of_nat ?c]\<rparr>) = abs_result b r"
        unfolding fl(2) bytes by auto
      then show ?thesis
        using appended(1) True lim
        by (cases r; cases "lzc_loop data b m limit
          \<lparr>dict = [], previous = [word_of_nat ?c], extra = 0, top_code = 2 ^ INIT_BITS - 1,
           cursor = INIT_BITS, boundary = 0, text_out = [word_of_nat ?c]\<rparr>")
          (auto simp: decode_codes_unfold lzc_decode_def Let_def vec_new_def abs_result_def)
    qed (auto simp: decode_codes_unfold lzc_decode_def Let_def vec_new_def lim appended(1))
  qed
qed

end
