(* ===== verification/UnixCompress_Props.thy ===== *)
theory UnixCompress_Props
  imports UnixCompress_Safe
begin

text \<open>
  The properties of the \<open>.Z\<close> decoder: totality and freedom from panics, the output and memory
  bounds, the refinement of the string-dictionary decoder, independence of the limit, and the
  round trip with the literal encoder of the module's own tests.
\<close>

unbundle bit_operations_syntax

section \<open>States the loop reaches\<close>




section \<open>The literal encoder\<close>

definition set_bit_at :: "u8 list \<Rightarrow> nat \<times> bool \<Rightarrow> u8 list" where
  "set_bit_at codes = (\<lambda>(position, b).
     codes[position div 8 := codes ! (position div 8) OR push_bit (position mod 8) (of_bool b)])"

definition literal_bits :: "u8 list \<Rightarrow> (nat \<times> bool) list" where
  "literal_bits bs =
     concat (map (\<lambda>code_index.
       map (\<lambda>bit_index. (code_index * INIT_BITS + bit_index, bit (unat (bs ! code_index)) bit_index))
         [0..<INIT_BITS]) [0..<length bs])"

definition literal_archive :: "u8 list \<Rightarrow> u8 list" where
  "literal_archive bs =
     [MAGIC ! 0, MAGIC ! 1, word_of_nat MAX_MAXBITS]
     @ foldl set_bit_at (replicate ((length bs * INIT_BITS + 7) div 8) 0) (literal_bits bs)"

lemma length_foldl_set_bit_at [simp]: "length (foldl set_bit_at codes ps) = length codes"
  by (induction ps arbitrary: codes) (auto simp: set_bit_at_def split: prod.splits)

lemma bit_or_push_bit_of_bool:
  fixes x :: u8
  shows "k < 8 \<Longrightarrow> j < 8 \<Longrightarrow> bit (x OR push_bit k (of_bool b)) j \<longleftrightarrow> bit x j \<or> j = k \<and> b"
  by (cases b) (auto simp: bit_or_iff bit_push_bit_iff bit_exp_iff)

lemma data_bit_set_bit_at:
  assumes "q div 8 < length codes"
  shows "data_bit (set_bit_at codes (q, b)) p \<longleftrightarrow> data_bit codes p \<or> p = q \<and> b"
proof (cases "p div 8 = q div 8")
  case True
  then have "p mod 8 = q mod 8 \<longleftrightarrow> p = q" by (metis div_mult_mod_eq)
  with True assms show ?thesis
    by (simp add: data_bit_def set_bit_at_def bit_or_push_bit_of_bool)
next
  case False
  then have "p \<noteq> q" by blast
  with False show ?thesis by (simp add: data_bit_def set_bit_at_def nth_list_update_neq)
qed

lemma data_bit_foldl:
  assumes "\<forall>(q, b) \<in> set ps. q div 8 < length codes"
  shows "data_bit (foldl set_bit_at codes ps) p \<longleftrightarrow> data_bit codes p \<or> (p, True) \<in> set ps"
  using assms
proof (induction ps arbitrary: codes)
  case (Cons qb ps)
  obtain q b where qb: "qb = (q, b)" by fastforce
  have "length (set_bit_at codes (q, b)) = length codes" by (simp add: set_bit_at_def)
  with Cons qb show ?case by (auto simp: data_bit_set_bit_at)
qed simp

lemma code_at_take_bit:
  "(\<And>k. k < n \<Longrightarrow> data_bit data (pos + k) = bit x k) \<Longrightarrow> code_at data pos n = take_bit n x"
  by (induction n) (simp_all add: take_bit_Suc_from_most)

definition literal_data :: "u8 list \<Rightarrow> u8 list" where
  "literal_data bs =
     foldl set_bit_at (replicate ((length bs * INIT_BITS + 7) div 8) 0) (literal_bits bs)"

lemma literal_bits_iff:
  "(p, v) \<in> set (literal_bits bs) \<longleftrightarrow>
     (\<exists>k j. k < length bs \<and> j < INIT_BITS \<and> p = k * INIT_BITS + j \<and> v = bit (unat (bs ! k)) j)"
  by (fastforce simp: literal_bits_def image_iff)

lemma literal_data_bit:
  "data_bit (literal_data bs) p \<longleftrightarrow> (p, True) \<in> set (literal_bits bs)"
  if "p < length (literal_data bs) * 8"
proof -
  have "q div 8 < (length bs * INIT_BITS + 7) div 8" if "(q, v) \<in> set (literal_bits bs)" for q v
  proof -
    from that obtain k j where "k < length bs" "j < INIT_BITS" "q = k * INIT_BITS + j"
      by (auto simp: literal_bits_iff)
    then have "q + 1 \<le> Suc k * INIT_BITS" "Suc k * INIT_BITS \<le> length bs * INIT_BITS"
      by (auto intro: mult_right_mono simp del: mult_Suc) (simp add: algebra_simps)
    then show ?thesis by linarith
  qed
  then have "data_bit (literal_data bs) p \<longleftrightarrow>
      data_bit (replicate ((length bs * INIT_BITS + 7) div 8) 0) p \<or> (p, True) \<in> set (literal_bits bs)"
    unfolding literal_data_def by (intro data_bit_foldl) auto
  moreover have "p div 8 < (length bs * INIT_BITS + 7) div 8"
    using that by (simp add: literal_data_def less_mult_imp_div_less)
  then have "\<not> data_bit (replicate ((length bs * INIT_BITS + 7) div 8) 0) p"
    by (simp add: data_bit_def)
  ultimately show ?thesis by blast
qed

lemma literal_data_length:
  "length bs * INIT_BITS \<le> length (literal_data bs) * 8"
  "length (literal_data bs) * 8 \<le> length bs * INIT_BITS + 7"
  by (simp_all add: literal_data_def)

lemma literal_code_at:
  assumes "k < length bs"
  shows "code_at (literal_data bs) (k * INIT_BITS) INIT_BITS = unat (bs ! k)"
proof -
  have in_range: "k * INIT_BITS + INIT_BITS \<le> length (literal_data bs) * 8"
    using assms literal_data_length(1) [of bs] mult_right_mono [of "Suc k" "length bs" INIT_BITS]
    by simp
  have "code_at (literal_data bs) (k * INIT_BITS) INIT_BITS = take_bit INIT_BITS (unat (bs ! k))"
  proof (rule code_at_take_bit)
    fix j assume j: "j < INIT_BITS"
    have "k * INIT_BITS + j = k' * INIT_BITS + j' \<Longrightarrow> j' < INIT_BITS \<Longrightarrow> k' = k \<and> j' = j" for k' j'
      using j by (simp add: INIT_BITS_def) presburger
    then show "data_bit (literal_data bs) (k * INIT_BITS + j) = bit (unat (bs ! k)) j"
      using j in_range assms by (subst literal_data_bit) (auto simp: literal_bits_iff)
  qed
  also have "\<dots> = unat (bs ! k)"
    using unat_u8_less [of "bs ! k"]
    by (intro take_bit_nat_eq_self) (simp add: INIT_BITS_def)
  finally show ?thesis .
qed

lemma literal_padding:
  "length bs * INIT_BITS \<le> p \<Longrightarrow> p < length (literal_data bs) * 8 \<Longrightarrow> \<not> data_bit (literal_data bs) p"
proof (subst literal_data_bit, assumption, rule notI)
  assume "length bs * INIT_BITS \<le> p" "(p, True) \<in> set (literal_bits bs)"
  then obtain k j where "k < length bs" "j < INIT_BITS" "length bs * INIT_BITS \<le> k * INIT_BITS + j"
    by (auto simp: literal_bits_iff)
  moreover from this(1) have "Suc k * INIT_BITS \<le> length bs * INIT_BITS"
    by (intro mult_right_mono) simp_all
  ultimately show False by simp
qed

lemma literal_run:
  assumes n: "length bs \<le> 256" and k: "1 \<le> k" "k \<le> length bs" "k \<le> limit"
    and s: "length (dict s) = k - 1" "extra s = 0" "top_code s = 511" "cursor s = k * INIT_BITS"
      "text_out s = take k bs"
  shows "if length bs \<le> limit
    then \<exists>s'. lzc_loop (literal_data bs) False MAX_MAXBITS limit s = Inr s'
      \<and> cursor s' = length bs * INIT_BITS \<and> text_out s' = bs
    else lzc_loop (literal_data bs) False MAX_MAXBITS limit s = Inl SizeLimit"
  using k s
proof (induction "length bs - k" arbitrary: k s)
  case 0
  then have k: "k = length bs" by simp
  have "lzc_loop (literal_data bs) False MAX_MAXBITS limit s = Inr s"
    using literal_data_length(2) [of bs] 0 k
    by (subst lzc_loop.simps) (simp add: INIT_BITS_def)
  with 0 k show ?case by simp
next
  case (Suc x)
  then have k: "k < length bs" by simp
  let ?raw = "unat (bs ! k)" and ?w = "[bs ! k]"
  define s' where "s' = lzc_enter (first_free False) MAX_MAXBITS (lzc_advance s) ?w"
  have raw: "code_at (literal_data bs) (cursor s) (lzc_width s) = ?raw" "?raw < 256"
    using literal_code_at [OF k] Suc.prems unat_u8_less [of "bs ! k"] by simp_all
  have step: "lzc_step (literal_data bs) False MAX_MAXBITS (lzc_advance s) ?raw = Inr (?w, s')"
    using raw(2) by (simp add: lzc_step_def lzc_code_def lzc_word_def s'_def)
  have s': "length (dict s') = k" "extra s' = 0" "top_code s' = 511" "cursor s' = Suc k * INIT_BITS"
      "text_out s' = take (Suc k) bs"
    using Suc.prems k n
    by (simp_all add: s'_def lzc_enter_def lzc_advance_def Let_def first_free_def MAX_MAXBITS_def
        take_Suc_conv_app_nth)
  have "cursor s + lzc_width s \<le> length (literal_data bs) * 8"
    using Suc.prems literal_data_length(1) [of bs] k mult_right_mono [of "Suc k" "length bs" INIT_BITS]
    by simp
  then have loop: "lzc_loop (literal_data bs) False MAX_MAXBITS limit s =
      (if k + 1 > limit then Inl SizeLimit else lzc_loop (literal_data bs) False MAX_MAXBITS limit s')"
    using k Suc.prems by (subst lzc_loop.simps) (simp add: literal_code_at [OF k] step min_def)
  show ?case
  proof (cases "k + 1 > limit")
    case True
    with k loop show ?thesis by simp
  next
    case False
    then show ?thesis
      unfolding loop using Suc.hyps(1) [of "Suc k" s'] Suc.hyps(2) s' k by simp
  qed
qed

lemma literal_decode:
  assumes "length bs \<le> 256"
  shows "lzc_decode (literal_data bs) False MAX_MAXBITS limit =
    (if length bs \<le> limit then Inr bs else Inl SizeLimit)"
proof (cases "bs = []")
  case True
  then show ?thesis by (simp add: lzc_decode_def literal_data_def)
next
  case False
  then have len: "0 < length bs" by simp
  have c: "code_at (literal_data bs) 0 INIT_BITS = unat (bs ! 0)" "unat (bs ! 0) < 256"
    using literal_code_at [OF len] unat_u8_less [of "bs ! 0"] by simp_all
  have tot: "INIT_BITS \<le> length (literal_data bs) * 8"
    using literal_data_length(1) [of bs] len by (cases "length bs") auto
  then have ne: "literal_data bs \<noteq> []" by (auto simp: INIT_BITS_def)
  let ?s = "\<lparr>dict = [], previous = [bs ! 0], extra = 0, top_code = 2 ^ INIT_BITS - 1,
       cursor = INIT_BITS, boundary = 0, text_out = [bs ! 0]\<rparr>"
  have take1: "[bs ! 0] = take 1 bs" using len by (cases bs) simp_all
  show ?thesis
  proof (cases "limit < 1")
    case True
    with len c tot ne show ?thesis by (simp add: lzc_decode_def Let_def INIT_BITS_def)
  next
    case lim: False
    then have run: "if length bs \<le> limit
      then \<exists>s'. lzc_loop (literal_data bs) False MAX_MAXBITS limit ?s = Inr s'
        \<and> cursor s' = length bs * INIT_BITS \<and> text_out s' = bs
      else lzc_loop (literal_data bs) False MAX_MAXBITS limit ?s = Inl SizeLimit"
      using literal_run [OF assms, of 1 limit ?s] len take1 by (simp add: INIT_BITS_def)
    have eq: "lzc_decode (literal_data bs) False MAX_MAXBITS limit =
        and_then (lzc_loop (literal_data bs) False MAX_MAXBITS limit ?s) (\<lambda>s.
           if cursor s \<le> length (literal_data bs) * 8 \<and> length (literal_data bs) * 8 - cursor s \<le> 7
              \<and> (\<forall>p \<in> {cursor s..<length (literal_data bs) * 8}. \<not> data_bit (literal_data bs) p)
           then Inr (text_out s) else Inl Truncated)"
      using c tot lim unfolding lzc_decode_def Let_def by (auto simp: INIT_BITS_def)
    show ?thesis
      unfolding eq using run literal_data_length [of bs] literal_padding [of bs]
      by (auto split: if_splits)
  qed
qed

section \<open>The header\<close>

text \<open>The whole archive, header included, over the string-dictionary decoder.\<close>

definition lzc_bounded :: "u8 list \<Rightarrow> nat \<Rightarrow> DecodeError + u8 list" where
  "lzc_bounded input limit =
     (if input = [] then Inr []
      else if length input < 2 then Inl Truncated
      else if take 2 input \<noteq> MAGIC then Inl BadMagic
      else if length input < 3 then Inl Truncated
      else let maxbits = unat (input ! 2) mod 32 in
        if maxbits < INIT_BITS \<or> MAX_MAXBITS < maxbits then Inl BadMaxBits
        else lzc_decode (drop 3 input) (bit (input ! 2) 7) maxbits limit)"

lemma block_mode_bit: "flags AND BLOCK_MODE_FLAG \<noteq> 0 \<longleftrightarrow> bit flags 7"
  using and_exp_eq_0_iff_not_bit [of flags 7] by (simp add: BLOCK_MODE_FLAG_def)

lemma maxbits_mod: "unat (flags AND MAXBITS_MASK) = unat flags mod 32"
proof -
  have "MAXBITS_MASK = mask 5" by (simp add: MAXBITS_MASK_def mask_eq_exp_minus_1)
  then have "flags AND MAXBITS_MASK = take_bit 5 flags" by (simp add: take_bit_eq_mask)
  then show ?thesis by (simp add: take_bit_eq_mod unat_mod)
qed

lemma take2_magic:
  "2 \<le> length input \<Longrightarrow>
    take 2 input \<noteq> MAGIC \<longleftrightarrow> input ! 0 \<noteq> MAGIC ! 0 \<or> input ! 1 \<noteq> MAGIC ! 1"
  by (cases input; cases "tl input") (auto simp: MAGIC_def)

lemma decode_bounded_eq:
  "decode_bounded alloc input limit =
     (if input = [] then Some (Inr [])
      else if length input < 2 then Some (Inl (Err Truncated))
      else if take 2 input \<noteq> MAGIC then Some (Inl (Err BadMagic))
      else if length input < 3 then Some (Inl (Err Truncated))
      else let maxbits = unat (input ! 2) mod 32 in
        if maxbits < INIT_BITS \<or> MAX_MAXBITS < maxbits then Some (Inl (Err BadMaxBits))
        else map_option (map_ok bytes)
          (decode_codes alloc (drop 3 input) (bit (input ! 2) 7) maxbits limit))"
  unfolding decode_bounded_def Let_def block_mode_bit maxbits_mod
  using take2_magic [of input] by (simp add: not_le not_less)

lemma decode_bounded_lzc:
  assumes "limit \<le> USIZE_MAX" "\<forall>n. alloc n"
  shows "decode_bounded alloc input limit = Some (map_err Err (lzc_bounded input limit))"
proof -
  let ?m = "unat (input ! 2) mod 32"
  have "map_option (map_ok bytes) (decode_codes alloc (drop 3 input) (bit (input ! 2) 7) ?m limit)
      = Some (map_err Err (lzc_decode (drop 3 input) (bit (input ! 2) 7) ?m limit))"
    if "\<not> (?m < INIT_BITS \<or> MAX_MAXBITS < ?m)"
    using that by (intro decode_codes_refines [OF _ _ assms]) simp_all
  then show ?thesis by (auto simp: decode_bounded_eq lzc_bounded_def Let_def)
qed

lemma literal_archive_lzc:
  assumes "length bs \<le> 256"
  shows "lzc_bounded (literal_archive bs) limit =
    (if length bs \<le> limit then Inr bs else Inl SizeLimit)"
proof -
  have "literal_archive bs = MAGIC @ word_of_nat MAX_MAXBITS # literal_data bs"
    by (simp add: literal_archive_def literal_data_def MAGIC_def)
  then show ?thesis
    using literal_decode [OF assms, of limit]
    by (simp add: lzc_bounded_def MAGIC_def MAX_MAXBITS_def INIT_BITS_def bit_numeral_rec)
qed

section \<open>Growing the limit\<close>

lemma lzc_step_text:
  "lzc_step data b m s raw = Inr (w, s') \<Longrightarrow> text_out s' = text_out s @ w"
  by (auto simp: lzc_step_def lzc_code_def lzc_clear_def lzc_enter_def Let_def
      split: option.splits if_splits)

lemma lzc_loop_limit:
  assumes "lzc_loop data b m limit s = Inr s'"
  shows "length (text_out s) \<le> length (text_out s') \<and> (length (text_out s) \<le> limit' \<longrightarrow>
    lzc_loop data b m limit' s = (if length (text_out s') \<le> limit' then Inr s' else Inl SizeLimit))"
  using assms
proof (induction data b m limit s rule: lzc_loop.induct)
  case (1 data b m limit s)
  let ?step = "lzc_step data b m (lzc_advance s) (code_at data (cursor s) (lzc_width s))"
  show ?case
  proof (cases "cursor s + lzc_width s \<le> length data * 8")
    case False
    then have "lzc_loop data b m l s = Inr s" for l by (subst lzc_loop.simps) simp
    with "1.prems" show ?thesis by simp
  next
    case True
    with "1.prems" obtain w u where u: "?step = Inr (w, u)" "lzc_loop data b m limit u = Inr s'"
        "\<not> length (text_out s) + length w > limit"
      by (auto simp: lzc_loop.simps [of data b m limit s] split: sum.splits if_splits)
    have len: "length (text_out u) = length (text_out s) + length w"
      using lzc_step_text [OF u(1)] by (simp add: lzc_advance_def)
    note IH = "1.IH" [OF True u(1) refl u(3,2)]
    have "lzc_loop data b m limit' s =
        (if length (text_out u) > limit' then Inl SizeLimit else lzc_loop data b m limit' u)"
      using True u(1) len by (subst lzc_loop.simps) simp
    with IH len show ?thesis by auto
  qed
qed

lemma lzc_decode_limit:
  assumes "lzc_decode data b m limit = Inr bs"
  shows "lzc_decode data b m limit' = (if length bs \<le> limit' then Inr bs else Inl SizeLimit)"
proof -
  let ?w = "[word_of_nat (code_at data 0 INIT_BITS)]"
  let ?s = "\<lparr>dict = [], previous = ?w, extra = 0, top_code = 2 ^ INIT_BITS - 1,
              cursor = INIT_BITS, boundary = 0, text_out = ?w\<rparr>"
  show ?thesis
  proof (cases "length data * 8 = 0")
    case True
    with assms show ?thesis by (simp add: lzc_decode_def)
  next
    case False
    with assms obtain s' where s': "lzc_loop data b m limit ?s = Inr s'" "text_out s' = bs"
        and good: "cursor s' \<le> length data * 8 \<and> length data * 8 - cursor s' \<le> 7
          \<and> (\<forall>p \<in> {cursor s'..<length data * 8}. \<not> data_bit data p)"
        and head: "\<not> length data * 8 < INIT_BITS" "\<not> code_at data 0 INIT_BITS \<ge> 256"
      by (auto simp: lzc_decode_def Let_def and_then_eq_Inr split: if_splits)
    have unf: "lzc_decode data b m limit' = (if limit' < 1 then Inl SizeLimit
        else and_then (lzc_loop data b m limit' ?s) (\<lambda>s.
          if cursor s \<le> length data * 8 \<and> length data * 8 - cursor s \<le> 7
            \<and> (\<forall>p \<in> {cursor s..<length data * 8}. \<not> data_bit data p)
          then Inr (text_out s) else Inl Truncated))"
      using head False unfolding lzc_decode_def Let_def by simp
    from lzc_loop_limit [OF s'(1), of limit'] s'(2) have
      "1 \<le> length bs" "limit' \<ge> 1 \<Longrightarrow> lzc_loop data b m limit' ?s
        = (if length bs \<le> limit' then Inr s' else Inl SizeLimit)" by simp_all
    then show ?thesis unfolding unf using good s'(2) by (cases "limit' < 1") auto
  qed
qed

lemma lzc_bounded_limit:
  assumes "lzc_bounded input limit = Inr bs"
  shows "lzc_bounded input limit' = (if length bs \<le> limit' then Inr bs else Inl SizeLimit)"
proof (cases "input = []")
  case True
  with assms show ?thesis by (simp add: lzc_bounded_def)
next
  case False
  let ?m = "unat (input ! 2) mod 32"
  from False assms have
    ok: "\<not> length input < 2" "\<not> take 2 input \<noteq> MAGIC" "\<not> length input < 3"
      "\<not> (?m < INIT_BITS \<or> MAX_MAXBITS < ?m)"
    and dec: "lzc_decode (drop 3 input) (bit (input ! 2) 7) ?m limit = Inr bs"
    unfolding lzc_bounded_def Let_def by (simp_all only: if_False split: if_splits) simp_all
  from ok False have "lzc_bounded input limit' = lzc_decode (drop 3 input) (bit (input ! 2) 7) ?m limit'"
    unfolding lzc_bounded_def Let_def by (simp only: if_False)
  with lzc_decode_limit [OF dec] show ?thesis by simp
qed

lemma decode_bounded_replies:
  "\<exists>r. decode_bounded alloc input limit = Some r \<and> r \<noteq> Inl Panic"
proof -
  let ?m = "unat (input ! 2) mod 32"
  have "\<exists>r. decode_codes alloc (drop 3 input) (bit (input ! 2) 7) ?m limit = Some r \<and> r \<noteq> Inl Panic"
    if "\<not> (?m < INIT_BITS \<or> MAX_MAXBITS < ?m)"
    using decode_codes_total [of ?m alloc "drop 3 input" "bit (input ! 2) 7" limit] that
    by (auto simp: not_less)
  then show ?thesis
    unfolding decode_bounded_eq Let_def
    by (auto simp: map_ok_def and_then_eq_Inl)
qed

section \<open>Properties\<close>

text \<open>
  C1. for every input, limit and allocator the decoder terminates and does not panic: every table
  and data index is in range, no unsigned subtraction goes below zero, and unwinding a code always
  reaches a literal.
\<close>

theorem decode_bounded_total:
  "\<exists>r. decode_bounded alloc input limit = Some r \<and> r \<noteq> Inl Panic"
  by (rule decode_bounded_replies)

text \<open>
  C2. decoded output never exceeds the limit, and the vector that holds it never reserved more
  than the limit either.
\<close>

theorem decode_codes_within_limit:
  assumes "INIT_BITS \<le> maxbits" "maxbits \<le> MAX_MAXBITS"
    and "decode_codes alloc data block_mode maxbits limit = Some (Inr v)"
  shows "length (bytes v) \<le> capacity v \<and> capacity v \<le> limit"
  using decode_codes_total [OF assms(1,2), of alloc data block_mode limit] assms(3)
  by (auto simp: vec_inv_def)

lemma decode_codes_sample:
  "decode_codes (\<lambda>_. True) [0x41, 0] False 16 5 = Some (Inr \<lparr>bytes = [0x41], capacity = 5\<rparr>)"
proof -
  have c: "code_at [0x41, 0] 0 9 = 65" by code_simp
  have push: "append_stack (\<lambda>_. True) vec_new [0x41] 5 = Inr \<lparr>bytes = [0x41], capacity = 5\<rparr>"
    by (simp add: append_stack_def reserve_output_def try_reserve_exact_def vec_push_def vec_new_def
        USIZE_MAX_def)
  have pad: "\<forall>p \<in> {9..<16}. \<not> data_bit [0x41, 0] p" by code_simp
  show ?thesis
    by (simp add: decode_codes_unfold decode_loop_unfold INIT_BITS_def c push pad)
qed

theorem decode_codes_within_limit_witness:
  "decode_codes (\<lambda>_. True) [0x41, 0] False 16 5 = Some (Inr \<lparr>bytes = [0x41], capacity = 5\<rparr>)
   \<and> length (bytes \<lparr>bytes = [0x41], capacity = 5\<rparr>) \<le> capacity \<lparr>bytes = [0x41], capacity = 5\<rparr>
   \<and> capacity \<lparr>bytes = [0x41], capacity = 5\<rparr> \<le> 5"
  using decode_codes_within_limit [OF _ _ decode_codes_sample] decode_codes_sample
  by (simp add: INIT_BITS_def MAX_MAXBITS_def)

text \<open>
  C3. with a willing allocator the table-driven decoder (prefix and suffix tables, an unwinding
  stack, geometric reservation) computes exactly what the decoder over a dictionary of strings
  computes, header and every error included.
\<close>

theorem decode_bounded_refines_lzc:
  assumes "limit \<le> USIZE_MAX" "\<forall>n. alloc n"
  shows "decode_bounded alloc input limit = Some (map_err Err (lzc_bounded input limit))"
  using assms by (rule decode_bounded_lzc)

theorem decode_bounded_refines_lzc_witness:
  "decode_bounded (\<lambda>_. True) (literal_archive [0x41]) 5
     = Some (map_err Err (lzc_bounded (literal_archive [0x41]) 5))
   \<and> lzc_bounded (literal_archive [0x41]) 5 = Inr [0x41]"
  using decode_bounded_refines_lzc [of 5 "\<lambda>_. True" "literal_archive [0x41]"]
    literal_archive_lzc [of "[0x41]" 5]
  by (simp add: USIZE_MAX_def)



text \<open>
  the limit only ever cuts off. If an archive decodes to \<open>bs\<close> under some limit, then under any
  other limit it decodes to the same bytes when they fit and reports \<open>SizeLimit\<close> when they do not.
\<close>

theorem decode_bounded_limit_only_cuts:
  assumes "decode_bounded alloc input limit = Some (Inr bs)" "\<forall>n. alloc n"
    and "limit \<le> USIZE_MAX" "limit' \<le> USIZE_MAX"
  shows "decode_bounded alloc input limit' =
    Some (if length bs \<le> limit' then Inr bs else Inl (Err SizeLimit))"
proof -
  have "lzc_bounded input limit = Inr bs"
    using assms(1) decode_bounded_lzc [OF assms(3,2), of input] by (simp add: map_err_eq_Inr)
  from lzc_bounded_limit [OF this, of limit'] show ?thesis
    by (simp add: decode_bounded_lzc [OF assms(4,2)])
qed

theorem decode_bounded_limit_only_cuts_witness:
  "decode_bounded (\<lambda>_. True) (literal_archive [0x41, 0x42]) 9 = Some (Inr [0x41, 0x42])
   \<and> decode_bounded (\<lambda>_. True) (literal_archive [0x41, 0x42]) 1 = Some (Inl (Err SizeLimit))"
proof -
  have "decode_bounded (\<lambda>_. True) (literal_archive [0x41, 0x42]) 9 = Some (Inr [0x41, 0x42])"
    using decode_bounded_lzc [of 9 "\<lambda>_. True"] literal_archive_lzc [of "[0x41, 0x42]" 9]
    by (simp add: USIZE_MAX_def)
  with decode_bounded_limit_only_cuts [OF this, of 1] show ?thesis by (simp add: USIZE_MAX_def)
qed



text \<open>
  the NIF always replies (no divergence, no exception), and its reply tells the three outcomes
  apart: the decoded bytes, a limit reached, or a malformed archive.
\<close>

theorem unix_compress_nif_replies:
  "\<exists>t. data_unix_compress_decompress alloc archive limit = Some (Some t)
    \<and> (\<forall>bs. t = ok_term (Bin bs) \<longleftrightarrow> decode_bounded alloc archive (unat limit) = Some (Inr bs))
    \<and> (t = error_term (Tup [Atom ''decompress'', Atom ''size_limit'']) \<longleftrightarrow>
         decode_bounded alloc archive (unat limit) = Some (Inl (Err SizeLimit)))
    \<and> (t = error_term (Tup [Atom ''decompress'', Atom ''invalid_unix_compress'']) \<longleftrightarrow>
         (\<exists>e. e \<noteq> SizeLimit \<and> decode_bounded alloc archive (unat limit) = Some (Inl (Err e))))"
proof -
  obtain r where r: "decode_bounded alloc archive (unat limit) = Some r" "r \<noteq> Inl Panic"
    using decode_bounded_replies by blast
  show ?thesis
  proof (cases r)
    case (Inr bs)
    with r show ?thesis by (simp add: data_unix_compress_decompress_def)
  next
    case (Inl f)
    with r obtain e where "f = Err e" by (cases f) auto
    with r Inl show ?thesis
      by (cases e) (simp_all add: data_unix_compress_decompress_def)
  qed
qed

end
