(* ===== verification/Text.thy ===== *)
theory Text
  imports Prelude
begin

text \<open>
  Decimal and hexadecimal text of machine integers, as Rust's \<open>Display\<close>, \<open>LowerHex\<close> and
  \<open>FromStr\<close> for integers write and read it.
\<close>

section \<open>Decimal digits\<close>

definition digit_char :: "nat \<Rightarrow> char" where
  "digit_char d = char_of (48 + d)"

definition digit_value :: "char \<Rightarrow> nat option" where
  "digit_value c = (let n = (of_char c :: nat) in if 48 \<le> n \<and> n \<le> 57 then Some (n - 48) else None)"

fun show_nat :: "nat \<Rightarrow> string" where
  "show_nat n = (if n < 10 then [digit_char n] else show_nat (n div 10) @ [digit_char (n mod 10)])"

declare show_nat.simps [simp del]

fun parse_digits :: "nat \<Rightarrow> string \<Rightarrow> nat option" where
  "parse_digits acc [] = Some acc"
| "parse_digits acc (c # cs) =
     (case digit_value c of None \<Rightarrow> None | Some d \<Rightarrow> parse_digits (acc * 10 + d) cs)"

definition parse_nat :: "string \<Rightarrow> nat option" where
  "parse_nat s = (if s = [] then None else parse_digits 0 s)"

lemma digit_value_char [simp]: "d < 10 \<Longrightarrow> digit_value (digit_char d) = Some d"
  by (simp add: digit_value_def digit_char_def)

lemma parse_digits_append:
  "parse_digits acc (xs @ ys) = Option.bind (parse_digits acc xs) (\<lambda>a. parse_digits a ys)"
  by (induction xs arbitrary: acc) (auto split: option.splits)

lemma parse_digits_show: "parse_digits 0 (show_nat n) = Some n"
proof (induction n rule: show_nat.induct)
  case (1 n)
  then show ?case
    by (subst show_nat.simps) (auto simp: parse_digits_append)
qed

lemma show_nat_nonempty [simp]: "show_nat n \<noteq> []"
  by (subst show_nat.simps) simp

lemma show_nat_digit: "\<exists>c cs d. show_nat n = c # cs \<and> digit_value c = Some d"
proof (induction n rule: show_nat.induct)
  case (1 n)
  then show ?case
    by (cases "n < 10") (subst show_nat.simps, fastforce)+
qed

lemma parse_show_nat [simp]: "parse_nat (show_nat n) = Some n"
  by (simp add: parse_nat_def parse_digits_show)

lemma show_nat_inj [simp]: "show_nat m = show_nat n \<longleftrightarrow> m = n"
  by (metis option.inject parse_show_nat)

section \<open>Signed and unsigned integers\<close>

text \<open>\<open>str::parse\<close>: an optional sign (\<open>-\<close> only for signed types), at least one digit, and a value
  in range.\<close>

definition parse_unsigned :: "nat \<Rightarrow> string \<Rightarrow> nat option" where
  "parse_unsigned bits s =
     (let digits = (case s of c # cs \<Rightarrow> if c = CHR ''+'' then cs else s | [] \<Rightarrow> []) in
      case parse_nat digits of
        Some n \<Rightarrow> if n < 2 ^ bits then Some n else None
      | None \<Rightarrow> None)"

definition parse_signed :: "nat \<Rightarrow> string \<Rightarrow> int option" where
  "parse_signed bits s =
     (case s of
        c # cs \<Rightarrow>
          if c = CHR ''-'' then
            (case parse_nat cs of
               Some n \<Rightarrow> if n \<le> 2 ^ (bits - 1) then Some (- int n) else None
             | None \<Rightarrow> None)
          else
            (case parse_nat (if c = CHR ''+'' then cs else s) of
               Some n \<Rightarrow> if n < 2 ^ (bits - 1) then Some (int n) else None
             | None \<Rightarrow> None)
      | [] \<Rightarrow> None)"

definition show_int :: "int \<Rightarrow> string" where
  "show_int i = (if i < 0 then CHR ''-'' # show_nat (nat (- i)) else show_nat (nat i))"

definition parse_u8 :: "string \<Rightarrow> u8 option" where
  "parse_u8 s = map_option word_of_nat (parse_unsigned 8 s)"

definition parse_i32 :: "string \<Rightarrow> i32 option" where
  "parse_i32 s = map_option word_of_int (parse_signed 32 s)"

definition show_u8 :: "u8 \<Rightarrow> string" where
  "show_u8 x = show_nat (unat x)"

definition show_i32 :: "i32 \<Rightarrow> string" where
  "show_i32 x = show_int (sint x)"

lemma digit_value_sign [simp]:
  "digit_value CHR ''+'' = None" "digit_value CHR ''-'' = None"
  by (simp_all add: digit_value_def)

lemma parse_show_u8 [simp]: "parse_u8 (show_u8 x) = Some x"
proof -
  obtain c cs d where "show_nat (unat x) = c # cs" "digit_value c = Some d"
    using show_nat_digit by blast
  then have "parse_unsigned 8 (show_nat (unat x)) = Some (unat x)"
    using unat_u8_less [of x] parse_show_nat [of "unat x"]
    by (auto simp: parse_unsigned_def)
  then show ?thesis by (simp add: parse_u8_def show_u8_def)
qed

lemma show_u8_nonempty [simp]: "show_u8 x \<noteq> []"
  by (simp add: show_u8_def)

lemma sint_i32_bounds: "- (2 ^ 31) \<le> sint (x :: i32)" "sint (x :: i32) < 2 ^ 31"
  using sint_greater_eq [of x] sint_less [of x] by simp_all

lemma parse_show_i32 [simp]: "parse_i32 (show_i32 x) = Some x"
proof -
  obtain c cs d where "show_nat (nat (sint x)) = c # cs" "digit_value c = Some d"
    using show_nat_digit by blast
  then have "parse_signed 32 (show_int (sint x)) = Some (sint x)"
    using sint_i32_bounds [of x] parse_show_nat [of "nat (sint x)"]
    by (auto simp: parse_signed_def show_int_def nat_le_iff nat_less_iff)
  then show ?thesis by (simp add: parse_i32_def show_i32_def)
qed

section \<open>Sixteen hexadecimal digits\<close>

definition hex_digit :: "nat \<Rightarrow> char" where
  "hex_digit d = ''0123456789abcdef'' ! d"

definition show_hex16 :: "u64 \<Rightarrow> string" where
  "show_hex16 w = map (\<lambda>i. hex_digit (unat w div 16 ^ (15 - i) mod 16)) [0..<16]"

lemma hex_digit_inj: "a < 16 \<Longrightarrow> b < 16 \<Longrightarrow> hex_digit a = hex_digit b \<Longrightarrow> a = b"
proof -
  have "distinct ''0123456789abcdef''" by simp
  then show "a < 16 \<Longrightarrow> b < 16 \<Longrightarrow> hex_digit a = hex_digit b \<Longrightarrow> a = b"
    unfolding hex_digit_def by (subst (asm) nth_eq_iff_index_eq) simp_all
qed

lemma hex_digits_determine:
  fixes a b :: nat
  assumes "\<And>j. j < n \<Longrightarrow> a div 16 ^ j mod 16 = b div 16 ^ j mod 16" "a < 16 ^ n" "b < 16 ^ n"
  shows "a = b"
  using assms
proof (induction n arbitrary: a b)
  case (Suc n)
  have "a div 16 div 16 ^ j mod 16 = b div 16 div 16 ^ j mod 16" if "j < n" for j
    using Suc.prems(1) [of "Suc j"] that by (simp add: div_mult2_eq)
  moreover have "a div 16 < 16 ^ n" "b div 16 < 16 ^ n"
    using Suc.prems(2,3) by (simp_all add: less_mult_imp_div_less mult.commute)
  ultimately have "a div 16 = b div 16" by (rule Suc.IH)
  moreover have "a mod 16 = b mod 16" using Suc.prems(1) [of 0] by simp
  ultimately show ?case by (metis div_mult_mod_eq)
qed simp

lemma show_hex16_nth: "j < 16 \<Longrightarrow> show_hex16 w ! (15 - j) = hex_digit (unat w div 16 ^ j mod 16)"
  unfolding show_hex16_def by (subst nth_map) (simp_all del: upt_Suc upt_rec_numeral)

lemma show_hex16_inj [simp]: "show_hex16 a = show_hex16 b \<longleftrightarrow> a = b"
proof
  assume eq: "show_hex16 a = show_hex16 b"
  have "unat a div 16 ^ j mod 16 = unat b div 16 ^ j mod 16" if "j < 16" for j
    using show_hex16_nth [OF that, of a] show_hex16_nth [OF that, of b] eq
    by (metis hex_digit_inj mod_less_divisor zero_less_numeral)
  moreover have "unat a < 16 ^ 16" "unat b < 16 ^ 16"
    using unsigned_less [of a, where ?'a = nat] unsigned_less [of b, where ?'a = nat] by simp_all
  ultimately have "unat a = unat b" by (rule hex_digits_determine)
  then show "a = b" by (rule unsigned_word_eqI)
qed simp

end
