(* ===== verification/Catalog.thy ===== *)
theory Catalog
  imports Text
begin

text \<open>
  The product catalogue boundary of \<open>native/sidereon_nif/src/data.rs\<close>: sixteen text fields to a
  product identity and back, the lossless projection of catalogue errors, and their terms.

  The catalogue itself is \<open>sidereon-core\<close>: its parsers, codes, date and identity validation and
  \<open>Display\<close> are the fields of \<open>data_core\<close>, and \<open>core_text_laws\<close> names what the binding relies on.
  Analysis centres and product types stay opaque (\<open>'ac\<close>, \<open>'pt\<close>). The enums whose variants the
  binding names get those variants and one more constructor for variants it does not name.
\<close>

section \<open>Core data\<close>

datatype DistributionSource = Direct | NasaCddis | LocalFile | InMemory | OtherSource nat
datatype ProductPublisher = Igs | Code | Esa | Gfz | Whu | OtherPublisher nat
datatype SolutionClass =
  Final | Rapid | UltraRapid | Predicted | BroadcastSolution | NearRealTime | OtherSolution nat
datatype ProductCampaign =
  Operational | MultiGnss | MultiGnssExperiment | BroadcastCampaign | OtherCampaign nat
datatype ProductFormat = Sp3 | Ionex | RinexClock | RinexNavigation | OtherFormat nat

record ProductDate =
  date_year :: i32
  date_month :: u8
  date_day :: u8

record ProductDateTime =
  dt_date :: ProductDate
  dt_hour :: u8
  dt_minute :: u8
  dt_second :: u8

record ('ac, 'pt) ProductIdentity =
  pi_family :: 'pt
  pi_analysis_center :: 'ac
  pi_publisher :: ProductPublisher
  pi_solution :: SolutionClass
  pi_campaign :: ProductCampaign
  pi_version :: u8
  pi_date :: ProductDate
  pi_issue :: "string option"
  pi_span :: string
  pi_sample :: string
  pi_official_filename :: string
  pi_format :: ProductFormat
  pi_format_version :: "string option"
  pi_prediction_horizon_days :: "u8 option"

datatype ('ac, 'pt) DataCatalogError =
    UnknownCenter string
  | UnknownProductType string
  | UnsupportedProduct 'ac 'pt
  | UnsupportedDistribution DistributionSource 'pt
  | UnsupportedProductEra 'ac 'pt ProductDate
  | UnsupportedDistributionEra DistributionSource 'ac 'pt ProductDate
  | NoDistributionSources
  | InvalidOfficialFilename string
  | InconsistentProductIdentity string
  | NoOpenMirror string string
  | InvalidDate i32 u8 u8
  | DateOutOfRange
  | DateBeforeGpsEpoch ProductDate
  | InvalidGpsDayOfWeek u8
  | InvalidSample string
  | UnsupportedSample 'ac 'pt string
  | InvalidSpan string
  | InvalidIssue string
  | MissingIssue 'ac
  | UnexpectedIssue 'ac
  | UnsupportedIssue 'ac string
  | InvalidDateTime u8 u8 u8
  | NoUltraIssue
  | NoAvailableUltraIssue
  | UnsupportedNominalSchedule 'ac 'pt
  | UnrecognizedArchiveListing string
  | InvalidStation string
  | InvalidCoordinate u64 u64
  | InvalidTileIndex i32 i32
  | InvalidTileId string

type_synonym ('ac, 'pt, 'a) catalog = "('ac, 'pt) DataCatalogError + 'a"

record ('ac, 'pt) data_core =
  center_from_str :: "string \<Rightarrow> ('ac, 'pt, 'ac) catalog"
  center_code :: "'ac \<Rightarrow> string"
  product_type_from_str :: "string \<Rightarrow> ('ac, 'pt, 'pt) catalog"
  product_type_code :: "'pt \<Rightarrow> string"
  source_code :: "DistributionSource \<Rightarrow> string"
  publisher_code :: "ProductPublisher \<Rightarrow> string"
  solution_code :: "SolutionClass \<Rightarrow> string"
  campaign_code :: "ProductCampaign \<Rightarrow> string"
  format_code :: "ProductFormat \<Rightarrow> string"
  product_date_new :: "i32 \<Rightarrow> u8 \<Rightarrow> u8 \<Rightarrow> ('ac, 'pt, ProductDate) catalog"
  product_datetime_new :: "ProductDate \<Rightarrow> u8 \<Rightarrow> u8 \<Rightarrow> u8 \<Rightarrow> ('ac, 'pt, ProductDateTime) catalog"
  identity_validate :: "('ac, 'pt) ProductIdentity \<Rightarrow> ('ac, 'pt, unit) catalog"
  error_display :: "('ac, 'pt) DataCatalogError \<Rightarrow> string"

text \<open>
  What the binding relies on: \<open>FromStr\<close> reads back what \<open>code()\<close> writes, the codes of the named
  variants are the texts the binding matches on, distinct distribution sources have distinct codes,
  and \<open>ProductDate::new\<close> only checks the calendar: the date it returns has the three numbers given.
\<close>

definition core_text_laws :: "('ac, 'pt) data_core \<Rightarrow> bool" where
  "core_text_laws C \<longleftrightarrow>
     (\<forall>a. center_from_str C (center_code C a) = Inr a) \<and>
     (\<forall>p. product_type_from_str C (product_type_code C p) = Inr p) \<and>
     map (publisher_code C) [Igs, Code, Esa, Gfz, Whu] = [''IGS'', ''COD'', ''ESA'', ''GFZ'', ''WUM''] \<and>
     map (solution_code C) [Final, Rapid, UltraRapid, Predicted, BroadcastSolution, NearRealTime] =
       [''final'', ''rapid'', ''ultra_rapid'', ''predicted'', ''broadcast'', ''near_real_time''] \<and>
     map (campaign_code C) [Operational, MultiGnss, MultiGnssExperiment, BroadcastCampaign] =
       [''OPS'', ''MGN'', ''MGX'', ''BRD''] \<and>
     map (format_code C) [Sp3, Ionex, RinexClock, RinexNavigation] =
       [''SP3'', ''IONEX'', ''RINEX_CLK'', ''RINEX_NAV''] \<and>
     map (source_code C) [Direct, NasaCddis, LocalFile, InMemory] =
       [''direct'', ''nasa_cddis'', ''local_file'', ''in_memory''] \<and>
     inj (source_code C) \<and>
     (\<forall>y m d date. product_date_new C y m d = Inr date \<longrightarrow>
        date = \<lparr>date_year = y, date_month = m, date_day = d\<rparr>)"

section \<open>Parsing the identity fields\<close>

definition center :: "('ac, 'pt) data_core \<Rightarrow> string \<Rightarrow> ('ac, 'pt, 'ac) catalog" where
  "center C code = center_from_str C code"

definition product_type :: "('ac, 'pt) data_core \<Rightarrow> string \<Rightarrow> ('ac, 'pt, 'pt) catalog" where
  "product_type C code = product_type_from_str C code"

definition identity_field_error :: "string \<Rightarrow> ('ac, 'pt) DataCatalogError" where
  "identity_field_error field = InconsistentProductIdentity field"

definition distribution_source :: "string \<Rightarrow> ('ac, 'pt, DistributionSource) catalog" where
  "distribution_source code =
     (if code = ''direct'' then Inr Direct
      else if code = ''nasa_cddis'' then Inr NasaCddis
      else if code = ''local_file'' then Inr LocalFile
      else if code = ''in_memory'' then Inr InMemory
      else Inl (InconsistentProductIdentity ''distribution_source''))"

definition publisher_field :: "string \<Rightarrow> ('ac, 'pt, ProductPublisher) catalog" where
  "publisher_field s =
     (if s = ''IGS'' then Inr Igs
      else if s = ''COD'' then Inr Code
      else if s = ''ESA'' then Inr Esa
      else if s = ''GFZ'' then Inr Gfz
      else if s = ''WUM'' then Inr Whu
      else Inl (identity_field_error ''publisher''))"

definition solution_field :: "string \<Rightarrow> ('ac, 'pt, SolutionClass) catalog" where
  "solution_field s =
     (if s = ''final'' then Inr Final
      else if s = ''rapid'' then Inr Rapid
      else if s = ''ultra_rapid'' then Inr UltraRapid
      else if s = ''predicted'' then Inr Predicted
      else if s = ''broadcast'' then Inr BroadcastSolution
      else if s = ''near_real_time'' then Inr NearRealTime
      else Inl (identity_field_error ''solution_class''))"

definition campaign_field :: "string \<Rightarrow> ('ac, 'pt, ProductCampaign) catalog" where
  "campaign_field s =
     (if s = ''OPS'' then Inr Operational
      else if s = ''MGN'' then Inr MultiGnss
      else if s = ''MGX'' then Inr MultiGnssExperiment
      else if s = ''BRD'' then Inr BroadcastCampaign
      else Inl (identity_field_error ''campaign''))"

definition format_field :: "string \<Rightarrow> ('ac, 'pt, ProductFormat) catalog" where
  "format_field s =
     (if s = ''SP3'' then Inr Sp3
      else if s = ''IONEX'' then Inr Ionex
      else if s = ''RINEX_CLK'' then Inr RinexClock
      else if s = ''RINEX_NAV'' then Inr RinexNavigation
      else Inl (identity_field_error ''format''))"

definition horizon_field :: "string \<Rightarrow> ('ac, 'pt, u8 option) catalog" where
  "horizon_field s =
     (if s = [] then Inr None
      else map_ok Some (ok_or (identity_field_error ''prediction_horizon_days'') (parse_u8 s)))"

definition text_field :: "string \<Rightarrow> string option" where
  "text_field s = (if s = [] then None else Some s)"

definition product_identity ::
  "('ac, 'pt) data_core \<Rightarrow> string list \<Rightarrow> ('ac, 'pt, ('ac, 'pt) ProductIdentity) catalog" where
  "product_identity C fs =
     (if length fs \<noteq> 16 then Inl (identity_field_error ''field_count'')
      else
        and_then (product_type C (fs ! 0)) (\<lambda>family.
        and_then (center C (fs ! 1)) (\<lambda>analysis_center.
        and_then (publisher_field (fs ! 2)) (\<lambda>publisher.
        and_then (solution_field (fs ! 3)) (\<lambda>solution.
        and_then (campaign_field (fs ! 4)) (\<lambda>campaign.
        and_then (ok_or (identity_field_error ''filename_version'') (parse_u8 (fs ! 5))) (\<lambda>version.
        and_then (ok_or (identity_field_error ''date'') (parse_i32 (fs ! 6))) (\<lambda>year.
        and_then (ok_or (identity_field_error ''date'') (parse_u8 (fs ! 7))) (\<lambda>month.
        and_then (ok_or (identity_field_error ''date'') (parse_u8 (fs ! 8))) (\<lambda>day.
        and_then (format_field (fs ! 13)) (\<lambda>format.
        and_then (horizon_field (fs ! 15)) (\<lambda>horizon.
        and_then (product_date_new C year month day) (\<lambda>date.
        let identity =
          \<lparr>pi_family = family, pi_analysis_center = analysis_center, pi_publisher = publisher,
           pi_solution = solution, pi_campaign = campaign, pi_version = version, pi_date = date,
           pi_issue = text_field (fs ! 9), pi_span = fs ! 10, pi_sample = fs ! 11,
           pi_official_filename = fs ! 12, pi_format = format,
           pi_format_version = text_field (fs ! 14),
           pi_prediction_horizon_days = horizon\<rparr> in
        and_then (identity_validate C identity) (\<lambda>_. Inr identity))))))))))))))"

definition unwrap_or_default :: "string option \<Rightarrow> string" where
  "unwrap_or_default x = (case x of None \<Rightarrow> [] | Some s \<Rightarrow> s)"

definition product_identity_fields ::
  "('ac, 'pt) data_core \<Rightarrow> ('ac, 'pt) ProductIdentity \<Rightarrow> string list" where
  "product_identity_fields C i =
     [product_type_code C (pi_family i),
      center_code C (pi_analysis_center i),
      publisher_code C (pi_publisher i),
      solution_code C (pi_solution i),
      campaign_code C (pi_campaign i),
      show_u8 (pi_version i),
      show_i32 (date_year (pi_date i)),
      show_u8 (date_month (pi_date i)),
      show_u8 (date_day (pi_date i)),
      unwrap_or_default (pi_issue i),
      pi_span i,
      pi_sample i,
      pi_official_filename i,
      format_code C (pi_format i),
      unwrap_or_default (pi_format_version i),
      (case pi_prediction_horizon_days i of None \<Rightarrow> [] | Some days \<Rightarrow> show_u8 days)]"

text \<open>\<open>u8::try_from\<close> on an \<open>i32\<close>, and the civil dates and instants of the calls.\<close>

definition u8_try_from :: "i32 \<Rightarrow> u8 option" where
  "u8_try_from x = (if 0 \<le> sint x \<and> sint x < 256 then Some (word_of_int (sint x)) else None)"

definition product_date ::
  "('ac, 'pt) data_core \<Rightarrow> i32 \<Rightarrow> i32 \<Rightarrow> i32 \<Rightarrow> ('ac, 'pt, ProductDate) catalog" where
  "product_date C year month day =
     and_then (ok_or DateOutOfRange (u8_try_from month)) (\<lambda>month.
     and_then (ok_or DateOutOfRange (u8_try_from day)) (\<lambda>day.
     product_date_new C year month day))"

definition product_datetime ::
  "('ac, 'pt) data_core \<Rightarrow> i32 \<Rightarrow> i32 \<Rightarrow> i32 \<Rightarrow> i32 \<Rightarrow> i32 \<Rightarrow> i32 \<Rightarrow>
   ('ac, 'pt, ProductDateTime) catalog" where
  "product_datetime C year month day hour minute second =
     and_then (product_date C year month day) (\<lambda>date.
     and_then (ok_or DateOutOfRange (u8_try_from hour)) (\<lambda>hour.
     and_then (ok_or DateOutOfRange (u8_try_from minute)) (\<lambda>minute.
     and_then (ok_or DateOutOfRange (u8_try_from second)) (\<lambda>second.
     product_datetime_new C date hour minute second))))"

section \<open>Error projection\<close>

datatype CatalogProjectionValue = Text string | I32 i32 | U8 u8 | Date ProductDate

record CatalogErrorProjection =
  proj_kind :: string
  proj_fields :: "(string \<times> CatalogProjectionValue) list"
  proj_message :: string

primrec projection_parts ::
  "('ac, 'pt) data_core \<Rightarrow> ('ac, 'pt) DataCatalogError \<Rightarrow>
   string \<times> (string \<times> CatalogProjectionValue) list" where
  "projection_parts C (UnknownCenter v) = (''unknown_center'', [(''value'', Text v)])"
| "projection_parts C (UnknownProductType v) = (''unknown_product_type'', [(''value'', Text v)])"
| "projection_parts C (UnsupportedProduct ac pt) =
     (''unsupported_product'',
      [(''center'', Text (center_code C ac)), (''product_type'', Text (product_type_code C pt))])"
| "projection_parts C (UnsupportedDistribution src pt) =
     (''unsupported_distribution'',
      [(''source'', Text (source_code C src)), (''product_type'', Text (product_type_code C pt))])"
| "projection_parts C (UnsupportedProductEra ac pt date) =
     (''unsupported_product_era'',
      [(''center'', Text (center_code C ac)), (''product_type'', Text (product_type_code C pt)),
       (''date'', Date date)])"
| "projection_parts C (UnsupportedDistributionEra src ac pt date) =
     (''unsupported_distribution_era'',
      [(''source'', Text (source_code C src)), (''center'', Text (center_code C ac)),
       (''product_type'', Text (product_type_code C pt)), (''date'', Date date)])"
| "projection_parts C NoDistributionSources = (''no_distribution_sources'', [])"
| "projection_parts C (InvalidOfficialFilename v) =
     (''invalid_official_filename'', [(''value'', Text v)])"
| "projection_parts C (InconsistentProductIdentity field) =
     (''inconsistent_product_identity'', [(''field'', Text field)])"
| "projection_parts C (NoOpenMirror ac pt) =
     (''no_open_mirror'', [(''center'', Text ac), (''product_type'', Text pt)])"
| "projection_parts C (InvalidDate y m d) =
     (''invalid_date'', [(''year'', I32 y), (''month'', U8 m), (''day'', U8 d)])"
| "projection_parts C DateOutOfRange = (''date_out_of_range'', [])"
| "projection_parts C (DateBeforeGpsEpoch date) = (''date_before_gps_epoch'', [(''date'', Date date)])"
| "projection_parts C (InvalidGpsDayOfWeek d) = (''invalid_gps_day_of_week'', [(''gps_day'', U8 d)])"
| "projection_parts C (InvalidSample v) = (''invalid_sample'', [(''value'', Text v)])"
| "projection_parts C (UnsupportedSample ac pt s) =
     (''unsupported_sample'',
      [(''center'', Text (center_code C ac)), (''product_type'', Text (product_type_code C pt)),
       (''sample'', Text s)])"
| "projection_parts C (InvalidSpan v) = (''invalid_span'', [(''value'', Text v)])"
| "projection_parts C (InvalidIssue v) = (''invalid_issue'', [(''value'', Text v)])"
| "projection_parts C (MissingIssue ac) = (''missing_issue'', [(''center'', Text (center_code C ac))])"
| "projection_parts C (UnexpectedIssue ac) =
     (''unexpected_issue'', [(''center'', Text (center_code C ac))])"
| "projection_parts C (UnsupportedIssue ac v) =
     (''unsupported_issue'', [(''center'', Text (center_code C ac)), (''issue'', Text v)])"
| "projection_parts C (InvalidDateTime h m s) =
     (''invalid_date_time'', [(''hour'', U8 h), (''minute'', U8 m), (''second'', U8 s)])"
| "projection_parts C NoUltraIssue = (''no_ultra_issue'', [])"
| "projection_parts C NoAvailableUltraIssue = (''no_available_ultra_issue'', [])"
| "projection_parts C (UnsupportedNominalSchedule ac pt) =
     (''unsupported_nominal_schedule'',
      [(''center'', Text (center_code C ac)), (''product_type'', Text (product_type_code C pt))])"
| "projection_parts C (UnrecognizedArchiveListing r) =
     (''unrecognized_archive_listing'', [(''reason'', Text r)])"
| "projection_parts C (InvalidStation v) = (''invalid_station'', [(''value'', Text v)])"
| "projection_parts C (InvalidCoordinate lat lon) =
     (''invalid_coordinate'',
      [(''lat_deg_bits'', Text (show_hex16 lat)), (''lon_deg_bits'', Text (show_hex16 lon))])"
| "projection_parts C (InvalidTileIndex lat lon) =
     (''invalid_tile_index'', [(''lat_index'', I32 lat), (''lon_index'', I32 lon)])"
| "projection_parts C (InvalidTileId v) = (''invalid_tile_id'', [(''value'', Text v)])"

definition catalog_error_projection ::
  "('ac, 'pt) data_core \<Rightarrow> ('ac, 'pt) DataCatalogError \<Rightarrow> CatalogErrorProjection" where
  "catalog_error_projection C e =
     \<lparr>proj_kind = fst (projection_parts C e), proj_fields = snd (projection_parts C e),
      proj_message = error_display C e\<rparr>"

text \<open>The fixed vocabulary: any other name panics.\<close>

definition catalog_vocabulary :: "string list" where
  "catalog_vocabulary =
     [''unknown_center'', ''unknown_product_type'', ''unsupported_product'',
      ''unsupported_distribution'', ''unsupported_product_era'', ''unsupported_distribution_era'',
      ''no_distribution_sources'', ''invalid_official_filename'', ''inconsistent_product_identity'',
      ''no_open_mirror'', ''invalid_date'', ''date_out_of_range'', ''date_before_gps_epoch'',
      ''invalid_gps_day_of_week'', ''invalid_sample'', ''unsupported_sample'', ''invalid_span'',
      ''invalid_issue'', ''missing_issue'', ''unexpected_issue'', ''unsupported_issue'',
      ''invalid_date_time'', ''no_ultra_issue'', ''no_available_ultra_issue'',
      ''unsupported_nominal_schedule'', ''unrecognized_archive_listing'', ''invalid_station'',
      ''invalid_coordinate'', ''invalid_tile_index'', ''invalid_tile_id'',
      ''value'', ''center'', ''product_type'', ''source'', ''date'', ''field'', ''year'', ''month'',
      ''day'', ''gps_day'', ''sample'', ''issue'', ''hour'', ''minute'', ''second'', ''reason'',
      ''lat_deg_bits'', ''lon_deg_bits'', ''lat_index'', ''lon_index'']"

definition catalog_atom :: "string \<Rightarrow> unit fault + string" where
  "catalog_atom name = (if name \<in> set catalog_vocabulary then Inr name else Inl Panic)"

definition date_term :: "ProductDate \<Rightarrow> nterm" where
  "date_term d = Tup [enc_i32 (date_year d), enc_u8 (date_month d), enc_u8 (date_day d)]"

fun catalog_projection_value_term :: "CatalogProjectionValue \<Rightarrow> nterm" where
  "catalog_projection_value_term (Text v) = Utf8 v"
| "catalog_projection_value_term (I32 v) = enc_i32 v"
| "catalog_projection_value_term (U8 v) = enc_u8 v"
| "catalog_projection_value_term (Date v) = date_term v"

fun put_projection_fields ::
  "(string \<times> CatalogProjectionValue) list \<Rightarrow> (string \<times> nterm) list \<Rightarrow>
   unit fault + (string \<times> nterm) list" where
  "put_projection_fields [] d = Inr d"
| "put_projection_fields ((name, v) # rest) d =
     and_then (catalog_atom name) (\<lambda>k.
       put_projection_fields rest (map_put k (catalog_projection_value_term v) d))"

definition catalog_projection_term :: "CatalogErrorProjection \<Rightarrow> unit fault + nterm" where
  "catalog_projection_term p =
     and_then (catalog_atom (proj_kind p)) (\<lambda>kind.
       map_ok Dict (put_projection_fields (proj_fields p)
         (map_put ''message'' (Utf8 (proj_message p)) (map_put ''kind'' (Atom kind) []))))"

text \<open>The historical tuples keep their shape; every other error carries its full projection.\<close>

definition catalog_detail ::
  "('ac, 'pt) data_core \<Rightarrow> ('ac, 'pt) DataCatalogError \<Rightarrow> unit fault + nterm" where
  "catalog_detail C e =
     map_ok (\<lambda>m. error_term (Tup [Atom ''unsupported_product'', Tup [Atom ''catalog_error'', m]]))
       (catalog_projection_term (catalog_error_projection C e))"

fun encode_catalog_error ::
  "('ac, 'pt) data_core \<Rightarrow> ('ac, 'pt) DataCatalogError \<Rightarrow> unit fault + nterm" where
  "encode_catalog_error C (UnknownCenter code) =
     Inr (error_term (Tup [Atom ''unknown_center'', Utf8 code]))"
| "encode_catalog_error C (UnknownProductType code) =
     Inr (error_term (Tup [Atom ''unsupported_product'', Tup [Atom ''unknown_product_type'', Utf8 code]]))"
| "encode_catalog_error C (UnsupportedProduct ac pt) =
     Inr (error_term (Tup [Atom ''unsupported_product'',
       Utf8 (center_code C ac @ ''/'' @ product_type_code C pt)]))"
| "encode_catalog_error C (NoOpenMirror ac pt) =
     Inr (error_term (Tup [Atom ''unsupported_product'',
       Tup [Atom ''no_open_mirror'', Utf8 ac, Utf8 pt]]))"
| "encode_catalog_error C (InvalidCoordinate lat lon) =
     Inr (error_term (Tup [Atom ''invalid_coordinate'', Float lat, Float lon]))"
| "encode_catalog_error C (InvalidTileIndex lat lon) =
     Inr (error_term (Tup [Atom ''invalid_tile_index'', enc_i32 lat, enc_i32 lon]))"
| "encode_catalog_error C (InvalidTileId v) =
     Inr (error_term (Tup [Atom ''invalid_tile_id'', Utf8 v]))"
| "encode_catalog_error C (UnrecognizedArchiveListing r) =
     Inr (error_term (Tup [Atom ''unrecognized_archive_listing'', Utf8 r]))"
| "encode_catalog_error C e = catalog_detail C e"

datatype HgtConversionError = BadLength u64 u64 | HgtInvalidTileIndex i32 i32

fun encode_hgt_error :: "HgtConversionError \<Rightarrow> nterm" where
  "encode_hgt_error (BadLength expected got) =
     error_term (Tup [Atom ''decompress'', Tup [Atom ''bad_hgt_length'', enc_u64 expected, enc_u64 got]])"
| "encode_hgt_error (HgtInvalidTileIndex lat lon) =
     error_term (Tup [Atom ''invalid_tile_index'', enc_i32 lat, enc_i32 lon])"

definition encode_result ::
  "('ac, 'pt) data_core \<Rightarrow> ('ac, 'pt, 'a) catalog \<Rightarrow> ('a \<Rightarrow> nterm) \<Rightarrow> unit fault + nterm" where
  "encode_result C result encode_ok =
     (case result of
        Inr v \<Rightarrow> Inr (ok_term (encode_ok v))
      | Inl e \<Rightarrow> encode_catalog_error C e)"

definition encode_result_with_catalog_details ::
  "('ac, 'pt) data_core \<Rightarrow> ('ac, 'pt, 'a) catalog \<Rightarrow> ('a \<Rightarrow> nterm) \<Rightarrow> unit fault + nterm" where
  "encode_result_with_catalog_details C result encode_ok =
     (case result of
        Inr v \<Rightarrow> Inr (ok_term (encode_ok v))
      | Inl e \<Rightarrow> catalog_detail C e)"

end
