(* ===== verification/Catalog_Props.thy ===== *)
theory Catalog_Props
  imports Catalog
begin

text \<open>
  Properties of the catalogue boundary: identities survive the sixteen fields, every catalogue
  error encodes without a panic, and different errors have different terms.
\<close>

section \<open>What the core laws give\<close>

lemma core_text_simps:
  assumes "core_text_laws C"
  shows "center_from_str C (center_code C a) = Inr a"
    "product_type_from_str C (product_type_code C p) = Inr p"
    "publisher_code C Igs = ''IGS''" "publisher_code C Code = ''COD''" "publisher_code C Esa = ''ESA''"
    "publisher_code C Gfz = ''GFZ''" "publisher_code C Whu = ''WUM''"
    "solution_code C Final = ''final''" "solution_code C Rapid = ''rapid''"
    "solution_code C UltraRapid = ''ultra_rapid''" "solution_code C Predicted = ''predicted''"
    "solution_code C BroadcastSolution = ''broadcast''"
    "solution_code C NearRealTime = ''near_real_time''"
    "campaign_code C Operational = ''OPS''" "campaign_code C MultiGnss = ''MGN''"
    "campaign_code C MultiGnssExperiment = ''MGX''" "campaign_code C BroadcastCampaign = ''BRD''"
    "format_code C Sp3 = ''SP3''" "format_code C Ionex = ''IONEX''"
    "format_code C RinexClock = ''RINEX_CLK''" "format_code C RinexNavigation = ''RINEX_NAV''"
    "source_code C Direct = ''direct''" "source_code C NasaCddis = ''nasa_cddis''"
    "source_code C LocalFile = ''local_file''" "source_code C InMemory = ''in_memory''"
  using assms by (simp_all add: core_text_laws_def)

lemma core_codes_inj:
  assumes "core_text_laws C"
  shows "inj (center_code C)" "inj (product_type_code C)" "inj (source_code C)"
proof -
  show "inj (center_code C)"
    using assms by (intro injI) (metis core_text_simps(1) sum.inject(2))
  show "inj (product_type_code C)"
    using assms by (intro injI) (metis core_text_simps(2) sum.inject(2))
  show "inj (source_code C)" using assms by (simp add: core_text_laws_def)
qed

lemma core_date_new:
  "core_text_laws C \<Longrightarrow> product_date_new C y m d = Inr date \<Longrightarrow>
   date = \<lparr>date_year = y, date_month = m, date_day = d\<rparr>"
  by (simp add: core_text_laws_def)

section \<open>Identity fields\<close>

text \<open>The identities the field list can express: every enum value is one the binding names, and no
  optional text is present but empty (an absent text and an empty one share the empty field).\<close>

definition expressible :: "('ac, 'pt) ProductIdentity \<Rightarrow> bool" where
  "expressible i \<longleftrightarrow>
     (case pi_publisher i of OtherPublisher _ \<Rightarrow> False | _ \<Rightarrow> True) \<and>
     (case pi_solution i of OtherSolution _ \<Rightarrow> False | _ \<Rightarrow> True) \<and>
     (case pi_campaign i of OtherCampaign _ \<Rightarrow> False | _ \<Rightarrow> True) \<and>
     (case pi_format i of OtherFormat _ \<Rightarrow> False | _ \<Rightarrow> True) \<and>
     pi_issue i \<noteq> Some [] \<and> pi_format_version i \<noteq> Some []"

lemma publisher_field_code:
  "core_text_laws C \<Longrightarrow> (case p of OtherPublisher _ \<Rightarrow> False | _ \<Rightarrow> True) \<Longrightarrow>
   publisher_field (publisher_code C p) = Inr p"
  by (cases p) (simp_all add: publisher_field_def core_text_simps)

lemma solution_field_code:
  "core_text_laws C \<Longrightarrow> (case p of OtherSolution _ \<Rightarrow> False | _ \<Rightarrow> True) \<Longrightarrow>
   solution_field (solution_code C p) = Inr p"
  by (cases p) (simp_all add: solution_field_def core_text_simps)

lemma campaign_field_code:
  "core_text_laws C \<Longrightarrow> (case p of OtherCampaign _ \<Rightarrow> False | _ \<Rightarrow> True) \<Longrightarrow>
   campaign_field (campaign_code C p) = Inr p"
  by (cases p) (simp_all add: campaign_field_def core_text_simps)

lemma format_field_code:
  "core_text_laws C \<Longrightarrow> (case p of OtherFormat _ \<Rightarrow> False | _ \<Rightarrow> True) \<Longrightarrow>
   format_field (format_code C p) = Inr p"
  by (cases p) (simp_all add: format_field_def core_text_simps)

lemma field_named:
  "publisher_field s = Inr p \<Longrightarrow> (case p of OtherPublisher _ \<Rightarrow> False | _ \<Rightarrow> True)"
  "solution_field s = Inr q \<Longrightarrow> (case q of OtherSolution _ \<Rightarrow> False | _ \<Rightarrow> True)"
  "campaign_field s = Inr r \<Longrightarrow> (case r of OtherCampaign _ \<Rightarrow> False | _ \<Rightarrow> True)"
  "format_field s = Inr f \<Longrightarrow> (case f of OtherFormat _ \<Rightarrow> False | _ \<Rightarrow> True)"
  by (auto simp: publisher_field_def solution_field_def campaign_field_def format_field_def
      split: if_splits)

lemma text_field_default: "x \<noteq> Some [] \<Longrightarrow> text_field (unwrap_or_default x) = x"
  by (auto simp: text_field_def unwrap_or_default_def split: option.splits)

lemma horizon_field_code:
  "horizon_field (case x of None \<Rightarrow> [] | Some days \<Rightarrow> show_u8 days) = Inr x"
  by (cases x) (simp_all add: horizon_field_def)

text \<open>Acceptance, field by field.\<close>

lemma product_identity_Inr_iff:
  "product_identity C fs = Inr i \<longleftrightarrow>
     length fs = 16 \<and>
     product_type C (fs ! 0) = Inr (pi_family i) \<and>
     center C (fs ! 1) = Inr (pi_analysis_center i) \<and>
     (publisher_field (fs ! 2) :: ('ac, 'pt, _) catalog) = Inr (pi_publisher i) \<and>
     (solution_field (fs ! 3) :: ('ac, 'pt, _) catalog) = Inr (pi_solution i) \<and>
     (campaign_field (fs ! 4) :: ('ac, 'pt, _) catalog) = Inr (pi_campaign i) \<and>
     parse_u8 (fs ! 5) = Some (pi_version i) \<and>
     (\<exists>y m d. parse_i32 (fs ! 6) = Some y \<and> parse_u8 (fs ! 7) = Some m \<and>
        parse_u8 (fs ! 8) = Some d \<and> product_date_new C y m d = Inr (pi_date i)) \<and>
     pi_issue i = text_field (fs ! 9) \<and> pi_span i = fs ! 10 \<and> pi_sample i = fs ! 11 \<and>
     pi_official_filename i = fs ! 12 \<and>
     (format_field (fs ! 13) :: ('ac, 'pt, _) catalog) = Inr (pi_format i) \<and>
     pi_format_version i = text_field (fs ! 14) \<and>
     (horizon_field (fs ! 15) :: ('ac, 'pt, _) catalog) = Inr (pi_prediction_horizon_days i) \<and>
     identity_validate C i = Inr ()"
  for C :: "('ac, 'pt) data_core"
  by (cases i) (auto simp: product_identity_def Let_def result_iffs)

lemma product_identity_expressible: "product_identity C fs = Inr i \<Longrightarrow> expressible i"
  unfolding product_identity_Inr_iff expressible_def
  by (auto dest: field_named simp: text_field_def split: if_splits)

lemma product_identity_of_fields:
  assumes "core_text_laws C" "expressible i"
    and "product_date_new C (date_year (pi_date i)) (date_month (pi_date i)) (date_day (pi_date i)) =
           Inr (pi_date i)"
    and "identity_validate C i = Inr ()"
  shows "product_identity C (product_identity_fields C i) = Inr i"
  using assms
  by (simp add: product_identity_Inr_iff product_identity_fields_def product_type_def center_def
      core_text_simps publisher_field_code solution_field_code campaign_field_code format_field_code
      expressible_def text_field_default horizon_field_code nth_Cons_numeral)

section \<open>Errors never panic\<close>

lemma catalog_atom_known [simp]: "name \<in> set catalog_vocabulary \<Longrightarrow> catalog_atom name = Inr name"
  by (simp add: catalog_atom_def)

lemma projection_names_known:
  "fst (projection_parts C e) \<in> set catalog_vocabulary"
  "fst ` set (snd (projection_parts C e)) \<subseteq> set catalog_vocabulary"
  by (cases e; simp add: catalog_vocabulary_def)+

lemma projection_names_fresh:
  "''kind'' \<notin> fst ` set (snd (projection_parts C e))"
  "''message'' \<notin> fst ` set (snd (projection_parts C e))"
  "distinct (map fst (snd (projection_parts C e)))"
  by (cases e; simp)+

definition field_terms :: "(string \<times> CatalogProjectionValue) list \<Rightarrow> (string \<times> nterm) list" where
  "field_terms = map (map_prod id catalog_projection_value_term)"

lemma field_terms_None: "k \<notin> fst ` set fs \<Longrightarrow> map_of (field_terms fs) k = None"
  by (force simp: field_terms_def map_of_eq_None_iff)

lemma put_projection_fields_ok:
  assumes "fst ` set fs \<subseteq> set catalog_vocabulary" "distinct (map fst fs)"
  shows "\<exists>d'. put_projection_fields fs d = Inr d' \<and>
           (\<forall>k. map_of d' k = (case map_of (field_terms fs) k of Some v \<Rightarrow> Some v | None \<Rightarrow> map_of d k))"
  using assms
proof (induction fs arbitrary: d)
  case (Cons f fs)
  obtain n v where f: "f = (n, v)" by (cases f)
  let ?d = "map_put n (catalog_projection_value_term v) d"
  from Cons obtain d' where "put_projection_fields fs ?d = Inr d'"
    and look: "\<And>k. map_of d' k = (case map_of (field_terms fs) k of Some v \<Rightarrow> Some v | None \<Rightarrow> map_of ?d k)"
    by force
  moreover from Cons.prems f have "map_of (field_terms fs) n = None"
    by (intro field_terms_None) auto
  ultimately show ?case
    using Cons.prems f by (auto simp: field_terms_def split: option.splits)
qed (simp add: field_terms_def)

text \<open>The map of an error: its kind, its message and exactly its fields.\<close>

lemma catalog_projection_term_ok:
  "\<exists>d. catalog_projection_term (catalog_error_projection C e) = Inr (Dict d) \<and>
     map_of d ''kind'' = Some (Atom (fst (projection_parts C e))) \<and>
     map_of d ''message'' = Some (Utf8 (error_display C e)) \<and>
     (\<forall>k. k \<noteq> ''kind'' \<longrightarrow> k \<noteq> ''message'' \<longrightarrow> map_of d k = map_of (field_terms (snd (projection_parts C e))) k)"
proof -
  let ?fs = "snd (projection_parts C e)"
  have fresh: "map_of (field_terms ?fs) ''kind'' = None" "map_of (field_terms ?fs) ''message'' = None"
    using projection_names_fresh(1,2) [of C e] by (simp_all add: field_terms_None)
  obtain d where "put_projection_fields ?fs
      (map_put ''message'' (Utf8 (error_display C e)) (map_put ''kind'' (Atom (fst (projection_parts C e))) [])) = Inr d"
    and "\<forall>k. map_of d k = (case map_of (field_terms ?fs) k of Some v \<Rightarrow> Some v
       | None \<Rightarrow> map_of (map_put ''message'' (Utf8 (error_display C e)) (map_put ''kind'' (Atom (fst (projection_parts C e))) [])) k)"
    using put_projection_fields_ok [OF projection_names_known(2) projection_names_fresh(3)] by blast
  then show ?thesis
    using fresh projection_names_known(1) [of C e]
    by (auto simp: catalog_projection_term_def catalog_error_projection_def split: option.splits
        simp del: map_put.simps)
qed

section \<open>Errors stay distinguishable\<close>

text \<open>The kind of an error determines the names and the types of its fields.\<close>

definition value_type :: "CatalogProjectionValue \<Rightarrow> nat" where
  "value_type v = (case v of Text _ \<Rightarrow> 0 | I32 _ \<Rightarrow> 1 | U8 _ \<Rightarrow> 2 | Date _ \<Rightarrow> 3)"

lemmas other_kind = projection_parts.simps fst_conv list.inject list.distinct char.inject HOL.simp_thms

lemma kind_determines_fields:
  assumes "fst (projection_parts C a) = fst (projection_parts C b)"
  shows "map (\<lambda>(n, v). (n, value_type v)) (snd (projection_parts C a)) =
         map (\<lambda>(n, v). (n, value_type v)) (snd (projection_parts C b))"
  by (cases a; cases b;
      ((insert assms, simp only: other_kind; fail) | simp add: value_type_def))

lemma value_term_inj:
  "value_type v = value_type w \<Longrightarrow> catalog_projection_value_term v = catalog_projection_value_term w \<Longrightarrow> v = w"
  by (cases v; cases w) (auto simp: value_type_def date_term_def)

lemma fields_determined:
  assumes "map (\<lambda>(n, v). (n, value_type v)) xs = map (\<lambda>(n, v). (n, value_type v)) ys"
    and "distinct (map fst xs)"
    and "\<forall>k. map_of (field_terms xs) k = map_of (field_terms ys) k"
  shows "xs = ys"
  using assms
proof (induction xs arbitrary: ys)
  case (Cons x xs)
  obtain n v where x: "x = (n, v)" by (cases x)
  from Cons.prems(1) x obtain w zs where ys: "ys = (n, w) # zs" "value_type v = value_type w"
    and rest: "map (\<lambda>(n, v). (n, value_type v)) xs = map (\<lambda>(n, v). (n, value_type v)) zs"
    by (cases ys) auto
  have names: "map fst xs = map fst zs"
    using arg_cong [OF rest, of "map fst"] by (simp add: comp_def case_prod_beta)
  have "catalog_projection_value_term v = catalog_projection_value_term w"
    using Cons.prems(3) [THEN spec, of n] x ys by (simp add: field_terms_def)
  then have "v = w" using ys value_term_inj by blast
  moreover have "map_of (field_terms xs) k = map_of (field_terms zs) k" for k
  proof (cases "k = n")
    case True
    moreover have "n \<notin> fst ` set xs" "n \<notin> fst ` set zs"
      using Cons.prems(2) x names by (auto simp flip: set_map)
    ultimately show ?thesis by (simp add: field_terms_None)
  next
    case False
    then show ?thesis using Cons.prems(3) [THEN spec, of k] x ys by (simp add: field_terms_def)
  qed
  ultimately show ?case using Cons x ys rest by simp
qed (simp add: field_terms_def)

lemma projection_parts_inj:
  assumes "inj (center_code C)" "inj (product_type_code C)" "inj (source_code C)"
    and "projection_parts C a = projection_parts C b"
  shows "a = b"
  by (cases a; cases b; ((insert arg_cong [OF assms(4), of fst], simp only: other_kind; fail) |
      (insert assms(4), auto dest: injD [OF assms(1)] injD [OF assms(2)] injD [OF assms(3)])))

lemma catalog_detail_inj:
  assumes laws: "core_text_laws C" and eq: "catalog_detail C a = catalog_detail C b"
  shows "a = b"
proof -
  obtain d where a: "catalog_projection_term (catalog_error_projection C a) = Inr (Dict d)"
    "map_of d ''kind'' = Some (Atom (fst (projection_parts C a)))"
    "\<forall>k. k \<noteq> ''kind'' \<longrightarrow> k \<noteq> ''message'' \<longrightarrow> map_of d k = map_of (field_terms (snd (projection_parts C a))) k"
    using catalog_projection_term_ok [of C a] by blast
  obtain d' where b: "catalog_projection_term (catalog_error_projection C b) = Inr (Dict d')"
    "map_of d' ''kind'' = Some (Atom (fst (projection_parts C b)))"
    "\<forall>k. k \<noteq> ''kind'' \<longrightarrow> k \<noteq> ''message'' \<longrightarrow> map_of d' k = map_of (field_terms (snd (projection_parts C b))) k"
    using catalog_projection_term_ok [of C b] by blast
  have "d = d'" using eq a(1) b(1) by (simp add: catalog_detail_def)
  then have kind: "fst (projection_parts C a) = fst (projection_parts C b)" using a(2) b(2) by simp
  have "map_of (field_terms (snd (projection_parts C a))) k =
        map_of (field_terms (snd (projection_parts C b))) k" for k
  proof (cases "k = ''kind'' \<or> k = ''message''")
    case True
    then show ?thesis
      using projection_names_fresh(1,2) [of C a] projection_names_fresh(1,2) [of C b]
      by (elim disjE) (simp_all add: field_terms_None)
  qed (use a(3) b(3) \<open>d = d'\<close> in auto)
  then have "snd (projection_parts C a) = snd (projection_parts C b)"
    using fields_determined [OF kind_determines_fields [OF kind] projection_names_fresh(3)] by blast
  with kind show ?thesis
    using projection_parts_inj [OF core_codes_inj [OF laws]] by (simp add: prod_eq_iff)
qed

text \<open>The eight errors with a historical tuple.\<close>

definition historical :: "('ac, 'pt) DataCatalogError \<Rightarrow> bool" where
  "historical e = (case e of
     UnknownCenter _ \<Rightarrow> True | UnknownProductType _ \<Rightarrow> True | UnsupportedProduct _ _ \<Rightarrow> True
   | NoOpenMirror _ _ \<Rightarrow> True | InvalidCoordinate _ _ \<Rightarrow> True | InvalidTileIndex _ _ \<Rightarrow> True
   | InvalidTileId _ \<Rightarrow> True | UnrecognizedArchiveListing _ \<Rightarrow> True | _ \<Rightarrow> False)"

lemma encode_not_historical: "\<not> historical e \<Longrightarrow> encode_catalog_error C e = catalog_detail C e"
  by (cases e) (simp_all add: historical_def)

lemma catalog_detail_shape:
  "\<exists>d. catalog_detail C e = Inr (error_term (Tup [Atom ''unsupported_product'', Tup [Atom ''catalog_error'', Dict d]]))"
proof -
  obtain d where "catalog_projection_term (catalog_error_projection C e) = Inr (Dict d)"
    using catalog_projection_term_ok [of C e] by blast
  then show ?thesis by (simp add: catalog_detail_def)
qed

lemma historical_not_detail:
  "historical a \<Longrightarrow> encode_catalog_error C a \<noteq> catalog_detail C b"
  using catalog_detail_shape [of C b] by (cases a) (auto simp: historical_def)

lemma split_at_slash:
  assumes "CHR ''/'' \<notin> set xs" "CHR ''/'' \<notin> set ys" "xs @ CHR ''/'' # us = ys @ CHR ''/'' # vs"
  shows "xs = ys \<and> us = vs"
proof -
  have cut: "takeWhile (\<lambda>c. c \<noteq> CHR ''/'') (zs @ CHR ''/'' # ws) = zs" if "CHR ''/'' \<notin> set zs" for zs ws
    using that by (induction zs) auto
  have "xs = ys" using cut [OF assms(1)] cut [OF assms(2)] assms(3) by metis
  with assms(3) show ?thesis by simp
qed

lemma historical_inj:
  assumes laws: "core_text_laws C" and slash: "\<forall>ac. CHR ''/'' \<notin> set (center_code C ac)"
    and "historical a" "historical b" "encode_catalog_error C a = encode_catalog_error C b"
  shows "a = b"
proof -
  have codes: "center_code C x @ CHR ''/'' # product_type_code C p =
      center_code C y @ CHR ''/'' # product_type_code C q \<longleftrightarrow> x = y \<and> p = q" for x y p q
    using split_at_slash [OF slash [rule_format] slash [rule_format]]
      inj_eq [OF core_codes_inj(1) [OF laws]] inj_eq [OF core_codes_inj(2) [OF laws]] by metis
  show ?thesis
    using assms(3-5)
    by (cases a; simp add: historical_def; cases b; simp add: codes)
qed

lemma encode_total: "\<exists>t. encode_catalog_error C e = Inr (error_term t)"
proof (cases "historical e")
  case True
  then show ?thesis by (cases e) (simp_all add: historical_def)
next
  case False
  then show ?thesis using catalog_detail_shape [of C e] by (auto simp: encode_not_historical simp del: sum.inject)
qed

section \<open>A concrete core\<close>

text \<open>A core with two centres and one product type that satisfies the laws, for the witnesses.\<close>

definition demo_center_from_str :: "string \<Rightarrow> (bool, unit, bool) catalog" where
  "demo_center_from_str s =
     (if s = ''cod'' then Inr True else if s = ''igs_ult'' then Inr False else Inl (UnknownCenter s))"

definition demo_product_type_from_str :: "string \<Rightarrow> (bool, unit, unit) catalog" where
  "demo_product_type_from_str s = (if s = ''sp3'' then Inr () else Inl (UnknownProductType s))"

fun demo_source_code :: "DistributionSource \<Rightarrow> string" where
  "demo_source_code Direct = ''direct''"
| "demo_source_code NasaCddis = ''nasa_cddis''"
| "demo_source_code LocalFile = ''local_file''"
| "demo_source_code InMemory = ''in_memory''"
| "demo_source_code (OtherSource n) = CHR ''#'' # show_nat n"

fun demo_publisher_code :: "ProductPublisher \<Rightarrow> string" where
  "demo_publisher_code Igs = ''IGS''" | "demo_publisher_code Code = ''COD''"
| "demo_publisher_code Esa = ''ESA''" | "demo_publisher_code Gfz = ''GFZ''"
| "demo_publisher_code Whu = ''WUM''" | "demo_publisher_code (OtherPublisher n) = ''?''"

fun demo_solution_code :: "SolutionClass \<Rightarrow> string" where
  "demo_solution_code Final = ''final''" | "demo_solution_code Rapid = ''rapid''"
| "demo_solution_code UltraRapid = ''ultra_rapid''" | "demo_solution_code Predicted = ''predicted''"
| "demo_solution_code BroadcastSolution = ''broadcast''"
| "demo_solution_code NearRealTime = ''near_real_time''" | "demo_solution_code (OtherSolution n) = ''?''"

fun demo_campaign_code :: "ProductCampaign \<Rightarrow> string" where
  "demo_campaign_code Operational = ''OPS''" | "demo_campaign_code MultiGnss = ''MGN''"
| "demo_campaign_code MultiGnssExperiment = ''MGX''" | "demo_campaign_code BroadcastCampaign = ''BRD''"
| "demo_campaign_code (OtherCampaign n) = ''?''"

fun demo_format_code :: "ProductFormat \<Rightarrow> string" where
  "demo_format_code Sp3 = ''SP3''" | "demo_format_code Ionex = ''IONEX''"
| "demo_format_code RinexClock = ''RINEX_CLK''" | "demo_format_code RinexNavigation = ''RINEX_NAV''"
| "demo_format_code (OtherFormat n) = ''?''"

definition demo_core :: "(bool, unit) data_core" where
  "demo_core =
     \<lparr>center_from_str = demo_center_from_str,
      center_code = (\<lambda>b. if b then ''cod'' else ''igs_ult''),
      product_type_from_str = demo_product_type_from_str,
      product_type_code = (\<lambda>_. ''sp3''),
      source_code = demo_source_code, publisher_code = demo_publisher_code,
      solution_code = demo_solution_code, campaign_code = demo_campaign_code,
      format_code = demo_format_code,
      product_date_new = (\<lambda>y m d.
        if 1 \<le> m \<and> m \<le> 12 \<and> 1 \<le> d \<and> d \<le> 31
        then Inr \<lparr>date_year = y, date_month = m, date_day = d\<rparr> else Inl (InvalidDate y m d)),
      product_datetime_new = (\<lambda>date h m s.
        if h < 24 \<and> m < 60 \<and> s < 60
        then Inr \<lparr>dt_date = date, dt_hour = h, dt_minute = m, dt_second = s\<rparr>
        else Inl (InvalidDateTime h m s)),
      identity_validate = (\<lambda>i. if pi_span i = [] then Inl (InvalidSpan []) else Inr ()),
      error_display = (\<lambda>_. ''catalog error'')\<rparr>"

lemma demo_core_laws: "core_text_laws demo_core"
proof -
  have "inj demo_source_code"
  proof (rule injI)
    fix x y :: DistributionSource
    assume "demo_source_code x = demo_source_code y"
    then show "x = y" by (cases x; cases y) simp_all
  qed
  then show ?thesis
    by (simp add: core_text_laws_def demo_core_def demo_center_from_str_def demo_product_type_from_str_def)
qed

definition demo_fields :: "string list" where
  "demo_fields =
     [''sp3'', ''cod'', ''COD'', ''final'', ''OPS'', ''00'', ''+2024'', ''03'', ''9'', [], ''01D'', ''05M'',
      ''COD0OPSFIN_20240690000_01D_05M_ORB.SP3'', ''SP3'', [], ''2'']"

definition demo_identity :: "(bool, unit) ProductIdentity" where
  "demo_identity =
     \<lparr>pi_family = (), pi_analysis_center = True, pi_publisher = Code, pi_solution = Final,
      pi_campaign = Operational, pi_version = 0,
      pi_date = \<lparr>date_year = 2024, date_month = 3, date_day = 9\<rparr>,
      pi_issue = None, pi_span = ''01D'', pi_sample = ''05M'',
      pi_official_filename = ''COD0OPSFIN_20240690000_01D_05M_ORB.SP3'', pi_format = Sp3,
      pi_format_version = None, pi_prediction_horizon_days = Some 2\<rparr>"

lemma demo_fields_parse: "product_identity demo_core demo_fields = Inr demo_identity"
  by (simp add: product_identity_def demo_fields_def demo_core_def demo_identity_def product_type_def
      center_def demo_center_from_str_def demo_product_type_from_str_def publisher_field_def
      solution_field_def campaign_field_def format_field_def horizon_field_def text_field_def
      parse_u8_def parse_i32_def parse_unsigned_def parse_signed_def parse_nat_def digit_value_def)

section \<open>Properties\<close>

text \<open>
  C33. Parsing an identity from its own field list gives it back: for every identity the core accepts
  and the list can express, \<open>product_identity\<close> inverts \<open>product_identity_fields\<close>.
\<close>

theorem product_identity_round_trip:
  assumes "core_text_laws C" "expressible i"
    and "product_date_new C (date_year (pi_date i)) (date_month (pi_date i)) (date_day (pi_date i)) =
           Inr (pi_date i)"
    and "identity_validate C i = Inr ()"
  shows "product_identity C (product_identity_fields C i) = Inr i"
  using assms by (rule product_identity_of_fields)

theorem product_identity_round_trip_witness:
  "product_identity demo_core (product_identity_fields demo_core demo_identity) = Inr demo_identity"
  by (rule product_identity_round_trip [OF demo_core_laws])
    (simp_all add: expressible_def demo_identity_def demo_core_def)

text \<open>
  The fields \<open>data_validate_product_identity_catalog_details\<close> returns are canonical: whatever
  spelling the caller used (leading zeros, a plus sign), the accepted identity's own fields parse to
  the same identity.
\<close>

theorem product_identity_canonical:
  assumes "core_text_laws C" "product_identity C fs = Inr i"
  shows "product_identity C (product_identity_fields C i) = Inr i"
proof (rule product_identity_of_fields)
  show "expressible i" using assms(2) by (rule product_identity_expressible)
  obtain y m d where "product_date_new C y m d = Inr (pi_date i)"
    using assms(2) by (auto simp: product_identity_Inr_iff)
  then show "product_date_new C (date_year (pi_date i)) (date_month (pi_date i)) (date_day (pi_date i)) =
      Inr (pi_date i)"
    using core_date_new [OF assms(1)] by fastforce
  show "identity_validate C i = Inr ()" using assms(2) by (simp add: product_identity_Inr_iff)
qed (rule assms(1))

theorem product_identity_canonical_witness:
  "product_identity_fields demo_core demo_identity \<noteq> demo_fields \<and>
   product_identity demo_core (product_identity_fields demo_core demo_identity) = Inr demo_identity"
  using product_identity_canonical [OF demo_core_laws demo_fields_parse]
  by (simp add: product_identity_fields_def demo_identity_def demo_fields_def demo_core_def show_u8_def
      show_nat.simps)

text \<open>
  C34. Encoding a catalogue error never panics: every name the projection emits is in the fixed
  vocabulary of \<open>catalog_atom\<close>, so both encoders always reply with an error tuple.
\<close>

theorem catalog_errors_encode:
  "(\<exists>t. encode_catalog_error C e = Inr (error_term t)) \<and> (\<exists>t. catalog_detail C e = Inr (error_term t))"
  using encode_total [of C e] catalog_detail_shape [of C e] by blast

text \<open>
  The projection is lossless: two catalogue errors with the same detail term are the same error,
  variant, fields and all.
\<close>

theorem catalog_detail_lossless:
  assumes "core_text_laws C" "catalog_detail C a = catalog_detail C b"
  shows "a = b"
  using assms by (rule catalog_detail_inj)

theorem catalog_detail_lossless_witness:
  "catalog_detail demo_core (InvalidDate 2026 13 40) \<noteq> catalog_detail demo_core (InvalidDateTime 7 13 40)"
  using catalog_detail_lossless [OF demo_core_laws, of "InvalidDate 2026 13 40" "InvalidDateTime 7 13 40"]
  by auto

text \<open>
  C35. The historical tuples do not collapse either: provided no centre code contains a slash, two
  different catalogue errors never have the same reply, so an unrecognized archive listing in
  particular is never mistaken for another failure.
\<close>

theorem encode_catalog_error_injective:
  assumes "core_text_laws C" "\<forall>ac. CHR ''/'' \<notin> set (center_code C ac)"
    and "encode_catalog_error C a = encode_catalog_error C b"
  shows "a = b"
proof (cases "historical a \<longleftrightarrow> historical b")
  case True
  then show ?thesis
    using historical_inj [OF assms(1,2)] catalog_detail_inj [OF assms(1)] assms(3)
    by (cases "historical a") (auto simp: encode_not_historical)
next
  case False
  then show ?thesis
    using historical_not_detail [of a C b] historical_not_detail [of b C a] assms(3)
    by (metis encode_not_historical)
qed

theorem encode_catalog_error_injective_witness:
  "encode_catalog_error demo_core (UnsupportedProduct True ()) \<noteq>
   encode_catalog_error demo_core (UnsupportedProduct False ())"
  using encode_catalog_error_injective [OF demo_core_laws, of "UnsupportedProduct True ()"
      "UnsupportedProduct False ()"]
  by (simp add: demo_core_def)

end
