(* ===== verification/DataNifs.thy ===== *)
theory DataNifs
  imports Catalog_Props
begin

text \<open>
  The catalogue NIFs of \<open>native/sidereon_nif/src/data.rs\<close>: each parses its arguments in a fixed
  order, calls one function of the core catalogue (an argument of the definition, named after it)
  and encodes the result. A reply is a term, or a panic.
\<close>

type_synonym reply = "unit fault + nterm"

section \<open>Argument parsing shared by the calls\<close>

text \<open>The chains \<open>center(..).and_then(|center| product_type(..).and_then(|kind| ..))\<close> of the source.\<close>

definition by_center_type ::
  "('ac, 'pt) data_core \<Rightarrow> string \<Rightarrow> string \<Rightarrow> ('ac \<Rightarrow> 'pt \<Rightarrow> ('ac, 'pt, 'a) catalog) \<Rightarrow>
   ('ac, 'pt, 'a) catalog" where
  "by_center_type C center_text product_code f =
     and_then (center C center_text) (\<lambda>center.
     and_then (product_type C product_code) (\<lambda>kind. f center kind))"

definition by_center_date ::
  "('ac, 'pt) data_core \<Rightarrow> string \<Rightarrow> i32 \<Rightarrow> i32 \<Rightarrow> i32 \<Rightarrow> ('ac \<Rightarrow> ProductDate \<Rightarrow> ('ac, 'pt, 'a) catalog) \<Rightarrow>
   ('ac, 'pt, 'a) catalog" where
  "by_center_date C center_text year month day f =
     and_then (center C center_text) (\<lambda>center.
     and_then (product_date C year month day) (\<lambda>date. f center date))"

definition by_center_type_date ::
  "('ac, 'pt) data_core \<Rightarrow> string \<Rightarrow> string \<Rightarrow> i32 \<Rightarrow> i32 \<Rightarrow> i32 \<Rightarrow>
   ('ac \<Rightarrow> 'pt \<Rightarrow> ProductDate \<Rightarrow> ('ac, 'pt, 'a) catalog) \<Rightarrow> ('ac, 'pt, 'a) catalog" where
  "by_center_type_date C center_text product_code year month day f =
     and_then (center C center_text) (\<lambda>center.
     and_then (product_type C product_code) (\<lambda>kind.
     and_then (product_date C year month day) (\<lambda>date. f center kind date)))"

definition text_list :: "string list \<Rightarrow> nterm" where
  "text_list = enc_list Utf8"

section \<open>Catalogue listings and identities\<close>

definition data_centers :: "('ac, 'pt) data_core \<Rightarrow> 'ac list \<Rightarrow> nterm" where
  "data_centers C centers = text_list (map (center_code C) centers)"

definition data_content_types :: "('ac, 'pt) data_core \<Rightarrow> 'pt list \<Rightarrow> nterm" where
  "data_content_types C entry_types = text_list (map (product_type_code C) entry_types)"

definition data_allowed_hosts :: "string list \<Rightarrow> nterm" where
  "data_allowed_hosts allowed_hosts = text_list allowed_hosts"

definition data_validate_exact_product_set ::
  "('ac, 'pt) data_core \<Rightarrow>
   (('ac, 'pt) ProductIdentity list \<Rightarrow> ('ac, 'pt) ProductIdentity list \<Rightarrow> string + unit) \<Rightarrow>
   string list list \<Rightarrow> string list list \<Rightarrow> reply" where
  "data_validate_exact_product_set C validate_exact expected available =
     (case (collect_results (map (product_identity C) expected),
            collect_results (map (product_identity C) available)) of
        (Inr expected, Inr available) \<Rightarrow>
          (case validate_exact expected available of
             Inr _ \<Rightarrow> Inr (Atom ''ok'')
           | Inl message \<Rightarrow> Inr (error_term (Tup [Atom ''exact_product_set'', Utf8 message])))
      | (Inl error, _) \<Rightarrow> encode_catalog_error C error
      | (_, Inl error) \<Rightarrow> encode_catalog_error C error)"

definition data_validate_product_identity_catalog_details ::
  "('ac, 'pt) data_core \<Rightarrow> string list \<Rightarrow> reply" where
  "data_validate_product_identity_catalog_details C identity_fields =
     encode_result_with_catalog_details C
       (map_ok (product_identity_fields C) (product_identity C identity_fields)) text_list"

record ('ac, 'pt) ProductRequest =
  req_identity :: "('ac, 'pt) ProductIdentity"
  req_distributors :: "DistributionSource list"

definition data_product_request_catalog_details ::
  "('ac, 'pt) data_core \<Rightarrow>
   (('ac, 'pt) ProductIdentity \<Rightarrow> DistributionSource list \<Rightarrow> ('ac, 'pt, ('ac, 'pt) ProductRequest) catalog) \<Rightarrow>
   string list \<Rightarrow> string list \<Rightarrow> reply" where
  "data_product_request_catalog_details C product_request_new identity_fields source_codes =
     encode_result_with_catalog_details C
       (and_then (product_identity C identity_fields) (\<lambda>identity.
        and_then (collect_results (map distribution_source source_codes)) (\<lambda>sources.
        product_request_new identity sources)))
       (\<lambda>request. Tup [text_list (product_identity_fields C (req_identity request)),
                       text_list (map (source_code C) (req_distributors request))])"

definition data_open_mirror_catalog_details ::
  "('ac, 'pt) data_core \<Rightarrow> (string \<Rightarrow> string \<Rightarrow> ('ac, 'pt, unit) catalog) \<Rightarrow> string \<Rightarrow> string \<Rightarrow> reply" where
  "data_open_mirror_catalog_details C open_mirror_code center_text product_code =
     encode_result_with_catalog_details C (open_mirror_code center_text product_code) (\<lambda>_. Atom ''ok'')"

record 'pt CenterEntry =
  ce_protocol :: string
  ce_host :: string
  ce_root_url :: string
  ce_products :: "'pt list"
  ce_issues :: "string list"

text \<open>\<open>center_catalog(..).expect(..)\<close>: a centre without an entry panics.\<close>

definition data_center_entry ::
  "('ac, 'pt) data_core \<Rightarrow> ('ac \<Rightarrow> 'pt CenterEntry option) \<Rightarrow> string \<Rightarrow> reply" where
  "data_center_entry C center_catalog code =
     (case center C code of
        Inl e \<Rightarrow> encode_result C (Inl e) (\<lambda>t. t)
      | Inr c \<Rightarrow>
          (case center_catalog c of
             None \<Rightarrow> Inl Panic
           | Some entry \<Rightarrow>
               encode_result C (Inr entry) (\<lambda>entry.
                 Tup [Utf8 (ce_protocol entry), Utf8 (ce_host entry), Utf8 (ce_root_url entry),
                      text_list (map (product_type_code C) (ce_products entry)),
                      text_list (ce_issues entry)])))"

definition data_default_sample ::
  "('ac, 'pt) data_core \<Rightarrow> ('ac \<Rightarrow> 'pt \<Rightarrow> ('ac, 'pt, string) catalog) \<Rightarrow> string \<Rightarrow> string \<Rightarrow> reply" where
  "data_default_sample C default_sample center_text product_code =
     encode_result C (by_center_type C center_text product_code default_sample) Utf8"

definition data_product_solution_class ::
  "('ac, 'pt) data_core \<Rightarrow> ('ac \<Rightarrow> 'pt \<Rightarrow> ('ac, 'pt, SolutionClass) catalog) \<Rightarrow> string \<Rightarrow> string \<Rightarrow> reply" where
  "data_product_solution_class C product_solution_class center_text product_code =
     encode_result C (by_center_type C center_text product_code product_solution_class)
       (\<lambda>solution. Utf8 (solution_code C solution))"

definition data_product_solution_class_catalog_details ::
  "('ac, 'pt) data_core \<Rightarrow> ('ac \<Rightarrow> 'pt \<Rightarrow> ('ac, 'pt, SolutionClass) catalog) \<Rightarrow> string \<Rightarrow> string \<Rightarrow> reply" where
  "data_product_solution_class_catalog_details C product_solution_class center_text product_code =
     encode_result_with_catalog_details C
       (by_center_type C center_text product_code product_solution_class)
       (\<lambda>solution. Utf8 (solution_code C solution))"

section \<open>Dated queries\<close>

text \<open>A content-start convention is opaque (\<open>'cv\<close>): its code, and the term of its offset.\<close>

definition data_sp3_content_start_convention ::
  "('ac, 'pt) data_core \<Rightarrow> ('cv \<Rightarrow> string) \<Rightarrow> ('cv \<Rightarrow> nterm) \<Rightarrow>
   ('ac \<Rightarrow> ProductDate \<Rightarrow> string option \<Rightarrow> ('ac, 'pt, 'cv) catalog) \<Rightarrow>
   string \<Rightarrow> i32 \<Rightarrow> i32 \<Rightarrow> i32 \<Rightarrow> string option \<Rightarrow> reply" where
  "data_sp3_content_start_convention C convention_code offset_term content_start center_text year month day issue =
     encode_result C
       (by_center_date C center_text year month day (\<lambda>center date. content_start center date issue))
       (\<lambda>convention. Tup [Utf8 (convention_code convention), offset_term convention])"

definition data_sp3_content_start_convention_catalog_details ::
  "('ac, 'pt) data_core \<Rightarrow> ('cv \<Rightarrow> string) \<Rightarrow> ('cv \<Rightarrow> nterm) \<Rightarrow>
   ('ac \<Rightarrow> ProductDate \<Rightarrow> string option \<Rightarrow> ('ac, 'pt, 'cv) catalog) \<Rightarrow>
   string \<Rightarrow> i32 \<Rightarrow> i32 \<Rightarrow> i32 \<Rightarrow> string option \<Rightarrow> reply" where
  "data_sp3_content_start_convention_catalog_details C convention_code offset_term content_start
      center_text year month day issue =
     encode_result_with_catalog_details C
       (by_center_date C center_text year month day (\<lambda>center date. content_start center date issue))
       (\<lambda>convention. Tup [Utf8 (convention_code convention), offset_term convention])"

definition data_default_sample_for_date ::
  "('ac, 'pt) data_core \<Rightarrow> ('ac \<Rightarrow> 'pt \<Rightarrow> ProductDate \<Rightarrow> ('ac, 'pt, string) catalog) \<Rightarrow>
   string \<Rightarrow> string \<Rightarrow> i32 \<Rightarrow> i32 \<Rightarrow> i32 \<Rightarrow> reply" where
  "data_default_sample_for_date C default_sample_for_date center_text product_code year month day =
     encode_result C
       (by_center_type_date C center_text product_code year month day default_sample_for_date) Utf8"

definition data_supported_samples ::
  "('ac, 'pt) data_core \<Rightarrow> ('ac \<Rightarrow> 'pt \<Rightarrow> ProductDate \<Rightarrow> string option \<Rightarrow> ('ac, 'pt, string list) catalog) \<Rightarrow>
   string \<Rightarrow> string \<Rightarrow> i32 \<Rightarrow> i32 \<Rightarrow> i32 \<Rightarrow> string option \<Rightarrow> reply" where
  "data_supported_samples C supported_samples center_text product_code year month day issue =
     encode_result C
       (by_center_type_date C center_text product_code year month day
          (\<lambda>center kind date. supported_samples center kind date issue)) text_list"

text \<open>The core's \<open>data::product_identity\<close> (not the field parser above) is \<open>derive\<close>.\<close>

type_synonym ('ac, 'pt) derive =
  "'ac \<Rightarrow> 'pt \<Rightarrow> ProductDate \<Rightarrow> string option \<Rightarrow> string option \<Rightarrow> ('ac, 'pt, ('ac, 'pt) ProductIdentity) catalog"

definition data_default_sample_for_issue ::
  "('ac, 'pt) data_core \<Rightarrow> ('ac, 'pt) derive \<Rightarrow> string \<Rightarrow> string \<Rightarrow> i32 \<Rightarrow> i32 \<Rightarrow> i32 \<Rightarrow> string \<Rightarrow> reply" where
  "data_default_sample_for_issue C derive center_text product_code year month day issue =
     encode_result C
       (by_center_type_date C center_text product_code year month day
          (\<lambda>center kind date. map_ok pi_sample (derive center kind date None (Some issue)))) Utf8"

definition data_product_identity ::
  "('ac, 'pt) data_core \<Rightarrow> ('ac, 'pt) derive \<Rightarrow> string \<Rightarrow> string \<Rightarrow> i32 \<Rightarrow> i32 \<Rightarrow> i32 \<Rightarrow>
   string option \<Rightarrow> string option \<Rightarrow> reply" where
  "data_product_identity C derive center_text product_code year month day sample issue =
     encode_result C
       (by_center_type_date C center_text product_code year month day
          (\<lambda>center kind date. derive center kind date sample issue))
       (\<lambda>identity. text_list (product_identity_fields C identity))"

definition data_product_identity_catalog_details ::
  "('ac, 'pt) data_core \<Rightarrow> ('ac, 'pt) derive \<Rightarrow> string \<Rightarrow> string \<Rightarrow> i32 \<Rightarrow> i32 \<Rightarrow> i32 \<Rightarrow>
   string option \<Rightarrow> string option \<Rightarrow> reply" where
  "data_product_identity_catalog_details C derive center_text product_code year month day sample issue =
     encode_result_with_catalog_details C
       (by_center_type_date C center_text product_code year month day
          (\<lambda>center kind date. derive center kind date sample issue))
       (\<lambda>identity. text_list (product_identity_fields C identity))"

section \<open>Distribution locations\<close>

record DistributionLocation =
  loc_source :: DistributionSource
  loc_original_url :: string
  loc_archive_filename :: string
  loc_compression :: string

definition location_term :: "('ac, 'pt) data_core \<Rightarrow> DistributionLocation \<Rightarrow> nterm" where
  "location_term C l =
     Tup [Utf8 (source_code C (loc_source l)), Utf8 (loc_original_url l),
          Utf8 (loc_archive_filename l), Utf8 (loc_compression l)]"

definition data_distribution_location_for_identity ::
  "('ac, 'pt) data_core \<Rightarrow>
   (('ac, 'pt) ProductIdentity \<Rightarrow> DistributionSource \<Rightarrow> ('ac, 'pt, DistributionLocation) catalog) \<Rightarrow>
   string list \<Rightarrow> string \<Rightarrow> reply" where
  "data_distribution_location_for_identity C location_for identity_fields code =
     encode_result C
       (and_then (product_identity C identity_fields) (\<lambda>identity.
        and_then (distribution_source code) (\<lambda>src. location_for identity src)))
       (location_term C)"

definition data_distribution_location_for_identity_catalog_details ::
  "('ac, 'pt) data_core \<Rightarrow>
   (('ac, 'pt) ProductIdentity \<Rightarrow> DistributionSource \<Rightarrow> ('ac, 'pt, DistributionLocation) catalog) \<Rightarrow>
   string list \<Rightarrow> string \<Rightarrow> reply" where
  "data_distribution_location_for_identity_catalog_details C location_for identity_fields code =
     encode_result_with_catalog_details C
       (and_then (product_identity C identity_fields) (\<lambda>identity.
        and_then (distribution_source code) (\<lambda>src. location_for identity src)))
       (location_term C)"

record UltraSp3Location =
  ul_pattern :: string
  ul_span :: string
  ul_sample :: string
  ul_filename :: string
  ul_url :: string
  ul_compression :: string

definition data_ultra_sp3_locations ::
  "('ac, 'pt) data_core \<Rightarrow> ('ac \<Rightarrow> ProductDate \<Rightarrow> string \<Rightarrow> ('ac, 'pt, UltraSp3Location list) catalog) \<Rightarrow>
   string \<Rightarrow> i32 \<Rightarrow> i32 \<Rightarrow> i32 \<Rightarrow> string \<Rightarrow> reply" where
  "data_ultra_sp3_locations C ultra_sp3_locations center_text year month day issue =
     encode_result C
       (by_center_date C center_text year month day (\<lambda>center date. ultra_sp3_locations center date issue))
       (enc_list (\<lambda>l. Tup (map Utf8 [ul_pattern l, ul_span l, ul_sample l, ul_filename l, ul_url l,
                                     ul_compression l])))"

definition data_archive_compression ::
  "('ac, 'pt) data_core \<Rightarrow> ('ac \<Rightarrow> 'pt \<Rightarrow> ('ac, 'pt, 'entry) catalog) \<Rightarrow> ('entry \<Rightarrow> string) \<Rightarrow>
   string \<Rightarrow> string \<Rightarrow> reply" where
  "data_archive_compression C product_convention compression center_text product_code =
     encode_result C
       (by_center_type C center_text product_code (\<lambda>center kind. map_ok compression (product_convention center kind)))
       Utf8"

section \<open>Calendar queries\<close>

definition data_product_date_from_gps_week_day_catalog_details ::
  "('ac, 'pt) data_core \<Rightarrow> (u32 \<Rightarrow> u8 \<Rightarrow> ('ac, 'pt, ProductDate) catalog) \<Rightarrow> u32 \<Rightarrow> i32 \<Rightarrow> reply" where
  "data_product_date_from_gps_week_day_catalog_details C from_gps_week_day week day_of_week =
     encode_result_with_catalog_details C
       (and_then (ok_or DateOutOfRange (u8_try_from day_of_week)) (\<lambda>day. from_gps_week_day week day))
       date_term"

definition data_gps_week ::
  "('ac, 'pt) data_core \<Rightarrow> (ProductDate \<Rightarrow> ('ac, 'pt, 'w) catalog) \<Rightarrow> ('w \<Rightarrow> nterm) \<Rightarrow>
   i32 \<Rightarrow> i32 \<Rightarrow> i32 \<Rightarrow> reply" where
  "data_gps_week C gps_week week_term year month day =
     encode_result C (and_then (product_date C year month day) gps_week) week_term"

definition data_day_of_year ::
  "('ac, 'pt) data_core \<Rightarrow> (ProductDate \<Rightarrow> nterm) \<Rightarrow> i32 \<Rightarrow> i32 \<Rightarrow> i32 \<Rightarrow> reply" where
  "data_day_of_year C day_of_year year month day =
     encode_result C (product_date C year month day) day_of_year"

definition data_predicted_day_offset ::
  "('ac, 'pt) data_core \<Rightarrow> ('ac \<Rightarrow> nterm) \<Rightarrow> string \<Rightarrow> reply" where
  "data_predicted_day_offset C predicted_day_offset center_text =
     encode_result C (center C center_text) predicted_day_offset"

definition data_canonical_filename ::
  "('ac, 'pt) data_core \<Rightarrow>
   ('ac \<Rightarrow> 'pt \<Rightarrow> ProductDate \<Rightarrow> string option \<Rightarrow> string option \<Rightarrow> ('ac, 'pt, string) catalog) \<Rightarrow>
   string \<Rightarrow> string \<Rightarrow> i32 \<Rightarrow> i32 \<Rightarrow> i32 \<Rightarrow> string option \<Rightarrow> string option \<Rightarrow> reply" where
  "data_canonical_filename C canonical_filename center_text product_code year month day sample issue =
     encode_result C
       (by_center_type_date C center_text product_code year month day
          (\<lambda>center kind date. canonical_filename center kind date sample issue)) Utf8"

definition data_archive_url ::
  "('ac, 'pt) data_core \<Rightarrow>
   ('ac \<Rightarrow> 'pt \<Rightarrow> ProductDate \<Rightarrow> string option \<Rightarrow> string option \<Rightarrow> ('ac, 'pt, string) catalog) \<Rightarrow>
   string \<Rightarrow> string \<Rightarrow> i32 \<Rightarrow> i32 \<Rightarrow> i32 \<Rightarrow> string option \<Rightarrow> string option \<Rightarrow> reply" where
  "data_archive_url C archive_url center_text product_code year month day sample issue =
     encode_result C
       (by_center_type_date C center_text product_code year month day
          (\<lambda>center kind date. archive_url center kind date sample issue)) Utf8"

definition data_gim_date_candidates ::
  "('ac, 'pt) data_core \<Rightarrow> ('ac \<Rightarrow> ProductDate \<Rightarrow> u32 \<Rightarrow> ('ac, 'pt, ProductDate list) catalog) \<Rightarrow>
   string \<Rightarrow> i32 \<Rightarrow> i32 \<Rightarrow> i32 \<Rightarrow> u32 \<Rightarrow> reply" where
  "data_gim_date_candidates C gim_date_candidates center_text year month day lookback =
     encode_result C
       (by_center_date C center_text year month day (\<lambda>center date. gim_date_candidates center date lookback))
       (enc_list date_term)"

section \<open>Issues and listings\<close>

record UltraIssue =
  ui_date :: ProductDate
  ui_issue :: string

definition issue_term :: "UltraIssue \<Rightarrow> nterm" where
  "issue_term i =
     Tup [enc_i32 (date_year (ui_date i)), enc_u8 (date_month (ui_date i)), enc_u8 (date_day (ui_date i)),
          Utf8 (ui_issue i)]"

definition ultra_issue_result ::
  "('ac, 'pt) data_core \<Rightarrow> ('ac \<Rightarrow> ProductDateTime \<Rightarrow> ('ac, 'pt, 'a) catalog) \<Rightarrow>
   string \<Rightarrow> i32 \<Rightarrow> i32 \<Rightarrow> i32 \<Rightarrow> i32 \<Rightarrow> i32 \<Rightarrow> i32 \<Rightarrow> ('ac, 'pt, 'a) catalog" where
  "ultra_issue_result C f center_text year month day hour minute second =
     and_then (center C center_text) (\<lambda>center.
     and_then (product_datetime C year month day hour minute second) (\<lambda>target. f center target))"

definition data_ultra_issue_candidates ::
  "('ac, 'pt) data_core \<Rightarrow> ('ac \<Rightarrow> ProductDateTime \<Rightarrow> ('ac, 'pt, UltraIssue list) catalog) \<Rightarrow>
   string \<Rightarrow> i32 \<Rightarrow> i32 \<Rightarrow> i32 \<Rightarrow> i32 \<Rightarrow> i32 \<Rightarrow> i32 \<Rightarrow> reply" where
  "data_ultra_issue_candidates C ultra_issue_candidates center_text year month day hour minute second =
     encode_result C
       (ultra_issue_result C ultra_issue_candidates center_text year month day hour minute second)
       (enc_list issue_term)"

definition data_ultra_issue_candidates_catalog_details ::
  "('ac, 'pt) data_core \<Rightarrow> ('ac \<Rightarrow> ProductDateTime \<Rightarrow> ('ac, 'pt, UltraIssue list) catalog) \<Rightarrow>
   string \<Rightarrow> i32 \<Rightarrow> i32 \<Rightarrow> i32 \<Rightarrow> i32 \<Rightarrow> i32 \<Rightarrow> i32 \<Rightarrow> reply" where
  "data_ultra_issue_candidates_catalog_details C ultra_issue_candidates center_text year month day
      hour minute second =
     encode_result_with_catalog_details C
       (ultra_issue_result C ultra_issue_candidates center_text year month day hour minute second)
       (enc_list issue_term)"

text \<open>A predicted-ionosphere candidate names a file and a URL, either of which the core may refuse.\<close>

record ('ac, 'pt) IonexCandidate =
  ic_center :: 'ac
  ic_date :: ProductDate
  ic_sample :: string
  ic_issue :: "string option"
  ic_canonical_filename :: "('ac, 'pt, string) catalog"
  ic_archive_url :: "('ac, 'pt, string) catalog"

definition ionex_candidate_row ::
  "('ac, 'pt) data_core \<Rightarrow> ('ac, 'pt) IonexCandidate \<Rightarrow> ('ac, 'pt, nterm) catalog" where
  "ionex_candidate_row C c =
     and_then (ic_canonical_filename c) (\<lambda>filename.
     and_then (ic_archive_url c) (\<lambda>url.
     Inr (Tup [Utf8 (center_code C (ic_center c)), date_term (ic_date c), Utf8 (ic_sample c),
               Utf8 (unwrap_or_default (ic_issue c)), Utf8 filename, Utf8 url])))"

definition data_predicted_ionex_line_candidates ::
  "('ac, 'pt) data_core \<Rightarrow>
   (ProductDate \<Rightarrow> string option \<Rightarrow> ('ac, 'pt, ('ac, 'pt) IonexCandidate list) catalog) \<Rightarrow>
   i32 \<Rightarrow> i32 \<Rightarrow> i32 \<Rightarrow> string option \<Rightarrow> reply" where
  "data_predicted_ionex_line_candidates C predicted_candidates year month day sample =
     encode_result C
       (and_then (product_date C year month day) (\<lambda>date.
        and_then (predicted_candidates date sample) (\<lambda>candidates.
        collect_results (map (ionex_candidate_row C) candidates))))
       Lst"

definition data_publication_listing_urls ::
  "('ac, 'pt) data_core \<Rightarrow> ('ac \<Rightarrow> 'pt \<Rightarrow> ProductDate \<Rightarrow> ('ac, 'pt, string list) catalog) \<Rightarrow>
   string \<Rightarrow> string \<Rightarrow> i32 \<Rightarrow> i32 \<Rightarrow> i32 \<Rightarrow> reply" where
  "data_publication_listing_urls C publication_listing_urls center_text product_code year month day =
     encode_result C
       (by_center_type_date C center_text product_code year month day publication_listing_urls) text_list"

text \<open>A published object: its path and when it was observed. \<open>from_utf8\<close> gives the body's text or
  the text of the decoding error.\<close>

type_synonym published_object = "string \<times> string option"

definition object_term :: "published_object \<Rightarrow> nterm" where
  "object_term o' = Tup [Utf8 (fst o'), enc_option Utf8 (snd o')]"

definition listing_result ::
  "(u8 list \<Rightarrow> string + string) \<Rightarrow> (string \<Rightarrow> ('ac, 'pt, published_object list) catalog) \<Rightarrow>
   u8 list \<Rightarrow> ('ac, 'pt, published_object list) catalog" where
  "listing_result from_utf8 parse_archive_listing body =
     and_then
       (map_err (\<lambda>error. UnrecognizedArchiveListing (''listing body is not UTF-8 text: '' @ error))
          (from_utf8 body))
       parse_archive_listing"

definition data_parse_archive_listing ::
  "('ac, 'pt) data_core \<Rightarrow> (u8 list \<Rightarrow> string + string) \<Rightarrow>
   (string \<Rightarrow> ('ac, 'pt, published_object list) catalog) \<Rightarrow> u8 list \<Rightarrow> reply" where
  "data_parse_archive_listing C from_utf8 parse_archive_listing body =
     encode_result C (listing_result from_utf8 parse_archive_listing body) (enc_list object_term)"

definition data_parse_archive_listing_catalog_details ::
  "('ac, 'pt) data_core \<Rightarrow> (u8 list \<Rightarrow> string + string) \<Rightarrow>
   (string \<Rightarrow> ('ac, 'pt, published_object list) catalog) \<Rightarrow> u8 list \<Rightarrow> reply" where
  "data_parse_archive_listing_catalog_details C from_utf8 parse_archive_listing body =
     encode_result_with_catalog_details C (listing_result from_utf8 parse_archive_listing body)
       (enc_list object_term)"

definition data_station_obs_filename_catalog_details ::
  "('ac, 'pt) data_core \<Rightarrow> (string \<Rightarrow> ProductDate \<Rightarrow> string \<Rightarrow> ('ac, 'pt, 'spec) catalog) \<Rightarrow>
   ('spec \<Rightarrow> ('ac, 'pt, string) catalog) \<Rightarrow> string \<Rightarrow> i32 \<Rightarrow> i32 \<Rightarrow> i32 \<Rightarrow> string \<Rightarrow> reply" where
  "data_station_obs_filename_catalog_details C station_spec_new spec_filename station year month day sample =
     encode_result_with_catalog_details C
       (and_then (product_date C year month day) (\<lambda>date.
        and_then (station_spec_new station date sample) spec_filename))
       Utf8"

text \<open>The caller's available issues are all parsed first, but their error is looked at last.\<close>

definition available_issues ::
  "('ac, 'pt) data_core \<Rightarrow> (ProductDate \<Rightarrow> string \<Rightarrow> ('ac, 'pt, UltraIssue) catalog) \<Rightarrow>
   (i32 \<times> i32 \<times> i32 \<times> string) list option \<Rightarrow> ('ac, 'pt, UltraIssue list option) catalog" where
  "available_issues C ultra_issue_new rows =
     transpose_option (map_option (\<lambda>issues.
       collect_results (map (\<lambda>(year, month, day, issue).
         and_then (product_date C year month day) (\<lambda>date. ultra_issue_new date issue)) issues)) rows)"

definition latest_ultra_issue_result ::
  "('ac, 'pt) data_core \<Rightarrow> (ProductDate \<Rightarrow> string \<Rightarrow> ('ac, 'pt, UltraIssue) catalog) \<Rightarrow>
   ('ac \<Rightarrow> ProductDateTime \<Rightarrow> UltraIssue list option \<Rightarrow> ('ac, 'pt, UltraIssue) catalog) \<Rightarrow>
   string \<Rightarrow> i32 \<Rightarrow> i32 \<Rightarrow> i32 \<Rightarrow> i32 \<Rightarrow> i32 \<Rightarrow> i32 \<Rightarrow> (i32 \<times> i32 \<times> i32 \<times> string) list option \<Rightarrow>
   ('ac, 'pt, UltraIssue) catalog" where
  "latest_ultra_issue_result C ultra_issue_new latest_ultra_issue center_text year month day
      hour minute second rows =
     (let available = available_issues C ultra_issue_new rows in
      ultra_issue_result C
        (\<lambda>center target. and_then available (\<lambda>issues. latest_ultra_issue center target issues))
        center_text year month day hour minute second)"

definition data_latest_ultra_issue_catalog_details ::
  "('ac, 'pt) data_core \<Rightarrow> (ProductDate \<Rightarrow> string \<Rightarrow> ('ac, 'pt, UltraIssue) catalog) \<Rightarrow>
   ('ac \<Rightarrow> ProductDateTime \<Rightarrow> UltraIssue list option \<Rightarrow> ('ac, 'pt, UltraIssue) catalog) \<Rightarrow>
   string \<Rightarrow> i32 \<Rightarrow> i32 \<Rightarrow> i32 \<Rightarrow> i32 \<Rightarrow> i32 \<Rightarrow> i32 \<Rightarrow> (i32 \<times> i32 \<times> i32 \<times> string) list option \<Rightarrow> reply" where
  "data_latest_ultra_issue_catalog_details C ultra_issue_new latest_ultra_issue center_text year month
      day hour minute second rows =
     encode_result_with_catalog_details C
       (latest_ultra_issue_result C ultra_issue_new latest_ultra_issue center_text year month day
          hour minute second rows)
       issue_term"

record PublishedProduct =
  pp_date :: ProductDate
  pp_issue :: string
  pp_filename :: string
  pp_observed_at :: "string option"

definition published_term :: "PublishedProduct \<Rightarrow> nterm" where
  "published_term p =
     Tup [enc_i32 (date_year (pp_date p)), enc_u8 (date_month (pp_date p)), enc_u8 (date_day (pp_date p)),
          Utf8 (pp_issue p), Utf8 (pp_filename p), enc_option Utf8 (pp_observed_at p)]"

definition data_newest_published_product ::
  "('ac, 'pt) data_core \<Rightarrow>
   ('ac \<Rightarrow> 'pt \<Rightarrow> published_object list \<Rightarrow> ('ac, 'pt, PublishedProduct option) catalog) \<Rightarrow>
   string \<Rightarrow> string \<Rightarrow> published_object list \<Rightarrow> reply" where
  "data_newest_published_product C newest_published_product center_text product_code objects =
     encode_result C
       (by_center_type C center_text product_code
          (\<lambda>center kind. newest_published_product center kind objects))
       (enc_option published_term)"

definition data_newest_published_product_catalog_details ::
  "('ac, 'pt) data_core \<Rightarrow>
   ('ac \<Rightarrow> 'pt \<Rightarrow> published_object list \<Rightarrow> ('ac, 'pt, PublishedProduct option) catalog) \<Rightarrow>
   string \<Rightarrow> string \<Rightarrow> published_object list \<Rightarrow> reply" where
  "data_newest_published_product_catalog_details C newest_published_product center_text product_code objects =
     encode_result_with_catalog_details C
       (by_center_type C center_text product_code
          (\<lambda>center kind. newest_published_product center kind objects))
       (enc_option published_term)"

definition data_published_issue_age_minutes ::
  "('ac, 'pt) data_core \<Rightarrow> (PublishedProduct \<Rightarrow> ProductDateTime \<Rightarrow> ('ac, 'pt, 'age) catalog) \<Rightarrow>
   ('age \<Rightarrow> nterm) \<Rightarrow> i32 \<Rightarrow> i32 \<Rightarrow> i32 \<Rightarrow> string \<Rightarrow> string \<Rightarrow>
   i32 \<Rightarrow> i32 \<Rightarrow> i32 \<Rightarrow> i32 \<Rightarrow> i32 \<Rightarrow> i32 \<Rightarrow> reply" where
  "data_published_issue_age_minutes C age_minutes age_term year month day issue filename
      now_year now_month now_day now_hour now_minute now_second =
     encode_result C
       (and_then (product_date C year month day) (\<lambda>date.
        let published = \<lparr>pp_date = date, pp_issue = issue, pp_filename = filename, pp_observed_at = None\<rparr> in
        and_then (product_datetime C now_year now_month now_day now_hour now_minute now_second) (\<lambda>now.
        age_minutes published now)))
       age_term"

section \<open>Nominal schedule\<close>

record NominalCoverageInterval =
  nc_from :: ProductDateTime
  nc_until :: ProductDateTime

record ('ac, 'pt) NominalIssue =
  ni_identity :: "('ac, 'pt) ProductIdentity"
  ni_due_at :: ProductDateTime
  ni_observed :: "NominalCoverageInterval option"
  ni_predicted :: "NominalCoverageInterval option"

definition product_datetime_tuple :: "ProductDateTime \<Rightarrow> nterm" where
  "product_datetime_tuple t =
     Tup [date_term (dt_date t), Tup [enc_u8 (dt_hour t), enc_u8 (dt_minute t), enc_u8 (dt_second t)]]"

definition nominal_coverage_interval_tuple :: "NominalCoverageInterval \<Rightarrow> nterm" where
  "nominal_coverage_interval_tuple i =
     Tup [product_datetime_tuple (nc_from i), product_datetime_tuple (nc_until i)]"

definition nominal_issue_term ::
  "('ac, 'pt) data_core \<Rightarrow> ('ac, 'pt) NominalIssue \<Rightarrow> nterm" where
  "nominal_issue_term C i =
     Tup [text_list (product_identity_fields C (ni_identity i)), product_datetime_tuple (ni_due_at i),
          Tup [enc_option nominal_coverage_interval_tuple (ni_observed i),
               enc_option nominal_coverage_interval_tuple (ni_predicted i)]]"

definition next_issue_result ::
  "('ac, 'pt) data_core \<Rightarrow> ('ac \<Rightarrow> 'pt \<Rightarrow> ProductDateTime \<Rightarrow> ('ac, 'pt, 'a) catalog) \<Rightarrow>
   string \<Rightarrow> string \<Rightarrow> i32 \<Rightarrow> i32 \<Rightarrow> i32 \<Rightarrow> i32 \<Rightarrow> i32 \<Rightarrow> i32 \<Rightarrow> ('ac, 'pt, 'a) catalog" where
  "next_issue_result C next_issue_due center_text product_code year month day hour minute second =
     by_center_type C center_text product_code (\<lambda>center kind.
       and_then (product_datetime C year month day hour minute second) (\<lambda>now.
       next_issue_due center kind now))"

definition data_next_issue_due ::
  "('ac, 'pt) data_core \<Rightarrow> ('ac \<Rightarrow> 'pt \<Rightarrow> ProductDateTime \<Rightarrow> ('ac, 'pt, ('ac, 'pt) NominalIssue) catalog) \<Rightarrow>
   string \<Rightarrow> string \<Rightarrow> i32 \<Rightarrow> i32 \<Rightarrow> i32 \<Rightarrow> i32 \<Rightarrow> i32 \<Rightarrow> i32 \<Rightarrow> reply" where
  "data_next_issue_due C next_issue_due center_text product_code year month day hour minute second =
     encode_result C
       (next_issue_result C next_issue_due center_text product_code year month day hour minute second)
       (nominal_issue_term C)"

definition data_next_issue_due_catalog_details ::
  "('ac, 'pt) data_core \<Rightarrow> ('ac \<Rightarrow> 'pt \<Rightarrow> ProductDateTime \<Rightarrow> ('ac, 'pt, ('ac, 'pt) NominalIssue) catalog) \<Rightarrow>
   string \<Rightarrow> string \<Rightarrow> i32 \<Rightarrow> i32 \<Rightarrow> i32 \<Rightarrow> i32 \<Rightarrow> i32 \<Rightarrow> i32 \<Rightarrow> reply" where
  "data_next_issue_due_catalog_details C next_issue_due center_text product_code year month day
      hour minute second =
     encode_result_with_catalog_details C
       (next_issue_result C next_issue_due center_text product_code year month day hour minute second)
       (nominal_issue_term C)"

type_synonym candidate_spec = "string \<times> string \<times> i32 \<times> i32 \<times> i32 \<times> string option \<times> string option"

definition candidate_spec ::
  "('ac, 'pt) data_core \<Rightarrow>
   ('ac \<Rightarrow> 'pt \<Rightarrow> ProductDate \<Rightarrow> string option \<Rightarrow> string option \<Rightarrow> ('ac, 'pt, 'spec) catalog) \<Rightarrow>
   candidate_spec \<Rightarrow> ('ac, 'pt, 'spec) catalog" where
  "candidate_spec C product = (\<lambda>(center_text, product_code, year, month, day, sample, issue).
     by_center_type_date C center_text product_code year month day
       (\<lambda>center kind date. product center kind date sample issue))"

definition data_resolve_first_published ::
  "('ac, 'pt) data_core \<Rightarrow>
   ('ac \<Rightarrow> 'pt \<Rightarrow> ProductDate \<Rightarrow> string option \<Rightarrow> string option \<Rightarrow> ('ac, 'pt, 'spec) catalog) \<Rightarrow>
   ('spec list \<Rightarrow> published_object list \<Rightarrow> ('ac, 'pt, 'index) catalog) \<Rightarrow> ('index \<Rightarrow> nterm) \<Rightarrow>
   candidate_spec list \<Rightarrow> published_object list \<Rightarrow> reply" where
  "data_resolve_first_published C product resolve_first_published index_term candidates objects =
     encode_result C
       (and_then (collect_results (map (candidate_spec C product) candidates)) (\<lambda>specs.
        resolve_first_published specs objects))
       index_term"

section \<open>Terrain and space weather\<close>

record source_entry =
  se_protocol :: string
  se_host :: string
  se_compression :: string
  se_root_url :: string

definition data_skadi_source_entry :: "source_entry \<Rightarrow> nterm" where
  "data_skadi_source_entry entry =
     Tup (map Utf8 [se_protocol entry, se_host entry, se_compression entry, se_root_url entry])"

definition data_space_weather_source_entry :: "source_entry \<Rightarrow> nterm" where
  "data_space_weather_source_entry entry =
     Tup (map Utf8 [se_protocol entry, se_host entry, se_compression entry, se_root_url entry])"

definition data_space_weather_filename ::
  "('ac, 'pt) data_core \<Rightarrow> (string \<Rightarrow> ('ac, 'pt, 'sw) catalog) \<Rightarrow> ('sw \<Rightarrow> string) \<Rightarrow> string \<Rightarrow> reply" where
  "data_space_weather_filename C space_weather_product space_weather_filename product_code =
     encode_result C (space_weather_product product_code) (\<lambda>product. Utf8 (space_weather_filename product))"

definition data_space_weather_archive_url ::
  "('ac, 'pt) data_core \<Rightarrow> (string \<Rightarrow> ('ac, 'pt, 'sw) catalog) \<Rightarrow> ('sw \<Rightarrow> string) \<Rightarrow> string \<Rightarrow> reply" where
  "data_space_weather_archive_url C space_weather_product space_weather_archive_url product_code =
     encode_result C (space_weather_product product_code) (\<lambda>product. Utf8 (space_weather_archive_url product))"

definition data_space_weather_cache_relpath ::
  "('ac, 'pt) data_core \<Rightarrow> (string \<Rightarrow> ('ac, 'pt, 'sw) catalog) \<Rightarrow> ('sw \<Rightarrow> string) \<Rightarrow> string \<Rightarrow> reply" where
  "data_space_weather_cache_relpath C space_weather_product space_weather_cache_relpath product_code =
     encode_result C (space_weather_product product_code) (\<lambda>product. Utf8 (space_weather_cache_relpath product))"

definition data_skadi_tile_id ::
  "('ac, 'pt) data_core \<Rightarrow> (i32 \<Rightarrow> i32 \<Rightarrow> ('ac, 'pt, string) catalog) \<Rightarrow> i32 \<Rightarrow> i32 \<Rightarrow> reply" where
  "data_skadi_tile_id C skadi_tile_id lat_index lon_index = encode_result C (skadi_tile_id lat_index lon_index) Utf8"

definition data_skadi_archive_url ::
  "('ac, 'pt) data_core \<Rightarrow> (i32 \<Rightarrow> i32 \<Rightarrow> ('ac, 'pt, string) catalog) \<Rightarrow> i32 \<Rightarrow> i32 \<Rightarrow> reply" where
  "data_skadi_archive_url C skadi_archive_url lat_index lon_index = encode_result C (skadi_archive_url lat_index lon_index) Utf8"

definition data_dted_tile_filename ::
  "('ac, 'pt) data_core \<Rightarrow> (i32 \<Rightarrow> i32 \<Rightarrow> ('ac, 'pt, string) catalog) \<Rightarrow> i32 \<Rightarrow> i32 \<Rightarrow> reply" where
  "data_dted_tile_filename C dted_tile_filename lat_index lon_index = encode_result C (dted_tile_filename lat_index lon_index) Utf8"

definition data_dted_block_dir ::
  "('ac, 'pt) data_core \<Rightarrow> (i32 \<Rightarrow> i32 \<Rightarrow> ('ac, 'pt, string) catalog) \<Rightarrow> i32 \<Rightarrow> i32 \<Rightarrow> reply" where
  "data_dted_block_dir C dted_block_dir lat_index lon_index = encode_result C (dted_block_dir lat_index lon_index) Utf8"

definition data_dted_cache_relpath ::
  "('ac, 'pt) data_core \<Rightarrow> (i32 \<Rightarrow> i32 \<Rightarrow> ('ac, 'pt, string) catalog) \<Rightarrow> i32 \<Rightarrow> i32 \<Rightarrow> reply" where
  "data_dted_cache_relpath C dted_cache_relpath lat_index lon_index = encode_result C (dted_cache_relpath lat_index lon_index) Utf8"

definition data_skadi_band ::
  "('ac, 'pt) data_core \<Rightarrow> (i32 \<Rightarrow> ('ac, 'pt, string) catalog) \<Rightarrow> i32 \<Rightarrow> reply" where
  "data_skadi_band C skadi_band lat_index = encode_result C (skadi_band lat_index) Utf8"

definition data_skadi_tile_id_catalog_details ::
  "('ac, 'pt) data_core \<Rightarrow> (i32 \<Rightarrow> i32 \<Rightarrow> ('ac, 'pt, string) catalog) \<Rightarrow> i32 \<Rightarrow> i32 \<Rightarrow> reply" where
  "data_skadi_tile_id_catalog_details C skadi_tile_id lat_index lon_index =
     encode_result_with_catalog_details C (skadi_tile_id lat_index lon_index) Utf8"

definition tile_pair_term :: "i32 \<times> i32 \<Rightarrow> nterm" where
  "tile_pair_term p = Tup [enc_i32 (fst p), enc_i32 (snd p)]"

definition data_terrain_tile_index ::
  "('ac, 'pt) data_core \<Rightarrow> (f64 \<Rightarrow> f64 \<Rightarrow> ('ac, 'pt, i32 \<times> i32) catalog) \<Rightarrow> f64 \<Rightarrow> f64 \<Rightarrow> reply" where
  "data_terrain_tile_index C terrain_tile_index lat_deg lon_deg =
     encode_result C (terrain_tile_index lat_deg lon_deg) tile_pair_term"

definition data_terrain_tile_index_catalog_details ::
  "('ac, 'pt) data_core \<Rightarrow> (f64 \<Rightarrow> f64 \<Rightarrow> ('ac, 'pt, i32 \<times> i32) catalog) \<Rightarrow> f64 \<Rightarrow> f64 \<Rightarrow> reply" where
  "data_terrain_tile_index_catalog_details C terrain_tile_index lat_deg lon_deg =
     encode_result_with_catalog_details C (terrain_tile_index lat_deg lon_deg) tile_pair_term"

definition data_parse_skadi_tile_id ::
  "('ac, 'pt) data_core \<Rightarrow> (string \<Rightarrow> ('ac, 'pt, i32 \<times> i32) catalog) \<Rightarrow> string \<Rightarrow> reply" where
  "data_parse_skadi_tile_id C parse_skadi_tile_id tile_id =
     encode_result C (parse_skadi_tile_id tile_id) tile_pair_term"

definition data_parse_skadi_tile_id_catalog_details ::
  "('ac, 'pt) data_core \<Rightarrow> (string \<Rightarrow> ('ac, 'pt, i32 \<times> i32) catalog) \<Rightarrow> string \<Rightarrow> reply" where
  "data_parse_skadi_tile_id_catalog_details C parse_skadi_tile_id tile_id =
     encode_result_with_catalog_details C (parse_skadi_tile_id tile_id) tile_pair_term"

definition data_hgt_to_dted ::
  "(i32 \<Rightarrow> i32 \<Rightarrow> u8 list \<Rightarrow> HgtConversionError + u8 list) \<Rightarrow> i32 \<Rightarrow> i32 \<Rightarrow> u8 list \<Rightarrow> nterm" where
  "data_hgt_to_dted hgt_to_dted lat_index lon_index hgt =
     (case hgt_to_dted lat_index lon_index hgt of
        Inr dt2 \<Rightarrow> ok_term (Bin dt2)
      | Inl err \<Rightarrow> encode_hgt_error err)"

section \<open>How the replies relate to the results\<close>

lemma encode_result_replies:
  shows "\<exists>t. encode_result C r f = Inr t" "\<exists>t. encode_result_with_catalog_details C r f = Inr t"
proof -
  show "\<exists>t. encode_result C r f = Inr t"
    using encode_total [of C] by (cases r) (auto simp: encode_result_def)
  show "\<exists>t. encode_result_with_catalog_details C r f = Inr t"
    using catalog_detail_shape [of C] by (cases r) (auto simp: encode_result_with_catalog_details_def)
qed

text \<open>The same outcome in the two reply formats: equal on success, and the same error otherwise.\<close>

definition same_outcome :: "('ac, 'pt) data_core \<Rightarrow> reply \<Rightarrow> reply \<Rightarrow> bool" where
  "same_outcome C plain detailed \<longleftrightarrow>
     (\<exists>t. plain = Inr (ok_term t) \<and> detailed = plain) \<or>
     (\<exists>e. plain = encode_catalog_error C e \<and> detailed = catalog_detail C e)"

lemma same_outcome_encode:
  "same_outcome C (encode_result C r f) (encode_result_with_catalog_details C r f)"
  by (cases r) (auto simp: same_outcome_def encode_result_def encode_result_with_catalog_details_def)

lemma uint_u8_of_int: "0 \<le> k \<Longrightarrow> k < 256 \<Longrightarrow> uint (word_of_int k :: u8) = k"
  by (simp add: unsigned_of_int take_bit_int_eq_self)

lemma u8_try_from_Some:
  assumes "u8_try_from x = Some y"
  shows "uint y = sint x"
proof -
  from assms have "0 \<le> sint x" "sint x < 256" "y = word_of_int (sint x)"
    by (simp_all add: u8_try_from_def split: if_splits)
  then show ?thesis using uint_u8_of_int by metis
qed

lemma product_date_Inr:
  assumes "core_text_laws C" "product_date C y m d = Inr date"
  shows "sint (date_year date) = sint y \<and> uint (date_month date) = sint m \<and> uint (date_day date) = sint d"
proof -
  from assms(2) obtain m' d' where "u8_try_from m = Some m'" "u8_try_from d = Some d'"
    and "product_date_new C y m' d' = Inr date"
    by (auto simp: product_date_def result_iffs)
  moreover from this(3) have "date = \<lparr>date_year = y, date_month = m', date_day = d'\<rparr>"
    by (rule core_date_new [OF assms(1)])
  ultimately show ?thesis by (simp add: u8_try_from_Some)
qed

text \<open>Collecting stops at the first error.\<close>

lemma collect_results_first_error:
  assumes "\<forall>x \<in> set pre. \<exists>a. f x = Inr a" "f x = Inl e"
  shows "collect_results (map f (pre @ x # post)) = Inl e"
  using assms by (induction pre) auto

lemma collect_results_ok:
  assumes "\<forall>x \<in> set xs. \<exists>a. f x = Inr a"
  shows "\<exists>as. collect_results (map f xs) = Inr as \<and> length as = length xs \<and>
           (\<forall>i < length xs. f (xs ! i) = Inr (as ! i))"
  using assms
proof (induction xs)
  case (Cons x xs)
  then obtain a as where "f x = Inr a" "collect_results (map f xs) = Inr as" "length as = length xs"
    "\<forall>i < length xs. f (xs ! i) = Inr (as ! i)" by auto
  then show ?case by (auto simp: nth_Cons split: nat.splits)
qed simp

lemma collect_results_find:
  "collect_results rs = (case find isl rs of Some (Inl e) \<Rightarrow> Inl e | _ \<Rightarrow> Inr (map projr rs))"
proof (induction rs)
  case (Cons r rs)
  then show ?case by (cases r) (auto simp: map_ok_def split: option.splits sum.splits)
qed simp

section \<open>Properties\<close>

text \<open>
  C36. Each \<open>_catalog_details\<close> call has the same outcome as its plain counterpart: the same reply on
  success, and on failure the detail of exactly the error the plain call reports.
\<close>

theorem details_calls_agree:
  "same_outcome C (data_product_solution_class C sc ct pt)
     (data_product_solution_class_catalog_details C sc ct pt) \<and>
   same_outcome C (data_sp3_content_start_convention C cc ot cs ct y m d iss)
     (data_sp3_content_start_convention_catalog_details C cc ot cs ct y m d iss) \<and>
   same_outcome C (data_product_identity C derive ct pt y m d smp iss)
     (data_product_identity_catalog_details C derive ct pt y m d smp iss) \<and>
   same_outcome C (data_distribution_location_for_identity C lf fs src)
     (data_distribution_location_for_identity_catalog_details C lf fs src) \<and>
   same_outcome C (data_ultra_issue_candidates C ui ct y m d h mi s)
     (data_ultra_issue_candidates_catalog_details C ui ct y m d h mi s) \<and>
   same_outcome C (data_parse_archive_listing C utf8 pl body)
     (data_parse_archive_listing_catalog_details C utf8 pl body) \<and>
   same_outcome C (data_newest_published_product C np ct pt objs)
     (data_newest_published_product_catalog_details C np ct pt objs) \<and>
   same_outcome C (data_next_issue_due C nd ct pt y m d h mi s)
     (data_next_issue_due_catalog_details C nd ct pt y m d h mi s) \<and>
   same_outcome C (data_skadi_tile_id C tid la lo) (data_skadi_tile_id_catalog_details C tid la lo) \<and>
   same_outcome C (data_terrain_tile_index C ti lat lon)
     (data_terrain_tile_index_catalog_details C ti lat lon) \<and>
   same_outcome C (data_parse_skadi_tile_id C ptid t) (data_parse_skadi_tile_id_catalog_details C ptid t)"
  unfolding data_product_solution_class_def data_product_solution_class_catalog_details_def
    data_sp3_content_start_convention_def data_sp3_content_start_convention_catalog_details_def
    data_product_identity_def data_product_identity_catalog_details_def
    data_distribution_location_for_identity_def
    data_distribution_location_for_identity_catalog_details_def
    data_ultra_issue_candidates_def data_ultra_issue_candidates_catalog_details_def
    data_parse_archive_listing_def data_parse_archive_listing_catalog_details_def
    data_newest_published_product_def data_newest_published_product_catalog_details_def
    data_next_issue_due_def data_next_issue_due_catalog_details_def
    data_skadi_tile_id_def data_skadi_tile_id_catalog_details_def
    data_terrain_tile_index_def data_terrain_tile_index_catalog_details_def
    data_parse_skadi_tile_id_def data_parse_skadi_tile_id_catalog_details_def
  by (intro conjI same_outcome_encode)

text \<open>
  Narrowing a caller's \<open>i32\<close> month and day to \<open>u8\<close> never wraps: an accepted date has exactly
  the numbers the caller gave, and a number that does not fit is out of range before the core sees it.
\<close>

theorem product_date_exact:
  assumes "core_text_laws C"
  shows "(\<forall>date. product_date C y m d = Inr date \<longrightarrow>
       sint (date_year date) = sint y \<and> uint (date_month date) = sint m \<and> uint (date_day date) = sint d) \<and>
     (\<not> (0 \<le> sint m \<and> sint m < 256 \<and> 0 \<le> sint d \<and> sint d < 256) \<longrightarrow>
       product_date C y m d = Inl DateOutOfRange)"
proof
  show "\<forall>date. product_date C y m d = Inr date \<longrightarrow>
       sint (date_year date) = sint y \<and> uint (date_month date) = sint m \<and> uint (date_day date) = sint d"
    using product_date_Inr [OF assms] by blast
  show "\<not> (0 \<le> sint m \<and> sint m < 256 \<and> 0 \<le> sint d \<and> sint d < 256) \<longrightarrow>
       product_date C y m d = Inl DateOutOfRange"
    by (auto simp: product_date_def u8_try_from_def)
qed

theorem product_date_exact_witness:
  "product_date demo_core 2024 3 9 = Inr \<lparr>date_year = 2024, date_month = 3, date_day = 9\<rparr> \<and>
   product_date demo_core 2024 259 9 = Inl DateOutOfRange"
proof
  show "product_date demo_core 2024 3 9 = Inr \<lparr>date_year = 2024, date_month = 3, date_day = 9\<rparr>"
    by (simp add: product_date_def u8_try_from_def demo_core_def)
  show "product_date demo_core 2024 259 9 = Inl DateOutOfRange"
    using product_date_exact [OF demo_core_laws, of 2024 259 9] by simp
qed

text \<open>
  Comparing an expected and an available product set reports, in this order: the first expected
  identity that does not parse, the first available one that does not parse, and only when every
  identity parses the verdict of the core on exactly the parsed identities.
\<close>

theorem exact_product_set_precedence:
  "((\<forall>x \<in> set pre. \<exists>i. product_identity C x = Inr i) \<and> product_identity C bad = Inl e \<longrightarrow>
      data_validate_exact_product_set C V (pre @ bad # post) available = encode_catalog_error C e) \<and>
   ((\<forall>x \<in> set expected. \<exists>i. product_identity C x = Inr i) \<and>
      (\<forall>x \<in> set pre. \<exists>i. product_identity C x = Inr i) \<and> product_identity C bad = Inl e \<longrightarrow>
      data_validate_exact_product_set C V expected (pre @ bad # post) = encode_catalog_error C e) \<and>
   (map (product_identity C) expected = map Inr xs \<and> map (product_identity C) available = map Inr ys \<longrightarrow>
      data_validate_exact_product_set C V expected available =
        (case V xs ys of Inr _ \<Rightarrow> Inr (Atom ''ok'')
         | Inl message \<Rightarrow> Inr (error_term (Tup [Atom ''exact_product_set'', Utf8 message]))))"
proof (intro conjI impI)
  assume "(\<forall>x \<in> set pre. \<exists>i. product_identity C x = Inr i) \<and> product_identity C bad = Inl e"
  then show "data_validate_exact_product_set C V (pre @ bad # post) available = encode_catalog_error C e"
    using collect_results_first_error [of pre "product_identity C" bad e post]
    by (simp add: data_validate_exact_product_set_def del: map_append list.map)
next
  assume all: "(\<forall>x \<in> set expected. \<exists>i. product_identity C x = Inr i) \<and>
      (\<forall>x \<in> set pre. \<exists>i. product_identity C x = Inr i) \<and> product_identity C bad = Inl e"
  then obtain as where "collect_results (map (product_identity C) expected) = Inr as"
    using collect_results_ok by metis
  with all show "data_validate_exact_product_set C V expected (pre @ bad # post) = encode_catalog_error C e"
    using collect_results_first_error [of pre "product_identity C" bad e post]
    by (simp add: data_validate_exact_product_set_def del: map_append list.map)
next
  assume "map (product_identity C) expected = map Inr xs \<and> map (product_identity C) available = map Inr ys"
  then show "data_validate_exact_product_set C V expected available =
        (case V xs ys of Inr _ \<Rightarrow> Inr (Atom ''ok'')
         | Inl message \<Rightarrow> Inr (error_term (Tup [Atom ''exact_product_set'', Utf8 message])))"
    by (simp add: data_validate_exact_product_set_def collect_results_Inr)
qed

theorem exact_product_set_precedence_witness:
  "data_validate_exact_product_set demo_core (\<lambda>_ _. Inl ''mismatch'') [demo_fields, []] [[]] =
     encode_catalog_error demo_core (identity_field_error ''field_count'') \<and>
   data_validate_exact_product_set demo_core (\<lambda>_ _. Inl ''mismatch'') [demo_fields] [] =
     Inr (error_term (Tup [Atom ''exact_product_set'', Utf8 ''mismatch'']))"
proof
  show "data_validate_exact_product_set demo_core (\<lambda>_ _. Inl ''mismatch'') [demo_fields, []] [[]] =
     encode_catalog_error demo_core (identity_field_error ''field_count'')"
    using exact_product_set_precedence [of "[demo_fields]" demo_core "[]" "identity_field_error ''field_count''"
        "\<lambda>_ _. Inl ''mismatch''" "[]" "[[]]" "[]" "[]" "[]"] demo_fields_parse
    by (simp add: product_identity_def)
  show "data_validate_exact_product_set demo_core (\<lambda>_ _. Inl ''mismatch'') [demo_fields] [] =
     Inr (error_term (Tup [Atom ''exact_product_set'', Utf8 ''mismatch'']))"
    using exact_product_set_precedence [of "[]" demo_core "[]" DateOutOfRange
        "\<lambda>_ _. Inl ''mismatch''" "[]" "[]" "[demo_fields]" "[demo_identity]" "[]"] demo_fields_parse
    by simp
qed

text \<open>
  The latest ultra-rapid issue: an unknown centre is reported before a bad instant, a bad instant
  before the first bad available issue, and the core is asked only with all of them parsed.
\<close>

theorem latest_ultra_issue_precedence:
  "latest_ultra_issue_result C new latest ct y m d h mi s rows =
     (case center C ct of
        Inl e \<Rightarrow> Inl e
      | Inr c \<Rightarrow>
          (case product_datetime C y m d h mi s of
             Inl e \<Rightarrow> Inl e
           | Inr target \<Rightarrow>
               (case rows of
                  None \<Rightarrow> latest c target None
                | Some issues \<Rightarrow>
                    (case find (\<lambda>r. isl r) (map (\<lambda>(y, m, d, i). and_then (product_date C y m d) (\<lambda>date. new date i)) issues) of
                       Some (Inl e) \<Rightarrow> Inl e
                     | _ \<Rightarrow> latest c target (Some (map projr (map (\<lambda>(y, m, d, i).
                               and_then (product_date C y m d) (\<lambda>date. new date i)) issues)))))))"
  by (cases "center C ct"; cases "product_datetime C y m d h mi s"; cases rows)
    (simp_all add: latest_ultra_issue_result_def ultra_issue_result_def available_issues_def
      collect_results_find split: option.splits sum.splits)

text \<open>
  No catalogue call panics, as long as the core has an entry for every centre it can parse (the
  one \<open>expect\<close> in the module).
\<close>

theorem catalog_calls_reply:
  assumes "\<forall>c. center_catalog c \<noteq> None"
  shows "(\<exists>t. data_center_entry C center_catalog code = Inr t) \<and>
     (\<exists>t. data_validate_exact_product_set C V expected available = Inr t) \<and>
     (\<exists>t. data_product_request_catalog_details C new fs codes = Inr t) \<and>
     (\<exists>t. data_latest_ultra_issue_catalog_details C unew latest ct y m d h mi s rows = Inr t)"
proof (intro conjI)
  show "\<exists>t. data_center_entry C center_catalog code = Inr t"
  proof (cases "center C code")
    case (Inr c)
    moreover obtain entry where "center_catalog c = Some entry" using assms by blast
    ultimately show ?thesis by (simp add: data_center_entry_def encode_result_replies(1))
  qed (simp add: data_center_entry_def encode_result_replies(1))
  show "\<exists>t. data_validate_exact_product_set C V expected available = Inr t"
  proof -
    have err: "\<exists>t. encode_catalog_error C e = Inr t" for e using encode_total by blast
    have verdict: "\<exists>t. (case V xs ys of Inr _ \<Rightarrow> Inr (Atom ''ok'')
        | Inl message \<Rightarrow> Inr (error_term (Tup [Atom ''exact_product_set'', Utf8 message]))) = Inr t" for xs ys
      by (cases "V xs ys") simp_all
    show ?thesis
      unfolding data_validate_exact_product_set_def
      by (cases "collect_results (map (product_identity C) expected)";
          cases "collect_results (map (product_identity C) available)") (simp_all add: err verdict)
  qed
  show "\<exists>t. data_product_request_catalog_details C new fs codes = Inr t"
    unfolding data_product_request_catalog_details_def by (rule encode_result_replies(2))
  show "\<exists>t. data_latest_ultra_issue_catalog_details C unew latest ct y m d h mi s rows = Inr t"
    unfolding data_latest_ultra_issue_catalog_details_def by (rule encode_result_replies(2))
qed

theorem catalog_calls_reply_witness:
  "\<exists>t. data_center_entry demo_core
     (\<lambda>_. Some \<lparr>ce_protocol = ''https'', ce_host = ''h'', ce_root_url = ''u'', ce_products = [()], ce_issues = []\<rparr>)
     ''cod'' = Inr t"
  using catalog_calls_reply [of "\<lambda>_. Some \<lparr>ce_protocol = ''https'', ce_host = ''h'', ce_root_url = ''u'',
      ce_products = [()], ce_issues = []\<rparr>" demo_core "''cod''"]
  by simp

end
