(* ===== verification/ExactCache.thy ===== *)
theory ExactCache
  imports DataNifs
begin

text \<open>
  The exact-product cache bridge of \<open>native/sidereon_nif/src/cache_lock.rs\<close>: two resources, each a
  mutex around an optional core handle, and the calls that use, take and drop it.

  The core cache is the record \<open>cache_core\<close>: every call acts on a world \<open>'w\<close> (the file system and
  the single-flight leases) and returns or panics. A panic while a mutex is held poisons it, as in
  \<open>std::sync\<close>. The calls are functions on \<open>cache_state\<close>; where a call releases the mutex before its
  core call, the two halves are definitions of their own, and \<open>owner_step\<close> interleaves them.
\<close>

section \<open>Mutex cells\<close>

text \<open>\<open>Mutex<Option<T>>\<close> between two critical sections.\<close>

record 'a mutex =
  poisoned :: bool
  slot :: "'a option"

definition mutex_new :: "'a \<Rightarrow> 'a mutex" where
  "mutex_new a = \<lparr>poisoned = False, slot = Some a\<rparr>"

definition lock :: "'a mutex \<Rightarrow> unit + 'a option" where
  "lock m = (if poisoned m then Inl () else Inr (slot m))"

definition lock_take :: "'a mutex \<Rightarrow> (unit + 'a option) \<times> 'a mutex" where
  "lock_take m = (if poisoned m then (Inl (), m) else (Inr (slot m), m\<lparr>slot := None\<rparr>))"

definition poison :: "'a mutex \<Rightarrow> 'a mutex" where
  "poison m = m\<lparr>poisoned := True\<rparr>"

text \<open>
  The contract of a cell whose content leaves it at most once: what a take returns is what was
  there, nothing is there afterwards, and spoiling the cell makes its content unreachable.
\<close>

locale one_shot_cell =
  fixes content :: "'m \<Rightarrow> 'a option"
    and take :: "'m \<Rightarrow> 'a option \<times> 'm"
    and spoil :: "'m \<Rightarrow> 'm"
  assumes take_content: "fst (take m) = content m"
    and take_empties: "content (snd (take m)) = None"
    and spoil_hides: "content (spoil m) = None"
begin

fun taken :: "bool list \<Rightarrow> 'm \<Rightarrow> 'a list" where
  "taken [] m = []"
| "taken (True # ops) m =
     (case fst (take m) of None \<Rightarrow> [] | Some a \<Rightarrow> [a]) @ taken ops (snd (take m))"
| "taken (False # ops) m = taken ops (spoil m)"

lemma taken_empty: "content m = None \<Longrightarrow> taken ops m = []"
  by (induction ops m rule: taken.induct) (simp_all add: take_content take_empties spoil_hides)

lemma taken_prefix: "taken ops m = [] \<or> (\<exists>a. content m = Some a \<and> taken ops m = [a])"
proof (cases ops)
  case (Cons op rest)
  then show ?thesis
    by (cases op) (auto simp: take_content take_empties spoil_hides taken_empty split: option.splits)
qed simp

lemma taken_at_most_once: "length (taken ops m) \<le> 1"
  using taken_prefix [of ops m] by auto

end

definition reachable_content :: "'a mutex \<Rightarrow> 'a option" where
  "reachable_content m = (case lock m of Inl _ \<Rightarrow> None | Inr x \<Rightarrow> x)"

definition mutex_take :: "'a mutex \<Rightarrow> 'a option \<times> 'a mutex" where
  "mutex_take m = (case lock_take m of (Inl _, m') \<Rightarrow> (None, m') | (Inr x, m') \<Rightarrow> (x, m'))"

interpretation mx: one_shot_cell reachable_content mutex_take poison
  by unfold_locales
    (simp_all add: reachable_content_def mutex_take_def lock_take_def lock_def poison_def)

section \<open>The core cache\<close>

datatype 'a call = Done 'a | Panicked

datatype 'e ExactCacheError =
    SingleFlightTimeout
  | SingleFlightOwnershipLost
  | InvalidSingleFlightOptions
  | OtherExactCacheError 'e

record CommittedExactCacheEntry =
  product_path :: string
  archive_path :: string
  provenance_path :: string
  entry_id :: string
  entry_product :: "u8 list"
  entry_archive :: "u8 list"
  entry_provenance :: "u8 list"

datatype 'o ExactCacheOpen = Hit CommittedExactCacheEntry | Owner 'o

text \<open>The option fields the binding sets, in milliseconds.\<close>

record ExactCacheSingleFlightOptions =
  poll_interval :: u64
  heartbeat_interval :: u64
  liveness_timeout :: u64
  wait_timeout :: u64

record ('ac, 'pt, 'w, 'c, 'g, 'o, 'e) cache_core =
  cc_data :: "('ac, 'pt) data_core"
  cc_new :: "string \<Rightarrow> ('ac, 'pt) ProductIdentity \<Rightarrow> DistributionSource \<Rightarrow> 'w \<Rightarrow> ('e ExactCacheError + 'c) call \<times> 'w"
  cc_lock :: "'c \<Rightarrow> u64 \<Rightarrow> 'w \<Rightarrow> ('e ExactCacheError + 'g) call \<times> 'w"
  cc_open_single_flight ::
    "'c \<Rightarrow> ExactCacheSingleFlightOptions \<Rightarrow> 'w \<Rightarrow> ('e ExactCacheError + 'o ExactCacheOpen) call \<times> 'w"
  cc_read :: "'c \<Rightarrow> 'w \<Rightarrow> ('e ExactCacheError + CommittedExactCacheEntry option) call \<times> 'w"
  cc_publish ::
    "'c \<Rightarrow> 'g \<Rightarrow> u8 list \<Rightarrow> u8 list \<Rightarrow> u8 list \<Rightarrow> 'w \<Rightarrow> ('e ExactCacheError + CommittedExactCacheEntry) call \<times> 'w"
  cc_cleanup_abandoned :: "'c \<Rightarrow> 'g \<Rightarrow> 'w \<Rightarrow> ('e ExactCacheError + unit) call \<times> 'w"
  cc_drop_guard :: "'g \<Rightarrow> 'w \<Rightarrow> unit call \<times> 'w"
  cc_heartbeat :: "'o \<Rightarrow> 'w \<Rightarrow> ('e ExactCacheError + unit) call \<times> 'w"
  cc_owner_publish ::
    "'o \<Rightarrow> u8 list \<Rightarrow> u8 list \<Rightarrow> u8 list \<Rightarrow> 'w \<Rightarrow> ('e ExactCacheError + CommittedExactCacheEntry) call \<times> 'w"
  cc_drop_owner :: "'o \<Rightarrow> 'w \<Rightarrow> unit call \<times> 'w"
  cc_display :: "'e ExactCacheError \<Rightarrow> string"

text \<open>The live resources, by number, and the world.\<close>

record ('c, 'g) ExactCacheResource =
  res_cache :: 'c
  res_guard :: "'g mutex"

record ('w, 'c, 'g, 'o) cache_state =
  world :: 'w
  caches :: "('c, 'g) ExactCacheResource list"
  owners :: "'o mutex list"

section \<open>Terms\<close>

definition source :: "string \<Rightarrow> DistributionSource option" where
  "source v =
     (if v = ''direct'' then Some Direct
      else if v = ''nasa_cddis'' then Some NasaCddis
      else if v = ''local_file'' then Some LocalFile
      else if v = ''in_memory'' then Some InMemory
      else None)"

definition encode_error :: "string \<Rightarrow> reply" where
  "encode_error message = Inr (error_term (Utf8 message))"

definition encode_single_flight_error ::
  "('ac, 'pt, 'w, 'c, 'g, 'o, 'e) cache_core \<Rightarrow> 'e ExactCacheError \<Rightarrow> reply" where
  "encode_single_flight_error K error =
     Inr (error_term (case error of
        SingleFlightTimeout \<Rightarrow> Atom ''single_flight_timeout''
      | SingleFlightOwnershipLost \<Rightarrow> Atom ''single_flight_ownership_lost''
      | InvalidSingleFlightOptions \<Rightarrow> Atom ''invalid_single_flight_options''
      | OtherExactCacheError e \<Rightarrow> Utf8 (cc_display K (OtherExactCacheError e))))"

definition encode_entry :: "string \<Rightarrow> CommittedExactCacheEntry \<Rightarrow> reply" where
  "encode_entry tag entry =
     Inr (Tup [Atom tag, Utf8 (product_path entry), Utf8 (archive_path entry),
               Utf8 (provenance_path entry), Utf8 (entry_id entry), Bin (entry_product entry),
               Bin (entry_archive entry), Bin (entry_provenance entry)])"

definition encode_read ::
  "('ac, 'pt, 'w, 'c, 'g, 'o, 'e) cache_core \<Rightarrow> 'e ExactCacheError + CommittedExactCacheEntry option \<Rightarrow> reply" where
  "encode_read K result =
     (case result of
        Inr None \<Rightarrow> Inr (Atom ''miss'')
      | Inr (Some entry) \<Rightarrow> encode_entry ''ok'' entry
      | Inl error \<Rightarrow> encode_error (cc_display K error))"

section \<open>Opening\<close>

text \<open>Identity, then source, then the cache itself: the prefix of all three opening calls.\<close>

definition new_cache ::
  "('ac, 'pt, 'w, 'c, 'g, 'o, 'e) cache_core \<Rightarrow> string \<Rightarrow> string list \<Rightarrow> string \<Rightarrow> 'w \<Rightarrow> (string + 'c) call \<times> 'w" where
  "new_cache K path identity_fields code w =
     (case product_identity (cc_data K) identity_fields of
        Inl error \<Rightarrow> (Done (Inl (error_display (cc_data K) error)), w)
      | Inr identity \<Rightarrow>
          (case source code of
             None \<Rightarrow> (Done (Inl ''unknown distribution source''), w)
           | Some src \<Rightarrow>
               (case cc_new K path identity src w of
                  (Panicked, w) \<Rightarrow> (Panicked, w)
                | (Done r, w) \<Rightarrow> (Done (map_err (cc_display K) r), w))))"

definition data_exact_cache_open ::
  "('ac, 'pt, 'w, 'c, 'g, 'o, 'e) cache_core \<Rightarrow> string \<Rightarrow> string list \<Rightarrow> string \<Rightarrow> u64 \<Rightarrow>
   ('w, 'c, 'g, 'o) cache_state \<Rightarrow> reply \<times> ('w, 'c, 'g, 'o) cache_state" where
  "data_exact_cache_open K path identity_fields code timeout_ms s =
     (case new_cache K path identity_fields code (world s) of
        (Panicked, w) \<Rightarrow> (Inl Panic, s\<lparr>world := w\<rparr>)
      | (Done (Inl error), w) \<Rightarrow> (encode_error error, s\<lparr>world := w\<rparr>)
      | (Done (Inr cache), w) \<Rightarrow>
          (case cc_lock K cache timeout_ms w of
             (Panicked, w) \<Rightarrow> (Inl Panic, s\<lparr>world := w\<rparr>)
           | (Done (Inl error), w) \<Rightarrow> (encode_error (cc_display K error), s\<lparr>world := w\<rparr>)
           | (Done (Inr guard), w) \<Rightarrow>
               (Inr (ok_term (Resource (length (caches s)))),
                s\<lparr>world := w,
                  caches := caches s @ [\<lparr>res_cache = cache, res_guard = mutex_new guard\<rparr>]\<rparr>)))"

definition data_exact_cache_open_single_flight ::
  "('ac, 'pt, 'w, 'c, 'g, 'o, 'e) cache_core \<Rightarrow> string \<Rightarrow> string list \<Rightarrow> string \<Rightarrow> u64 \<Rightarrow> u64 \<Rightarrow> u64 \<Rightarrow> u64 \<Rightarrow>
   ('w, 'c, 'g, 'o) cache_state \<Rightarrow> reply \<times> ('w, 'c, 'g, 'o) cache_state" where
  "data_exact_cache_open_single_flight K path identity_fields code poll_interval_ms
      heartbeat_interval_ms liveness_timeout_ms wait_timeout_ms s =
     (case new_cache K path identity_fields code (world s) of
        (Panicked, w) \<Rightarrow> (Inl Panic, s\<lparr>world := w\<rparr>)
      | (Done (Inl error), w) \<Rightarrow> (encode_error error, s\<lparr>world := w\<rparr>)
      | (Done (Inr cache), w) \<Rightarrow>
          (let options = \<lparr>poll_interval = poll_interval_ms, heartbeat_interval = heartbeat_interval_ms,
                          liveness_timeout = liveness_timeout_ms, wait_timeout = wait_timeout_ms\<rparr> in
           case cc_open_single_flight K cache options w of
             (Panicked, w) \<Rightarrow> (Inl Panic, s\<lparr>world := w\<rparr>)
           | (Done (Inr (Hit entry)), w) \<Rightarrow> (encode_entry ''hit'' entry, s\<lparr>world := w\<rparr>)
           | (Done (Inr (Owner owner)), w) \<Rightarrow>
               (Inr (Tup [Atom ''owner'', Resource (length (owners s))]),
                s\<lparr>world := w, owners := owners s @ [mutex_new owner]\<rparr>)
           | (Done (Inl error), w) \<Rightarrow> (encode_single_flight_error K error, s\<lparr>world := w\<rparr>)))"

definition data_exact_cache_read_unlocked ::
  "('ac, 'pt, 'w, 'c, 'g, 'o, 'e) cache_core \<Rightarrow> string \<Rightarrow> string list \<Rightarrow> string \<Rightarrow>
   ('w, 'c, 'g, 'o) cache_state \<Rightarrow> reply \<times> ('w, 'c, 'g, 'o) cache_state" where
  "data_exact_cache_read_unlocked K path identity_fields code s =
     (case new_cache K path identity_fields code (world s) of
        (Panicked, w) \<Rightarrow> (Inl Panic, s\<lparr>world := w\<rparr>)
      | (Done (Inl error), w) \<Rightarrow> (encode_error error, s\<lparr>world := w\<rparr>)
      | (Done (Inr cache), w) \<Rightarrow>
          (case cc_read K cache w of
             (Panicked, w) \<Rightarrow> (Inl Panic, s\<lparr>world := w\<rparr>)
           | (Done result, w) \<Rightarrow> (encode_read K result, s\<lparr>world := w\<rparr>)))"

section \<open>The single-flight owner\<close>

text \<open>The heartbeat runs under the lock; a panic in it poisons the cell and keeps its content.\<close>

definition data_exact_cache_owner_heartbeat ::
  "('ac, 'pt, 'w, 'c, 'g, 'o, 'e) cache_core \<Rightarrow> nat \<Rightarrow>
   ('w, 'c, 'g, 'o) cache_state \<Rightarrow> reply \<times> ('w, 'c, 'g, 'o) cache_state" where
  "data_exact_cache_owner_heartbeat K r s =
     (case lock (owners s ! r) of
        Inl _ \<Rightarrow> (encode_error ''exact-cache single-flight owner was poisoned'', s)
      | Inr None \<Rightarrow> (encode_error ''exact-cache single-flight owner is closed'', s)
      | Inr (Some owner) \<Rightarrow>
          (case cc_heartbeat K owner (world s) of
             (Panicked, w) \<Rightarrow> (Inl Panic, s\<lparr>world := w, owners := (owners s)[r := poison (owners s ! r)]\<rparr>)
           | (Done (Inr _), w) \<Rightarrow> (Inr (Atom ''ok''), s\<lparr>world := w\<rparr>)
           | (Done (Inl error), w) \<Rightarrow> (encode_single_flight_error K error, s\<lparr>world := w\<rparr>)))"

text \<open>Publishing and abandoning take the owner under the lock and use it after releasing it.\<close>

definition owner_take ::
  "nat \<Rightarrow> ('w, 'c, 'g, 'o) cache_state \<Rightarrow> (unit + 'o option) \<times> ('w, 'c, 'g, 'o) cache_state" where
  "owner_take r s =
     (case lock_take (owners s ! r) of (x, m) \<Rightarrow> (x, s\<lparr>owners := (owners s)[r := m]\<rparr>))"

definition publish_taken ::
  "('ac, 'pt, 'w, 'c, 'g, 'o, 'e) cache_core \<Rightarrow> 'o \<Rightarrow> u8 list \<Rightarrow> u8 list \<Rightarrow> u8 list \<Rightarrow>
   ('w, 'c, 'g, 'o) cache_state \<Rightarrow> reply \<times> ('w, 'c, 'g, 'o) cache_state" where
  "publish_taken K owner product archive provenance s =
     (case cc_owner_publish K owner product archive provenance (world s) of
        (Panicked, w) \<Rightarrow> (Inl Panic, s\<lparr>world := w\<rparr>)
      | (Done (Inr entry), w) \<Rightarrow> (encode_entry ''ok'' entry, s\<lparr>world := w\<rparr>)
      | (Done (Inl error), w) \<Rightarrow> (encode_single_flight_error K error, s\<lparr>world := w\<rparr>))"

definition data_exact_cache_owner_publish ::
  "('ac, 'pt, 'w, 'c, 'g, 'o, 'e) cache_core \<Rightarrow> nat \<Rightarrow> u8 list \<Rightarrow> u8 list \<Rightarrow> u8 list \<Rightarrow>
   ('w, 'c, 'g, 'o) cache_state \<Rightarrow> reply \<times> ('w, 'c, 'g, 'o) cache_state" where
  "data_exact_cache_owner_publish K r product archive provenance s =
     (case owner_take r s of
        (Inl _, s) \<Rightarrow> (encode_error ''exact-cache single-flight owner was poisoned'', s)
      | (Inr None, s) \<Rightarrow> (encode_error ''exact-cache single-flight owner is closed'', s)
      | (Inr (Some owner), s) \<Rightarrow> publish_taken K owner product archive provenance s)"

definition drop_taken ::
  "('ac, 'pt, 'w, 'c, 'g, 'o, 'e) cache_core \<Rightarrow> 'o option \<Rightarrow>
   ('w, 'c, 'g, 'o) cache_state \<Rightarrow> reply \<times> ('w, 'c, 'g, 'o) cache_state" where
  "drop_taken K owner s =
     (case owner of
        None \<Rightarrow> (Inr (Atom ''ok''), s)
      | Some o' \<Rightarrow>
          (case cc_drop_owner K o' (world s) of
             (Panicked, w) \<Rightarrow> (Inl Panic, s\<lparr>world := w\<rparr>)
           | (Done _, w) \<Rightarrow> (Inr (Atom ''ok''), s\<lparr>world := w\<rparr>)))"

definition data_exact_cache_owner_abandon ::
  "('ac, 'pt, 'w, 'c, 'g, 'o, 'e) cache_core \<Rightarrow> nat \<Rightarrow>
   ('w, 'c, 'g, 'o) cache_state \<Rightarrow> reply \<times> ('w, 'c, 'g, 'o) cache_state" where
  "data_exact_cache_owner_abandon K r s =
     (case owner_take r s of
        (Inl _, s) \<Rightarrow> (encode_error ''exact-cache single-flight owner was poisoned'', s)
      | (Inr owner, s) \<Rightarrow> drop_taken K owner s)"

section \<open>The locked cache\<close>

text \<open>Reading looks at the guard under the lock and reads after releasing it; a poisoned guard
  counts as closed here, unlike in the three calls below.\<close>

definition data_exact_cache_read ::
  "('ac, 'pt, 'w, 'c, 'g, 'o, 'e) cache_core \<Rightarrow> nat \<Rightarrow>
   ('w, 'c, 'g, 'o) cache_state \<Rightarrow> reply \<times> ('w, 'c, 'g, 'o) cache_state" where
  "data_exact_cache_read K r s =
     (let open' = (case lock (res_guard (caches s ! r)) of Inl _ \<Rightarrow> False | Inr x \<Rightarrow> x \<noteq> None) in
      if \<not> open' then (encode_error ''exact-product cache lock is closed'', s)
      else
        (case cc_read K (res_cache (caches s ! r)) (world s) of
           (Panicked, w) \<Rightarrow> (Inl Panic, s\<lparr>world := w\<rparr>)
         | (Done result, w) \<Rightarrow> (encode_read K result, s\<lparr>world := w\<rparr>)))"

definition set_guard ::
  "nat \<Rightarrow> 'g mutex \<Rightarrow> ('w, 'c, 'g, 'o) cache_state \<Rightarrow> ('w, 'c, 'g, 'o) cache_state" where
  "set_guard r m s = s\<lparr>caches := (caches s)[r := (caches s ! r)\<lparr>res_guard := m\<rparr>]\<rparr>"

definition data_exact_cache_publish ::
  "('ac, 'pt, 'w, 'c, 'g, 'o, 'e) cache_core \<Rightarrow> nat \<Rightarrow> u8 list \<Rightarrow> u8 list \<Rightarrow> u8 list \<Rightarrow>
   ('w, 'c, 'g, 'o) cache_state \<Rightarrow> reply \<times> ('w, 'c, 'g, 'o) cache_state" where
  "data_exact_cache_publish K r product archive provenance s =
     (let m = res_guard (caches s ! r) in
      case lock m of
        Inl _ \<Rightarrow> (encode_error ''exact-product cache lock was poisoned'', s)
      | Inr None \<Rightarrow> (encode_error ''exact-product cache lock is closed'', s)
      | Inr (Some guard) \<Rightarrow>
          (case cc_publish K (res_cache (caches s ! r)) guard product archive provenance (world s) of
             (Panicked, w) \<Rightarrow> (Inl Panic, set_guard r (poison m) (s\<lparr>world := w\<rparr>))
           | (Done result, w) \<Rightarrow> (encode_read K (map_ok Some result), s\<lparr>world := w\<rparr>)))"

definition data_exact_cache_cleanup ::
  "('ac, 'pt, 'w, 'c, 'g, 'o, 'e) cache_core \<Rightarrow> nat \<Rightarrow>
   ('w, 'c, 'g, 'o) cache_state \<Rightarrow> reply \<times> ('w, 'c, 'g, 'o) cache_state" where
  "data_exact_cache_cleanup K r s =
     (let m = res_guard (caches s ! r) in
      case lock m of
        Inl _ \<Rightarrow> (encode_error ''exact-product cache lock was poisoned'', s)
      | Inr None \<Rightarrow> (encode_error ''exact-product cache lock is closed'', s)
      | Inr (Some guard) \<Rightarrow>
          (case cc_cleanup_abandoned K (res_cache (caches s ! r)) guard (world s) of
             (Panicked, w) \<Rightarrow> (Inl Panic, set_guard r (poison m) (s\<lparr>world := w\<rparr>))
           | (Done (Inr _), w) \<Rightarrow> (Inr (Atom ''ok''), s\<lparr>world := w\<rparr>)
           | (Done (Inl error), w) \<Rightarrow> (encode_error (cc_display K error), s\<lparr>world := w\<rparr>)))"

text \<open>Closing drops the guard inside the critical section.\<close>

definition data_exact_cache_close ::
  "('ac, 'pt, 'w, 'c, 'g, 'o, 'e) cache_core \<Rightarrow> nat \<Rightarrow>
   ('w, 'c, 'g, 'o) cache_state \<Rightarrow> reply \<times> ('w, 'c, 'g, 'o) cache_state" where
  "data_exact_cache_close K r s =
     (case lock_take (res_guard (caches s ! r)) of
        (Inl _, _) \<Rightarrow> (encode_error ''exact-product cache lock was poisoned'', s)
      | (Inr None, m) \<Rightarrow> (Inr (Atom ''ok''), set_guard r m s)
      | (Inr (Some guard), m) \<Rightarrow>
          (case cc_drop_guard K guard (world s) of
             (Panicked, w) \<Rightarrow> (Inl Panic, set_guard r (poison m) (s\<lparr>world := w\<rparr>))
           | (Done _, w) \<Rightarrow> (Inr (Atom ''ok''), set_guard r m (s\<lparr>world := w\<rparr>))))"

end
