(* ===== verification/ExactCache_Props.thy ===== *)
theory ExactCache_Props
  imports ExactCache
begin

text \<open>
  Properties of the exact-product cache bridge: single use of the single-flight owner under every
  interleaving of its calls, closing and poisoning of the cache guard, and the opening calls.
\<close>

section \<open>Interleavings of the owner calls\<close>

text \<open>
  Several scheduler threads may call the owner NIFs on one resource \<open>r\<close> at once. A configuration is
  the state, the calls that have taken the owner and not yet used it, and the log of core calls.
  A critical section is one step; so is the core call made after releasing the lock; between them
  anything else may change the world and the other resources.
\<close>

datatype 'o pending = Publishing 'o "u8 list" "u8 list" "u8 list" | Dropping 'o

datatype event = HeartbeatCall | Taken | PublishCall | DropCall

fun pending_owner :: "'o pending \<Rightarrow> 'o" where
  "pending_owner (Publishing ow p a v) = ow"
| "pending_owner (Dropping ow) = ow"

type_synonym ('w, 'c, 'g, 'o) owner_config =
  "('w, 'c, 'g, 'o) cache_state \<times> 'o pending list \<times> event list"

inductive owner_step ::
  "('ac, 'pt, 'w, 'c, 'g, 'o, 'e) cache_core \<Rightarrow> nat \<Rightarrow>
   ('w, 'c, 'g, 'o) owner_config \<Rightarrow> ('w, 'c, 'g, 'o) owner_config \<Rightarrow> bool"
  for K r where
  heartbeat_call:
    "lock (owners s ! r) = Inr (Some ow) \<Longrightarrow> data_exact_cache_owner_heartbeat K r s = (t, s') \<Longrightarrow>
     owner_step K r (s, ps, l) (s', ps, l @ [HeartbeatCall])"
| heartbeat_refused:
    "lock (owners s ! r) = Inl () \<or> lock (owners s ! r) = Inr None \<Longrightarrow>
     data_exact_cache_owner_heartbeat K r s = (t, s') \<Longrightarrow> owner_step K r (s, ps, l) (s', ps, l)"
| publish_take:
    "owner_take r s = (Inr (Some ow), s') \<Longrightarrow>
     owner_step K r (s, ps, l) (s', ps @ [Publishing ow p a v], l @ [Taken])"
| abandon_take:
    "owner_take r s = (Inr (Some ow), s') \<Longrightarrow>
     owner_step K r (s, ps, l) (s', ps @ [Dropping ow], l @ [Taken])"
| take_refused:
    "owner_take r s = (x, s') \<Longrightarrow> x = Inl () \<or> x = Inr None \<Longrightarrow> owner_step K r (s, ps, l) (s', ps, l)"
| publish_run:
    "publish_taken K ow p a v s = (t, s') \<Longrightarrow>
     owner_step K r (s, xs @ Publishing ow p a v # ys, l) (s', xs @ ys, l @ [PublishCall])"
| drop_run:
    "drop_taken K (Some ow) s = (t, s') \<Longrightarrow>
     owner_step K r (s, xs @ Dropping ow # ys, l) (s', xs @ ys, l @ [DropCall])"
| elsewhere:
    "length (owners s) \<le> length (owners s') \<Longrightarrow> owners s' ! r = owners s ! r \<Longrightarrow>
     owner_step K r (s, ps, l) (s', ps, l)"

inductive_cases owner_stepE: "owner_step K r c c'"

text \<open>While the owner is in its cell only heartbeats have reached the core; once it left, it left to
  exactly one call, which has used it at most once.\<close>

definition owner_inv :: "nat \<Rightarrow> 'o \<Rightarrow> ('w, 'c, 'g, 'o) owner_config \<Rightarrow> bool" where
  "owner_inv r ow = (\<lambda>(s, ps, l).
     r < length (owners s) \<and>
     (case slot (owners s ! r) of
        Some ow' \<Rightarrow> ow' = ow \<and> ps = [] \<and> set l \<subseteq> {HeartbeatCall}
      | None \<Rightarrow> \<exists>hs tail. l = hs @ Taken # tail \<and> set hs \<subseteq> {HeartbeatCall} \<and>
          (tail = [] \<and> (\<exists>x. ps = [x] \<and> pending_owner x = ow) \<or>
           ps = [] \<and> (tail = [PublishCall] \<or> tail = [DropCall]))))"

lemma owner_take_cases:
  assumes "owner_take r s = (x, s')" "r < length (owners s)"
  shows "(x = Inl () \<and> s' = s) \<or>
    (x = Inr (slot (owners s ! r)) \<and> length (owners s') = length (owners s) \<and> slot (owners s' ! r) = None)"
  using assms by (cases "poisoned (owners s ! r)") (auto simp: owner_take_def lock_take_def)

lemma heartbeat_keeps_slot:
  assumes "data_exact_cache_owner_heartbeat K r s = (t, s')" "r < length (owners s)"
  shows "length (owners s') = length (owners s)" "slot (owners s' ! r) = slot (owners s ! r)"
  using assms
  by (auto simp: data_exact_cache_owner_heartbeat_def poison_def
      split: sum.splits option.splits prod.splits call.splits)

lemma taken_keeps_owners:
  "publish_taken K ow p a v s = (t, s') \<Longrightarrow> owners s' = owners s"
  "drop_taken K x s = (t, s') \<Longrightarrow> owners s' = owners s"
  by (auto simp: publish_taken_def drop_taken_def split: sum.splits option.splits prod.splits call.splits)

lemma lock_Inr_slot: "lock m = Inr x \<Longrightarrow> slot m = x"
  by (auto simp: lock_def split: if_splits)

lemma owner_inv_take:
  assumes "owner_take r s = (Inr (Some ow'), s')" "owner_inv r ow (s, ps, l)" "pending_owner x = ow'"
  shows "owner_inv r ow (s', ps @ [x], l @ [Taken])"
proof -
  have "r < length (owners s)" using assms(2) by (simp add: owner_inv_def)
  from owner_take_cases [OF assms(1) this] have "slot (owners s ! r) = Some ow'"
    "length (owners s') = length (owners s)" "slot (owners s' ! r) = None" by auto
  with assms(2,3) show ?thesis by (simp add: owner_inv_def)
qed

lemma owner_inv_use:
  assumes "owner_inv r ow (s, xs @ x # ys, l)" "owners s' = owners s" "e = PublishCall \<or> e = DropCall"
  shows "owner_inv r ow (s', xs @ ys, l @ [e])"
proof -
  from assms(1) obtain hs where "slot (owners s ! r) = None" "r < length (owners s)" "l = hs @ [Taken]"
    "set hs \<subseteq> {HeartbeatCall}" "xs = []" "ys = []"
    by (auto simp: owner_inv_def append_eq_Cons_conv split: option.splits)
  with assms(2,3) show ?thesis by (auto simp: owner_inv_def)
qed

lemma owner_inv_step:
  assumes "owner_step K r c c'" "owner_inv r ow c"
  shows "owner_inv r ow c'"
  using assms
proof (induction rule: owner_step.induct)
  case (heartbeat_call s ow' t s' ps l)
  moreover have "r < length (owners s)" using heartbeat_call.prems by (simp add: owner_inv_def)
  ultimately show ?case
    using heartbeat_keeps_slot [of K r s t s'] lock_Inr_slot by (fastforce simp: owner_inv_def)
next
  case (heartbeat_refused s t s' ps l)
  moreover have "r < length (owners s)" using heartbeat_refused.prems by (simp add: owner_inv_def)
  ultimately show ?case
    using heartbeat_keeps_slot [of K r s t s'] by (simp add: owner_inv_def)
next
  case (take_refused s x s' ps l)
  moreover have "r < length (owners s)" using take_refused.prems by (simp add: owner_inv_def)
  ultimately show ?case
    using owner_take_cases [of r s x s'] by (auto simp: owner_inv_def split: option.splits)
next
  case (elsewhere s s' ps l)
  then show ?case by (auto simp: owner_inv_def)
qed (auto intro: owner_inv_take owner_inv_use simp: taken_keeps_owners)

lemma owner_inv_reachable:
  "(owner_step K r)\<^sup>*\<^sup>* c c' \<Longrightarrow> owner_inv r ow c \<Longrightarrow> owner_inv r ow c'"
  by (induction rule: rtranclp_induct) (auto intro: owner_inv_step)

text \<open>Each owner call, run alone, is a path of the step relation: the interleavings above are
  interleavings of the very calls the module exports.\<close>

lemma owner_publish_path:
  assumes "data_exact_cache_owner_publish K r p a v s = (t, s')"
  shows "\<exists>l'. (owner_step K r)\<^sup>*\<^sup>* (s, ps, l) (s', ps, l @ l')"
proof -
  obtain x s1 where take: "owner_take r s = (x, s1)" by (cases "owner_take r s")
  show ?thesis
  proof (cases "x = Inl () \<or> x = Inr None")
    case True
    with take assms have "s1 = s'" by (auto simp: data_exact_cache_owner_publish_def)
    with owner_step.take_refused [OF take True] have "(owner_step K r)\<^sup>*\<^sup>* (s, ps, l) (s', ps, l @ [])"
      by auto
    then show ?thesis by blast
  next
    case False
    then obtain ow where x: "x = Inr (Some ow)" by (cases x) auto
    with take assms have "publish_taken K ow p a v s1 = (t, s')"
      by (simp add: data_exact_cache_owner_publish_def)
    with owner_step.publish_run [of K ow p a v s1 t s' r ps "[]" "l @ [Taken]"]
      owner_step.publish_take [OF take [unfolded x], of K ps l p a v]
    have "(owner_step K r)\<^sup>*\<^sup>* (s, ps, l) (s', ps, (l @ [Taken]) @ [PublishCall])"
      by (auto intro: converse_rtranclp_into_rtranclp)
    then show ?thesis by (metis append_assoc)
  qed
qed



section \<open>Sequences of calls on a locked cache\<close>

datatype cache_op = Read | Publish "u8 list" "u8 list" "u8 list" | Cleanup | Close

fun cache_exec ::
  "('ac, 'pt, 'w, 'c, 'g, 'o, 'e) cache_core \<Rightarrow> nat \<Rightarrow> cache_op \<Rightarrow>
   ('w, 'c, 'g, 'o) cache_state \<Rightarrow> reply \<times> ('w, 'c, 'g, 'o) cache_state" where
  "cache_exec K r Read s = data_exact_cache_read K r s"
| "cache_exec K r (Publish p a v) s = data_exact_cache_publish K r p a v s"
| "cache_exec K r Cleanup s = data_exact_cache_cleanup K r s"
| "cache_exec K r Close s = data_exact_cache_close K r s"


definition guard_of :: "nat \<Rightarrow> ('w, 'c, 'g, 'o) cache_state \<Rightarrow> 'g mutex" where
  "guard_of r s = res_guard (caches s ! r)"

lemma guard_of_simps [simp]:
  "r < length (caches s) \<Longrightarrow> guard_of r (set_guard r m s) = m"
  "guard_of r (s\<lparr>world := w\<rparr>) = guard_of r s"
  by (simp_all add: guard_of_def set_guard_def)

lemma length_set_guard [simp]: "length (caches (set_guard r m s)) = length (caches s)"
  by (simp add: set_guard_def)

lemmas cache_call_defs = data_exact_cache_read_def data_exact_cache_publish_def
  data_exact_cache_cleanup_def data_exact_cache_close_def

text \<open>A call leaves the guard's cell alone, takes its content, or poisons it; only closing takes.\<close>

lemma cache_exec_guard:
  assumes "r < length (caches s)" "cache_exec K r op s = (t, s')"
  shows "length (caches s') = length (caches s) \<and>
    (if op = Close
     then guard_of r s' = snd (mutex_take (guard_of r s)) \<or>
       guard_of r s' = poison (snd (mutex_take (guard_of r s)))
     else guard_of r s' = guard_of r s \<or> guard_of r s' = poison (guard_of r s))"
proof (cases op)
  case Close
  with assms show ?thesis
    by (auto simp: data_exact_cache_close_def mutex_take_def lock_take_def guard_of_def [symmetric]
        split: sum.splits option.splits prod.splits call.splits if_splits)
qed (use assms in \<open>auto simp: cache_call_defs Let_def guard_of_def [symmetric]
        split: sum.splits option.splits prod.splits call.splits if_splits\<close>)



lemma refused_calls:
  assumes "r < length (caches s)" "reachable_content (guard_of r s) = None"
  shows "data_exact_cache_read K r s = (encode_error ''exact-product cache lock is closed'', s)"
    "\<exists>e. data_exact_cache_publish K r p a v s = (encode_error e, s)"
    "\<exists>e. data_exact_cache_cleanup K r s = (encode_error e, s)"
    "snd (data_exact_cache_close K r s) = s"
proof -
  let ?m = "res_guard (caches s ! r)"
  have m: "poisoned ?m \<or> slot ?m = None"
    using assms(2) by (auto simp: guard_of_def reachable_content_def lock_def split: if_splits)
  show "data_exact_cache_read K r s = (encode_error ''exact-product cache lock is closed'', s)"
    using m by (auto simp: data_exact_cache_read_def lock_def)
  show "\<exists>e. data_exact_cache_publish K r p a v s = (encode_error e, s)"
    using m by (cases "poisoned ?m") (auto simp: data_exact_cache_publish_def lock_def)
  show "\<exists>e. data_exact_cache_cleanup K r s = (encode_error e, s)"
    using m by (cases "poisoned ?m") (auto simp: data_exact_cache_cleanup_def lock_def)
  have same: "?m\<lparr>slot := None\<rparr> = ?m" if "slot ?m = None" using that by (cases ?m) simp
  have "set_guard r (?m\<lparr>slot := None\<rparr>) s = s" if "slot ?m = None"
    unfolding set_guard_def same [OF that] by simp
  then show "snd (data_exact_cache_close K r s) = s"
    using m by (cases "poisoned ?m") (auto simp: data_exact_cache_close_def lock_take_def)
qed

section \<open>A concrete cache\<close>

text \<open>A core whose world counts its calls and whose publish panics on an empty product.\<close>

definition demo_entry :: "CommittedExactCacheEntry" where
  "demo_entry = \<lparr>product_path = ''p'', archive_path = ''a'', provenance_path = ''v'', entry_id = ''1'',
     entry_product = [1], entry_archive = [2], entry_provenance = [3]\<rparr>"

definition demo_cache :: "(bool, unit, nat, unit, nat, nat, string) cache_core" where
  "demo_cache =
     \<lparr>cc_data = demo_core,
      cc_new = (\<lambda>path i src w. (Done (Inr ()), w)),
      cc_lock = (\<lambda>c ms w. (if ms = 0 then Done (Inl SingleFlightTimeout) else Done (Inr w), Suc w)),
      cc_open_single_flight = (\<lambda>c opts w. (Done (Inr (Owner w)), Suc w)),
      cc_read = (\<lambda>c w. (Done (Inr None), Suc w)),
      cc_publish = (\<lambda>c g p a v w. (if p = [] then Panicked else Done (Inr demo_entry), Suc w)),
      cc_cleanup_abandoned = (\<lambda>c g w. (Done (Inr ()), Suc w)),
      cc_drop_guard = (\<lambda>g w. (Done (), Suc w)),
      cc_heartbeat = (\<lambda>ow w. (Done (Inr ()), Suc w)),
      cc_owner_publish = (\<lambda>ow p a v w. (Done (Inr demo_entry), Suc w)),
      cc_drop_owner = (\<lambda>ow w. (Done (), Suc w)),
      cc_display = (\<lambda>_. ''cache error'')\<rparr>"

definition demo_state :: "(nat, unit, nat, nat) cache_state" where
  "demo_state =
     \<lparr>world = 0, caches = [\<lparr>res_cache = (), res_guard = mutex_new 7\<rparr>], owners = [mutex_new 9]\<rparr>"

section \<open>Properties\<close>

text \<open>
  C12. However its calls interleave, a single-flight owner is used linearly: the core sees heartbeats,
  then the owner leaves its cell once, then at most one publish or one drop of it. In particular it is
  published at most once, never after an abandon, and no heartbeat follows.
\<close>

theorem owner_used_linearly:
  assumes "r < length (owners s)" "owners s ! r = mutex_new ow"
    and "(owner_step K r)\<^sup>*\<^sup>* (s, [], []) (s', ps, l)"
  shows "(\<forall>x \<in> set ps. pending_owner x = ow) \<and>
    (\<exists>n last rest. (last = PublishCall \<or> last = DropCall) \<and>
       l @ rest = replicate n HeartbeatCall @ [Taken, last] \<and>
       length ps + length (filter (\<lambda>e. e = PublishCall \<or> e = DropCall) l) = (if Taken \<in> set l then 1 else 0))"
proof -
  have "owner_inv r ow (s, [], [])" using assms(1,2) by (simp add: owner_inv_def mutex_new_def)
  then have inv: "owner_inv r ow (s', ps, l)" by (rule owner_inv_reachable [OF assms(3)])
  have heartbeats: "\<exists>n. hs = replicate n HeartbeatCall" if "set hs \<subseteq> {HeartbeatCall}" for hs
    using that by (intro exI [of _ "length hs"] replicate_eqI) auto
  show ?thesis
  proof (cases "slot (owners s' ! r)")
    case None
    with inv obtain hs tail where l: "l = hs @ Taken # tail" "set hs \<subseteq> {HeartbeatCall}"
      and tail: "tail = [] \<and> (\<exists>x. ps = [x] \<and> pending_owner x = ow) \<or>
           ps = [] \<and> (tail = [PublishCall] \<or> tail = [DropCall])"
      by (auto simp: owner_inv_def)
    obtain n where "hs = replicate n HeartbeatCall" using heartbeats [OF l(2)] by blast
    with l tail show ?thesis
      by (elim disjE conjE exE) (force intro!: exI [of _ n])+
  next
    case (Some ow')
    with inv have ps: "ps = []" "set l \<subseteq> {HeartbeatCall}" by (simp_all add: owner_inv_def)
    then obtain n where "l = replicate n HeartbeatCall" using heartbeats by blast
    with ps(1) show ?thesis by (auto intro!: exI [of _ n])
  qed
qed

theorem owner_used_linearly_witness:
  "\<exists>s' l. (owner_step demo_cache 0)\<^sup>*\<^sup>* (demo_state, [], []) (s', [], l) \<and>
     length (filter (\<lambda>e. e = PublishCall \<or> e = DropCall) l) \<le> 1"
proof -
  obtain t s' where "data_exact_cache_owner_publish demo_cache 0 [1] [2] [3] demo_state = (t, s')"
    by (cases "data_exact_cache_owner_publish demo_cache 0 [1] [2] [3] demo_state")
  from owner_publish_path [OF this, of "[]" "[]"] obtain l
    where steps: "(owner_step demo_cache 0)\<^sup>*\<^sup>* (demo_state, [], []) (s', [], l)" by auto
  have "0 < length (owners demo_state)" "owners demo_state ! 0 = mutex_new 9"
    by (simp_all add: demo_state_def)
  from owner_used_linearly [OF this steps]
  have "length (filter (\<lambda>e. e = PublishCall \<or> e = DropCall) l) \<le> 1" by (auto split: if_splits)
  with steps show ?thesis by blast
qed


text \<open>
  C14. Once closing has replied, and whatever happens to the rest of the state, the resource is inert:
  reading, publishing and cleaning up are refused without a core call, and closing again changes
  nothing.
\<close>

theorem closed_cache_is_inert:
  assumes "r < length (caches s)" "data_exact_cache_close K r s = (Inr t, s')" "guard_of r s'' = guard_of r s'"
    and "r < length (caches s'')"
  shows "data_exact_cache_read K r s'' = (encode_error ''exact-product cache lock is closed'', s'') \<and>
    (\<exists>e. data_exact_cache_publish K r p a v s'' = (encode_error e, s'')) \<and>
    (\<exists>e. data_exact_cache_cleanup K r s'' = (encode_error e, s'')) \<and>
    snd (data_exact_cache_close K r s'') = s''"
proof -
  have "cache_exec K r Close s = (Inr t, s')" using assms(2) by simp
  from cache_exec_guard [OF assms(1) this] have "reachable_content (guard_of r s'') = None"
    using mx.take_empties mx.spoil_hides assms(3) by auto
  from refused_calls [OF assms(4) this] show ?thesis by blast
qed

theorem closed_cache_is_inert_witness:
  "let s' = snd (data_exact_cache_close demo_cache 0 demo_state) in
   world s' = 1 \<and> data_exact_cache_read demo_cache 0 s' =
     (encode_error ''exact-product cache lock is closed'', s')"
proof -
  let ?s = "snd (data_exact_cache_close demo_cache 0 demo_state)"
  have "data_exact_cache_close demo_cache 0 demo_state = (Inr (Atom ''ok''), ?s)"
    by (simp add: data_exact_cache_close_def demo_cache_def demo_state_def lock_take_def mutex_new_def
        set_guard_def)
  moreover have "0 < length (caches demo_state)" "0 < length (caches ?s)" "world ?s = 1"
    by (simp_all add: data_exact_cache_close_def demo_cache_def demo_state_def lock_take_def
        mutex_new_def set_guard_def)
  ultimately show ?thesis
    using closed_cache_is_inert [of 0 demo_state demo_cache "Atom ''ok''" ?s ?s] by simp
qed

text \<open>
  A core panic inside a critical section is raised and poisons the guard for good: every later
  call on the resource is refused without a core call.
\<close>

theorem core_panic_poisons:
  assumes "r < length (caches s)" "op \<noteq> Read" "cache_exec K r op s = (Inl f, s')"
  shows "poisoned (guard_of r s') \<and> f = Panic \<and>
    (\<forall>op'. snd (cache_exec K r op' s') = s' \<and> (\<exists>e. fst (cache_exec K r op' s') = encode_error e))"
proof -
  have p: "poisoned (guard_of r s') \<and> f = Panic \<and> r < length (caches s')"
    using assms
    by (cases op) (auto simp: cache_call_defs Let_def lock_take_def encode_error_def encode_read_def
        encode_entry_def poison_def split: sum.splits option.splits prod.splits call.splits if_splits)
  then have none: "reachable_content (guard_of r s') = None"
    by (simp add: reachable_content_def lock_def)
  note refused = refused_calls [OF conjunct2 [OF conjunct2 [OF p]] none]
  have "snd (cache_exec K r op' s') = s' \<and> (\<exists>e. fst (cache_exec K r op' s') = encode_error e)" for op'
  proof (cases op')
    case (Publish p a v)
    then show ?thesis using refused(2) [of K p a v] by auto
  next
    case Close
    then show ?thesis using refused(4) p
      by (auto simp: data_exact_cache_close_def lock_take_def guard_of_def)
  next
    case Read
    then show ?thesis using refused(1) [of K] by auto
  next
    case Cleanup
    then show ?thesis using refused(3) [of K] by auto
  qed
  with p show ?thesis by blast
qed

theorem core_panic_poisons_witness:
  "let s' = snd (data_exact_cache_publish demo_cache 0 [] [] [] demo_state) in
   poisoned (guard_of 0 s') \<and> snd (cache_exec demo_cache 0 Close s') = s'"
proof -
  let ?s = "snd (data_exact_cache_publish demo_cache 0 [] [] [] demo_state)"
  have "cache_exec demo_cache 0 (Publish [] [] []) demo_state = (Inl Panic, ?s)"
    by (simp add: data_exact_cache_publish_def demo_cache_def demo_state_def lock_def mutex_new_def
        Let_def)
  moreover have "0 < length (caches demo_state)" by (simp add: demo_state_def)
  ultimately show ?thesis
    using core_panic_poisons [of 0 demo_state "Publish [] [] []" demo_cache Panic ?s]
    unfolding Let_def by blast
qed



text \<open>
  Opening leaves no half-open resource: a successful open appends exactly one cache, unlocked for
  use and holding the guard just acquired; a failed or panicking one leaves both tables as they were.
\<close>

theorem open_creates_whole_resources:
  assumes "data_exact_cache_open K path fs code ms s = (t, s')"
  shows "owners s' = owners s \<and>
    ((\<exists>c g. t = Inr (ok_term (Resource (length (caches s)))) \<and>
        caches s' = caches s @ [\<lparr>res_cache = c, res_guard = mutex_new g\<rparr>]) \<or>
     caches s' = caches s \<and> (t = Inl Panic \<or> (\<exists>e. t = encode_error e)))"
  using assms
  by (auto simp: data_exact_cache_open_def split: prod.splits call.splits sum.splits)

theorem open_creates_whole_resources_witness:
  "data_exact_cache_open demo_cache ''dir'' demo_fields ''direct'' 5 demo_state =
     (Inr (ok_term (Resource 1)),
      demo_state\<lparr>world := 1, caches := caches demo_state @ [\<lparr>res_cache = (), res_guard = mutex_new 0\<rparr>]\<rparr>) \<and>
   owners (snd (data_exact_cache_open demo_cache ''dir'' demo_fields ''direct'' 5 demo_state)) = owners demo_state"
proof
  show run: "data_exact_cache_open demo_cache ''dir'' demo_fields ''direct'' 5 demo_state =
     (Inr (ok_term (Resource 1)),
      demo_state\<lparr>world := 1, caches := caches demo_state @ [\<lparr>res_cache = (), res_guard = mutex_new 0\<rparr>]\<rparr>)"
    by (simp add: data_exact_cache_open_def new_cache_def demo_cache_def demo_fields_parse source_def
        demo_state_def)
  show "owners (snd (data_exact_cache_open demo_cache ''dir'' demo_fields ''direct'' 5 demo_state)) =
      owners demo_state"
    using open_creates_whole_resources [OF run] run by simp
qed

text \<open>
  The three single-flight failures a caller reacts to keep their identity: an error encodes like
  one of them only if it is that one.
\<close>

theorem single_flight_errors_distinguished:
  assumes "encode_single_flight_error K a = encode_single_flight_error K b"
    and "b \<in> {SingleFlightTimeout, SingleFlightOwnershipLost, InvalidSingleFlightOptions}"
  shows "a = b"
  using assms by (cases a) (auto simp: encode_single_flight_error_def)

theorem single_flight_errors_distinguished_witness:
  "encode_single_flight_error demo_cache (OtherExactCacheError ''x'') \<noteq>
   encode_single_flight_error demo_cache SingleFlightTimeout"
  using single_flight_errors_distinguished [of demo_cache "OtherExactCacheError ''x''" SingleFlightTimeout]
  by auto

end
