(* ===== verification/Codec.thy ===== *)
theory Codec
  imports Prelude
begin

text \<open>
  The contracts of the boundary codecs. A codec sends a core value out (\<open>enc\<close>) and reads it back
  (\<open>dec\<close>, which may refuse). \<open>faithful_codec\<close>: a value the format carries comes back unchanged, and
  one it does not carry is refused, never altered. \<open>lossless_codec\<close>: the format carries every value.
  \<open>strict_codec\<close>: in addition nothing but an encoding is accepted. \<open>laws\<close> are what the codec relies
  on of the core.
\<close>

locale faithful_codec =
  fixes laws :: bool
    and carried :: "'a \<Rightarrow> bool"
    and enc :: "'a \<Rightarrow> 't"
    and dec :: "'t \<Rightarrow> 'e + 'a"
  assumes carried_returns: "laws \<Longrightarrow> carried a \<Longrightarrow> dec (enc a) = Inr a"
    and uncarried_refused: "laws \<Longrightarrow> \<not> carried a \<Longrightarrow> isl (dec (enc a))"
begin

definition refusal :: "'a \<Rightarrow> 'e" where
  "refusal a = projl (dec (enc a))"

lemma dec_enc: "laws \<Longrightarrow> dec (enc a) = (if carried a then Inr a else Inl (refusal a))"
  using carried_returns uncarried_refused by (auto simp: refusal_def)

lemma dec_enc_iff: "laws \<Longrightarrow> dec (enc a) = Inr a \<longleftrightarrow> carried a"
  by (simp add: dec_enc)

lemma enc_inj: "laws \<Longrightarrow> carried a \<Longrightarrow> carried b \<Longrightarrow> enc a = enc b \<Longrightarrow> a = b"
  by (metis carried_returns sum.inject(2))

lemma dec_enc_option:
  "laws \<Longrightarrow> transpose_option (map_option dec (map_option enc x)) =
     (if pred_option carried x then Inr x else Inl (refusal (the x)))"
  by (cases x) (simp_all add: dec_enc)

lemma dec_enc_list:
  "laws \<Longrightarrow> list_all carried xs \<Longrightarrow> collect_results (map dec (map enc xs)) = Inr xs"
  by (induction xs) (simp_all add: dec_enc)

lemma dec_enc_list_refused:
  "laws \<Longrightarrow> \<not> list_all carried xs \<Longrightarrow> isl (collect_results (map dec (map enc xs)))"
proof (induction xs)
  case (Cons x xs)
  show ?case
  proof (cases "carried x")
    case True
    with Cons have "isl (collect_results (map dec (map enc xs)))" by simp
    with True Cons.prems show ?thesis by (auto simp: dec_enc isl_def)
  qed (use Cons.prems in \<open>simp add: dec_enc\<close>)
qed simp

end

locale lossless_codec = faithful_codec laws "\<lambda>_. True" enc dec
  for laws :: bool and enc :: "'a \<Rightarrow> 't" and dec :: "'t \<Rightarrow> 'e + 'a"
begin

lemma returns: "laws \<Longrightarrow> dec (enc a) = Inr a"
  by (simp add: carried_returns)

lemma option_returns: "laws \<Longrightarrow> transpose_option (map_option dec (map_option enc x)) = Inr x"
  by (cases x) (simp_all add: returns)

end

locale strict_codec = faithful_codec +
  assumes dec_sound: "dec t = Inr a \<Longrightarrow> carried a \<and> enc a = t"
begin

lemma dec_Inr_iff: "laws \<Longrightarrow> dec t = Inr a \<longleftrightarrow> carried a \<and> enc a = t"
  using dec_sound carried_returns by blast

lemma dec_inj: "dec t = Inr a \<Longrightarrow> dec u = Inr a \<Longrightarrow> t = u"
  using dec_sound by blast

end

end
