(* ===== verification/SsrBias.thy ===== *)
theory SsrBias
  imports Codec
begin

text \<open>
  The lossless boundary form of an SSR bias exclusion, \<open>native/sidereon_nif/src/ssr_bias_exclusion.rs\<close>.

  For each core type the module has a term type (here a datatype or record of the same shape), a
  \<open>From\<close> conversion outwards (\<open>..._term\<close>) and a \<open>decode\<close> back that may refuse. Core enums marked
  non-exhaustive get a constructor \<open>Unnamed\<close> for variants this binding does not name. Satellites,
  systems, signal codes, continuity tokens and core errors are opaque; their parsers, printers and
  accessors are the fields of \<open>ssr_core\<close>. A handle is the core value it holds. \<open>f64\<close> values are bit
  patterns, and \<open>usize\<close> is 64 bits wide.
\<close>

section \<open>The core\<close>

datatype SsrSource = RtcmSsr | GalileoHas | IgsSsr

record SsrSolution =
  sol_source :: SsrSource
  sol_provider_id :: u16
  sol_solution_id :: u8

record ('sys, 'code) GnssSignal =
  sig_system :: 'sys
  sig_code :: 'code

record 'sys SsrRawSignal =
  raw_source :: SsrSource
  raw_system :: 'sys
  raw_index :: u8

datatype ('sys, 'code) SsrSignalKey = Physical "('sys, 'code) GnssSignal" | Unknown "'sys SsrRawSignal"

record ('sat, 'sys, 'code, 'tok, 'err) ssr_core =
  sat_to_string :: "'sat \<Rightarrow> string"
  sat_parse :: "string \<Rightarrow> 'sat option"
  system_letter :: "'sys \<Rightarrow> char"
  system_from_letter :: "char \<Rightarrow> 'sys option"
  code_to_string :: "'code \<Rightarrow> string"
  code_parse :: "string \<Rightarrow> 'code option"
  tok_satellite :: "'tok \<Rightarrow> 'sat"
  tok_signal :: "'tok \<Rightarrow> ('sys, 'code) SsrSignalKey"
  tok_source :: "'tok \<Rightarrow> SsrSource"
  tok_provider_id :: "'tok \<Rightarrow> u16"
  tok_solution_id :: "'tok \<Rightarrow> u8"
  tok_continuity_ref_epoch_j2000_s :: "'tok \<Rightarrow> f64"
  tok_raw_indicator :: "'tok \<Rightarrow> u8"
  tok_generation :: "'tok \<Rightarrow> u32"
  error_to_string :: "'err \<Rightarrow> string"
  debug_string :: "string \<Rightarrow> string"

text \<open>What the conversions rely on: the core parses what it prints.\<close>

definition ssr_laws :: "('sat, 'sys, 'code, 'tok, 'err) ssr_core \<Rightarrow> bool" where
  "ssr_laws C \<longleftrightarrow>
     (\<forall>s. sat_parse C (sat_to_string C s) = Some s) \<and>
     (\<forall>y. system_from_letter C (system_letter C y) = Some y) \<and>
     (\<forall>c. code_parse C (code_to_string C c) = Some c)"

section \<open>Scalars\<close>

text \<open>A refusal is its message.\<close>

definition unrecognized :: "string \<Rightarrow> string" where
  "unrecognized what =
     ''float solution ssr_bias_exclusions: '' @ what @
     '' is :unrecognized, a core value this binding does not carry''"

definition usize_from :: "u64 \<Rightarrow> string \<Rightarrow> string + u64" where
  "usize_from v field = Inr v"

definition satellite_term :: "('sat, 'sys, 'code, 'tok, 'err) ssr_core \<Rightarrow> 'sat \<Rightarrow> string" where
  "satellite_term C sat = sat_to_string C sat"

definition satellite_from ::
  "('sat, 'sys, 'code, 'tok, 'err) ssr_core \<Rightarrow> string \<Rightarrow> string \<Rightarrow> string + 'sat" where
  "satellite_from C field txt =
     ok_or (field @ '' '' @ debug_string C txt @ '' is not a satellite token'') (sat_parse C txt)"

definition system_term :: "('sat, 'sys, 'code, 'tok, 'err) ssr_core \<Rightarrow> 'sys \<Rightarrow> string" where
  "system_term C system = [system_letter C system]"

definition system_from ::
  "('sat, 'sys, 'code, 'tok, 'err) ssr_core \<Rightarrow> string \<Rightarrow> string \<Rightarrow> string + 'sys" where
  "system_from C field txt =
     ok_or (field @ '' '' @ debug_string C txt @ '' is not a GNSS system letter'')
       (case txt of [letter] \<Rightarrow> system_from_letter C letter | _ \<Rightarrow> None)"

definition signal_code_from ::
  "('sat, 'sys, 'code, 'tok, 'err) ssr_core \<Rightarrow> string \<Rightarrow> string \<Rightarrow> string + 'code" where
  "signal_code_from C field txt =
     ok_or (field @ '' '' @ debug_string C txt @ '' is not a band and tracking attribute'') (code_parse C txt)"

interpretation sat: lossless_codec "ssr_laws C" "satellite_term C" "satellite_from C field" for C field
  by unfold_locales (simp_all add: ssr_laws_def satellite_term_def satellite_from_def)

interpretation sys: lossless_codec "ssr_laws C" "system_term C" "system_from C field" for C field
  by unfold_locales (simp_all add: ssr_laws_def system_term_def system_from_def)

interpretation code: lossless_codec "ssr_laws C" "code_to_string C" "signal_code_from C field" for C field
  by unfold_locales (simp_all add: ssr_laws_def signal_code_from_def)

declare sat.returns [codec_simps] sys.returns [codec_simps] code.returns [codec_simps]

section \<open>Sources and solutions\<close>

datatype SsrSourceTerm = RtcmSsr | GalileoHas | IgsSsr

fun source_term :: "SsrSource \<Rightarrow> SsrSourceTerm" where
  "source_term SsrSource.RtcmSsr = SsrSourceTerm.RtcmSsr"
| "source_term SsrSource.GalileoHas = SsrSourceTerm.GalileoHas"
| "source_term SsrSource.IgsSsr = SsrSourceTerm.IgsSsr"

fun source_from_term :: "SsrSourceTerm \<Rightarrow> SsrSource" where
  "source_from_term SsrSourceTerm.RtcmSsr = SsrSource.RtcmSsr"
| "source_from_term SsrSourceTerm.GalileoHas = SsrSource.GalileoHas"
| "source_from_term SsrSourceTerm.IgsSsr = SsrSource.IgsSsr"

lemma source_from_term_source_term [simp, codec_simps]: "source_from_term (source_term x) = x"
  by (cases x) simp_all

record SsrSolutionTerm =
  solt_source :: SsrSourceTerm
  solt_provider_id :: u16
  solt_solution_id :: u8

definition solution_term :: "SsrSolution \<Rightarrow> SsrSolutionTerm" where
  "solution_term s =
     \<lparr>solt_source = source_term (sol_source s), solt_provider_id = sol_provider_id s,
      solt_solution_id = sol_solution_id s\<rparr>"

definition solution_from_term :: "SsrSolutionTerm \<Rightarrow> SsrSolution" where
  "solution_from_term t =
     \<lparr>sol_source = source_from_term (solt_source t), sol_provider_id = solt_provider_id t,
      sol_solution_id = solt_solution_id t\<rparr>"

lemma solution_from_solution_term [simp, codec_simps]: "solution_from_term (solution_term s) = s"
  by (simp add: solution_from_term_def solution_term_def)

section \<open>Signals\<close>

record GnssSignalTerm =
  sigt_system :: string
  sigt_code :: string

definition signal_term :: "('sat, 'sys, 'code, 'tok, 'err) ssr_core \<Rightarrow> ('sys, 'code) GnssSignal \<Rightarrow> GnssSignalTerm" where
  "signal_term C signal =
     \<lparr>sigt_system = system_term C (sig_system signal), sigt_code = code_to_string C (sig_code signal)\<rparr>"

definition signal_decode ::
  "('sat, 'sys, 'code, 'tok, 'err) ssr_core \<Rightarrow> GnssSignalTerm \<Rightarrow> string + ('sys, 'code) GnssSignal" where
  "signal_decode C t =
     and_then (system_from C ''signal system'' (sigt_system t)) (\<lambda>system.
     and_then (signal_code_from C ''signal code'' (sigt_code t)) (\<lambda>code.
     Inr \<lparr>sig_system = system, sig_code = code\<rparr>))"

record SsrRawSignalTerm =
  rawt_source :: SsrSourceTerm
  rawt_system :: string
  rawt_index :: u8

definition raw_signal_term :: "('sat, 'sys, 'code, 'tok, 'err) ssr_core \<Rightarrow> 'sys SsrRawSignal \<Rightarrow> SsrRawSignalTerm" where
  "raw_signal_term C raw =
     \<lparr>rawt_source = source_term (raw_source raw), rawt_system = system_term C (raw_system raw),
      rawt_index = raw_index raw\<rparr>"

definition raw_signal_decode ::
  "('sat, 'sys, 'code, 'tok, 'err) ssr_core \<Rightarrow> SsrRawSignalTerm \<Rightarrow> string + 'sys SsrRawSignal" where
  "raw_signal_decode C t =
     and_then (system_from C ''raw signal system'' (rawt_system t)) (\<lambda>system.
     Inr \<lparr>raw_source = source_from_term (rawt_source t), raw_system = system, raw_index = rawt_index t\<rparr>)"

datatype SsrSignalKeyTerm = Physical GnssSignalTerm | Unknown SsrRawSignalTerm

fun signal_key_term :: "('sat, 'sys, 'code, 'tok, 'err) ssr_core \<Rightarrow> ('sys, 'code) SsrSignalKey \<Rightarrow> SsrSignalKeyTerm" where
  "signal_key_term C (SsrSignalKey.Physical signal) = SsrSignalKeyTerm.Physical (signal_term C signal)"
| "signal_key_term C (SsrSignalKey.Unknown raw) = SsrSignalKeyTerm.Unknown (raw_signal_term C raw)"

fun signal_key_decode ::
  "('sat, 'sys, 'code, 'tok, 'err) ssr_core \<Rightarrow> SsrSignalKeyTerm \<Rightarrow> string + ('sys, 'code) SsrSignalKey" where
  "signal_key_decode C (SsrSignalKeyTerm.Physical signal) = map_ok SsrSignalKey.Physical (signal_decode C signal)"
| "signal_key_decode C (SsrSignalKeyTerm.Unknown raw) = map_ok SsrSignalKey.Unknown (raw_signal_decode C raw)"

interpretation signal: lossless_codec "ssr_laws C" "signal_term C" "signal_decode C" for C
  by unfold_locales (simp_all add: signal_term_def signal_decode_def codec_simps)

interpretation raw_signal: lossless_codec "ssr_laws C" "raw_signal_term C" "raw_signal_decode C" for C
  by unfold_locales (simp_all add: raw_signal_term_def raw_signal_decode_def codec_simps)

declare signal.returns [codec_simps] raw_signal.returns [codec_simps] raw_signal.option_returns [codec_simps]

lemma signal_key_decode_term: "ssr_laws C \<Longrightarrow> signal_key_decode C (signal_key_term C k) = Inr k"
  by (cases k) (simp_all add: codec_simps)

interpretation signal_key: lossless_codec "ssr_laws C" "signal_key_term C" "signal_key_decode C" for C
  by unfold_locales (simp_all add: signal_key_decode_term)

declare signal_key.returns [codec_simps]

section \<open>Statuses, lifetimes and details\<close>

datatype DegradeReason = BeforeCoverage | AfterCoverage

datatype DegradeReasonTerm = BeforeCoverage | AfterCoverage

fun degrade_term :: "DegradeReason \<Rightarrow> DegradeReasonTerm" where
  "degrade_term DegradeReason.BeforeCoverage = DegradeReasonTerm.BeforeCoverage"
| "degrade_term DegradeReason.AfterCoverage = DegradeReasonTerm.AfterCoverage"

fun degrade_from_term :: "DegradeReasonTerm \<Rightarrow> DegradeReason" where
  "degrade_from_term DegradeReasonTerm.BeforeCoverage = DegradeReason.BeforeCoverage"
| "degrade_from_term DegradeReasonTerm.AfterCoverage = DegradeReason.AfterCoverage"

lemma degrade_from_term_degrade_term [simp, codec_simps]: "degrade_from_term (degrade_term x) = x"
  by (cases x) simp_all

datatype SsrBiasStatus =
    Available
  | Missing
  | Unavailable
  | NotYetValid
  | Expired
  | Excluded
  | InvalidEpoch
  | PhaseDiscontinuityNeedsReset
  | UnknownSignal
  | Unnamed nat

datatype SsrBiasStatusTerm =
    Available
  | Missing
  | Unavailable
  | NotYetValid
  | Expired
  | Excluded
  | InvalidEpoch
  | PhaseDiscontinuityNeedsReset
  | UnknownSignal
  | Unrecognized

fun status_term :: "SsrBiasStatus \<Rightarrow> SsrBiasStatusTerm" where
  "status_term SsrBiasStatus.Available = SsrBiasStatusTerm.Available"
| "status_term SsrBiasStatus.Missing = SsrBiasStatusTerm.Missing"
| "status_term SsrBiasStatus.Unavailable = SsrBiasStatusTerm.Unavailable"
| "status_term SsrBiasStatus.NotYetValid = SsrBiasStatusTerm.NotYetValid"
| "status_term SsrBiasStatus.Expired = SsrBiasStatusTerm.Expired"
| "status_term SsrBiasStatus.Excluded = SsrBiasStatusTerm.Excluded"
| "status_term SsrBiasStatus.InvalidEpoch = SsrBiasStatusTerm.InvalidEpoch"
| "status_term SsrBiasStatus.PhaseDiscontinuityNeedsReset = SsrBiasStatusTerm.PhaseDiscontinuityNeedsReset"
| "status_term SsrBiasStatus.UnknownSignal = SsrBiasStatusTerm.UnknownSignal"
| "status_term (SsrBiasStatus.Unnamed n) = SsrBiasStatusTerm.Unrecognized"

fun status_decode :: "SsrBiasStatusTerm \<Rightarrow> string + SsrBiasStatus" where
  "status_decode SsrBiasStatusTerm.Available = Inr SsrBiasStatus.Available"
| "status_decode SsrBiasStatusTerm.Missing = Inr SsrBiasStatus.Missing"
| "status_decode SsrBiasStatusTerm.Unavailable = Inr SsrBiasStatus.Unavailable"
| "status_decode SsrBiasStatusTerm.NotYetValid = Inr SsrBiasStatus.NotYetValid"
| "status_decode SsrBiasStatusTerm.Expired = Inr SsrBiasStatus.Expired"
| "status_decode SsrBiasStatusTerm.Excluded = Inr SsrBiasStatus.Excluded"
| "status_decode SsrBiasStatusTerm.InvalidEpoch = Inr SsrBiasStatus.InvalidEpoch"
| "status_decode SsrBiasStatusTerm.PhaseDiscontinuityNeedsReset = Inr SsrBiasStatus.PhaseDiscontinuityNeedsReset"
| "status_decode SsrBiasStatusTerm.UnknownSignal = Inr SsrBiasStatus.UnknownSignal"
| "status_decode SsrBiasStatusTerm.Unrecognized = Inl (unrecognized ''a bias status'')"

datatype SsrIfCombinationStatus =
    Applied
  | OptedOut
  | SignalUnavailable
  | InvalidFrequencies
  | ObservationSignalsUnknown
  | CarrierUnresolved
  | ObservationFrequencyMismatch
  | IncompatibleSourceOrSolution
  | IncompatibleIod
  | OrbitClockSolutionUnavailable
  | OrbitClockSolutionMismatch
  | SatelliteExcluded
  | TransmitTimeUnavailable
  | PhaseDiscontinuityNeedsReset
  | Ut1OutsideCoverage DegradeReason
  | Unnamed nat

datatype SsrIfCombinationStatusTerm =
    Applied
  | OptedOut
  | SignalUnavailable
  | InvalidFrequencies
  | ObservationSignalsUnknown
  | CarrierUnresolved
  | ObservationFrequencyMismatch
  | IncompatibleSourceOrSolution
  | IncompatibleIod
  | OrbitClockSolutionUnavailable
  | OrbitClockSolutionMismatch
  | SatelliteExcluded
  | TransmitTimeUnavailable
  | PhaseDiscontinuityNeedsReset
  | Ut1OutsideCoverage DegradeReasonTerm
  | Unrecognized

fun if_status_term :: "SsrIfCombinationStatus \<Rightarrow> SsrIfCombinationStatusTerm" where
  "if_status_term SsrIfCombinationStatus.Applied = SsrIfCombinationStatusTerm.Applied"
| "if_status_term SsrIfCombinationStatus.OptedOut = SsrIfCombinationStatusTerm.OptedOut"
| "if_status_term SsrIfCombinationStatus.SignalUnavailable = SsrIfCombinationStatusTerm.SignalUnavailable"
| "if_status_term SsrIfCombinationStatus.InvalidFrequencies = SsrIfCombinationStatusTerm.InvalidFrequencies"
| "if_status_term SsrIfCombinationStatus.ObservationSignalsUnknown = SsrIfCombinationStatusTerm.ObservationSignalsUnknown"
| "if_status_term SsrIfCombinationStatus.CarrierUnresolved = SsrIfCombinationStatusTerm.CarrierUnresolved"
| "if_status_term SsrIfCombinationStatus.ObservationFrequencyMismatch = SsrIfCombinationStatusTerm.ObservationFrequencyMismatch"
| "if_status_term SsrIfCombinationStatus.IncompatibleSourceOrSolution = SsrIfCombinationStatusTerm.IncompatibleSourceOrSolution"
| "if_status_term SsrIfCombinationStatus.IncompatibleIod = SsrIfCombinationStatusTerm.IncompatibleIod"
| "if_status_term SsrIfCombinationStatus.OrbitClockSolutionUnavailable = SsrIfCombinationStatusTerm.OrbitClockSolutionUnavailable"
| "if_status_term SsrIfCombinationStatus.OrbitClockSolutionMismatch = SsrIfCombinationStatusTerm.OrbitClockSolutionMismatch"
| "if_status_term SsrIfCombinationStatus.SatelliteExcluded = SsrIfCombinationStatusTerm.SatelliteExcluded"
| "if_status_term SsrIfCombinationStatus.TransmitTimeUnavailable = SsrIfCombinationStatusTerm.TransmitTimeUnavailable"
| "if_status_term SsrIfCombinationStatus.PhaseDiscontinuityNeedsReset = SsrIfCombinationStatusTerm.PhaseDiscontinuityNeedsReset"
| "if_status_term (SsrIfCombinationStatus.Ut1OutsideCoverage x0) = SsrIfCombinationStatusTerm.Ut1OutsideCoverage (degrade_term x0)"
| "if_status_term (SsrIfCombinationStatus.Unnamed n) = SsrIfCombinationStatusTerm.Unrecognized"

fun if_status_decode :: "SsrIfCombinationStatusTerm \<Rightarrow> string + SsrIfCombinationStatus" where
  "if_status_decode SsrIfCombinationStatusTerm.Applied = Inr SsrIfCombinationStatus.Applied"
| "if_status_decode SsrIfCombinationStatusTerm.OptedOut = Inr SsrIfCombinationStatus.OptedOut"
| "if_status_decode SsrIfCombinationStatusTerm.SignalUnavailable = Inr SsrIfCombinationStatus.SignalUnavailable"
| "if_status_decode SsrIfCombinationStatusTerm.InvalidFrequencies = Inr SsrIfCombinationStatus.InvalidFrequencies"
| "if_status_decode SsrIfCombinationStatusTerm.ObservationSignalsUnknown = Inr SsrIfCombinationStatus.ObservationSignalsUnknown"
| "if_status_decode SsrIfCombinationStatusTerm.CarrierUnresolved = Inr SsrIfCombinationStatus.CarrierUnresolved"
| "if_status_decode SsrIfCombinationStatusTerm.ObservationFrequencyMismatch = Inr SsrIfCombinationStatus.ObservationFrequencyMismatch"
| "if_status_decode SsrIfCombinationStatusTerm.IncompatibleSourceOrSolution = Inr SsrIfCombinationStatus.IncompatibleSourceOrSolution"
| "if_status_decode SsrIfCombinationStatusTerm.IncompatibleIod = Inr SsrIfCombinationStatus.IncompatibleIod"
| "if_status_decode SsrIfCombinationStatusTerm.OrbitClockSolutionUnavailable = Inr SsrIfCombinationStatus.OrbitClockSolutionUnavailable"
| "if_status_decode SsrIfCombinationStatusTerm.OrbitClockSolutionMismatch = Inr SsrIfCombinationStatus.OrbitClockSolutionMismatch"
| "if_status_decode SsrIfCombinationStatusTerm.SatelliteExcluded = Inr SsrIfCombinationStatus.SatelliteExcluded"
| "if_status_decode SsrIfCombinationStatusTerm.TransmitTimeUnavailable = Inr SsrIfCombinationStatus.TransmitTimeUnavailable"
| "if_status_decode SsrIfCombinationStatusTerm.PhaseDiscontinuityNeedsReset = Inr SsrIfCombinationStatus.PhaseDiscontinuityNeedsReset"
| "if_status_decode (SsrIfCombinationStatusTerm.Ut1OutsideCoverage x0) = Inr (SsrIfCombinationStatus.Ut1OutsideCoverage (degrade_from_term x0))"
| "if_status_decode SsrIfCombinationStatusTerm.Unrecognized = Inl (unrecognized ''an ionosphere-free combination status'')"

datatype SsrLifetime =
    GalileoHasValidityInterval f64
  | RtcmUpdateInterval f64
  | Unnamed nat

datatype SsrLifetimeTerm =
    GalileoHasValidityInterval f64
  | RtcmUpdateInterval f64
  | Unrecognized

fun lifetime_term :: "SsrLifetime \<Rightarrow> SsrLifetimeTerm" where
  "lifetime_term (SsrLifetime.GalileoHasValidityInterval x0) = SsrLifetimeTerm.GalileoHasValidityInterval x0"
| "lifetime_term (SsrLifetime.RtcmUpdateInterval x0) = SsrLifetimeTerm.RtcmUpdateInterval x0"
| "lifetime_term (SsrLifetime.Unnamed n) = SsrLifetimeTerm.Unrecognized"

fun lifetime_decode :: "SsrLifetimeTerm \<Rightarrow> string + SsrLifetime" where
  "lifetime_decode (SsrLifetimeTerm.GalileoHasValidityInterval x0) = Inr (SsrLifetime.GalileoHasValidityInterval x0)"
| "lifetime_decode (SsrLifetimeTerm.RtcmUpdateInterval x0) = Inr (SsrLifetime.RtcmUpdateInterval x0)"
| "lifetime_decode SsrLifetimeTerm.Unrecognized = Inl (unrecognized ''a bias lifetime'')"

datatype SsrDiscontinuityDetails =
    InitialTokenEstablished
  | Continuous
  | HasPdiChanged u8 u8
  | RtcmDiscontinuityCounterChanged u8 u8
  | SolutionChanged SsrSolution SsrSolution
  | StaleToken
  | FutureToken
  | MismatchedToken
  | Unnamed nat

datatype SsrDiscontinuityDetailsTerm =
    InitialTokenEstablished
  | Continuous
  | HasPdiChanged u8 u8
  | RtcmDiscontinuityCounterChanged u8 u8
  | SolutionChanged SsrSolutionTerm SsrSolutionTerm
  | StaleToken
  | FutureToken
  | MismatchedToken
  | Unrecognized

fun discontinuity_term :: "SsrDiscontinuityDetails \<Rightarrow> SsrDiscontinuityDetailsTerm" where
  "discontinuity_term SsrDiscontinuityDetails.InitialTokenEstablished = SsrDiscontinuityDetailsTerm.InitialTokenEstablished"
| "discontinuity_term SsrDiscontinuityDetails.Continuous = SsrDiscontinuityDetailsTerm.Continuous"
| "discontinuity_term (SsrDiscontinuityDetails.HasPdiChanged x0 x1) = SsrDiscontinuityDetailsTerm.HasPdiChanged x0 x1"
| "discontinuity_term (SsrDiscontinuityDetails.RtcmDiscontinuityCounterChanged x0 x1) = SsrDiscontinuityDetailsTerm.RtcmDiscontinuityCounterChanged x0 x1"
| "discontinuity_term (SsrDiscontinuityDetails.SolutionChanged x0 x1) = SsrDiscontinuityDetailsTerm.SolutionChanged (solution_term x0) (solution_term x1)"
| "discontinuity_term SsrDiscontinuityDetails.StaleToken = SsrDiscontinuityDetailsTerm.StaleToken"
| "discontinuity_term SsrDiscontinuityDetails.FutureToken = SsrDiscontinuityDetailsTerm.FutureToken"
| "discontinuity_term SsrDiscontinuityDetails.MismatchedToken = SsrDiscontinuityDetailsTerm.MismatchedToken"
| "discontinuity_term (SsrDiscontinuityDetails.Unnamed n) = SsrDiscontinuityDetailsTerm.Unrecognized"

fun discontinuity_decode :: "SsrDiscontinuityDetailsTerm \<Rightarrow> string + SsrDiscontinuityDetails" where
  "discontinuity_decode SsrDiscontinuityDetailsTerm.InitialTokenEstablished = Inr SsrDiscontinuityDetails.InitialTokenEstablished"
| "discontinuity_decode SsrDiscontinuityDetailsTerm.Continuous = Inr SsrDiscontinuityDetails.Continuous"
| "discontinuity_decode (SsrDiscontinuityDetailsTerm.HasPdiChanged x0 x1) = Inr (SsrDiscontinuityDetails.HasPdiChanged x0 x1)"
| "discontinuity_decode (SsrDiscontinuityDetailsTerm.RtcmDiscontinuityCounterChanged x0 x1) = Inr (SsrDiscontinuityDetails.RtcmDiscontinuityCounterChanged x0 x1)"
| "discontinuity_decode (SsrDiscontinuityDetailsTerm.SolutionChanged x0 x1) = Inr (SsrDiscontinuityDetails.SolutionChanged (solution_from_term x0) (solution_from_term x1))"
| "discontinuity_decode SsrDiscontinuityDetailsTerm.StaleToken = Inr SsrDiscontinuityDetails.StaleToken"
| "discontinuity_decode SsrDiscontinuityDetailsTerm.FutureToken = Inr SsrDiscontinuityDetails.FutureToken"
| "discontinuity_decode SsrDiscontinuityDetailsTerm.MismatchedToken = Inr SsrDiscontinuityDetails.MismatchedToken"
| "discontinuity_decode SsrDiscontinuityDetailsTerm.Unrecognized = Inl (unrecognized ''a phase discontinuity detail'')"

datatype 'sys SsrBiasResolutionDetails =
    Available
  | NoRecord
  | TransmittedUnavailable
  | ConversionUnavailable
  | EpochBeforeReference f64 f64
  | EpochExpired f64 f64
  | ExcludedByDoNotUse f64 f64
  | InvalidEpoch
  | PhaseDiscontinuity SsrDiscontinuityDetails
  | UnknownSignal "'sys SsrRawSignal"
  | Unnamed nat

datatype SsrBiasResolutionDetailsTerm =
    Available
  | NoRecord
  | TransmittedUnavailable
  | ConversionUnavailable
  | EpochBeforeReference f64 f64
  | EpochExpired f64 f64
  | ExcludedByDoNotUse f64 f64
  | InvalidEpoch
  | PhaseDiscontinuity SsrDiscontinuityDetailsTerm
  | UnknownSignal SsrRawSignalTerm
  | Unrecognized

fun resolution_term :: "('sat, 'sys, 'code, 'tok, 'err) ssr_core \<Rightarrow> 'sys SsrBiasResolutionDetails \<Rightarrow> SsrBiasResolutionDetailsTerm" where
  "resolution_term C SsrBiasResolutionDetails.Available = SsrBiasResolutionDetailsTerm.Available"
| "resolution_term C SsrBiasResolutionDetails.NoRecord = SsrBiasResolutionDetailsTerm.NoRecord"
| "resolution_term C SsrBiasResolutionDetails.TransmittedUnavailable = SsrBiasResolutionDetailsTerm.TransmittedUnavailable"
| "resolution_term C SsrBiasResolutionDetails.ConversionUnavailable = SsrBiasResolutionDetailsTerm.ConversionUnavailable"
| "resolution_term C (SsrBiasResolutionDetails.EpochBeforeReference x0 x1) = SsrBiasResolutionDetailsTerm.EpochBeforeReference x0 x1"
| "resolution_term C (SsrBiasResolutionDetails.EpochExpired x0 x1) = SsrBiasResolutionDetailsTerm.EpochExpired x0 x1"
| "resolution_term C (SsrBiasResolutionDetails.ExcludedByDoNotUse x0 x1) = SsrBiasResolutionDetailsTerm.ExcludedByDoNotUse x0 x1"
| "resolution_term C SsrBiasResolutionDetails.InvalidEpoch = SsrBiasResolutionDetailsTerm.InvalidEpoch"
| "resolution_term C (SsrBiasResolutionDetails.PhaseDiscontinuity x0) = SsrBiasResolutionDetailsTerm.PhaseDiscontinuity (discontinuity_term x0)"
| "resolution_term C (SsrBiasResolutionDetails.UnknownSignal x0) = SsrBiasResolutionDetailsTerm.UnknownSignal (raw_signal_term C x0)"
| "resolution_term C (SsrBiasResolutionDetails.Unnamed n) = SsrBiasResolutionDetailsTerm.Unrecognized"

fun resolution_decode :: "('sat, 'sys, 'code, 'tok, 'err) ssr_core \<Rightarrow> SsrBiasResolutionDetailsTerm \<Rightarrow> string + 'sys SsrBiasResolutionDetails" where
  "resolution_decode C SsrBiasResolutionDetailsTerm.Available = Inr SsrBiasResolutionDetails.Available"
| "resolution_decode C SsrBiasResolutionDetailsTerm.NoRecord = Inr SsrBiasResolutionDetails.NoRecord"
| "resolution_decode C SsrBiasResolutionDetailsTerm.TransmittedUnavailable = Inr SsrBiasResolutionDetails.TransmittedUnavailable"
| "resolution_decode C SsrBiasResolutionDetailsTerm.ConversionUnavailable = Inr SsrBiasResolutionDetails.ConversionUnavailable"
| "resolution_decode C (SsrBiasResolutionDetailsTerm.EpochBeforeReference x0 x1) = Inr (SsrBiasResolutionDetails.EpochBeforeReference x0 x1)"
| "resolution_decode C (SsrBiasResolutionDetailsTerm.EpochExpired x0 x1) = Inr (SsrBiasResolutionDetails.EpochExpired x0 x1)"
| "resolution_decode C (SsrBiasResolutionDetailsTerm.ExcludedByDoNotUse x0 x1) = Inr (SsrBiasResolutionDetails.ExcludedByDoNotUse x0 x1)"
| "resolution_decode C SsrBiasResolutionDetailsTerm.InvalidEpoch = Inr SsrBiasResolutionDetails.InvalidEpoch"
| "resolution_decode C (SsrBiasResolutionDetailsTerm.PhaseDiscontinuity x0) = and_then (discontinuity_decode x0) (\<lambda>y0. Inr (SsrBiasResolutionDetails.PhaseDiscontinuity y0))"
| "resolution_decode C (SsrBiasResolutionDetailsTerm.UnknownSignal x0) = and_then (raw_signal_decode C x0) (\<lambda>y0. Inr (SsrBiasResolutionDetails.UnknownSignal y0))"
| "resolution_decode C SsrBiasResolutionDetailsTerm.Unrecognized = Inl (unrecognized ''a bias resolution detail'')"

datatype PhaseDiscontinuityIndicator = GalileoHasPdi u8 | RtcmDiscontinuityCounter u8

datatype PhaseDiscontinuityIndicatorTerm = GalileoHasPdi u8 | RtcmDiscontinuityCounter u8

fun indicator_term :: "PhaseDiscontinuityIndicator \<Rightarrow> PhaseDiscontinuityIndicatorTerm" where
  "indicator_term (PhaseDiscontinuityIndicator.GalileoHasPdi x0) = PhaseDiscontinuityIndicatorTerm.GalileoHasPdi x0"
| "indicator_term (PhaseDiscontinuityIndicator.RtcmDiscontinuityCounter x0) = PhaseDiscontinuityIndicatorTerm.RtcmDiscontinuityCounter x0"

fun indicator_from_term :: "PhaseDiscontinuityIndicatorTerm \<Rightarrow> PhaseDiscontinuityIndicator" where
  "indicator_from_term (PhaseDiscontinuityIndicatorTerm.GalileoHasPdi x0) = PhaseDiscontinuityIndicator.GalileoHasPdi x0"
| "indicator_from_term (PhaseDiscontinuityIndicatorTerm.RtcmDiscontinuityCounter x0) = PhaseDiscontinuityIndicator.RtcmDiscontinuityCounter x0"

lemma indicator_from_term_indicator_term [simp, codec_simps]: "indicator_from_term (indicator_term x) = x"
  by (cases x) simp_all

text \<open>The core values these enums carry whole.\<close>

definition status_named :: "SsrBiasStatus \<Rightarrow> bool" where
  "status_named s = (case s of SsrBiasStatus.Unnamed _ \<Rightarrow> False | _ \<Rightarrow> True)"

definition if_status_named :: "SsrIfCombinationStatus \<Rightarrow> bool" where
  "if_status_named s = (case s of SsrIfCombinationStatus.Unnamed _ \<Rightarrow> False | _ \<Rightarrow> True)"

definition lifetime_named :: "SsrLifetime \<Rightarrow> bool" where
  "lifetime_named s = (case s of SsrLifetime.Unnamed _ \<Rightarrow> False | _ \<Rightarrow> True)"

definition discontinuity_named :: "SsrDiscontinuityDetails \<Rightarrow> bool" where
  "discontinuity_named d = (case d of SsrDiscontinuityDetails.Unnamed _ \<Rightarrow> False | _ \<Rightarrow> True)"

definition resolution_named :: "'sys SsrBiasResolutionDetails \<Rightarrow> bool" where
  "resolution_named d = (case d of
     SsrBiasResolutionDetails.Unnamed _ \<Rightarrow> False
   | SsrBiasResolutionDetails.PhaseDiscontinuity d' \<Rightarrow> discontinuity_named d'
   | _ \<Rightarrow> True)"

lemma degrade_term_from [simp]: "degrade_term (degrade_from_term x) = x"
  by (cases x) simp_all

lemma solution_term_from [simp]: "solution_term (solution_from_term x) = x"
proof -
  have "source_term (source_from_term y) = y" for y by (cases y) simp_all
  then show ?thesis by (simp add: solution_from_term_def solution_term_def)
qed

lemma status_decode_term: "status_decode (status_term s) =
    (if status_named s then Inr s else Inl (unrecognized ''a bias status''))"
  by (cases s) (simp_all add: status_named_def)

lemma if_status_decode_term: "if_status_decode (if_status_term s) =
    (if if_status_named s then Inr s else Inl (unrecognized ''an ionosphere-free combination status''))"
  by (cases s) (simp_all add: if_status_named_def)

lemma lifetime_decode_term: "lifetime_decode (lifetime_term s) =
    (if lifetime_named s then Inr s else Inl (unrecognized ''a bias lifetime''))"
  by (cases s) (simp_all add: lifetime_named_def)

lemma discontinuity_decode_term: "discontinuity_decode (discontinuity_term s) =
    (if discontinuity_named s then Inr s else Inl (unrecognized ''a phase discontinuity detail''))"
  by (cases s) (simp_all add: discontinuity_named_def)

lemma status_strict: "status_decode t = Inr s \<Longrightarrow> status_named s \<and> status_term s = t"
  by (cases t) (auto simp: status_named_def)

lemma if_status_strict: "if_status_decode t = Inr s \<Longrightarrow> if_status_named s \<and> if_status_term s = t"
  by (cases t) (auto simp: if_status_named_def)

lemma lifetime_strict: "lifetime_decode t = Inr s \<Longrightarrow> lifetime_named s \<and> lifetime_term s = t"
  by (cases t) (auto simp: lifetime_named_def)

lemma discontinuity_strict: "discontinuity_decode t = Inr s \<Longrightarrow> discontinuity_named s \<and> discontinuity_term s = t"
  by (cases t) (auto simp: discontinuity_named_def)

interpretation status: strict_codec True status_named status_term status_decode
  by unfold_locales (simp_all add: status_decode_term status_strict)

interpretation if_status: strict_codec True if_status_named if_status_term if_status_decode
  by unfold_locales (simp_all add: if_status_decode_term if_status_strict)

interpretation lifetime: strict_codec True lifetime_named lifetime_term lifetime_decode
  by unfold_locales (simp_all add: lifetime_decode_term lifetime_strict)

interpretation discontinuity: strict_codec True discontinuity_named discontinuity_term discontinuity_decode
  by unfold_locales (simp_all add: discontinuity_decode_term discontinuity_strict)

lemma resolution_codec:
  assumes "ssr_laws C"
  shows "resolution_named d \<Longrightarrow> resolution_decode C (resolution_term C d) = Inr d"
    "\<not> resolution_named d \<Longrightarrow> isl (resolution_decode C (resolution_term C d))"
  using assms
  by (cases d; simp add: resolution_named_def discontinuity_decode_term codec_simps)+

interpretation resolution: faithful_codec "ssr_laws C" resolution_named "resolution_term C" "resolution_decode C" for C
  by unfold_locales (simp_all add: resolution_codec)

lemmas enum_codecs =
  status.dec_enc [OF TrueI] if_status.dec_enc [OF TrueI] lifetime.dec_enc_option [OF TrueI]
  discontinuity.dec_enc_option [OF TrueI] resolution.dec_enc

declare enum_codecs [codec_simps]

section \<open>Continuity tokens and source errors\<close>

text \<open>A term of either carries its handle, that is, the core value itself.\<close>

record 'tok PhaseContinuityTokenTerm =
  tt_satellite :: string
  tt_signal :: SsrSignalKeyTerm
  tt_source :: SsrSourceTerm
  tt_provider_id :: u16
  tt_solution_id :: u8
  tt_continuity_ref_epoch_j2000_s :: f64
  tt_raw_indicator :: u8
  tt_generation :: u32
  tt_handle :: 'tok

record PhaseContinuityTokenView =
  tv_satellite :: string
  tv_signal :: SsrSignalKeyTerm
  tv_source :: SsrSourceTerm
  tv_provider_id :: u16
  tv_solution_id :: u8
  tv_continuity_ref_epoch_bits :: u64
  tv_raw_indicator :: u8
  tv_generation :: u32

definition token_view_of ::
  "('sat, 'sys, 'code, 'tok, 'err) ssr_core \<Rightarrow> 'tok \<Rightarrow> PhaseContinuityTokenView" where
  "token_view_of C token =
     \<lparr>tv_satellite = satellite_term C (tok_satellite C token),
      tv_signal = signal_key_term C (tok_signal C token),
      tv_source = source_term (tok_source C token),
      tv_provider_id = tok_provider_id C token,
      tv_solution_id = tok_solution_id C token,
      tv_continuity_ref_epoch_bits = tok_continuity_ref_epoch_j2000_s C token,
      tv_raw_indicator = tok_raw_indicator C token,
      tv_generation = tok_generation C token\<rparr>"

definition token_term :: "('sat, 'sys, 'code, 'tok, 'err) ssr_core \<Rightarrow> 'tok \<Rightarrow> 'tok PhaseContinuityTokenTerm" where
  "token_term C token =
     (let view = token_view_of C token in
      \<lparr>tt_satellite = tv_satellite view, tt_signal = tv_signal view, tt_source = tv_source view,
       tt_provider_id = tv_provider_id view, tt_solution_id = tv_solution_id view,
       tt_continuity_ref_epoch_j2000_s = tv_continuity_ref_epoch_bits view,
       tt_raw_indicator = tv_raw_indicator view, tt_generation = tv_generation view,
       tt_handle = token\<rparr>)"

definition token_view :: "'tok PhaseContinuityTokenTerm \<Rightarrow> PhaseContinuityTokenView" where
  "token_view t =
     \<lparr>tv_satellite = tt_satellite t, tv_signal = tt_signal t, tv_source = tt_source t,
      tv_provider_id = tt_provider_id t, tv_solution_id = tt_solution_id t,
      tv_continuity_ref_epoch_bits = tt_continuity_ref_epoch_j2000_s t,
      tv_raw_indicator = tt_raw_indicator t, tv_generation = tt_generation t\<rparr>"

definition token_from_parts ::
  "('sat, 'sys, 'code, 'tok, 'err) ssr_core \<Rightarrow> PhaseContinuityTokenView \<Rightarrow> 'tok \<Rightarrow> string + 'tok" where
  "token_from_parts C view token =
     (if token_view_of C token = view then Inr token
      else Inl ''phase continuity token fields differ from the token its handle holds'')"

definition token_decode ::
  "('sat, 'sys, 'code, 'tok, 'err) ssr_core \<Rightarrow> 'tok PhaseContinuityTokenTerm \<Rightarrow> string + 'tok" where
  "token_decode C t = token_from_parts C (token_view t) (tt_handle t)"

record 'err SourceErrorTerm =
  et_message :: string
  et_handle :: 'err

definition source_error_term :: "('sat, 'sys, 'code, 'tok, 'err) ssr_core \<Rightarrow> 'err \<Rightarrow> 'err SourceErrorTerm" where
  "source_error_term C error = \<lparr>et_message = error_to_string C error, et_handle = error\<rparr>"

definition error_from_parts ::
  "('sat, 'sys, 'code, 'tok, 'err) ssr_core \<Rightarrow> string \<Rightarrow> 'err \<Rightarrow> string + 'err" where
  "error_from_parts C message error =
     (if error_to_string C error = message then Inr error
      else Inl ''source error message differs from the error its handle holds'')"

definition source_error_decode ::
  "('sat, 'sys, 'code, 'tok, 'err) ssr_core \<Rightarrow> 'err SourceErrorTerm \<Rightarrow> string + 'err" where
  "source_error_decode C t = error_from_parts C (et_message t) (et_handle t)"

lemma token_strict: "token_decode C t = Inr token \<Longrightarrow> token_term C token = t"
  by (cases t) (auto simp: token_decode_def token_from_parts_def token_view_def token_term_def Let_def
      split: if_splits)

lemma token_decode_term: "token_decode C (token_term C token) = Inr token"
  by (simp add: token_decode_def token_from_parts_def token_view_def token_term_def token_view_of_def)

interpretation token: strict_codec True "\<lambda>_. True" "token_term C" "token_decode C" for C
  by unfold_locales (simp_all add: token_strict token_decode_term)

lemma source_error_strict: "source_error_decode C t = Inr e \<Longrightarrow> source_error_term C e = t"
  by (cases t) (auto simp: source_error_decode_def error_from_parts_def source_error_term_def split: if_splits)

lemma source_error_decode_term: "source_error_decode C (source_error_term C e) = Inr e"
  by (simp add: source_error_decode_def error_from_parts_def source_error_term_def)

interpretation source_error: strict_codec True "\<lambda>_. True" "source_error_term C" "source_error_decode C" for C
  by unfold_locales (simp_all add: source_error_strict source_error_decode_term)

lemmas handle_codecs =
  token.dec_enc [OF TrueI] token.dec_enc_option [OF TrueI] source_error.dec_enc [OF TrueI]

declare handle_codecs [codec_simps] option.pred_True [codec_simps]

section \<open>Bias queries\<close>

record ('sat, 'sys, 'code) SsrCodeBiasQueryResult =
  cq_sat :: 'sat
  cq_signal :: "('sys, 'code) SsrSignalKey"
  cq_source_signal :: "'sys SsrRawSignal option"
  cq_status :: SsrBiasStatus
  cq_bias_m :: "f64 option"
  cq_solution :: "SsrSolution option"
  cq_iod_ssr :: "u8 option"
  cq_ref_epoch_j2000_s :: "f64 option"
  cq_lifetime :: "SsrLifetime option"
  cq_details :: "'sys SsrBiasResolutionDetails"

record CodeBiasQueryTerm =
  cqt_sat :: string
  cqt_signal :: SsrSignalKeyTerm
  cqt_source_signal :: "SsrRawSignalTerm option"
  cqt_status :: SsrBiasStatusTerm
  cqt_bias_m :: "f64 option"
  cqt_solution :: "SsrSolutionTerm option"
  cqt_iod_ssr :: "u8 option"
  cqt_ref_epoch_j2000_s :: "f64 option"
  cqt_lifetime :: "SsrLifetimeTerm option"
  cqt_details :: SsrBiasResolutionDetailsTerm

definition code_query_term ::
  "('sat, 'sys, 'code, 'tok, 'err) ssr_core \<Rightarrow> ('sat, 'sys, 'code) SsrCodeBiasQueryResult \<Rightarrow> CodeBiasQueryTerm" where
  "code_query_term C q =
     \<lparr>cqt_sat = satellite_term C (cq_sat q),
      cqt_signal = signal_key_term C (cq_signal q),
      cqt_source_signal = map_option (raw_signal_term C) (cq_source_signal q),
      cqt_status = status_term (cq_status q),
      cqt_bias_m = cq_bias_m q,
      cqt_solution = map_option solution_term (cq_solution q),
      cqt_iod_ssr = cq_iod_ssr q,
      cqt_ref_epoch_j2000_s = cq_ref_epoch_j2000_s q,
      cqt_lifetime = map_option lifetime_term (cq_lifetime q),
      cqt_details = resolution_term C (cq_details q)\<rparr>"

definition code_query_decode ::
  "('sat, 'sys, 'code, 'tok, 'err) ssr_core \<Rightarrow> CodeBiasQueryTerm \<Rightarrow> string + ('sat, 'sys, 'code) SsrCodeBiasQueryResult" where
  "code_query_decode C t =
     and_then (satellite_from C ''code bias query sat'' (cqt_sat t)) (\<lambda>sat.
     and_then (signal_key_decode C (cqt_signal t)) (\<lambda>signal.
     and_then (transpose_option (map_option (raw_signal_decode C) (cqt_source_signal t))) (\<lambda>source_signal.
     and_then (status_decode (cqt_status t)) (\<lambda>status.
     and_then (transpose_option (map_option lifetime_decode (cqt_lifetime t))) (\<lambda>lifetime.
     and_then (resolution_decode C (cqt_details t)) (\<lambda>details.
     Inr \<lparr>cq_sat = sat, cq_signal = signal, cq_source_signal = source_signal, cq_status = status,
          cq_bias_m = cqt_bias_m t, cq_solution = map_option solution_from_term (cqt_solution t),
          cq_iod_ssr = cqt_iod_ssr t, cq_ref_epoch_j2000_s = cqt_ref_epoch_j2000_s t,
          cq_lifetime = lifetime, cq_details = details\<rparr>))))))"

record ('sat, 'sys, 'code, 'tok) SsrPhaseBiasQueryResult =
  pq_sat :: 'sat
  pq_signal :: "('sys, 'code) SsrSignalKey"
  pq_source_signal :: "'sys SsrRawSignal option"
  pq_status :: SsrBiasStatus
  pq_bias_m :: "f64 option"
  pq_bias_cycles :: "f64 option"
  pq_solution :: "SsrSolution option"
  pq_iod_ssr :: "u8 option"
  pq_ref_epoch_j2000_s :: "f64 option"
  pq_lifetime :: "SsrLifetime option"
  pq_continuity_token :: "'tok option"
  pq_discontinuity_indicator :: "PhaseDiscontinuityIndicator option"
  pq_discontinuity_details :: "SsrDiscontinuityDetails option"
  pq_details :: "'sys SsrBiasResolutionDetails"

record 'tok PhaseBiasQueryTerm =
  pqt_sat :: string
  pqt_signal :: SsrSignalKeyTerm
  pqt_source_signal :: "SsrRawSignalTerm option"
  pqt_status :: SsrBiasStatusTerm
  pqt_bias_m :: "f64 option"
  pqt_bias_cycles :: "f64 option"
  pqt_solution :: "SsrSolutionTerm option"
  pqt_iod_ssr :: "u8 option"
  pqt_ref_epoch_j2000_s :: "f64 option"
  pqt_lifetime :: "SsrLifetimeTerm option"
  pqt_continuity_token :: "'tok PhaseContinuityTokenTerm option"
  pqt_discontinuity_indicator :: "PhaseDiscontinuityIndicatorTerm option"
  pqt_discontinuity_details :: "SsrDiscontinuityDetailsTerm option"
  pqt_details :: SsrBiasResolutionDetailsTerm

definition phase_query_term ::
  "('sat, 'sys, 'code, 'tok, 'err) ssr_core \<Rightarrow> ('sat, 'sys, 'code, 'tok) SsrPhaseBiasQueryResult \<Rightarrow> 'tok PhaseBiasQueryTerm" where
  "phase_query_term C q =
     \<lparr>pqt_sat = satellite_term C (pq_sat q),
      pqt_signal = signal_key_term C (pq_signal q),
      pqt_source_signal = map_option (raw_signal_term C) (pq_source_signal q),
      pqt_status = status_term (pq_status q),
      pqt_bias_m = pq_bias_m q,
      pqt_bias_cycles = pq_bias_cycles q,
      pqt_solution = map_option solution_term (pq_solution q),
      pqt_iod_ssr = pq_iod_ssr q,
      pqt_ref_epoch_j2000_s = pq_ref_epoch_j2000_s q,
      pqt_lifetime = map_option lifetime_term (pq_lifetime q),
      pqt_continuity_token = map_option (token_term C) (pq_continuity_token q),
      pqt_discontinuity_indicator = map_option indicator_term (pq_discontinuity_indicator q),
      pqt_discontinuity_details = map_option discontinuity_term (pq_discontinuity_details q),
      pqt_details = resolution_term C (pq_details q)\<rparr>"

definition phase_query_decode ::
  "('sat, 'sys, 'code, 'tok, 'err) ssr_core \<Rightarrow> 'tok PhaseBiasQueryTerm \<Rightarrow> string + ('sat, 'sys, 'code, 'tok) SsrPhaseBiasQueryResult" where
  "phase_query_decode C t =
     and_then (satellite_from C ''phase bias query sat'' (pqt_sat t)) (\<lambda>sat.
     and_then (signal_key_decode C (pqt_signal t)) (\<lambda>signal.
     and_then (transpose_option (map_option (raw_signal_decode C) (pqt_source_signal t))) (\<lambda>source_signal.
     and_then (status_decode (pqt_status t)) (\<lambda>status.
     and_then (transpose_option (map_option lifetime_decode (pqt_lifetime t))) (\<lambda>lifetime.
     and_then (transpose_option (map_option (token_decode C) (pqt_continuity_token t))) (\<lambda>token.
     and_then (transpose_option (map_option discontinuity_decode (pqt_discontinuity_details t))) (\<lambda>discontinuity.
     and_then (resolution_decode C (pqt_details t)) (\<lambda>details.
     Inr \<lparr>pq_sat = sat, pq_signal = signal, pq_source_signal = source_signal, pq_status = status,
          pq_bias_m = pqt_bias_m t, pq_bias_cycles = pqt_bias_cycles t,
          pq_solution = map_option solution_from_term (pqt_solution t),
          pq_iod_ssr = pqt_iod_ssr t, pq_ref_epoch_j2000_s = pqt_ref_epoch_j2000_s t,
          pq_lifetime = lifetime, pq_continuity_token = token,
          pq_discontinuity_indicator = map_option indicator_from_term (pqt_discontinuity_indicator t),
          pq_discontinuity_details = discontinuity, pq_details = details\<rparr>))))))))"

definition code_query_named :: "('sat, 'sys, 'code) SsrCodeBiasQueryResult \<Rightarrow> bool" where
  "code_query_named q \<longleftrightarrow>
     status_named (cq_status q) \<and> pred_option lifetime_named (cq_lifetime q) \<and> resolution_named (cq_details q)"

definition phase_query_named :: "('sat, 'sys, 'code, 'tok) SsrPhaseBiasQueryResult \<Rightarrow> bool" where
  "phase_query_named q \<longleftrightarrow>
     status_named (pq_status q) \<and> pred_option lifetime_named (pq_lifetime q) \<and>
     pred_option discontinuity_named (pq_discontinuity_details q) \<and> resolution_named (pq_details q)"

lemma option_total [simp, codec_simps]:
  "map_option solution_from_term (map_option solution_term x) = x"
  "map_option indicator_from_term (map_option indicator_term y) = y"
  by (cases x; simp) (cases y; simp)

interpretation code_query: faithful_codec "ssr_laws C" code_query_named "code_query_term C" "code_query_decode C" for C
  by unfold_locales
    (simp_all add: code_query_named_def code_query_term_def code_query_decode_def codec_simps)

interpretation phase_query: faithful_codec "ssr_laws C" phase_query_named "phase_query_term C" "phase_query_decode C" for C
  by unfold_locales
    (simp_all add: phase_query_named_def phase_query_term_def phase_query_decode_def codec_simps)

declare code_query.dec_enc [codec_simps] phase_query.dec_enc [codec_simps]

section \<open>Signal reports\<close>

text \<open>\<open>SsrObsSignalReport<Q>\<close> and its two term types, here one record each with the query inside.\<close>

record ('sat, 'sys, 'code, 'q) SsrObsSignalReport =
  sr_epoch_index :: u64
  sr_sat :: 'sat
  sr_ambiguity_id :: string
  sr_signal :: "('sys, 'code) GnssSignal"
  sr_query_result :: 'q

record 'q SignalReportTerm =
  srt_epoch_index :: u64
  srt_sat :: string
  srt_ambiguity_id :: string
  srt_signal :: GnssSignalTerm
  srt_query_result :: 'q

type_synonym CodeSignalReportTerm = "CodeBiasQueryTerm SignalReportTerm"
type_synonym 'tok PhaseSignalReportTerm = "'tok PhaseBiasQueryTerm SignalReportTerm"

definition code_report_term ::
  "('sat, 'sys, 'code, 'tok, 'err) ssr_core \<Rightarrow> ('sat, 'sys, 'code, ('sat, 'sys, 'code) SsrCodeBiasQueryResult) SsrObsSignalReport \<Rightarrow>
   CodeSignalReportTerm" where
  "code_report_term C r =
     \<lparr>srt_epoch_index = sr_epoch_index r, srt_sat = satellite_term C (sr_sat r),
      srt_ambiguity_id = sr_ambiguity_id r, srt_signal = signal_term C (sr_signal r),
      srt_query_result = code_query_term C (sr_query_result r)\<rparr>"

definition code_report_decode ::
  "('sat, 'sys, 'code, 'tok, 'err) ssr_core \<Rightarrow> CodeSignalReportTerm \<Rightarrow>
   string + ('sat, 'sys, 'code, ('sat, 'sys, 'code) SsrCodeBiasQueryResult) SsrObsSignalReport" where
  "code_report_decode C t =
     and_then (usize_from (srt_epoch_index t) ''signal report epoch_index'') (\<lambda>epoch_index.
     and_then (satellite_from C ''signal report sat'' (srt_sat t)) (\<lambda>sat.
     and_then (signal_decode C (srt_signal t)) (\<lambda>signal.
     and_then (code_query_decode C (srt_query_result t)) (\<lambda>query_result.
     Inr \<lparr>sr_epoch_index = epoch_index, sr_sat = sat, sr_ambiguity_id = srt_ambiguity_id t,
          sr_signal = signal, sr_query_result = query_result\<rparr>))))"

definition phase_report_term ::
  "('sat, 'sys, 'code, 'tok, 'err) ssr_core \<Rightarrow> ('sat, 'sys, 'code, ('sat, 'sys, 'code, 'tok) SsrPhaseBiasQueryResult) SsrObsSignalReport \<Rightarrow>
   'tok PhaseSignalReportTerm" where
  "phase_report_term C r =
     \<lparr>srt_epoch_index = sr_epoch_index r, srt_sat = satellite_term C (sr_sat r),
      srt_ambiguity_id = sr_ambiguity_id r, srt_signal = signal_term C (sr_signal r),
      srt_query_result = phase_query_term C (sr_query_result r)\<rparr>"

definition phase_report_decode ::
  "('sat, 'sys, 'code, 'tok, 'err) ssr_core \<Rightarrow> 'tok PhaseSignalReportTerm \<Rightarrow>
   string + ('sat, 'sys, 'code, ('sat, 'sys, 'code, 'tok) SsrPhaseBiasQueryResult) SsrObsSignalReport" where
  "phase_report_decode C t =
     and_then (usize_from (srt_epoch_index t) ''signal report epoch_index'') (\<lambda>epoch_index.
     and_then (satellite_from C ''signal report sat'' (srt_sat t)) (\<lambda>sat.
     and_then (signal_decode C (srt_signal t)) (\<lambda>signal.
     and_then (phase_query_decode C (srt_query_result t)) (\<lambda>query_result.
     Inr \<lparr>sr_epoch_index = epoch_index, sr_sat = sat, sr_ambiguity_id = srt_ambiguity_id t,
          sr_signal = signal, sr_query_result = query_result\<rparr>))))"

interpretation code_report: faithful_codec "ssr_laws C" "\<lambda>r. code_query_named (sr_query_result r)"
  "code_report_term C" "code_report_decode C" for C
  by unfold_locales (simp_all add: code_report_term_def code_report_decode_def usize_from_def codec_simps)

interpretation phase_report: faithful_codec "ssr_laws C" "\<lambda>r. phase_query_named (sr_query_result r)"
  "phase_report_term C" "phase_report_decode C" for C
  by unfold_locales (simp_all add: phase_report_term_def phase_report_decode_def usize_from_def codec_simps)

declare code_report.dec_enc_option [codec_simps] phase_report.dec_enc_option [codec_simps]

record 'code FloatObservationSignals =
  os_code1 :: 'code
  os_code2 :: 'code
  os_phase1 :: 'code
  os_phase2 :: 'code

record ObservationSignalsTerm =
  ost_code1 :: string
  ost_code2 :: string
  ost_phase1 :: string
  ost_phase2 :: string

definition observation_signals_term ::
  "('sat, 'sys, 'code, 'tok, 'err) ssr_core \<Rightarrow> 'code FloatObservationSignals \<Rightarrow> ObservationSignalsTerm" where
  "observation_signals_term C s =
     \<lparr>ost_code1 = code_to_string C (os_code1 s), ost_code2 = code_to_string C (os_code2 s),
      ost_phase1 = code_to_string C (os_phase1 s), ost_phase2 = code_to_string C (os_phase2 s)\<rparr>"

definition observation_signals_decode ::
  "('sat, 'sys, 'code, 'tok, 'err) ssr_core \<Rightarrow> ObservationSignalsTerm \<Rightarrow> string + 'code FloatObservationSignals" where
  "observation_signals_decode C t =
     and_then (signal_code_from C ''observation signal code1'' (ost_code1 t)) (\<lambda>code1.
     and_then (signal_code_from C ''observation signal code2'' (ost_code2 t)) (\<lambda>code2.
     and_then (signal_code_from C ''observation signal phase1'' (ost_phase1 t)) (\<lambda>phase1.
     and_then (signal_code_from C ''observation signal phase2'' (ost_phase2 t)) (\<lambda>phase2.
     Inr \<lparr>os_code1 = code1, os_code2 = code2, os_phase1 = phase1, os_phase2 = phase2\<rparr>))))"

interpretation observation_signals: lossless_codec "ssr_laws C" "observation_signals_term C"
  "observation_signals_decode C" for C
  by unfold_locales
    (simp_all add: observation_signals_term_def observation_signals_decode_def codec_simps)

declare observation_signals.option_returns [codec_simps]

section \<open>Application reports\<close>

record ('sat, 'sys, 'code, 'tok) SsrObsApplicationReport =
  ar_epoch_index :: u64
  ar_sat :: 'sat
  ar_satellite_id :: string
  ar_ambiguity_id :: string
  ar_transmit_time_j2000_s :: "f64 option"
  ar_applied_orbit_clock_solution :: "SsrSolution option"
  ar_observation_signals :: "'code FloatObservationSignals option"
  ar_code_status :: SsrIfCombinationStatus
  ar_applied_code_if_m :: "f64 option"
  ar_code1_report :: "('sat, 'sys, 'code, ('sat, 'sys, 'code) SsrCodeBiasQueryResult) SsrObsSignalReport option"
  ar_code2_report :: "('sat, 'sys, 'code, ('sat, 'sys, 'code) SsrCodeBiasQueryResult) SsrObsSignalReport option"
  ar_phase_status :: SsrIfCombinationStatus
  ar_applied_phase_if_m :: "f64 option"
  ar_phase1_report ::
    "('sat, 'sys, 'code, ('sat, 'sys, 'code, 'tok) SsrPhaseBiasQueryResult) SsrObsSignalReport option"
  ar_phase2_report ::
    "('sat, 'sys, 'code, ('sat, 'sys, 'code, 'tok) SsrPhaseBiasQueryResult) SsrObsSignalReport option"

record 'tok ApplicationReportTerm =
  art_epoch_index :: u64
  art_sat :: string
  art_satellite_id :: string
  art_ambiguity_id :: string
  art_transmit_time_j2000_s :: "f64 option"
  art_applied_orbit_clock_solution :: "SsrSolutionTerm option"
  art_observation_signals :: "ObservationSignalsTerm option"
  art_code_status :: SsrIfCombinationStatusTerm
  art_applied_code_if_m :: "f64 option"
  art_code1_report :: "CodeSignalReportTerm option"
  art_code2_report :: "CodeSignalReportTerm option"
  art_phase_status :: SsrIfCombinationStatusTerm
  art_applied_phase_if_m :: "f64 option"
  art_phase1_report :: "'tok PhaseSignalReportTerm option"
  art_phase2_report :: "'tok PhaseSignalReportTerm option"

definition application_term ::
  "('sat, 'sys, 'code, 'tok, 'err) ssr_core \<Rightarrow> ('sat, 'sys, 'code, 'tok) SsrObsApplicationReport \<Rightarrow> 'tok ApplicationReportTerm" where
  "application_term C r =
     \<lparr>art_epoch_index = ar_epoch_index r,
      art_sat = satellite_term C (ar_sat r),
      art_satellite_id = ar_satellite_id r,
      art_ambiguity_id = ar_ambiguity_id r,
      art_transmit_time_j2000_s = ar_transmit_time_j2000_s r,
      art_applied_orbit_clock_solution = map_option solution_term (ar_applied_orbit_clock_solution r),
      art_observation_signals = map_option (observation_signals_term C) (ar_observation_signals r),
      art_code_status = if_status_term (ar_code_status r),
      art_applied_code_if_m = ar_applied_code_if_m r,
      art_code1_report = map_option (code_report_term C) (ar_code1_report r),
      art_code2_report = map_option (code_report_term C) (ar_code2_report r),
      art_phase_status = if_status_term (ar_phase_status r),
      art_applied_phase_if_m = ar_applied_phase_if_m r,
      art_phase1_report = map_option (phase_report_term C) (ar_phase1_report r),
      art_phase2_report = map_option (phase_report_term C) (ar_phase2_report r)\<rparr>"

definition application_decode ::
  "('sat, 'sys, 'code, 'tok, 'err) ssr_core \<Rightarrow> 'tok ApplicationReportTerm \<Rightarrow> string + ('sat, 'sys, 'code, 'tok) SsrObsApplicationReport" where
  "application_decode C t =
     and_then (usize_from (art_epoch_index t) ''application epoch_index'') (\<lambda>epoch_index.
     and_then (satellite_from C ''application sat'' (art_sat t)) (\<lambda>sat.
     and_then (transpose_option (map_option (observation_signals_decode C) (art_observation_signals t))) (\<lambda>signals.
     and_then (if_status_decode (art_code_status t)) (\<lambda>code_status.
     and_then (transpose_option (map_option (code_report_decode C) (art_code1_report t))) (\<lambda>code1.
     and_then (transpose_option (map_option (code_report_decode C) (art_code2_report t))) (\<lambda>code2.
     and_then (if_status_decode (art_phase_status t)) (\<lambda>phase_status.
     and_then (transpose_option (map_option (phase_report_decode C) (art_phase1_report t))) (\<lambda>phase1.
     and_then (transpose_option (map_option (phase_report_decode C) (art_phase2_report t))) (\<lambda>phase2.
     Inr \<lparr>ar_epoch_index = epoch_index, ar_sat = sat, ar_satellite_id = art_satellite_id t,
          ar_ambiguity_id = art_ambiguity_id t,
          ar_transmit_time_j2000_s = art_transmit_time_j2000_s t,
          ar_applied_orbit_clock_solution = map_option solution_from_term (art_applied_orbit_clock_solution t),
          ar_observation_signals = signals, ar_code_status = code_status,
          ar_applied_code_if_m = art_applied_code_if_m t, ar_code1_report = code1, ar_code2_report = code2,
          ar_phase_status = phase_status, ar_applied_phase_if_m = art_applied_phase_if_m t,
          ar_phase1_report = phase1, ar_phase2_report = phase2\<rparr>)))))))))"

definition application_named :: "('sat, 'sys, 'code, 'tok) SsrObsApplicationReport \<Rightarrow> bool" where
  "application_named r \<longleftrightarrow>
     if_status_named (ar_code_status r) \<and> if_status_named (ar_phase_status r) \<and>
     pred_option (\<lambda>r. code_query_named (sr_query_result r)) (ar_code1_report r) \<and>
     pred_option (\<lambda>r. code_query_named (sr_query_result r)) (ar_code2_report r) \<and>
     pred_option (\<lambda>r. phase_query_named (sr_query_result r)) (ar_phase1_report r) \<and>
     pred_option (\<lambda>r. phase_query_named (sr_query_result r)) (ar_phase2_report r)"

interpretation application: faithful_codec "ssr_laws C" application_named "application_term C"
  "application_decode C" for C
  by unfold_locales
    (simp_all add: application_named_def application_term_def application_decode_def usize_from_def codec_simps)

declare application.dec_enc_option [codec_simps]

section \<open>Transmit-time failures\<close>

datatype ('sys, 'code, 'err) SsrTransmitTimeFailure =
    SourceWithoutSsrCorrections
  | TransmitTimeUnavailable
  | OrbitClockSolution f64 "SsrSolution option"
  | BiasRecord f64 "('sys, 'code) SsrSignalKey" SsrBiasStatus
  | Source f64 'err
  | Unnamed nat

datatype 'err TransmitTimeFailureTerm =
    SourceWithoutSsrCorrections
  | TransmitTimeUnavailable
  | OrbitClockSolution f64 "SsrSolutionTerm option"
  | BiasRecord f64 SsrSignalKeyTerm SsrBiasStatusTerm
  | Source f64 "'err SourceErrorTerm"
  | Unrecognized

fun failure_term ::
  "('sat, 'sys, 'code, 'tok, 'err) ssr_core \<Rightarrow> ('sys, 'code, 'err) SsrTransmitTimeFailure \<Rightarrow> 'err TransmitTimeFailureTerm" where
  "failure_term C SsrTransmitTimeFailure.SourceWithoutSsrCorrections =
     TransmitTimeFailureTerm.SourceWithoutSsrCorrections"
| "failure_term C SsrTransmitTimeFailure.TransmitTimeUnavailable =
     TransmitTimeFailureTerm.TransmitTimeUnavailable"
| "failure_term C (SsrTransmitTimeFailure.OrbitClockSolution time applied) =
     TransmitTimeFailureTerm.OrbitClockSolution time (map_option solution_term applied)"
| "failure_term C (SsrTransmitTimeFailure.BiasRecord time signal status) =
     TransmitTimeFailureTerm.BiasRecord time (signal_key_term C signal) (status_term status)"
| "failure_term C (SsrTransmitTimeFailure.Source time error) =
     TransmitTimeFailureTerm.Source time (source_error_term C error)"
| "failure_term C (SsrTransmitTimeFailure.Unnamed n) = TransmitTimeFailureTerm.Unrecognized"

fun failure_decode ::
  "('sat, 'sys, 'code, 'tok, 'err) ssr_core \<Rightarrow> 'err TransmitTimeFailureTerm \<Rightarrow> string + ('sys, 'code, 'err) SsrTransmitTimeFailure" where
  "failure_decode C TransmitTimeFailureTerm.SourceWithoutSsrCorrections =
     Inr SsrTransmitTimeFailure.SourceWithoutSsrCorrections"
| "failure_decode C TransmitTimeFailureTerm.TransmitTimeUnavailable =
     Inr SsrTransmitTimeFailure.TransmitTimeUnavailable"
| "failure_decode C (TransmitTimeFailureTerm.OrbitClockSolution time applied) =
     Inr (SsrTransmitTimeFailure.OrbitClockSolution time (map_option solution_from_term applied))"
| "failure_decode C (TransmitTimeFailureTerm.BiasRecord time signal status) =
     and_then (signal_key_decode C signal) (\<lambda>signal.
     and_then (status_decode status) (\<lambda>status.
     Inr (SsrTransmitTimeFailure.BiasRecord time signal status)))"
| "failure_decode C (TransmitTimeFailureTerm.Source time error) =
     map_ok (SsrTransmitTimeFailure.Source time) (source_error_decode C error)"
| "failure_decode C TransmitTimeFailureTerm.Unrecognized = Inl (unrecognized ''a transmit-time failure'')"

definition failure_named :: "('sys, 'code, 'err) SsrTransmitTimeFailure \<Rightarrow> bool" where
  "failure_named f = (case f of
     SsrTransmitTimeFailure.Unnamed _ \<Rightarrow> False
   | SsrTransmitTimeFailure.BiasRecord _ _ status \<Rightarrow> status_named status
   | _ \<Rightarrow> True)"

lemma failure_codec:
  assumes "ssr_laws C"
  shows "failure_named f \<Longrightarrow> failure_decode C (failure_term C f) = Inr f"
    "\<not> failure_named f \<Longrightarrow> isl (failure_decode C (failure_term C f))"
  using assms by (cases f; simp add: failure_named_def codec_simps)+

interpretation failure: faithful_codec "ssr_laws C" failure_named "failure_term C" "failure_decode C" for C
  by unfold_locales (simp_all add: failure_codec)

declare failure.dec_enc_option [codec_simps]

section \<open>Exclusions\<close>

record ('sat, 'sys, 'code, 'tok, 'err) SsrBiasExclusion =
  ex_epoch_index :: u64
  ex_satellite_id :: string
  ex_ambiguity_id :: string
  ex_code_bias_missing :: bool
  ex_phase_bias_missing :: bool
  ex_transmit_time_failure :: "('sys, 'code, 'err) SsrTransmitTimeFailure option"
  ex_application :: "('sat, 'sys, 'code, 'tok) SsrObsApplicationReport option"

record ('tok, 'err) SsrBiasExclusionTerm =
  ext_epoch_index :: u64
  ext_satellite_id :: string
  ext_ambiguity_id :: string
  ext_code_bias_missing :: bool
  ext_phase_bias_missing :: bool
  ext_transmit_time_failure :: "'err TransmitTimeFailureTerm option"
  ext_application :: "'tok ApplicationReportTerm option"

definition exclusion_term ::
  "('sat, 'sys, 'code, 'tok, 'err) ssr_core \<Rightarrow> ('sat, 'sys, 'code, 'tok, 'err) SsrBiasExclusion \<Rightarrow> ('tok, 'err) SsrBiasExclusionTerm" where
  "exclusion_term C e =
     \<lparr>ext_epoch_index = ex_epoch_index e,
      ext_satellite_id = ex_satellite_id e,
      ext_ambiguity_id = ex_ambiguity_id e,
      ext_code_bias_missing = ex_code_bias_missing e,
      ext_phase_bias_missing = ex_phase_bias_missing e,
      ext_transmit_time_failure = map_option (failure_term C) (ex_transmit_time_failure e),
      ext_application = map_option (application_term C) (ex_application e)\<rparr>"

definition exclusion_decode ::
  "('sat, 'sys, 'code, 'tok, 'err) ssr_core \<Rightarrow> ('tok, 'err) SsrBiasExclusionTerm \<Rightarrow> string + ('sat, 'sys, 'code, 'tok, 'err) SsrBiasExclusion" where
  "exclusion_decode C t =
     and_then (usize_from (ext_epoch_index t) ''ssr_bias_exclusions epoch_index'') (\<lambda>epoch_index.
     and_then (transpose_option (map_option (failure_decode C) (ext_transmit_time_failure t))) (\<lambda>failure.
     and_then (transpose_option (map_option (application_decode C) (ext_application t))) (\<lambda>application.
     Inr \<lparr>ex_epoch_index = epoch_index, ex_satellite_id = ext_satellite_id t,
          ex_ambiguity_id = ext_ambiguity_id t, ex_code_bias_missing = ext_code_bias_missing t,
          ex_phase_bias_missing = ext_phase_bias_missing t, ex_transmit_time_failure = failure,
          ex_application = application\<rparr>)))"

definition exclusion_named :: "('sat, 'sys, 'code, 'tok, 'err) SsrBiasExclusion \<Rightarrow> bool" where
  "exclusion_named e \<longleftrightarrow>
     pred_option failure_named (ex_transmit_time_failure e) \<and>
     pred_option application_named (ex_application e)"

interpretation exclusion: faithful_codec "ssr_laws C" exclusion_named "exclusion_term C" "exclusion_decode C" for C
  by unfold_locales
    (simp_all add: exclusion_named_def exclusion_term_def exclusion_decode_def usize_from_def codec_simps)

definition encode_ssr_bias_exclusions ::
  "('sat, 'sys, 'code, 'tok, 'err) ssr_core \<Rightarrow> ('sat, 'sys, 'code, 'tok, 'err) SsrBiasExclusion list \<Rightarrow> ('tok, 'err) SsrBiasExclusionTerm list" where
  "encode_ssr_bias_exclusions C exclusions = map (exclusion_term C) exclusions"

definition decode_ssr_bias_exclusions ::
  "('sat, 'sys, 'code, 'tok, 'err) ssr_core \<Rightarrow> ('tok, 'err) SsrBiasExclusionTerm list \<Rightarrow>
   string + ('sat, 'sys, 'code, 'tok, 'err) SsrBiasExclusion list" where
  "decode_ssr_bias_exclusions C terms = collect_results (map (exclusion_decode C) terms)"

end
