(* ===== verification/SsrBias_Props.thy ===== *)
theory SsrBias_Props
  imports SsrBias
begin

text \<open>
  Properties of the exclusion codec: what it carries comes back unchanged, what it does not carry is
  refused, and tokens and errors come back from their handles only.
\<close>

section \<open>Handles inside a term\<close>

definition exclusion_tokens :: "('sat, 'sys, 'code, 'tok, 'err) SsrBiasExclusion \<Rightarrow> 'tok set" where
  "exclusion_tokens e =
     (\<Union>a \<in> set_option (ex_application e).
      \<Union>r \<in> set_option (ar_phase1_report a) \<union> set_option (ar_phase2_report a).
      set_option (pq_continuity_token (sr_query_result r)))"

definition exclusion_token_terms ::
  "('tok, 'err) SsrBiasExclusionTerm \<Rightarrow> 'tok PhaseContinuityTokenTerm set" where
  "exclusion_token_terms t =
     (\<Union>a \<in> set_option (ext_application t).
      \<Union>r \<in> set_option (art_phase1_report a) \<union> set_option (art_phase2_report a).
      set_option (pqt_continuity_token (srt_query_result r)))"

definition exclusion_errors :: "('sat, 'sys, 'code, 'tok, 'err) SsrBiasExclusion \<Rightarrow> 'err set" where
  "exclusion_errors e =
     {error. \<exists>time. ex_transmit_time_failure e = Some (SsrTransmitTimeFailure.Source time error)}"

definition exclusion_error_terms :: "('tok, 'err) SsrBiasExclusionTerm \<Rightarrow> 'err SourceErrorTerm set" where
  "exclusion_error_terms t =
     {error. \<exists>time. ext_transmit_time_failure t = Some (TransmitTimeFailureTerm.Source time error)}"

lemma transpose_map_Inr:
  "transpose_option (map_option d x) = Inr y \<longleftrightarrow>
     (x = None \<and> y = None) \<or> (\<exists>a b. x = Some a \<and> d a = Inr b \<and> y = Some b)"
  by (cases x) (auto simp: map_ok_def and_then_eq_Inr)

lemma phase_query_token:
  assumes "phase_query_decode C t = Inr q"
  shows "set_option (pqt_continuity_token t) = token_term C ` set_option (pq_continuity_token q)"
proof -
  from assms have "transpose_option (map_option (token_decode C) (pqt_continuity_token t)) =
      Inr (pq_continuity_token q)"
    by (auto simp: phase_query_decode_def and_then_eq_Inr)
  then show ?thesis by (auto simp: transpose_map_Inr dest: token_strict)
qed

lemma phase_report_token:
  assumes "phase_report_decode C t = Inr r"
  shows "set_option (pqt_continuity_token (srt_query_result t)) =
    token_term C ` set_option (pq_continuity_token (sr_query_result r))"
proof -
  from assms have "phase_query_decode C (srt_query_result t) = Inr (sr_query_result r)"
    by (auto simp: phase_report_decode_def and_then_eq_Inr)
  then show ?thesis by (rule phase_query_token)
qed

lemma phase_report_option_tokens:
  assumes "transpose_option (map_option (phase_report_decode C) x) = Inr y"
  shows "(\<Union>r \<in> set_option x. set_option (pqt_continuity_token (srt_query_result r))) =
    token_term C ` (\<Union>r \<in> set_option y. set_option (pq_continuity_token (sr_query_result r)))"
  using assms by (auto simp: transpose_map_Inr dest!: phase_report_token)

lemma application_tokens:
  assumes "application_decode C t = Inr a"
  shows "(\<Union>r \<in> set_option (art_phase1_report t) \<union> set_option (art_phase2_report t).
      set_option (pqt_continuity_token (srt_query_result r))) =
    token_term C ` (\<Union>r \<in> set_option (ar_phase1_report a) \<union> set_option (ar_phase2_report a).
      set_option (pq_continuity_token (sr_query_result r)))"
proof -
  from assms have
    "transpose_option (map_option (phase_report_decode C) (art_phase1_report t)) = Inr (ar_phase1_report a)"
    "transpose_option (map_option (phase_report_decode C) (art_phase2_report t)) = Inr (ar_phase2_report a)"
    by (auto simp: application_decode_def and_then_eq_Inr)
  from this [THEN phase_report_option_tokens] show ?thesis by (simp add: UN_Un image_Un)
qed

lemma exclusion_token_handles:
  assumes "exclusion_decode C t = Inr e"
  shows "exclusion_token_terms t = token_term C ` exclusion_tokens e"
proof -
  from assms have "transpose_option (map_option (application_decode C) (ext_application t)) =
      Inr (ex_application e)"
    by (auto simp: exclusion_decode_def and_then_eq_Inr)
  then consider "ext_application t = None" "ex_application e = None"
    | ta a where "ext_application t = Some ta" "ex_application e = Some a" "application_decode C ta = Inr a"
    by (auto simp: transpose_map_Inr)
  then show ?thesis
  proof cases
    case 2
    then show ?thesis
      using application_tokens [OF 2(3)] by (simp add: exclusion_token_terms_def exclusion_tokens_def)
  qed (simp add: exclusion_token_terms_def exclusion_tokens_def)
qed

lemma failure_decode_source:
  "failure_decode C t = Inr (SsrTransmitTimeFailure.Source time error) \<longleftrightarrow>
   t = TransmitTimeFailureTerm.Source time (source_error_term C error)"
proof
  assume "failure_decode C t = Inr (SsrTransmitTimeFailure.Source time error)"
  then show "t = TransmitTimeFailureTerm.Source time (source_error_term C error)"
    by (cases t) (auto simp: map_ok_def and_then_eq_Inr dest: source_error_strict)
qed (simp add: source_error_decode_term)

lemma failure_decode_not_source:
  "failure_decode C (TransmitTimeFailureTerm.Source time te) = Inr f \<Longrightarrow>
   \<exists>error. f = SsrTransmitTimeFailure.Source time error \<and> te = source_error_term C error"
  by (auto simp: map_ok_def and_then_eq_Inr dest: source_error_strict)

lemma exclusion_error_handles:
  assumes "exclusion_decode C t = Inr e"
  shows "exclusion_error_terms t = source_error_term C ` exclusion_errors e"
proof -
  from assms have *: "transpose_option (map_option (failure_decode C) (ext_transmit_time_failure t)) =
      Inr (ex_transmit_time_failure e)"
    by (auto simp: exclusion_decode_def and_then_eq_Inr)
  then consider "ext_transmit_time_failure t = None" "ex_transmit_time_failure e = None"
    | tf f where "ext_transmit_time_failure t = Some tf" "ex_transmit_time_failure e = Some f"
        "failure_decode C tf = Inr f"
    by (auto simp: transpose_map_Inr)
  then show ?thesis
  proof cases
    case 2
    then show ?thesis
      by (auto simp: exclusion_error_terms_def exclusion_errors_def failure_decode_source image_iff
          dest: failure_decode_not_source simp del: failure_decode.simps)
  qed (simp add: exclusion_error_terms_def exclusion_errors_def)
qed

section \<open>A concrete core\<close>

text \<open>Satellites, systems and signal codes are their own text; a token is its generation number and
  an error its text.\<close>

definition demo_ssr :: "(string, char, string, u32, string) ssr_core" where
  "demo_ssr =
     \<lparr>sat_to_string = id, sat_parse = Some, system_letter = id, system_from_letter = Some,
      code_to_string = id, code_parse = Some,
      tok_satellite = (\<lambda>_. ''G07''),
      tok_signal = (\<lambda>_. SsrSignalKey.Physical \<lparr>sig_system = CHR ''G'', sig_code = ''1C''\<rparr>),
      tok_source = (\<lambda>_. SsrSource.RtcmSsr), tok_provider_id = (\<lambda>_. 7), tok_solution_id = (\<lambda>_. 2),
      tok_continuity_ref_epoch_j2000_s = (\<lambda>_. 0), tok_raw_indicator = (\<lambda>_. 1), tok_generation = id,
      error_to_string = id, debug_string = id\<rparr>"

lemma demo_ssr_laws: "ssr_laws demo_ssr"
  by (simp add: ssr_laws_def demo_ssr_def)

definition demo_exclusion :: "(string, char, string, u32, string) SsrBiasExclusion" where
  "demo_exclusion =
     \<lparr>ex_epoch_index = 3, ex_satellite_id = ''G07'', ex_ambiguity_id = ''G07#1'',
      ex_code_bias_missing = True, ex_phase_bias_missing = False,
      ex_transmit_time_failure = Some (SsrTransmitTimeFailure.Source 5 ''no ephemeris''),
      ex_application = None\<rparr>"

definition demo_unnamed :: "(string, char, string, u32, string) SsrBiasExclusion" where
  "demo_unnamed = demo_exclusion\<lparr>ex_transmit_time_failure := Some (SsrTransmitTimeFailure.Unnamed 0)\<rparr>"

section \<open>Properties\<close>

text \<open>
  C37. A list of exclusions goes out and comes back unchanged exactly when every value in it is one
  the binding names, at whatever depth; otherwise the whole list is refused on the way back.
\<close>

theorem exclusions_return_or_are_refused:
  assumes "ssr_laws C"
  shows "(list_all exclusion_named xs \<longrightarrow>
      decode_ssr_bias_exclusions C (encode_ssr_bias_exclusions C xs) = Inr xs) \<and>
    (\<not> list_all exclusion_named xs \<longrightarrow>
      isl (decode_ssr_bias_exclusions C (encode_ssr_bias_exclusions C xs)))"
  using exclusion.dec_enc_list [OF assms, of xs] exclusion.dec_enc_list_refused [OF assms, of xs]
  by (simp add: decode_ssr_bias_exclusions_def encode_ssr_bias_exclusions_def)

theorem exclusions_return_or_are_refused_witness:
  "decode_ssr_bias_exclusions demo_ssr (encode_ssr_bias_exclusions demo_ssr [demo_exclusion]) =
     Inr [demo_exclusion] \<and>
   isl (decode_ssr_bias_exclusions demo_ssr (encode_ssr_bias_exclusions demo_ssr [demo_exclusion, demo_unnamed]))"
  using exclusions_return_or_are_refused [OF demo_ssr_laws, of "[demo_exclusion]"]
    exclusions_return_or_are_refused [OF demo_ssr_laws, of "[demo_exclusion, demo_unnamed]"]
  by (simp add: exclusion_named_def failure_named_def demo_exclusion_def demo_unnamed_def)

text \<open>
  The boundary form is lossless: two carried exclusions with the same term are the same
  exclusion, so every field of the core record is in the term.
\<close>

theorem exclusion_terms_lossless:
  assumes "ssr_laws C" "exclusion_named a" "exclusion_named b" "exclusion_term C a = exclusion_term C b"
  shows "a = b"
  using assms by (rule exclusion.enc_inj)

theorem exclusion_terms_lossless_witness:
  "exclusion_term demo_ssr demo_exclusion \<noteq>
   exclusion_term demo_ssr (demo_exclusion\<lparr>ex_ambiguity_id := ''G07#2''\<rparr>)"
  using exclusion_terms_lossless [OF demo_ssr_laws, of demo_exclusion
      "demo_exclusion\<lparr>ex_ambiguity_id := ''G07#2''\<rparr>"]
  by (auto simp: exclusion_named_def failure_named_def demo_exclusion_def)

text \<open>
  C38. No token and no source error is forged or altered: in a term that is accepted, every
  continuity token term and every source error term is exactly the term of the core value its handle
  holds, and those values are the ones in the decoded exclusion.
\<close>

theorem decoded_handles_are_genuine:
  assumes "exclusion_decode C t = Inr e"
  shows "exclusion_token_terms t = token_term C ` exclusion_tokens e \<and>
    exclusion_error_terms t = source_error_term C ` exclusion_errors e"
  using exclusion_token_handles [OF assms] exclusion_error_handles [OF assms] by blast

theorem decoded_handles_are_genuine_witness:
  "exclusion_error_terms (exclusion_term demo_ssr demo_exclusion) =
     {\<lparr>et_message = ''no ephemeris'', et_handle = ''no ephemeris''\<rparr>}"
proof -
  have "exclusion_decode demo_ssr (exclusion_term demo_ssr demo_exclusion) = Inr demo_exclusion"
    using exclusion.carried_returns [OF demo_ssr_laws]
    by (simp add: exclusion_named_def failure_named_def demo_exclusion_def)
  from decoded_handles_are_genuine [OF this] show ?thesis
    by (simp add: exclusion_errors_def demo_exclusion_def source_error_term_def demo_ssr_def)
qed

text \<open>
  A token or an error is accepted exactly when its readable fields are untouched: decoding gives
  back a core value just for the term that value itself produces.
\<close>

theorem edited_views_are_refused:
  "(token_decode C t = Inr token \<longleftrightarrow> t = token_term C token) \<and>
   (source_error_decode C te = Inr error \<longleftrightarrow> te = source_error_term C error)"
  by (auto simp: token.dec_Inr_iff [OF TrueI] source_error.dec_Inr_iff [OF TrueI])

text \<open>
  A term with an unrecognized status, combination status, lifetime or discontinuity detail is
  refused, and every other such term is accepted and re-encodes to itself.
\<close>

theorem enum_terms_strict:
  "(\<exists>m. status_decode SsrBiasStatusTerm.Unrecognized = Inl m) \<and>
   (\<exists>m. if_status_decode SsrIfCombinationStatusTerm.Unrecognized = Inl m) \<and>
   (\<exists>m. lifetime_decode SsrLifetimeTerm.Unrecognized = Inl m) \<and>
   (\<exists>m. discontinuity_decode SsrDiscontinuityDetailsTerm.Unrecognized = Inl m) \<and>
   (s = SsrBiasStatusTerm.Unrecognized \<or> (\<exists>v. status_decode s = Inr v \<and> status_term v = s)) \<and>
   (c = SsrIfCombinationStatusTerm.Unrecognized \<or> (\<exists>v. if_status_decode c = Inr v \<and> if_status_term v = c)) \<and>
   (l = SsrLifetimeTerm.Unrecognized \<or> (\<exists>v. lifetime_decode l = Inr v \<and> lifetime_term v = l)) \<and>
   (d = SsrDiscontinuityDetailsTerm.Unrecognized \<or>
      (\<exists>v. discontinuity_decode d = Inr v \<and> discontinuity_term v = d))"
proof (intro conjI)
  show "s = SsrBiasStatusTerm.Unrecognized \<or> (\<exists>v. status_decode s = Inr v \<and> status_term v = s)"
    by (cases s) simp_all
  show "c = SsrIfCombinationStatusTerm.Unrecognized \<or> (\<exists>v. if_status_decode c = Inr v \<and> if_status_term v = c)"
    by (cases c) simp_all
  show "l = SsrLifetimeTerm.Unrecognized \<or> (\<exists>v. lifetime_decode l = Inr v \<and> lifetime_term v = l)"
    by (cases l) simp_all
  show "d = SsrDiscontinuityDetailsTerm.Unrecognized \<or>
      (\<exists>v. discontinuity_decode d = Inr v \<and> discontinuity_term v = d)"
    by (cases d) simp_all
qed simp_all

end
