(* ===== verification/BTree.thy ===== *)
theory BTree
  imports Prelude
begin

text \<open>
  \<open>BTreeMap\<close> and \<open>BTreeSet\<close>: association lists with strictly increasing keys, so that iteration
  order is list order and equal maps are equal lists. \<open>ordered_map\<close> is the contract the clients
  use; the lemmas about collecting an iterator are proved from it once.
\<close>

type_synonym ('k, 'v) btree = "('k \<times> 'v) list"

fun bt_insert :: "'k::linorder \<Rightarrow> 'v \<Rightarrow> ('k, 'v) btree \<Rightarrow> ('k, 'v) btree" where
  "bt_insert k v [] = [(k, v)]"
| "bt_insert k v ((k', v') # m) =
     (if k < k' then (k, v) # (k', v') # m
      else if k = k' then (k, v) # m
      else (k', v') # bt_insert k v m)"

definition bt_get :: "('k, 'v) btree \<Rightarrow> 'k \<Rightarrow> 'v option" where
  "bt_get m k = map_of m k"

definition bt_ok :: "('k::linorder, 'v) btree \<Rightarrow> bool" where
  "bt_ok m \<longleftrightarrow> sorted_wrt (<) (map fst m)"

text \<open>\<open>iter().collect()\<close> into a map: later entries replace earlier ones of the same key.\<close>

definition bt_collect :: "('k::linorder \<times> 'v) list \<Rightarrow> ('k, 'v) btree" where
  "bt_collect xs = foldl (\<lambda>m (k, v). bt_insert k v m) [] xs"

definition bt_keys :: "('k, 'v) btree \<Rightarrow> 'k list" where
  "bt_keys m = map fst m"

definition bt_set :: "'k::linorder list \<Rightarrow> 'k list" where
  "bt_set ks = bt_keys (bt_collect (map (\<lambda>k. (k, ())) ks))"

locale ordered_map =
  fixes empty :: 'm
    and insert :: "'k::linorder \<Rightarrow> 'v \<Rightarrow> 'm \<Rightarrow> 'm"
    and get :: "'m \<Rightarrow> 'k \<Rightarrow> 'v option"
    and entries :: "'m \<Rightarrow> ('k \<times> 'v) list"
    and inv :: "'m \<Rightarrow> bool"
  assumes inv_empty: "inv empty"
    and inv_insert: "inv m \<Longrightarrow> inv (insert k v m)"
    and get_empty: "get empty k = None"
    and get_insert: "inv m \<Longrightarrow> get (insert k v m) k' = (if k' = k then Some v else get m k')"
    and entries_sorted: "inv m \<Longrightarrow> sorted_wrt (<) (map fst (entries m))"
    and entries_get: "inv m \<Longrightarrow> (k, v) \<in> set (entries m) \<longleftrightarrow> get m k = Some v"
begin

lemma inv_foldl: "inv m \<Longrightarrow> inv (foldl (\<lambda>m (k, v). insert k v m) m xs)"
  by (induction xs arbitrary: m) (auto simp: inv_insert)

lemma inv_collect: "inv (foldl (\<lambda>m (k, v). insert k v m) empty xs)"
  by (simp add: inv_foldl inv_empty)

lemma get_foldl:
  "inv m \<Longrightarrow> get (foldl (\<lambda>m (k, v). insert k v m) m xs) k =
     (case map_of (rev xs) k of Some v \<Rightarrow> Some v | None \<Rightarrow> get m k)"
proof (induction xs arbitrary: m)
  case (Cons x xs)
  obtain k' v where "x = (k', v)" by (cases x)
  with Cons show ?case
    by (auto simp: inv_insert get_insert map_add_def split: option.splits)
qed simp

lemma get_collect: "get (foldl (\<lambda>m (k, v). insert k v m) empty xs) k = map_of (rev xs) k"
  by (simp add: get_foldl inv_empty get_empty split: option.split)

lemma collect_keys: "fst ` set (entries (foldl (\<lambda>m (k, v). insert k v m) empty xs)) = fst ` set xs"
proof -
  let ?m = "foldl (\<lambda>m (k, v). insert k v m) empty xs"
  have "k \<in> fst ` set (entries ?m) \<longleftrightarrow> get ?m k \<noteq> None" for k
    using entries_get [OF inv_collect] by (force simp: image_iff)
  then show ?thesis
    by (auto simp: get_collect map_of_eq_None_iff simp del: not_None_eq)
qed

lemma collect_entries_from:
  "(k, v) \<in> set (entries (foldl (\<lambda>m (k, v). insert k v m) empty xs)) \<Longrightarrow> (k, v) \<in> set xs"
  using entries_get [OF inv_collect] by (metis get_collect map_of_SomeD set_rev)

end

lemma bt_insert_keys: "fst ` set (bt_insert k v m) = insert k (fst ` set m)"
  by (induction k v m rule: bt_insert.induct) auto

lemma bt_insert_ok: "bt_ok m \<Longrightarrow> bt_ok (bt_insert k v m)"
proof (induction k v m rule: bt_insert.induct)
  case (2 k v k' v' m)
  have keys: "set (map fst (bt_insert k v m)) = insert k (set (map fst m))" by (simp add: bt_insert_keys)
  consider "k < k'" | "k = k'" | "k' < k" by (rule linorder_cases)
  then show ?case
  proof cases
    case 3
    with 2 keys show ?thesis by (auto simp: bt_ok_def simp del: set_map)
  qed (use "2.prems" in \<open>auto simp: bt_ok_def dest: less_trans\<close>)
qed (simp add: bt_ok_def)

lemma bt_get_insert: "bt_get (bt_insert k v m) k' = (if k' = k then Some v else bt_get m k')"
  by (induction k v m rule: bt_insert.induct) (auto simp: bt_get_def)

lemma bt_ok_distinct: "bt_ok m \<Longrightarrow> distinct (map fst m)"
  by (simp add: bt_ok_def strict_sorted_iff)

lemma bt_entries_get: "bt_ok m \<Longrightarrow> (k, v) \<in> set m \<longleftrightarrow> bt_get m k = Some v"
  by (metis bt_get_def bt_ok_distinct map_of_eq_Some_iff)

interpretation bt: ordered_map "[]" bt_insert bt_get "\<lambda>m. m" bt_ok
proof
  show "sorted_wrt (<) (map fst m)" if "bt_ok m" for m :: "('a \<times> 'b) list"
    using that by (simp add: bt_ok_def)
qed (simp_all add: bt_insert_ok bt_get_insert bt_entries_get, simp_all add: bt_ok_def bt_get_def)

lemmas bt_collected =
  bt.inv_collect [folded bt_collect_def] bt.get_collect [folded bt_collect_def]
  bt.collect_keys [folded bt_collect_def] bt.collect_entries_from [folded bt_collect_def]

lemma bt_set_sorted: "sorted_wrt (<) (bt_set ks)"
  using bt_collected(1) by (simp add: bt_set_def bt_keys_def bt_ok_def)

lemma set_bt_set [simp]: "set (bt_set ks) = set ks"
  using bt_collected(3) [of "map (\<lambda>k. (k, ())) ks"] by (simp add: bt_set_def bt_keys_def image_image)

text \<open>Collecting the entries of a map gives the map back.\<close>

lemma bt_insert_last:
  "bt_ok (m @ [(k, v)]) \<Longrightarrow> bt_insert k v m = m @ [(k, v)]"
  by (induction k v m rule: bt_insert.induct) (auto simp: bt_ok_def)

lemma bt_collect_entries: "bt_ok m \<Longrightarrow> bt_collect m = m"
proof (induction m rule: rev_induct)
  case (snoc x m)
  obtain k v where x: "x = (k, v)" by (cases x)
  have "bt_ok m" using snoc.prems by (simp add: bt_ok_def sorted_wrt_append)
  with snoc have "bt_collect m = m" by simp
  then have "bt_collect (m @ [x]) = bt_insert k v m" by (simp add: bt_collect_def x)
  also have "\<dots> = m @ [x]" using bt_insert_last [of m k v] snoc.prems x by simp
  finally show ?case .
qed (simp add: bt_collect_def)

lemma bt_filter_ok: "bt_ok m \<Longrightarrow> bt_ok (filter P m)"
  unfolding bt_ok_def by (induction m) auto

end
