(* ===== verification/RtkStatic.thy ===== *)
theory RtkStatic
  imports BTree Text "HOL-Library.Product_Lexorder"
begin

text \<open>
  Static RTK arc preparation of \<open>native/sidereon_nif/src/rtk_filter.rs\<close>: decoding arc epochs, the
  preprocessing pipeline, the ambiguities a static arc has and the scale expanded over them.

  The core's cycle-slip preparation, Hatch smoothing, elevation mask and reference selection are the
  fields of \<open>rtk_core\<close>. Prediction epochs and the core's error values stay opaque.
\<close>

unbundle bit_operations_syntax

section \<open>Arc data\<close>

type_synonym vec3 = "f64 \<times> f64 \<times> f64"

record RtkArcObservation =
  ob_satellite_id :: string
  ob_ambiguity_id :: string
  ob_code_m :: f64
  ob_phase_m :: f64
  ob_lli :: "i64 option"

record 'pe RtkArcEpoch =
  ep_base :: "RtkArcObservation list"
  ep_rover :: "RtkArcObservation list"
  ep_satellite_positions_m :: "(string, vec3) btree"
  ep_base_satellite_positions_m :: "(string, vec3) btree"
  ep_rover_satellite_positions_m :: "(string, vec3) btree"
  ep_velocity_mps :: "vec3 option"
  ep_prediction_time_s :: "f64 option"
  ep_prediction_epoch :: "'pe option"

datatype CycleSlipPolicy = ErrorPolicy | DropSatellite | SplitArc

record RtkArcPreprocessing =
  pre_cycle_slip :: "CycleSlipPolicy option"
  pre_hatch_window_cap :: "u64 option"
  pre_elevation_mask_deg :: "f64 option"

datatype BaselineReferenceSelection = Auto | Satellite string | PerSystem "(string, string) btree"

text \<open>The argument terms; a decoded observation has the fields of its term.\<close>

record 'pe RtkArcEpochTerm =
  ept_base :: "RtkArcObservation list"
  ept_rover :: "RtkArcObservation list"
  ept_satellite_positions_m :: "(string \<times> vec3) list"
  ept_base_satellite_positions_m :: "(string \<times> vec3) list"
  ept_rover_satellite_positions_m :: "(string \<times> vec3) list"
  ept_velocity_mps :: "vec3 option"
  ept_prediction_time_s :: "f64 option"
  ept_prediction_epoch :: "'pe option"

record RtkArcPreprocessingTerm =
  pret_cycle_slip :: "string option"
  pret_hatch_window_cap :: "u64 option"
  pret_elevation_mask_deg :: "f64 option"

record RtkArcReferenceTerm =
  reft_mode :: string
  reft_satellite :: "string option"
  reft_per_system :: "(string \<times> string) list"

definition decode_position_map :: "(string \<times> vec3) list \<Rightarrow> (string, vec3) btree" where
  "decode_position_map entries = bt_collect entries"

definition encode_position_map :: "(string, vec3) btree \<Rightarrow> (string \<times> vec3) list" where
  "encode_position_map positions = positions"

definition decode_arc_epoch :: "'pe RtkArcEpochTerm \<Rightarrow> 'pe RtkArcEpoch" where
  "decode_arc_epoch t =
     \<lparr>ep_base = ept_base t, ep_rover = ept_rover t,
      ep_satellite_positions_m = decode_position_map (ept_satellite_positions_m t),
      ep_base_satellite_positions_m = decode_position_map (ept_base_satellite_positions_m t),
      ep_rover_satellite_positions_m = decode_position_map (ept_rover_satellite_positions_m t),
      ep_velocity_mps = ept_velocity_mps t, ep_prediction_time_s = ept_prediction_time_s t,
      ep_prediction_epoch = ept_prediction_epoch t\<rparr>"

definition decode_cycle_slip_policy :: "string \<Rightarrow> CycleSlipPolicy option" where
  "decode_cycle_slip_policy policy =
     (if policy = ''error'' then Some ErrorPolicy
      else if policy = ''drop_satellite'' then Some DropSatellite
      else if policy = ''split_arc'' then Some SplitArc
      else None)"

definition decode_arc_preprocessing :: "RtkArcPreprocessingTerm \<Rightarrow> RtkArcPreprocessing option" where
  "decode_arc_preprocessing t =
     (case (case pret_cycle_slip t of
              None \<Rightarrow> Some None
            | Some policy \<Rightarrow> map_option Some (decode_cycle_slip_policy policy)) of
        None \<Rightarrow> None
      | Some cycle_slip \<Rightarrow>
          Some \<lparr>pre_cycle_slip = cycle_slip, pre_hatch_window_cap = pret_hatch_window_cap t,
                pre_elevation_mask_deg = pret_elevation_mask_deg t\<rparr>)"

definition decode_arc_reference :: "RtkArcReferenceTerm \<Rightarrow> BaselineReferenceSelection option" where
  "decode_arc_reference t =
     (if reft_mode t = ''auto'' then Some Auto
      else if reft_mode t = ''satellite'' then map_option Satellite (reft_satellite t)
      else if reft_mode t = ''per_system'' then Some (PerSystem (bt_collect (reft_per_system t)))
      else None)"

section \<open>The core\<close>

datatype 'e RtkArcError =
    EmptyEpochs
  | TooFewSatellites nat nat
  | ReferenceError 'e
  | CycleSlipPrep 'e
  | CodeSmoothing 'e
  | ElevationMask 'e
  | OtherArcError 'e

record CodeSmoothingObservation =
  cs_satellite_id :: string
  cs_ambiguity_id :: string
  cs_code_m :: f64
  cs_phase_m :: f64
  cs_lli :: "i64 option"

record CodeSmoothingEpoch =
  cse_base_observations :: "CodeSmoothingObservation list"
  cse_rover_observations :: "CodeSmoothingObservation list"

record BaselineReferenceEpoch =
  bre_available_satellite_ids :: "string list"
  bre_satellite_positions_m :: "(string, vec3) btree"

record ('sa, 'e) rtk_core =
  prepare_cycle_slip :: "CodeSmoothingEpoch list \<Rightarrow> CycleSlipPolicy \<Rightarrow> 'e + CodeSmoothingEpoch list \<times> string list \<times> 'sa list"
  hatch_smooth :: "CodeSmoothingEpoch list \<Rightarrow> u64 \<Rightarrow> 'e + CodeSmoothingEpoch list"
  apply_elevation_mask :: "vec3 \<Rightarrow> (string, vec3) btree list \<Rightarrow> f64 \<Rightarrow> 'e + string list list \<times> string list"
  baseline_reference_satellites ::
    "vec3 \<Rightarrow> BaselineReferenceEpoch list \<Rightarrow> BaselineReferenceSelection \<Rightarrow> 'e + (string, string) btree"

section \<open>Preprocessing\<close>

definition to_binding_code_smoothing_obs :: "RtkArcObservation \<Rightarrow> CodeSmoothingObservation" where
  "to_binding_code_smoothing_obs obs =
     \<lparr>cs_satellite_id = ob_satellite_id obs, cs_ambiguity_id = ob_ambiguity_id obs,
      cs_code_m = ob_code_m obs, cs_phase_m = ob_phase_m obs, cs_lli = ob_lli obs\<rparr>"

definition from_binding_code_smoothing_obs :: "CodeSmoothingObservation \<Rightarrow> RtkArcObservation" where
  "from_binding_code_smoothing_obs obs =
     \<lparr>ob_satellite_id = cs_satellite_id obs, ob_ambiguity_id = cs_ambiguity_id obs,
      ob_code_m = cs_code_m obs, ob_phase_m = cs_phase_m obs, ob_lli = cs_lli obs\<rparr>"

definition to_binding_code_smoothing_epoch :: "'pe RtkArcEpoch \<Rightarrow> CodeSmoothingEpoch" where
  "to_binding_code_smoothing_epoch epoch =
     \<lparr>cse_base_observations = map to_binding_code_smoothing_obs (ep_base epoch),
      cse_rover_observations = map to_binding_code_smoothing_obs (ep_rover epoch)\<rparr>"

definition apply_binding_prepared_observations ::
  "'pe RtkArcEpoch list \<Rightarrow> CodeSmoothingEpoch list \<Rightarrow> 'pe RtkArcEpoch list" where
  "apply_binding_prepared_observations original prepared =
     map (\<lambda>(orig, prep).
       \<lparr>ep_base = map from_binding_code_smoothing_obs (cse_base_observations prep),
        ep_rover = map from_binding_code_smoothing_obs (cse_rover_observations prep),
        ep_satellite_positions_m = ep_satellite_positions_m orig,
        ep_base_satellite_positions_m = ep_base_satellite_positions_m orig,
        ep_rover_satellite_positions_m = ep_rover_satellite_positions_m orig,
        ep_velocity_mps = ep_velocity_mps orig,
        ep_prediction_time_s = ep_prediction_time_s orig,
        ep_prediction_epoch = ep_prediction_epoch orig\<rparr>) (zip original prepared)"

definition thin_binding_epoch_to_kept :: "'pe RtkArcEpoch \<Rightarrow> string list \<Rightarrow> 'pe RtkArcEpoch" where
  "thin_binding_epoch_to_kept epoch kept =
     (let keep = bt_set kept;
          filter_obs = filter (\<lambda>o'. ob_satellite_id o' \<in> set keep);
          filter_positions = (\<lambda>m. bt_collect (filter (\<lambda>(sat, _). sat \<in> set keep) m)) in
      \<lparr>ep_base = filter_obs (ep_base epoch),
       ep_rover = filter_obs (ep_rover epoch),
       ep_satellite_positions_m = filter_positions (ep_satellite_positions_m epoch),
       ep_base_satellite_positions_m = filter_positions (ep_base_satellite_positions_m epoch),
       ep_rover_satellite_positions_m = filter_positions (ep_rover_satellite_positions_m epoch),
       ep_velocity_mps = ep_velocity_mps epoch,
       ep_prediction_time_s = ep_prediction_time_s epoch,
       ep_prediction_epoch = ep_prediction_epoch epoch\<rparr>)"

text \<open>The three stages run in this order, each on the previous one's epochs.\<close>

definition cycle_slip_stage ::
  "('sa, 'e) rtk_core \<Rightarrow> RtkArcPreprocessing \<Rightarrow> 'pe RtkArcEpoch list \<Rightarrow>
   'e RtkArcError + 'pe RtkArcEpoch list \<times> string list \<times> 'sa list" where
  "cycle_slip_stage K pre work =
     (case pre_cycle_slip pre of
        None \<Rightarrow> Inr (work, [], [])
      | Some policy \<Rightarrow>
          map_ok (\<lambda>(epochs, dropped, split). (apply_binding_prepared_observations work epochs, dropped, split))
            (map_err CycleSlipPrep
              (prepare_cycle_slip K (map to_binding_code_smoothing_epoch work) policy)))"

definition hatch_stage ::
  "('sa, 'e) rtk_core \<Rightarrow> RtkArcPreprocessing \<Rightarrow> 'pe RtkArcEpoch list \<Rightarrow> 'e RtkArcError + 'pe RtkArcEpoch list" where
  "hatch_stage K pre work =
     (case pre_hatch_window_cap pre of
        None \<Rightarrow> Inr work
      | Some window_cap \<Rightarrow>
          map_ok (apply_binding_prepared_observations work)
            (map_err CodeSmoothing (hatch_smooth K (map to_binding_code_smoothing_epoch work) window_cap)))"

definition elevation_stage ::
  "('sa, 'e) rtk_core \<Rightarrow> vec3 \<Rightarrow> RtkArcPreprocessing \<Rightarrow> 'pe RtkArcEpoch list \<Rightarrow>
   'e RtkArcError + 'pe RtkArcEpoch list \<times> string list" where
  "elevation_stage K base_m pre work =
     (case pre_elevation_mask_deg pre of
        None \<Rightarrow> Inr (work, [])
      | Some mask_deg \<Rightarrow>
          map_ok (\<lambda>(kept, masked).
              (map (\<lambda>(epoch, ids). thin_binding_epoch_to_kept epoch ids) (zip work kept), masked))
            (map_err ElevationMask (apply_elevation_mask K base_m (map ep_satellite_positions_m work) mask_deg)))"

definition preprocess_arc_epochs_for_binding ::
  "('sa, 'e) rtk_core \<Rightarrow> 'pe RtkArcEpoch list \<Rightarrow> vec3 \<Rightarrow> RtkArcPreprocessing \<Rightarrow>
   'e RtkArcError + 'pe RtkArcEpoch list \<times> string list \<times> 'sa list \<times> string list" where
  "preprocess_arc_epochs_for_binding K epochs base_m pre =
     and_then (cycle_slip_stage K pre epochs) (\<lambda>(work, dropped_sats, split_arcs).
     and_then (hatch_stage K pre work) (\<lambda>work.
     and_then (elevation_stage K base_m pre work) (\<lambda>(work, masked_sats).
     Inr (work, dropped_sats, split_arcs, masked_sats))))"

section \<open>Static ambiguities\<close>

record StaticNormalizedEpoch =
  ne_paired :: "(string, RtkArcObservation \<times> RtkArcObservation) btree"
  ne_shared_positions :: "(string, vec3) btree"
  ne_available :: "string list"

definition contains_key :: "('k, 'v) btree \<Rightarrow> 'k \<Rightarrow> bool" where
  "contains_key m k \<longleftrightarrow> bt_get m k \<noteq> None"

fun pair_observations ::
  "(string, RtkArcObservation) btree \<Rightarrow> (string \<Rightarrow> bool) \<Rightarrow> (string, RtkArcObservation) btree \<Rightarrow>
   (string, RtkArcObservation \<times> RtkArcObservation) btree \<times> string list \<Rightarrow>
   (string, RtkArcObservation \<times> RtkArcObservation) btree \<times> string list" where
  "pair_observations rover_by_sat positioned [] acc = acc"
| "pair_observations rover_by_sat positioned ((sat, base_obs) # rest) (paired, available) =
     pair_observations rover_by_sat positioned rest
       (case bt_get rover_by_sat sat of
          None \<Rightarrow> (paired, available)
        | Some rover_obs \<Rightarrow>
            if positioned sat
            then (bt_insert sat (base_obs, rover_obs) paired, available @ [sat])
            else (paired, available))"

definition static_normalize_epoch :: "'pe RtkArcEpoch \<Rightarrow> StaticNormalizedEpoch" where
  "static_normalize_epoch epoch =
     (let base_positions =
            (if ep_base_satellite_positions_m epoch = [] then ep_satellite_positions_m epoch
             else ep_base_satellite_positions_m epoch);
          rover_positions =
            (if ep_rover_satellite_positions_m epoch = [] then ep_satellite_positions_m epoch
             else ep_rover_satellite_positions_m epoch);
          base_by_sat = bt_collect (map (\<lambda>obs. (ob_satellite_id obs, obs)) (ep_base epoch));
          rover_by_sat = bt_collect (map (\<lambda>obs. (ob_satellite_id obs, obs)) (ep_rover epoch));
          (paired, available) =
            pair_observations rover_by_sat
              (\<lambda>sat. contains_key (ep_satellite_positions_m epoch) sat \<and>
                 contains_key base_positions sat \<and> contains_key rover_positions sat)
              base_by_sat ([], []) in
      \<lparr>ne_paired = paired, ne_shared_positions = ep_satellite_positions_m epoch,
       ne_available = sort available\<rparr>)"

definition static_arc_satellites :: "StaticNormalizedEpoch list \<Rightarrow> string list" where
  "static_arc_satellites epochs = bt_set (concat (map ne_available epochs))"

definition static_single_difference_ambiguity_id ::
  "string \<Rightarrow> RtkArcObservation \<Rightarrow> RtkArcObservation \<Rightarrow> string" where
  "static_single_difference_ambiguity_id sat base rover =
     (let base_id = ob_ambiguity_id base; rover_id = ob_ambiguity_id rover in
      if base_id = sat \<and> rover_id = sat then sat
      else if base_id = sat then rover_id
      else if rover_id = sat then base_id
      else if base_id = rover_id then base_id
      else sat @ '':base='' @ base_id @ '',rover='' @ rover_id)"

definition static_double_difference_ambiguity_id :: "string \<Rightarrow> string \<Rightarrow> string \<Rightarrow> string \<Rightarrow> string" where
  "static_double_difference_ambiguity_id sat sat_sd_id reference_sat reference_sd_id =
     (if sat_sd_id = sat \<and> reference_sd_id = reference_sat then sat
      else sat_sd_id @ ''|ref='' @ reference_sd_id)"

definition static_reference_sds ::
  "StaticNormalizedEpoch \<Rightarrow> (string, string) btree \<Rightarrow> (string, string \<times> string) btree" where
  "static_reference_sds epoch refs =
     bt_collect (List.map_filter (\<lambda>(system, reference_sat).
       map_option (\<lambda>(base, rover).
         (system, (reference_sat, static_single_difference_ambiguity_id reference_sat base rover)))
       (bt_get (ne_paired epoch) reference_sat)) refs)"

text \<open>\<open>get(0..1)\<close>: the first byte, or nothing.\<close>

definition satellite_system_token :: "string \<Rightarrow> string" where
  "satellite_system_token satellite_id = take 1 satellite_id"

definition arc_preprocessing_active :: "RtkArcPreprocessing \<Rightarrow> bool" where
  "arc_preprocessing_active pre \<longleftrightarrow>
     pre_cycle_slip pre \<noteq> None \<or> pre_hatch_window_cap pre \<noteq> None \<or> pre_elevation_mask_deg pre \<noteq> None"

text \<open>The loop body over one epoch's satellites; \<open>epoch.paired[sat]\<close> panics on a missing key.\<close>

fun epoch_ambiguities ::
  "string list \<Rightarrow> (string, string \<times> string) btree \<Rightarrow> StaticNormalizedEpoch \<Rightarrow> string list \<Rightarrow>
   (string \<times> string) list \<Rightarrow> 'e RtkArcError fault + (string \<times> string) list" where
  "epoch_ambiguities reference_sats reference_sds epoch [] acc = Inr acc"
| "epoch_ambiguities reference_sats reference_sds epoch (sat # rest) acc =
     (if sat \<in> set reference_sats then epoch_ambiguities reference_sats reference_sds epoch rest acc
      else
        (case bt_get reference_sds (satellite_system_token sat) of
           None \<Rightarrow> epoch_ambiguities reference_sats reference_sds epoch rest acc
         | Some (reference_sat, reference_sd) \<Rightarrow>
             (case bt_get (ne_paired epoch) sat of
                None \<Rightarrow> Inl Panic
              | Some (base, rover) \<Rightarrow>
                  let sd_id = static_single_difference_ambiguity_id sat base rover;
                      dd_id = static_double_difference_ambiguity_id sat sd_id reference_sat reference_sd in
                  epoch_ambiguities reference_sats reference_sds epoch rest (acc @ [(sat, dd_id)]))))"

fun all_ambiguities ::
  "(string, string) btree \<Rightarrow> StaticNormalizedEpoch list \<Rightarrow> (string \<times> string) list \<Rightarrow>
   'e RtkArcError fault + (string \<times> string) list" where
  "all_ambiguities refs [] acc = Inr acc"
| "all_ambiguities refs (epoch # rest) acc =
     and_then (epoch_ambiguities (map snd refs) (static_reference_sds epoch refs) epoch (ne_available epoch) acc)
       (\<lambda>acc. all_ambiguities refs rest acc)"

definition static_ambiguity_satellites ::
  "('sa, 'e) rtk_core \<Rightarrow> 'pe RtkArcEpoch list \<Rightarrow> vec3 \<Rightarrow> BaselineReferenceSelection \<Rightarrow> RtkArcPreprocessing \<Rightarrow>
   'e RtkArcError fault + (string \<times> string) list" where
  "static_ambiguity_satellites K epochs base_m reference pre =
     (if epochs = [] then Inl (Err EmptyEpochs)
      else
        and_then (if arc_preprocessing_active pre
                  then map_err Err (map_ok fst (preprocess_arc_epochs_for_binding K epochs base_m pre))
                  else Inr epochs) (\<lambda>solve_input.
        let normalized = map static_normalize_epoch solve_input;
            arc_sats = static_arc_satellites normalized in
        if length arc_sats < 4 then Inl (Err (TooFewSatellites (length arc_sats) 4))
        else
          let reference_epochs = map (\<lambda>epoch.
                \<lparr>bre_available_satellite_ids = ne_available epoch,
                 bre_satellite_positions_m = ne_shared_positions epoch\<rparr>) normalized in
          and_then (map_err (\<lambda>e. Err (ReferenceError e))
              (baseline_reference_satellites K base_m reference_epochs reference)) (\<lambda>refs.
          and_then (all_ambiguities refs normalized []) (\<lambda>pairs.
          Inr (map (\<lambda>(sat, dd_id). (dd_id, sat)) (bt_set pairs))))))"

section \<open>Scales\<close>

datatype StaticScaleKind = Wavelength | Offset

datatype 'e StaticConfigError =
    InvalidStochasticModel
  | InvalidReference
  | InvalidPreprocessing
  | InvalidScaleOption string
  | InvalidAmbiguityWavelength string
  | InvalidAmbiguityOffset string
  | Arc "'e RtkArcError"

text \<open>\<open>x <= 0.0\<close> on an IEEE-754 pattern: false for a NaN, true for both zeros and every negative.\<close>

definition f64_magnitude :: "f64 \<Rightarrow> u64" where
  "f64_magnitude x = x AND 0x7FFFFFFFFFFFFFFF"

definition f64_is_nan :: "f64 \<Rightarrow> bool" where
  "f64_is_nan x \<longleftrightarrow> f64_magnitude x > 0x7FF0000000000000"

definition f64_le_zero :: "f64 \<Rightarrow> bool" where
  "f64_le_zero x \<longleftrightarrow> \<not> f64_is_nan x \<and> (f64_magnitude x = 0 \<or> bit x 63)"

fun expand_mapped ::
  "StaticScaleKind \<Rightarrow> (string, f64) btree \<Rightarrow> (string \<times> string) list \<Rightarrow> (string, f64) btree \<Rightarrow>
   'e StaticConfigError + (string, f64) btree" where
  "expand_mapped kind values [] out = Inr out"
| "expand_mapped kind values ((aid, sat) # rest) out =
     (case (case bt_get values aid of Some v \<Rightarrow> Some v | None \<Rightarrow> bt_get values sat) of
        None \<Rightarrow>
          Inl (case kind of Wavelength \<Rightarrow> InvalidAmbiguityWavelength aid | Offset \<Rightarrow> InvalidAmbiguityOffset aid)
      | Some v \<Rightarrow>
          if kind = Wavelength \<and> f64_le_zero v then Inl (InvalidAmbiguityWavelength aid)
          else expand_mapped kind values rest (bt_insert aid v out))"

definition expand_static_scale ::
  "string \<times> f64 \<times> (string \<times> f64) list \<Rightarrow> (string \<times> string) list \<Rightarrow> StaticScaleKind \<Rightarrow>
   'e StaticConfigError + (string, f64) btree" where
  "expand_static_scale term ambiguity_satellites kind =
     (case term of (mode, scalar, pairs) \<Rightarrow>
        if mode = ''scalar'' then
          (if kind = Wavelength \<and> f64_le_zero scalar then Inl (InvalidScaleOption ''ambiguity_wavelength_m'')
           else Inr (bt_collect (map (\<lambda>(aid, _). (aid, scalar)) ambiguity_satellites)))
        else if mode = ''map'' then expand_mapped kind (bt_collect pairs) ambiguity_satellites []
        else if mode = ''none'' \<and> kind = Offset then
          Inr (bt_collect (map (\<lambda>(aid, _). (aid, 0)) ambiguity_satellites))
        else
          Inl (InvalidScaleOption
            (case kind of Wavelength \<Rightarrow> ''ambiguity_wavelength_m'' | Offset \<Rightarrow> ''ambiguity_offset_m'')))"

end
