(* ===== verification/RtkStatic_Props.thy ===== *)
theory RtkStatic_Props
  imports RtkStatic
begin

text \<open>
  Properties of static arc preparation: the ambiguity enumeration never indexes a missing
  observation pair and lists each ambiguity once, scales cover exactly the ambiguities, and
  preprocessing only removes.
\<close>

section \<open>Normalised epochs\<close>

text \<open>Every available satellite has its observation pair, was observed by both receivers, and has
  its positions.\<close>

lemma pair_observations_ok:
  assumes "pair_observations rv positioned xs (paired, available) = (paired', available')"
    and "bt_ok paired"
    and "\<forall>s \<in> set available. bt_get paired s \<noteq> None"
  shows "bt_ok paired' \<and> (\<forall>s \<in> set available'. bt_get paired' s \<noteq> None) \<and>
    (\<forall>s \<in> set available' - set available. positioned s \<and> s \<in> fst ` set xs \<and> bt_get rv s \<noteq> None)"
  using assms
proof (induction xs arbitrary: paired available)
  case (Cons x xs)
  obtain sat ob where x: "x = (sat, ob)" by (cases x)
  let ?next = "case bt_get rv sat of
      None \<Rightarrow> (paired, available)
    | Some rover_obs \<Rightarrow>
        if positioned sat then (bt_insert sat (ob, rover_obs) paired, available @ [sat]) else (paired, available)"
  obtain paired1 available1 where n: "?next = (paired1, available1)" by (cases ?next)
  have step: "bt_ok paired1" "\<forall>s \<in> set available1. bt_get paired1 s \<noteq> None"
    "\<forall>s \<in> set available1 - set available. s = sat \<and> positioned s \<and> bt_get rv s \<noteq> None"
    using n Cons.prems(2,3)
    by (auto simp: bt_insert_ok bt_get_insert split: option.splits if_splits)
  have "pair_observations rv positioned xs (paired1, available1) = (paired', available')"
    using Cons.prems(1) n by (simp add: x)
  from Cons.IH [OF this step(1,2)] step(3) show ?case by (auto simp: x)
qed simp

definition observed_by_both :: "'pe RtkArcEpoch \<Rightarrow> string \<Rightarrow> bool" where
  "observed_by_both epoch sat \<longleftrightarrow>
     sat \<in> ob_satellite_id ` set (ep_base epoch) \<and> sat \<in> ob_satellite_id ` set (ep_rover epoch) \<and>
     contains_key (ep_satellite_positions_m epoch) sat"

lemma collected_by_sat:
  "bt_get (bt_collect (map (\<lambda>obs. (ob_satellite_id obs, obs)) obs)) s \<noteq> None \<longleftrightarrow>
   s \<in> ob_satellite_id ` set obs"
  by (simp add: bt_collected(2) map_of_eq_None_iff image_image rev_map [symmetric] del: not_None_eq)

lemma normalize_epoch_ok:
  assumes "s \<in> set (ne_available (static_normalize_epoch epoch))"
  shows "bt_get (ne_paired (static_normalize_epoch epoch)) s \<noteq> None \<and> observed_by_both epoch s"
proof -
  let ?by = "\<lambda>obs. bt_collect (map (\<lambda>o'. (ob_satellite_id o', o')) obs)"
  define positioned where "positioned = (\<lambda>sat. contains_key (ep_satellite_positions_m epoch) sat \<and>
      contains_key (if ep_base_satellite_positions_m epoch = [] then ep_satellite_positions_m epoch
             else ep_base_satellite_positions_m epoch) sat \<and>
      contains_key (if ep_rover_satellite_positions_m epoch = [] then ep_satellite_positions_m epoch
             else ep_rover_satellite_positions_m epoch) sat)"
  obtain paired available where
    run: "pair_observations (?by (ep_rover epoch)) positioned (?by (ep_base epoch)) ([], []) = (paired, available)"
    by (cases "pair_observations (?by (ep_rover epoch)) positioned (?by (ep_base epoch)) ([], [])")
  have norm: "static_normalize_epoch epoch =
      \<lparr>ne_paired = paired, ne_shared_positions = ep_satellite_positions_m epoch, ne_available = sort available\<rparr>"
    using run by (simp add: static_normalize_epoch_def Let_def positioned_def)
  have "s \<in> set available" using assms norm by simp
  with pair_observations_ok [OF run] have
    "bt_get paired s \<noteq> None" "positioned s" "s \<in> fst ` set (?by (ep_base epoch))"
    "bt_get (?by (ep_rover epoch)) s \<noteq> None"
    by (auto simp: bt_ok_def)
  then show ?thesis
    unfolding norm observed_by_both_def
    using collected_by_sat [of "ep_rover epoch" s]
    by (simp add: bt_collected(3) image_image positioned_def del: not_None_eq)
qed

section \<open>Enumerating the ambiguities\<close>

definition pairs_available :: "StaticNormalizedEpoch \<Rightarrow> bool" where
  "pairs_available epoch \<longleftrightarrow> (\<forall>s \<in> set (ne_available epoch). bt_get (ne_paired epoch) s \<noteq> None)"

lemma epoch_ambiguities_ok:
  assumes "\<forall>s \<in> set sats. bt_get (ne_paired epoch) s \<noteq> None"
  shows "\<exists>new. (epoch_ambiguities rsats sds epoch sats acc :: 'e RtkArcError fault + (string \<times> string) list) = Inr (acc @ new) \<and>
    (\<forall>x \<in> set new. fst x \<in> set sats \<and> fst x \<notin> set rsats)"
  using assms
proof (induction sats arbitrary: acc)
  case (Cons sat sats)
  show ?case
  proof (cases "sat \<in> set rsats \<or> bt_get sds (satellite_system_token sat) = None")
    case True
    have "\<forall>s \<in> set sats. bt_get (ne_paired epoch) s \<noteq> None" using Cons.prems by simp
    from Cons.IH [OF this, of acc] obtain new where
      "(epoch_ambiguities rsats sds epoch sats acc :: 'e RtkArcError fault + (string \<times> string) list) = Inr (acc @ new)"
      "\<forall>x \<in> set new. fst x \<in> set sats \<and> fst x \<notin> set rsats" by blast
    with True show ?thesis by (intro exI [of _ new]) (auto split: prod.split)
  next
    case False
    then obtain rsat rsd where "bt_get sds (satellite_system_token sat) = Some (rsat, rsd)" by auto
    moreover obtain b r where "bt_get (ne_paired epoch) sat = Some (b, r)" using Cons.prems by auto
    moreover define dd where "dd = static_double_difference_ambiguity_id sat
        (static_single_difference_ambiguity_id sat b r) rsat rsd"
    ultimately have "(epoch_ambiguities rsats sds epoch (sat # sats) acc :: 'e RtkArcError fault + (string \<times> string) list) =
        epoch_ambiguities rsats sds epoch sats (acc @ [(sat, dd)])"
      using False by (simp add: Let_def)
    moreover have "\<forall>s \<in> set sats. bt_get (ne_paired epoch) s \<noteq> None" using Cons.prems by simp
    from Cons.IH [OF this, of "acc @ [(sat, dd)]"] obtain new where
      "(epoch_ambiguities rsats sds epoch sats (acc @ [(sat, dd)]) :: 'e RtkArcError fault + (string \<times> string) list) = Inr ((acc @ [(sat, dd)]) @ new)"
      "\<forall>x \<in> set new. fst x \<in> set sats \<and> fst x \<notin> set rsats" by blast
    ultimately show ?thesis using False by (intro exI [of _ "(sat, dd) # new"]) auto
  qed
qed simp

lemma all_ambiguities_ok:
  assumes "\<forall>e \<in> set epochs. pairs_available e"
  shows "\<exists>new. (all_ambiguities refs epochs acc :: 'e RtkArcError fault + (string \<times> string) list) = Inr (acc @ new) \<and>
    (\<forall>x \<in> set new. (\<exists>e \<in> set epochs. fst x \<in> set (ne_available e)) \<and> fst x \<notin> snd ` set refs)"
  using assms
proof (induction epochs arbitrary: acc)
  case (Cons e epochs)
  have "\<forall>s \<in> set (ne_available e). bt_get (ne_paired e) s \<noteq> None"
    using Cons.prems by (simp add: pairs_available_def)
  from epoch_ambiguities_ok [OF this, of "map snd refs" "static_reference_sds e refs" acc]
  obtain new1 where n1: "(epoch_ambiguities (map snd refs) (static_reference_sds e refs) e (ne_available e) acc :: 'e RtkArcError fault + (string \<times> string) list) =
      Inr (acc @ new1)" "\<forall>x \<in> set new1. fst x \<in> set (ne_available e) \<and> fst x \<notin> set (map snd refs)"
    by blast
  have "\<forall>e \<in> set epochs. pairs_available e" using Cons.prems by simp
  from Cons.IH [OF this, of "acc @ new1"] obtain new2 where
    n2: "(all_ambiguities refs epochs (acc @ new1) :: 'e RtkArcError fault + (string \<times> string) list) = Inr ((acc @ new1) @ new2)"
    "\<forall>x \<in> set new2. (\<exists>e \<in> set epochs. fst x \<in> set (ne_available e)) \<and> fst x \<notin> snd ` set refs"
    by blast
  have "(all_ambiguities refs (e # epochs) acc :: 'e RtkArcError fault + (string \<times> string) list) = Inr (acc @ (new1 @ new2))" using n1(1) n2(1) by simp
  moreover have "\<forall>x \<in> set (new1 @ new2).
      (\<exists>e \<in> set (e # epochs). fst x \<in> set (ne_available e)) \<and> fst x \<notin> snd ` set refs"
    using n1(2) n2(2) by auto
  ultimately show ?case by blast
qed simp

lemma normalized_available: "\<forall>e \<in> set (map static_normalize_epoch work). pairs_available e"
  using normalize_epoch_ok by (auto simp: pairs_available_def)

text \<open>The epochs the enumeration runs on.\<close>

definition static_solve_input ::
  "('sa, 'e) rtk_core \<Rightarrow> 'pe RtkArcEpoch list \<Rightarrow> vec3 \<Rightarrow> RtkArcPreprocessing \<Rightarrow> 'e RtkArcError fault + 'pe RtkArcEpoch list" where
  "static_solve_input K epochs base_m pre =
     (if arc_preprocessing_active pre
      then map_err Err (map_ok fst (preprocess_arc_epochs_for_binding K epochs base_m pre))
      else Inr epochs)"

lemma static_ambiguities_cases:
  fixes K :: "('sa, 'e) rtk_core"
  assumes "static_ambiguity_satellites K epochs base_m reference pre = r"
  obtains (failed) e where "r = Inl (Err e)"
  | (found) work refs pairs where "static_solve_input K epochs base_m pre = Inr work"
      "r = Inr (map (\<lambda>(sat, dd_id). (dd_id, sat)) (bt_set pairs))"
      "\<forall>x \<in> set pairs. (\<exists>epoch \<in> set work. observed_by_both epoch (fst x)) \<and> fst x \<notin> snd ` set refs"
      "baseline_reference_satellites K base_m
         (map (\<lambda>e. \<lparr>bre_available_satellite_ids = ne_available e, bre_satellite_positions_m = ne_shared_positions e\<rparr>)
           (map static_normalize_epoch work)) reference = Inr refs"
proof (cases "epochs = []")
  case True
  show thesis by (rule failed [of EmptyEpochs]) (use assms True in \<open>simp add: static_ambiguity_satellites_def\<close>)
next
  case False
  note unfold = assms [unfolded static_ambiguity_satellites_def static_solve_input_def [symmetric]]
  show thesis
  proof (cases "static_solve_input K epochs base_m pre")
    case (Inl f)
    moreover have "f \<noteq> Panic"
      using Inl by (cases "preprocess_arc_epochs_for_binding K epochs base_m pre")
        (auto simp: static_solve_input_def split: if_splits)
    ultimately show thesis using unfold False failed by (cases f) auto
  next
    case (Inr work)
    let ?n = "map static_normalize_epoch work"
    let ?call = "baseline_reference_satellites K base_m
         (map (\<lambda>e. \<lparr>bre_available_satellite_ids = ne_available e, bre_satellite_positions_m = ne_shared_positions e\<rparr>) ?n) reference"
    have sats: "observed_by_both e s" if "s \<in> set (ne_available (static_normalize_epoch e))" for e s
      using normalize_epoch_ok [OF that] by blast
    show thesis
    proof (cases "length (static_arc_satellites ?n) < 4")
      case True
      then have "r = Inl (Err (TooFewSatellites (length (static_arc_satellites ?n)) 4))"
        using unfold False Inr by (simp add: Let_def)
      then show thesis by (rule failed)
    next
      case enough: False
      show thesis
      proof (cases ?call)
        case (Inl e)
        then have "r = Inl (Err (ReferenceError e))"
          using unfold False Inr enough by (simp add: Let_def)
        then show thesis by (rule failed)
      next
        case refs: (Inr refs)
        obtain pairs where p: "(all_ambiguities refs ?n [] :: 'e RtkArcError fault + (string \<times> string) list) = Inr pairs"
          "\<forall>x \<in> set pairs. (\<exists>e \<in> set ?n. fst x \<in> set (ne_available e)) \<and> fst x \<notin> snd ` set refs"
          using all_ambiguities_ok [OF normalized_available, of refs work "[]"] by auto
        have "r = Inr (map (\<lambda>(sat, dd_id). (dd_id, sat)) (bt_set pairs))"
          using unfold False Inr enough refs p(1) by (simp add: Let_def)
        moreover have "\<forall>x \<in> set pairs. (\<exists>epoch \<in> set work. observed_by_both epoch (fst x)) \<and> fst x \<notin> snd ` set refs"
          using p(2) sats by fastforce
        ultimately show thesis using found [OF Inr] refs by blast
      qed
    qed
  qed
qed

section \<open>Scales over ambiguities\<close>

lemma expand_mapped_ok:
  assumes "(expand_mapped kind values ambs out :: 'e StaticConfigError + _) = Inr m" "bt_ok out"
    and "kind = Wavelength \<longrightarrow> (\<forall>x \<in> set out. \<not> f64_le_zero (snd x))"
  shows "bt_ok m \<and> fst ` set m = fst ` set out \<union> fst ` set ambs \<and>
    (kind = Wavelength \<longrightarrow> (\<forall>x \<in> set m. \<not> f64_le_zero (snd x)))"
  using assms
proof (induction kind "values" ambs out rule: expand_mapped.induct)
  case (2 kind vs aid sat rest out)
  from "2.prems"(1) obtain v where v: "(case bt_get vs aid of Some v \<Rightarrow> Some v | None \<Rightarrow> bt_get vs sat) = Some v"
    "\<not> (kind = Wavelength \<and> f64_le_zero v)" "(expand_mapped kind vs rest (bt_insert aid v out) :: 'e StaticConfigError + _) = Inr m"
    by (auto split: option.splits if_splits)
  have ok: "bt_ok (bt_insert aid v out)" using "2.prems"(2) by (rule bt_insert_ok)
  have "x \<in> set (bt_insert aid v out) \<Longrightarrow> x = (aid, v) \<or> x \<in> set out" for x
    using bt_entries_get [OF ok, of "fst x" "snd x"] bt_entries_get [OF "2.prems"(2), of "fst x" "snd x"]
    by (auto simp: bt_get_insert prod_eq_iff split: if_splits)
  with "2.prems"(3) v(2) have "kind = Wavelength \<longrightarrow> (\<forall>x \<in> set (bt_insert aid v out). \<not> f64_le_zero (snd x))"
    by fastforce
  from "2.IH" [OF v(1,2) _ ok this] v(3) show ?case
    by (auto simp: bt_insert_keys)
qed simp

lemma expand_mapped_get:
  assumes "(expand_mapped kind values ambs out :: 'e StaticConfigError + _) = Inr m" "bt_ok out" "distinct (map fst ambs)"
  shows "bt_get m k = (case map_of ambs k of
      None \<Rightarrow> bt_get out k
    | Some sat \<Rightarrow> (case bt_get values k of Some v \<Rightarrow> Some v | None \<Rightarrow> bt_get values sat))"
  using assms
proof (induction kind "values" ambs out rule: expand_mapped.induct)
  case (2 kind vs aid sat rest out)
  from "2.prems"(1) obtain v where v: "(case bt_get vs aid of Some v \<Rightarrow> Some v | None \<Rightarrow> bt_get vs sat) = Some v"
    "\<not> (kind = Wavelength \<and> f64_le_zero v)" "(expand_mapped kind vs rest (bt_insert aid v out) :: 'e StaticConfigError + _) = Inr m"
    by (auto split: option.splits if_splits)
  have "map_of rest aid = None" using "2.prems"(3) by (simp add: map_of_eq_None_iff)
  with "2.IH" [OF v(1,2) v(3) bt_insert_ok [OF "2.prems"(2)]] "2.prems"(3) v(1) show ?case
    by (auto simp: bt_get_insert split: option.splits)
qed simp

lemma collect_constant:
  "bt_ok (bt_collect (map (\<lambda>(aid, _). (aid, c)) ambs))"
  "fst ` set (bt_collect (map (\<lambda>(aid, _). (aid, c)) ambs)) = fst ` set ambs"
  "x \<in> set (bt_collect (map (\<lambda>(aid, _). (aid, c)) ambs)) \<Longrightarrow> snd x = c"
  using bt_collected(1) bt_collected(3) [of "map (\<lambda>(aid, _). (aid, c)) ambs"]
    bt_collected(4) [of "fst x" "snd x" "map (\<lambda>(aid, _). (aid, c)) ambs"]
  by (auto simp: image_image case_prod_beta)

section \<open>Preprocessing only removes\<close>

text \<open>The second epoch is the first with some observations replaced and some satellites removed.\<close>

definition thinned :: "'pe RtkArcEpoch \<Rightarrow> 'pe RtkArcEpoch \<Rightarrow> bool" where
  "thinned old new \<longleftrightarrow>
     set (ep_satellite_positions_m new) \<subseteq> set (ep_satellite_positions_m old) \<and>
     set (ep_base_satellite_positions_m new) \<subseteq> set (ep_base_satellite_positions_m old) \<and>
     set (ep_rover_satellite_positions_m new) \<subseteq> set (ep_rover_satellite_positions_m old) \<and>
     ep_velocity_mps new = ep_velocity_mps old \<and> ep_prediction_time_s new = ep_prediction_time_s old \<and>
     ep_prediction_epoch new = ep_prediction_epoch old"

lemma thinned_refl: "thinned e e"
  by (simp add: thinned_def)

lemma thinned_trans: "thinned a b \<Longrightarrow> thinned b c \<Longrightarrow> thinned a c"
  by (auto simp: thinned_def)

lemma thinned_apply:
  "i < length (apply_binding_prepared_observations work prep) \<Longrightarrow>
   thinned (work ! i) (apply_binding_prepared_observations work prep ! i)"
  by (simp add: apply_binding_prepared_observations_def thinned_def)

lemma thin_keeps: "thinned e (thin_binding_epoch_to_kept e kept)"
proof -
  have "set (bt_collect (filter P m)) \<subseteq> set m" for P and m :: "(string, vec3) btree"
    using bt_collected(4) [of _ _ "filter P m"] by auto
  then show ?thesis by (simp add: thinned_def thin_binding_epoch_to_kept_def Let_def)
qed

definition thinned_arc :: "'pe RtkArcEpoch list \<Rightarrow> 'pe RtkArcEpoch list \<Rightarrow> bool" where
  "thinned_arc old new \<longleftrightarrow> length new \<le> length old \<and> (\<forall>i < length new. thinned (old ! i) (new ! i))"

lemma thinned_arc_trans: "thinned_arc a b \<Longrightarrow> thinned_arc b c \<Longrightarrow> thinned_arc a c"
  unfolding thinned_arc_def by (meson thinned_trans le_trans less_le_trans)

lemma thinned_arc_apply: "thinned_arc work (apply_binding_prepared_observations work prep)"
  using thinned_apply by (auto simp: thinned_arc_def) (simp add: apply_binding_prepared_observations_def)

lemma thinned_arc_refl: "thinned_arc work work"
  by (simp add: thinned_arc_def thinned_refl)

lemma thinned_arc_thin:
  "thinned_arc work (map (\<lambda>(epoch, ids). thin_binding_epoch_to_kept epoch ids) (zip work kept))"
  by (simp add: thinned_arc_def thin_keeps)

lemma stages_thin:
  "cycle_slip_stage K pre work = Inr (w1, d, sp) \<Longrightarrow> thinned_arc work w1"
  "hatch_stage K pre work = Inr w2 \<Longrightarrow> thinned_arc work w2"
  "elevation_stage K base_m pre work = Inr (w3, masked) \<Longrightarrow> thinned_arc work w3"
  by (auto simp: cycle_slip_stage_def hatch_stage_def elevation_stage_def map_ok_def result_iffs
      thinned_arc_refl thinned_arc_apply thinned_arc_thin split: option.splits)

section \<open>A concrete arc\<close>

definition demo_obs :: "string \<Rightarrow> RtkArcObservation" where
  "demo_obs sat = \<lparr>ob_satellite_id = sat, ob_ambiguity_id = sat, ob_code_m = 0, ob_phase_m = 0, ob_lli = None\<rparr>"

definition demo_epoch :: "unit RtkArcEpoch" where
  "demo_epoch =
     \<lparr>ep_base = map demo_obs [''G03'', ''G01''], ep_rover = map demo_obs [''G01'', ''G02'', ''G03''],
      ep_satellite_positions_m = [(''G01'', (1, 2, 3)), (''G02'', (4, 5, 6)), (''G03'', (7, 8, 9))],
      ep_base_satellite_positions_m = [], ep_rover_satellite_positions_m = [],
      ep_velocity_mps = None, ep_prediction_time_s = None, ep_prediction_epoch = None\<rparr>"

definition demo_rtk :: "(unit, string) rtk_core" where
  "demo_rtk =
     \<lparr>prepare_cycle_slip = (\<lambda>epochs policy. Inr (epochs, [], [])),
      hatch_smooth = (\<lambda>epochs cap. Inr epochs),
      apply_elevation_mask = (\<lambda>base positions mask. Inr (map (\<lambda>_. [''G01'']) positions, [''G02'', ''G03''])),
      baseline_reference_satellites = (\<lambda>base epochs sel. Inl ''no common reference'')\<rparr>"

definition demo_full :: "unit RtkArcEpoch" where
  "demo_full =
     demo_epoch\<lparr>ep_base := map demo_obs [''G04'', ''G03'', ''G02'', ''G01''],
       ep_rover := map demo_obs [''G01'', ''G02'', ''G03'', ''G04''],
       ep_satellite_positions_m :=
         [(''G01'', (1, 2, 3)), (''G02'', (4, 5, 6)), (''G03'', (7, 8, 9)), (''G04'', (10, 11, 12))]\<rparr>"

definition demo_refs :: "(unit, string) rtk_core" where
  "demo_refs = demo_rtk\<lparr>baseline_reference_satellites := (\<lambda>base epochs sel. Inr [(''G'', ''G01'')])\<rparr>"

definition demo_plain :: RtkArcPreprocessing where
  "demo_plain = \<lparr>pre_cycle_slip = None, pre_hatch_window_cap = None, pre_elevation_mask_deg = None\<rparr>"

lemma demo_ambiguities:
  "static_ambiguity_satellites demo_refs [demo_full] (0, 0, 0) Auto demo_plain =
     Inr [(''G02'', ''G02''), (''G03'', ''G03''), (''G04'', ''G04'')]"
  by code_simp

definition demo_mask :: RtkArcPreprocessing where
  "demo_mask = \<lparr>pre_cycle_slip = None, pre_hatch_window_cap = None, pre_elevation_mask_deg = Some 0\<rparr>"

section \<open>Properties\<close>

text \<open>
  C39. Enumerating the ambiguities of a static arc never panics: each satellite it looks up in
  \<open>epoch.paired[..]\<close> has its pair.
\<close>

theorem static_ambiguities_never_panic:
  "static_ambiguity_satellites K epochs base_m reference pre \<noteq> Inl Panic"
  by (rule static_ambiguities_cases [OF refl, of K epochs base_m reference pre]) simp_all

text \<open>
  The ambiguities come out once each and ordered by satellite and identifier, whatever the order
  of epochs and observations; each is of a satellite both receivers observed with a position in some
  epoch of the prepared arc, and never of a reference satellite the core selected.
\<close>

theorem static_ambiguities_ordered:
  assumes "static_ambiguity_satellites K epochs base_m reference pre = Inr ambs"
  shows "sorted_wrt (<) (map (\<lambda>(dd_id, sat). (sat, dd_id)) ambs) \<and>
    (\<exists>work refs ref_epochs. static_solve_input K epochs base_m pre = Inr work \<and>
       baseline_reference_satellites K base_m ref_epochs reference = Inr refs \<and>
       (\<forall>x \<in> set ambs. (\<exists>epoch \<in> set work. observed_by_both epoch (snd x)) \<and> snd x \<notin> snd ` set refs))"
proof (rule static_ambiguities_cases [OF assms])
  fix work refs pairs
  assume w: "static_solve_input K epochs base_m pre = Inr work"
    and r: "Inr ambs = Inr (map (\<lambda>(sat, dd_id). (dd_id, sat)) (bt_set pairs))"
    and p: "\<forall>x \<in> set pairs. (\<exists>epoch \<in> set work. observed_by_both epoch (fst x)) \<and> fst x \<notin> snd ` set refs"
    and b: "baseline_reference_satellites K base_m
         (map (\<lambda>e. \<lparr>bre_available_satellite_ids = ne_available e, bre_satellite_positions_m = ne_shared_positions e\<rparr>)
           (map static_normalize_epoch work)) reference = Inr refs"
  have ambs: "ambs = map (\<lambda>(sat, dd_id). (dd_id, sat)) (bt_set pairs)" using r by simp
  have "map (\<lambda>(dd_id, sat). (sat, dd_id)) ambs = bt_set pairs"
    unfolding ambs by (simp add: comp_def case_prod_beta)
  then have "sorted_wrt (<) (map (\<lambda>(dd_id, sat). (sat, dd_id)) ambs)" by (simp add: bt_set_sorted)
  moreover have "\<forall>x \<in> set ambs. (\<exists>epoch \<in> set work. observed_by_both epoch (snd x)) \<and> snd x \<notin> snd ` set refs"
    unfolding ambs using p by (auto simp: case_prod_beta)
  ultimately show ?thesis using w b by blast
qed simp

theorem static_ambiguities_ordered_witness:
  "static_ambiguity_satellites demo_refs [demo_full] (0, 0, 0) Auto demo_plain =
     Inr [(''G02'', ''G02''), (''G03'', ''G03''), (''G04'', ''G04'')] \<and>
   sorted_wrt (<) (map (\<lambda>(dd_id, sat). (sat, dd_id)) [(''G02'', ''G02''), (''G03'', ''G03''), (''G04'', ''G04'')])"
  using static_ambiguities_ordered [OF demo_ambiguities] demo_ambiguities by blast

text \<open>
  C40. An expanded scale has an entry for every ambiguity and no other, in key order, and a wavelength
  that was accepted is never zero or negative.
\<close>

theorem expanded_scale_covers_ambiguities:
  assumes "expand_static_scale term ambs kind = Inr m"
  shows "sorted_wrt (<) (bt_keys m) \<and> set (bt_keys m) = fst ` set ambs \<and>
    (kind = Wavelength \<longrightarrow> (\<forall>x \<in> set m. \<not> f64_le_zero (snd x)))"
proof -
  obtain mode scalar pairs where t: "term = (mode, scalar, pairs)" by (cases "term")
  have "bt_ok m \<and> fst ` set m = fst ` set ambs \<and> (kind = Wavelength \<longrightarrow> (\<forall>x \<in> set m. \<not> f64_le_zero (snd x)))"
  proof (cases "mode = ''map''")
    case True
    then show ?thesis
      using assms expand_mapped_ok [of kind "bt_collect pairs" ambs "[]" m]
      by (simp add: expand_static_scale_def t bt_ok_def)
  next
    case False
    with assms obtain c where "m = bt_collect (map (\<lambda>(aid, _). (aid, c)) ambs)"
      "kind = Wavelength \<longrightarrow> \<not> f64_le_zero c"
      by (auto simp: expand_static_scale_def t split: if_splits)
    with collect_constant [where c = c and ambs = ambs] show ?thesis by auto
  qed
  then show ?thesis by (simp add: bt_keys_def bt_ok_def)
qed

lemma demo_scale:
  "(expand_static_scale (''scalar'', 0x3FC85D3DF91B97F1, []) [(''G03'', ''G03''), (''G02'', ''G02'')] Wavelength
     :: unit StaticConfigError + _) =
   Inr [(''G02'', 0x3FC85D3DF91B97F1), (''G03'', 0x3FC85D3DF91B97F1)]"
  by (simp add: expand_static_scale_def f64_le_zero_def f64_is_nan_def f64_magnitude_def bt_collect_def)

theorem expanded_scale_covers_ambiguities_witness:
  "\<exists>m. (expand_static_scale (''scalar'', 0x3FC85D3DF91B97F1, []) [(''G03'', ''G03''), (''G02'', ''G02'')] Wavelength
     :: unit StaticConfigError + _) = Inr m \<and> set (bt_keys m) = {''G03'', ''G02''}"
  using expanded_scale_covers_ambiguities [OF demo_scale] demo_scale by auto

text \<open>
  A mapped scale prefers the ambiguity's own identifier over its satellite, and of several
  entries with one key takes the last.
\<close>

theorem mapped_scale_values:
  assumes "(expand_static_scale (''map'', scalar, pairs) ambs kind :: 'e StaticConfigError + _) = Inr m"
    and "distinct (map fst ambs)" "(aid, sat) \<in> set ambs"
  shows "bt_get m aid =
    (case map_of (rev pairs) aid of Some v \<Rightarrow> Some v | None \<Rightarrow> map_of (rev pairs) sat)"
proof -
  have "(expand_mapped kind (bt_collect pairs) ambs [] :: 'e StaticConfigError + _) = Inr m"
    using assms(1) by (simp add: expand_static_scale_def)
  from expand_mapped_get [OF this _ assms(2), of aid] assms(2,3) show ?thesis
    by (simp add: bt_ok_def bt_collected(2) map_of_is_SomeI cong: option.case_cong)
qed

lemma demo_mapped_scale:
  "(expand_static_scale (''map'', 0, [(''G01'', 5), (''G01'', 7)]) [(''G01#2'', ''G01'')] Offset
     :: unit StaticConfigError + _) = Inr [(''G01#2'', 7)]"
  by (simp add: expand_static_scale_def bt_collect_def bt_get_def)

theorem mapped_scale_values_witness:
  "\<exists>m. (expand_static_scale (''map'', 0, [(''G01'', 5), (''G01'', 7)]) [(''G01#2'', ''G01'')] Offset
     :: unit StaticConfigError + _) = Inr m \<and> bt_get m ''G01#2'' = Some 7"
  using mapped_scale_values [OF demo_mapped_scale, of "''G01#2''" "''G01''"] demo_mapped_scale by auto

text \<open>
  Preprocessing never invents anything but observations: the prepared arc is no longer than the
  original, and each of its epochs has the original's velocity and prediction time and only positions
  the original had.
\<close>

theorem preprocessing_only_removes:
  assumes "preprocess_arc_epochs_for_binding K epochs base_m pre = Inr (work, dropped, split, masked)"
  shows "length work \<le> length epochs \<and> (\<forall>i < length work. thinned (epochs ! i) (work ! i))"
proof -
  from assms obtain w1 w2 where "cycle_slip_stage K pre epochs = Inr (w1, dropped, split)"
    "hatch_stage K pre w1 = Inr w2" "elevation_stage K base_m pre w2 = Inr (work, masked)"
    by (auto simp: preprocess_arc_epochs_for_binding_def and_then_eq_Inr case_prod_beta prod_eq_iff)
  then have "thinned_arc epochs work" using stages_thin thinned_arc_trans by metis
  then show ?thesis by (simp add: thinned_arc_def)
qed

theorem preprocessing_only_removes_witness:
  "preprocess_arc_epochs_for_binding demo_rtk [demo_epoch] (0, 0, 0) demo_mask =
     Inr ([thin_binding_epoch_to_kept demo_epoch [''G01'']], [], [], [''G02'', ''G03'']) \<and>
   thinned demo_epoch (thin_binding_epoch_to_kept demo_epoch [''G01''])"
proof
  show run: "preprocess_arc_epochs_for_binding demo_rtk [demo_epoch] (0, 0, 0) demo_mask =
     Inr ([thin_binding_epoch_to_kept demo_epoch [''G01'']], [], [], [''G02'', ''G03''])"
    by (simp add: preprocess_arc_epochs_for_binding_def cycle_slip_stage_def hatch_stage_def
        elevation_stage_def demo_rtk_def demo_mask_def)
  show "thinned demo_epoch (thin_binding_epoch_to_kept demo_epoch [''G01''])"
    using preprocessing_only_removes [OF run] by simp
qed

text \<open>
  Ambiguity identifiers tell arcs apart: for identifiers without a bar, two occurrences of a
  satellite against one reference share a double-difference identifier only if both single-difference
  identifiers agree, and the plain satellite name is used exactly when no arc was split.
\<close>

theorem double_difference_ids_separate_arcs:
  assumes "CHR ''|'' \<notin> set sat" "CHR ''|'' \<notin> set sd1" "CHR ''|'' \<notin> set sd2"
  shows "(static_double_difference_ambiguity_id sat sd1 ref rsd1 = sat \<longleftrightarrow> sd1 = sat \<and> rsd1 = ref) \<and>
    (static_double_difference_ambiguity_id sat sd1 ref rsd1 =
       static_double_difference_ambiguity_id sat sd2 ref rsd2 \<longleftrightarrow> sd1 = sd2 \<and> rsd1 = rsd2)"
proof -
  have bar: "sd @ ''|ref='' @ rsd \<noteq> sat" for sd rsd
    using assms(1) by (auto simp: in_set_conv_decomp)
  have cut: "takeWhile (\<lambda>c. c \<noteq> CHR ''|'') (zs @ CHR ''|'' # ws) = zs" if "CHR ''|'' \<notin> set zs" for zs ws
    using that by (induction zs) auto
  have inj: "sd1 @ ''|ref='' @ rsd1 = sd2 @ ''|ref='' @ rsd2 \<longleftrightarrow> sd1 = sd2 \<and> rsd1 = rsd2"
    using cut [OF assms(2), of "''ref='' @ rsd1"] cut [OF assms(3), of "''ref='' @ rsd2"] by auto
  show ?thesis
    using bar bar [symmetric] inj by (auto simp: static_double_difference_ambiguity_id_def)
qed

theorem double_difference_ids_separate_arcs_witness:
  "static_double_difference_ambiguity_id ''G05'' ''G05#1'' ''G01'' ''G01'' \<noteq>
   static_double_difference_ambiguity_id ''G05'' ''G05#2'' ''G01'' ''G01''"
  using double_difference_ids_separate_arcs [of "''G05''" "''G05#1''" "''G05#2''" "''G01''" "''G01''" "''G01''"]
  by simp

end
