(* ===== verification/NifTerm.thy ===== *)
theory NifTerm
  imports Codec
begin

text \<open>
  The Erlang side of the message codecs: Rust's integer types and their conversions, the decoders of
  terms that a NIF argument goes through, and the maps that \<open>derive(rustler::NifMap)\<close> reads and
  writes.

  Integers of the boundary structures are \<open>i64\<close> words. Integers of the core's message structures
  are \<open>int\<close> together with the Rust type they are declared with; \<open>in_ty\<close> says that a value is one of
  that type.
\<close>

section \<open>Integer types\<close>

datatype int_ty = U8 | U16 | U32 | U64 | I8 | I16 | I32 | I64

fun ty_bits :: "int_ty \<Rightarrow> nat" where
  "ty_bits U8 = 8" | "ty_bits U16 = 16" | "ty_bits U32 = 32" | "ty_bits U64 = 64"
| "ty_bits I8 = 8" | "ty_bits I16 = 16" | "ty_bits I32 = 32" | "ty_bits I64 = 64"

fun ty_signed :: "int_ty \<Rightarrow> bool" where
  "ty_signed U8 = False" | "ty_signed U16 = False" | "ty_signed U32 = False" | "ty_signed U64 = False"
| "ty_signed I8 = True" | "ty_signed I16 = True" | "ty_signed I32 = True" | "ty_signed I64 = True"

fun ty_min :: "int_ty \<Rightarrow> int" where
  "ty_min ty = (if ty_signed ty then - (2 ^ (ty_bits ty - 1)) else 0)"

fun ty_max :: "int_ty \<Rightarrow> int" where
  "ty_max ty = (if ty_signed ty then 2 ^ (ty_bits ty - 1) - 1 else 2 ^ ty_bits ty - 1)"

definition in_ty :: "int_ty \<Rightarrow> int \<Rightarrow> bool" where
  "in_ty ty n \<longleftrightarrow> ty_min ty \<le> n \<and> n \<le> ty_max ty"

text \<open>\<open>n as ty\<close> keeps the low bits; \<open>v as i64\<close> and \<open>i64::from(v)\<close> of an integer \<open>n\<close>; \<open>ty::try_from\<close>
  of an \<open>i64\<close> and \<open>i64::try_from\<close> of a \<open>usize\<close> refuse a value outside the type.\<close>

definition wrap_ty :: "int_ty \<Rightarrow> int \<Rightarrow> int" where
  "wrap_ty ty n = (if ty_signed ty then signed_take_bit (ty_bits ty - 1) n else take_bit (ty_bits ty) n)"

definition as_ty :: "int_ty \<Rightarrow> i64 \<Rightarrow> int" where
  "as_ty ty v = wrap_ty ty (sint v)"

definition as_i64 :: "int \<Rightarrow> i64" where
  "as_i64 n = word_of_int n"

definition try_from :: "int_ty \<Rightarrow> i64 \<Rightarrow> int option" where
  "try_from ty v = (if in_ty ty (sint v) then Some (sint v) else None)"

definition i64_try_from :: "int \<Rightarrow> i64 option" where
  "i64_try_from n = (if in_ty I64 n then Some (as_i64 n) else None)"

text \<open>\<open>i64::from\<close> exists for the types whose values are all values of \<open>i64\<close>.\<close>

definition into_i64 :: "int_ty \<Rightarrow> bool" where
  "into_i64 ty \<longleftrightarrow> ty \<noteq> U64"

lemma ty_bits_pos [simp]: "0 < ty_bits ty"
  by (cases ty) simp_all

lemma in_ty_wrap_ty [simp]: "in_ty ty (wrap_ty ty n)"
proof (cases "ty_signed ty")
  case True
  then show ?thesis
    using signed_take_bit_int_greater_eq_minus_exp [of "ty_bits ty - 1" n]
      signed_take_bit_int_less_exp [of "ty_bits ty - 1" n]
    by (simp add: in_ty_def wrap_ty_def)
next
  case False
  then show ?thesis by (simp add: in_ty_def wrap_ty_def)
qed

lemma wrap_ty_in_ty: "in_ty ty n \<Longrightarrow> wrap_ty ty n = n"
proof (cases "ty_signed ty")
  case True
  moreover assume "in_ty ty n"
  ultimately show ?thesis
    by (auto simp: wrap_ty_def in_ty_def intro!: signed_take_bit_int_eq_self)
next
  case False
  moreover assume "in_ty ty n"
  ultimately show ?thesis
    by (auto simp: wrap_ty_def in_ty_def intro!: take_bit_int_eq_self)
qed

lemma in_ty_as_ty [simp, intro]: "in_ty ty (as_ty ty v)"
  by (simp add: as_ty_def)

lemma in_ty_sint: "in_ty I64 (sint (v :: i64))"
  using sint_range_size [of v] by (simp add: in_ty_def word_size)

lemma in_ty_i64: "into_i64 ty \<Longrightarrow> in_ty ty n \<Longrightarrow> in_ty I64 n"
  by (cases ty) (auto simp: in_ty_def into_i64_def)

lemma sint_as_i64: "in_ty I64 n \<Longrightarrow> sint (as_i64 n) = n"
  using wrap_ty_in_ty [of I64 n] by (simp add: as_i64_def wrap_ty_def sint_sbintrunc')

lemma wrap_ty_sint_as_i64: "wrap_ty ty (sint (as_i64 n)) = wrap_ty ty n"
  by (cases ty)
    (simp_all add: wrap_ty_def as_i64_def sint_sbintrunc' signed_take_bit_signed_take_bit
      take_bit_signed_take_bit min_def)

lemma as_ty_as_i64 [simp]: "in_ty ty n \<Longrightarrow> as_ty ty (as_i64 n) = n"
  by (simp add: as_ty_def wrap_ty_sint_as_i64 wrap_ty_in_ty)

lemma as_i64_sint [simp]: "as_i64 (sint v) = v"
  by (simp add: as_i64_def)

lemma try_from_as_i64 [simp]: "in_ty ty n \<Longrightarrow> in_ty I64 n \<Longrightarrow> try_from ty (as_i64 n) = Some n"
  by (simp add: try_from_def sint_as_i64)

lemma try_from_Some: "try_from ty v = Some n \<longleftrightarrow> in_ty ty n \<and> n = sint v"
  by (auto simp: try_from_def)

lemma i64_try_from_inj:
  "in_ty I64 m \<Longrightarrow> in_ty I64 n \<Longrightarrow> i64_try_from m = i64_try_from n \<longleftrightarrow> m = n"
  by (metis i64_try_from_def option.inject sint_as_i64)

section \<open>NIF results\<close>

text \<open>A NIF returns a term or an error: \<open>Error::BadArg\<close> (with it every failure to decode an argument,
  whose text is rustler's), \<open>Error::Term\<close>, which the caller sees as \<open>{:error, term}\<close>, or
  \<open>Error::RaiseTerm\<close>, which is raised.\<close>

datatype nif_error = BadArg | ErrorTerm nterm | RaiseTerm nterm

type_synonym 'a NifResult = "nif_error + 'a"

abbreviation error_text :: "string \<Rightarrow> nif_error" where
  "error_text s \<equiv> ErrorTerm (Utf8 s)"

section \<open>Decoding terms\<close>

definition enc_i64 :: "i64 \<Rightarrow> nterm" where
  "enc_i64 v = Integer (sint v)"

definition enc_bool :: "bool \<Rightarrow> nterm" where
  "enc_bool b = Atom (if b then ''true'' else ''false'')"

fun dec_i64 :: "nterm \<Rightarrow> i64 NifResult" where
  "dec_i64 (Integer n) = (if in_ty I64 n then Inr (as_i64 n) else Inl BadArg)"
| "dec_i64 _ = Inl BadArg"

fun dec_u8 :: "nterm \<Rightarrow> u8 NifResult" where
  "dec_u8 (Integer n) = (if in_ty U8 n then Inr (word_of_int n) else Inl BadArg)"
| "dec_u8 _ = Inl BadArg"

fun dec_bool :: "nterm \<Rightarrow> bool NifResult" where
  "dec_bool (Atom a) =
     (if a = ''true'' then Inr True else if a = ''false'' then Inr False else Inl BadArg)"
| "dec_bool _ = Inl BadArg"

fun dec_string :: "nterm \<Rightarrow> string NifResult" where
  "dec_string (Utf8 s) = Inr s"
| "dec_string _ = Inl BadArg"

fun dec_f64 :: "nterm \<Rightarrow> f64 NifResult" where
  "dec_f64 (Float x) = Inr x"
| "dec_f64 _ = Inl BadArg"

fun dec_list :: "(nterm \<Rightarrow> 'a NifResult) \<Rightarrow> nterm \<Rightarrow> 'a list NifResult" where
  "dec_list d (Lst ts) = collect_results (map d ts)"
| "dec_list d _ = Inl BadArg"

definition dec_option :: "(nterm \<Rightarrow> 'a NifResult) \<Rightarrow> nterm \<Rightarrow> 'a option NifResult" where
  "dec_option d t =
     (case d t of Inr a \<Rightarrow> Inr (Some a) | Inl _ \<Rightarrow> if t = Atom ''nil'' then Inr None else Inl BadArg)"

text \<open>\<open>derive(NifMap)\<close>: a structure is a map from its field names. Reading looks every field up and
  decodes it, in the order of declaration, and ignores other keys.\<close>

definition nif_map :: "(string \<times> nterm) list \<Rightarrow> nterm" where
  "nif_map ps = Dict (foldr (\<lambda>(k, v). map_put k v) ps [])"

fun nif_field :: "string \<Rightarrow> (nterm \<Rightarrow> 'a NifResult) \<Rightarrow> nterm \<Rightarrow> 'a NifResult" where
  "nif_field k d (Dict m) = (case map_of m k of None \<Rightarrow> Inl BadArg | Some t \<Rightarrow> d t)"
| "nif_field k d _ = Inl BadArg"

lemma map_of_foldr_map_put: "map_of (foldr (\<lambda>(k, v). map_put k v) ps []) = map_of ps"
  by (induction ps) auto

lemma nif_field_nif_map [simp]:
  "nif_field k d (nif_map ps) = (case map_of ps k of None \<Rightarrow> Inl BadArg | Some t \<Rightarrow> d t)"
  by (simp add: nif_map_def map_of_foldr_map_put)

text \<open>Looking up a literal key in a literal map, with nothing else simplified.\<close>

lemmas nif_lookup =
  nif_field_nif_map map_of.simps fun_upd_apply fst_conv snd_conv list.inject list.distinct char.inject
  HOL.simp_thms if_True if_False option.case and_then_simps

text \<open>The contract of a boundary type: what is encoded decodes, and \<open>nil\<close> does not, so that an
  optional value is unambiguous.\<close>

locale nif_codec =
  fixes enc :: "'a \<Rightarrow> nterm"
    and dec :: "nterm \<Rightarrow> 'a NifResult"
  assumes decodes: "dec (enc a) = Inr a"
    and nil_refused: "isl (dec (Atom ''nil''))"
begin

lemma enc_not_nil: "enc a \<noteq> Atom ''nil''"
  using decodes [of a] nil_refused by auto

lemma option_decodes: "dec_option dec (enc_option enc x) = Inr x"
  using nil_refused by (cases x) (auto simp: dec_option_def enc_option_def decodes split: sum.split)

lemma list_decodes: "dec_list dec (enc_list enc xs) = Inr xs"
  by (simp add: enc_list_def decodes comp_def collect_results_Inr)

lemma enc_eq_iff: "enc a = enc b \<longleftrightarrow> a = b"
  by (metis decodes sum.inject(2))

end

sublocale nif_codec \<subseteq> lossless_codec True enc dec
  by unfold_locales (simp_all add: decodes)

interpretation nif_i64: nif_codec enc_i64 dec_i64
  by unfold_locales (simp_all add: enc_i64_def in_ty_sint)

interpretation nif_u8: nif_codec enc_u8 dec_u8
proof
  show "dec_u8 (enc_u8 b) = Inr b" for b
    using uint_range_size [of b] by (simp add: enc_u8_def in_ty_def word_size)
qed simp

interpretation nif_bool: nif_codec enc_bool dec_bool
  by unfold_locales (simp_all add: enc_bool_def)

interpretation nif_string: nif_codec Utf8 dec_string
  by unfold_locales simp_all

interpretation nif_f64: nif_codec Float dec_f64
  by unfold_locales simp_all

lemmas nif_scalar_simps [codec_simps] =
  nif_i64.decodes nif_i64.option_decodes nif_i64.list_decodes
  nif_u8.decodes nif_u8.list_decodes nif_bool.decodes nif_bool.option_decodes nif_bool.list_decodes
  nif_string.decodes nif_string.option_decodes nif_f64.decodes nif_f64.option_decodes

lemma bits_option_decodes [codec_simps]:
  "dec_option (dec_list dec_bool) (enc_option (enc_list enc_bool) x) = Inr x"
  by (cases x) (simp_all add: dec_option_def enc_option_def nif_bool.list_decodes)

section \<open>Building core values from boundary structures\<close>

text \<open>
  A core structure and its boundary form. \<open>to\<close> fills the boundary form; the way back either casts
  every field (\<open>cast\<close>, which never fails but may alter a field) or checks it (\<open>build\<close>). \<open>carried\<close>
  says that every integer of the core value is one of the type it is declared with.
\<close>

named_theorems build_returns \<open>building from the boundary form of a carried value\<close>
named_theorems build_sound \<open>what a successful build says of its argument\<close>

locale casting_build =
  fixes carried :: "'m \<Rightarrow> bool"
    and to :: "'m \<Rightarrow> 'f"
    and cast :: "'f \<Rightarrow> 'm"
  assumes returns: "carried m \<Longrightarrow> cast (to m) = m"
    and typed: "carried (cast f)"
begin

lemma option_returns: "pred_option carried x \<Longrightarrow> map_option cast (map_option to x) = x"
  by (cases x) (simp_all add: returns)

lemma list_returns: "list_all carried ms \<Longrightarrow> map (cast \<circ> to) ms = ms"
  by (induction ms) (simp_all add: returns)

lemma list_typed: "list_all carried (map cast fs)"
  by (simp add: list_all_iff typed)

lemma carried_image: "carried m \<longleftrightarrow> (\<exists>f. m = cast f)"
  using returns typed by metis

end

locale checked_build =
  fixes laws :: bool
    and carried :: "'m \<Rightarrow> bool"
    and to :: "'m \<Rightarrow> 'f"
    and build :: "'f \<Rightarrow> 'm NifResult"
  assumes returns: "laws \<Longrightarrow> carried m \<Longrightarrow> build (to m) = Inr m"
    and sound: "build f = Inr m \<Longrightarrow> carried m \<and> to m = f"
begin

lemma build_iff: "laws \<Longrightarrow> build f = Inr m \<longleftrightarrow> carried m \<and> to m = f"
  using returns sound by blast

lemma option_returns:
  "laws \<Longrightarrow> pred_option carried x \<Longrightarrow> transpose_option (map_option build (map_option to x)) = Inr x"
  by (cases x) (simp_all add: returns)

lemma option_sound:
  "transpose_option (map_option build y) = Inr x \<Longrightarrow> pred_option carried x \<and> map_option to x = y"
  by (cases y) (auto simp: map_ok_def and_then_eq_Inr dest: sound)

lemma list_returns:
  "laws \<Longrightarrow> list_all carried ms \<Longrightarrow> collect_results (map (build \<circ> to) ms) = Inr ms"
  by (induction ms) (simp_all add: returns)

lemma list_sound:
  "collect_results (map build fs) = Inr ms \<Longrightarrow> list_all carried ms \<and> map to ms = fs"
proof (induction fs arbitrary: ms)
  case (Cons f fs)
  then show ?case by (auto simp: map_ok_def and_then_eq_Inr dest: sound)
qed simp

end

lemma cast_option_returns [build_returns]:
  "pred_option (in_ty ty) x \<Longrightarrow> map_option (as_ty ty) (map_option as_i64 x) = x"
  by (cases x) simp_all

lemma cast_option_typed [build_returns]: "pred_option (in_ty ty) (map_option (as_ty ty) y)"
  by (cases y) simp_all

text \<open>The checked narrowing of the source: \<open>T::try_from(value)\<close> with a fixed refusal.\<close>

definition checked :: "nif_error \<Rightarrow> int_ty \<Rightarrow> i64 \<Rightarrow> int NifResult" where
  "checked e ty v = ok_or e (try_from ty v)"

lemma checked_Inr: "checked e ty v = Inr n \<longleftrightarrow> in_ty ty n \<and> n = sint v"
  by (auto simp: checked_def ok_or_eq_Inr try_from_Some)

interpretation checked: checked_build "into_i64 ty" "in_ty ty" as_i64 "checked e ty" for e ty
  by unfold_locales (auto simp: checked_def ok_or_eq_Inr try_from_Some in_ty_i64)

lemma checked_wide [build_returns]:
  "in_ty U64 n \<Longrightarrow> in_ty I64 n \<Longrightarrow> checked e U64 (as_i64 n) = Inr n"
  by (simp add: checked_def)

lemma checked_sound [build_sound]:
  "checked e ty v = Inr n \<Longrightarrow> in_ty ty n \<and> in_ty I64 n \<and> as_i64 n = v"
  by (auto simp: checked_Inr in_ty_sint)

lemmas checked_option_sound [build_sound] = checked.option_sound
lemmas checked_list_sound [build_sound] = checked.list_sound
lemmas checked_returns [build_returns] =
  checked.returns checked.option_returns checked.list_returns

lemma into_i64_simps [simp]:
  "into_i64 U8" "into_i64 U16" "into_i64 U32" "\<not> into_i64 U64"
  "into_i64 I8" "into_i64 I16" "into_i64 I32" "into_i64 I64"
  by (simp_all add: into_i64_def)

text \<open>\<open>checked_rtcm_integer\<close> names the field it refuses.\<close>

definition checked_rtcm_integer :: "int_ty \<Rightarrow> string \<Rightarrow> i64 \<Rightarrow> int NifResult" where
  "checked_rtcm_integer ty field = checked (error_text (''invalid RTCM '' @ field)) ty"

interpretation checked_rtcm_integer: checked_build "into_i64 ty" "in_ty ty" as_i64
  "checked_rtcm_integer ty field" for ty field
  by unfold_locales (auto simp: checked_rtcm_integer_def checked.returns dest: checked_sound)

lemma checked_rtcm_integer_wide [build_returns]:
  "in_ty ty n \<Longrightarrow> in_ty I64 n \<Longrightarrow> checked_rtcm_integer ty field (as_i64 n) = Inr n"
  by (simp add: checked_rtcm_integer_def checked_def)

lemma checked_rtcm_integer_sound [build_sound]:
  "checked_rtcm_integer ty field v = Inr n \<Longrightarrow> in_ty ty n \<and> in_ty I64 n \<and> as_i64 n = v"
  by (auto simp: checked_rtcm_integer_def checked_Inr in_ty_sint)

lemmas checked_rtcm_integer_option_sound [build_sound] = checked_rtcm_integer.option_sound
lemmas checked_rtcm_integer_returns [build_returns] =
  checked_rtcm_integer.returns checked_rtcm_integer.option_returns

end
