(* ===== verification/RtcmObservation.thy ===== *)
theory RtcmObservation
  imports NifTerm Text
begin

text \<open>
  The station, antenna, legacy observation and multiple signal messages (MSM) of
  \<open>native/sidereon_nif/src/rtcm.rs\<close>, with their boundary structures and the conversions both ways.
  Station and antenna fields and the MSM header and satellites are cast; legacy observations and
  MSM signals are checked.
\<close>

section \<open>Station coordinates\<close>

record StationCoordinatesFields =
  scf_message_number :: i64
  scf_reference_station_id :: i64
  scf_itrf_realization_year :: i64
  scf_gps_indicator :: bool
  scf_glonass_indicator :: bool
  scf_galileo_indicator :: bool
  scf_reference_station_indicator :: bool
  scf_ecef_x :: i64
  scf_single_receiver_oscillator :: bool
  scf_reserved :: bool
  scf_ecef_y :: i64
  scf_quarter_cycle_indicator :: i64
  scf_ecef_z :: i64
  scf_antenna_height :: "i64 option"
  scf_x_m :: f64
  scf_y_m :: f64
  scf_z_m :: f64
  scf_antenna_height_m :: "f64 option"
  scf_trailing_bits :: "bool list"

definition enc_StationCoordinatesFields :: "StationCoordinatesFields \<Rightarrow> nterm" where
  "enc_StationCoordinatesFields f = nif_map
     [(''message_number'', enc_i64 (scf_message_number f)),
      (''reference_station_id'', enc_i64 (scf_reference_station_id f)),
      (''itrf_realization_year'', enc_i64 (scf_itrf_realization_year f)),
      (''gps_indicator'', enc_bool (scf_gps_indicator f)),
      (''glonass_indicator'', enc_bool (scf_glonass_indicator f)),
      (''galileo_indicator'', enc_bool (scf_galileo_indicator f)),
      (''reference_station_indicator'', enc_bool (scf_reference_station_indicator f)),
      (''ecef_x'', enc_i64 (scf_ecef_x f)),
      (''single_receiver_oscillator'', enc_bool (scf_single_receiver_oscillator f)),
      (''reserved'', enc_bool (scf_reserved f)), (''ecef_y'', enc_i64 (scf_ecef_y f)),
      (''quarter_cycle_indicator'', enc_i64 (scf_quarter_cycle_indicator f)),
      (''ecef_z'', enc_i64 (scf_ecef_z f)),
      (''antenna_height'', enc_option enc_i64 (scf_antenna_height f)), (''x_m'', Float (scf_x_m f)),
      (''y_m'', Float (scf_y_m f)), (''z_m'', Float (scf_z_m f)),
      (''antenna_height_m'', enc_option Float (scf_antenna_height_m f)),
      (''trailing_bits'', enc_list enc_bool (scf_trailing_bits f))]"

definition dec_StationCoordinatesFields :: "nterm \<Rightarrow> StationCoordinatesFields NifResult" where
  "dec_StationCoordinatesFields t =
     and_then (nif_field ''message_number'' dec_i64 t) (\<lambda>message_number.
     and_then (nif_field ''reference_station_id'' dec_i64 t) (\<lambda>reference_station_id.
     and_then (nif_field ''itrf_realization_year'' dec_i64 t) (\<lambda>itrf_realization_year.
     and_then (nif_field ''gps_indicator'' dec_bool t) (\<lambda>gps_indicator.
     and_then (nif_field ''glonass_indicator'' dec_bool t) (\<lambda>glonass_indicator.
     and_then (nif_field ''galileo_indicator'' dec_bool t) (\<lambda>galileo_indicator.
     and_then (nif_field ''reference_station_indicator'' dec_bool t) (\<lambda>reference_station_indicator.
     and_then (nif_field ''ecef_x'' dec_i64 t) (\<lambda>ecef_x.
     and_then (nif_field ''single_receiver_oscillator'' dec_bool t) (\<lambda>single_receiver_oscillator.
     and_then (nif_field ''reserved'' dec_bool t) (\<lambda>reserved.
     and_then (nif_field ''ecef_y'' dec_i64 t) (\<lambda>ecef_y.
     and_then (nif_field ''quarter_cycle_indicator'' dec_i64 t) (\<lambda>quarter_cycle_indicator.
     and_then (nif_field ''ecef_z'' dec_i64 t) (\<lambda>ecef_z.
     and_then (nif_field ''antenna_height'' (dec_option dec_i64) t) (\<lambda>antenna_height.
     and_then (nif_field ''x_m'' dec_f64 t) (\<lambda>x_m.
     and_then (nif_field ''y_m'' dec_f64 t) (\<lambda>y_m.
     and_then (nif_field ''z_m'' dec_f64 t) (\<lambda>z_m.
     and_then (nif_field ''antenna_height_m'' (dec_option dec_f64) t) (\<lambda>antenna_height_m.
     and_then (nif_field ''trailing_bits'' (dec_list dec_bool) t) (\<lambda>trailing_bits.
     Inr \<lparr>scf_message_number = message_number, scf_reference_station_id = reference_station_id,
           scf_itrf_realization_year = itrf_realization_year, scf_gps_indicator = gps_indicator,
           scf_glonass_indicator = glonass_indicator, scf_galileo_indicator = galileo_indicator,
           scf_reference_station_indicator = reference_station_indicator, scf_ecef_x = ecef_x,
           scf_single_receiver_oscillator = single_receiver_oscillator, scf_reserved = reserved,
           scf_ecef_y = ecef_y, scf_quarter_cycle_indicator = quarter_cycle_indicator,
           scf_ecef_z = ecef_z, scf_antenna_height = antenna_height, scf_x_m = x_m, scf_y_m = y_m,
           scf_z_m = z_m, scf_antenna_height_m = antenna_height_m, scf_trailing_bits = trailing_bits\<rparr>)))))))))))))))))))"

interpretation scf: nif_codec enc_StationCoordinatesFields dec_StationCoordinatesFields
  by unfold_locales (simp_all only: enc_StationCoordinatesFields_def dec_StationCoordinatesFields_def nif_lookup codec_simps, simp_all)

lemmas StationCoordinatesFields_codec [codec_simps] =
  scf.decodes scf.option_decodes scf.list_decodes

record StationCoordinatesInput =
  sci_message_number :: i64
  sci_reference_station_id :: i64
  sci_itrf_realization_year :: i64
  sci_gps_indicator :: bool
  sci_glonass_indicator :: bool
  sci_galileo_indicator :: bool
  sci_reference_station_indicator :: bool
  sci_ecef_x :: i64
  sci_single_receiver_oscillator :: bool
  sci_reserved :: bool
  sci_ecef_y :: i64
  sci_quarter_cycle_indicator :: i64
  sci_ecef_z :: i64
  sci_antenna_height :: "i64 option"
  sci_trailing_bits :: "bool list"

definition enc_StationCoordinatesInput :: "StationCoordinatesInput \<Rightarrow> nterm" where
  "enc_StationCoordinatesInput f = nif_map
     [(''message_number'', enc_i64 (sci_message_number f)),
      (''reference_station_id'', enc_i64 (sci_reference_station_id f)),
      (''itrf_realization_year'', enc_i64 (sci_itrf_realization_year f)),
      (''gps_indicator'', enc_bool (sci_gps_indicator f)),
      (''glonass_indicator'', enc_bool (sci_glonass_indicator f)),
      (''galileo_indicator'', enc_bool (sci_galileo_indicator f)),
      (''reference_station_indicator'', enc_bool (sci_reference_station_indicator f)),
      (''ecef_x'', enc_i64 (sci_ecef_x f)),
      (''single_receiver_oscillator'', enc_bool (sci_single_receiver_oscillator f)),
      (''reserved'', enc_bool (sci_reserved f)), (''ecef_y'', enc_i64 (sci_ecef_y f)),
      (''quarter_cycle_indicator'', enc_i64 (sci_quarter_cycle_indicator f)),
      (''ecef_z'', enc_i64 (sci_ecef_z f)),
      (''antenna_height'', enc_option enc_i64 (sci_antenna_height f)),
      (''trailing_bits'', enc_list enc_bool (sci_trailing_bits f))]"

definition dec_StationCoordinatesInput :: "nterm \<Rightarrow> StationCoordinatesInput NifResult" where
  "dec_StationCoordinatesInput t =
     and_then (nif_field ''message_number'' dec_i64 t) (\<lambda>message_number.
     and_then (nif_field ''reference_station_id'' dec_i64 t) (\<lambda>reference_station_id.
     and_then (nif_field ''itrf_realization_year'' dec_i64 t) (\<lambda>itrf_realization_year.
     and_then (nif_field ''gps_indicator'' dec_bool t) (\<lambda>gps_indicator.
     and_then (nif_field ''glonass_indicator'' dec_bool t) (\<lambda>glonass_indicator.
     and_then (nif_field ''galileo_indicator'' dec_bool t) (\<lambda>galileo_indicator.
     and_then (nif_field ''reference_station_indicator'' dec_bool t) (\<lambda>reference_station_indicator.
     and_then (nif_field ''ecef_x'' dec_i64 t) (\<lambda>ecef_x.
     and_then (nif_field ''single_receiver_oscillator'' dec_bool t) (\<lambda>single_receiver_oscillator.
     and_then (nif_field ''reserved'' dec_bool t) (\<lambda>reserved.
     and_then (nif_field ''ecef_y'' dec_i64 t) (\<lambda>ecef_y.
     and_then (nif_field ''quarter_cycle_indicator'' dec_i64 t) (\<lambda>quarter_cycle_indicator.
     and_then (nif_field ''ecef_z'' dec_i64 t) (\<lambda>ecef_z.
     and_then (nif_field ''antenna_height'' (dec_option dec_i64) t) (\<lambda>antenna_height.
     and_then (nif_field ''trailing_bits'' (dec_list dec_bool) t) (\<lambda>trailing_bits.
     Inr \<lparr>sci_message_number = message_number, sci_reference_station_id = reference_station_id,
           sci_itrf_realization_year = itrf_realization_year, sci_gps_indicator = gps_indicator,
           sci_glonass_indicator = glonass_indicator, sci_galileo_indicator = galileo_indicator,
           sci_reference_station_indicator = reference_station_indicator, sci_ecef_x = ecef_x,
           sci_single_receiver_oscillator = single_receiver_oscillator, sci_reserved = reserved,
           sci_ecef_y = ecef_y, sci_quarter_cycle_indicator = quarter_cycle_indicator,
           sci_ecef_z = ecef_z, sci_antenna_height = antenna_height, sci_trailing_bits = trailing_bits\<rparr>)))))))))))))))"

interpretation sci: nif_codec enc_StationCoordinatesInput dec_StationCoordinatesInput
  by unfold_locales (simp_all only: enc_StationCoordinatesInput_def dec_StationCoordinatesInput_def nif_lookup codec_simps, simp_all)

lemmas StationCoordinatesInput_codec [codec_simps] =
  sci.decodes sci.option_decodes sci.list_decodes

record StationCoordinates =
  sc_message_number :: int
  sc_reference_station_id :: int
  sc_itrf_realization_year :: int
  sc_gps_indicator :: bool
  sc_glonass_indicator :: bool
  sc_galileo_indicator :: bool
  sc_reference_station_indicator :: bool
  sc_ecef_x :: i64
  sc_single_receiver_oscillator :: bool
  sc_reserved :: bool
  sc_ecef_y :: i64
  sc_quarter_cycle_indicator :: int
  sc_ecef_z :: i64
  sc_antenna_height :: "int option"
  sc_trailing_bits :: "bool list"

definition carried_StationCoordinates :: "StationCoordinates \<Rightarrow> bool" where
  "carried_StationCoordinates m \<longleftrightarrow>
     in_ty U16 (sc_message_number m) \<and> in_ty U16 (sc_reference_station_id m) \<and>
     in_ty U8 (sc_itrf_realization_year m) \<and> in_ty U8 (sc_quarter_cycle_indicator m) \<and>
     pred_option (in_ty U16) (sc_antenna_height m)"

definition StationCoordinatesFields_from :: "(StationCoordinates \<Rightarrow> f64) \<Rightarrow> (StationCoordinates \<Rightarrow> f64) \<Rightarrow> (StationCoordinates \<Rightarrow> f64) \<Rightarrow> (StationCoordinates \<Rightarrow> f64 option) \<Rightarrow> StationCoordinates \<Rightarrow> StationCoordinatesFields" where
  "StationCoordinatesFields_from x_m y_m z_m antenna_height_m m =
     \<lparr>scf_message_number = as_i64 (sc_message_number m),
      scf_reference_station_id = as_i64 (sc_reference_station_id m),
      scf_itrf_realization_year = as_i64 (sc_itrf_realization_year m),
      scf_gps_indicator = sc_gps_indicator m, scf_glonass_indicator = sc_glonass_indicator m,
      scf_galileo_indicator = sc_galileo_indicator m,
      scf_reference_station_indicator = sc_reference_station_indicator m, scf_ecef_x = sc_ecef_x m,
      scf_single_receiver_oscillator = sc_single_receiver_oscillator m, scf_reserved = sc_reserved m,
      scf_ecef_y = sc_ecef_y m, scf_quarter_cycle_indicator = as_i64 (sc_quarter_cycle_indicator m),
      scf_ecef_z = sc_ecef_z m, scf_antenna_height = map_option as_i64 (sc_antenna_height m),
      scf_x_m = x_m m, scf_y_m = y_m m, scf_z_m = z_m m, scf_antenna_height_m = antenna_height_m m,
      scf_trailing_bits = sc_trailing_bits m\<rparr>"

definition StationCoordinates_from :: "StationCoordinatesInput \<Rightarrow> StationCoordinates" where
  "StationCoordinates_from f =
     \<lparr>sc_message_number = as_ty U16 (sci_message_number f),
      sc_reference_station_id = as_ty U16 (sci_reference_station_id f),
      sc_itrf_realization_year = as_ty U8 (sci_itrf_realization_year f),
      sc_gps_indicator = sci_gps_indicator f, sc_glonass_indicator = sci_glonass_indicator f,
      sc_galileo_indicator = sci_galileo_indicator f,
      sc_reference_station_indicator = sci_reference_station_indicator f, sc_ecef_x = sci_ecef_x f,
      sc_single_receiver_oscillator = sci_single_receiver_oscillator f, sc_reserved = sci_reserved f,
      sc_ecef_y = sci_ecef_y f, sc_quarter_cycle_indicator = as_ty U8 (sci_quarter_cycle_indicator f),
      sc_ecef_z = sci_ecef_z f, sc_antenna_height = map_option (as_ty U16) (sci_antenna_height f),
      sc_trailing_bits = sci_trailing_bits f\<rparr>"

text \<open>The raw fields of a decoded map: what reading it as construction input keeps.\<close>

definition station_input :: "StationCoordinatesFields \<Rightarrow> StationCoordinatesInput" where
  "station_input f =
     \<lparr>sci_message_number = scf_message_number f, sci_reference_station_id = scf_reference_station_id f,
      sci_itrf_realization_year = scf_itrf_realization_year f, sci_gps_indicator = scf_gps_indicator f,
      sci_glonass_indicator = scf_glonass_indicator f, sci_galileo_indicator = scf_galileo_indicator f,
      sci_reference_station_indicator = scf_reference_station_indicator f, sci_ecef_x = scf_ecef_x f,
      sci_single_receiver_oscillator = scf_single_receiver_oscillator f, sci_reserved = scf_reserved f,
      sci_ecef_y = scf_ecef_y f, sci_quarter_cycle_indicator = scf_quarter_cycle_indicator f,
      sci_ecef_z = scf_ecef_z f, sci_antenna_height = scf_antenna_height f,
      sci_trailing_bits = scf_trailing_bits f\<rparr>"

lemma station_input_decodes [codec_simps]:
  "dec_StationCoordinatesInput (enc_StationCoordinatesFields f) = Inr (station_input f)"
  by (simp add: dec_StationCoordinatesInput_def enc_StationCoordinatesFields_def station_input_def codec_simps)

interpretation sc: casting_build carried_StationCoordinates
  "\<lambda>m. station_input (StationCoordinatesFields_from x_m y_m z_m antenna_height_m m)" StationCoordinates_from
  for x_m y_m z_m antenna_height_m
  by unfold_locales
    (simp_all add: carried_StationCoordinates_def station_input_def StationCoordinatesFields_from_def
      StationCoordinates_from_def build_returns)

section \<open>Antenna descriptors\<close>

record AntennaDescriptorFields =
  adf_message_number :: i64
  adf_reference_station_id :: i64
  adf_antenna_descriptor :: string
  adf_antenna_setup_id :: i64
  adf_antenna_serial_number :: "string option"
  adf_receiver_type :: "string option"
  adf_receiver_firmware_version :: "string option"
  adf_receiver_serial_number :: "string option"
  adf_trailing_bits :: "bool list"

definition enc_AntennaDescriptorFields :: "AntennaDescriptorFields \<Rightarrow> nterm" where
  "enc_AntennaDescriptorFields f = nif_map
     [(''message_number'', enc_i64 (adf_message_number f)),
      (''reference_station_id'', enc_i64 (adf_reference_station_id f)),
      (''antenna_descriptor'', Utf8 (adf_antenna_descriptor f)),
      (''antenna_setup_id'', enc_i64 (adf_antenna_setup_id f)),
      (''antenna_serial_number'', enc_option Utf8 (adf_antenna_serial_number f)),
      (''receiver_type'', enc_option Utf8 (adf_receiver_type f)),
      (''receiver_firmware_version'', enc_option Utf8 (adf_receiver_firmware_version f)),
      (''receiver_serial_number'', enc_option Utf8 (adf_receiver_serial_number f)),
      (''trailing_bits'', enc_list enc_bool (adf_trailing_bits f))]"

definition dec_AntennaDescriptorFields :: "nterm \<Rightarrow> AntennaDescriptorFields NifResult" where
  "dec_AntennaDescriptorFields t =
     and_then (nif_field ''message_number'' dec_i64 t) (\<lambda>message_number.
     and_then (nif_field ''reference_station_id'' dec_i64 t) (\<lambda>reference_station_id.
     and_then (nif_field ''antenna_descriptor'' dec_string t) (\<lambda>antenna_descriptor.
     and_then (nif_field ''antenna_setup_id'' dec_i64 t) (\<lambda>antenna_setup_id.
     and_then (nif_field ''antenna_serial_number'' (dec_option dec_string) t) (\<lambda>antenna_serial_number.
     and_then (nif_field ''receiver_type'' (dec_option dec_string) t) (\<lambda>receiver_type.
     and_then (nif_field ''receiver_firmware_version'' (dec_option dec_string) t) (\<lambda>receiver_firmware_version.
     and_then (nif_field ''receiver_serial_number'' (dec_option dec_string) t) (\<lambda>receiver_serial_number.
     and_then (nif_field ''trailing_bits'' (dec_list dec_bool) t) (\<lambda>trailing_bits.
     Inr \<lparr>adf_message_number = message_number, adf_reference_station_id = reference_station_id,
           adf_antenna_descriptor = antenna_descriptor, adf_antenna_setup_id = antenna_setup_id,
           adf_antenna_serial_number = antenna_serial_number, adf_receiver_type = receiver_type,
           adf_receiver_firmware_version = receiver_firmware_version,
           adf_receiver_serial_number = receiver_serial_number, adf_trailing_bits = trailing_bits\<rparr>)))))))))"

interpretation adf: nif_codec enc_AntennaDescriptorFields dec_AntennaDescriptorFields
  by unfold_locales (simp_all only: enc_AntennaDescriptorFields_def dec_AntennaDescriptorFields_def nif_lookup codec_simps, simp_all)

lemmas AntennaDescriptorFields_codec [codec_simps] =
  adf.decodes adf.option_decodes adf.list_decodes

record AntennaDescriptor =
  ad_message_number :: int
  ad_reference_station_id :: int
  ad_antenna_descriptor :: string
  ad_antenna_setup_id :: int
  ad_antenna_serial_number :: "string option"
  ad_receiver_type :: "string option"
  ad_receiver_firmware_version :: "string option"
  ad_receiver_serial_number :: "string option"
  ad_trailing_bits :: "bool list"

definition carried_AntennaDescriptor :: "AntennaDescriptor \<Rightarrow> bool" where
  "carried_AntennaDescriptor m \<longleftrightarrow>
     in_ty U16 (ad_message_number m) \<and> in_ty U16 (ad_reference_station_id m) \<and>
     in_ty U8 (ad_antenna_setup_id m)"

definition AntennaDescriptorFields_from :: "AntennaDescriptor \<Rightarrow> AntennaDescriptorFields" where
  "AntennaDescriptorFields_from m =
     \<lparr>adf_message_number = as_i64 (ad_message_number m),
      adf_reference_station_id = as_i64 (ad_reference_station_id m),
      adf_antenna_descriptor = ad_antenna_descriptor m,
      adf_antenna_setup_id = as_i64 (ad_antenna_setup_id m),
      adf_antenna_serial_number = ad_antenna_serial_number m, adf_receiver_type = ad_receiver_type m,
      adf_receiver_firmware_version = ad_receiver_firmware_version m,
      adf_receiver_serial_number = ad_receiver_serial_number m, adf_trailing_bits = ad_trailing_bits m\<rparr>"

definition AntennaDescriptor_from :: "AntennaDescriptorFields \<Rightarrow> AntennaDescriptor" where
  "AntennaDescriptor_from f =
     \<lparr>ad_message_number = as_ty U16 (adf_message_number f),
      ad_reference_station_id = as_ty U16 (adf_reference_station_id f),
      ad_antenna_descriptor = adf_antenna_descriptor f,
      ad_antenna_setup_id = as_ty U8 (adf_antenna_setup_id f),
      ad_antenna_serial_number = adf_antenna_serial_number f, ad_receiver_type = adf_receiver_type f,
      ad_receiver_firmware_version = adf_receiver_firmware_version f,
      ad_receiver_serial_number = adf_receiver_serial_number f, ad_trailing_bits = adf_trailing_bits f\<rparr>"

interpretation ad: casting_build carried_AntennaDescriptor AntennaDescriptorFields_from AntennaDescriptor_from
  by unfold_locales (simp_all add: carried_AntennaDescriptor_def AntennaDescriptorFields_from_def AntennaDescriptor_from_def build_returns)

section \<open>Legacy observations\<close>

record LegacyL1Fields =
  ll1f_code_indicator :: bool
  ll1f_pseudorange :: i64
  ll1f_phase_range_minus_pseudorange :: i64
  ll1f_lock_time_indicator :: i64
  ll1f_pseudorange_modulus_ambiguity :: "i64 option"
  ll1f_cnr :: "i64 option"

definition enc_LegacyL1Fields :: "LegacyL1Fields \<Rightarrow> nterm" where
  "enc_LegacyL1Fields f = nif_map
     [(''code_indicator'', enc_bool (ll1f_code_indicator f)),
      (''pseudorange'', enc_i64 (ll1f_pseudorange f)),
      (''phase_range_minus_pseudorange'', enc_i64 (ll1f_phase_range_minus_pseudorange f)),
      (''lock_time_indicator'', enc_i64 (ll1f_lock_time_indicator f)),
      (''pseudorange_modulus_ambiguity'', enc_option enc_i64 (ll1f_pseudorange_modulus_ambiguity f)),
      (''cnr'', enc_option enc_i64 (ll1f_cnr f))]"

definition dec_LegacyL1Fields :: "nterm \<Rightarrow> LegacyL1Fields NifResult" where
  "dec_LegacyL1Fields t =
     and_then (nif_field ''code_indicator'' dec_bool t) (\<lambda>code_indicator.
     and_then (nif_field ''pseudorange'' dec_i64 t) (\<lambda>pseudorange.
     and_then (nif_field ''phase_range_minus_pseudorange'' dec_i64 t) (\<lambda>phase_range_minus_pseudorange.
     and_then (nif_field ''lock_time_indicator'' dec_i64 t) (\<lambda>lock_time_indicator.
     and_then (nif_field ''pseudorange_modulus_ambiguity'' (dec_option dec_i64) t) (\<lambda>pseudorange_modulus_ambiguity.
     and_then (nif_field ''cnr'' (dec_option dec_i64) t) (\<lambda>cnr.
     Inr \<lparr>ll1f_code_indicator = code_indicator, ll1f_pseudorange = pseudorange,
           ll1f_phase_range_minus_pseudorange = phase_range_minus_pseudorange,
           ll1f_lock_time_indicator = lock_time_indicator,
           ll1f_pseudorange_modulus_ambiguity = pseudorange_modulus_ambiguity, ll1f_cnr = cnr\<rparr>))))))"

interpretation ll1f: nif_codec enc_LegacyL1Fields dec_LegacyL1Fields
  by unfold_locales (simp_all only: enc_LegacyL1Fields_def dec_LegacyL1Fields_def nif_lookup codec_simps, simp_all)

lemmas LegacyL1Fields_codec [codec_simps] =
  ll1f.decodes ll1f.option_decodes ll1f.list_decodes

record LegacyL1 =
  ll1_code_indicator :: bool
  ll1_pseudorange :: int
  ll1_phase_range_minus_pseudorange :: int
  ll1_lock_time_indicator :: int
  ll1_pseudorange_modulus_ambiguity :: "int option"
  ll1_cnr :: "int option"

definition carried_LegacyL1 :: "LegacyL1 \<Rightarrow> bool" where
  "carried_LegacyL1 m \<longleftrightarrow>
     in_ty U32 (ll1_pseudorange m) \<and> in_ty I32 (ll1_phase_range_minus_pseudorange m) \<and>
     in_ty U8 (ll1_lock_time_indicator m) \<and>
     pred_option (in_ty U8) (ll1_pseudorange_modulus_ambiguity m) \<and>
     pred_option (in_ty U8) (ll1_cnr m)"

definition LegacyL1Fields_from :: "LegacyL1 \<Rightarrow> LegacyL1Fields" where
  "LegacyL1Fields_from m =
     \<lparr>ll1f_code_indicator = ll1_code_indicator m, ll1f_pseudorange = as_i64 (ll1_pseudorange m),
      ll1f_phase_range_minus_pseudorange = as_i64 (ll1_phase_range_minus_pseudorange m),
      ll1f_lock_time_indicator = as_i64 (ll1_lock_time_indicator m),
      ll1f_pseudorange_modulus_ambiguity = map_option as_i64 (ll1_pseudorange_modulus_ambiguity m),
      ll1f_cnr = map_option as_i64 (ll1_cnr m)\<rparr>"

definition checked_legacy_l1 :: "LegacyL1Fields \<Rightarrow> LegacyL1 NifResult" where
  "checked_legacy_l1 f =
     and_then (checked (error_text ''invalid legacy observation field'') U32
       (ll1f_pseudorange f)) (\<lambda>pseudorange.
     and_then (checked (error_text ''invalid legacy observation field'') I32
       (ll1f_phase_range_minus_pseudorange f)) (\<lambda>phase_range_minus_pseudorange.
     and_then (checked (error_text ''invalid legacy observation field'') U8
       (ll1f_lock_time_indicator f)) (\<lambda>lock_time_indicator.
     and_then (transpose_option (map_option (checked (error_text ''invalid legacy observation field'') U8)
       (ll1f_pseudorange_modulus_ambiguity f))) (\<lambda>pseudorange_modulus_ambiguity.
     and_then (transpose_option (map_option (checked (error_text ''invalid legacy observation field'') U8)
       (ll1f_cnr f))) (\<lambda>cnr.
     Inr \<lparr>ll1_code_indicator = ll1f_code_indicator f, ll1_pseudorange = pseudorange,
           ll1_phase_range_minus_pseudorange = phase_range_minus_pseudorange,
           ll1_lock_time_indicator = lock_time_indicator,
           ll1_pseudorange_modulus_ambiguity = pseudorange_modulus_ambiguity, ll1_cnr = cnr\<rparr>)))))"

interpretation ll1: checked_build "True"
  carried_LegacyL1 LegacyL1Fields_from checked_legacy_l1
  by (unfold_locales,
      simp add: carried_LegacyL1_def LegacyL1Fields_from_def checked_legacy_l1_def
        build_returns)
    (auto simp: carried_LegacyL1_def LegacyL1Fields_from_def checked_legacy_l1_def
      and_then_eq_Inr split: if_splits dest!: build_sound)

lemmas ll1_build_returns [build_returns] = ll1.returns ll1.list_returns ll1.option_returns
lemmas ll1_build_sound [build_sound] = ll1.sound ll1.list_sound ll1.option_sound

record LegacyL2Fields =
  ll2f_code_indicator :: i64
  ll2f_pseudorange_difference :: i64
  ll2f_phase_range_minus_l1_pseudorange :: i64
  ll2f_lock_time_indicator :: i64
  ll2f_cnr :: "i64 option"

definition enc_LegacyL2Fields :: "LegacyL2Fields \<Rightarrow> nterm" where
  "enc_LegacyL2Fields f = nif_map
     [(''code_indicator'', enc_i64 (ll2f_code_indicator f)),
      (''pseudorange_difference'', enc_i64 (ll2f_pseudorange_difference f)),
      (''phase_range_minus_l1_pseudorange'', enc_i64 (ll2f_phase_range_minus_l1_pseudorange f)),
      (''lock_time_indicator'', enc_i64 (ll2f_lock_time_indicator f)),
      (''cnr'', enc_option enc_i64 (ll2f_cnr f))]"

definition dec_LegacyL2Fields :: "nterm \<Rightarrow> LegacyL2Fields NifResult" where
  "dec_LegacyL2Fields t =
     and_then (nif_field ''code_indicator'' dec_i64 t) (\<lambda>code_indicator.
     and_then (nif_field ''pseudorange_difference'' dec_i64 t) (\<lambda>pseudorange_difference.
     and_then (nif_field ''phase_range_minus_l1_pseudorange'' dec_i64 t) (\<lambda>phase_range_minus_l1_pseudorange.
     and_then (nif_field ''lock_time_indicator'' dec_i64 t) (\<lambda>lock_time_indicator.
     and_then (nif_field ''cnr'' (dec_option dec_i64) t) (\<lambda>cnr.
     Inr \<lparr>ll2f_code_indicator = code_indicator, ll2f_pseudorange_difference = pseudorange_difference,
           ll2f_phase_range_minus_l1_pseudorange = phase_range_minus_l1_pseudorange,
           ll2f_lock_time_indicator = lock_time_indicator, ll2f_cnr = cnr\<rparr>)))))"

interpretation ll2f: nif_codec enc_LegacyL2Fields dec_LegacyL2Fields
  by unfold_locales (simp_all only: enc_LegacyL2Fields_def dec_LegacyL2Fields_def nif_lookup codec_simps, simp_all)

lemmas LegacyL2Fields_codec [codec_simps] =
  ll2f.decodes ll2f.option_decodes ll2f.list_decodes

record LegacyL2 =
  ll2_code_indicator :: int
  ll2_pseudorange_difference :: int
  ll2_phase_range_minus_l1_pseudorange :: int
  ll2_lock_time_indicator :: int
  ll2_cnr :: "int option"

definition carried_LegacyL2 :: "LegacyL2 \<Rightarrow> bool" where
  "carried_LegacyL2 m \<longleftrightarrow>
     in_ty U8 (ll2_code_indicator m) \<and> in_ty I16 (ll2_pseudorange_difference m) \<and>
     in_ty I32 (ll2_phase_range_minus_l1_pseudorange m) \<and>
     in_ty U8 (ll2_lock_time_indicator m) \<and> pred_option (in_ty U8) (ll2_cnr m)"

definition LegacyL2Fields_from :: "LegacyL2 \<Rightarrow> LegacyL2Fields" where
  "LegacyL2Fields_from m =
     \<lparr>ll2f_code_indicator = as_i64 (ll2_code_indicator m),
      ll2f_pseudorange_difference = as_i64 (ll2_pseudorange_difference m),
      ll2f_phase_range_minus_l1_pseudorange = as_i64 (ll2_phase_range_minus_l1_pseudorange m),
      ll2f_lock_time_indicator = as_i64 (ll2_lock_time_indicator m),
      ll2f_cnr = map_option as_i64 (ll2_cnr m)\<rparr>"

definition checked_legacy_l2 :: "LegacyL2Fields \<Rightarrow> LegacyL2 NifResult" where
  "checked_legacy_l2 f =
     and_then (checked (error_text ''invalid legacy observation field'') U8
       (ll2f_code_indicator f)) (\<lambda>code_indicator.
     and_then (checked (error_text ''invalid legacy observation field'') I16
       (ll2f_pseudorange_difference f)) (\<lambda>pseudorange_difference.
     and_then (checked (error_text ''invalid legacy observation field'') I32
       (ll2f_phase_range_minus_l1_pseudorange f)) (\<lambda>phase_range_minus_l1_pseudorange.
     and_then (checked (error_text ''invalid legacy observation field'') U8
       (ll2f_lock_time_indicator f)) (\<lambda>lock_time_indicator.
     and_then (transpose_option (map_option (checked (error_text ''invalid legacy observation field'') U8)
       (ll2f_cnr f))) (\<lambda>cnr.
     Inr \<lparr>ll2_code_indicator = code_indicator, ll2_pseudorange_difference = pseudorange_difference,
           ll2_phase_range_minus_l1_pseudorange = phase_range_minus_l1_pseudorange,
           ll2_lock_time_indicator = lock_time_indicator, ll2_cnr = cnr\<rparr>)))))"

interpretation ll2: checked_build "True"
  carried_LegacyL2 LegacyL2Fields_from checked_legacy_l2
  by (unfold_locales,
      simp add: carried_LegacyL2_def LegacyL2Fields_from_def checked_legacy_l2_def
        build_returns)
    (auto simp: carried_LegacyL2_def LegacyL2Fields_from_def checked_legacy_l2_def
      and_then_eq_Inr split: if_splits dest!: build_sound)

lemmas ll2_build_returns [build_returns] = ll2.returns ll2.list_returns ll2.option_returns
lemmas ll2_build_sound [build_sound] = ll2.sound ll2.list_sound ll2.option_sound

record LegacySatelliteFields =
  lsf_satellite_id :: i64
  lsf_frequency_channel :: "i64 option"
  lsf_l1 :: LegacyL1Fields
  lsf_l2 :: "LegacyL2Fields option"

definition enc_LegacySatelliteFields :: "LegacySatelliteFields \<Rightarrow> nterm" where
  "enc_LegacySatelliteFields f = nif_map
     [(''satellite_id'', enc_i64 (lsf_satellite_id f)),
      (''frequency_channel'', enc_option enc_i64 (lsf_frequency_channel f)),
      (''l1'', enc_LegacyL1Fields (lsf_l1 f)), (''l2'', enc_option enc_LegacyL2Fields (lsf_l2 f))]"

definition dec_LegacySatelliteFields :: "nterm \<Rightarrow> LegacySatelliteFields NifResult" where
  "dec_LegacySatelliteFields t =
     and_then (nif_field ''satellite_id'' dec_i64 t) (\<lambda>satellite_id.
     and_then (nif_field ''frequency_channel'' (dec_option dec_i64) t) (\<lambda>frequency_channel.
     and_then (nif_field ''l1'' dec_LegacyL1Fields t) (\<lambda>l1.
     and_then (nif_field ''l2'' (dec_option dec_LegacyL2Fields) t) (\<lambda>l2.
     Inr \<lparr>lsf_satellite_id = satellite_id, lsf_frequency_channel = frequency_channel, lsf_l1 = l1,
           lsf_l2 = l2\<rparr>))))"

interpretation lsf: nif_codec enc_LegacySatelliteFields dec_LegacySatelliteFields
  by unfold_locales (simp_all only: enc_LegacySatelliteFields_def dec_LegacySatelliteFields_def nif_lookup codec_simps, simp_all)

lemmas LegacySatelliteFields_codec [codec_simps] =
  lsf.decodes lsf.option_decodes lsf.list_decodes

record LegacySatellite =
  ls_satellite_id :: int
  ls_frequency_channel :: "int option"
  ls_l1 :: LegacyL1
  ls_l2 :: "LegacyL2 option"

definition carried_LegacySatellite :: "LegacySatellite \<Rightarrow> bool" where
  "carried_LegacySatellite m \<longleftrightarrow>
     in_ty U8 (ls_satellite_id m) \<and> pred_option (in_ty U8) (ls_frequency_channel m) \<and>
     carried_LegacyL1 (ls_l1 m) \<and> pred_option carried_LegacyL2 (ls_l2 m)"

definition LegacySatelliteFields_from :: "LegacySatellite \<Rightarrow> LegacySatelliteFields" where
  "LegacySatelliteFields_from m =
     \<lparr>lsf_satellite_id = as_i64 (ls_satellite_id m),
      lsf_frequency_channel = map_option as_i64 (ls_frequency_channel m),
      lsf_l1 = LegacyL1Fields_from (ls_l1 m), lsf_l2 = map_option LegacyL2Fields_from (ls_l2 m)\<rparr>"

definition checked_legacy_satellite :: "LegacySatelliteFields \<Rightarrow> LegacySatellite NifResult" where
  "checked_legacy_satellite f =
     and_then (checked (error_text ''invalid legacy observation field'') U8
       (lsf_satellite_id f)) (\<lambda>satellite_id.
     and_then (transpose_option (map_option (checked (error_text ''invalid legacy observation field'') U8)
       (lsf_frequency_channel f))) (\<lambda>frequency_channel.
     and_then (checked_legacy_l1 (lsf_l1 f)) (\<lambda>l1.
     and_then (transpose_option (map_option checked_legacy_l2 (lsf_l2 f))) (\<lambda>l2.
     Inr \<lparr>ls_satellite_id = satellite_id, ls_frequency_channel = frequency_channel, ls_l1 = l1,
           ls_l2 = l2\<rparr>))))"

interpretation ls: checked_build "True"
  carried_LegacySatellite LegacySatelliteFields_from checked_legacy_satellite
  by (unfold_locales,
      simp add: carried_LegacySatellite_def LegacySatelliteFields_from_def checked_legacy_satellite_def
        build_returns)
    (auto simp: carried_LegacySatellite_def LegacySatelliteFields_from_def checked_legacy_satellite_def
      and_then_eq_Inr split: if_splits dest!: build_sound)

lemmas ls_build_returns [build_returns] = ls.returns ls.list_returns ls.option_returns
lemmas ls_build_sound [build_sound] = ls.sound ls.list_sound ls.option_sound

record LegacyObservationsFields =
  lof_message_number :: i64
  lof_reference_station_id :: i64
  lof_epoch_time :: i64
  lof_synchronous_gnss :: bool
  lof_satellite_count :: i64
  lof_divergence_free_smoothing :: bool
  lof_smoothing_interval :: i64
  lof_satellites :: "LegacySatelliteFields list"
  lof_trailing_bits :: "bool list"

definition enc_LegacyObservationsFields :: "LegacyObservationsFields \<Rightarrow> nterm" where
  "enc_LegacyObservationsFields f = nif_map
     [(''message_number'', enc_i64 (lof_message_number f)),
      (''reference_station_id'', enc_i64 (lof_reference_station_id f)),
      (''epoch_time'', enc_i64 (lof_epoch_time f)),
      (''synchronous_gnss'', enc_bool (lof_synchronous_gnss f)),
      (''satellite_count'', enc_i64 (lof_satellite_count f)),
      (''divergence_free_smoothing'', enc_bool (lof_divergence_free_smoothing f)),
      (''smoothing_interval'', enc_i64 (lof_smoothing_interval f)),
      (''satellites'', enc_list enc_LegacySatelliteFields (lof_satellites f)),
      (''trailing_bits'', enc_list enc_bool (lof_trailing_bits f))]"

definition dec_LegacyObservationsFields :: "nterm \<Rightarrow> LegacyObservationsFields NifResult" where
  "dec_LegacyObservationsFields t =
     and_then (nif_field ''message_number'' dec_i64 t) (\<lambda>message_number.
     and_then (nif_field ''reference_station_id'' dec_i64 t) (\<lambda>reference_station_id.
     and_then (nif_field ''epoch_time'' dec_i64 t) (\<lambda>epoch_time.
     and_then (nif_field ''synchronous_gnss'' dec_bool t) (\<lambda>synchronous_gnss.
     and_then (nif_field ''satellite_count'' dec_i64 t) (\<lambda>satellite_count.
     and_then (nif_field ''divergence_free_smoothing'' dec_bool t) (\<lambda>divergence_free_smoothing.
     and_then (nif_field ''smoothing_interval'' dec_i64 t) (\<lambda>smoothing_interval.
     and_then (nif_field ''satellites'' (dec_list dec_LegacySatelliteFields) t) (\<lambda>satellites.
     and_then (nif_field ''trailing_bits'' (dec_list dec_bool) t) (\<lambda>trailing_bits.
     Inr \<lparr>lof_message_number = message_number, lof_reference_station_id = reference_station_id,
           lof_epoch_time = epoch_time, lof_synchronous_gnss = synchronous_gnss,
           lof_satellite_count = satellite_count,
           lof_divergence_free_smoothing = divergence_free_smoothing,
           lof_smoothing_interval = smoothing_interval, lof_satellites = satellites,
           lof_trailing_bits = trailing_bits\<rparr>)))))))))"

interpretation lof: nif_codec enc_LegacyObservationsFields dec_LegacyObservationsFields
  by unfold_locales (simp_all only: enc_LegacyObservationsFields_def dec_LegacyObservationsFields_def nif_lookup codec_simps, simp_all)

lemmas LegacyObservationsFields_codec [codec_simps] =
  lof.decodes lof.option_decodes lof.list_decodes

record LegacyObservations =
  lo_message_number :: int
  lo_reference_station_id :: int
  lo_epoch_time :: int
  lo_synchronous_gnss :: bool
  lo_satellite_count :: int
  lo_divergence_free_smoothing :: bool
  lo_smoothing_interval :: int
  lo_satellites :: "LegacySatellite list"
  lo_trailing_bits :: "bool list"

definition carried_LegacyObservations :: "LegacyObservations \<Rightarrow> bool" where
  "carried_LegacyObservations m \<longleftrightarrow>
     in_ty U16 (lo_message_number m) \<and> in_ty U16 (lo_reference_station_id m) \<and>
     in_ty U32 (lo_epoch_time m) \<and> in_ty U8 (lo_satellite_count m) \<and>
     in_ty U8 (lo_smoothing_interval m) \<and> list_all carried_LegacySatellite (lo_satellites m)"

definition LegacyObservationsFields_from :: "LegacyObservations \<Rightarrow> LegacyObservationsFields" where
  "LegacyObservationsFields_from m =
     \<lparr>lof_message_number = as_i64 (lo_message_number m),
      lof_reference_station_id = as_i64 (lo_reference_station_id m),
      lof_epoch_time = as_i64 (lo_epoch_time m), lof_synchronous_gnss = lo_synchronous_gnss m,
      lof_satellite_count = as_i64 (lo_satellite_count m),
      lof_divergence_free_smoothing = lo_divergence_free_smoothing m,
      lof_smoothing_interval = as_i64 (lo_smoothing_interval m),
      lof_satellites = map LegacySatelliteFields_from (lo_satellites m),
      lof_trailing_bits = lo_trailing_bits m\<rparr>"

definition checked_legacy_fields :: "LegacyObservationsFields \<Rightarrow> LegacyObservations NifResult" where
  "checked_legacy_fields f =
     and_then (checked (error_text ''invalid legacy observation field'') U16
       (lof_message_number f)) (\<lambda>message_number.
     and_then (checked (error_text ''invalid legacy observation field'') U16
       (lof_reference_station_id f)) (\<lambda>reference_station_id.
     and_then (checked (error_text ''invalid legacy observation field'') U32
       (lof_epoch_time f)) (\<lambda>epoch_time.
     and_then (checked (error_text ''invalid legacy observation field'') U8
       (lof_satellite_count f)) (\<lambda>satellite_count.
     and_then (checked (error_text ''invalid legacy observation field'') U8
       (lof_smoothing_interval f)) (\<lambda>smoothing_interval.
     and_then (collect_results (map checked_legacy_satellite (lof_satellites f))) (\<lambda>satellites.
     Inr \<lparr>lo_message_number = message_number, lo_reference_station_id = reference_station_id,
           lo_epoch_time = epoch_time, lo_synchronous_gnss = lof_synchronous_gnss f,
           lo_satellite_count = satellite_count,
           lo_divergence_free_smoothing = lof_divergence_free_smoothing f,
           lo_smoothing_interval = smoothing_interval, lo_satellites = satellites,
           lo_trailing_bits = lof_trailing_bits f\<rparr>))))))"

interpretation lo: checked_build "True"
  carried_LegacyObservations LegacyObservationsFields_from checked_legacy_fields
  by (unfold_locales,
      simp add: carried_LegacyObservations_def LegacyObservationsFields_from_def checked_legacy_fields_def
        build_returns)
    (auto simp: carried_LegacyObservations_def LegacyObservationsFields_from_def checked_legacy_fields_def
      and_then_eq_Inr split: if_splits dest!: build_sound)

lemmas lo_build_returns [build_returns] = lo.returns lo.list_returns lo.option_returns
lemmas lo_build_sound [build_sound] = lo.sound lo.list_sound lo.option_sound

section \<open>MSM\<close>

record MsmHeaderFields =
  mhf_reference_station_id :: i64
  mhf_epoch_time :: i64
  mhf_multiple_message :: bool
  mhf_iods :: i64
  mhf_reserved :: i64
  mhf_clock_steering :: i64
  mhf_external_clock :: i64
  mhf_divergence_free_smoothing :: bool
  mhf_smoothing_interval :: i64

definition enc_MsmHeaderFields :: "MsmHeaderFields \<Rightarrow> nterm" where
  "enc_MsmHeaderFields f = nif_map
     [(''reference_station_id'', enc_i64 (mhf_reference_station_id f)),
      (''epoch_time'', enc_i64 (mhf_epoch_time f)),
      (''multiple_message'', enc_bool (mhf_multiple_message f)), (''iods'', enc_i64 (mhf_iods f)),
      (''reserved'', enc_i64 (mhf_reserved f)), (''clock_steering'', enc_i64 (mhf_clock_steering f)),
      (''external_clock'', enc_i64 (mhf_external_clock f)),
      (''divergence_free_smoothing'', enc_bool (mhf_divergence_free_smoothing f)),
      (''smoothing_interval'', enc_i64 (mhf_smoothing_interval f))]"

definition dec_MsmHeaderFields :: "nterm \<Rightarrow> MsmHeaderFields NifResult" where
  "dec_MsmHeaderFields t =
     and_then (nif_field ''reference_station_id'' dec_i64 t) (\<lambda>reference_station_id.
     and_then (nif_field ''epoch_time'' dec_i64 t) (\<lambda>epoch_time.
     and_then (nif_field ''multiple_message'' dec_bool t) (\<lambda>multiple_message.
     and_then (nif_field ''iods'' dec_i64 t) (\<lambda>iods.
     and_then (nif_field ''reserved'' dec_i64 t) (\<lambda>reserved.
     and_then (nif_field ''clock_steering'' dec_i64 t) (\<lambda>clock_steering.
     and_then (nif_field ''external_clock'' dec_i64 t) (\<lambda>external_clock.
     and_then (nif_field ''divergence_free_smoothing'' dec_bool t) (\<lambda>divergence_free_smoothing.
     and_then (nif_field ''smoothing_interval'' dec_i64 t) (\<lambda>smoothing_interval.
     Inr \<lparr>mhf_reference_station_id = reference_station_id, mhf_epoch_time = epoch_time,
           mhf_multiple_message = multiple_message, mhf_iods = iods, mhf_reserved = reserved,
           mhf_clock_steering = clock_steering, mhf_external_clock = external_clock,
           mhf_divergence_free_smoothing = divergence_free_smoothing,
           mhf_smoothing_interval = smoothing_interval\<rparr>)))))))))"

interpretation mhf: nif_codec enc_MsmHeaderFields dec_MsmHeaderFields
  by unfold_locales (simp_all only: enc_MsmHeaderFields_def dec_MsmHeaderFields_def nif_lookup codec_simps, simp_all)

lemmas MsmHeaderFields_codec [codec_simps] =
  mhf.decodes mhf.option_decodes mhf.list_decodes

record MsmHeader =
  mh_reference_station_id :: int
  mh_epoch_time :: int
  mh_multiple_message :: bool
  mh_iods :: int
  mh_reserved :: int
  mh_clock_steering :: int
  mh_external_clock :: int
  mh_divergence_free_smoothing :: bool
  mh_smoothing_interval :: int

definition carried_MsmHeader :: "MsmHeader \<Rightarrow> bool" where
  "carried_MsmHeader m \<longleftrightarrow>
     in_ty U16 (mh_reference_station_id m) \<and> in_ty U32 (mh_epoch_time m) \<and>
     in_ty U8 (mh_iods m) \<and> in_ty U8 (mh_reserved m) \<and> in_ty U8 (mh_clock_steering m) \<and>
     in_ty U8 (mh_external_clock m) \<and> in_ty U8 (mh_smoothing_interval m)"

definition MsmHeaderFields_from :: "MsmHeader \<Rightarrow> MsmHeaderFields" where
  "MsmHeaderFields_from m =
     \<lparr>mhf_reference_station_id = as_i64 (mh_reference_station_id m),
      mhf_epoch_time = as_i64 (mh_epoch_time m), mhf_multiple_message = mh_multiple_message m,
      mhf_iods = as_i64 (mh_iods m), mhf_reserved = as_i64 (mh_reserved m),
      mhf_clock_steering = as_i64 (mh_clock_steering m),
      mhf_external_clock = as_i64 (mh_external_clock m),
      mhf_divergence_free_smoothing = mh_divergence_free_smoothing m,
      mhf_smoothing_interval = as_i64 (mh_smoothing_interval m)\<rparr>"

definition MsmHeader_from :: "MsmHeaderFields \<Rightarrow> MsmHeader" where
  "MsmHeader_from f =
     \<lparr>mh_reference_station_id = as_ty U16 (mhf_reference_station_id f),
      mh_epoch_time = as_ty U32 (mhf_epoch_time f), mh_multiple_message = mhf_multiple_message f,
      mh_iods = as_ty U8 (mhf_iods f), mh_reserved = as_ty U8 (mhf_reserved f),
      mh_clock_steering = as_ty U8 (mhf_clock_steering f),
      mh_external_clock = as_ty U8 (mhf_external_clock f),
      mh_divergence_free_smoothing = mhf_divergence_free_smoothing f,
      mh_smoothing_interval = as_ty U8 (mhf_smoothing_interval f)\<rparr>"

interpretation mh: casting_build carried_MsmHeader MsmHeaderFields_from MsmHeader_from
  by unfold_locales (simp_all add: carried_MsmHeader_def MsmHeaderFields_from_def MsmHeader_from_def build_returns)

record MsmSatelliteFields =
  msf_id :: i64
  msf_rough_range_ms :: "i64 option"
  msf_rough_range_mod1 :: i64
  msf_extended_info :: "i64 option"
  msf_rough_phase_range_rate_m_s :: "i64 option"

definition enc_MsmSatelliteFields :: "MsmSatelliteFields \<Rightarrow> nterm" where
  "enc_MsmSatelliteFields f = nif_map
     [(''id'', enc_i64 (msf_id f)), (''rough_range_ms'', enc_option enc_i64 (msf_rough_range_ms f)),
      (''rough_range_mod1'', enc_i64 (msf_rough_range_mod1 f)),
      (''extended_info'', enc_option enc_i64 (msf_extended_info f)),
      (''rough_phase_range_rate_m_s'', enc_option enc_i64 (msf_rough_phase_range_rate_m_s f))]"

definition dec_MsmSatelliteFields :: "nterm \<Rightarrow> MsmSatelliteFields NifResult" where
  "dec_MsmSatelliteFields t =
     and_then (nif_field ''id'' dec_i64 t) (\<lambda>id'.
     and_then (nif_field ''rough_range_ms'' (dec_option dec_i64) t) (\<lambda>rough_range_ms.
     and_then (nif_field ''rough_range_mod1'' dec_i64 t) (\<lambda>rough_range_mod1.
     and_then (nif_field ''extended_info'' (dec_option dec_i64) t) (\<lambda>extended_info.
     and_then (nif_field ''rough_phase_range_rate_m_s'' (dec_option dec_i64) t) (\<lambda>rough_phase_range_rate_m_s.
     Inr \<lparr>msf_id = id', msf_rough_range_ms = rough_range_ms, msf_rough_range_mod1 = rough_range_mod1,
           msf_extended_info = extended_info,
           msf_rough_phase_range_rate_m_s = rough_phase_range_rate_m_s\<rparr>)))))"

interpretation msf: nif_codec enc_MsmSatelliteFields dec_MsmSatelliteFields
  by unfold_locales (simp_all only: enc_MsmSatelliteFields_def dec_MsmSatelliteFields_def nif_lookup codec_simps, simp_all)

lemmas MsmSatelliteFields_codec [codec_simps] =
  msf.decodes msf.option_decodes msf.list_decodes

record MsmSatellite =
  ms_id :: int
  ms_rough_range_ms :: "int option"
  ms_rough_range_mod1 :: int
  ms_extended_info :: "int option"
  ms_rough_phase_range_rate_m_s :: "int option"

definition carried_MsmSatellite :: "MsmSatellite \<Rightarrow> bool" where
  "carried_MsmSatellite m \<longleftrightarrow>
     in_ty U8 (ms_id m) \<and> pred_option (in_ty U8) (ms_rough_range_ms m) \<and>
     in_ty U16 (ms_rough_range_mod1 m) \<and> pred_option (in_ty U8) (ms_extended_info m) \<and>
     pred_option (in_ty I16) (ms_rough_phase_range_rate_m_s m)"

definition MsmSatelliteFields_from :: "MsmSatellite \<Rightarrow> MsmSatelliteFields" where
  "MsmSatelliteFields_from m =
     \<lparr>msf_id = as_i64 (ms_id m), msf_rough_range_ms = map_option as_i64 (ms_rough_range_ms m),
      msf_rough_range_mod1 = as_i64 (ms_rough_range_mod1 m),
      msf_extended_info = map_option as_i64 (ms_extended_info m),
      msf_rough_phase_range_rate_m_s = map_option as_i64 (ms_rough_phase_range_rate_m_s m)\<rparr>"

definition MsmSatellite_from :: "MsmSatelliteFields \<Rightarrow> MsmSatellite" where
  "MsmSatellite_from f =
     \<lparr>ms_id = as_ty U8 (msf_id f), ms_rough_range_ms = map_option (as_ty U8) (msf_rough_range_ms f),
      ms_rough_range_mod1 = as_ty U16 (msf_rough_range_mod1 f),
      ms_extended_info = map_option (as_ty U8) (msf_extended_info f),
      ms_rough_phase_range_rate_m_s = map_option (as_ty I16) (msf_rough_phase_range_rate_m_s f)\<rparr>"

interpretation ms: casting_build carried_MsmSatellite MsmSatelliteFields_from MsmSatellite_from
  by unfold_locales (simp_all add: carried_MsmSatellite_def MsmSatelliteFields_from_def MsmSatellite_from_def build_returns)

lemma ms_id_bounds: "carried_MsmSatellite m \<Longrightarrow> in_ty U8 (ms_id m)"
  by (simp add: carried_MsmSatellite_def)

text \<open>\<open>check_wire_u8\<close> refuses a satellite or signal number that its byte cannot hold.\<close>

definition check_wire_u8 :: "i64 \<Rightarrow> string \<Rightarrow> unit NifResult" where
  "check_wire_u8 value field =
     (if try_from U8 value \<noteq> None then Inr ()
      else Inl (ErrorTerm (Tup [Atom ''invalid_input'',
             Utf8 (''RTCM '' @ field @ '' '' @ show_int (sint value) @ '' is outside 0..=255'')])))"

record MsmSignalFields =
  sgf_satellite_id :: i64
  sgf_signal_id :: i64
  sgf_fine_pseudorange :: "i64 option"
  sgf_fine_phase_range :: "i64 option"
  sgf_lock_time_indicator :: "i64 option"
  sgf_half_cycle_ambiguity :: "bool option"
  sgf_cnr :: "i64 option"
  sgf_fine_phase_range_rate :: "i64 option"

definition enc_MsmSignalFields :: "MsmSignalFields \<Rightarrow> nterm" where
  "enc_MsmSignalFields f = nif_map
     [(''satellite_id'', enc_i64 (sgf_satellite_id f)), (''signal_id'', enc_i64 (sgf_signal_id f)),
      (''fine_pseudorange'', enc_option enc_i64 (sgf_fine_pseudorange f)),
      (''fine_phase_range'', enc_option enc_i64 (sgf_fine_phase_range f)),
      (''lock_time_indicator'', enc_option enc_i64 (sgf_lock_time_indicator f)),
      (''half_cycle_ambiguity'', enc_option enc_bool (sgf_half_cycle_ambiguity f)),
      (''cnr'', enc_option enc_i64 (sgf_cnr f)),
      (''fine_phase_range_rate'', enc_option enc_i64 (sgf_fine_phase_range_rate f))]"

definition dec_MsmSignalFields :: "nterm \<Rightarrow> MsmSignalFields NifResult" where
  "dec_MsmSignalFields t =
     and_then (nif_field ''satellite_id'' dec_i64 t) (\<lambda>satellite_id.
     and_then (nif_field ''signal_id'' dec_i64 t) (\<lambda>signal_id.
     and_then (nif_field ''fine_pseudorange'' (dec_option dec_i64) t) (\<lambda>fine_pseudorange.
     and_then (nif_field ''fine_phase_range'' (dec_option dec_i64) t) (\<lambda>fine_phase_range.
     and_then (nif_field ''lock_time_indicator'' (dec_option dec_i64) t) (\<lambda>lock_time_indicator.
     and_then (nif_field ''half_cycle_ambiguity'' (dec_option dec_bool) t) (\<lambda>half_cycle_ambiguity.
     and_then (nif_field ''cnr'' (dec_option dec_i64) t) (\<lambda>cnr.
     and_then (nif_field ''fine_phase_range_rate'' (dec_option dec_i64) t) (\<lambda>fine_phase_range_rate.
     Inr \<lparr>sgf_satellite_id = satellite_id, sgf_signal_id = signal_id,
           sgf_fine_pseudorange = fine_pseudorange, sgf_fine_phase_range = fine_phase_range,
           sgf_lock_time_indicator = lock_time_indicator,
           sgf_half_cycle_ambiguity = half_cycle_ambiguity, sgf_cnr = cnr,
           sgf_fine_phase_range_rate = fine_phase_range_rate\<rparr>))))))))"

interpretation sgf: nif_codec enc_MsmSignalFields dec_MsmSignalFields
  by unfold_locales (simp_all only: enc_MsmSignalFields_def dec_MsmSignalFields_def nif_lookup codec_simps, simp_all)

lemmas MsmSignalFields_codec [codec_simps] =
  sgf.decodes sgf.option_decodes sgf.list_decodes

record MsmSignal =
  sg_satellite_id :: int
  sg_signal_id :: int
  sg_fine_pseudorange :: "int option"
  sg_fine_phase_range :: "int option"
  sg_lock_time_indicator :: "int option"
  sg_half_cycle_ambiguity :: "bool option"
  sg_cnr :: "int option"
  sg_fine_phase_range_rate :: "int option"

definition carried_MsmSignal :: "MsmSignal \<Rightarrow> bool" where
  "carried_MsmSignal m \<longleftrightarrow>
     in_ty U8 (sg_satellite_id m) \<and> in_ty U8 (sg_signal_id m) \<and>
     pred_option (in_ty I32) (sg_fine_pseudorange m) \<and>
     pred_option (in_ty I32) (sg_fine_phase_range m) \<and>
     pred_option (in_ty U16) (sg_lock_time_indicator m) \<and> pred_option (in_ty U16) (sg_cnr m) \<and>
     pred_option (in_ty I16) (sg_fine_phase_range_rate m)"

definition MsmSignalFields_from :: "MsmSignal \<Rightarrow> MsmSignalFields" where
  "MsmSignalFields_from m =
     \<lparr>sgf_satellite_id = as_i64 (sg_satellite_id m), sgf_signal_id = as_i64 (sg_signal_id m),
      sgf_fine_pseudorange = map_option as_i64 (sg_fine_pseudorange m),
      sgf_fine_phase_range = map_option as_i64 (sg_fine_phase_range m),
      sgf_lock_time_indicator = map_option as_i64 (sg_lock_time_indicator m),
      sgf_half_cycle_ambiguity = sg_half_cycle_ambiguity m, sgf_cnr = map_option as_i64 (sg_cnr m),
      sgf_fine_phase_range_rate = map_option as_i64 (sg_fine_phase_range_rate m)\<rparr>"

definition msm_signal_convert :: "int_ty \<Rightarrow> i64 option \<Rightarrow> int option NifResult" where
  "msm_signal_convert ty value =
     transpose_option (map_option (checked (error_text ''invalid MSM signal field'') ty) value)"

definition build_msm_signal :: "MsmSignalFields \<Rightarrow> MsmSignal NifResult" where
  "build_msm_signal f =
     and_then (check_wire_u8 (sgf_satellite_id f) ''signal satellite id'') (\<lambda>_.
     and_then (check_wire_u8 (sgf_signal_id f) ''signal id'') (\<lambda>_.
     and_then (msm_signal_convert I32 (sgf_fine_pseudorange f)) (\<lambda>fine_pseudorange.
     and_then (msm_signal_convert I32 (sgf_fine_phase_range f)) (\<lambda>fine_phase_range.
     and_then (msm_signal_convert U16 (sgf_lock_time_indicator f)) (\<lambda>lock_time_indicator.
     and_then (msm_signal_convert U16 (sgf_cnr f)) (\<lambda>cnr.
     and_then (msm_signal_convert I16 (sgf_fine_phase_range_rate f)) (\<lambda>fine_phase_range_rate.
     Inr \<lparr>sg_satellite_id = as_ty U8 (sgf_satellite_id f), sg_signal_id = as_ty U8 (sgf_signal_id f),
           sg_fine_pseudorange = fine_pseudorange, sg_fine_phase_range = fine_phase_range,
           sg_lock_time_indicator = lock_time_indicator, sg_half_cycle_ambiguity = sgf_half_cycle_ambiguity f,
           sg_cnr = cnr, sg_fine_phase_range_rate = fine_phase_range_rate\<rparr>)))))))"

lemma check_wire_u8_Inr: "check_wire_u8 v field = Inr () \<longleftrightarrow> in_ty U8 (sint v)"
  by (simp add: check_wire_u8_def try_from_def)

lemma check_wire_u8_returns [build_returns]: "in_ty U8 n \<Longrightarrow> check_wire_u8 (as_i64 n) field = Inr ()"
  using in_ty_i64 [of U8 n] by (simp add: check_wire_u8_Inr sint_as_i64)

lemma check_wire_u8_sound [build_sound]:
  "check_wire_u8 v field = Inr u \<Longrightarrow> in_ty U8 (as_ty U8 v) \<and> as_i64 (as_ty U8 v) = v"
  by (simp add: check_wire_u8_Inr as_ty_def wrap_ty_in_ty)

interpretation sg: checked_build True carried_MsmSignal MsmSignalFields_from build_msm_signal
  by (unfold_locales, simp add: carried_MsmSignal_def MsmSignalFields_from_def build_msm_signal_def
        msm_signal_convert_def build_returns)
    (auto simp: carried_MsmSignal_def MsmSignalFields_from_def build_msm_signal_def msm_signal_convert_def
      and_then_eq_Inr dest!: build_sound)

lemmas sg_build_returns [build_returns] = sg.returns sg.list_returns sg.option_returns
lemmas sg_build_sound [build_sound] = sg.sound sg.list_sound sg.option_sound

datatype MsmKind = Msm1 | Msm2 | Msm3 | Msm4 | Msm5 | Msm6 | Msm7

record 'sys MsmMessage =
  msm_message_number :: int
  msm_system :: 'sys
  msm_kind :: MsmKind
  msm_header :: MsmHeader
  msm_signal_mask :: int
  msm_satellites :: "MsmSatellite list"
  msm_signals :: "MsmSignal list"
  msm_trailing_bits :: "bool list"

definition carried_MsmMessage :: "'sys MsmMessage \<Rightarrow> bool" where
  "carried_MsmMessage m \<longleftrightarrow>
     in_ty U16 (msm_message_number m) \<and> carried_MsmHeader (msm_header m) \<and> in_ty U32 (msm_signal_mask m) \<and>
     list_all carried_MsmSatellite (msm_satellites m) \<and> list_all carried_MsmSignal (msm_signals m)"

text \<open>Of the core: the letters of the constellations, the mask of a list of signals and the numbers of
  the kinds; it reads back the letters it prints, the mask is a \<open>u32\<close>, and kinds have different numbers.\<close>

record 'sys msm_core =
  letter :: "'sys \<Rightarrow> char"
  from_letter :: "char \<Rightarrow> 'sys option"
  signals_mask :: "MsmSignal list \<Rightarrow> int"
  kind_number :: "MsmKind \<Rightarrow> nat"

definition msm_laws :: "'sys msm_core \<Rightarrow> bool" where
  "msm_laws C \<longleftrightarrow> (\<forall>s. from_letter C (letter C s) = Some s) \<and> (\<forall>ss. in_ty U32 (signals_mask C ss)) \<and>
     (\<forall>k k'. kind_number C k = kind_number C k' \<longrightarrow> k = k')"

record MsmMessageFields =
  msmf_message_number :: i64
  msmf_system :: string
  msmf_kind :: string
  msmf_header :: MsmHeaderFields
  msmf_signal_mask :: "i64 option"
  msmf_satellites :: "MsmSatelliteFields list"
  msmf_signals :: "MsmSignalFields list"
  msmf_trailing_bits :: "bool list"

definition enc_MsmMessageFields :: "MsmMessageFields \<Rightarrow> nterm" where
  "enc_MsmMessageFields f = nif_map
     [(''message_number'', enc_i64 (msmf_message_number f)), (''system'', Utf8 (msmf_system f)),
      (''kind'', Utf8 (msmf_kind f)), (''header'', enc_MsmHeaderFields (msmf_header f)),
      (''signal_mask'', enc_option enc_i64 (msmf_signal_mask f)),
      (''satellites'', enc_list enc_MsmSatelliteFields (msmf_satellites f)),
      (''signals'', enc_list enc_MsmSignalFields (msmf_signals f)),
      (''trailing_bits'', enc_list enc_bool (msmf_trailing_bits f))]"

definition dec_MsmMessageFields :: "nterm \<Rightarrow> MsmMessageFields NifResult" where
  "dec_MsmMessageFields t =
     and_then (nif_field ''message_number'' dec_i64 t) (\<lambda>message_number.
     and_then (nif_field ''system'' dec_string t) (\<lambda>system.
     and_then (nif_field ''kind'' dec_string t) (\<lambda>kind.
     and_then (nif_field ''header'' dec_MsmHeaderFields t) (\<lambda>header.
     and_then (nif_field ''signal_mask'' (dec_option dec_i64) t) (\<lambda>signal_mask.
     and_then (nif_field ''satellites'' (dec_list dec_MsmSatelliteFields) t) (\<lambda>satellites.
     and_then (nif_field ''signals'' (dec_list dec_MsmSignalFields) t) (\<lambda>signals.
     and_then (nif_field ''trailing_bits'' (dec_list dec_bool) t) (\<lambda>trailing_bits.
     Inr \<lparr>msmf_message_number = message_number, msmf_system = system, msmf_kind = kind,
           msmf_header = header, msmf_signal_mask = signal_mask, msmf_satellites = satellites,
           msmf_signals = signals, msmf_trailing_bits = trailing_bits\<rparr>))))))))"

interpretation msmf: nif_codec enc_MsmMessageFields dec_MsmMessageFields
  by unfold_locales (simp_all only: enc_MsmMessageFields_def dec_MsmMessageFields_def nif_lookup codec_simps, simp_all)

lemmas MsmMessageFields_codec [codec_simps] =
  msmf.decodes msmf.option_decodes msmf.list_decodes

definition msm_kind_name :: "MsmKind \<Rightarrow> string" where
  "msm_kind_name k =
     (case k of Msm1 \<Rightarrow> ''msm1'' | Msm2 \<Rightarrow> ''msm2'' | Msm3 \<Rightarrow> ''msm3'' | Msm4 \<Rightarrow> ''msm4''
      | Msm5 \<Rightarrow> ''msm5'' | Msm6 \<Rightarrow> ''msm6'' | Msm7 \<Rightarrow> ''msm7'')"

definition MsmMessageFields_from :: "'sys msm_core \<Rightarrow> 'sys MsmMessage \<Rightarrow> MsmMessageFields" where
  "MsmMessageFields_from C m =
     \<lparr>msmf_message_number = as_i64 (msm_message_number m), msmf_system = [letter C (msm_system m)],
      msmf_kind = msm_kind_name (msm_kind m), msmf_header = MsmHeaderFields_from (msm_header m),
      msmf_signal_mask = Some (as_i64 (msm_signal_mask m)),
      msmf_satellites = map MsmSatelliteFields_from (msm_satellites m),
      msmf_signals = map MsmSignalFields_from (msm_signals m), msmf_trailing_bits = msm_trailing_bits m\<rparr>"

definition parse_system :: "'sys msm_core \<Rightarrow> string \<Rightarrow> 'sys NifResult" where
  "parse_system C system =
     (case system of
        [c] \<Rightarrow> ok_or (error_text ''unknown RTCM MSM constellation letter'') (from_letter C c)
      | _ \<Rightarrow> Inl (error_text ''invalid RTCM MSM constellation letter''))"

definition parse_msm_kind :: "string \<Rightarrow> MsmKind NifResult" where
  "parse_msm_kind k =
     (if k = ''msm1'' then Inr Msm1 else if k = ''msm2'' then Inr Msm2 else if k = ''msm3'' then Inr Msm3
      else if k = ''msm4'' then Inr Msm4 else if k = ''msm5'' then Inr Msm5 else if k = ''msm6'' then Inr Msm6
      else if k = ''msm7'' then Inr Msm7 else Inl (error_text ''unknown RTCM MSM kind''))"

fun check_satellites :: "MsmSatelliteFields list \<Rightarrow> unit NifResult" where
  "check_satellites [] = Inr ()"
| "check_satellites (s # ss) = and_then (check_wire_u8 (msf_id s) ''satellite id'') (\<lambda>_. check_satellites ss)"

fun check_signals :: "MsmSignalFields list \<Rightarrow> unit NifResult" where
  "check_signals [] = Inr ()"
| "check_signals (s # ss) =
     and_then (check_wire_u8 (sgf_satellite_id s) ''signal satellite id'') (\<lambda>_.
     and_then (check_wire_u8 (sgf_signal_id s) ''signal id'') (\<lambda>_. check_signals ss))"

definition build_signal_mask :: "'sys msm_core \<Rightarrow> i64 option \<Rightarrow> MsmSignal list \<Rightarrow> int NifResult" where
  "build_signal_mask C given signals =
     (case given of
        Some v \<Rightarrow>
          checked (ErrorTerm (Tup [Atom ''invalid_input'',
            Utf8 (''RTCM MSM signal mask '' @ show_int (sint v) @ '' is outside 0..=4294967295'')])) U32 v
      | None \<Rightarrow> Inr (signals_mask C signals))"

definition build_msm :: "'sys msm_core \<Rightarrow> MsmMessageFields \<Rightarrow> 'sys MsmMessage NifResult" where
  "build_msm C f =
     and_then (parse_system C (msmf_system f)) (\<lambda>system.
     and_then (parse_msm_kind (msmf_kind f)) (\<lambda>kind.
     and_then (check_satellites (msmf_satellites f)) (\<lambda>_.
     and_then (check_signals (msmf_signals f)) (\<lambda>_.
     and_then (collect_results (map build_msm_signal (msmf_signals f))) (\<lambda>signals.
     and_then (build_signal_mask C (msmf_signal_mask f) signals) (\<lambda>signal_mask.
     and_then (checked (error_text ''invalid MSM message number'') U16 (msmf_message_number f)) (\<lambda>message_number.
     Inr \<lparr>msm_message_number = message_number, msm_system = system, msm_kind = kind,
           msm_header = MsmHeader_from (msmf_header f), msm_signal_mask = signal_mask,
           msm_satellites = map MsmSatellite_from (msmf_satellites f), msm_signals = signals,
           msm_trailing_bits = msmf_trailing_bits f\<rparr>)))))))"

lemma parse_msm_kind_name [simp]: "parse_msm_kind (msm_kind_name k) = Inr k"
  by (cases k) (simp_all add: parse_msm_kind_def msm_kind_name_def)

lemma parse_system_letter: "msm_laws C \<Longrightarrow> parse_system C [letter C s] = Inr s"
  by (simp add: parse_system_def msm_laws_def)

lemma check_satellites_returns:
  "list_all carried_MsmSatellite ms \<Longrightarrow> check_satellites (map MsmSatelliteFields_from ms) = Inr ()"
  by (induction ms) (simp_all add: MsmSatelliteFields_from_def check_wire_u8_returns ms_id_bounds)

lemma check_signals_returns:
  "list_all carried_MsmSignal ms \<Longrightarrow> check_signals (map MsmSignalFields_from ms) = Inr ()"
  by (induction ms) (simp_all add: MsmSignalFields_from_def carried_MsmSignal_def check_wire_u8_returns)

lemma check_satellites_Inr: "check_satellites fs = Inr u \<longleftrightarrow> (\<forall>s \<in> set fs. in_ty U8 (sint (msf_id s)))"
  by (induction fs) (simp_all add: and_then_eq_Inr check_wire_u8_Inr)

lemma build_msm_returns:
  "msm_laws C \<Longrightarrow> carried_MsmMessage m \<Longrightarrow> build_msm C (MsmMessageFields_from C m) = Inr m"
  by (simp add: build_msm_def MsmMessageFields_from_def carried_MsmMessage_def parse_system_letter
      check_satellites_returns check_signals_returns sg.list_returns build_signal_mask_def build_returns
      mh.returns ms.list_returns)

lemma build_msm_sound:
  assumes "msm_laws C" "build_msm C f = Inr m"
  shows "carried_MsmMessage m \<and> map MsmSignalFields_from (msm_signals m) = msmf_signals f \<and>
    map ms_id (msm_satellites m) = map (sint \<circ> msf_id) (msmf_satellites f) \<and>
    as_i64 (msm_message_number m) = msmf_message_number f"
proof -
  from assms(2) obtain signals bits where
    sats: "check_satellites (msmf_satellites f) = Inr ()" and
    signals: "collect_results (map build_msm_signal (msmf_signals f)) = Inr signals" and
    mask: "build_signal_mask C (msmf_signal_mask f) signals = Inr bits" and
    number: "in_ty U16 (msm_message_number m)" "as_i64 (msm_message_number m) = msmf_message_number f" and
    m: "msm_header m = MsmHeader_from (msmf_header f)" "msm_signal_mask m = bits" "msm_signals m = signals"
      "msm_satellites m = map MsmSatellite_from (msmf_satellites f)"
    by (auto simp: build_msm_def and_then_eq_Inr dest!: checked_sound)
  from mask assms(1) have "in_ty U32 bits"
    by (auto simp: build_signal_mask_def msm_laws_def checked_Inr split: option.splits)
  moreover from sats have "map ms_id (msm_satellites m) = map (sint \<circ> msf_id) (msmf_satellites f)"
    by (auto simp: m check_satellites_Inr MsmSatellite_from_def as_ty_def wrap_ty_in_ty)
  ultimately show ?thesis
    using number sg.list_sound [OF signals] m by (simp add: carried_MsmMessage_def mh.typed ms.list_typed)
qed

end
