(* ===== verification/RtcmErrors.thy ===== *)
theory RtcmErrors
  imports RtcmObservation
begin

text \<open>
  The errors of the RTCM codec at the boundary of \<open>native/sidereon_nif/src/rtcm.rs\<close>: every refusal of
  the core's encoder and converter becomes a map with a variant label and the fields of that variant,
  every departure from the standard a tagged tuple. A core enumeration that the source matches with a
  wildcard has one more constructor, \<open>Unnamed...\<close>, for the variants it does not name. Integers of
  the core's errors are \<open>int\<close>; those converted by \<open>i64::try_from\<close> are \<open>usize\<close> counts.
\<close>

section \<open>Labels\<close>

datatype RtcmFieldEncoding = Unsigned | TwosComplement | SignMagnitude | UnnamedEncoding

definition field_encoding_label :: "RtcmFieldEncoding \<Rightarrow> string" where
  "field_encoding_label encoding =
     (case encoding of Unsigned \<Rightarrow> ''unsigned'' | TwosComplement \<Rightarrow> ''twos_complement''
      | SignMagnitude \<Rightarrow> ''sign_magnitude'' | UnnamedEncoding \<Rightarrow> ''unrecognized_encoding'')"

datatype SsrKind = Orbit | Clock | CombinedOrbitClock | CodeBias | PhaseBias | Ura | HighRateClock

definition ssr_kind_label :: "SsrKind \<Rightarrow> string" where
  "ssr_kind_label kind =
     (case kind of Orbit \<Rightarrow> ''orbit'' | Clock \<Rightarrow> ''clock'' | CombinedOrbitClock \<Rightarrow> ''combined_orbit_clock''
      | CodeBias \<Rightarrow> ''code_bias'' | PhaseBias \<Rightarrow> ''phase_bias'' | Ura \<Rightarrow> ''ura'' | HighRateClock \<Rightarrow> ''high_rate_clock'')"

definition msm_kind_label :: "'sys msm_core \<Rightarrow> MsmKind \<Rightarrow> string" where
  "msm_kind_label C kind = ''msm'' @ show_nat (kind_number C kind)"

datatype 'sys RtcmRecordKind =
    StationCoordinates
  | AntennaDescriptor
  | Msm 'sys MsmKind
  | Ssr 'sys SsrKind
  | LegacyObservations
  | SystemParameters
  | Text
  | Network string
  | Transformation string
  | GlonassCodePhaseBiases
  | SsrVtec int
  | UnnamedRecord

primrec record_kind_label :: "'sys msm_core \<Rightarrow> 'sys RtcmRecordKind \<Rightarrow> string" where
  "record_kind_label C RtcmRecordKind.StationCoordinates = ''station_coordinates''"
| "record_kind_label C RtcmRecordKind.AntennaDescriptor = ''antenna_descriptor''"
| "record_kind_label C (RtcmRecordKind.Msm system kind) =
     ''msm:'' @ [letter C system] @ '':'' @ show_nat (kind_number C kind)"
| "record_kind_label C (RtcmRecordKind.Ssr system kind) =
     ''ssr:'' @ [letter C system] @ '':'' @ ssr_kind_label kind"
| "record_kind_label C RtcmRecordKind.LegacyObservations = ''legacy_observations''"
| "record_kind_label C RtcmRecordKind.SystemParameters = ''system_parameters''"
| "record_kind_label C RtcmRecordKind.Text = ''text''"
| "record_kind_label C (RtcmRecordKind.Network family) = ''network:'' @ family"
| "record_kind_label C (RtcmRecordKind.Transformation family) = ''transformation:'' @ family"
| "record_kind_label C RtcmRecordKind.GlonassCodePhaseBiases = ''glonass_code_phase_biases''"
| "record_kind_label C (RtcmRecordKind.SsrVtec message_number) = ''ssr_vtec:'' @ show_int message_number"
| "record_kind_label C RtcmRecordKind.UnnamedRecord = ''unrecognized_record''"

datatype MsmOptionalField =
  ExtendedInfo | RoughPhaseRangeRate | FinePhaseRangeRate | UnnamedOptionalField

definition msm_optional_field_label :: "MsmOptionalField \<Rightarrow> string" where
  "msm_optional_field_label field =
     (case field of ExtendedInfo \<Rightarrow> ''extended_info'' | RoughPhaseRangeRate \<Rightarrow> ''rough_phase_range_rate''
      | FinePhaseRangeRate \<Rightarrow> ''fine_phase_range_rate''
      | UnnamedOptionalField \<Rightarrow> ''unrecognized_optional_field'')"

section \<open>Departures\<close>

datatype RtcmDeparture =
    FrameReservedBits int
  | TrailingBits int "bool list"
  | MsmCellMaskOver64 int int
  | OrderExceedsDegree int int int int
  | SsrRecordsShort int int int
  | RecordsShort int int int
  | UnnamedDeparture string

text \<open>The argument of \<open>UnnamedDeparture\<close> is the departure's text.\<close>

primrec departure_label :: "RtcmDeparture \<Rightarrow> string" where
  "departure_label (FrameReservedBits _) = ''frame_reserved_bits''"
| "departure_label (TrailingBits _ _) = ''trailing_bits''"
| "departure_label (MsmCellMaskOver64 _ _) = ''msm_cell_mask_over_64''"
| "departure_label (OrderExceedsDegree _ _ _ _) = ''order_exceeds_degree''"
| "departure_label (SsrRecordsShort _ _ _) = ''ssr_records_short''"
| "departure_label (RecordsShort _ _ _) = ''records_short''"
| "departure_label (UnnamedDeparture _) = ''unrecognized_departure''"

primrec departure_term :: "RtcmDeparture \<Rightarrow> nterm" where
  "departure_term (FrameReservedBits reserved) =
     Tup [Atom ''frame_reserved_bits'', enc_i64 (as_i64 reserved)]"
| "departure_term (TrailingBits message_number bits) =
     Tup [Atom ''trailing_bits'', enc_i64 (as_i64 message_number), enc_list enc_bool bits]"
| "departure_term (MsmCellMaskOver64 message_number cells) =
     Tup [Atom ''msm_cell_mask_over_64'', enc_i64 (as_i64 message_number), Integer cells]"
| "departure_term (SsrRecordsShort message_number declared read') =
     Tup [Atom ''ssr_records_short'', enc_i64 (as_i64 message_number), Integer declared, Integer read']"
| "departure_term (OrderExceedsDegree message_number layer_index degree order) =
     Tup [Atom ''order_exceeds_degree'', enc_i64 (as_i64 message_number), Integer layer_index,
          enc_i64 (as_i64 degree), enc_i64 (as_i64 order)]"
| "departure_term (RecordsShort message_number declared read') =
     Tup [Atom ''records_short'', enc_i64 (as_i64 message_number), Integer declared, Integer read']"
| "departure_term (UnnamedDeparture txt) = Tup [Atom ''other'', Utf8 txt]"

definition departures_term :: "RtcmDeparture list \<Rightarrow> nterm" where
  "departures_term departures = enc_list departure_term departures"

section \<open>Encoder refusals\<close>

datatype MsmMaskProblem =
    SatelliteOutsideMask int
  | SatelliteListedTwice int
  | SignalOutsideMask int
  | SignalNotInMask int int
  | SignalSatelliteNotListed int int
  | CellListedTwice int int
  | UnnamedMaskProblem

datatype MsmOptionalProblem = Missing | NotCarried | InvalidValue int | UnnamedOptionalProblem

datatype 'sys RtcmEncodeError =
    FieldOutOfRange int string int int RtcmFieldEncoding
  | NegativeZeroWithValue int string int
  | NegativeZeroMask int int
  | MessageNumber int "'sys RtcmRecordKind"
  | FieldPresence int "'sys RtcmRecordKind" string bool
  | SatelliteFieldPresence int "'sys RtcmRecordKind" int string bool
  | CountMismatch int string int int
  | ValueOutOfRange int string int int int
  | NonLatin1Character string int
  | SatelliteIdOutOfRange int string int int
  | SsrSatelliteIdOutOfRange int int int
  | SsrRecordsNotCarried int SsrKind string int
  | SsrCombinedRecordCounts int int int
  | SsrCombinedSatelliteMismatch int int int int
  | SsrHighRateClockTerms int int int int
  | SsrSatelliteCount int int int
  | MsmMask int MsmMaskProblem
  | MsmOptional int MsmKind int "int option" MsmOptionalField MsmOptionalProblem
  | TrailingZeroBits int int
  | StrictDeparture RtcmDeparture
  | UnsupportedBodyTooShort int
  | UnsupportedBodyNumber int int
  | UnsupportedDecodedNumber int
  | FrameBodyTooLong int
  | FrameReservedOutOfRange int
  | UnnamedEncodeError

record RtcmEncodeErrorFields =
  eef_variant :: string
  eef_message_number :: "i64 option"
  eef_field :: "string option"
  eef_value :: "string option"
  eef_minimum :: "string option"
  eef_maximum :: "string option"
  eef_width :: "i64 option"
  eef_encoding :: "string option"
  eef_record :: "string option"
  eef_carried :: "bool option"
  eef_satellite :: "i64 option"
  eef_expected :: "i64 option"
  eef_actual :: "i64 option"
  eef_index :: "i64 option"
  eef_orbit :: "i64 option"
  eef_clock :: "i64 option"
  eef_orbit_satellite :: "i64 option"
  eef_clock_satellite :: "i64 option"
  eef_c1 :: "i64 option"
  eef_c2 :: "i64 option"
  eef_signal :: "i64 option"
  eef_mask :: "i64 option"
  eef_problem :: "string option"
  eef_count :: "i64 option"
  eef_detail :: "string option"
  eef_trailing_bits :: "bool list option"

definition enc_RtcmEncodeErrorFields :: "RtcmEncodeErrorFields \<Rightarrow> nterm" where
  "enc_RtcmEncodeErrorFields f = nif_map
     [(''variant'', Utf8 (eef_variant f)),
      (''message_number'', enc_option enc_i64 (eef_message_number f)),
      (''field'', enc_option Utf8 (eef_field f)), (''value'', enc_option Utf8 (eef_value f)),
      (''minimum'', enc_option Utf8 (eef_minimum f)), (''maximum'', enc_option Utf8 (eef_maximum f)),
      (''width'', enc_option enc_i64 (eef_width f)), (''encoding'', enc_option Utf8 (eef_encoding f)),
      (''record'', enc_option Utf8 (eef_record f)), (''carried'', enc_option enc_bool (eef_carried f)),
      (''satellite'', enc_option enc_i64 (eef_satellite f)),
      (''expected'', enc_option enc_i64 (eef_expected f)),
      (''actual'', enc_option enc_i64 (eef_actual f)), (''index'', enc_option enc_i64 (eef_index f)),
      (''orbit'', enc_option enc_i64 (eef_orbit f)), (''clock'', enc_option enc_i64 (eef_clock f)),
      (''orbit_satellite'', enc_option enc_i64 (eef_orbit_satellite f)),
      (''clock_satellite'', enc_option enc_i64 (eef_clock_satellite f)),
      (''c1'', enc_option enc_i64 (eef_c1 f)), (''c2'', enc_option enc_i64 (eef_c2 f)),
      (''signal'', enc_option enc_i64 (eef_signal f)), (''mask'', enc_option enc_i64 (eef_mask f)),
      (''problem'', enc_option Utf8 (eef_problem f)), (''count'', enc_option enc_i64 (eef_count f)),
      (''detail'', enc_option Utf8 (eef_detail f)),
      (''trailing_bits'', enc_option (enc_list enc_bool) (eef_trailing_bits f))]"

definition dec_RtcmEncodeErrorFields :: "nterm \<Rightarrow> RtcmEncodeErrorFields NifResult" where
  "dec_RtcmEncodeErrorFields t =
     and_then (nif_field ''variant'' dec_string t) (\<lambda>variant.
     and_then (nif_field ''message_number'' (dec_option dec_i64) t) (\<lambda>message_number.
     and_then (nif_field ''field'' (dec_option dec_string) t) (\<lambda>field.
     and_then (nif_field ''value'' (dec_option dec_string) t) (\<lambda>value.
     and_then (nif_field ''minimum'' (dec_option dec_string) t) (\<lambda>minimum.
     and_then (nif_field ''maximum'' (dec_option dec_string) t) (\<lambda>maximum.
     and_then (nif_field ''width'' (dec_option dec_i64) t) (\<lambda>width.
     and_then (nif_field ''encoding'' (dec_option dec_string) t) (\<lambda>encoding.
     and_then (nif_field ''record'' (dec_option dec_string) t) (\<lambda>record.
     and_then (nif_field ''carried'' (dec_option dec_bool) t) (\<lambda>carried.
     and_then (nif_field ''satellite'' (dec_option dec_i64) t) (\<lambda>satellite.
     and_then (nif_field ''expected'' (dec_option dec_i64) t) (\<lambda>expected.
     and_then (nif_field ''actual'' (dec_option dec_i64) t) (\<lambda>actual.
     and_then (nif_field ''index'' (dec_option dec_i64) t) (\<lambda>index.
     and_then (nif_field ''orbit'' (dec_option dec_i64) t) (\<lambda>orbit.
     and_then (nif_field ''clock'' (dec_option dec_i64) t) (\<lambda>clock.
     and_then (nif_field ''orbit_satellite'' (dec_option dec_i64) t) (\<lambda>orbit_satellite.
     and_then (nif_field ''clock_satellite'' (dec_option dec_i64) t) (\<lambda>clock_satellite.
     and_then (nif_field ''c1'' (dec_option dec_i64) t) (\<lambda>c1.
     and_then (nif_field ''c2'' (dec_option dec_i64) t) (\<lambda>c2.
     and_then (nif_field ''signal'' (dec_option dec_i64) t) (\<lambda>signal.
     and_then (nif_field ''mask'' (dec_option dec_i64) t) (\<lambda>mask.
     and_then (nif_field ''problem'' (dec_option dec_string) t) (\<lambda>problem.
     and_then (nif_field ''count'' (dec_option dec_i64) t) (\<lambda>count.
     and_then (nif_field ''detail'' (dec_option dec_string) t) (\<lambda>detail.
     and_then (nif_field ''trailing_bits'' (dec_option (dec_list dec_bool)) t) (\<lambda>trailing_bits.
     Inr \<lparr>eef_variant = variant, eef_message_number = message_number, eef_field = field,
           eef_value = value, eef_minimum = minimum, eef_maximum = maximum, eef_width = width,
           eef_encoding = encoding, eef_record = record, eef_carried = carried,
           eef_satellite = satellite, eef_expected = expected, eef_actual = actual, eef_index = index,
           eef_orbit = orbit, eef_clock = clock, eef_orbit_satellite = orbit_satellite,
           eef_clock_satellite = clock_satellite, eef_c1 = c1, eef_c2 = c2, eef_signal = signal,
           eef_mask = mask, eef_problem = problem, eef_count = count, eef_detail = detail,
           eef_trailing_bits = trailing_bits\<rparr>))))))))))))))))))))))))))"

interpretation eef: nif_codec enc_RtcmEncodeErrorFields dec_RtcmEncodeErrorFields
  by unfold_locales (simp_all only: enc_RtcmEncodeErrorFields_def dec_RtcmEncodeErrorFields_def nif_lookup codec_simps, simp_all)

lemmas RtcmEncodeErrorFields_codec [codec_simps] =
  eef.decodes eef.option_decodes eef.list_decodes

definition no_encode_fields :: RtcmEncodeErrorFields where
  "no_encode_fields =
     \<lparr>eef_variant = [], eef_message_number = None, eef_field = None, eef_value = None,
      eef_minimum = None, eef_maximum = None, eef_width = None, eef_encoding = None, eef_record = None,
      eef_carried = None, eef_satellite = None, eef_expected = None, eef_actual = None,
      eef_index = None, eef_orbit = None, eef_clock = None, eef_orbit_satellite = None,
      eef_clock_satellite = None, eef_c1 = None, eef_c2 = None, eef_signal = None, eef_mask = None,
      eef_problem = None, eef_count = None, eef_detail = None, eef_trailing_bits = None\<rparr>"

primrec msm_mask_fields :: "MsmMaskProblem \<Rightarrow> RtcmEncodeErrorFields \<Rightarrow> RtcmEncodeErrorFields" where
  "msm_mask_fields (MsmMaskProblem.SatelliteOutsideMask satellite) F =
     F\<lparr>eef_problem := Some ''satellite_outside_mask'', eef_satellite := Some (as_i64 satellite)\<rparr>"
| "msm_mask_fields (MsmMaskProblem.SatelliteListedTwice satellite) F =
     F\<lparr>eef_problem := Some ''satellite_listed_twice'', eef_satellite := Some (as_i64 satellite)\<rparr>"
| "msm_mask_fields (MsmMaskProblem.SignalOutsideMask signal) F =
     F\<lparr>eef_problem := Some ''signal_outside_mask'', eef_signal := Some (as_i64 signal)\<rparr>"
| "msm_mask_fields (MsmMaskProblem.SignalNotInMask signal mask') F =
     F\<lparr>eef_problem := Some ''signal_not_in_mask'', eef_signal := Some (as_i64 signal),
        eef_mask := Some (as_i64 mask')\<rparr>"
| "msm_mask_fields (MsmMaskProblem.SignalSatelliteNotListed signal satellite) F =
     F\<lparr>eef_problem := Some ''signal_satellite_not_listed'', eef_signal := Some (as_i64 signal),
        eef_satellite := Some (as_i64 satellite)\<rparr>"
| "msm_mask_fields (MsmMaskProblem.CellListedTwice signal satellite) F =
     F\<lparr>eef_problem := Some ''cell_listed_twice'', eef_signal := Some (as_i64 signal),
        eef_satellite := Some (as_i64 satellite)\<rparr>"
| "msm_mask_fields UnnamedMaskProblem F = F\<lparr>eef_problem := Some ''unrecognized_mask_problem''\<rparr>"

primrec msm_optional_fields :: "MsmOptionalProblem \<Rightarrow> RtcmEncodeErrorFields \<Rightarrow> RtcmEncodeErrorFields" where
  "msm_optional_fields MsmOptionalProblem.Missing F =
     F\<lparr>eef_problem := Some ''missing''\<rparr>"
| "msm_optional_fields MsmOptionalProblem.NotCarried F =
     F\<lparr>eef_problem := Some ''not_carried''\<rparr>"
| "msm_optional_fields (MsmOptionalProblem.InvalidValue value) F =
     F\<lparr>eef_problem := Some ''invalid_value'', eef_value := Some (show_int value)\<rparr>"
| "msm_optional_fields UnnamedOptionalProblem F =
     F\<lparr>eef_problem := Some ''unrecognized_optional_problem''\<rparr>"

primrec strict_departure_fields :: "RtcmDeparture \<Rightarrow> RtcmEncodeErrorFields \<Rightarrow> RtcmEncodeErrorFields" where
  "strict_departure_fields (RtcmDeparture.FrameReservedBits reserved) F =
     F\<lparr>eef_value := Some (show_int reserved)\<rparr>"
| "strict_departure_fields (RtcmDeparture.TrailingBits message_number bits) F =
     F\<lparr>eef_message_number := Some (as_i64 message_number),
        eef_count := i64_try_from (int (length bits)), eef_trailing_bits := Some bits\<rparr>"
| "strict_departure_fields (RtcmDeparture.MsmCellMaskOver64 message_number cells) F =
     F\<lparr>eef_message_number := Some (as_i64 message_number), eef_count := i64_try_from cells\<rparr>"
| "strict_departure_fields (RtcmDeparture.OrderExceedsDegree message_number layer_index degree order) F =
     F\<lparr>eef_message_number := Some (as_i64 message_number), eef_index := i64_try_from layer_index,
        eef_expected := Some (as_i64 degree), eef_actual := Some (as_i64 order)\<rparr>"
| "strict_departure_fields (RtcmDeparture.SsrRecordsShort message_number declared read') F =
     F\<lparr>eef_message_number := Some (as_i64 message_number), eef_expected := i64_try_from declared,
        eef_actual := i64_try_from read'\<rparr>"
| "strict_departure_fields (RtcmDeparture.RecordsShort message_number declared read') F =
     F\<lparr>eef_message_number := Some (as_i64 message_number), eef_expected := i64_try_from declared,
        eef_actual := i64_try_from read'\<rparr>"
| "strict_departure_fields (UnnamedDeparture _) F = F"

primrec rtcm_encode_error_fields :: "'sys msm_core \<Rightarrow> 'sys RtcmEncodeError \<Rightarrow> RtcmEncodeErrorFields" where
  "rtcm_encode_error_fields C (RtcmEncodeError.FieldOutOfRange message_number field value width encoding) =
     no_encode_fields\<lparr>eef_variant := ''field_out_of_range'', eef_message_number := Some (as_i64 message_number),
        eef_field := Some field, eef_value := Some (show_int value), eef_width := Some (as_i64 width),
        eef_encoding := Some (field_encoding_label encoding)\<rparr>"
| "rtcm_encode_error_fields C (RtcmEncodeError.NegativeZeroWithValue message_number field value) =
     no_encode_fields\<lparr>eef_variant := ''negative_zero_with_value'', eef_message_number := Some (as_i64 message_number),
        eef_field := Some field, eef_value := Some (show_int value)\<rparr>"
| "rtcm_encode_error_fields C (RtcmEncodeError.NegativeZeroMask message_number mask') =
     no_encode_fields\<lparr>eef_variant := ''negative_zero_mask'', eef_message_number := Some (as_i64 message_number),
        eef_value := Some (show_int mask')\<rparr>"
| "rtcm_encode_error_fields C (RtcmEncodeError.MessageNumber message_number rec) =
     no_encode_fields\<lparr>eef_variant := ''message_number'', eef_message_number := Some (as_i64 message_number),
        eef_record := Some (record_kind_label C rec)\<rparr>"
| "rtcm_encode_error_fields C (RtcmEncodeError.FieldPresence message_number rec field carried) =
     no_encode_fields\<lparr>eef_variant := ''field_presence'', eef_message_number := Some (as_i64 message_number),
        eef_record := Some (record_kind_label C rec), eef_field := Some field,
        eef_carried := Some carried\<rparr>"
| "rtcm_encode_error_fields C (RtcmEncodeError.SatelliteFieldPresence message_number rec satellite field carried) =
     no_encode_fields\<lparr>eef_variant := ''satellite_field_presence'', eef_message_number := Some (as_i64 message_number),
        eef_record := Some (record_kind_label C rec), eef_satellite := Some (as_i64 satellite),
        eef_field := Some field, eef_carried := Some carried\<rparr>"
| "rtcm_encode_error_fields C (RtcmEncodeError.CountMismatch message_number field expected actual) =
     no_encode_fields\<lparr>eef_variant := ''count_mismatch'', eef_message_number := Some (as_i64 message_number),
        eef_field := Some field, eef_expected := i64_try_from expected,
        eef_actual := i64_try_from actual\<rparr>"
| "rtcm_encode_error_fields C (RtcmEncodeError.ValueOutOfRange message_number field value minimum maximum) =
     no_encode_fields\<lparr>eef_variant := ''value_out_of_range'', eef_message_number := Some (as_i64 message_number),
        eef_field := Some field, eef_value := Some (show_int value),
        eef_minimum := Some (show_int minimum), eef_maximum := Some (show_int maximum)\<rparr>"
| "rtcm_encode_error_fields C (RtcmEncodeError.NonLatin1Character field character) =
     no_encode_fields\<lparr>eef_variant := ''non_latin1_character'', eef_field := Some field,
        eef_value := Some (show_int character)\<rparr>"
| "rtcm_encode_error_fields C (RtcmEncodeError.SatelliteIdOutOfRange message_number field value width) =
     no_encode_fields\<lparr>eef_variant := ''satellite_id_out_of_range'',
        eef_message_number := Some (as_i64 message_number), eef_field := Some field,
        eef_value := Some (show_int value), eef_width := Some (as_i64 width)\<rparr>"
| "rtcm_encode_error_fields C (RtcmEncodeError.SsrSatelliteIdOutOfRange message_number value width) =
     no_encode_fields\<lparr>eef_variant := ''ssr_satellite_id_out_of_range'',
        eef_message_number := Some (as_i64 message_number), eef_satellite := Some (as_i64 value),
        eef_width := Some (as_i64 width)\<rparr>"
| "rtcm_encode_error_fields C (RtcmEncodeError.SsrRecordsNotCarried message_number kind records count) =
     no_encode_fields\<lparr>eef_variant := ''ssr_records_not_carried'', eef_message_number := Some (as_i64 message_number),
        eef_record := Some (ssr_kind_label kind), eef_field := Some records,
        eef_count := i64_try_from count\<rparr>"
| "rtcm_encode_error_fields C (RtcmEncodeError.SsrCombinedRecordCounts message_number orbit clock) =
     no_encode_fields\<lparr>eef_variant := ''ssr_combined_record_counts'',
        eef_message_number := Some (as_i64 message_number), eef_orbit := i64_try_from orbit,
        eef_clock := i64_try_from clock\<rparr>"
| "rtcm_encode_error_fields C (RtcmEncodeError.SsrCombinedSatelliteMismatch message_number index' orbit_satellite clock_satellite) =
     no_encode_fields\<lparr>eef_variant := ''ssr_combined_satellite_mismatch'',
        eef_message_number := Some (as_i64 message_number), eef_index := i64_try_from index',
        eef_orbit_satellite := Some (as_i64 orbit_satellite),
        eef_clock_satellite := Some (as_i64 clock_satellite)\<rparr>"
| "rtcm_encode_error_fields C (RtcmEncodeError.SsrHighRateClockTerms message_number satellite c1 c2) =
     no_encode_fields\<lparr>eef_variant := ''ssr_high_rate_clock_terms'',
        eef_message_number := Some (as_i64 message_number), eef_satellite := Some (as_i64 satellite),
        eef_c1 := Some (as_i64 c1), eef_c2 := Some (as_i64 c2)\<rparr>"
| "rtcm_encode_error_fields C (RtcmEncodeError.SsrSatelliteCount message_number declared records) =
     no_encode_fields\<lparr>eef_variant := ''ssr_satellite_count'', eef_message_number := Some (as_i64 message_number),
        eef_expected := i64_try_from declared, eef_actual := i64_try_from records\<rparr>"
| "rtcm_encode_error_fields C (RtcmEncodeError.MsmMask message_number problem) =
     msm_mask_fields problem
       (no_encode_fields\<lparr>eef_variant := ''msm_mask'', eef_message_number := Some (as_i64 message_number)\<rparr>)"
| "rtcm_encode_error_fields C (RtcmEncodeError.MsmOptional message_number kind satellite signal field problem) =
     msm_optional_fields problem
       (no_encode_fields\<lparr>eef_variant := ''msm_optional'', eef_message_number := Some (as_i64 message_number),
        eef_satellite := Some (as_i64 satellite), eef_record := Some (msm_kind_label C kind),
        eef_field := Some (msm_optional_field_label field), eef_signal := map_option as_i64 signal\<rparr>)"
| "rtcm_encode_error_fields C (RtcmEncodeError.TrailingZeroBits message_number bits) =
     no_encode_fields\<lparr>eef_variant := ''trailing_zero_bits'', eef_message_number := Some (as_i64 message_number),
        eef_count := i64_try_from bits\<rparr>"
| "rtcm_encode_error_fields C (RtcmEncodeError.StrictDeparture departure) =
     strict_departure_fields departure
       (no_encode_fields\<lparr>eef_variant := ''strict_departure'', eef_detail := Some (departure_label departure)\<rparr>)"
| "rtcm_encode_error_fields C (RtcmEncodeError.UnsupportedBodyTooShort message_number) =
     no_encode_fields\<lparr>eef_variant := ''unsupported_body_too_short'',
        eef_message_number := Some (as_i64 message_number)\<rparr>"
| "rtcm_encode_error_fields C (RtcmEncodeError.UnsupportedBodyNumber message_number carried) =
     no_encode_fields\<lparr>eef_variant := ''unsupported_body_number'', eef_message_number := Some (as_i64 message_number),
        eef_actual := Some (as_i64 carried)\<rparr>"
| "rtcm_encode_error_fields C (RtcmEncodeError.UnsupportedDecodedNumber message_number) =
     no_encode_fields\<lparr>eef_variant := ''unsupported_decoded_number'',
        eef_message_number := Some (as_i64 message_number)\<rparr>"
| "rtcm_encode_error_fields C (RtcmEncodeError.FrameBodyTooLong len') =
     no_encode_fields\<lparr>eef_variant := ''frame_body_too_long'', eef_count := i64_try_from len'\<rparr>"
| "rtcm_encode_error_fields C (RtcmEncodeError.FrameReservedOutOfRange value) =
     no_encode_fields\<lparr>eef_variant := ''frame_reserved_out_of_range'', eef_value := Some (show_int value)\<rparr>"
| "rtcm_encode_error_fields C RtcmEncodeError.UnnamedEncodeError =
     no_encode_fields\<lparr>eef_variant := ''unrecognized_encode_error''\<rparr>"

section \<open>VTEC evaluation problems\<close>

datatype VtecEvaluationProblem =
    ComputationTime
  | Frequency
  | NonFiniteCoordinates
  | MessageIdentity int
  | LayerCount int
  | InvalidGeometry
  | BelowHorizon
  | LayerDegreeOrder int int int
  | CoefficientCounts int int int int int
  | UnavailableCoefficient int
  | ShellNotAboveReceiver int
  | MissingCoefficient int string int
  | InvalidMappingFactor int
  | PhysicalResultOutOfRange string
  | UnnamedProblem

record VtecEvaluationErrorFields =
  vef_kind :: string
  vef_message_number :: "i64 option"
  vef_layers :: "i64 option"
  vef_layer_index :: "i64 option"
  vef_degree :: "i64 option"
  vef_order :: "i64 option"
  vef_cosine_expected :: "i64 option"
  vef_cosine_actual :: "i64 option"
  vef_sine_expected :: "i64 option"
  vef_sine_actual :: "i64 option"
  vef_field :: "string option"
  vef_index :: "i64 option"

definition enc_VtecEvaluationErrorFields :: "VtecEvaluationErrorFields \<Rightarrow> nterm" where
  "enc_VtecEvaluationErrorFields f = nif_map
     [(''kind'', Utf8 (vef_kind f)), (''message_number'', enc_option enc_i64 (vef_message_number f)),
      (''layers'', enc_option enc_i64 (vef_layers f)),
      (''layer_index'', enc_option enc_i64 (vef_layer_index f)),
      (''degree'', enc_option enc_i64 (vef_degree f)), (''order'', enc_option enc_i64 (vef_order f)),
      (''cosine_expected'', enc_option enc_i64 (vef_cosine_expected f)),
      (''cosine_actual'', enc_option enc_i64 (vef_cosine_actual f)),
      (''sine_expected'', enc_option enc_i64 (vef_sine_expected f)),
      (''sine_actual'', enc_option enc_i64 (vef_sine_actual f)),
      (''field'', enc_option Utf8 (vef_field f)), (''index'', enc_option enc_i64 (vef_index f))]"

definition dec_VtecEvaluationErrorFields :: "nterm \<Rightarrow> VtecEvaluationErrorFields NifResult" where
  "dec_VtecEvaluationErrorFields t =
     and_then (nif_field ''kind'' dec_string t) (\<lambda>kind.
     and_then (nif_field ''message_number'' (dec_option dec_i64) t) (\<lambda>message_number.
     and_then (nif_field ''layers'' (dec_option dec_i64) t) (\<lambda>layers.
     and_then (nif_field ''layer_index'' (dec_option dec_i64) t) (\<lambda>layer_index.
     and_then (nif_field ''degree'' (dec_option dec_i64) t) (\<lambda>degree.
     and_then (nif_field ''order'' (dec_option dec_i64) t) (\<lambda>order.
     and_then (nif_field ''cosine_expected'' (dec_option dec_i64) t) (\<lambda>cosine_expected.
     and_then (nif_field ''cosine_actual'' (dec_option dec_i64) t) (\<lambda>cosine_actual.
     and_then (nif_field ''sine_expected'' (dec_option dec_i64) t) (\<lambda>sine_expected.
     and_then (nif_field ''sine_actual'' (dec_option dec_i64) t) (\<lambda>sine_actual.
     and_then (nif_field ''field'' (dec_option dec_string) t) (\<lambda>field.
     and_then (nif_field ''index'' (dec_option dec_i64) t) (\<lambda>index.
     Inr \<lparr>vef_kind = kind, vef_message_number = message_number, vef_layers = layers,
           vef_layer_index = layer_index, vef_degree = degree, vef_order = order,
           vef_cosine_expected = cosine_expected, vef_cosine_actual = cosine_actual,
           vef_sine_expected = sine_expected, vef_sine_actual = sine_actual, vef_field = field,
           vef_index = index\<rparr>))))))))))))"

interpretation vef: nif_codec enc_VtecEvaluationErrorFields dec_VtecEvaluationErrorFields
  by unfold_locales (simp_all only: enc_VtecEvaluationErrorFields_def dec_VtecEvaluationErrorFields_def nif_lookup codec_simps, simp_all)

lemmas VtecEvaluationErrorFields_codec [codec_simps] =
  vef.decodes vef.option_decodes vef.list_decodes

definition no_vtec_fields :: VtecEvaluationErrorFields where
  "no_vtec_fields =
     \<lparr>vef_kind = [], vef_message_number = None, vef_layers = None, vef_layer_index = None,
      vef_degree = None, vef_order = None, vef_cosine_expected = None, vef_cosine_actual = None,
      vef_sine_expected = None, vef_sine_actual = None, vef_field = None, vef_index = None\<rparr>"

primrec VtecEvaluationErrorFields_from :: "VtecEvaluationProblem \<Rightarrow> VtecEvaluationErrorFields" where
  "VtecEvaluationErrorFields_from VtecEvaluationProblem.ComputationTime =
     no_vtec_fields\<lparr>vef_kind := ''computation_time''\<rparr>"
| "VtecEvaluationErrorFields_from VtecEvaluationProblem.Frequency =
     no_vtec_fields\<lparr>vef_kind := ''frequency''\<rparr>"
| "VtecEvaluationErrorFields_from VtecEvaluationProblem.NonFiniteCoordinates =
     no_vtec_fields\<lparr>vef_kind := ''non_finite_coordinates''\<rparr>"
| "VtecEvaluationErrorFields_from (VtecEvaluationProblem.MessageIdentity message_number) =
     no_vtec_fields\<lparr>vef_kind := ''message_identity'', vef_message_number := Some (as_i64 message_number)\<rparr>"
| "VtecEvaluationErrorFields_from (VtecEvaluationProblem.LayerCount layers) =
     no_vtec_fields\<lparr>vef_kind := ''layer_count'', vef_layers := i64_try_from layers\<rparr>"
| "VtecEvaluationErrorFields_from VtecEvaluationProblem.InvalidGeometry =
     no_vtec_fields\<lparr>vef_kind := ''invalid_geometry''\<rparr>"
| "VtecEvaluationErrorFields_from VtecEvaluationProblem.BelowHorizon =
     no_vtec_fields\<lparr>vef_kind := ''below_horizon''\<rparr>"
| "VtecEvaluationErrorFields_from (VtecEvaluationProblem.LayerDegreeOrder layer_index degree order) =
     no_vtec_fields\<lparr>vef_kind := ''layer_degree_order'', vef_layer_index := i64_try_from layer_index,
        vef_degree := Some (as_i64 degree), vef_order := Some (as_i64 order)\<rparr>"
| "VtecEvaluationErrorFields_from (VtecEvaluationProblem.CoefficientCounts layer_index cosine_expected cosine_actual sine_expected sine_actual) =
     no_vtec_fields\<lparr>vef_kind := ''coefficient_counts'', vef_layer_index := i64_try_from layer_index,
        vef_cosine_expected := i64_try_from cosine_expected,
        vef_cosine_actual := i64_try_from cosine_actual,
        vef_sine_expected := i64_try_from sine_expected, vef_sine_actual := i64_try_from sine_actual\<rparr>"
| "VtecEvaluationErrorFields_from (VtecEvaluationProblem.UnavailableCoefficient layer_index) =
     no_vtec_fields\<lparr>vef_kind := ''unavailable_coefficient'', vef_layer_index := i64_try_from layer_index\<rparr>"
| "VtecEvaluationErrorFields_from (VtecEvaluationProblem.ShellNotAboveReceiver layer_index) =
     no_vtec_fields\<lparr>vef_kind := ''shell_not_above_receiver'', vef_layer_index := i64_try_from layer_index\<rparr>"
| "VtecEvaluationErrorFields_from (VtecEvaluationProblem.MissingCoefficient layer_index field index') =
     no_vtec_fields\<lparr>vef_kind := ''missing_coefficient'', vef_layer_index := i64_try_from layer_index,
        vef_field := Some field, vef_index := i64_try_from index'\<rparr>"
| "VtecEvaluationErrorFields_from (VtecEvaluationProblem.InvalidMappingFactor layer_index) =
     no_vtec_fields\<lparr>vef_kind := ''invalid_mapping_factor'', vef_layer_index := i64_try_from layer_index\<rparr>"
| "VtecEvaluationErrorFields_from (VtecEvaluationProblem.PhysicalResultOutOfRange field) =
     no_vtec_fields\<lparr>vef_kind := ''physical_result_out_of_range'', vef_field := Some field\<rparr>"
| "VtecEvaluationErrorFields_from VtecEvaluationProblem.UnnamedProblem =
     no_vtec_fields\<lparr>vef_kind := ''unrecognized_problem''\<rparr>"

section \<open>Conversion refusals\<close>

datatype SatelliteIdError = InvalidInput string string

datatype 'sat LnavRecordError =
    NotGps 'sat
  | InvalidEpoch string
  | WeekMismatch int i64
  | NoUraPrediction i64
  | FitIntervalUnsupported i64 i64 i64

datatype ('sys, 'sat) RtcmConversionError =
    SatelliteIdOutOfRange int string int int
  | InvalidSatellite int string int SatelliteIdError
  | SbasPrnOutsideWindow int int
  | NoLnavRecord int 'sat
  | WeekMismatch int int int
  | NavicWeekMismatch int int
  | TimeNotRepresentable string
  | GalileoWeekOverflow
  | SisaSpare int
  | SisaNoPrediction
  | UraOutOfRange 'sys int
  | UraNoPrediction 'sys int
  | FitInterval "'sat LnavRecordError"
  | VtecEvaluation VtecEvaluationProblem
  | UnnamedConversionError

record RtcmConversionErrorFields =
  cef_variant :: string
  cef_nested_variant :: "string option"
  cef_message_number :: "i64 option"
  cef_field :: "string option"
  cef_value :: "i64 option"
  cef_width :: "i64 option"
  cef_index :: "i64 option"
  cef_system :: "string option"
  cef_full_week :: "i64 option"
  cef_week :: "i64 option"
  cef_broadcast_prn :: "i64 option"
  cef_satellite :: "string option"
  cef_reason :: "string option"
  cef_decoded_week :: "i64 option"
  cef_fit_interval_flag :: "i64 option"
  cef_iode :: "i64 option"
  cef_iodc :: "i64 option"
  cef_vtec :: "VtecEvaluationErrorFields option"
  cef_detail :: "string option"

definition enc_RtcmConversionErrorFields :: "RtcmConversionErrorFields \<Rightarrow> nterm" where
  "enc_RtcmConversionErrorFields f = nif_map
     [(''variant'', Utf8 (cef_variant f)), (''nested_variant'', enc_option Utf8 (cef_nested_variant f)),
      (''message_number'', enc_option enc_i64 (cef_message_number f)),
      (''field'', enc_option Utf8 (cef_field f)), (''value'', enc_option enc_i64 (cef_value f)),
      (''width'', enc_option enc_i64 (cef_width f)), (''index'', enc_option enc_i64 (cef_index f)),
      (''system'', enc_option Utf8 (cef_system f)),
      (''full_week'', enc_option enc_i64 (cef_full_week f)),
      (''week'', enc_option enc_i64 (cef_week f)),
      (''broadcast_prn'', enc_option enc_i64 (cef_broadcast_prn f)),
      (''satellite'', enc_option Utf8 (cef_satellite f)), (''reason'', enc_option Utf8 (cef_reason f)),
      (''decoded_week'', enc_option enc_i64 (cef_decoded_week f)),
      (''fit_interval_flag'', enc_option enc_i64 (cef_fit_interval_flag f)),
      (''iode'', enc_option enc_i64 (cef_iode f)), (''iodc'', enc_option enc_i64 (cef_iodc f)),
      (''vtec'', enc_option enc_VtecEvaluationErrorFields (cef_vtec f)),
      (''detail'', enc_option Utf8 (cef_detail f))]"

definition dec_RtcmConversionErrorFields :: "nterm \<Rightarrow> RtcmConversionErrorFields NifResult" where
  "dec_RtcmConversionErrorFields t =
     and_then (nif_field ''variant'' dec_string t) (\<lambda>variant.
     and_then (nif_field ''nested_variant'' (dec_option dec_string) t) (\<lambda>nested_variant.
     and_then (nif_field ''message_number'' (dec_option dec_i64) t) (\<lambda>message_number.
     and_then (nif_field ''field'' (dec_option dec_string) t) (\<lambda>field.
     and_then (nif_field ''value'' (dec_option dec_i64) t) (\<lambda>value.
     and_then (nif_field ''width'' (dec_option dec_i64) t) (\<lambda>width.
     and_then (nif_field ''index'' (dec_option dec_i64) t) (\<lambda>index.
     and_then (nif_field ''system'' (dec_option dec_string) t) (\<lambda>system.
     and_then (nif_field ''full_week'' (dec_option dec_i64) t) (\<lambda>full_week.
     and_then (nif_field ''week'' (dec_option dec_i64) t) (\<lambda>week.
     and_then (nif_field ''broadcast_prn'' (dec_option dec_i64) t) (\<lambda>broadcast_prn.
     and_then (nif_field ''satellite'' (dec_option dec_string) t) (\<lambda>satellite.
     and_then (nif_field ''reason'' (dec_option dec_string) t) (\<lambda>reason.
     and_then (nif_field ''decoded_week'' (dec_option dec_i64) t) (\<lambda>decoded_week.
     and_then (nif_field ''fit_interval_flag'' (dec_option dec_i64) t) (\<lambda>fit_interval_flag.
     and_then (nif_field ''iode'' (dec_option dec_i64) t) (\<lambda>iode.
     and_then (nif_field ''iodc'' (dec_option dec_i64) t) (\<lambda>iodc.
     and_then (nif_field ''vtec'' (dec_option dec_VtecEvaluationErrorFields) t) (\<lambda>vtec.
     and_then (nif_field ''detail'' (dec_option dec_string) t) (\<lambda>detail.
     Inr \<lparr>cef_variant = variant, cef_nested_variant = nested_variant,
           cef_message_number = message_number, cef_field = field, cef_value = value, cef_width = width,
           cef_index = index, cef_system = system, cef_full_week = full_week, cef_week = week,
           cef_broadcast_prn = broadcast_prn, cef_satellite = satellite, cef_reason = reason,
           cef_decoded_week = decoded_week, cef_fit_interval_flag = fit_interval_flag, cef_iode = iode,
           cef_iodc = iodc, cef_vtec = vtec, cef_detail = detail\<rparr>)))))))))))))))))))"

interpretation cef: nif_codec enc_RtcmConversionErrorFields dec_RtcmConversionErrorFields
  by unfold_locales (simp_all only: enc_RtcmConversionErrorFields_def dec_RtcmConversionErrorFields_def nif_lookup codec_simps, simp_all)

lemmas RtcmConversionErrorFields_codec [codec_simps] =
  cef.decodes cef.option_decodes cef.list_decodes

definition no_conversion_fields :: RtcmConversionErrorFields where
  "no_conversion_fields =
     \<lparr>cef_variant = [], cef_nested_variant = None, cef_message_number = None, cef_field = None,
      cef_value = None, cef_width = None, cef_index = None, cef_system = None, cef_full_week = None,
      cef_week = None, cef_broadcast_prn = None, cef_satellite = None, cef_reason = None,
      cef_decoded_week = None, cef_fit_interval_flag = None, cef_iode = None, cef_iodc = None,
      cef_vtec = None, cef_detail = None\<rparr>"

fun satellite_id_error_fields :: "SatelliteIdError \<Rightarrow> RtcmConversionErrorFields \<Rightarrow> RtcmConversionErrorFields" where
  "satellite_id_error_fields (SatelliteIdError.InvalidInput field reason) F =
     F\<lparr>cef_nested_variant := Some ''invalid_input'', cef_detail := Some field,
        cef_reason := Some reason\<rparr>"

fun lnav_record_error_fields ::
  "('sat \<Rightarrow> string) \<Rightarrow> 'sat LnavRecordError \<Rightarrow> RtcmConversionErrorFields \<Rightarrow> RtcmConversionErrorFields" where
  "lnav_record_error_fields S (LnavRecordError.NotGps satellite) F =
     F\<lparr>cef_nested_variant := Some ''not_gps'', cef_satellite := Some (S satellite)\<rparr>"
| "lnav_record_error_fields S (LnavRecordError.InvalidEpoch field) F =
     F\<lparr>cef_nested_variant := Some ''invalid_epoch'', cef_field := Some field\<rparr>"
| "lnav_record_error_fields S (LnavRecordError.WeekMismatch full_week decoded_week) F =
     F\<lparr>cef_nested_variant := Some ''week_mismatch'', cef_full_week := Some (as_i64 full_week),
        cef_decoded_week := Some decoded_week\<rparr>"
| "lnav_record_error_fields S (LnavRecordError.NoUraPrediction index') F =
     F\<lparr>cef_nested_variant := Some ''no_ura_prediction'', cef_index := Some index'\<rparr>"
| "lnav_record_error_fields S (LnavRecordError.FitIntervalUnsupported fit_interval_flag iode iodc) F =
     F\<lparr>cef_nested_variant := Some ''fit_interval_unsupported'',
        cef_fit_interval_flag := Some fit_interval_flag, cef_iode := Some iode, cef_iodc := Some iodc\<rparr>"

primrec rtcm_conversion_error_fields :: "'sys msm_core \<Rightarrow> ('sat \<Rightarrow> string) \<Rightarrow> ('sys, 'sat) RtcmConversionError \<Rightarrow> RtcmConversionErrorFields" where
  "rtcm_conversion_error_fields C S (RtcmConversionError.SatelliteIdOutOfRange message_number field value width) =
     no_conversion_fields\<lparr>cef_variant := ''satellite_id_out_of_range'',
        cef_message_number := Some (as_i64 message_number), cef_field := Some field,
        cef_value := Some (as_i64 value), cef_width := Some (as_i64 width)\<rparr>"
| "rtcm_conversion_error_fields C S (RtcmConversionError.InvalidSatellite message_number field value error') =
     satellite_id_error_fields error'
       (no_conversion_fields\<lparr>cef_variant := ''invalid_satellite'', cef_message_number := Some (as_i64 message_number),
        cef_field := Some field, cef_value := Some (as_i64 value)\<rparr>)"
| "rtcm_conversion_error_fields C S (RtcmConversionError.SbasPrnOutsideWindow value broadcast_prn) =
     no_conversion_fields\<lparr>cef_variant := ''sbas_prn_outside_window'', cef_value := Some (as_i64 value),
        cef_broadcast_prn := Some (as_i64 broadcast_prn)\<rparr>"
| "rtcm_conversion_error_fields C S (RtcmConversionError.NoLnavRecord value satellite) =
     no_conversion_fields\<lparr>cef_variant := ''no_lnav_record'', cef_value := Some (as_i64 value),
        cef_satellite := Some (S satellite)\<rparr>"
| "rtcm_conversion_error_fields C S (RtcmConversionError.WeekMismatch message_number full_week week) =
     no_conversion_fields\<lparr>cef_variant := ''week_mismatch'', cef_message_number := Some (as_i64 message_number),
        cef_full_week := Some (as_i64 full_week), cef_week := Some (as_i64 week)\<rparr>"
| "rtcm_conversion_error_fields C S (RtcmConversionError.NavicWeekMismatch full_week week) =
     no_conversion_fields\<lparr>cef_variant := ''navic_week_mismatch'', cef_full_week := Some (as_i64 full_week),
        cef_week := Some (as_i64 week)\<rparr>"
| "rtcm_conversion_error_fields C S (RtcmConversionError.TimeNotRepresentable field) =
     no_conversion_fields\<lparr>cef_variant := ''time_not_representable'', cef_field := Some field\<rparr>"
| "rtcm_conversion_error_fields C S RtcmConversionError.GalileoWeekOverflow =
     no_conversion_fields\<lparr>cef_variant := ''galileo_week_overflow''\<rparr>"
| "rtcm_conversion_error_fields C S (RtcmConversionError.SisaSpare index') =
     no_conversion_fields\<lparr>cef_variant := ''sisa_spare'', cef_index := Some (as_i64 index')\<rparr>"
| "rtcm_conversion_error_fields C S RtcmConversionError.SisaNoPrediction =
     no_conversion_fields\<lparr>cef_variant := ''sisa_no_prediction''\<rparr>"
| "rtcm_conversion_error_fields C S (RtcmConversionError.UraOutOfRange system index') =
     no_conversion_fields\<lparr>cef_variant := ''ura_out_of_range'', cef_system := Some [letter C system],
        cef_index := Some (as_i64 index')\<rparr>"
| "rtcm_conversion_error_fields C S (RtcmConversionError.UraNoPrediction system index') =
     no_conversion_fields\<lparr>cef_variant := ''ura_no_prediction'', cef_system := Some [letter C system],
        cef_index := Some (as_i64 index')\<rparr>"
| "rtcm_conversion_error_fields C S (RtcmConversionError.FitInterval error') =
     lnav_record_error_fields S error'
       (no_conversion_fields\<lparr>cef_variant := ''fit_interval''\<rparr>)"
| "rtcm_conversion_error_fields C S (RtcmConversionError.VtecEvaluation problem) =
     no_conversion_fields\<lparr>cef_variant := ''vtec_evaluation'', cef_vtec := Some (VtecEvaluationErrorFields_from problem)\<rparr>"
| "rtcm_conversion_error_fields C S RtcmConversionError.UnnamedConversionError =
     no_conversion_fields\<lparr>cef_variant := ''unrecognized_conversion_error''\<rparr>"

section \<open>The error of a call\<close>

text \<open>\<open>sidereon_core::Error\<close>: the variants the source names and the others by their text; \<open>show_error\<close>
  is its \<open>to_string\<close>, \<open>show_satellite\<close> that of a satellite.\<close>

datatype ('sys, 'sat, 'err) CoreError =
    InvalidInput string
  | RtcmEncode "'sys RtcmEncodeError"
  | RtcmConversion "('sys, 'sat) RtcmConversionError"
  | OtherError 'err

record ('sys, 'sat, 'err) error_core =
  error_msm :: "'sys msm_core"
  show_satellite :: "'sat \<Rightarrow> string"
  show_error :: "('sys, 'sat, 'err) CoreError \<Rightarrow> string"

primrec encode_error_reason :: "('sys, 'sat, 'err) error_core \<Rightarrow> ('sys, 'sat, 'err) CoreError \<Rightarrow> nterm" where
  "encode_error_reason E (CoreError.InvalidInput message) = Tup [Atom ''invalid_input'', Utf8 message]"
| "encode_error_reason E (RtcmEncode error') =
     (case error' of
        StrictDeparture departure \<Rightarrow> Tup [Atom ''departure'', departure_term departure]
      | _ \<Rightarrow> Tup [Atom ''rtcm_encode_error'',
          enc_RtcmEncodeErrorFields (rtcm_encode_error_fields (error_msm E) error')])"
| "encode_error_reason E (RtcmConversion error') =
     Tup [Atom ''rtcm_conversion_error'',
       enc_RtcmConversionErrorFields (rtcm_conversion_error_fields (error_msm E) (show_satellite E) error')]"
| "encode_error_reason E (OtherError e) = Utf8 (show_error E (OtherError e))"

text \<open>The raised form. A departure is raised without the tag that \<open>encode_error_reason\<close> puts on it.\<close>

primrec raise_encode_error :: "('sys, 'sat, 'err) error_core \<Rightarrow> ('sys, 'sat, 'err) CoreError \<Rightarrow> nif_error" where
  "raise_encode_error E (CoreError.InvalidInput message) =
     RaiseTerm (Tup [Atom ''invalid_input'', Utf8 message])"
| "raise_encode_error E (RtcmEncode error') =
     (case error' of
        StrictDeparture (FrameReservedBits reserved) \<Rightarrow>
          RaiseTerm (Tup [Atom ''frame_reserved_bits'', enc_i64 (as_i64 reserved)])
      | StrictDeparture (TrailingBits message_number bits) \<Rightarrow>
          RaiseTerm (Tup [Atom ''trailing_bits'', enc_i64 (as_i64 message_number), enc_list enc_bool bits])
      | StrictDeparture (MsmCellMaskOver64 message_number cells) \<Rightarrow>
          RaiseTerm (Tup [Atom ''msm_cell_mask_over_64'', enc_i64 (as_i64 message_number), Integer cells])
      | StrictDeparture (SsrRecordsShort message_number declared read') \<Rightarrow>
          RaiseTerm (Tup [Atom ''ssr_records_short'', enc_i64 (as_i64 message_number), Integer declared,
            Integer read'])
      | StrictDeparture (OrderExceedsDegree message_number layer_index degree order) \<Rightarrow>
          RaiseTerm (Tup [Atom ''order_exceeds_degree'', enc_i64 (as_i64 message_number), Integer layer_index,
            enc_i64 (as_i64 degree), enc_i64 (as_i64 order)])
      | StrictDeparture (RecordsShort message_number declared read') \<Rightarrow>
          RaiseTerm (Tup [Atom ''records_short'', enc_i64 (as_i64 message_number), Integer declared,
            Integer read'])
      | StrictDeparture (UnnamedDeparture txt) \<Rightarrow> RaiseTerm (Tup [Atom ''departure'', Utf8 txt])
      | _ \<Rightarrow> RaiseTerm (Tup [Atom ''rtcm_encode_error'',
          enc_RtcmEncodeErrorFields (rtcm_encode_error_fields (error_msm E) error')]))"
| "raise_encode_error E (RtcmConversion error') =
     RaiseTerm (Tup [Atom ''rtcm_conversion_error'',
       enc_RtcmConversionErrorFields (rtcm_conversion_error_fields (error_msm E) (show_satellite E) error')])"
| "raise_encode_error E (OtherError e) = RaiseTerm (Utf8 (show_error E (OtherError e)))"

end
