(* ===== verification/RtcmEphemeris.thy ===== *)
theory RtcmEphemeris
  imports NifTerm
begin

text \<open>
  The broadcast ephemeris messages of \<open>native/sidereon_nif/src/rtcm.rs\<close>: for each constellation the
  boundary structure (a record of \<open>i64\<close> words, with the map codec its \<open>derive(NifMap)\<close> gives it), the
  core structure, and the conversions both ways. The way back keeps the low bits of every field
  (\<open>as\<close>), except for NavIC, where every field is checked.
\<close>

section \<open>GPS\<close>

record GpsEphemerisFields =
  gpsf_satellite_id :: i64
  gpsf_week_number :: i64
  gpsf_sv_accuracy :: i64
  gpsf_code_on_l2 :: i64
  gpsf_idot :: i64
  gpsf_iode :: i64
  gpsf_t_oc :: i64
  gpsf_a_f2 :: i64
  gpsf_a_f1 :: i64
  gpsf_a_f0 :: i64
  gpsf_iodc :: i64
  gpsf_c_rs :: i64
  gpsf_delta_n :: i64
  gpsf_m0 :: i64
  gpsf_c_uc :: i64
  gpsf_eccentricity :: i64
  gpsf_c_us :: i64
  gpsf_sqrt_a :: i64
  gpsf_t_oe :: i64
  gpsf_c_ic :: i64
  gpsf_omega0 :: i64
  gpsf_c_is :: i64
  gpsf_i0 :: i64
  gpsf_c_rc :: i64
  gpsf_omega :: i64
  gpsf_omega_dot :: i64
  gpsf_t_gd :: i64
  gpsf_sv_health :: i64
  gpsf_l2_p_data_flag :: bool
  gpsf_fit_interval :: bool
  gpsf_trailing_bits :: "bool list"

definition enc_GpsEphemerisFields :: "GpsEphemerisFields \<Rightarrow> nterm" where
  "enc_GpsEphemerisFields f = nif_map
     [(''satellite_id'', enc_i64 (gpsf_satellite_id f)),
      (''week_number'', enc_i64 (gpsf_week_number f)), (''sv_accuracy'', enc_i64 (gpsf_sv_accuracy f)),
      (''code_on_l2'', enc_i64 (gpsf_code_on_l2 f)), (''idot'', enc_i64 (gpsf_idot f)),
      (''iode'', enc_i64 (gpsf_iode f)), (''t_oc'', enc_i64 (gpsf_t_oc f)),
      (''a_f2'', enc_i64 (gpsf_a_f2 f)), (''a_f1'', enc_i64 (gpsf_a_f1 f)),
      (''a_f0'', enc_i64 (gpsf_a_f0 f)), (''iodc'', enc_i64 (gpsf_iodc f)),
      (''c_rs'', enc_i64 (gpsf_c_rs f)), (''delta_n'', enc_i64 (gpsf_delta_n f)),
      (''m0'', enc_i64 (gpsf_m0 f)), (''c_uc'', enc_i64 (gpsf_c_uc f)),
      (''eccentricity'', enc_i64 (gpsf_eccentricity f)), (''c_us'', enc_i64 (gpsf_c_us f)),
      (''sqrt_a'', enc_i64 (gpsf_sqrt_a f)), (''t_oe'', enc_i64 (gpsf_t_oe f)),
      (''c_ic'', enc_i64 (gpsf_c_ic f)), (''omega0'', enc_i64 (gpsf_omega0 f)),
      (''c_is'', enc_i64 (gpsf_c_is f)), (''i0'', enc_i64 (gpsf_i0 f)),
      (''c_rc'', enc_i64 (gpsf_c_rc f)), (''omega'', enc_i64 (gpsf_omega f)),
      (''omega_dot'', enc_i64 (gpsf_omega_dot f)), (''t_gd'', enc_i64 (gpsf_t_gd f)),
      (''sv_health'', enc_i64 (gpsf_sv_health f)),
      (''l2_p_data_flag'', enc_bool (gpsf_l2_p_data_flag f)),
      (''fit_interval'', enc_bool (gpsf_fit_interval f)),
      (''trailing_bits'', enc_list enc_bool (gpsf_trailing_bits f))]"

definition dec_GpsEphemerisFields :: "nterm \<Rightarrow> GpsEphemerisFields NifResult" where
  "dec_GpsEphemerisFields t =
     and_then (nif_field ''satellite_id'' dec_i64 t) (\<lambda>satellite_id.
     and_then (nif_field ''week_number'' dec_i64 t) (\<lambda>week_number.
     and_then (nif_field ''sv_accuracy'' dec_i64 t) (\<lambda>sv_accuracy.
     and_then (nif_field ''code_on_l2'' dec_i64 t) (\<lambda>code_on_l2.
     and_then (nif_field ''idot'' dec_i64 t) (\<lambda>idot.
     and_then (nif_field ''iode'' dec_i64 t) (\<lambda>iode.
     and_then (nif_field ''t_oc'' dec_i64 t) (\<lambda>t_oc.
     and_then (nif_field ''a_f2'' dec_i64 t) (\<lambda>a_f2.
     and_then (nif_field ''a_f1'' dec_i64 t) (\<lambda>a_f1.
     and_then (nif_field ''a_f0'' dec_i64 t) (\<lambda>a_f0.
     and_then (nif_field ''iodc'' dec_i64 t) (\<lambda>iodc.
     and_then (nif_field ''c_rs'' dec_i64 t) (\<lambda>c_rs.
     and_then (nif_field ''delta_n'' dec_i64 t) (\<lambda>delta_n.
     and_then (nif_field ''m0'' dec_i64 t) (\<lambda>m0.
     and_then (nif_field ''c_uc'' dec_i64 t) (\<lambda>c_uc.
     and_then (nif_field ''eccentricity'' dec_i64 t) (\<lambda>eccentricity.
     and_then (nif_field ''c_us'' dec_i64 t) (\<lambda>c_us.
     and_then (nif_field ''sqrt_a'' dec_i64 t) (\<lambda>sqrt_a.
     and_then (nif_field ''t_oe'' dec_i64 t) (\<lambda>t_oe.
     and_then (nif_field ''c_ic'' dec_i64 t) (\<lambda>c_ic.
     and_then (nif_field ''omega0'' dec_i64 t) (\<lambda>omega0.
     and_then (nif_field ''c_is'' dec_i64 t) (\<lambda>c_is.
     and_then (nif_field ''i0'' dec_i64 t) (\<lambda>i0.
     and_then (nif_field ''c_rc'' dec_i64 t) (\<lambda>c_rc.
     and_then (nif_field ''omega'' dec_i64 t) (\<lambda>omega.
     and_then (nif_field ''omega_dot'' dec_i64 t) (\<lambda>omega_dot.
     and_then (nif_field ''t_gd'' dec_i64 t) (\<lambda>t_gd.
     and_then (nif_field ''sv_health'' dec_i64 t) (\<lambda>sv_health.
     and_then (nif_field ''l2_p_data_flag'' dec_bool t) (\<lambda>l2_p_data_flag.
     and_then (nif_field ''fit_interval'' dec_bool t) (\<lambda>fit_interval.
     and_then (nif_field ''trailing_bits'' (dec_list dec_bool) t) (\<lambda>trailing_bits.
     Inr \<lparr>gpsf_satellite_id = satellite_id, gpsf_week_number = week_number,
           gpsf_sv_accuracy = sv_accuracy, gpsf_code_on_l2 = code_on_l2, gpsf_idot = idot,
           gpsf_iode = iode, gpsf_t_oc = t_oc, gpsf_a_f2 = a_f2, gpsf_a_f1 = a_f1, gpsf_a_f0 = a_f0,
           gpsf_iodc = iodc, gpsf_c_rs = c_rs, gpsf_delta_n = delta_n, gpsf_m0 = m0, gpsf_c_uc = c_uc,
           gpsf_eccentricity = eccentricity, gpsf_c_us = c_us, gpsf_sqrt_a = sqrt_a, gpsf_t_oe = t_oe,
           gpsf_c_ic = c_ic, gpsf_omega0 = omega0, gpsf_c_is = c_is, gpsf_i0 = i0, gpsf_c_rc = c_rc,
           gpsf_omega = omega, gpsf_omega_dot = omega_dot, gpsf_t_gd = t_gd, gpsf_sv_health = sv_health,
           gpsf_l2_p_data_flag = l2_p_data_flag, gpsf_fit_interval = fit_interval,
           gpsf_trailing_bits = trailing_bits\<rparr>)))))))))))))))))))))))))))))))"

interpretation gpsf: nif_codec enc_GpsEphemerisFields dec_GpsEphemerisFields
  by unfold_locales (simp_all only: enc_GpsEphemerisFields_def dec_GpsEphemerisFields_def nif_lookup codec_simps, simp_all)

lemmas GpsEphemerisFields_codec [codec_simps] =
  gpsf.decodes gpsf.option_decodes gpsf.list_decodes

record GpsEphemeris =
  gps_satellite_id :: int
  gps_week_number :: int
  gps_sv_accuracy :: int
  gps_code_on_l2 :: int
  gps_idot :: int
  gps_iode :: int
  gps_t_oc :: int
  gps_a_f2 :: int
  gps_a_f1 :: int
  gps_a_f0 :: int
  gps_iodc :: int
  gps_c_rs :: int
  gps_delta_n :: int
  gps_m0 :: i64
  gps_c_uc :: int
  gps_eccentricity :: int
  gps_c_us :: int
  gps_sqrt_a :: int
  gps_t_oe :: int
  gps_c_ic :: int
  gps_omega0 :: i64
  gps_c_is :: int
  gps_i0 :: i64
  gps_c_rc :: int
  gps_omega :: i64
  gps_omega_dot :: int
  gps_t_gd :: int
  gps_sv_health :: int
  gps_l2_p_data_flag :: bool
  gps_fit_interval :: bool
  gps_trailing_bits :: "bool list"

definition carried_GpsEphemeris :: "GpsEphemeris \<Rightarrow> bool" where
  "carried_GpsEphemeris m \<longleftrightarrow>
     in_ty U8 (gps_satellite_id m) \<and> in_ty U16 (gps_week_number m) \<and>
     in_ty U8 (gps_sv_accuracy m) \<and> in_ty U8 (gps_code_on_l2 m) \<and>
     in_ty I32 (gps_idot m) \<and> in_ty U8 (gps_iode m) \<and> in_ty U16 (gps_t_oc m) \<and>
     in_ty I16 (gps_a_f2 m) \<and> in_ty I32 (gps_a_f1 m) \<and> in_ty I32 (gps_a_f0 m) \<and>
     in_ty U16 (gps_iodc m) \<and> in_ty I32 (gps_c_rs m) \<and> in_ty I32 (gps_delta_n m) \<and>
     in_ty I32 (gps_c_uc m) \<and> in_ty U64 (gps_eccentricity m) \<and> in_ty I32 (gps_c_us m) \<and>
     in_ty U64 (gps_sqrt_a m) \<and> in_ty U16 (gps_t_oe m) \<and> in_ty I32 (gps_c_ic m) \<and>
     in_ty I32 (gps_c_is m) \<and> in_ty I32 (gps_c_rc m) \<and> in_ty I32 (gps_omega_dot m) \<and>
     in_ty I16 (gps_t_gd m) \<and> in_ty U8 (gps_sv_health m)"

definition GpsEphemerisFields_from :: "GpsEphemeris \<Rightarrow> GpsEphemerisFields" where
  "GpsEphemerisFields_from m =
     \<lparr>gpsf_satellite_id = as_i64 (gps_satellite_id m), gpsf_week_number = as_i64 (gps_week_number m),
      gpsf_sv_accuracy = as_i64 (gps_sv_accuracy m), gpsf_code_on_l2 = as_i64 (gps_code_on_l2 m),
      gpsf_idot = as_i64 (gps_idot m), gpsf_iode = as_i64 (gps_iode m), gpsf_t_oc = as_i64 (gps_t_oc m),
      gpsf_a_f2 = as_i64 (gps_a_f2 m), gpsf_a_f1 = as_i64 (gps_a_f1 m), gpsf_a_f0 = as_i64 (gps_a_f0 m),
      gpsf_iodc = as_i64 (gps_iodc m), gpsf_c_rs = as_i64 (gps_c_rs m),
      gpsf_delta_n = as_i64 (gps_delta_n m), gpsf_m0 = gps_m0 m, gpsf_c_uc = as_i64 (gps_c_uc m),
      gpsf_eccentricity = as_i64 (gps_eccentricity m), gpsf_c_us = as_i64 (gps_c_us m),
      gpsf_sqrt_a = as_i64 (gps_sqrt_a m), gpsf_t_oe = as_i64 (gps_t_oe m),
      gpsf_c_ic = as_i64 (gps_c_ic m), gpsf_omega0 = gps_omega0 m, gpsf_c_is = as_i64 (gps_c_is m),
      gpsf_i0 = gps_i0 m, gpsf_c_rc = as_i64 (gps_c_rc m), gpsf_omega = gps_omega m,
      gpsf_omega_dot = as_i64 (gps_omega_dot m), gpsf_t_gd = as_i64 (gps_t_gd m),
      gpsf_sv_health = as_i64 (gps_sv_health m), gpsf_l2_p_data_flag = gps_l2_p_data_flag m,
      gpsf_fit_interval = gps_fit_interval m, gpsf_trailing_bits = gps_trailing_bits m\<rparr>"

definition GpsEphemeris_from :: "GpsEphemerisFields \<Rightarrow> GpsEphemeris" where
  "GpsEphemeris_from f =
     \<lparr>gps_satellite_id = as_ty U8 (gpsf_satellite_id f),
      gps_week_number = as_ty U16 (gpsf_week_number f), gps_sv_accuracy = as_ty U8 (gpsf_sv_accuracy f),
      gps_code_on_l2 = as_ty U8 (gpsf_code_on_l2 f), gps_idot = as_ty I32 (gpsf_idot f),
      gps_iode = as_ty U8 (gpsf_iode f), gps_t_oc = as_ty U16 (gpsf_t_oc f),
      gps_a_f2 = as_ty I16 (gpsf_a_f2 f), gps_a_f1 = as_ty I32 (gpsf_a_f1 f),
      gps_a_f0 = as_ty I32 (gpsf_a_f0 f), gps_iodc = as_ty U16 (gpsf_iodc f),
      gps_c_rs = as_ty I32 (gpsf_c_rs f), gps_delta_n = as_ty I32 (gpsf_delta_n f), gps_m0 = gpsf_m0 f,
      gps_c_uc = as_ty I32 (gpsf_c_uc f), gps_eccentricity = as_ty U64 (gpsf_eccentricity f),
      gps_c_us = as_ty I32 (gpsf_c_us f), gps_sqrt_a = as_ty U64 (gpsf_sqrt_a f),
      gps_t_oe = as_ty U16 (gpsf_t_oe f), gps_c_ic = as_ty I32 (gpsf_c_ic f),
      gps_omega0 = gpsf_omega0 f, gps_c_is = as_ty I32 (gpsf_c_is f), gps_i0 = gpsf_i0 f,
      gps_c_rc = as_ty I32 (gpsf_c_rc f), gps_omega = gpsf_omega f,
      gps_omega_dot = as_ty I32 (gpsf_omega_dot f), gps_t_gd = as_ty I16 (gpsf_t_gd f),
      gps_sv_health = as_ty U8 (gpsf_sv_health f), gps_l2_p_data_flag = gpsf_l2_p_data_flag f,
      gps_fit_interval = gpsf_fit_interval f, gps_trailing_bits = gpsf_trailing_bits f\<rparr>"

interpretation gps: casting_build carried_GpsEphemeris GpsEphemerisFields_from GpsEphemeris_from
  by unfold_locales (simp_all add: carried_GpsEphemeris_def GpsEphemerisFields_from_def GpsEphemeris_from_def build_returns)

section \<open>Galileo F/NAV\<close>

record GalileoFnavEphemerisFields =
  fnavf_satellite_id :: i64
  fnavf_week_number :: i64
  fnavf_iod_nav :: i64
  fnavf_sisa :: i64
  fnavf_idot :: i64
  fnavf_t_oc :: i64
  fnavf_a_f2 :: i64
  fnavf_a_f1 :: i64
  fnavf_a_f0 :: i64
  fnavf_c_rs :: i64
  fnavf_delta_n :: i64
  fnavf_m0 :: i64
  fnavf_c_uc :: i64
  fnavf_eccentricity :: i64
  fnavf_c_us :: i64
  fnavf_sqrt_a :: i64
  fnavf_t_oe :: i64
  fnavf_c_ic :: i64
  fnavf_omega0 :: i64
  fnavf_c_is :: i64
  fnavf_i0 :: i64
  fnavf_c_rc :: i64
  fnavf_omega :: i64
  fnavf_omega_dot :: i64
  fnavf_bgd_e5a_e1 :: i64
  fnavf_e5a_signal_health :: i64
  fnavf_e5a_data_validity :: bool
  fnavf_reserved :: i64
  fnavf_trailing_bits :: "bool list"

definition enc_GalileoFnavEphemerisFields :: "GalileoFnavEphemerisFields \<Rightarrow> nterm" where
  "enc_GalileoFnavEphemerisFields f = nif_map
     [(''satellite_id'', enc_i64 (fnavf_satellite_id f)),
      (''week_number'', enc_i64 (fnavf_week_number f)), (''iod_nav'', enc_i64 (fnavf_iod_nav f)),
      (''sisa'', enc_i64 (fnavf_sisa f)), (''idot'', enc_i64 (fnavf_idot f)),
      (''t_oc'', enc_i64 (fnavf_t_oc f)), (''a_f2'', enc_i64 (fnavf_a_f2 f)),
      (''a_f1'', enc_i64 (fnavf_a_f1 f)), (''a_f0'', enc_i64 (fnavf_a_f0 f)),
      (''c_rs'', enc_i64 (fnavf_c_rs f)), (''delta_n'', enc_i64 (fnavf_delta_n f)),
      (''m0'', enc_i64 (fnavf_m0 f)), (''c_uc'', enc_i64 (fnavf_c_uc f)),
      (''eccentricity'', enc_i64 (fnavf_eccentricity f)), (''c_us'', enc_i64 (fnavf_c_us f)),
      (''sqrt_a'', enc_i64 (fnavf_sqrt_a f)), (''t_oe'', enc_i64 (fnavf_t_oe f)),
      (''c_ic'', enc_i64 (fnavf_c_ic f)), (''omega0'', enc_i64 (fnavf_omega0 f)),
      (''c_is'', enc_i64 (fnavf_c_is f)), (''i0'', enc_i64 (fnavf_i0 f)),
      (''c_rc'', enc_i64 (fnavf_c_rc f)), (''omega'', enc_i64 (fnavf_omega f)),
      (''omega_dot'', enc_i64 (fnavf_omega_dot f)), (''bgd_e5a_e1'', enc_i64 (fnavf_bgd_e5a_e1 f)),
      (''e5a_signal_health'', enc_i64 (fnavf_e5a_signal_health f)),
      (''e5a_data_validity'', enc_bool (fnavf_e5a_data_validity f)),
      (''reserved'', enc_i64 (fnavf_reserved f)),
      (''trailing_bits'', enc_list enc_bool (fnavf_trailing_bits f))]"

definition dec_GalileoFnavEphemerisFields :: "nterm \<Rightarrow> GalileoFnavEphemerisFields NifResult" where
  "dec_GalileoFnavEphemerisFields t =
     and_then (nif_field ''satellite_id'' dec_i64 t) (\<lambda>satellite_id.
     and_then (nif_field ''week_number'' dec_i64 t) (\<lambda>week_number.
     and_then (nif_field ''iod_nav'' dec_i64 t) (\<lambda>iod_nav.
     and_then (nif_field ''sisa'' dec_i64 t) (\<lambda>sisa.
     and_then (nif_field ''idot'' dec_i64 t) (\<lambda>idot.
     and_then (nif_field ''t_oc'' dec_i64 t) (\<lambda>t_oc.
     and_then (nif_field ''a_f2'' dec_i64 t) (\<lambda>a_f2.
     and_then (nif_field ''a_f1'' dec_i64 t) (\<lambda>a_f1.
     and_then (nif_field ''a_f0'' dec_i64 t) (\<lambda>a_f0.
     and_then (nif_field ''c_rs'' dec_i64 t) (\<lambda>c_rs.
     and_then (nif_field ''delta_n'' dec_i64 t) (\<lambda>delta_n.
     and_then (nif_field ''m0'' dec_i64 t) (\<lambda>m0.
     and_then (nif_field ''c_uc'' dec_i64 t) (\<lambda>c_uc.
     and_then (nif_field ''eccentricity'' dec_i64 t) (\<lambda>eccentricity.
     and_then (nif_field ''c_us'' dec_i64 t) (\<lambda>c_us.
     and_then (nif_field ''sqrt_a'' dec_i64 t) (\<lambda>sqrt_a.
     and_then (nif_field ''t_oe'' dec_i64 t) (\<lambda>t_oe.
     and_then (nif_field ''c_ic'' dec_i64 t) (\<lambda>c_ic.
     and_then (nif_field ''omega0'' dec_i64 t) (\<lambda>omega0.
     and_then (nif_field ''c_is'' dec_i64 t) (\<lambda>c_is.
     and_then (nif_field ''i0'' dec_i64 t) (\<lambda>i0.
     and_then (nif_field ''c_rc'' dec_i64 t) (\<lambda>c_rc.
     and_then (nif_field ''omega'' dec_i64 t) (\<lambda>omega.
     and_then (nif_field ''omega_dot'' dec_i64 t) (\<lambda>omega_dot.
     and_then (nif_field ''bgd_e5a_e1'' dec_i64 t) (\<lambda>bgd_e5a_e1.
     and_then (nif_field ''e5a_signal_health'' dec_i64 t) (\<lambda>e5a_signal_health.
     and_then (nif_field ''e5a_data_validity'' dec_bool t) (\<lambda>e5a_data_validity.
     and_then (nif_field ''reserved'' dec_i64 t) (\<lambda>reserved.
     and_then (nif_field ''trailing_bits'' (dec_list dec_bool) t) (\<lambda>trailing_bits.
     Inr \<lparr>fnavf_satellite_id = satellite_id, fnavf_week_number = week_number, fnavf_iod_nav = iod_nav,
           fnavf_sisa = sisa, fnavf_idot = idot, fnavf_t_oc = t_oc, fnavf_a_f2 = a_f2,
           fnavf_a_f1 = a_f1, fnavf_a_f0 = a_f0, fnavf_c_rs = c_rs, fnavf_delta_n = delta_n,
           fnavf_m0 = m0, fnavf_c_uc = c_uc, fnavf_eccentricity = eccentricity, fnavf_c_us = c_us,
           fnavf_sqrt_a = sqrt_a, fnavf_t_oe = t_oe, fnavf_c_ic = c_ic, fnavf_omega0 = omega0,
           fnavf_c_is = c_is, fnavf_i0 = i0, fnavf_c_rc = c_rc, fnavf_omega = omega,
           fnavf_omega_dot = omega_dot, fnavf_bgd_e5a_e1 = bgd_e5a_e1,
           fnavf_e5a_signal_health = e5a_signal_health, fnavf_e5a_data_validity = e5a_data_validity,
           fnavf_reserved = reserved, fnavf_trailing_bits = trailing_bits\<rparr>)))))))))))))))))))))))))))))"

interpretation fnavf: nif_codec enc_GalileoFnavEphemerisFields dec_GalileoFnavEphemerisFields
  by unfold_locales (simp_all only: enc_GalileoFnavEphemerisFields_def dec_GalileoFnavEphemerisFields_def nif_lookup codec_simps, simp_all)

lemmas GalileoFnavEphemerisFields_codec [codec_simps] =
  fnavf.decodes fnavf.option_decodes fnavf.list_decodes

record GalileoFnavEphemeris =
  fnav_satellite_id :: int
  fnav_week_number :: int
  fnav_iod_nav :: int
  fnav_sisa :: int
  fnav_idot :: int
  fnav_t_oc :: int
  fnav_a_f2 :: int
  fnav_a_f1 :: int
  fnav_a_f0 :: i64
  fnav_c_rs :: int
  fnav_delta_n :: int
  fnav_m0 :: i64
  fnav_c_uc :: int
  fnav_eccentricity :: int
  fnav_c_us :: int
  fnav_sqrt_a :: int
  fnav_t_oe :: int
  fnav_c_ic :: int
  fnav_omega0 :: i64
  fnav_c_is :: int
  fnav_i0 :: i64
  fnav_c_rc :: int
  fnav_omega :: i64
  fnav_omega_dot :: int
  fnav_bgd_e5a_e1 :: int
  fnav_e5a_signal_health :: int
  fnav_e5a_data_validity :: bool
  fnav_reserved :: int
  fnav_trailing_bits :: "bool list"

definition carried_GalileoFnavEphemeris :: "GalileoFnavEphemeris \<Rightarrow> bool" where
  "carried_GalileoFnavEphemeris m \<longleftrightarrow>
     in_ty U8 (fnav_satellite_id m) \<and> in_ty U16 (fnav_week_number m) \<and>
     in_ty U16 (fnav_iod_nav m) \<and> in_ty U8 (fnav_sisa m) \<and> in_ty I32 (fnav_idot m) \<and>
     in_ty U16 (fnav_t_oc m) \<and> in_ty I16 (fnav_a_f2 m) \<and> in_ty I32 (fnav_a_f1 m) \<and>
     in_ty I32 (fnav_c_rs m) \<and> in_ty I32 (fnav_delta_n m) \<and> in_ty I32 (fnav_c_uc m) \<and>
     in_ty U64 (fnav_eccentricity m) \<and> in_ty I32 (fnav_c_us m) \<and>
     in_ty U64 (fnav_sqrt_a m) \<and> in_ty U16 (fnav_t_oe m) \<and> in_ty I32 (fnav_c_ic m) \<and>
     in_ty I32 (fnav_c_is m) \<and> in_ty I32 (fnav_c_rc m) \<and> in_ty I32 (fnav_omega_dot m) \<and>
     in_ty I16 (fnav_bgd_e5a_e1 m) \<and> in_ty U8 (fnav_e5a_signal_health m) \<and>
     in_ty U8 (fnav_reserved m)"

definition GalileoFnavEphemerisFields_from :: "GalileoFnavEphemeris \<Rightarrow> GalileoFnavEphemerisFields" where
  "GalileoFnavEphemerisFields_from m =
     \<lparr>fnavf_satellite_id = as_i64 (fnav_satellite_id m),
      fnavf_week_number = as_i64 (fnav_week_number m), fnavf_iod_nav = as_i64 (fnav_iod_nav m),
      fnavf_sisa = as_i64 (fnav_sisa m), fnavf_idot = as_i64 (fnav_idot m),
      fnavf_t_oc = as_i64 (fnav_t_oc m), fnavf_a_f2 = as_i64 (fnav_a_f2 m),
      fnavf_a_f1 = as_i64 (fnav_a_f1 m), fnavf_a_f0 = fnav_a_f0 m, fnavf_c_rs = as_i64 (fnav_c_rs m),
      fnavf_delta_n = as_i64 (fnav_delta_n m), fnavf_m0 = fnav_m0 m, fnavf_c_uc = as_i64 (fnav_c_uc m),
      fnavf_eccentricity = as_i64 (fnav_eccentricity m), fnavf_c_us = as_i64 (fnav_c_us m),
      fnavf_sqrt_a = as_i64 (fnav_sqrt_a m), fnavf_t_oe = as_i64 (fnav_t_oe m),
      fnavf_c_ic = as_i64 (fnav_c_ic m), fnavf_omega0 = fnav_omega0 m,
      fnavf_c_is = as_i64 (fnav_c_is m), fnavf_i0 = fnav_i0 m, fnavf_c_rc = as_i64 (fnav_c_rc m),
      fnavf_omega = fnav_omega m, fnavf_omega_dot = as_i64 (fnav_omega_dot m),
      fnavf_bgd_e5a_e1 = as_i64 (fnav_bgd_e5a_e1 m),
      fnavf_e5a_signal_health = as_i64 (fnav_e5a_signal_health m),
      fnavf_e5a_data_validity = fnav_e5a_data_validity m, fnavf_reserved = as_i64 (fnav_reserved m),
      fnavf_trailing_bits = fnav_trailing_bits m\<rparr>"

definition GalileoFnavEphemeris_from :: "GalileoFnavEphemerisFields \<Rightarrow> GalileoFnavEphemeris" where
  "GalileoFnavEphemeris_from f =
     \<lparr>fnav_satellite_id = as_ty U8 (fnavf_satellite_id f),
      fnav_week_number = as_ty U16 (fnavf_week_number f), fnav_iod_nav = as_ty U16 (fnavf_iod_nav f),
      fnav_sisa = as_ty U8 (fnavf_sisa f), fnav_idot = as_ty I32 (fnavf_idot f),
      fnav_t_oc = as_ty U16 (fnavf_t_oc f), fnav_a_f2 = as_ty I16 (fnavf_a_f2 f),
      fnav_a_f1 = as_ty I32 (fnavf_a_f1 f), fnav_a_f0 = fnavf_a_f0 f,
      fnav_c_rs = as_ty I32 (fnavf_c_rs f), fnav_delta_n = as_ty I32 (fnavf_delta_n f),
      fnav_m0 = fnavf_m0 f, fnav_c_uc = as_ty I32 (fnavf_c_uc f),
      fnav_eccentricity = as_ty U64 (fnavf_eccentricity f), fnav_c_us = as_ty I32 (fnavf_c_us f),
      fnav_sqrt_a = as_ty U64 (fnavf_sqrt_a f), fnav_t_oe = as_ty U16 (fnavf_t_oe f),
      fnav_c_ic = as_ty I32 (fnavf_c_ic f), fnav_omega0 = fnavf_omega0 f,
      fnav_c_is = as_ty I32 (fnavf_c_is f), fnav_i0 = fnavf_i0 f, fnav_c_rc = as_ty I32 (fnavf_c_rc f),
      fnav_omega = fnavf_omega f, fnav_omega_dot = as_ty I32 (fnavf_omega_dot f),
      fnav_bgd_e5a_e1 = as_ty I16 (fnavf_bgd_e5a_e1 f),
      fnav_e5a_signal_health = as_ty U8 (fnavf_e5a_signal_health f),
      fnav_e5a_data_validity = fnavf_e5a_data_validity f, fnav_reserved = as_ty U8 (fnavf_reserved f),
      fnav_trailing_bits = fnavf_trailing_bits f\<rparr>"

interpretation fnav: casting_build carried_GalileoFnavEphemeris GalileoFnavEphemerisFields_from GalileoFnavEphemeris_from
  by unfold_locales (simp_all add: carried_GalileoFnavEphemeris_def GalileoFnavEphemerisFields_from_def GalileoFnavEphemeris_from_def build_returns)

section \<open>Galileo I/NAV\<close>

record GalileoInavEphemerisFields =
  inavf_satellite_id :: i64
  inavf_week_number :: i64
  inavf_iod_nav :: i64
  inavf_sisa_index :: i64
  inavf_idot :: i64
  inavf_t_oc :: i64
  inavf_a_f2 :: i64
  inavf_a_f1 :: i64
  inavf_a_f0 :: i64
  inavf_c_rs :: i64
  inavf_delta_n :: i64
  inavf_m0 :: i64
  inavf_c_uc :: i64
  inavf_eccentricity :: i64
  inavf_c_us :: i64
  inavf_sqrt_a :: i64
  inavf_t_oe :: i64
  inavf_c_ic :: i64
  inavf_omega0 :: i64
  inavf_c_is :: i64
  inavf_i0 :: i64
  inavf_c_rc :: i64
  inavf_omega :: i64
  inavf_omega_dot :: i64
  inavf_bgd_e5a_e1 :: i64
  inavf_bgd_e5b_e1 :: i64
  inavf_e5b_signal_health :: i64
  inavf_e5b_data_validity :: bool
  inavf_e1b_signal_health :: i64
  inavf_e1b_data_validity :: bool
  inavf_reserved :: i64
  inavf_trailing_bits :: "bool list"

definition enc_GalileoInavEphemerisFields :: "GalileoInavEphemerisFields \<Rightarrow> nterm" where
  "enc_GalileoInavEphemerisFields f = nif_map
     [(''satellite_id'', enc_i64 (inavf_satellite_id f)),
      (''week_number'', enc_i64 (inavf_week_number f)), (''iod_nav'', enc_i64 (inavf_iod_nav f)),
      (''sisa_index'', enc_i64 (inavf_sisa_index f)), (''idot'', enc_i64 (inavf_idot f)),
      (''t_oc'', enc_i64 (inavf_t_oc f)), (''a_f2'', enc_i64 (inavf_a_f2 f)),
      (''a_f1'', enc_i64 (inavf_a_f1 f)), (''a_f0'', enc_i64 (inavf_a_f0 f)),
      (''c_rs'', enc_i64 (inavf_c_rs f)), (''delta_n'', enc_i64 (inavf_delta_n f)),
      (''m0'', enc_i64 (inavf_m0 f)), (''c_uc'', enc_i64 (inavf_c_uc f)),
      (''eccentricity'', enc_i64 (inavf_eccentricity f)), (''c_us'', enc_i64 (inavf_c_us f)),
      (''sqrt_a'', enc_i64 (inavf_sqrt_a f)), (''t_oe'', enc_i64 (inavf_t_oe f)),
      (''c_ic'', enc_i64 (inavf_c_ic f)), (''omega0'', enc_i64 (inavf_omega0 f)),
      (''c_is'', enc_i64 (inavf_c_is f)), (''i0'', enc_i64 (inavf_i0 f)),
      (''c_rc'', enc_i64 (inavf_c_rc f)), (''omega'', enc_i64 (inavf_omega f)),
      (''omega_dot'', enc_i64 (inavf_omega_dot f)), (''bgd_e5a_e1'', enc_i64 (inavf_bgd_e5a_e1 f)),
      (''bgd_e5b_e1'', enc_i64 (inavf_bgd_e5b_e1 f)),
      (''e5b_signal_health'', enc_i64 (inavf_e5b_signal_health f)),
      (''e5b_data_validity'', enc_bool (inavf_e5b_data_validity f)),
      (''e1b_signal_health'', enc_i64 (inavf_e1b_signal_health f)),
      (''e1b_data_validity'', enc_bool (inavf_e1b_data_validity f)),
      (''reserved'', enc_i64 (inavf_reserved f)),
      (''trailing_bits'', enc_list enc_bool (inavf_trailing_bits f))]"

definition dec_GalileoInavEphemerisFields :: "nterm \<Rightarrow> GalileoInavEphemerisFields NifResult" where
  "dec_GalileoInavEphemerisFields t =
     and_then (nif_field ''satellite_id'' dec_i64 t) (\<lambda>satellite_id.
     and_then (nif_field ''week_number'' dec_i64 t) (\<lambda>week_number.
     and_then (nif_field ''iod_nav'' dec_i64 t) (\<lambda>iod_nav.
     and_then (nif_field ''sisa_index'' dec_i64 t) (\<lambda>sisa_index.
     and_then (nif_field ''idot'' dec_i64 t) (\<lambda>idot.
     and_then (nif_field ''t_oc'' dec_i64 t) (\<lambda>t_oc.
     and_then (nif_field ''a_f2'' dec_i64 t) (\<lambda>a_f2.
     and_then (nif_field ''a_f1'' dec_i64 t) (\<lambda>a_f1.
     and_then (nif_field ''a_f0'' dec_i64 t) (\<lambda>a_f0.
     and_then (nif_field ''c_rs'' dec_i64 t) (\<lambda>c_rs.
     and_then (nif_field ''delta_n'' dec_i64 t) (\<lambda>delta_n.
     and_then (nif_field ''m0'' dec_i64 t) (\<lambda>m0.
     and_then (nif_field ''c_uc'' dec_i64 t) (\<lambda>c_uc.
     and_then (nif_field ''eccentricity'' dec_i64 t) (\<lambda>eccentricity.
     and_then (nif_field ''c_us'' dec_i64 t) (\<lambda>c_us.
     and_then (nif_field ''sqrt_a'' dec_i64 t) (\<lambda>sqrt_a.
     and_then (nif_field ''t_oe'' dec_i64 t) (\<lambda>t_oe.
     and_then (nif_field ''c_ic'' dec_i64 t) (\<lambda>c_ic.
     and_then (nif_field ''omega0'' dec_i64 t) (\<lambda>omega0.
     and_then (nif_field ''c_is'' dec_i64 t) (\<lambda>c_is.
     and_then (nif_field ''i0'' dec_i64 t) (\<lambda>i0.
     and_then (nif_field ''c_rc'' dec_i64 t) (\<lambda>c_rc.
     and_then (nif_field ''omega'' dec_i64 t) (\<lambda>omega.
     and_then (nif_field ''omega_dot'' dec_i64 t) (\<lambda>omega_dot.
     and_then (nif_field ''bgd_e5a_e1'' dec_i64 t) (\<lambda>bgd_e5a_e1.
     and_then (nif_field ''bgd_e5b_e1'' dec_i64 t) (\<lambda>bgd_e5b_e1.
     and_then (nif_field ''e5b_signal_health'' dec_i64 t) (\<lambda>e5b_signal_health.
     and_then (nif_field ''e5b_data_validity'' dec_bool t) (\<lambda>e5b_data_validity.
     and_then (nif_field ''e1b_signal_health'' dec_i64 t) (\<lambda>e1b_signal_health.
     and_then (nif_field ''e1b_data_validity'' dec_bool t) (\<lambda>e1b_data_validity.
     and_then (nif_field ''reserved'' dec_i64 t) (\<lambda>reserved.
     and_then (nif_field ''trailing_bits'' (dec_list dec_bool) t) (\<lambda>trailing_bits.
     Inr \<lparr>inavf_satellite_id = satellite_id, inavf_week_number = week_number, inavf_iod_nav = iod_nav,
           inavf_sisa_index = sisa_index, inavf_idot = idot, inavf_t_oc = t_oc, inavf_a_f2 = a_f2,
           inavf_a_f1 = a_f1, inavf_a_f0 = a_f0, inavf_c_rs = c_rs, inavf_delta_n = delta_n,
           inavf_m0 = m0, inavf_c_uc = c_uc, inavf_eccentricity = eccentricity, inavf_c_us = c_us,
           inavf_sqrt_a = sqrt_a, inavf_t_oe = t_oe, inavf_c_ic = c_ic, inavf_omega0 = omega0,
           inavf_c_is = c_is, inavf_i0 = i0, inavf_c_rc = c_rc, inavf_omega = omega,
           inavf_omega_dot = omega_dot, inavf_bgd_e5a_e1 = bgd_e5a_e1, inavf_bgd_e5b_e1 = bgd_e5b_e1,
           inavf_e5b_signal_health = e5b_signal_health, inavf_e5b_data_validity = e5b_data_validity,
           inavf_e1b_signal_health = e1b_signal_health, inavf_e1b_data_validity = e1b_data_validity,
           inavf_reserved = reserved, inavf_trailing_bits = trailing_bits\<rparr>))))))))))))))))))))))))))))))))"

interpretation inavf: nif_codec enc_GalileoInavEphemerisFields dec_GalileoInavEphemerisFields
  by unfold_locales (simp_all only: enc_GalileoInavEphemerisFields_def dec_GalileoInavEphemerisFields_def nif_lookup codec_simps, simp_all)

lemmas GalileoInavEphemerisFields_codec [codec_simps] =
  inavf.decodes inavf.option_decodes inavf.list_decodes

record GalileoInavEphemeris =
  inav_satellite_id :: int
  inav_week_number :: int
  inav_iod_nav :: int
  inav_sisa_index :: int
  inav_idot :: int
  inav_t_oc :: int
  inav_a_f2 :: int
  inav_a_f1 :: int
  inav_a_f0 :: i64
  inav_c_rs :: int
  inav_delta_n :: int
  inav_m0 :: i64
  inav_c_uc :: int
  inav_eccentricity :: int
  inav_c_us :: int
  inav_sqrt_a :: int
  inav_t_oe :: int
  inav_c_ic :: int
  inav_omega0 :: i64
  inav_c_is :: int
  inav_i0 :: i64
  inav_c_rc :: int
  inav_omega :: i64
  inav_omega_dot :: int
  inav_bgd_e5a_e1 :: int
  inav_bgd_e5b_e1 :: int
  inav_e5b_signal_health :: int
  inav_e5b_data_validity :: bool
  inav_e1b_signal_health :: int
  inav_e1b_data_validity :: bool
  inav_reserved :: int
  inav_trailing_bits :: "bool list"

definition carried_GalileoInavEphemeris :: "GalileoInavEphemeris \<Rightarrow> bool" where
  "carried_GalileoInavEphemeris m \<longleftrightarrow>
     in_ty U8 (inav_satellite_id m) \<and> in_ty U16 (inav_week_number m) \<and>
     in_ty U16 (inav_iod_nav m) \<and> in_ty U8 (inav_sisa_index m) \<and>
     in_ty I32 (inav_idot m) \<and> in_ty U16 (inav_t_oc m) \<and> in_ty I16 (inav_a_f2 m) \<and>
     in_ty I32 (inav_a_f1 m) \<and> in_ty I32 (inav_c_rs m) \<and> in_ty I32 (inav_delta_n m) \<and>
     in_ty I32 (inav_c_uc m) \<and> in_ty U64 (inav_eccentricity m) \<and>
     in_ty I32 (inav_c_us m) \<and> in_ty U64 (inav_sqrt_a m) \<and> in_ty U16 (inav_t_oe m) \<and>
     in_ty I32 (inav_c_ic m) \<and> in_ty I32 (inav_c_is m) \<and> in_ty I32 (inav_c_rc m) \<and>
     in_ty I32 (inav_omega_dot m) \<and> in_ty I16 (inav_bgd_e5a_e1 m) \<and>
     in_ty I16 (inav_bgd_e5b_e1 m) \<and> in_ty U8 (inav_e5b_signal_health m) \<and>
     in_ty U8 (inav_e1b_signal_health m) \<and> in_ty U8 (inav_reserved m)"

definition GalileoInavEphemerisFields_from :: "GalileoInavEphemeris \<Rightarrow> GalileoInavEphemerisFields" where
  "GalileoInavEphemerisFields_from m =
     \<lparr>inavf_satellite_id = as_i64 (inav_satellite_id m),
      inavf_week_number = as_i64 (inav_week_number m), inavf_iod_nav = as_i64 (inav_iod_nav m),
      inavf_sisa_index = as_i64 (inav_sisa_index m), inavf_idot = as_i64 (inav_idot m),
      inavf_t_oc = as_i64 (inav_t_oc m), inavf_a_f2 = as_i64 (inav_a_f2 m),
      inavf_a_f1 = as_i64 (inav_a_f1 m), inavf_a_f0 = inav_a_f0 m, inavf_c_rs = as_i64 (inav_c_rs m),
      inavf_delta_n = as_i64 (inav_delta_n m), inavf_m0 = inav_m0 m, inavf_c_uc = as_i64 (inav_c_uc m),
      inavf_eccentricity = as_i64 (inav_eccentricity m), inavf_c_us = as_i64 (inav_c_us m),
      inavf_sqrt_a = as_i64 (inav_sqrt_a m), inavf_t_oe = as_i64 (inav_t_oe m),
      inavf_c_ic = as_i64 (inav_c_ic m), inavf_omega0 = inav_omega0 m,
      inavf_c_is = as_i64 (inav_c_is m), inavf_i0 = inav_i0 m, inavf_c_rc = as_i64 (inav_c_rc m),
      inavf_omega = inav_omega m, inavf_omega_dot = as_i64 (inav_omega_dot m),
      inavf_bgd_e5a_e1 = as_i64 (inav_bgd_e5a_e1 m), inavf_bgd_e5b_e1 = as_i64 (inav_bgd_e5b_e1 m),
      inavf_e5b_signal_health = as_i64 (inav_e5b_signal_health m),
      inavf_e5b_data_validity = inav_e5b_data_validity m,
      inavf_e1b_signal_health = as_i64 (inav_e1b_signal_health m),
      inavf_e1b_data_validity = inav_e1b_data_validity m, inavf_reserved = as_i64 (inav_reserved m),
      inavf_trailing_bits = inav_trailing_bits m\<rparr>"

definition GalileoInavEphemeris_from :: "GalileoInavEphemerisFields \<Rightarrow> GalileoInavEphemeris" where
  "GalileoInavEphemeris_from f =
     \<lparr>inav_satellite_id = as_ty U8 (inavf_satellite_id f),
      inav_week_number = as_ty U16 (inavf_week_number f), inav_iod_nav = as_ty U16 (inavf_iod_nav f),
      inav_sisa_index = as_ty U8 (inavf_sisa_index f), inav_idot = as_ty I32 (inavf_idot f),
      inav_t_oc = as_ty U16 (inavf_t_oc f), inav_a_f2 = as_ty I16 (inavf_a_f2 f),
      inav_a_f1 = as_ty I32 (inavf_a_f1 f), inav_a_f0 = inavf_a_f0 f,
      inav_c_rs = as_ty I32 (inavf_c_rs f), inav_delta_n = as_ty I32 (inavf_delta_n f),
      inav_m0 = inavf_m0 f, inav_c_uc = as_ty I32 (inavf_c_uc f),
      inav_eccentricity = as_ty U64 (inavf_eccentricity f), inav_c_us = as_ty I32 (inavf_c_us f),
      inav_sqrt_a = as_ty U64 (inavf_sqrt_a f), inav_t_oe = as_ty U16 (inavf_t_oe f),
      inav_c_ic = as_ty I32 (inavf_c_ic f), inav_omega0 = inavf_omega0 f,
      inav_c_is = as_ty I32 (inavf_c_is f), inav_i0 = inavf_i0 f, inav_c_rc = as_ty I32 (inavf_c_rc f),
      inav_omega = inavf_omega f, inav_omega_dot = as_ty I32 (inavf_omega_dot f),
      inav_bgd_e5a_e1 = as_ty I16 (inavf_bgd_e5a_e1 f),
      inav_bgd_e5b_e1 = as_ty I16 (inavf_bgd_e5b_e1 f),
      inav_e5b_signal_health = as_ty U8 (inavf_e5b_signal_health f),
      inav_e5b_data_validity = inavf_e5b_data_validity f,
      inav_e1b_signal_health = as_ty U8 (inavf_e1b_signal_health f),
      inav_e1b_data_validity = inavf_e1b_data_validity f, inav_reserved = as_ty U8 (inavf_reserved f),
      inav_trailing_bits = inavf_trailing_bits f\<rparr>"

interpretation inav: casting_build carried_GalileoInavEphemeris GalileoInavEphemerisFields_from GalileoInavEphemeris_from
  by unfold_locales (simp_all add: carried_GalileoInavEphemeris_def GalileoInavEphemerisFields_from_def GalileoInavEphemeris_from_def build_returns)

section \<open>BeiDou\<close>

record BeidouEphemerisFields =
  bdsf_satellite_id :: i64
  bdsf_week_number :: i64
  bdsf_sv_urai :: i64
  bdsf_idot :: i64
  bdsf_aode :: i64
  bdsf_t_oc :: i64
  bdsf_a_f2 :: i64
  bdsf_a_f1 :: i64
  bdsf_a_f0 :: i64
  bdsf_aodc :: i64
  bdsf_c_rs :: i64
  bdsf_delta_n :: i64
  bdsf_m0 :: i64
  bdsf_c_uc :: i64
  bdsf_eccentricity :: i64
  bdsf_c_us :: i64
  bdsf_sqrt_a :: i64
  bdsf_t_oe :: i64
  bdsf_c_ic :: i64
  bdsf_omega0 :: i64
  bdsf_c_is :: i64
  bdsf_i0 :: i64
  bdsf_c_rc :: i64
  bdsf_omega :: i64
  bdsf_omega_dot :: i64
  bdsf_t_gd1 :: i64
  bdsf_t_gd2 :: i64
  bdsf_sv_health :: bool
  bdsf_trailing_bits :: "bool list"

definition enc_BeidouEphemerisFields :: "BeidouEphemerisFields \<Rightarrow> nterm" where
  "enc_BeidouEphemerisFields f = nif_map
     [(''satellite_id'', enc_i64 (bdsf_satellite_id f)),
      (''week_number'', enc_i64 (bdsf_week_number f)), (''sv_urai'', enc_i64 (bdsf_sv_urai f)),
      (''idot'', enc_i64 (bdsf_idot f)), (''aode'', enc_i64 (bdsf_aode f)),
      (''t_oc'', enc_i64 (bdsf_t_oc f)), (''a_f2'', enc_i64 (bdsf_a_f2 f)),
      (''a_f1'', enc_i64 (bdsf_a_f1 f)), (''a_f0'', enc_i64 (bdsf_a_f0 f)),
      (''aodc'', enc_i64 (bdsf_aodc f)), (''c_rs'', enc_i64 (bdsf_c_rs f)),
      (''delta_n'', enc_i64 (bdsf_delta_n f)), (''m0'', enc_i64 (bdsf_m0 f)),
      (''c_uc'', enc_i64 (bdsf_c_uc f)), (''eccentricity'', enc_i64 (bdsf_eccentricity f)),
      (''c_us'', enc_i64 (bdsf_c_us f)), (''sqrt_a'', enc_i64 (bdsf_sqrt_a f)),
      (''t_oe'', enc_i64 (bdsf_t_oe f)), (''c_ic'', enc_i64 (bdsf_c_ic f)),
      (''omega0'', enc_i64 (bdsf_omega0 f)), (''c_is'', enc_i64 (bdsf_c_is f)),
      (''i0'', enc_i64 (bdsf_i0 f)), (''c_rc'', enc_i64 (bdsf_c_rc f)),
      (''omega'', enc_i64 (bdsf_omega f)), (''omega_dot'', enc_i64 (bdsf_omega_dot f)),
      (''t_gd1'', enc_i64 (bdsf_t_gd1 f)), (''t_gd2'', enc_i64 (bdsf_t_gd2 f)),
      (''sv_health'', enc_bool (bdsf_sv_health f)),
      (''trailing_bits'', enc_list enc_bool (bdsf_trailing_bits f))]"

definition dec_BeidouEphemerisFields :: "nterm \<Rightarrow> BeidouEphemerisFields NifResult" where
  "dec_BeidouEphemerisFields t =
     and_then (nif_field ''satellite_id'' dec_i64 t) (\<lambda>satellite_id.
     and_then (nif_field ''week_number'' dec_i64 t) (\<lambda>week_number.
     and_then (nif_field ''sv_urai'' dec_i64 t) (\<lambda>sv_urai.
     and_then (nif_field ''idot'' dec_i64 t) (\<lambda>idot.
     and_then (nif_field ''aode'' dec_i64 t) (\<lambda>aode.
     and_then (nif_field ''t_oc'' dec_i64 t) (\<lambda>t_oc.
     and_then (nif_field ''a_f2'' dec_i64 t) (\<lambda>a_f2.
     and_then (nif_field ''a_f1'' dec_i64 t) (\<lambda>a_f1.
     and_then (nif_field ''a_f0'' dec_i64 t) (\<lambda>a_f0.
     and_then (nif_field ''aodc'' dec_i64 t) (\<lambda>aodc.
     and_then (nif_field ''c_rs'' dec_i64 t) (\<lambda>c_rs.
     and_then (nif_field ''delta_n'' dec_i64 t) (\<lambda>delta_n.
     and_then (nif_field ''m0'' dec_i64 t) (\<lambda>m0.
     and_then (nif_field ''c_uc'' dec_i64 t) (\<lambda>c_uc.
     and_then (nif_field ''eccentricity'' dec_i64 t) (\<lambda>eccentricity.
     and_then (nif_field ''c_us'' dec_i64 t) (\<lambda>c_us.
     and_then (nif_field ''sqrt_a'' dec_i64 t) (\<lambda>sqrt_a.
     and_then (nif_field ''t_oe'' dec_i64 t) (\<lambda>t_oe.
     and_then (nif_field ''c_ic'' dec_i64 t) (\<lambda>c_ic.
     and_then (nif_field ''omega0'' dec_i64 t) (\<lambda>omega0.
     and_then (nif_field ''c_is'' dec_i64 t) (\<lambda>c_is.
     and_then (nif_field ''i0'' dec_i64 t) (\<lambda>i0.
     and_then (nif_field ''c_rc'' dec_i64 t) (\<lambda>c_rc.
     and_then (nif_field ''omega'' dec_i64 t) (\<lambda>omega.
     and_then (nif_field ''omega_dot'' dec_i64 t) (\<lambda>omega_dot.
     and_then (nif_field ''t_gd1'' dec_i64 t) (\<lambda>t_gd1.
     and_then (nif_field ''t_gd2'' dec_i64 t) (\<lambda>t_gd2.
     and_then (nif_field ''sv_health'' dec_bool t) (\<lambda>sv_health.
     and_then (nif_field ''trailing_bits'' (dec_list dec_bool) t) (\<lambda>trailing_bits.
     Inr \<lparr>bdsf_satellite_id = satellite_id, bdsf_week_number = week_number, bdsf_sv_urai = sv_urai,
           bdsf_idot = idot, bdsf_aode = aode, bdsf_t_oc = t_oc, bdsf_a_f2 = a_f2, bdsf_a_f1 = a_f1,
           bdsf_a_f0 = a_f0, bdsf_aodc = aodc, bdsf_c_rs = c_rs, bdsf_delta_n = delta_n, bdsf_m0 = m0,
           bdsf_c_uc = c_uc, bdsf_eccentricity = eccentricity, bdsf_c_us = c_us, bdsf_sqrt_a = sqrt_a,
           bdsf_t_oe = t_oe, bdsf_c_ic = c_ic, bdsf_omega0 = omega0, bdsf_c_is = c_is, bdsf_i0 = i0,
           bdsf_c_rc = c_rc, bdsf_omega = omega, bdsf_omega_dot = omega_dot, bdsf_t_gd1 = t_gd1,
           bdsf_t_gd2 = t_gd2, bdsf_sv_health = sv_health, bdsf_trailing_bits = trailing_bits\<rparr>)))))))))))))))))))))))))))))"

interpretation bdsf: nif_codec enc_BeidouEphemerisFields dec_BeidouEphemerisFields
  by unfold_locales (simp_all only: enc_BeidouEphemerisFields_def dec_BeidouEphemerisFields_def nif_lookup codec_simps, simp_all)

lemmas BeidouEphemerisFields_codec [codec_simps] =
  bdsf.decodes bdsf.option_decodes bdsf.list_decodes

record BeidouEphemeris =
  bds_satellite_id :: int
  bds_week_number :: int
  bds_sv_urai :: int
  bds_idot :: int
  bds_aode :: int
  bds_t_oc :: int
  bds_a_f2 :: int
  bds_a_f1 :: int
  bds_a_f0 :: int
  bds_aodc :: int
  bds_c_rs :: int
  bds_delta_n :: int
  bds_m0 :: i64
  bds_c_uc :: int
  bds_eccentricity :: int
  bds_c_us :: int
  bds_sqrt_a :: int
  bds_t_oe :: int
  bds_c_ic :: int
  bds_omega0 :: i64
  bds_c_is :: int
  bds_i0 :: i64
  bds_c_rc :: int
  bds_omega :: i64
  bds_omega_dot :: int
  bds_t_gd1 :: int
  bds_t_gd2 :: int
  bds_sv_health :: bool
  bds_trailing_bits :: "bool list"

definition carried_BeidouEphemeris :: "BeidouEphemeris \<Rightarrow> bool" where
  "carried_BeidouEphemeris m \<longleftrightarrow>
     in_ty U8 (bds_satellite_id m) \<and> in_ty U16 (bds_week_number m) \<and>
     in_ty U8 (bds_sv_urai m) \<and> in_ty I32 (bds_idot m) \<and> in_ty U8 (bds_aode m) \<and>
     in_ty U32 (bds_t_oc m) \<and> in_ty I16 (bds_a_f2 m) \<and> in_ty I32 (bds_a_f1 m) \<and>
     in_ty I32 (bds_a_f0 m) \<and> in_ty U8 (bds_aodc m) \<and> in_ty I32 (bds_c_rs m) \<and>
     in_ty I32 (bds_delta_n m) \<and> in_ty I32 (bds_c_uc m) \<and>
     in_ty U64 (bds_eccentricity m) \<and> in_ty I32 (bds_c_us m) \<and> in_ty U64 (bds_sqrt_a m) \<and>
     in_ty U32 (bds_t_oe m) \<and> in_ty I32 (bds_c_ic m) \<and> in_ty I32 (bds_c_is m) \<and>
     in_ty I32 (bds_c_rc m) \<and> in_ty I32 (bds_omega_dot m) \<and> in_ty I16 (bds_t_gd1 m) \<and>
     in_ty I16 (bds_t_gd2 m)"

definition BeidouEphemerisFields_from :: "BeidouEphemeris \<Rightarrow> BeidouEphemerisFields" where
  "BeidouEphemerisFields_from m =
     \<lparr>bdsf_satellite_id = as_i64 (bds_satellite_id m), bdsf_week_number = as_i64 (bds_week_number m),
      bdsf_sv_urai = as_i64 (bds_sv_urai m), bdsf_idot = as_i64 (bds_idot m),
      bdsf_aode = as_i64 (bds_aode m), bdsf_t_oc = as_i64 (bds_t_oc m), bdsf_a_f2 = as_i64 (bds_a_f2 m),
      bdsf_a_f1 = as_i64 (bds_a_f1 m), bdsf_a_f0 = as_i64 (bds_a_f0 m), bdsf_aodc = as_i64 (bds_aodc m),
      bdsf_c_rs = as_i64 (bds_c_rs m), bdsf_delta_n = as_i64 (bds_delta_n m), bdsf_m0 = bds_m0 m,
      bdsf_c_uc = as_i64 (bds_c_uc m), bdsf_eccentricity = as_i64 (bds_eccentricity m),
      bdsf_c_us = as_i64 (bds_c_us m), bdsf_sqrt_a = as_i64 (bds_sqrt_a m),
      bdsf_t_oe = as_i64 (bds_t_oe m), bdsf_c_ic = as_i64 (bds_c_ic m), bdsf_omega0 = bds_omega0 m,
      bdsf_c_is = as_i64 (bds_c_is m), bdsf_i0 = bds_i0 m, bdsf_c_rc = as_i64 (bds_c_rc m),
      bdsf_omega = bds_omega m, bdsf_omega_dot = as_i64 (bds_omega_dot m),
      bdsf_t_gd1 = as_i64 (bds_t_gd1 m), bdsf_t_gd2 = as_i64 (bds_t_gd2 m),
      bdsf_sv_health = bds_sv_health m, bdsf_trailing_bits = bds_trailing_bits m\<rparr>"

definition BeidouEphemeris_from :: "BeidouEphemerisFields \<Rightarrow> BeidouEphemeris" where
  "BeidouEphemeris_from f =
     \<lparr>bds_satellite_id = as_ty U8 (bdsf_satellite_id f),
      bds_week_number = as_ty U16 (bdsf_week_number f), bds_sv_urai = as_ty U8 (bdsf_sv_urai f),
      bds_idot = as_ty I32 (bdsf_idot f), bds_aode = as_ty U8 (bdsf_aode f),
      bds_t_oc = as_ty U32 (bdsf_t_oc f), bds_a_f2 = as_ty I16 (bdsf_a_f2 f),
      bds_a_f1 = as_ty I32 (bdsf_a_f1 f), bds_a_f0 = as_ty I32 (bdsf_a_f0 f),
      bds_aodc = as_ty U8 (bdsf_aodc f), bds_c_rs = as_ty I32 (bdsf_c_rs f),
      bds_delta_n = as_ty I32 (bdsf_delta_n f), bds_m0 = bdsf_m0 f, bds_c_uc = as_ty I32 (bdsf_c_uc f),
      bds_eccentricity = as_ty U64 (bdsf_eccentricity f), bds_c_us = as_ty I32 (bdsf_c_us f),
      bds_sqrt_a = as_ty U64 (bdsf_sqrt_a f), bds_t_oe = as_ty U32 (bdsf_t_oe f),
      bds_c_ic = as_ty I32 (bdsf_c_ic f), bds_omega0 = bdsf_omega0 f,
      bds_c_is = as_ty I32 (bdsf_c_is f), bds_i0 = bdsf_i0 f, bds_c_rc = as_ty I32 (bdsf_c_rc f),
      bds_omega = bdsf_omega f, bds_omega_dot = as_ty I32 (bdsf_omega_dot f),
      bds_t_gd1 = as_ty I16 (bdsf_t_gd1 f), bds_t_gd2 = as_ty I16 (bdsf_t_gd2 f),
      bds_sv_health = bdsf_sv_health f, bds_trailing_bits = bdsf_trailing_bits f\<rparr>"

interpretation bds: casting_build carried_BeidouEphemeris BeidouEphemerisFields_from BeidouEphemeris_from
  by unfold_locales (simp_all add: carried_BeidouEphemeris_def BeidouEphemerisFields_from_def BeidouEphemeris_from_def build_returns)

section \<open>QZSS\<close>

record QzssEphemerisFields =
  qzsf_satellite_id :: i64
  qzsf_t_oc :: i64
  qzsf_a_f2 :: i64
  qzsf_a_f1 :: i64
  qzsf_a_f0 :: i64
  qzsf_iode :: i64
  qzsf_c_rs :: i64
  qzsf_delta_n :: i64
  qzsf_m0 :: i64
  qzsf_c_uc :: i64
  qzsf_eccentricity :: i64
  qzsf_c_us :: i64
  qzsf_sqrt_a :: i64
  qzsf_t_oe :: i64
  qzsf_c_ic :: i64
  qzsf_omega0 :: i64
  qzsf_c_is :: i64
  qzsf_i0 :: i64
  qzsf_c_rc :: i64
  qzsf_omega :: i64
  qzsf_omega_dot :: i64
  qzsf_idot :: i64
  qzsf_codes_on_l2 :: i64
  qzsf_week_number :: i64
  qzsf_ura :: i64
  qzsf_sv_health :: i64
  qzsf_t_gd :: i64
  qzsf_iodc :: i64
  qzsf_fit_interval :: bool
  qzsf_trailing_bits :: "bool list"

definition enc_QzssEphemerisFields :: "QzssEphemerisFields \<Rightarrow> nterm" where
  "enc_QzssEphemerisFields f = nif_map
     [(''satellite_id'', enc_i64 (qzsf_satellite_id f)), (''t_oc'', enc_i64 (qzsf_t_oc f)),
      (''a_f2'', enc_i64 (qzsf_a_f2 f)), (''a_f1'', enc_i64 (qzsf_a_f1 f)),
      (''a_f0'', enc_i64 (qzsf_a_f0 f)), (''iode'', enc_i64 (qzsf_iode f)),
      (''c_rs'', enc_i64 (qzsf_c_rs f)), (''delta_n'', enc_i64 (qzsf_delta_n f)),
      (''m0'', enc_i64 (qzsf_m0 f)), (''c_uc'', enc_i64 (qzsf_c_uc f)),
      (''eccentricity'', enc_i64 (qzsf_eccentricity f)), (''c_us'', enc_i64 (qzsf_c_us f)),
      (''sqrt_a'', enc_i64 (qzsf_sqrt_a f)), (''t_oe'', enc_i64 (qzsf_t_oe f)),
      (''c_ic'', enc_i64 (qzsf_c_ic f)), (''omega0'', enc_i64 (qzsf_omega0 f)),
      (''c_is'', enc_i64 (qzsf_c_is f)), (''i0'', enc_i64 (qzsf_i0 f)),
      (''c_rc'', enc_i64 (qzsf_c_rc f)), (''omega'', enc_i64 (qzsf_omega f)),
      (''omega_dot'', enc_i64 (qzsf_omega_dot f)), (''idot'', enc_i64 (qzsf_idot f)),
      (''codes_on_l2'', enc_i64 (qzsf_codes_on_l2 f)), (''week_number'', enc_i64 (qzsf_week_number f)),
      (''ura'', enc_i64 (qzsf_ura f)), (''sv_health'', enc_i64 (qzsf_sv_health f)),
      (''t_gd'', enc_i64 (qzsf_t_gd f)), (''iodc'', enc_i64 (qzsf_iodc f)),
      (''fit_interval'', enc_bool (qzsf_fit_interval f)),
      (''trailing_bits'', enc_list enc_bool (qzsf_trailing_bits f))]"

definition dec_QzssEphemerisFields :: "nterm \<Rightarrow> QzssEphemerisFields NifResult" where
  "dec_QzssEphemerisFields t =
     and_then (nif_field ''satellite_id'' dec_i64 t) (\<lambda>satellite_id.
     and_then (nif_field ''t_oc'' dec_i64 t) (\<lambda>t_oc.
     and_then (nif_field ''a_f2'' dec_i64 t) (\<lambda>a_f2.
     and_then (nif_field ''a_f1'' dec_i64 t) (\<lambda>a_f1.
     and_then (nif_field ''a_f0'' dec_i64 t) (\<lambda>a_f0.
     and_then (nif_field ''iode'' dec_i64 t) (\<lambda>iode.
     and_then (nif_field ''c_rs'' dec_i64 t) (\<lambda>c_rs.
     and_then (nif_field ''delta_n'' dec_i64 t) (\<lambda>delta_n.
     and_then (nif_field ''m0'' dec_i64 t) (\<lambda>m0.
     and_then (nif_field ''c_uc'' dec_i64 t) (\<lambda>c_uc.
     and_then (nif_field ''eccentricity'' dec_i64 t) (\<lambda>eccentricity.
     and_then (nif_field ''c_us'' dec_i64 t) (\<lambda>c_us.
     and_then (nif_field ''sqrt_a'' dec_i64 t) (\<lambda>sqrt_a.
     and_then (nif_field ''t_oe'' dec_i64 t) (\<lambda>t_oe.
     and_then (nif_field ''c_ic'' dec_i64 t) (\<lambda>c_ic.
     and_then (nif_field ''omega0'' dec_i64 t) (\<lambda>omega0.
     and_then (nif_field ''c_is'' dec_i64 t) (\<lambda>c_is.
     and_then (nif_field ''i0'' dec_i64 t) (\<lambda>i0.
     and_then (nif_field ''c_rc'' dec_i64 t) (\<lambda>c_rc.
     and_then (nif_field ''omega'' dec_i64 t) (\<lambda>omega.
     and_then (nif_field ''omega_dot'' dec_i64 t) (\<lambda>omega_dot.
     and_then (nif_field ''idot'' dec_i64 t) (\<lambda>idot.
     and_then (nif_field ''codes_on_l2'' dec_i64 t) (\<lambda>codes_on_l2.
     and_then (nif_field ''week_number'' dec_i64 t) (\<lambda>week_number.
     and_then (nif_field ''ura'' dec_i64 t) (\<lambda>ura.
     and_then (nif_field ''sv_health'' dec_i64 t) (\<lambda>sv_health.
     and_then (nif_field ''t_gd'' dec_i64 t) (\<lambda>t_gd.
     and_then (nif_field ''iodc'' dec_i64 t) (\<lambda>iodc.
     and_then (nif_field ''fit_interval'' dec_bool t) (\<lambda>fit_interval.
     and_then (nif_field ''trailing_bits'' (dec_list dec_bool) t) (\<lambda>trailing_bits.
     Inr \<lparr>qzsf_satellite_id = satellite_id, qzsf_t_oc = t_oc, qzsf_a_f2 = a_f2, qzsf_a_f1 = a_f1,
           qzsf_a_f0 = a_f0, qzsf_iode = iode, qzsf_c_rs = c_rs, qzsf_delta_n = delta_n, qzsf_m0 = m0,
           qzsf_c_uc = c_uc, qzsf_eccentricity = eccentricity, qzsf_c_us = c_us, qzsf_sqrt_a = sqrt_a,
           qzsf_t_oe = t_oe, qzsf_c_ic = c_ic, qzsf_omega0 = omega0, qzsf_c_is = c_is, qzsf_i0 = i0,
           qzsf_c_rc = c_rc, qzsf_omega = omega, qzsf_omega_dot = omega_dot, qzsf_idot = idot,
           qzsf_codes_on_l2 = codes_on_l2, qzsf_week_number = week_number, qzsf_ura = ura,
           qzsf_sv_health = sv_health, qzsf_t_gd = t_gd, qzsf_iodc = iodc,
           qzsf_fit_interval = fit_interval, qzsf_trailing_bits = trailing_bits\<rparr>))))))))))))))))))))))))))))))"

interpretation qzsf: nif_codec enc_QzssEphemerisFields dec_QzssEphemerisFields
  by unfold_locales (simp_all only: enc_QzssEphemerisFields_def dec_QzssEphemerisFields_def nif_lookup codec_simps, simp_all)

lemmas QzssEphemerisFields_codec [codec_simps] =
  qzsf.decodes qzsf.option_decodes qzsf.list_decodes

record QzssEphemeris =
  qzs_satellite_id :: int
  qzs_t_oc :: int
  qzs_a_f2 :: int
  qzs_a_f1 :: int
  qzs_a_f0 :: int
  qzs_iode :: int
  qzs_c_rs :: int
  qzs_delta_n :: int
  qzs_m0 :: i64
  qzs_c_uc :: int
  qzs_eccentricity :: int
  qzs_c_us :: int
  qzs_sqrt_a :: int
  qzs_t_oe :: int
  qzs_c_ic :: int
  qzs_omega0 :: i64
  qzs_c_is :: int
  qzs_i0 :: i64
  qzs_c_rc :: int
  qzs_omega :: i64
  qzs_omega_dot :: int
  qzs_idot :: int
  qzs_codes_on_l2 :: int
  qzs_week_number :: int
  qzs_ura :: int
  qzs_sv_health :: int
  qzs_t_gd :: int
  qzs_iodc :: int
  qzs_fit_interval :: bool
  qzs_trailing_bits :: "bool list"

definition carried_QzssEphemeris :: "QzssEphemeris \<Rightarrow> bool" where
  "carried_QzssEphemeris m \<longleftrightarrow>
     in_ty U8 (qzs_satellite_id m) \<and> in_ty U16 (qzs_t_oc m) \<and> in_ty I16 (qzs_a_f2 m) \<and>
     in_ty I32 (qzs_a_f1 m) \<and> in_ty I32 (qzs_a_f0 m) \<and> in_ty U8 (qzs_iode m) \<and>
     in_ty I32 (qzs_c_rs m) \<and> in_ty I32 (qzs_delta_n m) \<and> in_ty I32 (qzs_c_uc m) \<and>
     in_ty U64 (qzs_eccentricity m) \<and> in_ty I32 (qzs_c_us m) \<and> in_ty U64 (qzs_sqrt_a m) \<and>
     in_ty U16 (qzs_t_oe m) \<and> in_ty I32 (qzs_c_ic m) \<and> in_ty I32 (qzs_c_is m) \<and>
     in_ty I32 (qzs_c_rc m) \<and> in_ty I32 (qzs_omega_dot m) \<and> in_ty I32 (qzs_idot m) \<and>
     in_ty U8 (qzs_codes_on_l2 m) \<and> in_ty U16 (qzs_week_number m) \<and>
     in_ty U8 (qzs_ura m) \<and> in_ty U8 (qzs_sv_health m) \<and> in_ty I16 (qzs_t_gd m) \<and>
     in_ty U16 (qzs_iodc m)"

definition QzssEphemerisFields_from :: "QzssEphemeris \<Rightarrow> QzssEphemerisFields" where
  "QzssEphemerisFields_from m =
     \<lparr>qzsf_satellite_id = as_i64 (qzs_satellite_id m), qzsf_t_oc = as_i64 (qzs_t_oc m),
      qzsf_a_f2 = as_i64 (qzs_a_f2 m), qzsf_a_f1 = as_i64 (qzs_a_f1 m), qzsf_a_f0 = as_i64 (qzs_a_f0 m),
      qzsf_iode = as_i64 (qzs_iode m), qzsf_c_rs = as_i64 (qzs_c_rs m),
      qzsf_delta_n = as_i64 (qzs_delta_n m), qzsf_m0 = qzs_m0 m, qzsf_c_uc = as_i64 (qzs_c_uc m),
      qzsf_eccentricity = as_i64 (qzs_eccentricity m), qzsf_c_us = as_i64 (qzs_c_us m),
      qzsf_sqrt_a = as_i64 (qzs_sqrt_a m), qzsf_t_oe = as_i64 (qzs_t_oe m),
      qzsf_c_ic = as_i64 (qzs_c_ic m), qzsf_omega0 = qzs_omega0 m, qzsf_c_is = as_i64 (qzs_c_is m),
      qzsf_i0 = qzs_i0 m, qzsf_c_rc = as_i64 (qzs_c_rc m), qzsf_omega = qzs_omega m,
      qzsf_omega_dot = as_i64 (qzs_omega_dot m), qzsf_idot = as_i64 (qzs_idot m),
      qzsf_codes_on_l2 = as_i64 (qzs_codes_on_l2 m), qzsf_week_number = as_i64 (qzs_week_number m),
      qzsf_ura = as_i64 (qzs_ura m), qzsf_sv_health = as_i64 (qzs_sv_health m),
      qzsf_t_gd = as_i64 (qzs_t_gd m), qzsf_iodc = as_i64 (qzs_iodc m),
      qzsf_fit_interval = qzs_fit_interval m, qzsf_trailing_bits = qzs_trailing_bits m\<rparr>"

definition QzssEphemeris_from :: "QzssEphemerisFields \<Rightarrow> QzssEphemeris" where
  "QzssEphemeris_from f =
     \<lparr>qzs_satellite_id = as_ty U8 (qzsf_satellite_id f), qzs_t_oc = as_ty U16 (qzsf_t_oc f),
      qzs_a_f2 = as_ty I16 (qzsf_a_f2 f), qzs_a_f1 = as_ty I32 (qzsf_a_f1 f),
      qzs_a_f0 = as_ty I32 (qzsf_a_f0 f), qzs_iode = as_ty U8 (qzsf_iode f),
      qzs_c_rs = as_ty I32 (qzsf_c_rs f), qzs_delta_n = as_ty I32 (qzsf_delta_n f), qzs_m0 = qzsf_m0 f,
      qzs_c_uc = as_ty I32 (qzsf_c_uc f), qzs_eccentricity = as_ty U64 (qzsf_eccentricity f),
      qzs_c_us = as_ty I32 (qzsf_c_us f), qzs_sqrt_a = as_ty U64 (qzsf_sqrt_a f),
      qzs_t_oe = as_ty U16 (qzsf_t_oe f), qzs_c_ic = as_ty I32 (qzsf_c_ic f),
      qzs_omega0 = qzsf_omega0 f, qzs_c_is = as_ty I32 (qzsf_c_is f), qzs_i0 = qzsf_i0 f,
      qzs_c_rc = as_ty I32 (qzsf_c_rc f), qzs_omega = qzsf_omega f,
      qzs_omega_dot = as_ty I32 (qzsf_omega_dot f), qzs_idot = as_ty I32 (qzsf_idot f),
      qzs_codes_on_l2 = as_ty U8 (qzsf_codes_on_l2 f), qzs_week_number = as_ty U16 (qzsf_week_number f),
      qzs_ura = as_ty U8 (qzsf_ura f), qzs_sv_health = as_ty U8 (qzsf_sv_health f),
      qzs_t_gd = as_ty I16 (qzsf_t_gd f), qzs_iodc = as_ty U16 (qzsf_iodc f),
      qzs_fit_interval = qzsf_fit_interval f, qzs_trailing_bits = qzsf_trailing_bits f\<rparr>"

interpretation qzs: casting_build carried_QzssEphemeris QzssEphemerisFields_from QzssEphemeris_from
  by unfold_locales (simp_all add: carried_QzssEphemeris_def QzssEphemerisFields_from_def QzssEphemeris_from_def build_returns)

section \<open>GLONASS\<close>

record GlonassEphemerisFields =
  glof_satellite_id :: i64
  glof_frequency_channel :: i64
  glof_almanac_health :: bool
  glof_almanac_health_availability :: bool
  glof_p1 :: i64
  glof_t_k :: i64
  glof_b_n_msb :: bool
  glof_p2 :: bool
  glof_t_b :: i64
  glof_xn_dot :: i64
  glof_xn :: i64
  glof_xn_dot_dot :: i64
  glof_yn_dot :: i64
  glof_yn :: i64
  glof_yn_dot_dot :: i64
  glof_zn_dot :: i64
  glof_zn :: i64
  glof_zn_dot_dot :: i64
  glof_p3 :: bool
  glof_gamma_n :: i64
  glof_m_p :: i64
  glof_m_l_n_third :: bool
  glof_tau_n :: i64
  glof_delta_tau_n :: i64
  glof_e_n :: i64
  glof_m_p4 :: bool
  glof_m_f_t :: i64
  glof_m_n_t :: i64
  glof_m_m :: i64
  glof_additional_data_available :: bool
  glof_n_a :: i64
  glof_tau_c :: i64
  glof_m_n4 :: i64
  glof_m_tau_gps :: i64
  glof_m_l_n_fifth :: bool
  glof_reserved :: i64
  glof_trailing_bits :: "bool list"
  glof_negative_zero :: i64

definition enc_GlonassEphemerisFields :: "GlonassEphemerisFields \<Rightarrow> nterm" where
  "enc_GlonassEphemerisFields f = nif_map
     [(''satellite_id'', enc_i64 (glof_satellite_id f)),
      (''frequency_channel'', enc_i64 (glof_frequency_channel f)),
      (''almanac_health'', enc_bool (glof_almanac_health f)),
      (''almanac_health_availability'', enc_bool (glof_almanac_health_availability f)),
      (''p1'', enc_i64 (glof_p1 f)), (''t_k'', enc_i64 (glof_t_k f)),
      (''b_n_msb'', enc_bool (glof_b_n_msb f)), (''p2'', enc_bool (glof_p2 f)),
      (''t_b'', enc_i64 (glof_t_b f)), (''xn_dot'', enc_i64 (glof_xn_dot f)),
      (''xn'', enc_i64 (glof_xn f)), (''xn_dot_dot'', enc_i64 (glof_xn_dot_dot f)),
      (''yn_dot'', enc_i64 (glof_yn_dot f)), (''yn'', enc_i64 (glof_yn f)),
      (''yn_dot_dot'', enc_i64 (glof_yn_dot_dot f)), (''zn_dot'', enc_i64 (glof_zn_dot f)),
      (''zn'', enc_i64 (glof_zn f)), (''zn_dot_dot'', enc_i64 (glof_zn_dot_dot f)),
      (''p3'', enc_bool (glof_p3 f)), (''gamma_n'', enc_i64 (glof_gamma_n f)),
      (''m_p'', enc_i64 (glof_m_p f)), (''m_l_n_third'', enc_bool (glof_m_l_n_third f)),
      (''tau_n'', enc_i64 (glof_tau_n f)), (''delta_tau_n'', enc_i64 (glof_delta_tau_n f)),
      (''e_n'', enc_i64 (glof_e_n f)), (''m_p4'', enc_bool (glof_m_p4 f)),
      (''m_f_t'', enc_i64 (glof_m_f_t f)), (''m_n_t'', enc_i64 (glof_m_n_t f)),
      (''m_m'', enc_i64 (glof_m_m f)),
      (''additional_data_available'', enc_bool (glof_additional_data_available f)),
      (''n_a'', enc_i64 (glof_n_a f)), (''tau_c'', enc_i64 (glof_tau_c f)),
      (''m_n4'', enc_i64 (glof_m_n4 f)), (''m_tau_gps'', enc_i64 (glof_m_tau_gps f)),
      (''m_l_n_fifth'', enc_bool (glof_m_l_n_fifth f)), (''reserved'', enc_i64 (glof_reserved f)),
      (''trailing_bits'', enc_list enc_bool (glof_trailing_bits f)),
      (''negative_zero'', enc_i64 (glof_negative_zero f))]"

definition dec_GlonassEphemerisFields :: "nterm \<Rightarrow> GlonassEphemerisFields NifResult" where
  "dec_GlonassEphemerisFields t =
     and_then (nif_field ''satellite_id'' dec_i64 t) (\<lambda>satellite_id.
     and_then (nif_field ''frequency_channel'' dec_i64 t) (\<lambda>frequency_channel.
     and_then (nif_field ''almanac_health'' dec_bool t) (\<lambda>almanac_health.
     and_then (nif_field ''almanac_health_availability'' dec_bool t) (\<lambda>almanac_health_availability.
     and_then (nif_field ''p1'' dec_i64 t) (\<lambda>p1.
     and_then (nif_field ''t_k'' dec_i64 t) (\<lambda>t_k.
     and_then (nif_field ''b_n_msb'' dec_bool t) (\<lambda>b_n_msb.
     and_then (nif_field ''p2'' dec_bool t) (\<lambda>p2.
     and_then (nif_field ''t_b'' dec_i64 t) (\<lambda>t_b.
     and_then (nif_field ''xn_dot'' dec_i64 t) (\<lambda>xn_dot.
     and_then (nif_field ''xn'' dec_i64 t) (\<lambda>xn.
     and_then (nif_field ''xn_dot_dot'' dec_i64 t) (\<lambda>xn_dot_dot.
     and_then (nif_field ''yn_dot'' dec_i64 t) (\<lambda>yn_dot.
     and_then (nif_field ''yn'' dec_i64 t) (\<lambda>yn.
     and_then (nif_field ''yn_dot_dot'' dec_i64 t) (\<lambda>yn_dot_dot.
     and_then (nif_field ''zn_dot'' dec_i64 t) (\<lambda>zn_dot.
     and_then (nif_field ''zn'' dec_i64 t) (\<lambda>zn.
     and_then (nif_field ''zn_dot_dot'' dec_i64 t) (\<lambda>zn_dot_dot.
     and_then (nif_field ''p3'' dec_bool t) (\<lambda>p3.
     and_then (nif_field ''gamma_n'' dec_i64 t) (\<lambda>gamma_n.
     and_then (nif_field ''m_p'' dec_i64 t) (\<lambda>m_p.
     and_then (nif_field ''m_l_n_third'' dec_bool t) (\<lambda>m_l_n_third.
     and_then (nif_field ''tau_n'' dec_i64 t) (\<lambda>tau_n.
     and_then (nif_field ''delta_tau_n'' dec_i64 t) (\<lambda>delta_tau_n.
     and_then (nif_field ''e_n'' dec_i64 t) (\<lambda>e_n.
     and_then (nif_field ''m_p4'' dec_bool t) (\<lambda>m_p4.
     and_then (nif_field ''m_f_t'' dec_i64 t) (\<lambda>m_f_t.
     and_then (nif_field ''m_n_t'' dec_i64 t) (\<lambda>m_n_t.
     and_then (nif_field ''m_m'' dec_i64 t) (\<lambda>m_m.
     and_then (nif_field ''additional_data_available'' dec_bool t) (\<lambda>additional_data_available.
     and_then (nif_field ''n_a'' dec_i64 t) (\<lambda>n_a.
     and_then (nif_field ''tau_c'' dec_i64 t) (\<lambda>tau_c.
     and_then (nif_field ''m_n4'' dec_i64 t) (\<lambda>m_n4.
     and_then (nif_field ''m_tau_gps'' dec_i64 t) (\<lambda>m_tau_gps.
     and_then (nif_field ''m_l_n_fifth'' dec_bool t) (\<lambda>m_l_n_fifth.
     and_then (nif_field ''reserved'' dec_i64 t) (\<lambda>reserved.
     and_then (nif_field ''trailing_bits'' (dec_list dec_bool) t) (\<lambda>trailing_bits.
     and_then (nif_field ''negative_zero'' dec_i64 t) (\<lambda>negative_zero.
     Inr \<lparr>glof_satellite_id = satellite_id, glof_frequency_channel = frequency_channel,
           glof_almanac_health = almanac_health,
           glof_almanac_health_availability = almanac_health_availability, glof_p1 = p1, glof_t_k = t_k,
           glof_b_n_msb = b_n_msb, glof_p2 = p2, glof_t_b = t_b, glof_xn_dot = xn_dot, glof_xn = xn,
           glof_xn_dot_dot = xn_dot_dot, glof_yn_dot = yn_dot, glof_yn = yn,
           glof_yn_dot_dot = yn_dot_dot, glof_zn_dot = zn_dot, glof_zn = zn,
           glof_zn_dot_dot = zn_dot_dot, glof_p3 = p3, glof_gamma_n = gamma_n, glof_m_p = m_p,
           glof_m_l_n_third = m_l_n_third, glof_tau_n = tau_n, glof_delta_tau_n = delta_tau_n,
           glof_e_n = e_n, glof_m_p4 = m_p4, glof_m_f_t = m_f_t, glof_m_n_t = m_n_t, glof_m_m = m_m,
           glof_additional_data_available = additional_data_available, glof_n_a = n_a,
           glof_tau_c = tau_c, glof_m_n4 = m_n4, glof_m_tau_gps = m_tau_gps,
           glof_m_l_n_fifth = m_l_n_fifth, glof_reserved = reserved, glof_trailing_bits = trailing_bits,
           glof_negative_zero = negative_zero\<rparr>))))))))))))))))))))))))))))))))))))))"

interpretation glof: nif_codec enc_GlonassEphemerisFields dec_GlonassEphemerisFields
  by unfold_locales (simp_all only: enc_GlonassEphemerisFields_def dec_GlonassEphemerisFields_def nif_lookup codec_simps, simp_all)

lemmas GlonassEphemerisFields_codec [codec_simps] =
  glof.decodes glof.option_decodes glof.list_decodes

record GlonassEphemeris =
  glo_satellite_id :: int
  glo_frequency_channel :: int
  glo_almanac_health :: bool
  glo_almanac_health_availability :: bool
  glo_p1 :: int
  glo_t_k :: int
  glo_b_n_msb :: bool
  glo_p2 :: bool
  glo_t_b :: int
  glo_xn_dot :: int
  glo_xn :: int
  glo_xn_dot_dot :: int
  glo_yn_dot :: int
  glo_yn :: int
  glo_yn_dot_dot :: int
  glo_zn_dot :: int
  glo_zn :: int
  glo_zn_dot_dot :: int
  glo_p3 :: bool
  glo_gamma_n :: int
  glo_m_p :: int
  glo_m_l_n_third :: bool
  glo_tau_n :: int
  glo_delta_tau_n :: int
  glo_e_n :: int
  glo_m_p4 :: bool
  glo_m_f_t :: int
  glo_m_n_t :: int
  glo_m_m :: int
  glo_additional_data_available :: bool
  glo_n_a :: int
  glo_tau_c :: i64
  glo_m_n4 :: int
  glo_m_tau_gps :: int
  glo_m_l_n_fifth :: bool
  glo_reserved :: int
  glo_trailing_bits :: "bool list"
  glo_negative_zero :: int

definition carried_GlonassEphemeris :: "GlonassEphemeris \<Rightarrow> bool" where
  "carried_GlonassEphemeris m \<longleftrightarrow>
     in_ty U8 (glo_satellite_id m) \<and> in_ty U8 (glo_frequency_channel m) \<and>
     in_ty U8 (glo_p1 m) \<and> in_ty U16 (glo_t_k m) \<and> in_ty U8 (glo_t_b m) \<and>
     in_ty I32 (glo_xn_dot m) \<and> in_ty I32 (glo_xn m) \<and> in_ty I8 (glo_xn_dot_dot m) \<and>
     in_ty I32 (glo_yn_dot m) \<and> in_ty I32 (glo_yn m) \<and> in_ty I8 (glo_yn_dot_dot m) \<and>
     in_ty I32 (glo_zn_dot m) \<and> in_ty I32 (glo_zn m) \<and> in_ty I8 (glo_zn_dot_dot m) \<and>
     in_ty I16 (glo_gamma_n m) \<and> in_ty U8 (glo_m_p m) \<and> in_ty I32 (glo_tau_n m) \<and>
     in_ty I8 (glo_delta_tau_n m) \<and> in_ty U8 (glo_e_n m) \<and> in_ty U8 (glo_m_f_t m) \<and>
     in_ty U16 (glo_m_n_t m) \<and> in_ty U8 (glo_m_m m) \<and> in_ty U16 (glo_n_a m) \<and>
     in_ty U8 (glo_m_n4 m) \<and> in_ty I32 (glo_m_tau_gps m) \<and> in_ty U8 (glo_reserved m) \<and>
     in_ty U16 (glo_negative_zero m)"

definition GlonassEphemerisFields_from :: "GlonassEphemeris \<Rightarrow> GlonassEphemerisFields" where
  "GlonassEphemerisFields_from m =
     \<lparr>glof_satellite_id = as_i64 (glo_satellite_id m),
      glof_frequency_channel = as_i64 (glo_frequency_channel m),
      glof_almanac_health = glo_almanac_health m,
      glof_almanac_health_availability = glo_almanac_health_availability m, glof_p1 = as_i64 (glo_p1 m),
      glof_t_k = as_i64 (glo_t_k m), glof_b_n_msb = glo_b_n_msb m, glof_p2 = glo_p2 m,
      glof_t_b = as_i64 (glo_t_b m), glof_xn_dot = as_i64 (glo_xn_dot m), glof_xn = as_i64 (glo_xn m),
      glof_xn_dot_dot = as_i64 (glo_xn_dot_dot m), glof_yn_dot = as_i64 (glo_yn_dot m),
      glof_yn = as_i64 (glo_yn m), glof_yn_dot_dot = as_i64 (glo_yn_dot_dot m),
      glof_zn_dot = as_i64 (glo_zn_dot m), glof_zn = as_i64 (glo_zn m),
      glof_zn_dot_dot = as_i64 (glo_zn_dot_dot m), glof_p3 = glo_p3 m,
      glof_gamma_n = as_i64 (glo_gamma_n m), glof_m_p = as_i64 (glo_m_p m),
      glof_m_l_n_third = glo_m_l_n_third m, glof_tau_n = as_i64 (glo_tau_n m),
      glof_delta_tau_n = as_i64 (glo_delta_tau_n m), glof_e_n = as_i64 (glo_e_n m),
      glof_m_p4 = glo_m_p4 m, glof_m_f_t = as_i64 (glo_m_f_t m), glof_m_n_t = as_i64 (glo_m_n_t m),
      glof_m_m = as_i64 (glo_m_m m), glof_additional_data_available = glo_additional_data_available m,
      glof_n_a = as_i64 (glo_n_a m), glof_tau_c = glo_tau_c m, glof_m_n4 = as_i64 (glo_m_n4 m),
      glof_m_tau_gps = as_i64 (glo_m_tau_gps m), glof_m_l_n_fifth = glo_m_l_n_fifth m,
      glof_reserved = as_i64 (glo_reserved m), glof_trailing_bits = glo_trailing_bits m,
      glof_negative_zero = as_i64 (glo_negative_zero m)\<rparr>"

definition GlonassEphemeris_from :: "GlonassEphemerisFields \<Rightarrow> GlonassEphemeris" where
  "GlonassEphemeris_from f =
     \<lparr>glo_satellite_id = as_ty U8 (glof_satellite_id f),
      glo_frequency_channel = as_ty U8 (glof_frequency_channel f),
      glo_almanac_health = glof_almanac_health f,
      glo_almanac_health_availability = glof_almanac_health_availability f,
      glo_p1 = as_ty U8 (glof_p1 f), glo_t_k = as_ty U16 (glof_t_k f), glo_b_n_msb = glof_b_n_msb f,
      glo_p2 = glof_p2 f, glo_t_b = as_ty U8 (glof_t_b f), glo_xn_dot = as_ty I32 (glof_xn_dot f),
      glo_xn = as_ty I32 (glof_xn f), glo_xn_dot_dot = as_ty I8 (glof_xn_dot_dot f),
      glo_yn_dot = as_ty I32 (glof_yn_dot f), glo_yn = as_ty I32 (glof_yn f),
      glo_yn_dot_dot = as_ty I8 (glof_yn_dot_dot f), glo_zn_dot = as_ty I32 (glof_zn_dot f),
      glo_zn = as_ty I32 (glof_zn f), glo_zn_dot_dot = as_ty I8 (glof_zn_dot_dot f), glo_p3 = glof_p3 f,
      glo_gamma_n = as_ty I16 (glof_gamma_n f), glo_m_p = as_ty U8 (glof_m_p f),
      glo_m_l_n_third = glof_m_l_n_third f, glo_tau_n = as_ty I32 (glof_tau_n f),
      glo_delta_tau_n = as_ty I8 (glof_delta_tau_n f), glo_e_n = as_ty U8 (glof_e_n f),
      glo_m_p4 = glof_m_p4 f, glo_m_f_t = as_ty U8 (glof_m_f_t f), glo_m_n_t = as_ty U16 (glof_m_n_t f),
      glo_m_m = as_ty U8 (glof_m_m f), glo_additional_data_available = glof_additional_data_available f,
      glo_n_a = as_ty U16 (glof_n_a f), glo_tau_c = glof_tau_c f, glo_m_n4 = as_ty U8 (glof_m_n4 f),
      glo_m_tau_gps = as_ty I32 (glof_m_tau_gps f), glo_m_l_n_fifth = glof_m_l_n_fifth f,
      glo_reserved = as_ty U8 (glof_reserved f), glo_trailing_bits = glof_trailing_bits f,
      glo_negative_zero = as_ty U16 (glof_negative_zero f)\<rparr>"

interpretation glo: casting_build carried_GlonassEphemeris GlonassEphemerisFields_from GlonassEphemeris_from
  by unfold_locales (simp_all add: carried_GlonassEphemeris_def GlonassEphemerisFields_from_def GlonassEphemeris_from_def build_returns)

section \<open>NavIC\<close>

record NavicEphemerisFields =
  irnf_satellite_id :: i64
  irnf_week_number :: i64
  irnf_a_f0 :: i64
  irnf_a_f1 :: i64
  irnf_a_f2 :: i64
  irnf_ura :: i64
  irnf_t_oc :: i64
  irnf_t_gd :: i64
  irnf_delta_n :: i64
  irnf_iodec :: i64
  irnf_reserved :: i64
  irnf_l5_flag :: bool
  irnf_s_flag :: bool
  irnf_c_uc :: i64
  irnf_c_us :: i64
  irnf_c_ic :: i64
  irnf_c_is :: i64
  irnf_c_rc :: i64
  irnf_c_rs :: i64
  irnf_idot :: i64
  irnf_m0 :: i64
  irnf_t_oe :: i64
  irnf_eccentricity :: i64
  irnf_sqrt_a :: i64
  irnf_omega0 :: i64
  irnf_omega :: i64
  irnf_omega_dot :: i64
  irnf_i0 :: i64
  irnf_spare_df544 :: i64
  irnf_spare_df545 :: i64
  irnf_trailing_bits :: "bool list"

definition enc_NavicEphemerisFields :: "NavicEphemerisFields \<Rightarrow> nterm" where
  "enc_NavicEphemerisFields f = nif_map
     [(''satellite_id'', enc_i64 (irnf_satellite_id f)),
      (''week_number'', enc_i64 (irnf_week_number f)), (''a_f0'', enc_i64 (irnf_a_f0 f)),
      (''a_f1'', enc_i64 (irnf_a_f1 f)), (''a_f2'', enc_i64 (irnf_a_f2 f)),
      (''ura'', enc_i64 (irnf_ura f)), (''t_oc'', enc_i64 (irnf_t_oc f)),
      (''t_gd'', enc_i64 (irnf_t_gd f)), (''delta_n'', enc_i64 (irnf_delta_n f)),
      (''iodec'', enc_i64 (irnf_iodec f)), (''reserved'', enc_i64 (irnf_reserved f)),
      (''l5_flag'', enc_bool (irnf_l5_flag f)), (''s_flag'', enc_bool (irnf_s_flag f)),
      (''c_uc'', enc_i64 (irnf_c_uc f)), (''c_us'', enc_i64 (irnf_c_us f)),
      (''c_ic'', enc_i64 (irnf_c_ic f)), (''c_is'', enc_i64 (irnf_c_is f)),
      (''c_rc'', enc_i64 (irnf_c_rc f)), (''c_rs'', enc_i64 (irnf_c_rs f)),
      (''idot'', enc_i64 (irnf_idot f)), (''m0'', enc_i64 (irnf_m0 f)),
      (''t_oe'', enc_i64 (irnf_t_oe f)), (''eccentricity'', enc_i64 (irnf_eccentricity f)),
      (''sqrt_a'', enc_i64 (irnf_sqrt_a f)), (''omega0'', enc_i64 (irnf_omega0 f)),
      (''omega'', enc_i64 (irnf_omega f)), (''omega_dot'', enc_i64 (irnf_omega_dot f)),
      (''i0'', enc_i64 (irnf_i0 f)), (''spare_df544'', enc_i64 (irnf_spare_df544 f)),
      (''spare_df545'', enc_i64 (irnf_spare_df545 f)),
      (''trailing_bits'', enc_list enc_bool (irnf_trailing_bits f))]"

definition dec_NavicEphemerisFields :: "nterm \<Rightarrow> NavicEphemerisFields NifResult" where
  "dec_NavicEphemerisFields t =
     and_then (nif_field ''satellite_id'' dec_i64 t) (\<lambda>satellite_id.
     and_then (nif_field ''week_number'' dec_i64 t) (\<lambda>week_number.
     and_then (nif_field ''a_f0'' dec_i64 t) (\<lambda>a_f0.
     and_then (nif_field ''a_f1'' dec_i64 t) (\<lambda>a_f1.
     and_then (nif_field ''a_f2'' dec_i64 t) (\<lambda>a_f2.
     and_then (nif_field ''ura'' dec_i64 t) (\<lambda>ura.
     and_then (nif_field ''t_oc'' dec_i64 t) (\<lambda>t_oc.
     and_then (nif_field ''t_gd'' dec_i64 t) (\<lambda>t_gd.
     and_then (nif_field ''delta_n'' dec_i64 t) (\<lambda>delta_n.
     and_then (nif_field ''iodec'' dec_i64 t) (\<lambda>iodec.
     and_then (nif_field ''reserved'' dec_i64 t) (\<lambda>reserved.
     and_then (nif_field ''l5_flag'' dec_bool t) (\<lambda>l5_flag.
     and_then (nif_field ''s_flag'' dec_bool t) (\<lambda>s_flag.
     and_then (nif_field ''c_uc'' dec_i64 t) (\<lambda>c_uc.
     and_then (nif_field ''c_us'' dec_i64 t) (\<lambda>c_us.
     and_then (nif_field ''c_ic'' dec_i64 t) (\<lambda>c_ic.
     and_then (nif_field ''c_is'' dec_i64 t) (\<lambda>c_is.
     and_then (nif_field ''c_rc'' dec_i64 t) (\<lambda>c_rc.
     and_then (nif_field ''c_rs'' dec_i64 t) (\<lambda>c_rs.
     and_then (nif_field ''idot'' dec_i64 t) (\<lambda>idot.
     and_then (nif_field ''m0'' dec_i64 t) (\<lambda>m0.
     and_then (nif_field ''t_oe'' dec_i64 t) (\<lambda>t_oe.
     and_then (nif_field ''eccentricity'' dec_i64 t) (\<lambda>eccentricity.
     and_then (nif_field ''sqrt_a'' dec_i64 t) (\<lambda>sqrt_a.
     and_then (nif_field ''omega0'' dec_i64 t) (\<lambda>omega0.
     and_then (nif_field ''omega'' dec_i64 t) (\<lambda>omega.
     and_then (nif_field ''omega_dot'' dec_i64 t) (\<lambda>omega_dot.
     and_then (nif_field ''i0'' dec_i64 t) (\<lambda>i0.
     and_then (nif_field ''spare_df544'' dec_i64 t) (\<lambda>spare_df544.
     and_then (nif_field ''spare_df545'' dec_i64 t) (\<lambda>spare_df545.
     and_then (nif_field ''trailing_bits'' (dec_list dec_bool) t) (\<lambda>trailing_bits.
     Inr \<lparr>irnf_satellite_id = satellite_id, irnf_week_number = week_number, irnf_a_f0 = a_f0,
           irnf_a_f1 = a_f1, irnf_a_f2 = a_f2, irnf_ura = ura, irnf_t_oc = t_oc, irnf_t_gd = t_gd,
           irnf_delta_n = delta_n, irnf_iodec = iodec, irnf_reserved = reserved, irnf_l5_flag = l5_flag,
           irnf_s_flag = s_flag, irnf_c_uc = c_uc, irnf_c_us = c_us, irnf_c_ic = c_ic, irnf_c_is = c_is,
           irnf_c_rc = c_rc, irnf_c_rs = c_rs, irnf_idot = idot, irnf_m0 = m0, irnf_t_oe = t_oe,
           irnf_eccentricity = eccentricity, irnf_sqrt_a = sqrt_a, irnf_omega0 = omega0,
           irnf_omega = omega, irnf_omega_dot = omega_dot, irnf_i0 = i0, irnf_spare_df544 = spare_df544,
           irnf_spare_df545 = spare_df545, irnf_trailing_bits = trailing_bits\<rparr>)))))))))))))))))))))))))))))))"

interpretation irnf: nif_codec enc_NavicEphemerisFields dec_NavicEphemerisFields
  by unfold_locales (simp_all only: enc_NavicEphemerisFields_def dec_NavicEphemerisFields_def nif_lookup codec_simps, simp_all)

lemmas NavicEphemerisFields_codec [codec_simps] =
  irnf.decodes irnf.option_decodes irnf.list_decodes

record NavicEphemeris =
  irn_satellite_id :: int
  irn_week_number :: int
  irn_a_f0 :: int
  irn_a_f1 :: int
  irn_a_f2 :: int
  irn_ura :: int
  irn_t_oc :: int
  irn_t_gd :: int
  irn_delta_n :: int
  irn_iodec :: int
  irn_reserved :: int
  irn_l5_flag :: bool
  irn_s_flag :: bool
  irn_c_uc :: int
  irn_c_us :: int
  irn_c_ic :: int
  irn_c_is :: int
  irn_c_rc :: int
  irn_c_rs :: int
  irn_idot :: int
  irn_m0 :: i64
  irn_t_oe :: int
  irn_eccentricity :: int
  irn_sqrt_a :: int
  irn_omega0 :: i64
  irn_omega :: i64
  irn_omega_dot :: int
  irn_i0 :: i64
  irn_spare_df544 :: int
  irn_spare_df545 :: int
  irn_trailing_bits :: "bool list"

definition carried_NavicEphemeris :: "NavicEphemeris \<Rightarrow> bool" where
  "carried_NavicEphemeris m \<longleftrightarrow>
     in_ty U8 (irn_satellite_id m) \<and> in_ty U16 (irn_week_number m) \<and>
     in_ty I32 (irn_a_f0 m) \<and> in_ty I32 (irn_a_f1 m) \<and> in_ty I16 (irn_a_f2 m) \<and>
     in_ty U8 (irn_ura m) \<and> in_ty U16 (irn_t_oc m) \<and> in_ty I16 (irn_t_gd m) \<and>
     in_ty I32 (irn_delta_n m) \<and> in_ty U8 (irn_iodec m) \<and> in_ty U16 (irn_reserved m) \<and>
     in_ty I32 (irn_c_uc m) \<and> in_ty I32 (irn_c_us m) \<and> in_ty I32 (irn_c_ic m) \<and>
     in_ty I32 (irn_c_is m) \<and> in_ty I32 (irn_c_rc m) \<and> in_ty I32 (irn_c_rs m) \<and>
     in_ty I32 (irn_idot m) \<and> in_ty U16 (irn_t_oe m) \<and> in_ty U64 (irn_eccentricity m) \<and>
     in_ty I64 (irn_eccentricity m) \<and> in_ty U64 (irn_sqrt_a m) \<and>
     in_ty I64 (irn_sqrt_a m) \<and> in_ty I32 (irn_omega_dot m) \<and>
     in_ty U8 (irn_spare_df544 m) \<and> in_ty U8 (irn_spare_df545 m)"

definition NavicEphemerisFields_from :: "NavicEphemeris \<Rightarrow> NavicEphemerisFields" where
  "NavicEphemerisFields_from m =
     \<lparr>irnf_satellite_id = as_i64 (irn_satellite_id m), irnf_week_number = as_i64 (irn_week_number m),
      irnf_a_f0 = as_i64 (irn_a_f0 m), irnf_a_f1 = as_i64 (irn_a_f1 m), irnf_a_f2 = as_i64 (irn_a_f2 m),
      irnf_ura = as_i64 (irn_ura m), irnf_t_oc = as_i64 (irn_t_oc m), irnf_t_gd = as_i64 (irn_t_gd m),
      irnf_delta_n = as_i64 (irn_delta_n m), irnf_iodec = as_i64 (irn_iodec m),
      irnf_reserved = as_i64 (irn_reserved m), irnf_l5_flag = irn_l5_flag m, irnf_s_flag = irn_s_flag m,
      irnf_c_uc = as_i64 (irn_c_uc m), irnf_c_us = as_i64 (irn_c_us m), irnf_c_ic = as_i64 (irn_c_ic m),
      irnf_c_is = as_i64 (irn_c_is m), irnf_c_rc = as_i64 (irn_c_rc m), irnf_c_rs = as_i64 (irn_c_rs m),
      irnf_idot = as_i64 (irn_idot m), irnf_m0 = irn_m0 m, irnf_t_oe = as_i64 (irn_t_oe m),
      irnf_eccentricity = as_i64 (irn_eccentricity m), irnf_sqrt_a = as_i64 (irn_sqrt_a m),
      irnf_omega0 = irn_omega0 m, irnf_omega = irn_omega m, irnf_omega_dot = as_i64 (irn_omega_dot m),
      irnf_i0 = irn_i0 m, irnf_spare_df544 = as_i64 (irn_spare_df544 m),
      irnf_spare_df545 = as_i64 (irn_spare_df545 m), irnf_trailing_bits = irn_trailing_bits m\<rparr>"

definition build_navic_ephemeris :: "NavicEphemerisFields \<Rightarrow> NavicEphemeris NifResult" where
  "build_navic_ephemeris f =
     and_then (checked (error_text ''invalid NavIC ephemeris field'') U8
       (irnf_satellite_id f)) (\<lambda>satellite_id.
     and_then (checked (error_text ''invalid NavIC ephemeris field'') U16
       (irnf_week_number f)) (\<lambda>week_number.
     and_then (checked (error_text ''invalid NavIC ephemeris field'') I32 (irnf_a_f0 f)) (\<lambda>a_f0.
     and_then (checked (error_text ''invalid NavIC ephemeris field'') I32 (irnf_a_f1 f)) (\<lambda>a_f1.
     and_then (checked (error_text ''invalid NavIC ephemeris field'') I16 (irnf_a_f2 f)) (\<lambda>a_f2.
     and_then (checked (error_text ''invalid NavIC ephemeris field'') U8 (irnf_ura f)) (\<lambda>ura.
     and_then (checked (error_text ''invalid NavIC ephemeris field'') U16 (irnf_t_oc f)) (\<lambda>t_oc.
     and_then (checked (error_text ''invalid NavIC ephemeris field'') I16 (irnf_t_gd f)) (\<lambda>t_gd.
     and_then (checked (error_text ''invalid NavIC ephemeris field'') I32
       (irnf_delta_n f)) (\<lambda>delta_n.
     and_then (checked (error_text ''invalid NavIC ephemeris field'') U8
       (irnf_iodec f)) (\<lambda>iodec.
     and_then (checked (error_text ''invalid NavIC ephemeris field'') U16
       (irnf_reserved f)) (\<lambda>reserved.
     and_then (checked (error_text ''invalid NavIC ephemeris field'') I32 (irnf_c_uc f)) (\<lambda>c_uc.
     and_then (checked (error_text ''invalid NavIC ephemeris field'') I32 (irnf_c_us f)) (\<lambda>c_us.
     and_then (checked (error_text ''invalid NavIC ephemeris field'') I32 (irnf_c_ic f)) (\<lambda>c_ic.
     and_then (checked (error_text ''invalid NavIC ephemeris field'') I32 (irnf_c_is f)) (\<lambda>c_is.
     and_then (checked (error_text ''invalid NavIC ephemeris field'') I32 (irnf_c_rc f)) (\<lambda>c_rc.
     and_then (checked (error_text ''invalid NavIC ephemeris field'') I32 (irnf_c_rs f)) (\<lambda>c_rs.
     and_then (checked (error_text ''invalid NavIC ephemeris field'') I32 (irnf_idot f)) (\<lambda>idot.
     and_then (checked (error_text ''invalid NavIC ephemeris field'') U16 (irnf_t_oe f)) (\<lambda>t_oe.
     and_then (checked (error_text ''invalid NavIC ephemeris field'') U64
       (irnf_eccentricity f)) (\<lambda>eccentricity.
     and_then (checked (error_text ''invalid NavIC ephemeris field'') U64
       (irnf_sqrt_a f)) (\<lambda>sqrt_a.
     and_then (checked (error_text ''invalid NavIC ephemeris field'') I32
       (irnf_omega_dot f)) (\<lambda>omega_dot.
     and_then (checked (error_text ''invalid NavIC ephemeris field'') U8
       (irnf_spare_df544 f)) (\<lambda>spare_df544.
     and_then (checked (error_text ''invalid NavIC ephemeris field'') U8
       (irnf_spare_df545 f)) (\<lambda>spare_df545.
     Inr \<lparr>irn_satellite_id = satellite_id, irn_week_number = week_number, irn_a_f0 = a_f0,
           irn_a_f1 = a_f1, irn_a_f2 = a_f2, irn_ura = ura, irn_t_oc = t_oc, irn_t_gd = t_gd,
           irn_delta_n = delta_n, irn_iodec = iodec, irn_reserved = reserved,
           irn_l5_flag = irnf_l5_flag f, irn_s_flag = irnf_s_flag f, irn_c_uc = c_uc, irn_c_us = c_us,
           irn_c_ic = c_ic, irn_c_is = c_is, irn_c_rc = c_rc, irn_c_rs = c_rs, irn_idot = idot,
           irn_m0 = irnf_m0 f, irn_t_oe = t_oe, irn_eccentricity = eccentricity, irn_sqrt_a = sqrt_a,
           irn_omega0 = irnf_omega0 f, irn_omega = irnf_omega f, irn_omega_dot = omega_dot,
           irn_i0 = irnf_i0 f, irn_spare_df544 = spare_df544, irn_spare_df545 = spare_df545,
           irn_trailing_bits = irnf_trailing_bits f\<rparr>))))))))))))))))))))))))"

interpretation irn: checked_build "True"
  carried_NavicEphemeris NavicEphemerisFields_from build_navic_ephemeris
  by (unfold_locales,
      simp add: carried_NavicEphemeris_def NavicEphemerisFields_from_def build_navic_ephemeris_def
        build_returns)
    (auto simp: carried_NavicEphemeris_def NavicEphemerisFields_from_def build_navic_ephemeris_def
      and_then_eq_Inr split: if_splits dest!: build_sound)

lemmas irn_build_returns [build_returns] = irn.returns irn.list_returns irn.option_returns
lemmas irn_build_sound [build_sound] = irn.sound irn.list_sound irn.option_sound

end
