(* ===== verification/RtcmNetwork.thy ===== *)
theory RtcmNetwork
  imports NifTerm Text
begin

text \<open>
  The system, text, network, transformation and VTEC messages of
  \<open>native/sidereon_nif/src/rtcm.rs\<close>, with their boundary structures and the conversions both ways.
  Every field is checked on the way back. Where the source infers the target type of a check from
  the core structure, the type is given by the layout \<open>T\<close>.
\<close>

section \<open>The types of core fields\<close>

text \<open>What is relied on: \<open>i64::from\<close> applies to the fields it is applied to, that is, to all but the
  three that are converted by \<open>as\<close>.\<close>

record layout =
  an_message_number_ty :: int_ty
  an_interval_ty :: int_ty
  sys_reference_station_id_ty :: int_ty
  sys_mjd_ty :: int_ty
  sys_seconds_of_day_ty :: int_ty
  sys_announcement_count_ty :: int_ty
  sys_leap_seconds_ty :: int_ty
  tx_reference_station_id_ty :: int_ty
  tx_mjd_ty :: int_ty
  tx_seconds_of_day_ty :: int_ty
  tx_character_count_ty :: int_ty
  aux_network_id_ty :: int_ty
  aux_subnetwork_id_ty :: int_ty
  aux_auxiliary_station_count_ty :: int_ty
  aux_master_station_id_ty :: int_ty
  aux_auxiliary_station_id_ty :: int_ty
  aux_delta_latitude_ty :: int_ty
  aux_delta_longitude_ty :: int_ty
  aux_delta_height_ty :: int_ty
  gb_reference_station_id_ty :: int_ty
  gb_reserved_ty :: int_ty
  gb_l1_ca_ty :: int_ty
  gb_l1_p_ty :: int_ty
  gb_l2_ca_ty :: int_ty
  gb_l2_p_ty :: int_ty
  nd_satellite_id_ty :: int_ty
  nd_ambiguity_status_ty :: int_ty
  nd_non_sync_count_ty :: int_ty
  nd_geometric_ty :: int_ty
  nd_iod_ty :: int_ty
  nd_ionospheric_ty :: int_ty
  ncd_message_number_ty :: int_ty
  ncd_network_id_ty :: int_ty
  ncd_subnetwork_id_ty :: int_ty
  ncd_epoch_time_ty :: int_ty
  ncd_master_station_id_ty :: int_ty
  ncd_auxiliary_station_id_ty :: int_ty
  ncd_satellite_count_ty :: int_ty
  hel_message_number_ty :: int_ty
  hel_system_id_ty :: int_ty
  hel_utilized_messages_ty :: int_ty
  hel_plate_number_ty :: int_ty
  hel_computation_indicator_ty :: int_ty
  hel_height_indicator_ty :: int_ty
  hel_validity_latitude_ty :: int_ty
  hel_validity_longitude_ty :: int_ty
  hel_validity_extension_latitude_ty :: int_ty
  hel_validity_extension_longitude_ty :: int_ty
  hel_dx_ty :: int_ty
  hel_dy_ty :: int_ty
  hel_dz_ty :: int_ty
  hel_r1_ty :: int_ty
  hel_r2_ty :: int_ty
  hel_r3_ty :: int_ty
  hel_ds_ty :: int_ty
  hel_add_as_ty :: int_ty
  hel_add_bs_ty :: int_ty
  hel_add_at_ty :: int_ty
  hel_add_bt_ty :: int_ty
  hel_horizontal_quality_ty :: int_ty
  hel_vertical_quality_ty :: int_ty
  gr_horizontal_1_ty :: int_ty
  gr_horizontal_2_ty :: int_ty
  gr_height_ty :: int_ty
  rg_message_number_ty :: int_ty
  rg_system_id_ty :: int_ty
  rg_origin_1_ty :: int_ty
  rg_origin_2_ty :: int_ty
  rg_extension_1_ty :: int_ty
  rg_extension_2_ty :: int_ty
  rg_mean_offset_1_ty :: int_ty
  rg_mean_offset_2_ty :: int_ty
  rg_mean_height_offset_ty :: int_ty
  rg_horizontal_interpolation_ty :: int_ty
  rg_vertical_interpolation_ty :: int_ty
  rg_horizontal_quality_ty :: int_ty
  rg_vertical_quality_ty :: int_ty
  rg_mjd_ty :: int_ty
  nr_satellite_id_ty :: int_ty
  nr_s_oc_ty :: int_ty
  nr_s_od_ty :: int_ty
  nr_s_oh_ty :: int_ty
  nr_s_lc_ty :: int_ty
  nr_s_ld_ty :: int_ty
  nrs_message_number_ty :: int_ty
  nrs_epoch_time_ty :: int_ty
  nrs_reference_station_id_ty :: int_ty
  nrs_reference_station_count_ty :: int_ty
  nrs_satellite_count_ty :: int_ty
  prs_non_physical_station_id_ty :: int_ty
  prs_physical_station_id_ty :: int_ty
  prs_itrf_realization_year_ty :: int_ty
  fg_satellite_id_ty :: int_ty
  fg_iod_ty :: int_ty
  fg_geometric_north_ty :: int_ty
  fg_geometric_east_ty :: int_ty
  fg_ionospheric_north_ty :: int_ty
  fg_ionospheric_east_ty :: int_ty
  fkp_message_number_ty :: int_ty
  fkp_reference_station_id_ty :: int_ty
  fkp_epoch_time_ty :: int_ty
  fkp_satellite_count_ty :: int_ty
  vl_height_ty :: int_ty
  vl_degree_ty :: int_ty
  vl_order_ty :: int_ty
  vl_cosine_ty :: int_ty
  vl_sine_ty :: int_ty
  vt_message_number_ty :: int_ty
  vt_igs_ssr_version_ty :: int_ty
  vt_epoch_time_s_ty :: int_ty
  vt_update_interval_ty :: int_ty
  vt_iod_ssr_ty :: int_ty
  vt_provider_id_ty :: int_ty
  vt_solution_id_ty :: int_ty
  vt_quality_indicator_ty :: int_ty
  pp_add_scale_ty :: int_ty
  pp_false_easting_ty :: int_ty
  pp_azimuth_ty :: int_ty
  pp_rectified_to_skew_ty :: int_ty
  pp_easting_ty :: int_ty
  prj_system_id_ty :: int_ty
  prj_projection_type_ty :: int_ty

definition layout_laws :: "layout \<Rightarrow> bool" where
  "layout_laws T \<longleftrightarrow> list_all into_i64
     [an_message_number_ty T, an_interval_ty T, sys_reference_station_id_ty T, sys_mjd_ty T,
      sys_seconds_of_day_ty T, sys_announcement_count_ty T, sys_leap_seconds_ty T,
      tx_reference_station_id_ty T, tx_mjd_ty T, tx_seconds_of_day_ty T, tx_character_count_ty T,
      aux_network_id_ty T, aux_subnetwork_id_ty T, aux_auxiliary_station_count_ty T,
      aux_master_station_id_ty T, aux_auxiliary_station_id_ty T, aux_delta_latitude_ty T,
      aux_delta_longitude_ty T, aux_delta_height_ty T, gb_reference_station_id_ty T, gb_reserved_ty T,
      gb_l1_ca_ty T, gb_l1_p_ty T, gb_l2_ca_ty T, gb_l2_p_ty T, nd_satellite_id_ty T,
      nd_ambiguity_status_ty T, nd_non_sync_count_ty T, nd_geometric_ty T, nd_iod_ty T,
      nd_ionospheric_ty T, ncd_message_number_ty T, ncd_network_id_ty T, ncd_subnetwork_id_ty T,
      ncd_epoch_time_ty T, ncd_master_station_id_ty T, ncd_auxiliary_station_id_ty T,
      ncd_satellite_count_ty T, hel_message_number_ty T, hel_system_id_ty T, hel_utilized_messages_ty T,
      hel_plate_number_ty T, hel_computation_indicator_ty T, hel_height_indicator_ty T,
      hel_validity_latitude_ty T, hel_validity_longitude_ty T, hel_validity_extension_latitude_ty T,
      hel_validity_extension_longitude_ty T, hel_dx_ty T, hel_dy_ty T, hel_dz_ty T, hel_r1_ty T,
      hel_r2_ty T, hel_r3_ty T, hel_ds_ty T, hel_add_as_ty T, hel_add_bs_ty T, hel_add_at_ty T,
      hel_add_bt_ty T, hel_horizontal_quality_ty T, hel_vertical_quality_ty T, gr_horizontal_1_ty T,
      gr_horizontal_2_ty T, gr_height_ty T, rg_message_number_ty T, rg_system_id_ty T, rg_origin_1_ty T,
      rg_origin_2_ty T, rg_extension_1_ty T, rg_extension_2_ty T, rg_mean_offset_1_ty T,
      rg_mean_offset_2_ty T, rg_mean_height_offset_ty T, rg_horizontal_interpolation_ty T,
      rg_vertical_interpolation_ty T, rg_horizontal_quality_ty T, rg_vertical_quality_ty T, rg_mjd_ty T,
      nr_satellite_id_ty T, nr_s_oc_ty T, nr_s_od_ty T, nr_s_oh_ty T, nr_s_lc_ty T, nr_s_ld_ty T,
      nrs_message_number_ty T, nrs_epoch_time_ty T, nrs_reference_station_id_ty T,
      nrs_reference_station_count_ty T, nrs_satellite_count_ty T, prs_non_physical_station_id_ty T,
      prs_physical_station_id_ty T, prs_itrf_realization_year_ty T, fg_satellite_id_ty T, fg_iod_ty T,
      fg_geometric_north_ty T, fg_geometric_east_ty T, fg_ionospheric_north_ty T,
      fg_ionospheric_east_ty T, fkp_message_number_ty T, fkp_reference_station_id_ty T,
      fkp_epoch_time_ty T, fkp_satellite_count_ty T, vl_height_ty T, vl_degree_ty T, vl_order_ty T,
      vl_cosine_ty T, vl_sine_ty T, vt_message_number_ty T, vt_igs_ssr_version_ty T,
      vt_epoch_time_s_ty T, vt_update_interval_ty T, vt_iod_ssr_ty T, vt_provider_id_ty T,
      vt_solution_id_ty T, vt_quality_indicator_ty T, pp_add_scale_ty T, pp_rectified_to_skew_ty T,
      prj_system_id_ty T, prj_projection_type_ty T]"

lemma layout_lawsD [build_returns]:
  assumes "layout_laws T"
  shows "into_i64 (an_message_number_ty T)" "into_i64 (an_interval_ty T)"
    "into_i64 (sys_reference_station_id_ty T)" "into_i64 (sys_mjd_ty T)"
    "into_i64 (sys_seconds_of_day_ty T)" "into_i64 (sys_announcement_count_ty T)"
    "into_i64 (sys_leap_seconds_ty T)" "into_i64 (tx_reference_station_id_ty T)"
    "into_i64 (tx_mjd_ty T)" "into_i64 (tx_seconds_of_day_ty T)" "into_i64 (tx_character_count_ty T)"
    "into_i64 (aux_network_id_ty T)" "into_i64 (aux_subnetwork_id_ty T)"
    "into_i64 (aux_auxiliary_station_count_ty T)" "into_i64 (aux_master_station_id_ty T)"
    "into_i64 (aux_auxiliary_station_id_ty T)" "into_i64 (aux_delta_latitude_ty T)"
    "into_i64 (aux_delta_longitude_ty T)" "into_i64 (aux_delta_height_ty T)"
    "into_i64 (gb_reference_station_id_ty T)" "into_i64 (gb_reserved_ty T)" "into_i64 (gb_l1_ca_ty T)"
    "into_i64 (gb_l1_p_ty T)" "into_i64 (gb_l2_ca_ty T)" "into_i64 (gb_l2_p_ty T)"
    "into_i64 (nd_satellite_id_ty T)" "into_i64 (nd_ambiguity_status_ty T)"
    "into_i64 (nd_non_sync_count_ty T)" "into_i64 (nd_geometric_ty T)" "into_i64 (nd_iod_ty T)"
    "into_i64 (nd_ionospheric_ty T)" "into_i64 (ncd_message_number_ty T)"
    "into_i64 (ncd_network_id_ty T)" "into_i64 (ncd_subnetwork_id_ty T)"
    "into_i64 (ncd_epoch_time_ty T)" "into_i64 (ncd_master_station_id_ty T)"
    "into_i64 (ncd_auxiliary_station_id_ty T)" "into_i64 (ncd_satellite_count_ty T)"
    "into_i64 (hel_message_number_ty T)" "into_i64 (hel_system_id_ty T)"
    "into_i64 (hel_utilized_messages_ty T)" "into_i64 (hel_plate_number_ty T)"
    "into_i64 (hel_computation_indicator_ty T)" "into_i64 (hel_height_indicator_ty T)"
    "into_i64 (hel_validity_latitude_ty T)" "into_i64 (hel_validity_longitude_ty T)"
    "into_i64 (hel_validity_extension_latitude_ty T)" "into_i64 (hel_validity_extension_longitude_ty T)"
    "into_i64 (hel_dx_ty T)" "into_i64 (hel_dy_ty T)" "into_i64 (hel_dz_ty T)" "into_i64 (hel_r1_ty T)"
    "into_i64 (hel_r2_ty T)" "into_i64 (hel_r3_ty T)" "into_i64 (hel_ds_ty T)"
    "into_i64 (hel_add_as_ty T)" "into_i64 (hel_add_bs_ty T)" "into_i64 (hel_add_at_ty T)"
    "into_i64 (hel_add_bt_ty T)" "into_i64 (hel_horizontal_quality_ty T)"
    "into_i64 (hel_vertical_quality_ty T)" "into_i64 (gr_horizontal_1_ty T)"
    "into_i64 (gr_horizontal_2_ty T)" "into_i64 (gr_height_ty T)" "into_i64 (rg_message_number_ty T)"
    "into_i64 (rg_system_id_ty T)" "into_i64 (rg_origin_1_ty T)" "into_i64 (rg_origin_2_ty T)"
    "into_i64 (rg_extension_1_ty T)" "into_i64 (rg_extension_2_ty T)" "into_i64 (rg_mean_offset_1_ty T)"
    "into_i64 (rg_mean_offset_2_ty T)" "into_i64 (rg_mean_height_offset_ty T)"
    "into_i64 (rg_horizontal_interpolation_ty T)" "into_i64 (rg_vertical_interpolation_ty T)"
    "into_i64 (rg_horizontal_quality_ty T)" "into_i64 (rg_vertical_quality_ty T)"
    "into_i64 (rg_mjd_ty T)" "into_i64 (nr_satellite_id_ty T)" "into_i64 (nr_s_oc_ty T)"
    "into_i64 (nr_s_od_ty T)" "into_i64 (nr_s_oh_ty T)" "into_i64 (nr_s_lc_ty T)"
    "into_i64 (nr_s_ld_ty T)" "into_i64 (nrs_message_number_ty T)" "into_i64 (nrs_epoch_time_ty T)"
    "into_i64 (nrs_reference_station_id_ty T)" "into_i64 (nrs_reference_station_count_ty T)"
    "into_i64 (nrs_satellite_count_ty T)" "into_i64 (prs_non_physical_station_id_ty T)"
    "into_i64 (prs_physical_station_id_ty T)" "into_i64 (prs_itrf_realization_year_ty T)"
    "into_i64 (fg_satellite_id_ty T)" "into_i64 (fg_iod_ty T)" "into_i64 (fg_geometric_north_ty T)"
    "into_i64 (fg_geometric_east_ty T)" "into_i64 (fg_ionospheric_north_ty T)"
    "into_i64 (fg_ionospheric_east_ty T)" "into_i64 (fkp_message_number_ty T)"
    "into_i64 (fkp_reference_station_id_ty T)" "into_i64 (fkp_epoch_time_ty T)"
    "into_i64 (fkp_satellite_count_ty T)" "into_i64 (vl_height_ty T)" "into_i64 (vl_degree_ty T)"
    "into_i64 (vl_order_ty T)" "into_i64 (vl_cosine_ty T)" "into_i64 (vl_sine_ty T)"
    "into_i64 (vt_message_number_ty T)" "into_i64 (vt_igs_ssr_version_ty T)"
    "into_i64 (vt_epoch_time_s_ty T)" "into_i64 (vt_update_interval_ty T)" "into_i64 (vt_iod_ssr_ty T)"
    "into_i64 (vt_provider_id_ty T)" "into_i64 (vt_solution_id_ty T)"
    "into_i64 (vt_quality_indicator_ty T)" "into_i64 (pp_add_scale_ty T)"
    "into_i64 (pp_rectified_to_skew_ty T)" "into_i64 (prj_system_id_ty T)"
    "into_i64 (prj_projection_type_ty T)"
  using assms by (simp_all add: layout_laws_def)

section \<open>System parameters\<close>

record MessageAnnouncementFields =
  anf_message_number :: i64
  anf_synchronous :: bool
  anf_interval :: i64

definition enc_MessageAnnouncementFields :: "MessageAnnouncementFields \<Rightarrow> nterm" where
  "enc_MessageAnnouncementFields f = nif_map
     [(''message_number'', enc_i64 (anf_message_number f)),
      (''synchronous'', enc_bool (anf_synchronous f)), (''interval'', enc_i64 (anf_interval f))]"

definition dec_MessageAnnouncementFields :: "nterm \<Rightarrow> MessageAnnouncementFields NifResult" where
  "dec_MessageAnnouncementFields t =
     and_then (nif_field ''message_number'' dec_i64 t) (\<lambda>message_number.
     and_then (nif_field ''synchronous'' dec_bool t) (\<lambda>synchronous.
     and_then (nif_field ''interval'' dec_i64 t) (\<lambda>interval.
     Inr \<lparr>anf_message_number = message_number, anf_synchronous = synchronous, anf_interval = interval\<rparr>)))"

interpretation anf: nif_codec enc_MessageAnnouncementFields dec_MessageAnnouncementFields
  by unfold_locales (simp_all only: enc_MessageAnnouncementFields_def dec_MessageAnnouncementFields_def nif_lookup codec_simps, simp_all)

lemmas MessageAnnouncementFields_codec [codec_simps] =
  anf.decodes anf.option_decodes anf.list_decodes

record MessageAnnouncement =
  an_message_number :: int
  an_synchronous :: bool
  an_interval :: int

definition carried_MessageAnnouncement :: "layout \<Rightarrow> MessageAnnouncement \<Rightarrow> bool" where
  "carried_MessageAnnouncement T m \<longleftrightarrow>
     in_ty (an_message_number_ty T) (an_message_number m) \<and>
     in_ty (an_interval_ty T) (an_interval m)"

definition MessageAnnouncementFields_from :: "MessageAnnouncement \<Rightarrow> MessageAnnouncementFields" where
  "MessageAnnouncementFields_from m =
     \<lparr>anf_message_number = as_i64 (an_message_number m), anf_synchronous = an_synchronous m,
      anf_interval = as_i64 (an_interval m)\<rparr>"

definition checked_announcement :: "layout \<Rightarrow> MessageAnnouncementFields \<Rightarrow> MessageAnnouncement NifResult" where
  "checked_announcement T f =
     and_then (checked (error_text ''invalid system-parameters field'') (an_message_number_ty T)
       (anf_message_number f)) (\<lambda>message_number.
     and_then (checked (error_text ''invalid system-parameters field'') (an_interval_ty T)
       (anf_interval f)) (\<lambda>interval.
     Inr \<lparr>an_message_number = message_number, an_synchronous = anf_synchronous f,
           an_interval = interval\<rparr>))"

interpretation an: checked_build "layout_laws T"
  "carried_MessageAnnouncement T" MessageAnnouncementFields_from "checked_announcement T" for T
  by (unfold_locales,
      simp add: carried_MessageAnnouncement_def MessageAnnouncementFields_from_def checked_announcement_def
        build_returns)
    (auto simp: carried_MessageAnnouncement_def MessageAnnouncementFields_from_def checked_announcement_def
      and_then_eq_Inr split: if_splits dest!: build_sound)

lemmas an_build_returns [build_returns] = an.returns an.list_returns an.option_returns
lemmas an_build_sound [build_sound] = an.sound an.list_sound an.option_sound

record SystemParametersFields =
  sysf_message_number :: i64
  sysf_reference_station_id :: i64
  sysf_mjd :: i64
  sysf_seconds_of_day :: i64
  sysf_announcement_count :: i64
  sysf_leap_seconds :: i64
  sysf_announcements :: "MessageAnnouncementFields list"
  sysf_trailing_bits :: "bool list"

definition enc_SystemParametersFields :: "SystemParametersFields \<Rightarrow> nterm" where
  "enc_SystemParametersFields f = nif_map
     [(''message_number'', enc_i64 (sysf_message_number f)),
      (''reference_station_id'', enc_i64 (sysf_reference_station_id f)),
      (''mjd'', enc_i64 (sysf_mjd f)), (''seconds_of_day'', enc_i64 (sysf_seconds_of_day f)),
      (''announcement_count'', enc_i64 (sysf_announcement_count f)),
      (''leap_seconds'', enc_i64 (sysf_leap_seconds f)),
      (''announcements'', enc_list enc_MessageAnnouncementFields (sysf_announcements f)),
      (''trailing_bits'', enc_list enc_bool (sysf_trailing_bits f))]"

definition dec_SystemParametersFields :: "nterm \<Rightarrow> SystemParametersFields NifResult" where
  "dec_SystemParametersFields t =
     and_then (nif_field ''message_number'' dec_i64 t) (\<lambda>message_number.
     and_then (nif_field ''reference_station_id'' dec_i64 t) (\<lambda>reference_station_id.
     and_then (nif_field ''mjd'' dec_i64 t) (\<lambda>mjd.
     and_then (nif_field ''seconds_of_day'' dec_i64 t) (\<lambda>seconds_of_day.
     and_then (nif_field ''announcement_count'' dec_i64 t) (\<lambda>announcement_count.
     and_then (nif_field ''leap_seconds'' dec_i64 t) (\<lambda>leap_seconds.
     and_then (nif_field ''announcements'' (dec_list dec_MessageAnnouncementFields) t) (\<lambda>announcements.
     and_then (nif_field ''trailing_bits'' (dec_list dec_bool) t) (\<lambda>trailing_bits.
     Inr \<lparr>sysf_message_number = message_number, sysf_reference_station_id = reference_station_id,
           sysf_mjd = mjd, sysf_seconds_of_day = seconds_of_day,
           sysf_announcement_count = announcement_count, sysf_leap_seconds = leap_seconds,
           sysf_announcements = announcements, sysf_trailing_bits = trailing_bits\<rparr>))))))))"

interpretation sysf: nif_codec enc_SystemParametersFields dec_SystemParametersFields
  by unfold_locales (simp_all only: enc_SystemParametersFields_def dec_SystemParametersFields_def nif_lookup codec_simps, simp_all)

lemmas SystemParametersFields_codec [codec_simps] =
  sysf.decodes sysf.option_decodes sysf.list_decodes

record SystemParameters =
  sys_reference_station_id :: int
  sys_mjd :: int
  sys_seconds_of_day :: int
  sys_announcement_count :: int
  sys_leap_seconds :: int
  sys_announcements :: "MessageAnnouncement list"
  sys_trailing_bits :: "bool list"

definition carried_SystemParameters :: "layout \<Rightarrow> SystemParameters \<Rightarrow> bool" where
  "carried_SystemParameters T m \<longleftrightarrow>
     in_ty (sys_reference_station_id_ty T) (sys_reference_station_id m) \<and>
     in_ty (sys_mjd_ty T) (sys_mjd m) \<and>
     in_ty (sys_seconds_of_day_ty T) (sys_seconds_of_day m) \<and>
     in_ty (sys_announcement_count_ty T) (sys_announcement_count m) \<and>
     in_ty (sys_leap_seconds_ty T) (sys_leap_seconds m) \<and>
     list_all (carried_MessageAnnouncement T) (sys_announcements m)"

definition SystemParametersFields_from :: "SystemParameters \<Rightarrow> SystemParametersFields" where
  "SystemParametersFields_from m =
     \<lparr>sysf_message_number = 1013, sysf_reference_station_id = as_i64 (sys_reference_station_id m),
      sysf_mjd = as_i64 (sys_mjd m), sysf_seconds_of_day = as_i64 (sys_seconds_of_day m),
      sysf_announcement_count = as_i64 (sys_announcement_count m),
      sysf_leap_seconds = as_i64 (sys_leap_seconds m),
      sysf_announcements = map MessageAnnouncementFields_from (sys_announcements m),
      sysf_trailing_bits = sys_trailing_bits m\<rparr>"

definition checked_system_parameters :: "layout \<Rightarrow> SystemParametersFields \<Rightarrow> SystemParameters NifResult" where
  "checked_system_parameters T f =
     (if sysf_message_number f \<noteq> 1013 then Inl
       (error_text ''system-parameters message number must be 1013'') else
     and_then (checked (error_text ''invalid system-parameters field'') (sys_reference_station_id_ty T)
       (sysf_reference_station_id f)) (\<lambda>reference_station_id.
     and_then (checked (error_text ''invalid system-parameters field'') (sys_mjd_ty T)
       (sysf_mjd f)) (\<lambda>mjd.
     and_then (checked (error_text ''invalid system-parameters field'') (sys_seconds_of_day_ty T)
       (sysf_seconds_of_day f)) (\<lambda>seconds_of_day.
     and_then (checked (error_text ''invalid system-parameters field'') (sys_announcement_count_ty T)
       (sysf_announcement_count f)) (\<lambda>announcement_count.
     and_then (checked (error_text ''invalid system-parameters field'') (sys_leap_seconds_ty T)
       (sysf_leap_seconds f)) (\<lambda>leap_seconds.
     and_then (collect_results (map (checked_announcement T)
       (sysf_announcements f))) (\<lambda>announcements.
     Inr \<lparr>sys_reference_station_id = reference_station_id, sys_mjd = mjd,
           sys_seconds_of_day = seconds_of_day, sys_announcement_count = announcement_count,
           sys_leap_seconds = leap_seconds, sys_announcements = announcements,
           sys_trailing_bits = sysf_trailing_bits f\<rparr>)))))))"

interpretation sys: checked_build "layout_laws T"
  "carried_SystemParameters T" SystemParametersFields_from "checked_system_parameters T" for T
  by (unfold_locales,
      simp add: carried_SystemParameters_def SystemParametersFields_from_def checked_system_parameters_def
        build_returns)
    (auto simp: carried_SystemParameters_def SystemParametersFields_from_def checked_system_parameters_def
      and_then_eq_Inr split: if_splits dest!: build_sound)

lemmas sys_build_returns [build_returns] = sys.returns sys.list_returns sys.option_returns
lemmas sys_build_sound [build_sound] = sys.sound sys.list_sound sys.option_sound

section \<open>Text\<close>

record TextMessageFields =
  txf_message_number :: i64
  txf_reference_station_id :: i64
  txf_mjd :: i64
  txf_seconds_of_day :: i64
  txf_character_count :: i64
  txf_code_units :: "u8 list"
  txf_trailing_bits :: "bool list"

definition enc_TextMessageFields :: "TextMessageFields \<Rightarrow> nterm" where
  "enc_TextMessageFields f = nif_map
     [(''message_number'', enc_i64 (txf_message_number f)),
      (''reference_station_id'', enc_i64 (txf_reference_station_id f)), (''mjd'', enc_i64 (txf_mjd f)),
      (''seconds_of_day'', enc_i64 (txf_seconds_of_day f)),
      (''character_count'', enc_i64 (txf_character_count f)),
      (''code_units'', enc_list enc_u8 (txf_code_units f)),
      (''trailing_bits'', enc_list enc_bool (txf_trailing_bits f))]"

definition dec_TextMessageFields :: "nterm \<Rightarrow> TextMessageFields NifResult" where
  "dec_TextMessageFields t =
     and_then (nif_field ''message_number'' dec_i64 t) (\<lambda>message_number.
     and_then (nif_field ''reference_station_id'' dec_i64 t) (\<lambda>reference_station_id.
     and_then (nif_field ''mjd'' dec_i64 t) (\<lambda>mjd.
     and_then (nif_field ''seconds_of_day'' dec_i64 t) (\<lambda>seconds_of_day.
     and_then (nif_field ''character_count'' dec_i64 t) (\<lambda>character_count.
     and_then (nif_field ''code_units'' (dec_list dec_u8) t) (\<lambda>code_units.
     and_then (nif_field ''trailing_bits'' (dec_list dec_bool) t) (\<lambda>trailing_bits.
     Inr \<lparr>txf_message_number = message_number, txf_reference_station_id = reference_station_id,
           txf_mjd = mjd, txf_seconds_of_day = seconds_of_day, txf_character_count = character_count,
           txf_code_units = code_units, txf_trailing_bits = trailing_bits\<rparr>)))))))"

interpretation txf: nif_codec enc_TextMessageFields dec_TextMessageFields
  by unfold_locales (simp_all only: enc_TextMessageFields_def dec_TextMessageFields_def nif_lookup codec_simps, simp_all)

lemmas TextMessageFields_codec [codec_simps] =
  txf.decodes txf.option_decodes txf.list_decodes

record TextMessage =
  tx_reference_station_id :: int
  tx_mjd :: int
  tx_seconds_of_day :: int
  tx_character_count :: int
  tx_code_units :: "u8 list"
  tx_trailing_bits :: "bool list"

definition carried_TextMessage :: "layout \<Rightarrow> TextMessage \<Rightarrow> bool" where
  "carried_TextMessage T m \<longleftrightarrow>
     in_ty (tx_reference_station_id_ty T) (tx_reference_station_id m) \<and>
     in_ty (tx_mjd_ty T) (tx_mjd m) \<and> in_ty (tx_seconds_of_day_ty T) (tx_seconds_of_day m) \<and>
     in_ty (tx_character_count_ty T) (tx_character_count m)"

definition TextMessageFields_from :: "TextMessage \<Rightarrow> TextMessageFields" where
  "TextMessageFields_from m =
     \<lparr>txf_message_number = 1029, txf_reference_station_id = as_i64 (tx_reference_station_id m),
      txf_mjd = as_i64 (tx_mjd m), txf_seconds_of_day = as_i64 (tx_seconds_of_day m),
      txf_character_count = as_i64 (tx_character_count m), txf_code_units = tx_code_units m,
      txf_trailing_bits = tx_trailing_bits m\<rparr>"

definition checked_text_message :: "layout \<Rightarrow> TextMessageFields \<Rightarrow> TextMessage NifResult" where
  "checked_text_message T f =
     (if txf_message_number f \<noteq> 1029 then Inl
       (error_text ''text message number must be 1029'') else
     and_then (checked (error_text ''invalid text-message field'') (tx_reference_station_id_ty T)
       (txf_reference_station_id f)) (\<lambda>reference_station_id.
     and_then (checked (error_text ''invalid text-message field'') (tx_mjd_ty T)
       (txf_mjd f)) (\<lambda>mjd.
     and_then (checked (error_text ''invalid text-message field'') (tx_seconds_of_day_ty T)
       (txf_seconds_of_day f)) (\<lambda>seconds_of_day.
     and_then (checked (error_text ''invalid text-message field'') (tx_character_count_ty T)
       (txf_character_count f)) (\<lambda>character_count.
     Inr \<lparr>tx_reference_station_id = reference_station_id, tx_mjd = mjd,
           tx_seconds_of_day = seconds_of_day, tx_character_count = character_count,
           tx_code_units = txf_code_units f, tx_trailing_bits = txf_trailing_bits f\<rparr>)))))"

interpretation tx: checked_build "layout_laws T"
  "carried_TextMessage T" TextMessageFields_from "checked_text_message T" for T
  by (unfold_locales,
      simp add: carried_TextMessage_def TextMessageFields_from_def checked_text_message_def
        build_returns)
    (auto simp: carried_TextMessage_def TextMessageFields_from_def checked_text_message_def
      and_then_eq_Inr split: if_splits dest!: build_sound)

lemmas tx_build_returns [build_returns] = tx.returns tx.list_returns tx.option_returns
lemmas tx_build_sound [build_sound] = tx.sound tx.list_sound tx.option_sound

section \<open>Network auxiliary station\<close>

record NetworkAuxiliaryStationFields =
  auxf_message_number :: i64
  auxf_network_id :: i64
  auxf_subnetwork_id :: i64
  auxf_auxiliary_station_count :: i64
  auxf_master_station_id :: i64
  auxf_auxiliary_station_id :: i64
  auxf_delta_latitude :: i64
  auxf_delta_longitude :: i64
  auxf_delta_height :: i64
  auxf_trailing_bits :: "bool list"

definition enc_NetworkAuxiliaryStationFields :: "NetworkAuxiliaryStationFields \<Rightarrow> nterm" where
  "enc_NetworkAuxiliaryStationFields f = nif_map
     [(''message_number'', enc_i64 (auxf_message_number f)),
      (''network_id'', enc_i64 (auxf_network_id f)),
      (''subnetwork_id'', enc_i64 (auxf_subnetwork_id f)),
      (''auxiliary_station_count'', enc_i64 (auxf_auxiliary_station_count f)),
      (''master_station_id'', enc_i64 (auxf_master_station_id f)),
      (''auxiliary_station_id'', enc_i64 (auxf_auxiliary_station_id f)),
      (''delta_latitude'', enc_i64 (auxf_delta_latitude f)),
      (''delta_longitude'', enc_i64 (auxf_delta_longitude f)),
      (''delta_height'', enc_i64 (auxf_delta_height f)),
      (''trailing_bits'', enc_list enc_bool (auxf_trailing_bits f))]"

definition dec_NetworkAuxiliaryStationFields :: "nterm \<Rightarrow> NetworkAuxiliaryStationFields NifResult" where
  "dec_NetworkAuxiliaryStationFields t =
     and_then (nif_field ''message_number'' dec_i64 t) (\<lambda>message_number.
     and_then (nif_field ''network_id'' dec_i64 t) (\<lambda>network_id.
     and_then (nif_field ''subnetwork_id'' dec_i64 t) (\<lambda>subnetwork_id.
     and_then (nif_field ''auxiliary_station_count'' dec_i64 t) (\<lambda>auxiliary_station_count.
     and_then (nif_field ''master_station_id'' dec_i64 t) (\<lambda>master_station_id.
     and_then (nif_field ''auxiliary_station_id'' dec_i64 t) (\<lambda>auxiliary_station_id.
     and_then (nif_field ''delta_latitude'' dec_i64 t) (\<lambda>delta_latitude.
     and_then (nif_field ''delta_longitude'' dec_i64 t) (\<lambda>delta_longitude.
     and_then (nif_field ''delta_height'' dec_i64 t) (\<lambda>delta_height.
     and_then (nif_field ''trailing_bits'' (dec_list dec_bool) t) (\<lambda>trailing_bits.
     Inr \<lparr>auxf_message_number = message_number, auxf_network_id = network_id,
           auxf_subnetwork_id = subnetwork_id, auxf_auxiliary_station_count = auxiliary_station_count,
           auxf_master_station_id = master_station_id, auxf_auxiliary_station_id = auxiliary_station_id,
           auxf_delta_latitude = delta_latitude, auxf_delta_longitude = delta_longitude,
           auxf_delta_height = delta_height, auxf_trailing_bits = trailing_bits\<rparr>))))))))))"

interpretation auxf: nif_codec enc_NetworkAuxiliaryStationFields dec_NetworkAuxiliaryStationFields
  by unfold_locales (simp_all only: enc_NetworkAuxiliaryStationFields_def dec_NetworkAuxiliaryStationFields_def nif_lookup codec_simps, simp_all)

lemmas NetworkAuxiliaryStationFields_codec [codec_simps] =
  auxf.decodes auxf.option_decodes auxf.list_decodes

record NetworkAuxiliaryStation =
  aux_network_id :: int
  aux_subnetwork_id :: int
  aux_auxiliary_station_count :: int
  aux_master_station_id :: int
  aux_auxiliary_station_id :: int
  aux_delta_latitude :: int
  aux_delta_longitude :: int
  aux_delta_height :: int
  aux_trailing_bits :: "bool list"

definition carried_NetworkAuxiliaryStation :: "layout \<Rightarrow> NetworkAuxiliaryStation \<Rightarrow> bool" where
  "carried_NetworkAuxiliaryStation T m \<longleftrightarrow>
     in_ty (aux_network_id_ty T) (aux_network_id m) \<and>
     in_ty (aux_subnetwork_id_ty T) (aux_subnetwork_id m) \<and>
     in_ty (aux_auxiliary_station_count_ty T) (aux_auxiliary_station_count m) \<and>
     in_ty (aux_master_station_id_ty T) (aux_master_station_id m) \<and>
     in_ty (aux_auxiliary_station_id_ty T) (aux_auxiliary_station_id m) \<and>
     in_ty (aux_delta_latitude_ty T) (aux_delta_latitude m) \<and>
     in_ty (aux_delta_longitude_ty T) (aux_delta_longitude m) \<and>
     in_ty (aux_delta_height_ty T) (aux_delta_height m)"

definition NetworkAuxiliaryStationFields_from :: "NetworkAuxiliaryStation \<Rightarrow> NetworkAuxiliaryStationFields" where
  "NetworkAuxiliaryStationFields_from m =
     \<lparr>auxf_message_number = 1014, auxf_network_id = as_i64 (aux_network_id m),
      auxf_subnetwork_id = as_i64 (aux_subnetwork_id m),
      auxf_auxiliary_station_count = as_i64 (aux_auxiliary_station_count m),
      auxf_master_station_id = as_i64 (aux_master_station_id m),
      auxf_auxiliary_station_id = as_i64 (aux_auxiliary_station_id m),
      auxf_delta_latitude = as_i64 (aux_delta_latitude m),
      auxf_delta_longitude = as_i64 (aux_delta_longitude m),
      auxf_delta_height = as_i64 (aux_delta_height m), auxf_trailing_bits = aux_trailing_bits m\<rparr>"

definition checked_network_auxiliary_station :: "layout \<Rightarrow> NetworkAuxiliaryStationFields \<Rightarrow> NetworkAuxiliaryStation NifResult" where
  "checked_network_auxiliary_station T f =
     (if auxf_message_number f \<noteq> 1014 then Inl
       (error_text ''network-auxiliary message number must be 1014'') else
     and_then (checked (error_text ''invalid network-auxiliary field'') (aux_network_id_ty T)
       (auxf_network_id f)) (\<lambda>network_id.
     and_then (checked (error_text ''invalid network-auxiliary field'') (aux_subnetwork_id_ty T)
       (auxf_subnetwork_id f)) (\<lambda>subnetwork_id.
     and_then (checked (error_text ''invalid network-auxiliary field'') (aux_auxiliary_station_count_ty T)
       (auxf_auxiliary_station_count f)) (\<lambda>auxiliary_station_count.
     and_then (checked (error_text ''invalid network-auxiliary field'') (aux_master_station_id_ty T)
       (auxf_master_station_id f)) (\<lambda>master_station_id.
     and_then (checked (error_text ''invalid network-auxiliary field'') (aux_auxiliary_station_id_ty T)
       (auxf_auxiliary_station_id f)) (\<lambda>auxiliary_station_id.
     and_then (checked (error_text ''invalid network-auxiliary field'') (aux_delta_latitude_ty T)
       (auxf_delta_latitude f)) (\<lambda>delta_latitude.
     and_then (checked (error_text ''invalid network-auxiliary field'') (aux_delta_longitude_ty T)
       (auxf_delta_longitude f)) (\<lambda>delta_longitude.
     and_then (checked (error_text ''invalid network-auxiliary field'') (aux_delta_height_ty T)
       (auxf_delta_height f)) (\<lambda>delta_height.
     Inr \<lparr>aux_network_id = network_id, aux_subnetwork_id = subnetwork_id,
           aux_auxiliary_station_count = auxiliary_station_count,
           aux_master_station_id = master_station_id, aux_auxiliary_station_id = auxiliary_station_id,
           aux_delta_latitude = delta_latitude, aux_delta_longitude = delta_longitude,
           aux_delta_height = delta_height, aux_trailing_bits = auxf_trailing_bits f\<rparr>)))))))))"

interpretation aux: checked_build "layout_laws T"
  "carried_NetworkAuxiliaryStation T" NetworkAuxiliaryStationFields_from "checked_network_auxiliary_station T" for T
  by (unfold_locales,
      simp add: carried_NetworkAuxiliaryStation_def NetworkAuxiliaryStationFields_from_def checked_network_auxiliary_station_def
        build_returns)
    (auto simp: carried_NetworkAuxiliaryStation_def NetworkAuxiliaryStationFields_from_def checked_network_auxiliary_station_def
      and_then_eq_Inr split: if_splits dest!: build_sound)

lemmas aux_build_returns [build_returns] = aux.returns aux.list_returns aux.option_returns
lemmas aux_build_sound [build_sound] = aux.sound aux.list_sound aux.option_sound

section \<open>GLONASS code-phase biases\<close>

record GlonassCodePhaseBiasesFields =
  gbf_message_number :: i64
  gbf_reference_station_id :: i64
  gbf_aligned :: bool
  gbf_reserved :: i64
  gbf_l1_ca :: "i64 option"
  gbf_l1_p :: "i64 option"
  gbf_l2_ca :: "i64 option"
  gbf_l2_p :: "i64 option"
  gbf_trailing_bits :: "bool list"

definition enc_GlonassCodePhaseBiasesFields :: "GlonassCodePhaseBiasesFields \<Rightarrow> nterm" where
  "enc_GlonassCodePhaseBiasesFields f = nif_map
     [(''message_number'', enc_i64 (gbf_message_number f)),
      (''reference_station_id'', enc_i64 (gbf_reference_station_id f)),
      (''aligned'', enc_bool (gbf_aligned f)), (''reserved'', enc_i64 (gbf_reserved f)),
      (''l1_ca'', enc_option enc_i64 (gbf_l1_ca f)), (''l1_p'', enc_option enc_i64 (gbf_l1_p f)),
      (''l2_ca'', enc_option enc_i64 (gbf_l2_ca f)), (''l2_p'', enc_option enc_i64 (gbf_l2_p f)),
      (''trailing_bits'', enc_list enc_bool (gbf_trailing_bits f))]"

definition dec_GlonassCodePhaseBiasesFields :: "nterm \<Rightarrow> GlonassCodePhaseBiasesFields NifResult" where
  "dec_GlonassCodePhaseBiasesFields t =
     and_then (nif_field ''message_number'' dec_i64 t) (\<lambda>message_number.
     and_then (nif_field ''reference_station_id'' dec_i64 t) (\<lambda>reference_station_id.
     and_then (nif_field ''aligned'' dec_bool t) (\<lambda>aligned.
     and_then (nif_field ''reserved'' dec_i64 t) (\<lambda>reserved.
     and_then (nif_field ''l1_ca'' (dec_option dec_i64) t) (\<lambda>l1_ca.
     and_then (nif_field ''l1_p'' (dec_option dec_i64) t) (\<lambda>l1_p.
     and_then (nif_field ''l2_ca'' (dec_option dec_i64) t) (\<lambda>l2_ca.
     and_then (nif_field ''l2_p'' (dec_option dec_i64) t) (\<lambda>l2_p.
     and_then (nif_field ''trailing_bits'' (dec_list dec_bool) t) (\<lambda>trailing_bits.
     Inr \<lparr>gbf_message_number = message_number, gbf_reference_station_id = reference_station_id,
           gbf_aligned = aligned, gbf_reserved = reserved, gbf_l1_ca = l1_ca, gbf_l1_p = l1_p,
           gbf_l2_ca = l2_ca, gbf_l2_p = l2_p, gbf_trailing_bits = trailing_bits\<rparr>)))))))))"

interpretation gbf: nif_codec enc_GlonassCodePhaseBiasesFields dec_GlonassCodePhaseBiasesFields
  by unfold_locales (simp_all only: enc_GlonassCodePhaseBiasesFields_def dec_GlonassCodePhaseBiasesFields_def nif_lookup codec_simps, simp_all)

lemmas GlonassCodePhaseBiasesFields_codec [codec_simps] =
  gbf.decodes gbf.option_decodes gbf.list_decodes

record GlonassCodePhaseBiases =
  gb_reference_station_id :: int
  gb_aligned :: bool
  gb_reserved :: int
  gb_l1_ca :: "int option"
  gb_l1_p :: "int option"
  gb_l2_ca :: "int option"
  gb_l2_p :: "int option"
  gb_trailing_bits :: "bool list"

definition carried_GlonassCodePhaseBiases :: "layout \<Rightarrow> GlonassCodePhaseBiases \<Rightarrow> bool" where
  "carried_GlonassCodePhaseBiases T m \<longleftrightarrow>
     in_ty (gb_reference_station_id_ty T) (gb_reference_station_id m) \<and>
     in_ty (gb_reserved_ty T) (gb_reserved m) \<and>
     pred_option (in_ty (gb_l1_ca_ty T)) (gb_l1_ca m) \<and>
     pred_option (in_ty (gb_l1_p_ty T)) (gb_l1_p m) \<and>
     pred_option (in_ty (gb_l2_ca_ty T)) (gb_l2_ca m) \<and>
     pred_option (in_ty (gb_l2_p_ty T)) (gb_l2_p m)"

definition GlonassCodePhaseBiasesFields_from :: "GlonassCodePhaseBiases \<Rightarrow> GlonassCodePhaseBiasesFields" where
  "GlonassCodePhaseBiasesFields_from m =
     \<lparr>gbf_message_number = 1230, gbf_reference_station_id = as_i64 (gb_reference_station_id m),
      gbf_aligned = gb_aligned m, gbf_reserved = as_i64 (gb_reserved m),
      gbf_l1_ca = map_option as_i64 (gb_l1_ca m), gbf_l1_p = map_option as_i64 (gb_l1_p m),
      gbf_l2_ca = map_option as_i64 (gb_l2_ca m), gbf_l2_p = map_option as_i64 (gb_l2_p m),
      gbf_trailing_bits = gb_trailing_bits m\<rparr>"

definition checked_glonass_code_phase_biases :: "layout \<Rightarrow> GlonassCodePhaseBiasesFields \<Rightarrow> GlonassCodePhaseBiases NifResult" where
  "checked_glonass_code_phase_biases T f =
     (if gbf_message_number f \<noteq> 1230 then Inl
       (error_text ''GLONASS bias message number must be 1230'') else
     and_then (checked (error_text ''invalid GLONASS bias field'') (gb_reference_station_id_ty T)
       (gbf_reference_station_id f)) (\<lambda>reference_station_id.
     and_then (checked (error_text ''invalid GLONASS bias field'') (gb_reserved_ty T)
       (gbf_reserved f)) (\<lambda>reserved.
     and_then (transpose_option (map_option (checked (error_text ''invalid GLONASS bias field'') (gb_l1_ca_ty T))
       (gbf_l1_ca f))) (\<lambda>l1_ca.
     and_then (transpose_option (map_option (checked (error_text ''invalid GLONASS bias field'') (gb_l1_p_ty T))
       (gbf_l1_p f))) (\<lambda>l1_p.
     and_then (transpose_option (map_option (checked (error_text ''invalid GLONASS bias field'') (gb_l2_ca_ty T))
       (gbf_l2_ca f))) (\<lambda>l2_ca.
     and_then (transpose_option (map_option (checked (error_text ''invalid GLONASS bias field'') (gb_l2_p_ty T))
       (gbf_l2_p f))) (\<lambda>l2_p.
     Inr \<lparr>gb_reference_station_id = reference_station_id, gb_aligned = gbf_aligned f,
           gb_reserved = reserved, gb_l1_ca = l1_ca, gb_l1_p = l1_p, gb_l2_ca = l2_ca, gb_l2_p = l2_p,
           gb_trailing_bits = gbf_trailing_bits f\<rparr>)))))))"

interpretation gb: checked_build "layout_laws T"
  "carried_GlonassCodePhaseBiases T" GlonassCodePhaseBiasesFields_from "checked_glonass_code_phase_biases T" for T
  by (unfold_locales,
      simp add: carried_GlonassCodePhaseBiases_def GlonassCodePhaseBiasesFields_from_def checked_glonass_code_phase_biases_def
        build_returns)
    (auto simp: carried_GlonassCodePhaseBiases_def GlonassCodePhaseBiasesFields_from_def checked_glonass_code_phase_biases_def
      and_then_eq_Inr split: if_splits dest!: build_sound)

lemmas gb_build_returns [build_returns] = gb.returns gb.list_returns gb.option_returns
lemmas gb_build_sound [build_sound] = gb.sound gb.list_sound gb.option_sound

section \<open>Network correction differences\<close>

record NetworkDifferenceRecordFields =
  ndf_satellite_id :: i64
  ndf_ambiguity_status :: i64
  ndf_non_sync_count :: i64
  ndf_geometric :: "i64 option"
  ndf_iod :: "i64 option"
  ndf_ionospheric :: "i64 option"

definition enc_NetworkDifferenceRecordFields :: "NetworkDifferenceRecordFields \<Rightarrow> nterm" where
  "enc_NetworkDifferenceRecordFields f = nif_map
     [(''satellite_id'', enc_i64 (ndf_satellite_id f)),
      (''ambiguity_status'', enc_i64 (ndf_ambiguity_status f)),
      (''non_sync_count'', enc_i64 (ndf_non_sync_count f)),
      (''geometric'', enc_option enc_i64 (ndf_geometric f)), (''iod'', enc_option enc_i64 (ndf_iod f)),
      (''ionospheric'', enc_option enc_i64 (ndf_ionospheric f))]"

definition dec_NetworkDifferenceRecordFields :: "nterm \<Rightarrow> NetworkDifferenceRecordFields NifResult" where
  "dec_NetworkDifferenceRecordFields t =
     and_then (nif_field ''satellite_id'' dec_i64 t) (\<lambda>satellite_id.
     and_then (nif_field ''ambiguity_status'' dec_i64 t) (\<lambda>ambiguity_status.
     and_then (nif_field ''non_sync_count'' dec_i64 t) (\<lambda>non_sync_count.
     and_then (nif_field ''geometric'' (dec_option dec_i64) t) (\<lambda>geometric.
     and_then (nif_field ''iod'' (dec_option dec_i64) t) (\<lambda>iod.
     and_then (nif_field ''ionospheric'' (dec_option dec_i64) t) (\<lambda>ionospheric.
     Inr \<lparr>ndf_satellite_id = satellite_id, ndf_ambiguity_status = ambiguity_status,
           ndf_non_sync_count = non_sync_count, ndf_geometric = geometric, ndf_iod = iod,
           ndf_ionospheric = ionospheric\<rparr>))))))"

interpretation ndf: nif_codec enc_NetworkDifferenceRecordFields dec_NetworkDifferenceRecordFields
  by unfold_locales (simp_all only: enc_NetworkDifferenceRecordFields_def dec_NetworkDifferenceRecordFields_def nif_lookup codec_simps, simp_all)

lemmas NetworkDifferenceRecordFields_codec [codec_simps] =
  ndf.decodes ndf.option_decodes ndf.list_decodes

record NetworkCorrectionDifference =
  nd_satellite_id :: int
  nd_ambiguity_status :: int
  nd_non_sync_count :: int
  nd_geometric :: "int option"
  nd_iod :: "int option"
  nd_ionospheric :: "int option"

definition carried_NetworkCorrectionDifference :: "layout \<Rightarrow> NetworkCorrectionDifference \<Rightarrow> bool" where
  "carried_NetworkCorrectionDifference T m \<longleftrightarrow>
     in_ty (nd_satellite_id_ty T) (nd_satellite_id m) \<and>
     in_ty (nd_ambiguity_status_ty T) (nd_ambiguity_status m) \<and>
     in_ty (nd_non_sync_count_ty T) (nd_non_sync_count m) \<and>
     pred_option (in_ty (nd_geometric_ty T)) (nd_geometric m) \<and>
     pred_option (in_ty (nd_iod_ty T)) (nd_iod m) \<and>
     pred_option (in_ty (nd_ionospheric_ty T)) (nd_ionospheric m)"

definition NetworkDifferenceRecordFields_from :: "NetworkCorrectionDifference \<Rightarrow> NetworkDifferenceRecordFields" where
  "NetworkDifferenceRecordFields_from m =
     \<lparr>ndf_satellite_id = as_i64 (nd_satellite_id m),
      ndf_ambiguity_status = as_i64 (nd_ambiguity_status m),
      ndf_non_sync_count = as_i64 (nd_non_sync_count m),
      ndf_geometric = map_option as_i64 (nd_geometric m), ndf_iod = map_option as_i64 (nd_iod m),
      ndf_ionospheric = map_option as_i64 (nd_ionospheric m)\<rparr>"

definition build_network_difference :: "layout \<Rightarrow> NetworkDifferenceRecordFields \<Rightarrow> NetworkCorrectionDifference NifResult" where
  "build_network_difference T f =
     and_then (checked_rtcm_integer (nd_satellite_id_ty T) ''satellite id''
       (ndf_satellite_id f)) (\<lambda>satellite_id.
     and_then (checked_rtcm_integer (nd_ambiguity_status_ty T) ''ambiguity status''
       (ndf_ambiguity_status f)) (\<lambda>ambiguity_status.
     and_then (checked_rtcm_integer (nd_non_sync_count_ty T) ''non-sync count''
       (ndf_non_sync_count f)) (\<lambda>non_sync_count.
     and_then (transpose_option (map_option (checked_rtcm_integer (nd_geometric_ty T) ''geometric correction'')
       (ndf_geometric f))) (\<lambda>geometric.
     and_then (transpose_option (map_option (checked_rtcm_integer (nd_iod_ty T) ''issue of data'')
       (ndf_iod f))) (\<lambda>iod.
     and_then (transpose_option (map_option (checked_rtcm_integer (nd_ionospheric_ty T) ''ionospheric correction'')
       (ndf_ionospheric f))) (\<lambda>ionospheric.
     Inr \<lparr>nd_satellite_id = satellite_id, nd_ambiguity_status = ambiguity_status,
           nd_non_sync_count = non_sync_count, nd_geometric = geometric, nd_iod = iod,
           nd_ionospheric = ionospheric\<rparr>))))))"

interpretation nd: checked_build "layout_laws T"
  "carried_NetworkCorrectionDifference T" NetworkDifferenceRecordFields_from "build_network_difference T" for T
  by (unfold_locales,
      simp add: carried_NetworkCorrectionDifference_def NetworkDifferenceRecordFields_from_def build_network_difference_def
        build_returns)
    (auto simp: carried_NetworkCorrectionDifference_def NetworkDifferenceRecordFields_from_def build_network_difference_def
      and_then_eq_Inr split: if_splits dest!: build_sound)

lemmas nd_build_returns [build_returns] = nd.returns nd.list_returns nd.option_returns
lemmas nd_build_sound [build_sound] = nd.sound nd.list_sound nd.option_sound

record NetworkCorrectionDifferencesFields =
  ncdf_message_number :: i64
  ncdf_network_id :: i64
  ncdf_subnetwork_id :: i64
  ncdf_epoch_time :: i64
  ncdf_multiple_message :: bool
  ncdf_master_station_id :: i64
  ncdf_auxiliary_station_id :: i64
  ncdf_satellite_count :: i64
  ncdf_satellites :: "NetworkDifferenceRecordFields list"
  ncdf_trailing_bits :: "bool list"

definition enc_NetworkCorrectionDifferencesFields :: "NetworkCorrectionDifferencesFields \<Rightarrow> nterm" where
  "enc_NetworkCorrectionDifferencesFields f = nif_map
     [(''message_number'', enc_i64 (ncdf_message_number f)),
      (''network_id'', enc_i64 (ncdf_network_id f)),
      (''subnetwork_id'', enc_i64 (ncdf_subnetwork_id f)),
      (''epoch_time'', enc_i64 (ncdf_epoch_time f)),
      (''multiple_message'', enc_bool (ncdf_multiple_message f)),
      (''master_station_id'', enc_i64 (ncdf_master_station_id f)),
      (''auxiliary_station_id'', enc_i64 (ncdf_auxiliary_station_id f)),
      (''satellite_count'', enc_i64 (ncdf_satellite_count f)),
      (''satellites'', enc_list enc_NetworkDifferenceRecordFields (ncdf_satellites f)),
      (''trailing_bits'', enc_list enc_bool (ncdf_trailing_bits f))]"

definition dec_NetworkCorrectionDifferencesFields :: "nterm \<Rightarrow> NetworkCorrectionDifferencesFields NifResult" where
  "dec_NetworkCorrectionDifferencesFields t =
     and_then (nif_field ''message_number'' dec_i64 t) (\<lambda>message_number.
     and_then (nif_field ''network_id'' dec_i64 t) (\<lambda>network_id.
     and_then (nif_field ''subnetwork_id'' dec_i64 t) (\<lambda>subnetwork_id.
     and_then (nif_field ''epoch_time'' dec_i64 t) (\<lambda>epoch_time.
     and_then (nif_field ''multiple_message'' dec_bool t) (\<lambda>multiple_message.
     and_then (nif_field ''master_station_id'' dec_i64 t) (\<lambda>master_station_id.
     and_then (nif_field ''auxiliary_station_id'' dec_i64 t) (\<lambda>auxiliary_station_id.
     and_then (nif_field ''satellite_count'' dec_i64 t) (\<lambda>satellite_count.
     and_then (nif_field ''satellites'' (dec_list dec_NetworkDifferenceRecordFields) t) (\<lambda>satellites.
     and_then (nif_field ''trailing_bits'' (dec_list dec_bool) t) (\<lambda>trailing_bits.
     Inr \<lparr>ncdf_message_number = message_number, ncdf_network_id = network_id,
           ncdf_subnetwork_id = subnetwork_id, ncdf_epoch_time = epoch_time,
           ncdf_multiple_message = multiple_message, ncdf_master_station_id = master_station_id,
           ncdf_auxiliary_station_id = auxiliary_station_id, ncdf_satellite_count = satellite_count,
           ncdf_satellites = satellites, ncdf_trailing_bits = trailing_bits\<rparr>))))))))))"

interpretation ncdf: nif_codec enc_NetworkCorrectionDifferencesFields dec_NetworkCorrectionDifferencesFields
  by unfold_locales (simp_all only: enc_NetworkCorrectionDifferencesFields_def dec_NetworkCorrectionDifferencesFields_def nif_lookup codec_simps, simp_all)

lemmas NetworkCorrectionDifferencesFields_codec [codec_simps] =
  ncdf.decodes ncdf.option_decodes ncdf.list_decodes

record NetworkCorrectionDifferences =
  ncd_message_number :: int
  ncd_network_id :: int
  ncd_subnetwork_id :: int
  ncd_epoch_time :: int
  ncd_multiple_message :: bool
  ncd_master_station_id :: int
  ncd_auxiliary_station_id :: int
  ncd_satellite_count :: int
  ncd_satellites :: "NetworkCorrectionDifference list"
  ncd_trailing_bits :: "bool list"

definition carried_NetworkCorrectionDifferences :: "layout \<Rightarrow> NetworkCorrectionDifferences \<Rightarrow> bool" where
  "carried_NetworkCorrectionDifferences T m \<longleftrightarrow>
     in_ty (ncd_message_number_ty T) (ncd_message_number m) \<and>
     in_ty (ncd_network_id_ty T) (ncd_network_id m) \<and>
     in_ty (ncd_subnetwork_id_ty T) (ncd_subnetwork_id m) \<and>
     in_ty (ncd_epoch_time_ty T) (ncd_epoch_time m) \<and>
     in_ty (ncd_master_station_id_ty T) (ncd_master_station_id m) \<and>
     in_ty (ncd_auxiliary_station_id_ty T) (ncd_auxiliary_station_id m) \<and>
     in_ty (ncd_satellite_count_ty T) (ncd_satellite_count m) \<and>
     list_all (carried_NetworkCorrectionDifference T) (ncd_satellites m)"

definition NetworkCorrectionDifferencesFields_from :: "NetworkCorrectionDifferences \<Rightarrow> NetworkCorrectionDifferencesFields" where
  "NetworkCorrectionDifferencesFields_from m =
     \<lparr>ncdf_message_number = as_i64 (ncd_message_number m), ncdf_network_id = as_i64 (ncd_network_id m),
      ncdf_subnetwork_id = as_i64 (ncd_subnetwork_id m), ncdf_epoch_time = as_i64 (ncd_epoch_time m),
      ncdf_multiple_message = ncd_multiple_message m,
      ncdf_master_station_id = as_i64 (ncd_master_station_id m),
      ncdf_auxiliary_station_id = as_i64 (ncd_auxiliary_station_id m),
      ncdf_satellite_count = as_i64 (ncd_satellite_count m),
      ncdf_satellites = map NetworkDifferenceRecordFields_from (ncd_satellites m),
      ncdf_trailing_bits = ncd_trailing_bits m\<rparr>"

definition build_network_correction_differences :: "layout \<Rightarrow> NetworkCorrectionDifferencesFields \<Rightarrow> NetworkCorrectionDifferences NifResult" where
  "build_network_correction_differences T f =
     and_then (collect_results (map (build_network_difference T)
       (ncdf_satellites f))) (\<lambda>satellites.
     and_then (checked_rtcm_integer (ncd_message_number_ty T) ''message number''
       (ncdf_message_number f)) (\<lambda>message_number.
     and_then (checked_rtcm_integer (ncd_network_id_ty T) ''network id''
       (ncdf_network_id f)) (\<lambda>network_id.
     and_then (checked_rtcm_integer (ncd_subnetwork_id_ty T) ''subnetwork id''
       (ncdf_subnetwork_id f)) (\<lambda>subnetwork_id.
     and_then (checked_rtcm_integer (ncd_epoch_time_ty T) ''epoch time''
       (ncdf_epoch_time f)) (\<lambda>epoch_time.
     and_then (checked_rtcm_integer (ncd_master_station_id_ty T) ''master station id''
       (ncdf_master_station_id f)) (\<lambda>master_station_id.
     and_then (checked_rtcm_integer (ncd_auxiliary_station_id_ty T) ''auxiliary station id''
       (ncdf_auxiliary_station_id f)) (\<lambda>auxiliary_station_id.
     and_then (checked_rtcm_integer (ncd_satellite_count_ty T) ''satellite count''
       (ncdf_satellite_count f)) (\<lambda>satellite_count.
     Inr \<lparr>ncd_message_number = message_number, ncd_network_id = network_id,
           ncd_subnetwork_id = subnetwork_id, ncd_epoch_time = epoch_time,
           ncd_multiple_message = ncdf_multiple_message f, ncd_master_station_id = master_station_id,
           ncd_auxiliary_station_id = auxiliary_station_id, ncd_satellite_count = satellite_count,
           ncd_satellites = satellites, ncd_trailing_bits = ncdf_trailing_bits f\<rparr>))))))))"

interpretation ncd: checked_build "layout_laws T"
  "carried_NetworkCorrectionDifferences T" NetworkCorrectionDifferencesFields_from "build_network_correction_differences T" for T
  by (unfold_locales,
      simp add: carried_NetworkCorrectionDifferences_def NetworkCorrectionDifferencesFields_from_def build_network_correction_differences_def
        build_returns)
    (auto simp: carried_NetworkCorrectionDifferences_def NetworkCorrectionDifferencesFields_from_def build_network_correction_differences_def
      and_then_eq_Inr split: if_splits dest!: build_sound)

lemmas ncd_build_returns [build_returns] = ncd.returns ncd.list_returns ncd.option_returns
lemmas ncd_build_sound [build_sound] = ncd.sound ncd.list_sound ncd.option_sound

section \<open>Helmert transformation\<close>

record RotationPointFields =
  rpf_x :: i64
  rpf_y :: i64
  rpf_z :: i64

definition enc_RotationPointFields :: "RotationPointFields \<Rightarrow> nterm" where
  "enc_RotationPointFields f = nif_map
     [(''x'', enc_i64 (rpf_x f)), (''y'', enc_i64 (rpf_y f)), (''z'', enc_i64 (rpf_z f))]"

definition dec_RotationPointFields :: "nterm \<Rightarrow> RotationPointFields NifResult" where
  "dec_RotationPointFields t =
     and_then (nif_field ''x'' dec_i64 t) (\<lambda>x.
     and_then (nif_field ''y'' dec_i64 t) (\<lambda>y.
     and_then (nif_field ''z'' dec_i64 t) (\<lambda>z.
     Inr \<lparr>rpf_x = x, rpf_y = y, rpf_z = z\<rparr>)))"

interpretation rpf: nif_codec enc_RotationPointFields dec_RotationPointFields
  by unfold_locales (simp_all only: enc_RotationPointFields_def dec_RotationPointFields_def nif_lookup codec_simps, simp_all)

lemmas RotationPointFields_codec [codec_simps] =
  rpf.decodes rpf.option_decodes rpf.list_decodes

record RotationPoint =
  rp_x :: i64
  rp_y :: i64
  rp_z :: i64

definition carried_RotationPoint :: "RotationPoint \<Rightarrow> bool" where
  "carried_RotationPoint m \<longleftrightarrow>
     True"

definition RotationPointFields_from :: "RotationPoint \<Rightarrow> RotationPointFields" where
  "RotationPointFields_from m =
     \<lparr>rpf_x = rp_x m, rpf_y = rp_y m, rpf_z = rp_z m\<rparr>"

definition RotationPoint_from :: "RotationPointFields \<Rightarrow> RotationPoint" where
  "RotationPoint_from f =
     \<lparr>rp_x = rpf_x f, rp_y = rpf_y f, rp_z = rpf_z f\<rparr>"

interpretation rp: casting_build carried_RotationPoint RotationPointFields_from RotationPoint_from
  by unfold_locales (simp_all add: carried_RotationPoint_def RotationPointFields_from_def RotationPoint_from_def build_returns)

lemma RotationPointFields_from_cast [simp]: "RotationPointFields_from (RotationPoint_from f) = f"
  by (simp add: RotationPointFields_from_def RotationPoint_from_def)

lemma rotation_point_fields_option [simp]:
  "map_option RotationPointFields_from (map_option RotationPoint_from y) = y"
  "map_option RotationPoint_from (map_option RotationPointFields_from x) = x"
  "pred_option carried_RotationPoint x"
  by (cases y; simp) (cases x; simp add: RotationPointFields_from_def RotationPoint_from_def carried_RotationPoint_def)+

record HelmertTransformationFields =
  helf_message_number :: i64
  helf_source_name :: string
  helf_target_name :: string
  helf_system_id :: i64
  helf_utilized_messages :: i64
  helf_plate_number :: i64
  helf_computation_indicator :: i64
  helf_height_indicator :: i64
  helf_validity_latitude :: i64
  helf_validity_longitude :: i64
  helf_validity_extension_latitude :: i64
  helf_validity_extension_longitude :: i64
  helf_dx :: i64
  helf_dy :: i64
  helf_dz :: i64
  helf_r1 :: i64
  helf_r2 :: i64
  helf_r3 :: i64
  helf_ds :: i64
  helf_rotation_point :: "RotationPointFields option"
  helf_add_as :: i64
  helf_add_bs :: i64
  helf_add_at :: i64
  helf_add_bt :: i64
  helf_horizontal_quality :: i64
  helf_vertical_quality :: i64
  helf_trailing_bits :: "bool list"

definition enc_HelmertTransformationFields :: "HelmertTransformationFields \<Rightarrow> nterm" where
  "enc_HelmertTransformationFields f = nif_map
     [(''message_number'', enc_i64 (helf_message_number f)),
      (''source_name'', Utf8 (helf_source_name f)), (''target_name'', Utf8 (helf_target_name f)),
      (''system_id'', enc_i64 (helf_system_id f)),
      (''utilized_messages'', enc_i64 (helf_utilized_messages f)),
      (''plate_number'', enc_i64 (helf_plate_number f)),
      (''computation_indicator'', enc_i64 (helf_computation_indicator f)),
      (''height_indicator'', enc_i64 (helf_height_indicator f)),
      (''validity_latitude'', enc_i64 (helf_validity_latitude f)),
      (''validity_longitude'', enc_i64 (helf_validity_longitude f)),
      (''validity_extension_latitude'', enc_i64 (helf_validity_extension_latitude f)),
      (''validity_extension_longitude'', enc_i64 (helf_validity_extension_longitude f)),
      (''dx'', enc_i64 (helf_dx f)), (''dy'', enc_i64 (helf_dy f)), (''dz'', enc_i64 (helf_dz f)),
      (''r1'', enc_i64 (helf_r1 f)), (''r2'', enc_i64 (helf_r2 f)), (''r3'', enc_i64 (helf_r3 f)),
      (''ds'', enc_i64 (helf_ds f)),
      (''rotation_point'', enc_option enc_RotationPointFields (helf_rotation_point f)),
      (''add_as'', enc_i64 (helf_add_as f)), (''add_bs'', enc_i64 (helf_add_bs f)),
      (''add_at'', enc_i64 (helf_add_at f)), (''add_bt'', enc_i64 (helf_add_bt f)),
      (''horizontal_quality'', enc_i64 (helf_horizontal_quality f)),
      (''vertical_quality'', enc_i64 (helf_vertical_quality f)),
      (''trailing_bits'', enc_list enc_bool (helf_trailing_bits f))]"

definition dec_HelmertTransformationFields :: "nterm \<Rightarrow> HelmertTransformationFields NifResult" where
  "dec_HelmertTransformationFields t =
     and_then (nif_field ''message_number'' dec_i64 t) (\<lambda>message_number.
     and_then (nif_field ''source_name'' dec_string t) (\<lambda>source_name.
     and_then (nif_field ''target_name'' dec_string t) (\<lambda>target_name.
     and_then (nif_field ''system_id'' dec_i64 t) (\<lambda>system_id.
     and_then (nif_field ''utilized_messages'' dec_i64 t) (\<lambda>utilized_messages.
     and_then (nif_field ''plate_number'' dec_i64 t) (\<lambda>plate_number.
     and_then (nif_field ''computation_indicator'' dec_i64 t) (\<lambda>computation_indicator.
     and_then (nif_field ''height_indicator'' dec_i64 t) (\<lambda>height_indicator.
     and_then (nif_field ''validity_latitude'' dec_i64 t) (\<lambda>validity_latitude.
     and_then (nif_field ''validity_longitude'' dec_i64 t) (\<lambda>validity_longitude.
     and_then (nif_field ''validity_extension_latitude'' dec_i64 t) (\<lambda>validity_extension_latitude.
     and_then (nif_field ''validity_extension_longitude'' dec_i64 t) (\<lambda>validity_extension_longitude.
     and_then (nif_field ''dx'' dec_i64 t) (\<lambda>dx.
     and_then (nif_field ''dy'' dec_i64 t) (\<lambda>dy.
     and_then (nif_field ''dz'' dec_i64 t) (\<lambda>dz.
     and_then (nif_field ''r1'' dec_i64 t) (\<lambda>r1.
     and_then (nif_field ''r2'' dec_i64 t) (\<lambda>r2.
     and_then (nif_field ''r3'' dec_i64 t) (\<lambda>r3.
     and_then (nif_field ''ds'' dec_i64 t) (\<lambda>ds.
     and_then (nif_field ''rotation_point'' (dec_option dec_RotationPointFields) t) (\<lambda>rotation_point.
     and_then (nif_field ''add_as'' dec_i64 t) (\<lambda>add_as.
     and_then (nif_field ''add_bs'' dec_i64 t) (\<lambda>add_bs.
     and_then (nif_field ''add_at'' dec_i64 t) (\<lambda>add_at.
     and_then (nif_field ''add_bt'' dec_i64 t) (\<lambda>add_bt.
     and_then (nif_field ''horizontal_quality'' dec_i64 t) (\<lambda>horizontal_quality.
     and_then (nif_field ''vertical_quality'' dec_i64 t) (\<lambda>vertical_quality.
     and_then (nif_field ''trailing_bits'' (dec_list dec_bool) t) (\<lambda>trailing_bits.
     Inr \<lparr>helf_message_number = message_number, helf_source_name = source_name,
           helf_target_name = target_name, helf_system_id = system_id,
           helf_utilized_messages = utilized_messages, helf_plate_number = plate_number,
           helf_computation_indicator = computation_indicator, helf_height_indicator = height_indicator,
           helf_validity_latitude = validity_latitude, helf_validity_longitude = validity_longitude,
           helf_validity_extension_latitude = validity_extension_latitude,
           helf_validity_extension_longitude = validity_extension_longitude, helf_dx = dx, helf_dy = dy,
           helf_dz = dz, helf_r1 = r1, helf_r2 = r2, helf_r3 = r3, helf_ds = ds,
           helf_rotation_point = rotation_point, helf_add_as = add_as, helf_add_bs = add_bs,
           helf_add_at = add_at, helf_add_bt = add_bt, helf_horizontal_quality = horizontal_quality,
           helf_vertical_quality = vertical_quality, helf_trailing_bits = trailing_bits\<rparr>)))))))))))))))))))))))))))"

interpretation helf: nif_codec enc_HelmertTransformationFields dec_HelmertTransformationFields
  by unfold_locales (simp_all only: enc_HelmertTransformationFields_def dec_HelmertTransformationFields_def nif_lookup codec_simps, simp_all)

lemmas HelmertTransformationFields_codec [codec_simps] =
  helf.decodes helf.option_decodes helf.list_decodes

record HelmertTransformation =
  hel_message_number :: int
  hel_source_name :: string
  hel_target_name :: string
  hel_system_id :: int
  hel_utilized_messages :: int
  hel_plate_number :: int
  hel_computation_indicator :: int
  hel_height_indicator :: int
  hel_validity_latitude :: int
  hel_validity_longitude :: int
  hel_validity_extension_latitude :: int
  hel_validity_extension_longitude :: int
  hel_dx :: int
  hel_dy :: int
  hel_dz :: int
  hel_r1 :: int
  hel_r2 :: int
  hel_r3 :: int
  hel_ds :: int
  hel_rotation_point :: "RotationPoint option"
  hel_add_as :: int
  hel_add_bs :: int
  hel_add_at :: int
  hel_add_bt :: int
  hel_horizontal_quality :: int
  hel_vertical_quality :: int
  hel_trailing_bits :: "bool list"

definition carried_HelmertTransformation :: "layout \<Rightarrow> HelmertTransformation \<Rightarrow> bool" where
  "carried_HelmertTransformation T m \<longleftrightarrow>
     in_ty (hel_message_number_ty T) (hel_message_number m) \<and>
     in_ty (hel_system_id_ty T) (hel_system_id m) \<and>
     in_ty (hel_utilized_messages_ty T) (hel_utilized_messages m) \<and>
     in_ty (hel_plate_number_ty T) (hel_plate_number m) \<and>
     in_ty (hel_computation_indicator_ty T) (hel_computation_indicator m) \<and>
     in_ty (hel_height_indicator_ty T) (hel_height_indicator m) \<and>
     in_ty (hel_validity_latitude_ty T) (hel_validity_latitude m) \<and>
     in_ty (hel_validity_longitude_ty T) (hel_validity_longitude m) \<and>
     in_ty (hel_validity_extension_latitude_ty T) (hel_validity_extension_latitude m) \<and>
     in_ty (hel_validity_extension_longitude_ty T) (hel_validity_extension_longitude m) \<and>
     in_ty (hel_dx_ty T) (hel_dx m) \<and> in_ty (hel_dy_ty T) (hel_dy m) \<and>
     in_ty (hel_dz_ty T) (hel_dz m) \<and> in_ty (hel_r1_ty T) (hel_r1 m) \<and>
     in_ty (hel_r2_ty T) (hel_r2 m) \<and> in_ty (hel_r3_ty T) (hel_r3 m) \<and>
     in_ty (hel_ds_ty T) (hel_ds m) \<and>
     pred_option carried_RotationPoint (hel_rotation_point m) \<and>
     in_ty (hel_add_as_ty T) (hel_add_as m) \<and> in_ty (hel_add_bs_ty T) (hel_add_bs m) \<and>
     in_ty (hel_add_at_ty T) (hel_add_at m) \<and> in_ty (hel_add_bt_ty T) (hel_add_bt m) \<and>
     in_ty (hel_horizontal_quality_ty T) (hel_horizontal_quality m) \<and>
     in_ty (hel_vertical_quality_ty T) (hel_vertical_quality m)"

definition HelmertTransformationFields_from :: "HelmertTransformation \<Rightarrow> HelmertTransformationFields" where
  "HelmertTransformationFields_from m =
     \<lparr>helf_message_number = as_i64 (hel_message_number m), helf_source_name = hel_source_name m,
      helf_target_name = hel_target_name m, helf_system_id = as_i64 (hel_system_id m),
      helf_utilized_messages = as_i64 (hel_utilized_messages m),
      helf_plate_number = as_i64 (hel_plate_number m),
      helf_computation_indicator = as_i64 (hel_computation_indicator m),
      helf_height_indicator = as_i64 (hel_height_indicator m),
      helf_validity_latitude = as_i64 (hel_validity_latitude m),
      helf_validity_longitude = as_i64 (hel_validity_longitude m),
      helf_validity_extension_latitude = as_i64 (hel_validity_extension_latitude m),
      helf_validity_extension_longitude = as_i64 (hel_validity_extension_longitude m),
      helf_dx = as_i64 (hel_dx m), helf_dy = as_i64 (hel_dy m), helf_dz = as_i64 (hel_dz m),
      helf_r1 = as_i64 (hel_r1 m), helf_r2 = as_i64 (hel_r2 m), helf_r3 = as_i64 (hel_r3 m),
      helf_ds = as_i64 (hel_ds m),
      helf_rotation_point = map_option RotationPointFields_from (hel_rotation_point m),
      helf_add_as = as_i64 (hel_add_as m), helf_add_bs = as_i64 (hel_add_bs m),
      helf_add_at = as_i64 (hel_add_at m), helf_add_bt = as_i64 (hel_add_bt m),
      helf_horizontal_quality = as_i64 (hel_horizontal_quality m),
      helf_vertical_quality = as_i64 (hel_vertical_quality m), helf_trailing_bits = hel_trailing_bits m\<rparr>"

definition build_helmert_transformation :: "layout \<Rightarrow> HelmertTransformationFields \<Rightarrow> HelmertTransformation NifResult" where
  "build_helmert_transformation T f =
     and_then (checked_rtcm_integer (hel_message_number_ty T) ''message number''
       (helf_message_number f)) (\<lambda>message_number.
     and_then (checked_rtcm_integer (hel_system_id_ty T) ''system id''
       (helf_system_id f)) (\<lambda>system_id.
     and_then (checked_rtcm_integer (hel_utilized_messages_ty T) ''utilized messages''
       (helf_utilized_messages f)) (\<lambda>utilized_messages.
     and_then (checked_rtcm_integer (hel_plate_number_ty T) ''plate number''
       (helf_plate_number f)) (\<lambda>plate_number.
     and_then (checked_rtcm_integer (hel_computation_indicator_ty T) ''computation indicator''
       (helf_computation_indicator f)) (\<lambda>computation_indicator.
     and_then (checked_rtcm_integer (hel_height_indicator_ty T) ''height indicator''
       (helf_height_indicator f)) (\<lambda>height_indicator.
     and_then (checked_rtcm_integer (hel_validity_latitude_ty T) ''validity latitude''
       (helf_validity_latitude f)) (\<lambda>validity_latitude.
     and_then (checked_rtcm_integer (hel_validity_longitude_ty T) ''validity longitude''
       (helf_validity_longitude f)) (\<lambda>validity_longitude.
     and_then (checked_rtcm_integer (hel_validity_extension_latitude_ty T) ''latitude extension''
       (helf_validity_extension_latitude f)) (\<lambda>validity_extension_latitude.
     and_then (checked_rtcm_integer (hel_validity_extension_longitude_ty T) ''longitude extension''
       (helf_validity_extension_longitude f)) (\<lambda>validity_extension_longitude.
     and_then (checked_rtcm_integer (hel_dx_ty T) ''dx'' (helf_dx f)) (\<lambda>dx.
     and_then (checked_rtcm_integer (hel_dy_ty T) ''dy'' (helf_dy f)) (\<lambda>dy.
     and_then (checked_rtcm_integer (hel_dz_ty T) ''dz'' (helf_dz f)) (\<lambda>dz.
     and_then (checked_rtcm_integer (hel_r1_ty T) ''r1'' (helf_r1 f)) (\<lambda>r1.
     and_then (checked_rtcm_integer (hel_r2_ty T) ''r2'' (helf_r2 f)) (\<lambda>r2.
     and_then (checked_rtcm_integer (hel_r3_ty T) ''r3'' (helf_r3 f)) (\<lambda>r3.
     and_then (checked_rtcm_integer (hel_ds_ty T) ''scale correction'' (helf_ds f)) (\<lambda>ds.
     and_then (checked_rtcm_integer (hel_add_as_ty T) ''source semi-major axis''
       (helf_add_as f)) (\<lambda>add_as.
     and_then (checked_rtcm_integer (hel_add_bs_ty T) ''source semi-minor axis''
       (helf_add_bs f)) (\<lambda>add_bs.
     and_then (checked_rtcm_integer (hel_add_at_ty T) ''target semi-major axis''
       (helf_add_at f)) (\<lambda>add_at.
     and_then (checked_rtcm_integer (hel_add_bt_ty T) ''target semi-minor axis''
       (helf_add_bt f)) (\<lambda>add_bt.
     and_then (checked_rtcm_integer (hel_horizontal_quality_ty T) ''horizontal quality''
       (helf_horizontal_quality f)) (\<lambda>horizontal_quality.
     and_then (checked_rtcm_integer (hel_vertical_quality_ty T) ''vertical quality''
       (helf_vertical_quality f)) (\<lambda>vertical_quality.
     Inr \<lparr>hel_message_number = message_number, hel_source_name = helf_source_name f,
           hel_target_name = helf_target_name f, hel_system_id = system_id,
           hel_utilized_messages = utilized_messages, hel_plate_number = plate_number,
           hel_computation_indicator = computation_indicator, hel_height_indicator = height_indicator,
           hel_validity_latitude = validity_latitude, hel_validity_longitude = validity_longitude,
           hel_validity_extension_latitude = validity_extension_latitude,
           hel_validity_extension_longitude = validity_extension_longitude, hel_dx = dx, hel_dy = dy,
           hel_dz = dz, hel_r1 = r1, hel_r2 = r2, hel_r3 = r3, hel_ds = ds,
           hel_rotation_point = map_option RotationPoint_from (helf_rotation_point f),
           hel_add_as = add_as, hel_add_bs = add_bs, hel_add_at = add_at, hel_add_bt = add_bt,
           hel_horizontal_quality = horizontal_quality, hel_vertical_quality = vertical_quality,
           hel_trailing_bits = helf_trailing_bits f\<rparr>)))))))))))))))))))))))"

interpretation hel: checked_build "layout_laws T"
  "carried_HelmertTransformation T" HelmertTransformationFields_from "build_helmert_transformation T" for T
  by (unfold_locales,
      simp add: carried_HelmertTransformation_def HelmertTransformationFields_from_def build_helmert_transformation_def
        build_returns)
    (auto simp: carried_HelmertTransformation_def HelmertTransformationFields_from_def build_helmert_transformation_def
      and_then_eq_Inr split: if_splits dest!: build_sound)

lemmas hel_build_returns [build_returns] = hel.returns hel.list_returns hel.option_returns
lemmas hel_build_sound [build_sound] = hel.sound hel.list_sound hel.option_sound

section \<open>Residual grid\<close>

record GridResidualFields =
  grf_horizontal_1 :: i64
  grf_horizontal_2 :: i64
  grf_height :: i64

definition enc_GridResidualFields :: "GridResidualFields \<Rightarrow> nterm" where
  "enc_GridResidualFields f = nif_map
     [(''horizontal_1'', enc_i64 (grf_horizontal_1 f)),
      (''horizontal_2'', enc_i64 (grf_horizontal_2 f)), (''height'', enc_i64 (grf_height f))]"

definition dec_GridResidualFields :: "nterm \<Rightarrow> GridResidualFields NifResult" where
  "dec_GridResidualFields t =
     and_then (nif_field ''horizontal_1'' dec_i64 t) (\<lambda>horizontal_1.
     and_then (nif_field ''horizontal_2'' dec_i64 t) (\<lambda>horizontal_2.
     and_then (nif_field ''height'' dec_i64 t) (\<lambda>height.
     Inr \<lparr>grf_horizontal_1 = horizontal_1, grf_horizontal_2 = horizontal_2, grf_height = height\<rparr>)))"

interpretation grf: nif_codec enc_GridResidualFields dec_GridResidualFields
  by unfold_locales (simp_all only: enc_GridResidualFields_def dec_GridResidualFields_def nif_lookup codec_simps, simp_all)

lemmas GridResidualFields_codec [codec_simps] =
  grf.decodes grf.option_decodes grf.list_decodes

record GridResidual =
  gr_horizontal_1 :: int
  gr_horizontal_2 :: int
  gr_height :: int

definition carried_GridResidual :: "layout \<Rightarrow> GridResidual \<Rightarrow> bool" where
  "carried_GridResidual T m \<longleftrightarrow>
     in_ty (gr_horizontal_1_ty T) (gr_horizontal_1 m) \<and>
     in_ty (gr_horizontal_2_ty T) (gr_horizontal_2 m) \<and> in_ty (gr_height_ty T) (gr_height m)"

definition GridResidualFields_from :: "GridResidual \<Rightarrow> GridResidualFields" where
  "GridResidualFields_from m =
     \<lparr>grf_horizontal_1 = as_i64 (gr_horizontal_1 m), grf_horizontal_2 = as_i64 (gr_horizontal_2 m),
      grf_height = as_i64 (gr_height m)\<rparr>"

definition build_grid_residual :: "layout \<Rightarrow> GridResidualFields \<Rightarrow> GridResidual NifResult" where
  "build_grid_residual T f =
     and_then (checked_rtcm_integer (gr_horizontal_1_ty T) ''grid horizontal 1''
       (grf_horizontal_1 f)) (\<lambda>horizontal_1.
     and_then (checked_rtcm_integer (gr_horizontal_2_ty T) ''grid horizontal 2''
       (grf_horizontal_2 f)) (\<lambda>horizontal_2.
     and_then (checked_rtcm_integer (gr_height_ty T) ''grid height'' (grf_height f)) (\<lambda>height.
     Inr \<lparr>gr_horizontal_1 = horizontal_1, gr_horizontal_2 = horizontal_2, gr_height = height\<rparr>)))"

interpretation gr: checked_build "layout_laws T"
  "carried_GridResidual T" GridResidualFields_from "build_grid_residual T" for T
  by (unfold_locales,
      simp add: carried_GridResidual_def GridResidualFields_from_def build_grid_residual_def
        build_returns)
    (auto simp: carried_GridResidual_def GridResidualFields_from_def build_grid_residual_def
      and_then_eq_Inr split: if_splits dest!: build_sound)

lemmas gr_build_returns [build_returns] = gr.returns gr.list_returns gr.option_returns
lemmas gr_build_sound [build_sound] = gr.sound gr.list_sound gr.option_sound

record ResidualGridFields =
  rgf_message_number :: i64
  rgf_system_id :: i64
  rgf_horizontal_shift :: bool
  rgf_vertical_shift :: bool
  rgf_origin_1 :: i64
  rgf_origin_2 :: i64
  rgf_extension_1 :: i64
  rgf_extension_2 :: i64
  rgf_mean_offset_1 :: i64
  rgf_mean_offset_2 :: i64
  rgf_mean_height_offset :: i64
  rgf_residuals :: "GridResidualFields list"
  rgf_horizontal_interpolation :: i64
  rgf_vertical_interpolation :: i64
  rgf_horizontal_quality :: i64
  rgf_vertical_quality :: i64
  rgf_mjd :: i64
  rgf_trailing_bits :: "bool list"

definition enc_ResidualGridFields :: "ResidualGridFields \<Rightarrow> nterm" where
  "enc_ResidualGridFields f = nif_map
     [(''message_number'', enc_i64 (rgf_message_number f)), (''system_id'', enc_i64 (rgf_system_id f)),
      (''horizontal_shift'', enc_bool (rgf_horizontal_shift f)),
      (''vertical_shift'', enc_bool (rgf_vertical_shift f)), (''origin_1'', enc_i64 (rgf_origin_1 f)),
      (''origin_2'', enc_i64 (rgf_origin_2 f)), (''extension_1'', enc_i64 (rgf_extension_1 f)),
      (''extension_2'', enc_i64 (rgf_extension_2 f)),
      (''mean_offset_1'', enc_i64 (rgf_mean_offset_1 f)),
      (''mean_offset_2'', enc_i64 (rgf_mean_offset_2 f)),
      (''mean_height_offset'', enc_i64 (rgf_mean_height_offset f)),
      (''residuals'', enc_list enc_GridResidualFields (rgf_residuals f)),
      (''horizontal_interpolation'', enc_i64 (rgf_horizontal_interpolation f)),
      (''vertical_interpolation'', enc_i64 (rgf_vertical_interpolation f)),
      (''horizontal_quality'', enc_i64 (rgf_horizontal_quality f)),
      (''vertical_quality'', enc_i64 (rgf_vertical_quality f)), (''mjd'', enc_i64 (rgf_mjd f)),
      (''trailing_bits'', enc_list enc_bool (rgf_trailing_bits f))]"

definition dec_ResidualGridFields :: "nterm \<Rightarrow> ResidualGridFields NifResult" where
  "dec_ResidualGridFields t =
     and_then (nif_field ''message_number'' dec_i64 t) (\<lambda>message_number.
     and_then (nif_field ''system_id'' dec_i64 t) (\<lambda>system_id.
     and_then (nif_field ''horizontal_shift'' dec_bool t) (\<lambda>horizontal_shift.
     and_then (nif_field ''vertical_shift'' dec_bool t) (\<lambda>vertical_shift.
     and_then (nif_field ''origin_1'' dec_i64 t) (\<lambda>origin_1.
     and_then (nif_field ''origin_2'' dec_i64 t) (\<lambda>origin_2.
     and_then (nif_field ''extension_1'' dec_i64 t) (\<lambda>extension_1.
     and_then (nif_field ''extension_2'' dec_i64 t) (\<lambda>extension_2.
     and_then (nif_field ''mean_offset_1'' dec_i64 t) (\<lambda>mean_offset_1.
     and_then (nif_field ''mean_offset_2'' dec_i64 t) (\<lambda>mean_offset_2.
     and_then (nif_field ''mean_height_offset'' dec_i64 t) (\<lambda>mean_height_offset.
     and_then (nif_field ''residuals'' (dec_list dec_GridResidualFields) t) (\<lambda>residuals.
     and_then (nif_field ''horizontal_interpolation'' dec_i64 t) (\<lambda>horizontal_interpolation.
     and_then (nif_field ''vertical_interpolation'' dec_i64 t) (\<lambda>vertical_interpolation.
     and_then (nif_field ''horizontal_quality'' dec_i64 t) (\<lambda>horizontal_quality.
     and_then (nif_field ''vertical_quality'' dec_i64 t) (\<lambda>vertical_quality.
     and_then (nif_field ''mjd'' dec_i64 t) (\<lambda>mjd.
     and_then (nif_field ''trailing_bits'' (dec_list dec_bool) t) (\<lambda>trailing_bits.
     Inr \<lparr>rgf_message_number = message_number, rgf_system_id = system_id,
           rgf_horizontal_shift = horizontal_shift, rgf_vertical_shift = vertical_shift,
           rgf_origin_1 = origin_1, rgf_origin_2 = origin_2, rgf_extension_1 = extension_1,
           rgf_extension_2 = extension_2, rgf_mean_offset_1 = mean_offset_1,
           rgf_mean_offset_2 = mean_offset_2, rgf_mean_height_offset = mean_height_offset,
           rgf_residuals = residuals, rgf_horizontal_interpolation = horizontal_interpolation,
           rgf_vertical_interpolation = vertical_interpolation,
           rgf_horizontal_quality = horizontal_quality, rgf_vertical_quality = vertical_quality,
           rgf_mjd = mjd, rgf_trailing_bits = trailing_bits\<rparr>))))))))))))))))))"

interpretation rgf: nif_codec enc_ResidualGridFields dec_ResidualGridFields
  by unfold_locales (simp_all only: enc_ResidualGridFields_def dec_ResidualGridFields_def nif_lookup codec_simps, simp_all)

lemmas ResidualGridFields_codec [codec_simps] =
  rgf.decodes rgf.option_decodes rgf.list_decodes

record ResidualGrid =
  rg_message_number :: int
  rg_system_id :: int
  rg_horizontal_shift :: bool
  rg_vertical_shift :: bool
  rg_origin_1 :: int
  rg_origin_2 :: int
  rg_extension_1 :: int
  rg_extension_2 :: int
  rg_mean_offset_1 :: int
  rg_mean_offset_2 :: int
  rg_mean_height_offset :: int
  rg_residuals :: "GridResidual list"
  rg_horizontal_interpolation :: int
  rg_vertical_interpolation :: int
  rg_horizontal_quality :: int
  rg_vertical_quality :: int
  rg_mjd :: int
  rg_trailing_bits :: "bool list"

definition carried_ResidualGrid :: "layout \<Rightarrow> ResidualGrid \<Rightarrow> bool" where
  "carried_ResidualGrid T m \<longleftrightarrow>
     in_ty (rg_message_number_ty T) (rg_message_number m) \<and>
     in_ty (rg_system_id_ty T) (rg_system_id m) \<and> in_ty (rg_origin_1_ty T) (rg_origin_1 m) \<and>
     in_ty (rg_origin_2_ty T) (rg_origin_2 m) \<and>
     in_ty (rg_extension_1_ty T) (rg_extension_1 m) \<and>
     in_ty (rg_extension_2_ty T) (rg_extension_2 m) \<and>
     in_ty (rg_mean_offset_1_ty T) (rg_mean_offset_1 m) \<and>
     in_ty (rg_mean_offset_2_ty T) (rg_mean_offset_2 m) \<and>
     in_ty (rg_mean_height_offset_ty T) (rg_mean_height_offset m) \<and>
     list_all (carried_GridResidual T) (rg_residuals m) \<and>
     in_ty (rg_horizontal_interpolation_ty T) (rg_horizontal_interpolation m) \<and>
     in_ty (rg_vertical_interpolation_ty T) (rg_vertical_interpolation m) \<and>
     in_ty (rg_horizontal_quality_ty T) (rg_horizontal_quality m) \<and>
     in_ty (rg_vertical_quality_ty T) (rg_vertical_quality m) \<and>
     in_ty (rg_mjd_ty T) (rg_mjd m) \<and> length (rg_residuals m) = 16"

definition ResidualGridFields_from :: "ResidualGrid \<Rightarrow> ResidualGridFields" where
  "ResidualGridFields_from m =
     \<lparr>rgf_message_number = as_i64 (rg_message_number m), rgf_system_id = as_i64 (rg_system_id m),
      rgf_horizontal_shift = rg_horizontal_shift m, rgf_vertical_shift = rg_vertical_shift m,
      rgf_origin_1 = as_i64 (rg_origin_1 m), rgf_origin_2 = as_i64 (rg_origin_2 m),
      rgf_extension_1 = as_i64 (rg_extension_1 m), rgf_extension_2 = as_i64 (rg_extension_2 m),
      rgf_mean_offset_1 = as_i64 (rg_mean_offset_1 m), rgf_mean_offset_2 = as_i64 (rg_mean_offset_2 m),
      rgf_mean_height_offset = as_i64 (rg_mean_height_offset m),
      rgf_residuals = map GridResidualFields_from (rg_residuals m),
      rgf_horizontal_interpolation = as_i64 (rg_horizontal_interpolation m),
      rgf_vertical_interpolation = as_i64 (rg_vertical_interpolation m),
      rgf_horizontal_quality = as_i64 (rg_horizontal_quality m),
      rgf_vertical_quality = as_i64 (rg_vertical_quality m), rgf_mjd = as_i64 (rg_mjd m),
      rgf_trailing_bits = rg_trailing_bits m\<rparr>"

definition build_residual_grid :: "layout \<Rightarrow> ResidualGridFields \<Rightarrow> ResidualGrid NifResult" where
  "build_residual_grid T f =
     and_then (collect_results (map (build_grid_residual T) (rgf_residuals f))) (\<lambda>residuals.
     and_then (if length residuals = 16 then Inr residuals else Inl
       (error_text ''RTCM residual grid requires exactly 16 points'')) (\<lambda>residuals.
     and_then (checked_rtcm_integer (rg_message_number_ty T) ''message number''
       (rgf_message_number f)) (\<lambda>message_number.
     and_then (checked_rtcm_integer (rg_system_id_ty T) ''system id''
       (rgf_system_id f)) (\<lambda>system_id.
     and_then (checked_rtcm_integer (rg_origin_1_ty T) ''origin 1''
       (rgf_origin_1 f)) (\<lambda>origin_1.
     and_then (checked_rtcm_integer (rg_origin_2_ty T) ''origin 2''
       (rgf_origin_2 f)) (\<lambda>origin_2.
     and_then (checked_rtcm_integer (rg_extension_1_ty T) ''extension 1''
       (rgf_extension_1 f)) (\<lambda>extension_1.
     and_then (checked_rtcm_integer (rg_extension_2_ty T) ''extension 2''
       (rgf_extension_2 f)) (\<lambda>extension_2.
     and_then (checked_rtcm_integer (rg_mean_offset_1_ty T) ''mean offset 1''
       (rgf_mean_offset_1 f)) (\<lambda>mean_offset_1.
     and_then (checked_rtcm_integer (rg_mean_offset_2_ty T) ''mean offset 2''
       (rgf_mean_offset_2 f)) (\<lambda>mean_offset_2.
     and_then (checked_rtcm_integer (rg_mean_height_offset_ty T) ''mean height offset''
       (rgf_mean_height_offset f)) (\<lambda>mean_height_offset.
     and_then (checked_rtcm_integer (rg_horizontal_interpolation_ty T) ''horizontal interpolation''
       (rgf_horizontal_interpolation f)) (\<lambda>horizontal_interpolation.
     and_then (checked_rtcm_integer (rg_vertical_interpolation_ty T) ''vertical interpolation''
       (rgf_vertical_interpolation f)) (\<lambda>vertical_interpolation.
     and_then (checked_rtcm_integer (rg_horizontal_quality_ty T) ''horizontal quality''
       (rgf_horizontal_quality f)) (\<lambda>horizontal_quality.
     and_then (checked_rtcm_integer (rg_vertical_quality_ty T) ''vertical quality''
       (rgf_vertical_quality f)) (\<lambda>vertical_quality.
     and_then (checked_rtcm_integer (rg_mjd_ty T) ''MJD'' (rgf_mjd f)) (\<lambda>mjd.
     Inr \<lparr>rg_message_number = message_number, rg_system_id = system_id,
           rg_horizontal_shift = rgf_horizontal_shift f, rg_vertical_shift = rgf_vertical_shift f,
           rg_origin_1 = origin_1, rg_origin_2 = origin_2, rg_extension_1 = extension_1,
           rg_extension_2 = extension_2, rg_mean_offset_1 = mean_offset_1,
           rg_mean_offset_2 = mean_offset_2, rg_mean_height_offset = mean_height_offset,
           rg_residuals = residuals, rg_horizontal_interpolation = horizontal_interpolation,
           rg_vertical_interpolation = vertical_interpolation,
           rg_horizontal_quality = horizontal_quality, rg_vertical_quality = vertical_quality,
           rg_mjd = mjd, rg_trailing_bits = rgf_trailing_bits f\<rparr>))))))))))))))))"

interpretation rg: checked_build "layout_laws T"
  "carried_ResidualGrid T" ResidualGridFields_from "build_residual_grid T" for T
  by (unfold_locales,
      simp add: carried_ResidualGrid_def ResidualGridFields_from_def build_residual_grid_def
        build_returns)
    (auto simp: carried_ResidualGrid_def ResidualGridFields_from_def build_residual_grid_def
      and_then_eq_Inr split: if_splits dest!: build_sound)

lemmas rg_build_returns [build_returns] = rg.returns rg.list_returns rg.option_returns
lemmas rg_build_sound [build_sound] = rg.sound rg.list_sound rg.option_sound

section \<open>Network residuals\<close>

record NetworkResidualRecordFields =
  nrf_satellite_id :: i64
  nrf_s_oc :: i64
  nrf_s_od :: i64
  nrf_s_oh :: i64
  nrf_s_lc :: i64
  nrf_s_ld :: i64

definition enc_NetworkResidualRecordFields :: "NetworkResidualRecordFields \<Rightarrow> nterm" where
  "enc_NetworkResidualRecordFields f = nif_map
     [(''satellite_id'', enc_i64 (nrf_satellite_id f)), (''s_oc'', enc_i64 (nrf_s_oc f)),
      (''s_od'', enc_i64 (nrf_s_od f)), (''s_oh'', enc_i64 (nrf_s_oh f)),
      (''s_lc'', enc_i64 (nrf_s_lc f)), (''s_ld'', enc_i64 (nrf_s_ld f))]"

definition dec_NetworkResidualRecordFields :: "nterm \<Rightarrow> NetworkResidualRecordFields NifResult" where
  "dec_NetworkResidualRecordFields t =
     and_then (nif_field ''satellite_id'' dec_i64 t) (\<lambda>satellite_id.
     and_then (nif_field ''s_oc'' dec_i64 t) (\<lambda>s_oc.
     and_then (nif_field ''s_od'' dec_i64 t) (\<lambda>s_od.
     and_then (nif_field ''s_oh'' dec_i64 t) (\<lambda>s_oh.
     and_then (nif_field ''s_lc'' dec_i64 t) (\<lambda>s_lc.
     and_then (nif_field ''s_ld'' dec_i64 t) (\<lambda>s_ld.
     Inr \<lparr>nrf_satellite_id = satellite_id, nrf_s_oc = s_oc, nrf_s_od = s_od, nrf_s_oh = s_oh,
           nrf_s_lc = s_lc, nrf_s_ld = s_ld\<rparr>))))))"

interpretation nrf: nif_codec enc_NetworkResidualRecordFields dec_NetworkResidualRecordFields
  by unfold_locales (simp_all only: enc_NetworkResidualRecordFields_def dec_NetworkResidualRecordFields_def nif_lookup codec_simps, simp_all)

lemmas NetworkResidualRecordFields_codec [codec_simps] =
  nrf.decodes nrf.option_decodes nrf.list_decodes

record NetworkResidual =
  nr_satellite_id :: int
  nr_s_oc :: int
  nr_s_od :: int
  nr_s_oh :: int
  nr_s_lc :: int
  nr_s_ld :: int

definition carried_NetworkResidual :: "layout \<Rightarrow> NetworkResidual \<Rightarrow> bool" where
  "carried_NetworkResidual T m \<longleftrightarrow>
     in_ty (nr_satellite_id_ty T) (nr_satellite_id m) \<and> in_ty (nr_s_oc_ty T) (nr_s_oc m) \<and>
     in_ty (nr_s_od_ty T) (nr_s_od m) \<and> in_ty (nr_s_oh_ty T) (nr_s_oh m) \<and>
     in_ty (nr_s_lc_ty T) (nr_s_lc m) \<and> in_ty (nr_s_ld_ty T) (nr_s_ld m)"

definition NetworkResidualRecordFields_from :: "NetworkResidual \<Rightarrow> NetworkResidualRecordFields" where
  "NetworkResidualRecordFields_from m =
     \<lparr>nrf_satellite_id = as_i64 (nr_satellite_id m), nrf_s_oc = as_i64 (nr_s_oc m),
      nrf_s_od = as_i64 (nr_s_od m), nrf_s_oh = as_i64 (nr_s_oh m), nrf_s_lc = as_i64 (nr_s_lc m),
      nrf_s_ld = as_i64 (nr_s_ld m)\<rparr>"

definition build_network_residual :: "layout \<Rightarrow> NetworkResidualRecordFields \<Rightarrow> NetworkResidual NifResult" where
  "build_network_residual T f =
     and_then (checked_rtcm_integer (nr_satellite_id_ty T) ''satellite id''
       (nrf_satellite_id f)) (\<lambda>satellite_id.
     and_then (checked_rtcm_integer (nr_s_oc_ty T) ''s_oc'' (nrf_s_oc f)) (\<lambda>s_oc.
     and_then (checked_rtcm_integer (nr_s_od_ty T) ''s_od'' (nrf_s_od f)) (\<lambda>s_od.
     and_then (checked_rtcm_integer (nr_s_oh_ty T) ''s_oh'' (nrf_s_oh f)) (\<lambda>s_oh.
     and_then (checked_rtcm_integer (nr_s_lc_ty T) ''s_lc'' (nrf_s_lc f)) (\<lambda>s_lc.
     and_then (checked_rtcm_integer (nr_s_ld_ty T) ''s_ld'' (nrf_s_ld f)) (\<lambda>s_ld.
     Inr \<lparr>nr_satellite_id = satellite_id, nr_s_oc = s_oc, nr_s_od = s_od, nr_s_oh = s_oh,
           nr_s_lc = s_lc, nr_s_ld = s_ld\<rparr>))))))"

interpretation nr: checked_build "layout_laws T"
  "carried_NetworkResidual T" NetworkResidualRecordFields_from "build_network_residual T" for T
  by (unfold_locales,
      simp add: carried_NetworkResidual_def NetworkResidualRecordFields_from_def build_network_residual_def
        build_returns)
    (auto simp: carried_NetworkResidual_def NetworkResidualRecordFields_from_def build_network_residual_def
      and_then_eq_Inr split: if_splits dest!: build_sound)

lemmas nr_build_returns [build_returns] = nr.returns nr.list_returns nr.option_returns
lemmas nr_build_sound [build_sound] = nr.sound nr.list_sound nr.option_sound

record NetworkResidualsFields =
  nrsf_message_number :: i64
  nrsf_epoch_time :: i64
  nrsf_reference_station_id :: i64
  nrsf_reference_station_count :: i64
  nrsf_satellite_count :: i64
  nrsf_satellites :: "NetworkResidualRecordFields list"
  nrsf_trailing_bits :: "bool list"

definition enc_NetworkResidualsFields :: "NetworkResidualsFields \<Rightarrow> nterm" where
  "enc_NetworkResidualsFields f = nif_map
     [(''message_number'', enc_i64 (nrsf_message_number f)),
      (''epoch_time'', enc_i64 (nrsf_epoch_time f)),
      (''reference_station_id'', enc_i64 (nrsf_reference_station_id f)),
      (''reference_station_count'', enc_i64 (nrsf_reference_station_count f)),
      (''satellite_count'', enc_i64 (nrsf_satellite_count f)),
      (''satellites'', enc_list enc_NetworkResidualRecordFields (nrsf_satellites f)),
      (''trailing_bits'', enc_list enc_bool (nrsf_trailing_bits f))]"

definition dec_NetworkResidualsFields :: "nterm \<Rightarrow> NetworkResidualsFields NifResult" where
  "dec_NetworkResidualsFields t =
     and_then (nif_field ''message_number'' dec_i64 t) (\<lambda>message_number.
     and_then (nif_field ''epoch_time'' dec_i64 t) (\<lambda>epoch_time.
     and_then (nif_field ''reference_station_id'' dec_i64 t) (\<lambda>reference_station_id.
     and_then (nif_field ''reference_station_count'' dec_i64 t) (\<lambda>reference_station_count.
     and_then (nif_field ''satellite_count'' dec_i64 t) (\<lambda>satellite_count.
     and_then (nif_field ''satellites'' (dec_list dec_NetworkResidualRecordFields) t) (\<lambda>satellites.
     and_then (nif_field ''trailing_bits'' (dec_list dec_bool) t) (\<lambda>trailing_bits.
     Inr \<lparr>nrsf_message_number = message_number, nrsf_epoch_time = epoch_time,
           nrsf_reference_station_id = reference_station_id,
           nrsf_reference_station_count = reference_station_count,
           nrsf_satellite_count = satellite_count, nrsf_satellites = satellites,
           nrsf_trailing_bits = trailing_bits\<rparr>)))))))"

interpretation nrsf: nif_codec enc_NetworkResidualsFields dec_NetworkResidualsFields
  by unfold_locales (simp_all only: enc_NetworkResidualsFields_def dec_NetworkResidualsFields_def nif_lookup codec_simps, simp_all)

lemmas NetworkResidualsFields_codec [codec_simps] =
  nrsf.decodes nrsf.option_decodes nrsf.list_decodes

record NetworkResiduals =
  nrs_message_number :: int
  nrs_epoch_time :: int
  nrs_reference_station_id :: int
  nrs_reference_station_count :: int
  nrs_satellite_count :: int
  nrs_satellites :: "NetworkResidual list"
  nrs_trailing_bits :: "bool list"

definition carried_NetworkResiduals :: "layout \<Rightarrow> NetworkResiduals \<Rightarrow> bool" where
  "carried_NetworkResiduals T m \<longleftrightarrow>
     in_ty (nrs_message_number_ty T) (nrs_message_number m) \<and>
     in_ty (nrs_epoch_time_ty T) (nrs_epoch_time m) \<and>
     in_ty (nrs_reference_station_id_ty T) (nrs_reference_station_id m) \<and>
     in_ty (nrs_reference_station_count_ty T) (nrs_reference_station_count m) \<and>
     in_ty (nrs_satellite_count_ty T) (nrs_satellite_count m) \<and>
     list_all (carried_NetworkResidual T) (nrs_satellites m)"

definition NetworkResidualsFields_from :: "NetworkResiduals \<Rightarrow> NetworkResidualsFields" where
  "NetworkResidualsFields_from m =
     \<lparr>nrsf_message_number = as_i64 (nrs_message_number m), nrsf_epoch_time = as_i64 (nrs_epoch_time m),
      nrsf_reference_station_id = as_i64 (nrs_reference_station_id m),
      nrsf_reference_station_count = as_i64 (nrs_reference_station_count m),
      nrsf_satellite_count = as_i64 (nrs_satellite_count m),
      nrsf_satellites = map NetworkResidualRecordFields_from (nrs_satellites m),
      nrsf_trailing_bits = nrs_trailing_bits m\<rparr>"

definition build_network_residuals :: "layout \<Rightarrow> NetworkResidualsFields \<Rightarrow> NetworkResiduals NifResult" where
  "build_network_residuals T f =
     and_then (checked_rtcm_integer (nrs_message_number_ty T) ''message number''
       (nrsf_message_number f)) (\<lambda>message_number.
     and_then (checked_rtcm_integer (nrs_epoch_time_ty T) ''epoch time''
       (nrsf_epoch_time f)) (\<lambda>epoch_time.
     and_then (checked_rtcm_integer (nrs_reference_station_id_ty T) ''reference station id''
       (nrsf_reference_station_id f)) (\<lambda>reference_station_id.
     and_then (checked_rtcm_integer (nrs_reference_station_count_ty T) ''reference station count''
       (nrsf_reference_station_count f)) (\<lambda>reference_station_count.
     and_then (checked_rtcm_integer (nrs_satellite_count_ty T) ''satellite count''
       (nrsf_satellite_count f)) (\<lambda>satellite_count.
     and_then (collect_results (map (build_network_residual T)
       (nrsf_satellites f))) (\<lambda>satellites.
     Inr \<lparr>nrs_message_number = message_number, nrs_epoch_time = epoch_time,
           nrs_reference_station_id = reference_station_id,
           nrs_reference_station_count = reference_station_count, nrs_satellite_count = satellite_count,
           nrs_satellites = satellites, nrs_trailing_bits = nrsf_trailing_bits f\<rparr>))))))"

interpretation nrs: checked_build "layout_laws T"
  "carried_NetworkResiduals T" NetworkResidualsFields_from "build_network_residuals T" for T
  by (unfold_locales,
      simp add: carried_NetworkResiduals_def NetworkResidualsFields_from_def build_network_residuals_def
        build_returns)
    (auto simp: carried_NetworkResiduals_def NetworkResidualsFields_from_def build_network_residuals_def
      and_then_eq_Inr split: if_splits dest!: build_sound)

lemmas nrs_build_returns [build_returns] = nrs.returns nrs.list_returns nrs.option_returns
lemmas nrs_build_sound [build_sound] = nrs.sound nrs.list_sound nrs.option_sound

section \<open>Physical reference station\<close>

record PhysicalReferenceStationFields =
  prsf_message_number :: i64
  prsf_non_physical_station_id :: i64
  prsf_physical_station_id :: i64
  prsf_itrf_realization_year :: i64
  prsf_ecef_x :: i64
  prsf_ecef_y :: i64
  prsf_ecef_z :: i64
  prsf_trailing_bits :: "bool list"

definition enc_PhysicalReferenceStationFields :: "PhysicalReferenceStationFields \<Rightarrow> nterm" where
  "enc_PhysicalReferenceStationFields f = nif_map
     [(''message_number'', enc_i64 (prsf_message_number f)),
      (''non_physical_station_id'', enc_i64 (prsf_non_physical_station_id f)),
      (''physical_station_id'', enc_i64 (prsf_physical_station_id f)),
      (''itrf_realization_year'', enc_i64 (prsf_itrf_realization_year f)),
      (''ecef_x'', enc_i64 (prsf_ecef_x f)), (''ecef_y'', enc_i64 (prsf_ecef_y f)),
      (''ecef_z'', enc_i64 (prsf_ecef_z f)),
      (''trailing_bits'', enc_list enc_bool (prsf_trailing_bits f))]"

definition dec_PhysicalReferenceStationFields :: "nterm \<Rightarrow> PhysicalReferenceStationFields NifResult" where
  "dec_PhysicalReferenceStationFields t =
     and_then (nif_field ''message_number'' dec_i64 t) (\<lambda>message_number.
     and_then (nif_field ''non_physical_station_id'' dec_i64 t) (\<lambda>non_physical_station_id.
     and_then (nif_field ''physical_station_id'' dec_i64 t) (\<lambda>physical_station_id.
     and_then (nif_field ''itrf_realization_year'' dec_i64 t) (\<lambda>itrf_realization_year.
     and_then (nif_field ''ecef_x'' dec_i64 t) (\<lambda>ecef_x.
     and_then (nif_field ''ecef_y'' dec_i64 t) (\<lambda>ecef_y.
     and_then (nif_field ''ecef_z'' dec_i64 t) (\<lambda>ecef_z.
     and_then (nif_field ''trailing_bits'' (dec_list dec_bool) t) (\<lambda>trailing_bits.
     Inr \<lparr>prsf_message_number = message_number, prsf_non_physical_station_id = non_physical_station_id,
           prsf_physical_station_id = physical_station_id,
           prsf_itrf_realization_year = itrf_realization_year, prsf_ecef_x = ecef_x,
           prsf_ecef_y = ecef_y, prsf_ecef_z = ecef_z, prsf_trailing_bits = trailing_bits\<rparr>))))))))"

interpretation prsf: nif_codec enc_PhysicalReferenceStationFields dec_PhysicalReferenceStationFields
  by unfold_locales (simp_all only: enc_PhysicalReferenceStationFields_def dec_PhysicalReferenceStationFields_def nif_lookup codec_simps, simp_all)

lemmas PhysicalReferenceStationFields_codec [codec_simps] =
  prsf.decodes prsf.option_decodes prsf.list_decodes

record PhysicalReferenceStation =
  prs_non_physical_station_id :: int
  prs_physical_station_id :: int
  prs_itrf_realization_year :: int
  prs_ecef_x :: i64
  prs_ecef_y :: i64
  prs_ecef_z :: i64
  prs_trailing_bits :: "bool list"

definition carried_PhysicalReferenceStation :: "layout \<Rightarrow> PhysicalReferenceStation \<Rightarrow> bool" where
  "carried_PhysicalReferenceStation T m \<longleftrightarrow>
     in_ty (prs_non_physical_station_id_ty T) (prs_non_physical_station_id m) \<and>
     in_ty (prs_physical_station_id_ty T) (prs_physical_station_id m) \<and>
     in_ty (prs_itrf_realization_year_ty T) (prs_itrf_realization_year m)"

definition PhysicalReferenceStationFields_from :: "PhysicalReferenceStation \<Rightarrow> PhysicalReferenceStationFields" where
  "PhysicalReferenceStationFields_from m =
     \<lparr>prsf_message_number = 1032, prsf_non_physical_station_id = as_i64 (prs_non_physical_station_id m),
      prsf_physical_station_id = as_i64 (prs_physical_station_id m),
      prsf_itrf_realization_year = as_i64 (prs_itrf_realization_year m), prsf_ecef_x = prs_ecef_x m,
      prsf_ecef_y = prs_ecef_y m, prsf_ecef_z = prs_ecef_z m, prsf_trailing_bits = prs_trailing_bits m\<rparr>"

definition build_physical_reference_station :: "layout \<Rightarrow> PhysicalReferenceStationFields \<Rightarrow> PhysicalReferenceStation NifResult" where
  "build_physical_reference_station T f =
     (if prsf_message_number f \<noteq> 1032 then Inl
       (error_text ''physical-reference-station message number must be 1032'') else
     and_then (checked_rtcm_integer (prs_non_physical_station_id_ty T) ''non-physical station id''
       (prsf_non_physical_station_id f)) (\<lambda>non_physical_station_id.
     and_then (checked_rtcm_integer (prs_physical_station_id_ty T) ''physical station id''
       (prsf_physical_station_id f)) (\<lambda>physical_station_id.
     and_then (checked_rtcm_integer (prs_itrf_realization_year_ty T) ''ITRF realization year''
       (prsf_itrf_realization_year f)) (\<lambda>itrf_realization_year.
     Inr \<lparr>prs_non_physical_station_id = non_physical_station_id,
           prs_physical_station_id = physical_station_id,
           prs_itrf_realization_year = itrf_realization_year, prs_ecef_x = prsf_ecef_x f,
           prs_ecef_y = prsf_ecef_y f, prs_ecef_z = prsf_ecef_z f,
           prs_trailing_bits = prsf_trailing_bits f\<rparr>))))"

interpretation prs: checked_build "layout_laws T"
  "carried_PhysicalReferenceStation T" PhysicalReferenceStationFields_from "build_physical_reference_station T" for T
  by (unfold_locales,
      simp add: carried_PhysicalReferenceStation_def PhysicalReferenceStationFields_from_def build_physical_reference_station_def
        build_returns)
    (auto simp: carried_PhysicalReferenceStation_def PhysicalReferenceStationFields_from_def build_physical_reference_station_def
      and_then_eq_Inr split: if_splits dest!: build_sound)

lemmas prs_build_returns [build_returns] = prs.returns prs.list_returns prs.option_returns
lemmas prs_build_sound [build_sound] = prs.sound prs.list_sound prs.option_sound

section \<open>FKP gradients\<close>

record FkpGradientRecordFields =
  fgf_satellite_id :: i64
  fgf_iod :: i64
  fgf_geometric_north :: i64
  fgf_geometric_east :: i64
  fgf_ionospheric_north :: i64
  fgf_ionospheric_east :: i64

definition enc_FkpGradientRecordFields :: "FkpGradientRecordFields \<Rightarrow> nterm" where
  "enc_FkpGradientRecordFields f = nif_map
     [(''satellite_id'', enc_i64 (fgf_satellite_id f)), (''iod'', enc_i64 (fgf_iod f)),
      (''geometric_north'', enc_i64 (fgf_geometric_north f)),
      (''geometric_east'', enc_i64 (fgf_geometric_east f)),
      (''ionospheric_north'', enc_i64 (fgf_ionospheric_north f)),
      (''ionospheric_east'', enc_i64 (fgf_ionospheric_east f))]"

definition dec_FkpGradientRecordFields :: "nterm \<Rightarrow> FkpGradientRecordFields NifResult" where
  "dec_FkpGradientRecordFields t =
     and_then (nif_field ''satellite_id'' dec_i64 t) (\<lambda>satellite_id.
     and_then (nif_field ''iod'' dec_i64 t) (\<lambda>iod.
     and_then (nif_field ''geometric_north'' dec_i64 t) (\<lambda>geometric_north.
     and_then (nif_field ''geometric_east'' dec_i64 t) (\<lambda>geometric_east.
     and_then (nif_field ''ionospheric_north'' dec_i64 t) (\<lambda>ionospheric_north.
     and_then (nif_field ''ionospheric_east'' dec_i64 t) (\<lambda>ionospheric_east.
     Inr \<lparr>fgf_satellite_id = satellite_id, fgf_iod = iod, fgf_geometric_north = geometric_north,
           fgf_geometric_east = geometric_east, fgf_ionospheric_north = ionospheric_north,
           fgf_ionospheric_east = ionospheric_east\<rparr>))))))"

interpretation fgf: nif_codec enc_FkpGradientRecordFields dec_FkpGradientRecordFields
  by unfold_locales (simp_all only: enc_FkpGradientRecordFields_def dec_FkpGradientRecordFields_def nif_lookup codec_simps, simp_all)

lemmas FkpGradientRecordFields_codec [codec_simps] =
  fgf.decodes fgf.option_decodes fgf.list_decodes

record FkpGradient =
  fg_satellite_id :: int
  fg_iod :: int
  fg_geometric_north :: int
  fg_geometric_east :: int
  fg_ionospheric_north :: int
  fg_ionospheric_east :: int

definition carried_FkpGradient :: "layout \<Rightarrow> FkpGradient \<Rightarrow> bool" where
  "carried_FkpGradient T m \<longleftrightarrow>
     in_ty (fg_satellite_id_ty T) (fg_satellite_id m) \<and> in_ty (fg_iod_ty T) (fg_iod m) \<and>
     in_ty (fg_geometric_north_ty T) (fg_geometric_north m) \<and>
     in_ty (fg_geometric_east_ty T) (fg_geometric_east m) \<and>
     in_ty (fg_ionospheric_north_ty T) (fg_ionospheric_north m) \<and>
     in_ty (fg_ionospheric_east_ty T) (fg_ionospheric_east m)"

definition FkpGradientRecordFields_from :: "FkpGradient \<Rightarrow> FkpGradientRecordFields" where
  "FkpGradientRecordFields_from m =
     \<lparr>fgf_satellite_id = as_i64 (fg_satellite_id m), fgf_iod = as_i64 (fg_iod m),
      fgf_geometric_north = as_i64 (fg_geometric_north m),
      fgf_geometric_east = as_i64 (fg_geometric_east m),
      fgf_ionospheric_north = as_i64 (fg_ionospheric_north m),
      fgf_ionospheric_east = as_i64 (fg_ionospheric_east m)\<rparr>"

definition build_fkp_gradient :: "layout \<Rightarrow> FkpGradientRecordFields \<Rightarrow> FkpGradient NifResult" where
  "build_fkp_gradient T f =
     and_then (checked_rtcm_integer (fg_satellite_id_ty T) ''satellite id''
       (fgf_satellite_id f)) (\<lambda>satellite_id.
     and_then (checked_rtcm_integer (fg_iod_ty T) ''issue of data'' (fgf_iod f)) (\<lambda>iod.
     and_then (checked_rtcm_integer (fg_geometric_north_ty T) ''geometric north''
       (fgf_geometric_north f)) (\<lambda>geometric_north.
     and_then (checked_rtcm_integer (fg_geometric_east_ty T) ''geometric east''
       (fgf_geometric_east f)) (\<lambda>geometric_east.
     and_then (checked_rtcm_integer (fg_ionospheric_north_ty T) ''ionospheric north''
       (fgf_ionospheric_north f)) (\<lambda>ionospheric_north.
     and_then (checked_rtcm_integer (fg_ionospheric_east_ty T) ''ionospheric east''
       (fgf_ionospheric_east f)) (\<lambda>ionospheric_east.
     Inr \<lparr>fg_satellite_id = satellite_id, fg_iod = iod, fg_geometric_north = geometric_north,
           fg_geometric_east = geometric_east, fg_ionospheric_north = ionospheric_north,
           fg_ionospheric_east = ionospheric_east\<rparr>))))))"

interpretation fg: checked_build "layout_laws T"
  "carried_FkpGradient T" FkpGradientRecordFields_from "build_fkp_gradient T" for T
  by (unfold_locales,
      simp add: carried_FkpGradient_def FkpGradientRecordFields_from_def build_fkp_gradient_def
        build_returns)
    (auto simp: carried_FkpGradient_def FkpGradientRecordFields_from_def build_fkp_gradient_def
      and_then_eq_Inr split: if_splits dest!: build_sound)

lemmas fg_build_returns [build_returns] = fg.returns fg.list_returns fg.option_returns
lemmas fg_build_sound [build_sound] = fg.sound fg.list_sound fg.option_sound

record FkpGradientsFields =
  fkpf_message_number :: i64
  fkpf_reference_station_id :: i64
  fkpf_epoch_time :: i64
  fkpf_satellite_count :: i64
  fkpf_satellites :: "FkpGradientRecordFields list"
  fkpf_trailing_bits :: "bool list"

definition enc_FkpGradientsFields :: "FkpGradientsFields \<Rightarrow> nterm" where
  "enc_FkpGradientsFields f = nif_map
     [(''message_number'', enc_i64 (fkpf_message_number f)),
      (''reference_station_id'', enc_i64 (fkpf_reference_station_id f)),
      (''epoch_time'', enc_i64 (fkpf_epoch_time f)),
      (''satellite_count'', enc_i64 (fkpf_satellite_count f)),
      (''satellites'', enc_list enc_FkpGradientRecordFields (fkpf_satellites f)),
      (''trailing_bits'', enc_list enc_bool (fkpf_trailing_bits f))]"

definition dec_FkpGradientsFields :: "nterm \<Rightarrow> FkpGradientsFields NifResult" where
  "dec_FkpGradientsFields t =
     and_then (nif_field ''message_number'' dec_i64 t) (\<lambda>message_number.
     and_then (nif_field ''reference_station_id'' dec_i64 t) (\<lambda>reference_station_id.
     and_then (nif_field ''epoch_time'' dec_i64 t) (\<lambda>epoch_time.
     and_then (nif_field ''satellite_count'' dec_i64 t) (\<lambda>satellite_count.
     and_then (nif_field ''satellites'' (dec_list dec_FkpGradientRecordFields) t) (\<lambda>satellites.
     and_then (nif_field ''trailing_bits'' (dec_list dec_bool) t) (\<lambda>trailing_bits.
     Inr \<lparr>fkpf_message_number = message_number, fkpf_reference_station_id = reference_station_id,
           fkpf_epoch_time = epoch_time, fkpf_satellite_count = satellite_count,
           fkpf_satellites = satellites, fkpf_trailing_bits = trailing_bits\<rparr>))))))"

interpretation fkpf: nif_codec enc_FkpGradientsFields dec_FkpGradientsFields
  by unfold_locales (simp_all only: enc_FkpGradientsFields_def dec_FkpGradientsFields_def nif_lookup codec_simps, simp_all)

lemmas FkpGradientsFields_codec [codec_simps] =
  fkpf.decodes fkpf.option_decodes fkpf.list_decodes

record FkpGradients =
  fkp_message_number :: int
  fkp_reference_station_id :: int
  fkp_epoch_time :: int
  fkp_satellite_count :: int
  fkp_satellites :: "FkpGradient list"
  fkp_trailing_bits :: "bool list"

definition carried_FkpGradients :: "layout \<Rightarrow> FkpGradients \<Rightarrow> bool" where
  "carried_FkpGradients T m \<longleftrightarrow>
     in_ty (fkp_message_number_ty T) (fkp_message_number m) \<and>
     in_ty (fkp_reference_station_id_ty T) (fkp_reference_station_id m) \<and>
     in_ty (fkp_epoch_time_ty T) (fkp_epoch_time m) \<and>
     in_ty (fkp_satellite_count_ty T) (fkp_satellite_count m) \<and>
     list_all (carried_FkpGradient T) (fkp_satellites m)"

definition FkpGradientsFields_from :: "FkpGradients \<Rightarrow> FkpGradientsFields" where
  "FkpGradientsFields_from m =
     \<lparr>fkpf_message_number = as_i64 (fkp_message_number m),
      fkpf_reference_station_id = as_i64 (fkp_reference_station_id m),
      fkpf_epoch_time = as_i64 (fkp_epoch_time m),
      fkpf_satellite_count = as_i64 (fkp_satellite_count m),
      fkpf_satellites = map FkpGradientRecordFields_from (fkp_satellites m),
      fkpf_trailing_bits = fkp_trailing_bits m\<rparr>"

definition build_fkp_gradients :: "layout \<Rightarrow> FkpGradientsFields \<Rightarrow> FkpGradients NifResult" where
  "build_fkp_gradients T f =
     and_then (checked_rtcm_integer (fkp_message_number_ty T) ''message number''
       (fkpf_message_number f)) (\<lambda>message_number.
     and_then (checked_rtcm_integer (fkp_reference_station_id_ty T) ''reference station id''
       (fkpf_reference_station_id f)) (\<lambda>reference_station_id.
     and_then (checked_rtcm_integer (fkp_epoch_time_ty T) ''epoch time''
       (fkpf_epoch_time f)) (\<lambda>epoch_time.
     and_then (checked_rtcm_integer (fkp_satellite_count_ty T) ''satellite count''
       (fkpf_satellite_count f)) (\<lambda>satellite_count.
     and_then (collect_results (map (build_fkp_gradient T) (fkpf_satellites f))) (\<lambda>satellites.
     Inr \<lparr>fkp_message_number = message_number, fkp_reference_station_id = reference_station_id,
           fkp_epoch_time = epoch_time, fkp_satellite_count = satellite_count,
           fkp_satellites = satellites, fkp_trailing_bits = fkpf_trailing_bits f\<rparr>)))))"

interpretation fkp: checked_build "layout_laws T"
  "carried_FkpGradients T" FkpGradientsFields_from "build_fkp_gradients T" for T
  by (unfold_locales,
      simp add: carried_FkpGradients_def FkpGradientsFields_from_def build_fkp_gradients_def
        build_returns)
    (auto simp: carried_FkpGradients_def FkpGradientsFields_from_def build_fkp_gradients_def
      and_then_eq_Inr split: if_splits dest!: build_sound)

lemmas fkp_build_returns [build_returns] = fkp.returns fkp.list_returns fkp.option_returns
lemmas fkp_build_sound [build_sound] = fkp.sound fkp.list_sound fkp.option_sound

section \<open>VTEC\<close>

definition vtec_field :: "string \<Rightarrow> int_ty \<Rightarrow> i64 \<Rightarrow> int NifResult" where
  "vtec_field name ty v =
     checked (error_text (''invalid VTEC field '' @ name @ '': '' @ show_int (sint v) @
       '' does not fit its raw width'')) ty v"

interpretation vtec_field: checked_build "into_i64 ty" "in_ty ty" as_i64 "vtec_field name ty" for name ty
  by unfold_locales (auto simp: vtec_field_def checked.returns dest: checked_sound)

lemmas vtec_field_returns [build_returns] =
  vtec_field.returns vtec_field.option_returns vtec_field.list_returns
lemmas vtec_field_sound [build_sound] = vtec_field.sound vtec_field.option_sound vtec_field.list_sound

record SsrVtecLayerFields =
  vlf_height :: i64
  vlf_degree :: i64
  vlf_order :: i64
  vlf_cosine :: "i64 list"
  vlf_sine :: "i64 list"

definition enc_SsrVtecLayerFields :: "SsrVtecLayerFields \<Rightarrow> nterm" where
  "enc_SsrVtecLayerFields f = nif_map
     [(''height'', enc_i64 (vlf_height f)), (''degree'', enc_i64 (vlf_degree f)),
      (''order'', enc_i64 (vlf_order f)), (''cosine'', enc_list enc_i64 (vlf_cosine f)),
      (''sine'', enc_list enc_i64 (vlf_sine f))]"

definition dec_SsrVtecLayerFields :: "nterm \<Rightarrow> SsrVtecLayerFields NifResult" where
  "dec_SsrVtecLayerFields t =
     and_then (nif_field ''height'' dec_i64 t) (\<lambda>height.
     and_then (nif_field ''degree'' dec_i64 t) (\<lambda>degree.
     and_then (nif_field ''order'' dec_i64 t) (\<lambda>order.
     and_then (nif_field ''cosine'' (dec_list dec_i64) t) (\<lambda>cosine.
     and_then (nif_field ''sine'' (dec_list dec_i64) t) (\<lambda>sine.
     Inr \<lparr>vlf_height = height, vlf_degree = degree, vlf_order = order, vlf_cosine = cosine,
           vlf_sine = sine\<rparr>)))))"

interpretation vlf: nif_codec enc_SsrVtecLayerFields dec_SsrVtecLayerFields
  by unfold_locales (simp_all only: enc_SsrVtecLayerFields_def dec_SsrVtecLayerFields_def nif_lookup codec_simps, simp_all)

lemmas SsrVtecLayerFields_codec [codec_simps] =
  vlf.decodes vlf.option_decodes vlf.list_decodes

record SsrVtecLayer =
  vl_height :: int
  vl_degree :: int
  vl_order :: int
  vl_cosine :: "int list"
  vl_sine :: "int list"

definition carried_SsrVtecLayer :: "layout \<Rightarrow> SsrVtecLayer \<Rightarrow> bool" where
  "carried_SsrVtecLayer T m \<longleftrightarrow>
     in_ty (vl_height_ty T) (vl_height m) \<and> in_ty (vl_degree_ty T) (vl_degree m) \<and>
     in_ty (vl_order_ty T) (vl_order m) \<and> list_all (in_ty (vl_cosine_ty T)) (vl_cosine m) \<and>
     list_all (in_ty (vl_sine_ty T)) (vl_sine m)"

definition SsrVtecLayerFields_from :: "SsrVtecLayer \<Rightarrow> SsrVtecLayerFields" where
  "SsrVtecLayerFields_from m =
     \<lparr>vlf_height = as_i64 (vl_height m), vlf_degree = as_i64 (vl_degree m),
      vlf_order = as_i64 (vl_order m), vlf_cosine = map as_i64 (vl_cosine m),
      vlf_sine = map as_i64 (vl_sine m)\<rparr>"

definition build_ssr_vtec_layer :: "layout \<Rightarrow> SsrVtecLayerFields \<Rightarrow> SsrVtecLayer NifResult" where
  "build_ssr_vtec_layer T f =
     and_then (vtec_field ''height'' (vl_height_ty T) (vlf_height f)) (\<lambda>height.
     and_then (vtec_field ''degree'' (vl_degree_ty T) (vlf_degree f)) (\<lambda>degree.
     and_then (vtec_field ''order'' (vl_order_ty T) (vlf_order f)) (\<lambda>order.
     and_then (collect_results (map (vtec_field ''cosine'' (vl_cosine_ty T))
       (vlf_cosine f))) (\<lambda>cosine.
     and_then (collect_results (map (vtec_field ''sine'' (vl_sine_ty T)) (vlf_sine f))) (\<lambda>sine.
     Inr \<lparr>vl_height = height, vl_degree = degree, vl_order = order, vl_cosine = cosine, vl_sine = sine\<rparr>)))))"

interpretation vl: checked_build "layout_laws T"
  "carried_SsrVtecLayer T" SsrVtecLayerFields_from "build_ssr_vtec_layer T" for T
  by (unfold_locales,
      simp add: carried_SsrVtecLayer_def SsrVtecLayerFields_from_def build_ssr_vtec_layer_def
        build_returns)
    (auto simp: carried_SsrVtecLayer_def SsrVtecLayerFields_from_def build_ssr_vtec_layer_def
      and_then_eq_Inr split: if_splits dest!: build_sound)

lemmas vl_build_returns [build_returns] = vl.returns vl.list_returns vl.option_returns
lemmas vl_build_sound [build_sound] = vl.sound vl.list_sound vl.option_sound

record SsrVtecFields =
  vtf_message_number :: i64
  vtf_igs_ssr_version :: "i64 option"
  vtf_epoch_time_s :: i64
  vtf_update_interval :: i64
  vtf_multiple_message :: bool
  vtf_iod_ssr :: i64
  vtf_provider_id :: i64
  vtf_solution_id :: i64
  vtf_quality_indicator :: i64
  vtf_layers :: "SsrVtecLayerFields list"
  vtf_trailing_bits :: "bool list"

definition enc_SsrVtecFields :: "SsrVtecFields \<Rightarrow> nterm" where
  "enc_SsrVtecFields f = nif_map
     [(''message_number'', enc_i64 (vtf_message_number f)),
      (''igs_ssr_version'', enc_option enc_i64 (vtf_igs_ssr_version f)),
      (''epoch_time_s'', enc_i64 (vtf_epoch_time_s f)),
      (''update_interval'', enc_i64 (vtf_update_interval f)),
      (''multiple_message'', enc_bool (vtf_multiple_message f)), (''iod_ssr'', enc_i64 (vtf_iod_ssr f)),
      (''provider_id'', enc_i64 (vtf_provider_id f)), (''solution_id'', enc_i64 (vtf_solution_id f)),
      (''quality_indicator'', enc_i64 (vtf_quality_indicator f)),
      (''layers'', enc_list enc_SsrVtecLayerFields (vtf_layers f)),
      (''trailing_bits'', enc_list enc_bool (vtf_trailing_bits f))]"

definition dec_SsrVtecFields :: "nterm \<Rightarrow> SsrVtecFields NifResult" where
  "dec_SsrVtecFields t =
     and_then (nif_field ''message_number'' dec_i64 t) (\<lambda>message_number.
     and_then (nif_field ''igs_ssr_version'' (dec_option dec_i64) t) (\<lambda>igs_ssr_version.
     and_then (nif_field ''epoch_time_s'' dec_i64 t) (\<lambda>epoch_time_s.
     and_then (nif_field ''update_interval'' dec_i64 t) (\<lambda>update_interval.
     and_then (nif_field ''multiple_message'' dec_bool t) (\<lambda>multiple_message.
     and_then (nif_field ''iod_ssr'' dec_i64 t) (\<lambda>iod_ssr.
     and_then (nif_field ''provider_id'' dec_i64 t) (\<lambda>provider_id.
     and_then (nif_field ''solution_id'' dec_i64 t) (\<lambda>solution_id.
     and_then (nif_field ''quality_indicator'' dec_i64 t) (\<lambda>quality_indicator.
     and_then (nif_field ''layers'' (dec_list dec_SsrVtecLayerFields) t) (\<lambda>layers.
     and_then (nif_field ''trailing_bits'' (dec_list dec_bool) t) (\<lambda>trailing_bits.
     Inr \<lparr>vtf_message_number = message_number, vtf_igs_ssr_version = igs_ssr_version,
           vtf_epoch_time_s = epoch_time_s, vtf_update_interval = update_interval,
           vtf_multiple_message = multiple_message, vtf_iod_ssr = iod_ssr,
           vtf_provider_id = provider_id, vtf_solution_id = solution_id,
           vtf_quality_indicator = quality_indicator, vtf_layers = layers,
           vtf_trailing_bits = trailing_bits\<rparr>)))))))))))"

interpretation vtf: nif_codec enc_SsrVtecFields dec_SsrVtecFields
  by unfold_locales (simp_all only: enc_SsrVtecFields_def dec_SsrVtecFields_def nif_lookup codec_simps, simp_all)

lemmas SsrVtecFields_codec [codec_simps] =
  vtf.decodes vtf.option_decodes vtf.list_decodes

record SsrVtecMessage =
  vt_message_number :: int
  vt_igs_ssr_version :: "int option"
  vt_epoch_time_s :: int
  vt_update_interval :: int
  vt_multiple_message :: bool
  vt_iod_ssr :: int
  vt_provider_id :: int
  vt_solution_id :: int
  vt_quality_indicator :: int
  vt_layers :: "SsrVtecLayer list"
  vt_trailing_bits :: "bool list"

definition carried_SsrVtecMessage :: "layout \<Rightarrow> SsrVtecMessage \<Rightarrow> bool" where
  "carried_SsrVtecMessage T m \<longleftrightarrow>
     in_ty (vt_message_number_ty T) (vt_message_number m) \<and>
     pred_option (in_ty (vt_igs_ssr_version_ty T)) (vt_igs_ssr_version m) \<and>
     in_ty (vt_epoch_time_s_ty T) (vt_epoch_time_s m) \<and>
     in_ty (vt_update_interval_ty T) (vt_update_interval m) \<and>
     in_ty (vt_iod_ssr_ty T) (vt_iod_ssr m) \<and> in_ty (vt_provider_id_ty T) (vt_provider_id m) \<and>
     in_ty (vt_solution_id_ty T) (vt_solution_id m) \<and>
     in_ty (vt_quality_indicator_ty T) (vt_quality_indicator m) \<and>
     list_all (carried_SsrVtecLayer T) (vt_layers m)"

definition SsrVtecFields_from :: "SsrVtecMessage \<Rightarrow> SsrVtecFields" where
  "SsrVtecFields_from m =
     \<lparr>vtf_message_number = as_i64 (vt_message_number m),
      vtf_igs_ssr_version = map_option as_i64 (vt_igs_ssr_version m),
      vtf_epoch_time_s = as_i64 (vt_epoch_time_s m),
      vtf_update_interval = as_i64 (vt_update_interval m), vtf_multiple_message = vt_multiple_message m,
      vtf_iod_ssr = as_i64 (vt_iod_ssr m), vtf_provider_id = as_i64 (vt_provider_id m),
      vtf_solution_id = as_i64 (vt_solution_id m),
      vtf_quality_indicator = as_i64 (vt_quality_indicator m),
      vtf_layers = map SsrVtecLayerFields_from (vt_layers m), vtf_trailing_bits = vt_trailing_bits m\<rparr>"

definition build_ssr_vtec :: "layout \<Rightarrow> SsrVtecFields \<Rightarrow> SsrVtecMessage NifResult" where
  "build_ssr_vtec T f =
     and_then (collect_results (map (build_ssr_vtec_layer T) (vtf_layers f))) (\<lambda>layers.
     and_then (vtec_field ''message_number'' (vt_message_number_ty T)
       (vtf_message_number f)) (\<lambda>message_number.
     and_then (transpose_option (map_option (vtec_field ''igs_ssr_version'' (vt_igs_ssr_version_ty T))
       (vtf_igs_ssr_version f))) (\<lambda>igs_ssr_version.
     and_then (vtec_field ''epoch_time_s'' (vt_epoch_time_s_ty T)
       (vtf_epoch_time_s f)) (\<lambda>epoch_time_s.
     and_then (vtec_field ''update_interval'' (vt_update_interval_ty T)
       (vtf_update_interval f)) (\<lambda>update_interval.
     and_then (vtec_field ''iod_ssr'' (vt_iod_ssr_ty T) (vtf_iod_ssr f)) (\<lambda>iod_ssr.
     and_then (vtec_field ''provider_id'' (vt_provider_id_ty T)
       (vtf_provider_id f)) (\<lambda>provider_id.
     and_then (vtec_field ''solution_id'' (vt_solution_id_ty T)
       (vtf_solution_id f)) (\<lambda>solution_id.
     and_then (vtec_field ''quality_indicator'' (vt_quality_indicator_ty T)
       (vtf_quality_indicator f)) (\<lambda>quality_indicator.
     Inr \<lparr>vt_message_number = message_number, vt_igs_ssr_version = igs_ssr_version,
           vt_epoch_time_s = epoch_time_s, vt_update_interval = update_interval,
           vt_multiple_message = vtf_multiple_message f, vt_iod_ssr = iod_ssr,
           vt_provider_id = provider_id, vt_solution_id = solution_id,
           vt_quality_indicator = quality_indicator, vt_layers = layers,
           vt_trailing_bits = vtf_trailing_bits f\<rparr>)))))))))"

interpretation vt: checked_build "layout_laws T"
  "carried_SsrVtecMessage T" SsrVtecFields_from "build_ssr_vtec T" for T
  by (unfold_locales,
      simp add: carried_SsrVtecMessage_def SsrVtecFields_from_def build_ssr_vtec_def
        build_returns)
    (auto simp: carried_SsrVtecMessage_def SsrVtecFields_from_def build_ssr_vtec_def
      and_then_eq_Inr split: if_splits dest!: build_sound)

lemmas vt_build_returns [build_returns] = vt.returns vt.list_returns vt.option_returns
lemmas vt_build_sound [build_sound] = vt.sound vt.list_sound vt.option_sound

section \<open>Projection\<close>

text \<open>The parameters in the order of the source's fields. The message number of a projection is a
  method of the core, here the argument \<open>number\<close>.\<close>

datatype ProjectionParameters =
    NaturalOrigin (no_latitude: i64) (no_longitude: i64) (no_add_scale: int) (no_false_easting: int)
      (no_false_northing: i64)
  | LambertConicConformal (lc_latitude: i64) (lc_longitude: i64) (lc_standard_parallel_1: i64)
      (lc_standard_parallel_2: i64) (lc_false_easting: int) (lc_false_northing: i64)
  | ObliqueMercator (om_rectification: bool) (om_latitude: i64) (om_longitude: i64) (om_azimuth: int)
      (om_rectified_to_skew: int) (om_add_scale: int) (om_easting: int) (om_northing: i64)

record Projection =
  prj_system_id :: int
  prj_projection_type :: int
  prj_parameters :: ProjectionParameters
  prj_trailing_bits :: "bool list"

text \<open>Unsigned 64-bit values from \<open>2 ^ 63\<close> on leave as negative numbers, which the way back refuses:
  they are not carried.\<close>

fun carried_ProjectionParameters :: "layout \<Rightarrow> ProjectionParameters \<Rightarrow> bool" where
  "carried_ProjectionParameters T (NaturalOrigin _ _ add_scale false_easting _) \<longleftrightarrow>
     in_ty (pp_add_scale_ty T) add_scale \<and> in_ty (pp_false_easting_ty T) false_easting \<and> in_ty I64 false_easting"
| "carried_ProjectionParameters T (LambertConicConformal _ _ _ _ false_easting _) \<longleftrightarrow>
     in_ty (pp_false_easting_ty T) false_easting \<and> in_ty I64 false_easting"
| "carried_ProjectionParameters T (ObliqueMercator _ _ _ azimuth rectified_to_skew add_scale easting _) \<longleftrightarrow>
     in_ty (pp_azimuth_ty T) azimuth \<and> in_ty I64 azimuth \<and>
     in_ty (pp_rectified_to_skew_ty T) rectified_to_skew \<and> in_ty (pp_add_scale_ty T) add_scale \<and>
     in_ty (pp_easting_ty T) easting \<and> in_ty I64 easting"

definition carried_Projection :: "layout \<Rightarrow> Projection \<Rightarrow> bool" where
  "carried_Projection T m \<longleftrightarrow>
     in_ty (prj_system_id_ty T) (prj_system_id m) \<and> in_ty (prj_projection_type_ty T) (prj_projection_type m) \<and>
     carried_ProjectionParameters T (prj_parameters m)"

record ProjectionFields =
  prjf_message_number :: i64
  prjf_system_id :: i64
  prjf_projection_type :: i64
  prjf_parameter_kind :: string
  prjf_latitude :: "i64 option"
  prjf_longitude :: "i64 option"
  prjf_add_scale :: "i64 option"
  prjf_false_easting :: "i64 option"
  prjf_false_northing :: "i64 option"
  prjf_standard_parallel_1 :: "i64 option"
  prjf_standard_parallel_2 :: "i64 option"
  prjf_rectification :: "bool option"
  prjf_azimuth :: "i64 option"
  prjf_rectified_to_skew :: "i64 option"
  prjf_easting :: "i64 option"
  prjf_northing :: "i64 option"
  prjf_trailing_bits :: "bool list"

definition enc_ProjectionFields :: "ProjectionFields \<Rightarrow> nterm" where
  "enc_ProjectionFields f = nif_map
     [(''message_number'', enc_i64 (prjf_message_number f)),
      (''system_id'', enc_i64 (prjf_system_id f)),
      (''projection_type'', enc_i64 (prjf_projection_type f)),
      (''parameter_kind'', Utf8 (prjf_parameter_kind f)),
      (''latitude'', enc_option enc_i64 (prjf_latitude f)),
      (''longitude'', enc_option enc_i64 (prjf_longitude f)),
      (''add_scale'', enc_option enc_i64 (prjf_add_scale f)),
      (''false_easting'', enc_option enc_i64 (prjf_false_easting f)),
      (''false_northing'', enc_option enc_i64 (prjf_false_northing f)),
      (''standard_parallel_1'', enc_option enc_i64 (prjf_standard_parallel_1 f)),
      (''standard_parallel_2'', enc_option enc_i64 (prjf_standard_parallel_2 f)),
      (''rectification'', enc_option enc_bool (prjf_rectification f)),
      (''azimuth'', enc_option enc_i64 (prjf_azimuth f)),
      (''rectified_to_skew'', enc_option enc_i64 (prjf_rectified_to_skew f)),
      (''easting'', enc_option enc_i64 (prjf_easting f)),
      (''northing'', enc_option enc_i64 (prjf_northing f)),
      (''trailing_bits'', enc_list enc_bool (prjf_trailing_bits f))]"

definition dec_ProjectionFields :: "nterm \<Rightarrow> ProjectionFields NifResult" where
  "dec_ProjectionFields t =
     and_then (nif_field ''message_number'' dec_i64 t) (\<lambda>message_number.
     and_then (nif_field ''system_id'' dec_i64 t) (\<lambda>system_id.
     and_then (nif_field ''projection_type'' dec_i64 t) (\<lambda>projection_type.
     and_then (nif_field ''parameter_kind'' dec_string t) (\<lambda>parameter_kind.
     and_then (nif_field ''latitude'' (dec_option dec_i64) t) (\<lambda>latitude.
     and_then (nif_field ''longitude'' (dec_option dec_i64) t) (\<lambda>longitude.
     and_then (nif_field ''add_scale'' (dec_option dec_i64) t) (\<lambda>add_scale.
     and_then (nif_field ''false_easting'' (dec_option dec_i64) t) (\<lambda>false_easting.
     and_then (nif_field ''false_northing'' (dec_option dec_i64) t) (\<lambda>false_northing.
     and_then (nif_field ''standard_parallel_1'' (dec_option dec_i64) t) (\<lambda>standard_parallel_1.
     and_then (nif_field ''standard_parallel_2'' (dec_option dec_i64) t) (\<lambda>standard_parallel_2.
     and_then (nif_field ''rectification'' (dec_option dec_bool) t) (\<lambda>rectification.
     and_then (nif_field ''azimuth'' (dec_option dec_i64) t) (\<lambda>azimuth.
     and_then (nif_field ''rectified_to_skew'' (dec_option dec_i64) t) (\<lambda>rectified_to_skew.
     and_then (nif_field ''easting'' (dec_option dec_i64) t) (\<lambda>easting.
     and_then (nif_field ''northing'' (dec_option dec_i64) t) (\<lambda>northing.
     and_then (nif_field ''trailing_bits'' (dec_list dec_bool) t) (\<lambda>trailing_bits.
     Inr \<lparr>prjf_message_number = message_number, prjf_system_id = system_id,
           prjf_projection_type = projection_type, prjf_parameter_kind = parameter_kind,
           prjf_latitude = latitude, prjf_longitude = longitude, prjf_add_scale = add_scale,
           prjf_false_easting = false_easting, prjf_false_northing = false_northing,
           prjf_standard_parallel_1 = standard_parallel_1,
           prjf_standard_parallel_2 = standard_parallel_2, prjf_rectification = rectification,
           prjf_azimuth = azimuth, prjf_rectified_to_skew = rectified_to_skew, prjf_easting = easting,
           prjf_northing = northing, prjf_trailing_bits = trailing_bits\<rparr>)))))))))))))))))"

interpretation prjf: nif_codec enc_ProjectionFields dec_ProjectionFields
  by unfold_locales (simp_all only: enc_ProjectionFields_def dec_ProjectionFields_def nif_lookup codec_simps, simp_all)

lemmas ProjectionFields_codec [codec_simps] =
  prjf.decodes prjf.option_decodes prjf.list_decodes

definition ProjectionFields_from :: "(Projection \<Rightarrow> int) \<Rightarrow> Projection \<Rightarrow> ProjectionFields" where
  "ProjectionFields_from number m =
     (let fields =
        \<lparr>prjf_message_number = as_i64 (number m), prjf_system_id = as_i64 (prj_system_id m),
         prjf_projection_type = as_i64 (prj_projection_type m), prjf_parameter_kind = [],
         prjf_latitude = None, prjf_longitude = None, prjf_add_scale = None, prjf_false_easting = None,
         prjf_false_northing = None, prjf_standard_parallel_1 = None, prjf_standard_parallel_2 = None,
         prjf_rectification = None, prjf_azimuth = None, prjf_rectified_to_skew = None,
         prjf_easting = None, prjf_northing = None, prjf_trailing_bits = prj_trailing_bits m\<rparr>
      in case prj_parameters m of
           NaturalOrigin latitude longitude add_scale false_easting false_northing \<Rightarrow>
             fields\<lparr>prjf_parameter_kind := ''natural_origin'', prjf_latitude := Some latitude,
               prjf_longitude := Some longitude, prjf_add_scale := Some (as_i64 add_scale),
               prjf_false_easting := Some (as_i64 false_easting),
               prjf_false_northing := Some false_northing\<rparr>
         | LambertConicConformal latitude longitude standard_parallel_1 standard_parallel_2
             false_easting false_northing \<Rightarrow>
             fields\<lparr>prjf_parameter_kind := ''lambert_conic_conformal'', prjf_latitude := Some latitude,
               prjf_longitude := Some longitude, prjf_standard_parallel_1 := Some standard_parallel_1,
               prjf_standard_parallel_2 := Some standard_parallel_2,
               prjf_false_easting := Some (as_i64 false_easting),
               prjf_false_northing := Some false_northing\<rparr>
         | ObliqueMercator rectification latitude longitude azimuth rectified_to_skew add_scale
             easting northing \<Rightarrow>
             fields\<lparr>prjf_parameter_kind := ''oblique_mercator'', prjf_rectification := Some rectification,
               prjf_latitude := Some latitude, prjf_longitude := Some longitude,
               prjf_azimuth := Some (as_i64 azimuth),
               prjf_rectified_to_skew := Some (as_i64 rectified_to_skew),
               prjf_add_scale := Some (as_i64 add_scale), prjf_easting := Some (as_i64 easting),
               prjf_northing := Some northing\<rparr>)"

definition required_projection_value :: "i64 option \<Rightarrow> string \<Rightarrow> i64 NifResult" where
  "required_projection_value value field =
     ok_or (error_text (''projection field '' @ field @ '' is required'')) value"

definition build_projection_parameters :: "layout \<Rightarrow> ProjectionFields \<Rightarrow> ProjectionParameters NifResult" where
  "build_projection_parameters T f =
     (if prjf_parameter_kind f = ''natural_origin'' then
        and_then (required_projection_value (prjf_latitude f) ''latitude'') (\<lambda>latitude.
        and_then (required_projection_value (prjf_longitude f) ''longitude'') (\<lambda>longitude.
        and_then (and_then (required_projection_value (prjf_add_scale f) ''add_scale'')
          (checked_rtcm_integer (pp_add_scale_ty T) ''add_scale'')) (\<lambda>add_scale.
        and_then (and_then (required_projection_value (prjf_false_easting f) ''false_easting'')
          (checked_rtcm_integer (pp_false_easting_ty T) ''false_easting'')) (\<lambda>false_easting.
        and_then (required_projection_value (prjf_false_northing f) ''false_northing'') (\<lambda>false_northing.
        Inr (NaturalOrigin latitude longitude add_scale false_easting false_northing))))))
      else if prjf_parameter_kind f = ''lambert_conic_conformal'' then
        and_then (required_projection_value (prjf_latitude f) ''latitude'') (\<lambda>latitude.
        and_then (required_projection_value (prjf_longitude f) ''longitude'') (\<lambda>longitude.
        and_then (required_projection_value (prjf_standard_parallel_1 f) ''standard_parallel_1'') (\<lambda>standard_parallel_1.
        and_then (required_projection_value (prjf_standard_parallel_2 f) ''standard_parallel_2'') (\<lambda>standard_parallel_2.
        and_then (and_then (required_projection_value (prjf_false_easting f) ''false_easting'')
          (checked_rtcm_integer (pp_false_easting_ty T) ''false_easting'')) (\<lambda>false_easting.
        and_then (required_projection_value (prjf_false_northing f) ''false_northing'') (\<lambda>false_northing.
        Inr (LambertConicConformal latitude longitude standard_parallel_1 standard_parallel_2
               false_easting false_northing)))))))
      else if prjf_parameter_kind f = ''oblique_mercator'' then
        and_then (ok_or (error_text ''projection field rectification is required'') (prjf_rectification f)) (\<lambda>rectification.
        and_then (required_projection_value (prjf_latitude f) ''latitude'') (\<lambda>latitude.
        and_then (required_projection_value (prjf_longitude f) ''longitude'') (\<lambda>longitude.
        and_then (and_then (required_projection_value (prjf_azimuth f) ''azimuth'')
          (checked_rtcm_integer (pp_azimuth_ty T) ''azimuth'')) (\<lambda>azimuth.
        and_then (and_then (required_projection_value (prjf_rectified_to_skew f) ''rectified_to_skew'')
          (checked_rtcm_integer (pp_rectified_to_skew_ty T) ''rectified_to_skew'')) (\<lambda>rectified_to_skew.
        and_then (and_then (required_projection_value (prjf_add_scale f) ''add_scale'')
          (checked_rtcm_integer (pp_add_scale_ty T) ''add_scale'')) (\<lambda>add_scale.
        and_then (and_then (required_projection_value (prjf_easting f) ''easting'')
          (checked_rtcm_integer (pp_easting_ty T) ''easting'')) (\<lambda>easting.
        and_then (required_projection_value (prjf_northing f) ''northing'') (\<lambda>northing.
        Inr (ObliqueMercator rectification latitude longitude azimuth rectified_to_skew add_scale
               easting northing)))))))))
      else Inl (error_text ''invalid projection parameter_kind''))"

definition build_projection :: "(Projection \<Rightarrow> int) \<Rightarrow> layout \<Rightarrow> ProjectionFields \<Rightarrow> Projection NifResult" where
  "build_projection number T f =
     and_then (build_projection_parameters T f) (\<lambda>parameters.
     and_then (checked_rtcm_integer (prj_system_id_ty T) ''system id'' (prjf_system_id f)) (\<lambda>system_id.
     and_then (checked_rtcm_integer (prj_projection_type_ty T) ''projection type'' (prjf_projection_type f)) (\<lambda>projection_type.
     let message = \<lparr>prj_system_id = system_id, prj_projection_type = projection_type,
                    prj_parameters = parameters, prj_trailing_bits = prjf_trailing_bits f\<rparr>
     in if as_i64 (number message) \<noteq> prjf_message_number f
        then Inl (error_text ''projection message number does not match parameter_kind'')
        else Inr message)))"

lemma required_projection_value_Some [simp]: "required_projection_value (Some v) field = Inr v"
  by (simp add: required_projection_value_def)

lemma build_projection_parameters_returns [build_returns]:
  "layout_laws T \<Longrightarrow> carried_ProjectionParameters T (prj_parameters m) \<Longrightarrow>
     build_projection_parameters T (ProjectionFields_from number m) = Inr (prj_parameters m)"
  by (cases "prj_parameters m")
    (simp_all add: build_projection_parameters_def ProjectionFields_from_def build_returns)

lemma ProjectionFields_from_common [simp]:
  "prjf_message_number (ProjectionFields_from number m) = as_i64 (number m)"
  "prjf_system_id (ProjectionFields_from number m) = as_i64 (prj_system_id m)"
  "prjf_projection_type (ProjectionFields_from number m) = as_i64 (prj_projection_type m)"
  "prjf_trailing_bits (ProjectionFields_from number m) = prj_trailing_bits m"
  by (cases "prj_parameters m"; simp add: ProjectionFields_from_def)+

lemma build_projection_returns:
  assumes "layout_laws T" "carried_Projection T m"
  shows "build_projection number T (ProjectionFields_from number m) = Inr m"
  using assms build_projection_parameters_returns [of T m number]
  by (cases m) (simp add: build_projection_def carried_Projection_def Let_def build_returns)

lemma build_projection_parameters_carried:
  "build_projection_parameters T f = Inr p \<Longrightarrow> carried_ProjectionParameters T p"
  by (auto simp: build_projection_parameters_def and_then_eq_Inr split: if_splits
      dest!: checked_rtcm_integer_sound)

lemma build_projection_sound:
  "build_projection number T f = Inr m \<Longrightarrow>
     carried_Projection T m \<and> as_i64 (number m) = prjf_message_number f"
  by (auto simp: build_projection_def carried_Projection_def Let_def and_then_eq_Inr split: if_splits
      dest!: checked_rtcm_integer_sound build_projection_parameters_carried)

end
