(* ===== verification/RtcmMessage.thy ===== *)
theory RtcmMessage
  imports RtcmErrors RtcmEphemeris RtcmNetwork
begin

text \<open>
  RTCM messages at the boundary of \<open>native/sidereon_nif/src/rtcm.rs\<close>: a message leaves as the pair
  \<open>{type, fields}\<close> (\<open>encode_message_with_policy\<close>) and is built again from such a pair
  (\<open>build_message_with_policy\<close>). The core is the record \<open>rtcm_core\<close>: its codec of message bodies, its
  methods on messages, and the types of the fields that the source leaves to inference.
\<close>

section \<open>Messages\<close>

record UnsupportedFields =
  unf_message_number :: i64
  unf_body :: "u8 list"

definition enc_UnsupportedFields :: "UnsupportedFields \<Rightarrow> nterm" where
  "enc_UnsupportedFields f = nif_map
     [(''message_number'', enc_i64 (unf_message_number f)), (''body'', enc_list enc_u8 (unf_body f))]"

definition dec_UnsupportedFields :: "nterm \<Rightarrow> UnsupportedFields NifResult" where
  "dec_UnsupportedFields t =
     and_then (nif_field ''message_number'' dec_i64 t) (\<lambda>message_number.
     and_then (nif_field ''body'' (dec_list dec_u8) t) (\<lambda>body.
     Inr \<lparr>unf_message_number = message_number, unf_body = body\<rparr>))"

interpretation unf: nif_codec enc_UnsupportedFields dec_UnsupportedFields
  by unfold_locales (simp_all only: enc_UnsupportedFields_def dec_UnsupportedFields_def nif_lookup codec_simps, simp_all)

lemmas UnsupportedFields_codec [codec_simps] =
  unf.decodes unf.option_decodes unf.list_decodes

record SsrFields =
  ssrf_message_number :: i64
  ssrf_body :: "u8 list"

definition enc_SsrFields :: "SsrFields \<Rightarrow> nterm" where
  "enc_SsrFields f = nif_map
     [(''message_number'', enc_i64 (ssrf_message_number f)), (''body'', enc_list enc_u8 (ssrf_body f))]"

definition dec_SsrFields :: "nterm \<Rightarrow> SsrFields NifResult" where
  "dec_SsrFields t =
     and_then (nif_field ''message_number'' dec_i64 t) (\<lambda>message_number.
     and_then (nif_field ''body'' (dec_list dec_u8) t) (\<lambda>body.
     Inr \<lparr>ssrf_message_number = message_number, ssrf_body = body\<rparr>))"

interpretation ssrf: nif_codec enc_SsrFields dec_SsrFields
  by unfold_locales (simp_all only: enc_SsrFields_def dec_SsrFields_def nif_lookup codec_simps, simp_all)

lemmas SsrFields_codec [codec_simps] =
  ssrf.decodes ssrf.option_decodes ssrf.list_decodes

record UnsupportedMessage =
  un_message_number :: int
  un_body :: "u8 list"

datatype RtcmPolicy = Strict | Lenient

datatype ('sys, 'ssr) Message =
    Msm "'sys MsmMessage"
  | LegacyObservations LegacyObservations
  | StationCoordinates StationCoordinates
  | AntennaDescriptor AntennaDescriptor
  | SystemParameters SystemParameters
  | Text TextMessage
  | NetworkAuxiliaryStation NetworkAuxiliaryStation
  | NetworkCorrectionDifferences NetworkCorrectionDifferences
  | HelmertTransformation HelmertTransformation
  | ResidualGrid ResidualGrid
  | Projection Projection
  | NetworkResiduals NetworkResiduals
  | PhysicalReferenceStation PhysicalReferenceStation
  | FkpGradients FkpGradients
  | GpsEphemeris GpsEphemeris
  | GlonassEphemeris GlonassEphemeris
  | BeidouEphemeris BeidouEphemeris
  | QzssEphemeris QzssEphemeris
  | GalileoFnavEphemeris GalileoFnavEphemeris
  | GalileoInavEphemeris GalileoInavEphemeris
  | NavicEphemeris NavicEphemeris
  | GlonassCodePhaseBiases GlonassCodePhaseBiases
  | Ssr 'ssr
  | SsrVtec SsrVtecMessage
  | Unsupported UnsupportedMessage

text \<open>The core. \<open>body_encode\<close> stands for the method \<open>encode_with_policy\<close> of the individual message
  structures, \<open>message_encode_with_policy\<close> for that of \<open>Message\<close>. The error of \<open>NavicEphemeris::satellite\<close>
  is its text.\<close>

type_synonym ('sys, 'sat, 'err, 'a) core_result = "('sys, 'sat, 'err) CoreError + 'a"

record ('sys, 'ssr, 'sat, 'err) rtcm_core =
  core_errors :: "('sys, 'sat, 'err) error_core"
  core_msm :: "'sys msm_core"
  core_layout :: layout
  station_x_m :: "StationCoordinates \<Rightarrow> f64"
  station_y_m :: "StationCoordinates \<Rightarrow> f64"
  station_z_m :: "StationCoordinates \<Rightarrow> f64"
  station_antenna_height_m :: "StationCoordinates \<Rightarrow> f64 option"
  projection_number :: "Projection \<Rightarrow> int"
  navic_satellite :: "NavicEphemeris \<Rightarrow> string + 'sat"
  ssr_message_number :: "'ssr \<Rightarrow> int"
  ssr_encode_with_policy ::
    "RtcmPolicy \<Rightarrow> 'ssr \<Rightarrow> ('sys, 'sat, 'err, u8 list \<times> RtcmDeparture list) core_result"
  body_encode ::
    "RtcmPolicy \<Rightarrow> ('sys, 'ssr) Message \<Rightarrow> ('sys, 'sat, 'err, u8 list \<times> RtcmDeparture list) core_result"
  decode_with_policy ::
    "RtcmPolicy \<Rightarrow> u8 list \<Rightarrow> ('sys, 'sat, 'err, ('sys, 'ssr) Message \<times> RtcmDeparture list) core_result"

text \<open>What the boundary relies on: the laws of letters, masks and field types, and that an SSR body
  decodes, under the policy it was written with, to the message it was written from.\<close>

definition rtcm_laws :: "('sys, 'ssr, 'sat, 'err) rtcm_core \<Rightarrow> bool" where
  "rtcm_laws C \<longleftrightarrow>
     msm_laws (core_msm C) \<and> layout_laws (core_layout C) \<and>
     (\<forall>p s body departures. ssr_encode_with_policy C p s = Inr (body, departures) \<longrightarrow>
        (\<exists>read. decode_with_policy C p body = Inr (Message.Ssr s, read)))"

section \<open>From messages to terms\<close>

primrec encode_message_with_policy ::
  "('sys, 'ssr, 'sat, 'err) rtcm_core \<Rightarrow> RtcmPolicy \<Rightarrow> ('sys, 'ssr) Message \<Rightarrow> ('sys, 'sat, 'err, nterm) core_result" where
  "encode_message_with_policy C policy (Message.Msm m) =
     Inr (Tup [Atom ''msm'', enc_MsmMessageFields
       (MsmMessageFields_from (core_msm C) m)])"
| "encode_message_with_policy C policy (Message.LegacyObservations m) =
     and_then (body_encode C policy (Message.LegacyObservations m)) (\<lambda>_.
     Inr (Tup [Atom ''legacy_observations'', enc_LegacyObservationsFields
       (LegacyObservationsFields_from m)]))"
| "encode_message_with_policy C policy (Message.StationCoordinates m) =
     Inr (Tup [Atom ''station_coordinates'', enc_StationCoordinatesFields
       (StationCoordinatesFields_from (station_x_m C) (station_y_m C) (station_z_m C)
          (station_antenna_height_m C) m)])"
| "encode_message_with_policy C policy (Message.AntennaDescriptor m) =
     Inr (Tup [Atom ''antenna_descriptor'', enc_AntennaDescriptorFields
       (AntennaDescriptorFields_from m)])"
| "encode_message_with_policy C policy (Message.SystemParameters m) =
     and_then (body_encode C policy (Message.SystemParameters m)) (\<lambda>_.
     Inr (Tup [Atom ''system_parameters'', enc_SystemParametersFields
       (SystemParametersFields_from m)]))"
| "encode_message_with_policy C policy (Message.Text m) =
     and_then (body_encode C policy (Message.Text m)) (\<lambda>_.
     Inr (Tup [Atom ''text'', enc_TextMessageFields
       (TextMessageFields_from m)]))"
| "encode_message_with_policy C policy (Message.NetworkAuxiliaryStation m) =
     and_then (body_encode C policy (Message.NetworkAuxiliaryStation m)) (\<lambda>_.
     Inr (Tup [Atom ''network_auxiliary_station'', enc_NetworkAuxiliaryStationFields
       (NetworkAuxiliaryStationFields_from m)]))"
| "encode_message_with_policy C policy (Message.NetworkCorrectionDifferences m) =
     and_then (body_encode C policy (Message.NetworkCorrectionDifferences m)) (\<lambda>_.
     Inr (Tup [Atom ''network_correction_differences'', enc_NetworkCorrectionDifferencesFields
       (NetworkCorrectionDifferencesFields_from m)]))"
| "encode_message_with_policy C policy (Message.HelmertTransformation m) =
     and_then (body_encode C policy (Message.HelmertTransformation m)) (\<lambda>_.
     Inr (Tup [Atom ''helmert_transformation'', enc_HelmertTransformationFields
       (HelmertTransformationFields_from m)]))"
| "encode_message_with_policy C policy (Message.ResidualGrid m) =
     and_then (body_encode C policy (Message.ResidualGrid m)) (\<lambda>_.
     Inr (Tup [Atom ''residual_grid'', enc_ResidualGridFields
       (ResidualGridFields_from m)]))"
| "encode_message_with_policy C policy (Message.Projection m) =
     and_then (body_encode C policy (Message.Projection m)) (\<lambda>_.
     Inr (Tup [Atom ''projection'', enc_ProjectionFields
       (ProjectionFields_from (projection_number C) m)]))"
| "encode_message_with_policy C policy (Message.NetworkResiduals m) =
     and_then (body_encode C policy (Message.NetworkResiduals m)) (\<lambda>_.
     Inr (Tup [Atom ''network_residuals'', enc_NetworkResidualsFields
       (NetworkResidualsFields_from m)]))"
| "encode_message_with_policy C policy (Message.PhysicalReferenceStation m) =
     and_then (body_encode C policy (Message.PhysicalReferenceStation m)) (\<lambda>_.
     Inr (Tup [Atom ''physical_reference_station'', enc_PhysicalReferenceStationFields
       (PhysicalReferenceStationFields_from m)]))"
| "encode_message_with_policy C policy (Message.FkpGradients m) =
     and_then (body_encode C policy (Message.FkpGradients m)) (\<lambda>_.
     Inr (Tup [Atom ''fkp_gradients'', enc_FkpGradientsFields
       (FkpGradientsFields_from m)]))"
| "encode_message_with_policy C policy (Message.GpsEphemeris m) =
     Inr (Tup [Atom ''gps_ephemeris'', enc_GpsEphemerisFields
       (GpsEphemerisFields_from m)])"
| "encode_message_with_policy C policy (Message.GlonassEphemeris m) =
     Inr (Tup [Atom ''glonass_ephemeris'', enc_GlonassEphemerisFields
       (GlonassEphemerisFields_from m)])"
| "encode_message_with_policy C policy (Message.BeidouEphemeris m) =
     Inr (Tup [Atom ''beidou_ephemeris'', enc_BeidouEphemerisFields
       (BeidouEphemerisFields_from m)])"
| "encode_message_with_policy C policy (Message.QzssEphemeris m) =
     Inr (Tup [Atom ''qzss_ephemeris'', enc_QzssEphemerisFields
       (QzssEphemerisFields_from m)])"
| "encode_message_with_policy C policy (Message.GalileoFnavEphemeris m) =
     Inr (Tup [Atom ''galileo_fnav_ephemeris'', enc_GalileoFnavEphemerisFields
       (GalileoFnavEphemerisFields_from m)])"
| "encode_message_with_policy C policy (Message.GalileoInavEphemeris m) =
     Inr (Tup [Atom ''galileo_inav_ephemeris'', enc_GalileoInavEphemerisFields
       (GalileoInavEphemerisFields_from m)])"
| "encode_message_with_policy C policy (Message.NavicEphemeris m) =
     and_then (body_encode C policy (Message.NavicEphemeris m)) (\<lambda>_.
     Inr (Tup [Atom ''navic_ephemeris'', enc_NavicEphemerisFields
       (NavicEphemerisFields_from m)]))"
| "encode_message_with_policy C policy (Message.GlonassCodePhaseBiases m) =
     and_then (body_encode C policy (Message.GlonassCodePhaseBiases m)) (\<lambda>_.
     Inr (Tup [Atom ''glonass_code_phase_biases'', enc_GlonassCodePhaseBiasesFields
       (GlonassCodePhaseBiasesFields_from m)]))"
| "encode_message_with_policy C policy (Message.Ssr m) =
     and_then (ssr_encode_with_policy C policy m) (\<lambda>(body, _).
     Inr (Tup [Atom ''ssr'', enc_SsrFields
       \<lparr>ssrf_message_number = as_i64 (ssr_message_number C m), ssrf_body = body\<rparr>]))"
| "encode_message_with_policy C policy (Message.SsrVtec m) =
     and_then (body_encode C policy (Message.SsrVtec m)) (\<lambda>_.
     Inr (Tup [Atom ''ssr_vtec'', enc_SsrVtecFields
       (SsrVtecFields_from m)]))"
| "encode_message_with_policy C policy (Message.Unsupported m) =
     Inr (Tup [Atom ''unsupported'', enc_UnsupportedFields
       \<lparr>unf_message_number = as_i64 (un_message_number m), unf_body = un_body m\<rparr>])"

definition encode_message ::
  "('sys, 'ssr, 'sat, 'err) rtcm_core \<Rightarrow> ('sys, 'ssr) Message \<Rightarrow> ('sys, 'sat, 'err, nterm) core_result" where
  "encode_message C message = encode_message_with_policy C Strict message"

section \<open>From terms to messages\<close>

definition build_ssr ::
  "('sys, 'ssr, 'sat, 'err) rtcm_core \<Rightarrow> SsrFields \<Rightarrow> RtcmPolicy \<Rightarrow> ('sys, 'ssr) Message NifResult" where
  "build_ssr C f policy =
     (case decode_with_policy C policy (ssrf_body f) of
        Inl e \<Rightarrow> Inl (error_text (show_error (core_errors C) e))
      | Inr (Message.Ssr ssr, _) \<Rightarrow>
          if as_i64 (ssr_message_number C ssr) = ssrf_message_number f then Inr (Message.Ssr ssr)
          else Inl (error_text ''RTCM SSR message number mismatch'')
      | Inr _ \<Rightarrow> Inl (error_text ''RTCM body is not an SSR message''))"

definition build_message_with_policy ::
  "('sys, 'ssr, 'sat, 'err) rtcm_core \<Rightarrow> string \<Rightarrow> nterm \<Rightarrow> RtcmPolicy \<Rightarrow> ('sys, 'ssr) Message NifResult" where
  "build_message_with_policy C kind t policy =
     (if kind = ''station_coordinates'' then
        map_ok (Message.StationCoordinates \<circ> StationCoordinates_from) (dec_StationCoordinatesInput t)
      else if kind = ''legacy_observations'' then
        map_ok Message.LegacyObservations (and_then (dec_LegacyObservationsFields t) checked_legacy_fields)
      else if kind = ''antenna_descriptor'' then
        map_ok (Message.AntennaDescriptor \<circ> AntennaDescriptor_from) (dec_AntennaDescriptorFields t)
      else if kind = ''system_parameters'' then
        map_ok Message.SystemParameters (and_then (dec_SystemParametersFields t) (checked_system_parameters (core_layout C)))
      else if kind = ''text'' then
        map_ok Message.Text (and_then (dec_TextMessageFields t) (checked_text_message (core_layout C)))
      else if kind = ''network_auxiliary_station'' then
        map_ok Message.NetworkAuxiliaryStation (and_then (dec_NetworkAuxiliaryStationFields t) (checked_network_auxiliary_station (core_layout C)))
      else if kind = ''network_correction_differences'' then
        map_ok Message.NetworkCorrectionDifferences (and_then (dec_NetworkCorrectionDifferencesFields t) (build_network_correction_differences (core_layout C)))
      else if kind = ''helmert_transformation'' then
        map_ok Message.HelmertTransformation (and_then (dec_HelmertTransformationFields t) (build_helmert_transformation (core_layout C)))
      else if kind = ''residual_grid'' then
        map_ok Message.ResidualGrid (and_then (dec_ResidualGridFields t) (build_residual_grid (core_layout C)))
      else if kind = ''projection'' then
        map_ok Message.Projection (and_then (dec_ProjectionFields t)
          (build_projection (projection_number C) (core_layout C)))
      else if kind = ''network_residuals'' then
        map_ok Message.NetworkResiduals (and_then (dec_NetworkResidualsFields t) (build_network_residuals (core_layout C)))
      else if kind = ''physical_reference_station'' then
        map_ok Message.PhysicalReferenceStation (and_then (dec_PhysicalReferenceStationFields t) (build_physical_reference_station (core_layout C)))
      else if kind = ''fkp_gradients'' then
        map_ok Message.FkpGradients (and_then (dec_FkpGradientsFields t) (build_fkp_gradients (core_layout C)))
      else if kind = ''gps_ephemeris'' then
        and_then (dec_GpsEphemerisFields t) (\<lambda>f.
        and_then (check_wire_u8 (gpsf_satellite_id f) ''satellite id'') (\<lambda>_.
        Inr (Message.GpsEphemeris (GpsEphemeris_from f))))
      else if kind = ''glonass_ephemeris'' then
        and_then (dec_GlonassEphemerisFields t) (\<lambda>f.
        and_then (check_wire_u8 (glof_satellite_id f) ''satellite id'') (\<lambda>_.
        Inr (Message.GlonassEphemeris (GlonassEphemeris_from f))))
      else if kind = ''beidou_ephemeris'' then
        and_then (dec_BeidouEphemerisFields t) (\<lambda>f.
        and_then (check_wire_u8 (bdsf_satellite_id f) ''satellite id'') (\<lambda>_.
        Inr (Message.BeidouEphemeris (BeidouEphemeris_from f))))
      else if kind = ''qzss_ephemeris'' then
        and_then (dec_QzssEphemerisFields t) (\<lambda>f.
        and_then (check_wire_u8 (qzsf_satellite_id f) ''satellite id'') (\<lambda>_.
        Inr (Message.QzssEphemeris (QzssEphemeris_from f))))
      else if kind = ''galileo_fnav_ephemeris'' then
        and_then (dec_GalileoFnavEphemerisFields t) (\<lambda>f.
        and_then (check_wire_u8 (fnavf_satellite_id f) ''satellite id'') (\<lambda>_.
        Inr (Message.GalileoFnavEphemeris (GalileoFnavEphemeris_from f))))
      else if kind = ''galileo_inav_ephemeris'' then
        and_then (dec_GalileoInavEphemerisFields t) (\<lambda>f.
        and_then (check_wire_u8 (inavf_satellite_id f) ''satellite id'') (\<lambda>_.
        Inr (Message.GalileoInavEphemeris (GalileoInavEphemeris_from f))))
      else if kind = ''navic_ephemeris'' then
        and_then (and_then (dec_NavicEphemerisFields t) build_navic_ephemeris) (\<lambda>ephemeris.
        and_then (map_err error_text (navic_satellite C ephemeris)) (\<lambda>_.
        Inr (Message.NavicEphemeris ephemeris)))
      else if kind = ''glonass_code_phase_biases'' then
        map_ok Message.GlonassCodePhaseBiases (and_then (dec_GlonassCodePhaseBiasesFields t) (checked_glonass_code_phase_biases (core_layout C)))
      else if kind = ''msm'' then
        map_ok Message.Msm (and_then (dec_MsmMessageFields t) (build_msm (core_msm C)))
      else if kind = ''ssr'' then
        and_then (dec_SsrFields t) (\<lambda>f. build_ssr C f policy)
      else if kind = ''ssr_vtec'' then
        map_ok Message.SsrVtec (and_then (dec_SsrVtecFields t) (build_ssr_vtec (core_layout C)))
      else if kind = ''unsupported'' then
        and_then (dec_UnsupportedFields t) (\<lambda>unsupported.
        Inr (Message.Unsupported
          \<lparr>un_message_number = as_ty U16 (unf_message_number unsupported), un_body = unf_body unsupported\<rparr>))
      else Inl (error_text ''unsupported RTCM message type''))"

definition build_message ::
  "('sys, 'ssr, 'sat, 'err) rtcm_core \<Rightarrow> string \<Rightarrow> nterm \<Rightarrow> ('sys, 'ssr) Message NifResult" where
  "build_message C kind t = build_message_with_policy C kind t Strict"

section \<open>Carried messages\<close>

text \<open>Every integer of the message has the type it is declared with. For NavIC, the satellite is one
  the core knows, which the way back asks for.\<close>

primrec carried_Message :: "('sys, 'ssr, 'sat, 'err) rtcm_core \<Rightarrow> ('sys, 'ssr) Message \<Rightarrow> bool" where
  "carried_Message C (Message.Msm m) \<longleftrightarrow> carried_MsmMessage m"
| "carried_Message C (Message.LegacyObservations m) \<longleftrightarrow> carried_LegacyObservations m"
| "carried_Message C (Message.StationCoordinates m) \<longleftrightarrow> carried_StationCoordinates m"
| "carried_Message C (Message.AntennaDescriptor m) \<longleftrightarrow> carried_AntennaDescriptor m"
| "carried_Message C (Message.SystemParameters m) \<longleftrightarrow> carried_SystemParameters (core_layout C) m"
| "carried_Message C (Message.Text m) \<longleftrightarrow> carried_TextMessage (core_layout C) m"
| "carried_Message C (Message.NetworkAuxiliaryStation m) \<longleftrightarrow> carried_NetworkAuxiliaryStation (core_layout C) m"
| "carried_Message C (Message.NetworkCorrectionDifferences m) \<longleftrightarrow> carried_NetworkCorrectionDifferences (core_layout C) m"
| "carried_Message C (Message.HelmertTransformation m) \<longleftrightarrow> carried_HelmertTransformation (core_layout C) m"
| "carried_Message C (Message.ResidualGrid m) \<longleftrightarrow> carried_ResidualGrid (core_layout C) m"
| "carried_Message C (Message.Projection m) \<longleftrightarrow> carried_Projection (core_layout C) m"
| "carried_Message C (Message.NetworkResiduals m) \<longleftrightarrow> carried_NetworkResiduals (core_layout C) m"
| "carried_Message C (Message.PhysicalReferenceStation m) \<longleftrightarrow> carried_PhysicalReferenceStation (core_layout C) m"
| "carried_Message C (Message.FkpGradients m) \<longleftrightarrow> carried_FkpGradients (core_layout C) m"
| "carried_Message C (Message.GpsEphemeris m) \<longleftrightarrow> carried_GpsEphemeris m"
| "carried_Message C (Message.GlonassEphemeris m) \<longleftrightarrow> carried_GlonassEphemeris m"
| "carried_Message C (Message.BeidouEphemeris m) \<longleftrightarrow> carried_BeidouEphemeris m"
| "carried_Message C (Message.QzssEphemeris m) \<longleftrightarrow> carried_QzssEphemeris m"
| "carried_Message C (Message.GalileoFnavEphemeris m) \<longleftrightarrow> carried_GalileoFnavEphemeris m"
| "carried_Message C (Message.GalileoInavEphemeris m) \<longleftrightarrow> carried_GalileoInavEphemeris m"
| "carried_Message C (Message.NavicEphemeris m) \<longleftrightarrow> carried_NavicEphemeris m \<and> \<not> isl (navic_satellite C m)"
| "carried_Message C (Message.GlonassCodePhaseBiases m) \<longleftrightarrow> carried_GlonassCodePhaseBiases (core_layout C) m"
| "carried_Message C (Message.Ssr m) \<longleftrightarrow> True"
| "carried_Message C (Message.SsrVtec m) \<longleftrightarrow> carried_SsrVtecMessage (core_layout C) m"
| "carried_Message C (Message.Unsupported m) \<longleftrightarrow> in_ty U16 (un_message_number m)"

section \<open>Round trip, kind by kind\<close>

text \<open>What each kind builds from its fields, once for the proofs below.\<close>

lemma build_station_coordinates [result_simps]:
  "build_message_with_policy C ''station_coordinates'' t policy =
     (map_ok (Message.StationCoordinates \<circ> StationCoordinates_from) (dec_StationCoordinatesInput t))"
  by (simp add: build_message_with_policy_def)

lemma build_legacy_observations [result_simps]:
  "build_message_with_policy C ''legacy_observations'' t policy =
     (map_ok Message.LegacyObservations (and_then (dec_LegacyObservationsFields t) checked_legacy_fields))"
  by (simp add: build_message_with_policy_def)

lemma build_antenna_descriptor [result_simps]:
  "build_message_with_policy C ''antenna_descriptor'' t policy =
     (map_ok (Message.AntennaDescriptor \<circ> AntennaDescriptor_from) (dec_AntennaDescriptorFields t))"
  by (simp add: build_message_with_policy_def)

lemma build_system_parameters [result_simps]:
  "build_message_with_policy C ''system_parameters'' t policy =
     (map_ok Message.SystemParameters (and_then (dec_SystemParametersFields t) (checked_system_parameters (core_layout C))))"
  by (simp add: build_message_with_policy_def)

lemma build_text [result_simps]:
  "build_message_with_policy C ''text'' t policy =
     (map_ok Message.Text (and_then (dec_TextMessageFields t) (checked_text_message (core_layout C))))"
  by (simp add: build_message_with_policy_def)

lemma build_network_auxiliary_station [result_simps]:
  "build_message_with_policy C ''network_auxiliary_station'' t policy =
     (map_ok Message.NetworkAuxiliaryStation (and_then (dec_NetworkAuxiliaryStationFields t) (checked_network_auxiliary_station (core_layout C))))"
  by (simp add: build_message_with_policy_def)

lemma build_network_correction_differences [result_simps]:
  "build_message_with_policy C ''network_correction_differences'' t policy =
     (map_ok Message.NetworkCorrectionDifferences (and_then (dec_NetworkCorrectionDifferencesFields t) (build_network_correction_differences (core_layout C))))"
  by (simp add: build_message_with_policy_def)

lemma build_helmert_transformation [result_simps]:
  "build_message_with_policy C ''helmert_transformation'' t policy =
     (map_ok Message.HelmertTransformation (and_then (dec_HelmertTransformationFields t) (build_helmert_transformation (core_layout C))))"
  by (simp add: build_message_with_policy_def)

lemma build_residual_grid [result_simps]:
  "build_message_with_policy C ''residual_grid'' t policy =
     (map_ok Message.ResidualGrid (and_then (dec_ResidualGridFields t) (build_residual_grid (core_layout C))))"
  by (simp add: build_message_with_policy_def)

lemma build_projection [result_simps]:
  "build_message_with_policy C ''projection'' t policy =
     (map_ok Message.Projection (and_then (dec_ProjectionFields t)
          (build_projection (projection_number C) (core_layout C))))"
  by (simp add: build_message_with_policy_def)

lemma build_network_residuals [result_simps]:
  "build_message_with_policy C ''network_residuals'' t policy =
     (map_ok Message.NetworkResiduals (and_then (dec_NetworkResidualsFields t) (build_network_residuals (core_layout C))))"
  by (simp add: build_message_with_policy_def)

lemma build_physical_reference_station [result_simps]:
  "build_message_with_policy C ''physical_reference_station'' t policy =
     (map_ok Message.PhysicalReferenceStation (and_then (dec_PhysicalReferenceStationFields t) (build_physical_reference_station (core_layout C))))"
  by (simp add: build_message_with_policy_def)

lemma build_fkp_gradients [result_simps]:
  "build_message_with_policy C ''fkp_gradients'' t policy =
     (map_ok Message.FkpGradients (and_then (dec_FkpGradientsFields t) (build_fkp_gradients (core_layout C))))"
  by (simp add: build_message_with_policy_def)

lemma build_gps_ephemeris [result_simps]:
  "build_message_with_policy C ''gps_ephemeris'' t policy =
     (and_then (dec_GpsEphemerisFields t) (\<lambda>f.
        and_then (check_wire_u8 (gpsf_satellite_id f) ''satellite id'') (\<lambda>_.
        Inr (Message.GpsEphemeris (GpsEphemeris_from f)))))"
  by (simp add: build_message_with_policy_def)

lemma build_glonass_ephemeris [result_simps]:
  "build_message_with_policy C ''glonass_ephemeris'' t policy =
     (and_then (dec_GlonassEphemerisFields t) (\<lambda>f.
        and_then (check_wire_u8 (glof_satellite_id f) ''satellite id'') (\<lambda>_.
        Inr (Message.GlonassEphemeris (GlonassEphemeris_from f)))))"
  by (simp add: build_message_with_policy_def)

lemma build_beidou_ephemeris [result_simps]:
  "build_message_with_policy C ''beidou_ephemeris'' t policy =
     (and_then (dec_BeidouEphemerisFields t) (\<lambda>f.
        and_then (check_wire_u8 (bdsf_satellite_id f) ''satellite id'') (\<lambda>_.
        Inr (Message.BeidouEphemeris (BeidouEphemeris_from f)))))"
  by (simp add: build_message_with_policy_def)

lemma build_qzss_ephemeris [result_simps]:
  "build_message_with_policy C ''qzss_ephemeris'' t policy =
     (and_then (dec_QzssEphemerisFields t) (\<lambda>f.
        and_then (check_wire_u8 (qzsf_satellite_id f) ''satellite id'') (\<lambda>_.
        Inr (Message.QzssEphemeris (QzssEphemeris_from f)))))"
  by (simp add: build_message_with_policy_def)

lemma build_galileo_fnav_ephemeris [result_simps]:
  "build_message_with_policy C ''galileo_fnav_ephemeris'' t policy =
     (and_then (dec_GalileoFnavEphemerisFields t) (\<lambda>f.
        and_then (check_wire_u8 (fnavf_satellite_id f) ''satellite id'') (\<lambda>_.
        Inr (Message.GalileoFnavEphemeris (GalileoFnavEphemeris_from f)))))"
  by (simp add: build_message_with_policy_def)

lemma build_galileo_inav_ephemeris [result_simps]:
  "build_message_with_policy C ''galileo_inav_ephemeris'' t policy =
     (and_then (dec_GalileoInavEphemerisFields t) (\<lambda>f.
        and_then (check_wire_u8 (inavf_satellite_id f) ''satellite id'') (\<lambda>_.
        Inr (Message.GalileoInavEphemeris (GalileoInavEphemeris_from f)))))"
  by (simp add: build_message_with_policy_def)

lemma build_navic_ephemeris [result_simps]:
  "build_message_with_policy C ''navic_ephemeris'' t policy =
     (and_then (and_then (dec_NavicEphemerisFields t) build_navic_ephemeris) (\<lambda>ephemeris.
        and_then (map_err error_text (navic_satellite C ephemeris)) (\<lambda>_.
        Inr (Message.NavicEphemeris ephemeris))))"
  by (simp add: build_message_with_policy_def)

lemma build_glonass_code_phase_biases [result_simps]:
  "build_message_with_policy C ''glonass_code_phase_biases'' t policy =
     (map_ok Message.GlonassCodePhaseBiases (and_then (dec_GlonassCodePhaseBiasesFields t) (checked_glonass_code_phase_biases (core_layout C))))"
  by (simp add: build_message_with_policy_def)

lemma build_msm [result_simps]:
  "build_message_with_policy C ''msm'' t policy =
     (map_ok Message.Msm (and_then (dec_MsmMessageFields t) (build_msm (core_msm C))))"
  by (simp add: build_message_with_policy_def)

lemma build_ssr [result_simps]:
  "build_message_with_policy C ''ssr'' t policy =
     (and_then (dec_SsrFields t) (\<lambda>f. build_ssr C f policy))"
  by (simp add: build_message_with_policy_def)

lemma build_ssr_vtec [result_simps]:
  "build_message_with_policy C ''ssr_vtec'' t policy =
     (map_ok Message.SsrVtec (and_then (dec_SsrVtecFields t) (build_ssr_vtec (core_layout C))))"
  by (simp add: build_message_with_policy_def)

lemma build_unsupported [result_simps]:
  "build_message_with_policy C ''unsupported'' t policy =
     (and_then (dec_UnsupportedFields t) (\<lambda>unsupported.
        Inr (Message.Unsupported
          \<lparr>un_message_number = as_ty U16 (unf_message_number unsupported), un_body = unf_body unsupported\<rparr>)))"
  by (simp add: build_message_with_policy_def)

lemma gps_wire [build_returns]:
  "carried_GpsEphemeris m \<Longrightarrow> check_wire_u8 (gpsf_satellite_id (GpsEphemerisFields_from m)) field = Inr ()"
  by (simp add: carried_GpsEphemeris_def GpsEphemerisFields_from_def check_wire_u8_returns)

lemma glo_wire [build_returns]:
  "carried_GlonassEphemeris m \<Longrightarrow> check_wire_u8 (glof_satellite_id (GlonassEphemerisFields_from m)) field = Inr ()"
  by (simp add: carried_GlonassEphemeris_def GlonassEphemerisFields_from_def check_wire_u8_returns)

lemma bds_wire [build_returns]:
  "carried_BeidouEphemeris m \<Longrightarrow> check_wire_u8 (bdsf_satellite_id (BeidouEphemerisFields_from m)) field = Inr ()"
  by (simp add: carried_BeidouEphemeris_def BeidouEphemerisFields_from_def check_wire_u8_returns)

lemma qzs_wire [build_returns]:
  "carried_QzssEphemeris m \<Longrightarrow> check_wire_u8 (qzsf_satellite_id (QzssEphemerisFields_from m)) field = Inr ()"
  by (simp add: carried_QzssEphemeris_def QzssEphemerisFields_from_def check_wire_u8_returns)

lemma fnav_wire [build_returns]:
  "carried_GalileoFnavEphemeris m \<Longrightarrow> check_wire_u8 (fnavf_satellite_id (GalileoFnavEphemerisFields_from m)) field = Inr ()"
  by (simp add: carried_GalileoFnavEphemeris_def GalileoFnavEphemerisFields_from_def check_wire_u8_returns)

lemma inav_wire [build_returns]:
  "carried_GalileoInavEphemeris m \<Longrightarrow> check_wire_u8 (inavf_satellite_id (GalileoInavEphemerisFields_from m)) field = Inr ()"
  by (simp add: carried_GalileoInavEphemeris_def GalileoInavEphemerisFields_from_def check_wire_u8_returns)

lemmas message_returns =
  lo.returns sys.returns tx.returns aux.returns ncd.returns hel.returns rg.returns nrs.returns prs.returns
  fkp.returns gb.returns vt.returns irn.returns gps.returns glo.returns bds.returns qzs.returns fnav.returns
  inav.returns ad.returns sc.returns build_msm_returns build_projection_returns

lemmas message_typed =
  gps.typed glo.typed bds.typed qzs.typed fnav.typed inav.typed ad.typed sc.typed

lemmas message_sound =
  lo.sound sys.sound tx.sound aux.sound ncd.sound hel.sound rg.sound nrs.sound prs.sound
  fkp.sound gb.sound vt.sound irn.sound build_projection_sound

lemma build_after_encode:
  assumes "rtcm_laws C" "carried_Message C m" "encode_message_with_policy C policy m = Inr t"
  shows "\<exists>kind fields. t = Tup [Atom kind, fields] \<and>
    build_message_with_policy C kind fields policy = Inr m"
proof -
  from assms(1) have laws: "msm_laws (core_msm C)" "layout_laws (core_layout C)"
    by (simp_all add: rtcm_laws_def)
  show ?thesis
  proof (cases m)
    case (Ssr s)
    with assms(3) obtain body departures where body: "ssr_encode_with_policy C policy s = Inr (body, departures)"
      and t: "t = Tup [Atom ''ssr'', enc_SsrFields
        \<lparr>ssrf_message_number = as_i64 (ssr_message_number C s), ssrf_body = body\<rparr>]"
      by (auto simp: and_then_eq_Inr)
    from body assms(1) obtain read where "decode_with_policy C policy body = Inr (Message.Ssr s, read)"
      unfolding rtcm_laws_def by blast
    with t Ssr show ?thesis by (simp add: result_simps ssrf.decodes build_ssr_def)
  next
    case (NavicEphemeris e)
    with assms(2) obtain sat where "navic_satellite C e = Inr sat" by (cases "navic_satellite C e") auto
    with NavicEphemeris assms show ?thesis
      by (auto simp: and_then_eq_Inr result_simps codec_simps message_returns)
  qed (use assms(2,3) laws in
    \<open>auto simp: and_then_eq_Inr result_simps codec_simps message_returns build_returns\<close>)
qed

text \<open>What is built has the types of its fields, whatever the term.\<close>

lemma build_ssr_Inr: "build_ssr C f policy = Inr m \<Longrightarrow> \<exists>s. m = Message.Ssr s"
  by (auto simp: build_ssr_def split: sum.splits Message.splits if_splits)

definition message_kinds :: "string list" where
  "message_kinds =
     [''station_coordinates'', ''legacy_observations'', ''antenna_descriptor'', ''system_parameters'',
      ''text'', ''network_auxiliary_station'', ''network_correction_differences'',
      ''helmert_transformation'', ''residual_grid'', ''projection'', ''network_residuals'',
      ''physical_reference_station'', ''fkp_gradients'', ''gps_ephemeris'', ''glonass_ephemeris'',
      ''beidou_ephemeris'', ''qzss_ephemeris'', ''galileo_fnav_ephemeris'', ''galileo_inav_ephemeris'',
      ''navic_ephemeris'', ''glonass_code_phase_biases'', ''msm'', ''ssr'', ''ssr_vtec'',
      ''unsupported'']"

lemma build_kind:
  "build_message_with_policy C kind t policy = Inr m \<Longrightarrow> kind \<in> set message_kinds"
  by (auto simp: build_message_with_policy_def message_kinds_def split: if_splits)

lemma build_carried_kind:
  assumes "msm_laws (core_msm C)" "kind \<in> set message_kinds"
    "build_message_with_policy C kind t policy = Inr m"
  shows "carried_Message C m"
  using assms(2,3)
  by (auto simp: message_kinds_def result_simps map_ok_def and_then_eq_Inr message_typed map_err_eq_Inr isl_def
      dest!: message_sound build_msm_sound [OF assms(1)] build_ssr_Inr)

section \<open>Kinds whose fields are checked\<close>

text \<open>The canonical form of a field map: read into the structure of its kind and written back, which
  drops the keys the structure does not have.\<close>

definition checked_kinds :: "string list" where
  "checked_kinds =
     [''legacy_observations'', ''system_parameters'', ''text'', ''network_auxiliary_station'',
      ''network_correction_differences'', ''helmert_transformation'', ''residual_grid'',
      ''network_residuals'', ''physical_reference_station'', ''fkp_gradients'', ''navic_ephemeris'',
      ''glonass_code_phase_biases'', ''ssr_vtec'']"

definition canonical_fields :: "string \<Rightarrow> nterm \<Rightarrow> nterm NifResult" where
  "canonical_fields kind t =
     (if kind = ''legacy_observations'' then map_ok enc_LegacyObservationsFields (dec_LegacyObservationsFields t)
      else if kind = ''system_parameters'' then map_ok enc_SystemParametersFields (dec_SystemParametersFields t)
      else if kind = ''text'' then map_ok enc_TextMessageFields (dec_TextMessageFields t)
      else if kind = ''network_auxiliary_station'' then map_ok enc_NetworkAuxiliaryStationFields (dec_NetworkAuxiliaryStationFields t)
      else if kind = ''network_correction_differences'' then map_ok enc_NetworkCorrectionDifferencesFields (dec_NetworkCorrectionDifferencesFields t)
      else if kind = ''helmert_transformation'' then map_ok enc_HelmertTransformationFields (dec_HelmertTransformationFields t)
      else if kind = ''residual_grid'' then map_ok enc_ResidualGridFields (dec_ResidualGridFields t)
      else if kind = ''network_residuals'' then map_ok enc_NetworkResidualsFields (dec_NetworkResidualsFields t)
      else if kind = ''physical_reference_station'' then map_ok enc_PhysicalReferenceStationFields (dec_PhysicalReferenceStationFields t)
      else if kind = ''fkp_gradients'' then map_ok enc_FkpGradientsFields (dec_FkpGradientsFields t)
      else if kind = ''navic_ephemeris'' then map_ok enc_NavicEphemerisFields (dec_NavicEphemerisFields t)
      else if kind = ''glonass_code_phase_biases'' then map_ok enc_GlonassCodePhaseBiasesFields (dec_GlonassCodePhaseBiasesFields t)
      else if kind = ''ssr_vtec'' then map_ok enc_SsrVtecFields (dec_SsrVtecFields t)
      else Inl BadArg)"

lemma canonical_fields_simps [result_simps]:
  "canonical_fields ''legacy_observations'' t = map_ok enc_LegacyObservationsFields (dec_LegacyObservationsFields t)"
  "canonical_fields ''system_parameters'' t = map_ok enc_SystemParametersFields (dec_SystemParametersFields t)"
  "canonical_fields ''text'' t = map_ok enc_TextMessageFields (dec_TextMessageFields t)"
  "canonical_fields ''network_auxiliary_station'' t = map_ok enc_NetworkAuxiliaryStationFields (dec_NetworkAuxiliaryStationFields t)"
  "canonical_fields ''network_correction_differences'' t = map_ok enc_NetworkCorrectionDifferencesFields (dec_NetworkCorrectionDifferencesFields t)"
  "canonical_fields ''helmert_transformation'' t = map_ok enc_HelmertTransformationFields (dec_HelmertTransformationFields t)"
  "canonical_fields ''residual_grid'' t = map_ok enc_ResidualGridFields (dec_ResidualGridFields t)"
  "canonical_fields ''network_residuals'' t = map_ok enc_NetworkResidualsFields (dec_NetworkResidualsFields t)"
  "canonical_fields ''physical_reference_station'' t = map_ok enc_PhysicalReferenceStationFields (dec_PhysicalReferenceStationFields t)"
  "canonical_fields ''fkp_gradients'' t = map_ok enc_FkpGradientsFields (dec_FkpGradientsFields t)"
  "canonical_fields ''navic_ephemeris'' t = map_ok enc_NavicEphemerisFields (dec_NavicEphemerisFields t)"
  "canonical_fields ''glonass_code_phase_biases'' t = map_ok enc_GlonassCodePhaseBiasesFields (dec_GlonassCodePhaseBiasesFields t)"
  "canonical_fields ''ssr_vtec'' t = map_ok enc_SsrVtecFields (dec_SsrVtecFields t)"
  by (simp_all add: canonical_fields_def)

lemma encode_after_checked_build:
  assumes "kind \<in> set checked_kinds" "build_message_with_policy C kind t policy = Inr m"
    "encode_message_with_policy C policy m = Inr u"
  shows "\<exists>fields. u = Tup [Atom kind, fields] \<and> canonical_fields kind t = Inr fields"
  using assms
  by (auto simp: checked_kinds_def result_simps map_ok_def and_then_eq_Inr
      dest!: message_sound)

end
