(* ===== verification/RtcmNifs.thy ===== *)
theory RtcmNifs
  imports RtcmMessage
begin

text \<open>
  The RTCM calls of \<open>native/sidereon_nif/src/rtcm.rs\<close>. A function of the core that is not part of
  \<open>rtcm_core\<close> is an argument of the call that uses it, under its name in the source. A byte buffer that
  leaves as a binary (\<open>bytes_to_binary\<close>) is \<open>Bin\<close>.
\<close>

section \<open>Stream diagnostics\<close>

datatype FrameSkipReason = Truncated | Malformed string | Departure RtcmDeparture

record FrameSkip =
  skip_offset :: u64
  skip_message_number :: "int option"
  skip_reason :: FrameSkipReason

definition frame_skip_term :: "FrameSkip \<Rightarrow> nterm" where
  "frame_skip_term skip =
     (let (reason, detail) =
        (case skip_reason skip of
           Truncated \<Rightarrow> (Atom ''truncated'', Atom ''nil'')
         | Malformed detail \<Rightarrow> (Atom ''malformed'', Utf8 detail)
         | Departure departure \<Rightarrow> (Atom ''departure'', departure_term departure))
      in nif_map
        [(''offset'', enc_u64 (skip_offset skip)),
         (''message_number'', enc_option enc_i64 (map_option as_i64 (skip_message_number skip))),
         (''reason'', reason), (''detail'', detail)])"

record StreamDiagnostics =
  diag_resync_bytes :: u64
  diag_crc_failures :: u64
  diag_skipped_frames :: "FrameSkip list"
  diag_departures :: "(u64 \<times> RtcmDeparture) list"

definition diagnostics_term :: "StreamDiagnostics \<Rightarrow> nterm" where
  "diagnostics_term diagnostics = nif_map
     [(''resync_bytes'', enc_u64 (diag_resync_bytes diagnostics)),
      (''crc_failures'', enc_u64 (diag_crc_failures diagnostics)),
      (''skipped_frames'', enc_list frame_skip_term (diag_skipped_frames diagnostics)),
      (''departures'', enc_list (\<lambda>(offset, departure). Tup [enc_u64 offset, departure_term departure])
         (diag_departures diagnostics))]"

definition parse_policy :: "string \<Rightarrow> RtcmPolicy NifResult" where
  "parse_policy label =
     (if label = ''strict'' then Inr Strict else if label = ''lenient'' then Inr Lenient
      else Inl (error_text ''unknown RTCM policy''))"

section \<open>Decoding calls\<close>

definition rtcm_decode_messages ::
  "('sys, 'ssr, 'sat, 'err) rtcm_core \<Rightarrow>
   (u8 list \<Rightarrow> ('sys, 'sat, 'err, ('sys, 'ssr) Message list) core_result) \<Rightarrow> u8 list \<Rightarrow> nterm NifResult" where
  "rtcm_decode_messages C decode_messages bytes =
     (case decode_messages bytes of
        Inl error \<Rightarrow> Inr (error_term (Utf8 (show_error (core_errors C) error)))
      | Inr messages \<Rightarrow>
          and_then (collect_results (map (\<lambda>message.
            map_err (raise_encode_error (core_errors C)) (encode_message C message)) messages)) (\<lambda>terms.
          Inr (ok_term (Lst terms))))"

definition rtcm_decode_stream ::
  "('sys, 'ssr, 'sat, 'err) rtcm_core \<Rightarrow>
   (u8 list \<Rightarrow> RtcmPolicy \<Rightarrow> ('sys, 'ssr) Message list \<times> StreamDiagnostics) \<Rightarrow> u8 list \<Rightarrow> string \<Rightarrow>
   nterm NifResult" where
  "rtcm_decode_stream C decode_stream_with_policy bytes policy =
     and_then (parse_policy policy) (\<lambda>policy.
     let (messages, diagnostics) = decode_stream_with_policy bytes policy
     in Inr (case collect_results (map (encode_message_with_policy C policy) messages) of
          Inl error \<Rightarrow> error_term (encode_error_reason (core_errors C) error)
        | Inr terms \<Rightarrow> ok_term (Tup [Lst terms, diagnostics_term diagnostics])))"

definition rtcm_decode_message ::
  "('sys, 'ssr, 'sat, 'err) rtcm_core \<Rightarrow> u8 list \<Rightarrow> string \<Rightarrow> nterm NifResult" where
  "rtcm_decode_message C body policy =
     and_then (parse_policy policy) (\<lambda>policy.
     Inr (case decode_with_policy C policy body of
        Inr (message, departures) \<Rightarrow>
          (case encode_message_with_policy C policy message of
             Inr term \<Rightarrow> ok_term (Tup [term, departures_term departures])
           | Inl error \<Rightarrow> error_term (encode_error_reason (core_errors C) error))
      | Inl error \<Rightarrow> error_term (Utf8 (show_error (core_errors C) error))))"

definition rtcm_message_number ::
  "('sys, 'ssr, 'sat, 'err) rtcm_core \<Rightarrow> (u8 list \<Rightarrow> ('sys, 'sat, 'err, int) core_result) \<Rightarrow> u8 list \<Rightarrow> nterm NifResult" where
  "rtcm_message_number C message_number body =
     Inr (case message_number body of
        Inr number \<Rightarrow> ok_term (enc_i64 (as_i64 number))
      | Inl error \<Rightarrow> error_term (Utf8 (show_error (core_errors C) error)))"

record FrameFields =
  frf_message_number :: i64
  frf_frame_len :: i64
  frf_reserved :: i64
  frf_body :: "u8 list"

definition enc_FrameFields :: "FrameFields \<Rightarrow> nterm" where
  "enc_FrameFields f = nif_map
     [(''message_number'', enc_i64 (frf_message_number f)), (''frame_len'', enc_i64 (frf_frame_len f)),
      (''reserved'', enc_i64 (frf_reserved f)), (''body'', enc_list enc_u8 (frf_body f))]"

definition dec_FrameFields :: "nterm \<Rightarrow> FrameFields NifResult" where
  "dec_FrameFields t =
     and_then (nif_field ''message_number'' dec_i64 t) (\<lambda>message_number.
     and_then (nif_field ''frame_len'' dec_i64 t) (\<lambda>frame_len.
     and_then (nif_field ''reserved'' dec_i64 t) (\<lambda>reserved.
     and_then (nif_field ''body'' (dec_list dec_u8) t) (\<lambda>body.
     Inr \<lparr>frf_message_number = message_number, frf_frame_len = frame_len, frf_reserved = reserved,
           frf_body = body\<rparr>))))"

interpretation frf: nif_codec enc_FrameFields dec_FrameFields
  by unfold_locales (simp_all only: enc_FrameFields_def dec_FrameFields_def nif_lookup codec_simps, simp_all)

lemmas FrameFields_codec [codec_simps] =
  frf.decodes frf.option_decodes frf.list_decodes

record Frame =
  frame_body :: "u8 list"
  frame_len :: u64
  frame_reserved :: int

definition rtcm_decode_frame ::
  "('sys, 'ssr, 'sat, 'err) rtcm_core \<Rightarrow> (u8 list \<Rightarrow> ('sys, 'sat, 'err, Frame) core_result) \<Rightarrow>
   (u8 list \<Rightarrow> ('sys, 'sat, 'err, int) core_result) \<Rightarrow> u8 list \<Rightarrow> nterm NifResult" where
  "rtcm_decode_frame C decode_frame message_number bytes =
     Inr (case decode_frame bytes of
        Inr frame \<Rightarrow>
          ok_term (enc_FrameFields
            \<lparr>frf_message_number = (case message_number (frame_body frame) of Inr n \<Rightarrow> as_i64 n | Inl _ \<Rightarrow> - 1),
             frf_frame_len = frame_len frame, frf_reserved = as_i64 (frame_reserved frame),
             frf_body = frame_body frame\<rparr>)
      | Inl error \<Rightarrow> error_term (Utf8 (show_error (core_errors C) error)))"

section \<open>Encoding calls\<close>

definition encoded_reply ::
  "('sys, 'ssr, 'sat, 'err) rtcm_core \<Rightarrow> ('sys, 'sat, 'err, u8 list) core_result \<Rightarrow> nterm" where
  "encoded_reply C result =
     (case result of
        Inr bytes \<Rightarrow> ok_term (Bin bytes)
      | Inl error \<Rightarrow> error_term (encode_error_reason (core_errors C) error))"

definition rtcm_encode_message ::
  "('sys, 'ssr, 'sat, 'err) rtcm_core \<Rightarrow> (('sys, 'ssr) Message \<Rightarrow> ('sys, 'sat, 'err, u8 list) core_result) \<Rightarrow>
   string \<Rightarrow> nterm \<Rightarrow> nterm NifResult" where
  "rtcm_encode_message C to_frame kind fields' =
     and_then (build_message C kind fields') (\<lambda>message. Inr (encoded_reply C (to_frame message)))"

definition rtcm_encode ::
  "('sys, 'ssr, 'sat, 'err) rtcm_core \<Rightarrow> (('sys, 'ssr) Message \<Rightarrow> ('sys, 'sat, 'err, u8 list) core_result) \<Rightarrow>
   string \<Rightarrow> nterm \<Rightarrow> nterm NifResult" where
  "rtcm_encode C encode kind fields' =
     and_then (build_message C kind fields') (\<lambda>message. Inr (encoded_reply C (encode message)))"

definition rtcm_encode_with_policy ::
  "('sys, 'ssr, 'sat, 'err) rtcm_core \<Rightarrow>
   (RtcmPolicy \<Rightarrow> ('sys, 'ssr) Message \<Rightarrow> ('sys, 'sat, 'err, u8 list \<times> RtcmDeparture list) core_result) \<Rightarrow>
   string \<Rightarrow> nterm \<Rightarrow> string \<Rightarrow> nterm NifResult" where
  "rtcm_encode_with_policy C message_encode kind fields' policy =
     and_then (parse_policy policy) (\<lambda>policy.
     and_then (build_message_with_policy C kind fields' policy) (\<lambda>message.
     Inr (case message_encode policy message of
        Inr (body, departures) \<Rightarrow> ok_term (Tup [Bin body, departures_term departures])
      | Inl error \<Rightarrow> error_term (encode_error_reason (core_errors C) error))))"

definition rtcm_encode_frame ::
  "('sys, 'ssr, 'sat, 'err) rtcm_core \<Rightarrow> (('sys, 'ssr) Message \<Rightarrow> ('sys, 'sat, 'err, u8 list) core_result) \<Rightarrow>
   string \<Rightarrow> nterm \<Rightarrow> nterm NifResult" where
  "rtcm_encode_frame C to_frame kind fields' =
     and_then (build_message C kind fields') (\<lambda>message. Inr (encoded_reply C (to_frame message)))"

definition rtcm_encode_frame_body ::
  "('sys, 'ssr, 'sat, 'err) rtcm_core \<Rightarrow> (u8 list \<Rightarrow> int \<Rightarrow> ('sys, 'sat, 'err, u8 list) core_result) \<Rightarrow>
   u8 list \<Rightarrow> i64 \<Rightarrow> nterm NifResult" where
  "rtcm_encode_frame_body C encode_frame_with_reserved body reserved =
     (case try_from U8 reserved of
        None \<Rightarrow> Inr (error_term (Tup [Atom ''invalid_input'',
          Utf8 (''RTCM frame reserved bits '' @ show_int (sint reserved) @ '' do not fit six bits'')]))
      | Some r \<Rightarrow> Inr (encoded_reply C (encode_frame_with_reserved body r)))"

section \<open>Lock times\<close>

definition rtcm_lli_bits :: "int \<Rightarrow> int \<Rightarrow> nterm" where
  "rtcm_lli_bits lli_loss_of_lock lli_half_cycle =
     Tup [enc_i64 (as_i64 lli_loss_of_lock), enc_i64 (as_i64 lli_half_cycle)]"

definition rtcm_minimum_lock_time_ms ::
  "(MsmKind \<Rightarrow> int \<Rightarrow> int option) \<Rightarrow> string \<Rightarrow> i64 \<Rightarrow> nterm NifResult" where
  "rtcm_minimum_lock_time_ms minimum_lock_time_ms kind indicator =
     and_then (parse_msm_kind kind) (\<lambda>kind.
     Inr (ok_term (enc_option enc_i64 (map_option as_i64 (minimum_lock_time_ms kind (as_ty U16 indicator))))))"

record PreviousLock =
  prev_min_lock_time_ms :: "int option"
  prev_elapsed_ms :: int

definition rtcm_derive_lli ::
  "(PreviousLock option \<Rightarrow> int option \<Rightarrow> bool \<Rightarrow> int) \<Rightarrow> i64 option \<Rightarrow> i64 option \<Rightarrow> i64 option \<Rightarrow> bool \<Rightarrow> i64" where
  "rtcm_derive_lli derive_lli previous_min_lock_time_ms elapsed_ms current_min_lock_time_ms half_cycle_ambiguity =
     (let previous = map_option (\<lambda>elapsed_ms.
        \<lparr>prev_min_lock_time_ms = map_option (as_ty U32) previous_min_lock_time_ms,
         prev_elapsed_ms = as_ty U64 elapsed_ms\<rparr>) elapsed_ms
      in as_i64 (derive_lli previous (map_option (as_ty U32) current_min_lock_time_ms) half_cycle_ambiguity))"

definition rtcm_msm_epoch_dt_ms ::
  "'sys msm_core \<Rightarrow> ('sys \<Rightarrow> int \<Rightarrow> int \<Rightarrow> int) \<Rightarrow> string \<Rightarrow> i64 \<Rightarrow> i64 \<Rightarrow> nterm NifResult" where
  "rtcm_msm_epoch_dt_ms C msm_epoch_dt_ms system previous current =
     and_then (parse_system C system) (\<lambda>system.
     Inr (ok_term (enc_i64 (as_i64 (msm_epoch_dt_ms system (as_ty U32 previous) (as_ty U32 current))))))"

definition rtcm_msm_signal_rinex_code ::
  "'sys msm_core \<Rightarrow> ('sys \<Rightarrow> int \<Rightarrow> string option) \<Rightarrow> string \<Rightarrow> i64 \<Rightarrow> nterm NifResult" where
  "rtcm_msm_signal_rinex_code C msm_signal_rinex_code system signal_id =
     and_then (parse_system C system) (\<lambda>system.
     Inr (ok_term (enc_option Utf8 (msm_signal_rinex_code system (as_ty U8 signal_id)))))"

record CellLli =
  cell_satellite_id :: int
  cell_signal_id :: int
  cell_lli :: int
  cell_min_lock_time_ms :: "int option"

record CellLliFields =
  clf_satellite_id :: i64
  clf_signal_id :: i64
  clf_lli :: i64
  clf_min_lock_time_ms :: "i64 option"

definition enc_CellLliFields :: "CellLliFields \<Rightarrow> nterm" where
  "enc_CellLliFields f = nif_map
     [(''satellite_id'', enc_i64 (clf_satellite_id f)), (''signal_id'', enc_i64 (clf_signal_id f)),
      (''lli'', enc_i64 (clf_lli f)),
      (''min_lock_time_ms'', enc_option enc_i64 (clf_min_lock_time_ms f))]"

definition dec_CellLliFields :: "nterm \<Rightarrow> CellLliFields NifResult" where
  "dec_CellLliFields t =
     and_then (nif_field ''satellite_id'' dec_i64 t) (\<lambda>satellite_id.
     and_then (nif_field ''signal_id'' dec_i64 t) (\<lambda>signal_id.
     and_then (nif_field ''lli'' dec_i64 t) (\<lambda>lli.
     and_then (nif_field ''min_lock_time_ms'' (dec_option dec_i64) t) (\<lambda>min_lock_time_ms.
     Inr \<lparr>clf_satellite_id = satellite_id, clf_signal_id = signal_id, clf_lli = lli,
           clf_min_lock_time_ms = min_lock_time_ms\<rparr>))))"

interpretation clf: nif_codec enc_CellLliFields dec_CellLliFields
  by unfold_locales (simp_all only: enc_CellLliFields_def dec_CellLliFields_def nif_lookup codec_simps, simp_all)

lemmas CellLliFields_codec [codec_simps] =
  clf.decodes clf.option_decodes clf.list_decodes

definition CellLliFields_from :: "CellLli \<Rightarrow> CellLliFields" where
  "CellLliFields_from cell =
     \<lparr>clf_satellite_id = as_i64 (cell_satellite_id cell), clf_signal_id = as_i64 (cell_signal_id cell),
      clf_lli = as_i64 (cell_lli cell),
      clf_min_lock_time_ms = map_option as_i64 (cell_min_lock_time_ms cell)\<rparr>"

text \<open>One tracker runs over the messages in order; \<open>observe\<close> is its step.\<close>

fun msm_lli_rows ::
  "'sys msm_core \<Rightarrow> ('tracker \<Rightarrow> 'sys MsmMessage \<Rightarrow> CellLli list \<times> 'tracker) \<Rightarrow> 'tracker \<Rightarrow> MsmMessageFields list \<Rightarrow>
   CellLliFields list list NifResult" where
  "msm_lli_rows C observe tracker [] = Inr []"
| "msm_lli_rows C observe tracker (f # fs) =
     and_then (build_msm C f) (\<lambda>message.
     let (cells, tracker') = observe tracker message
     in map_ok ((#) (map CellLliFields_from cells)) (msm_lli_rows C observe tracker' fs))"

definition rtcm_msm_lli ::
  "'sys msm_core \<Rightarrow> ('tracker \<Rightarrow> 'sys MsmMessage \<Rightarrow> CellLli list \<times> 'tracker) \<Rightarrow> 'tracker \<Rightarrow> MsmMessageFields list \<Rightarrow>
   nterm NifResult" where
  "rtcm_msm_lli C observe tracker messages =
     map_ok (enc_list (enc_list enc_CellLliFields)) (msm_lli_rows C observe tracker messages)"

section \<open>VTEC evaluation\<close>

record SsrVtecLayerEvaluationFields =
  vlef_pierce_latitude_rad :: f64
  vlef_pierce_longitude_rad :: f64
  vlef_sun_fixed_longitude_rad :: f64
  vlef_vtec_tecu :: f64
  vlef_mapping_factor :: f64
  vlef_stec_tecu :: f64

definition enc_SsrVtecLayerEvaluationFields :: "SsrVtecLayerEvaluationFields \<Rightarrow> nterm" where
  "enc_SsrVtecLayerEvaluationFields f = nif_map
     [(''pierce_latitude_rad'', Float (vlef_pierce_latitude_rad f)),
      (''pierce_longitude_rad'', Float (vlef_pierce_longitude_rad f)),
      (''sun_fixed_longitude_rad'', Float (vlef_sun_fixed_longitude_rad f)),
      (''vtec_tecu'', Float (vlef_vtec_tecu f)), (''mapping_factor'', Float (vlef_mapping_factor f)),
      (''stec_tecu'', Float (vlef_stec_tecu f))]"

definition dec_SsrVtecLayerEvaluationFields :: "nterm \<Rightarrow> SsrVtecLayerEvaluationFields NifResult" where
  "dec_SsrVtecLayerEvaluationFields t =
     and_then (nif_field ''pierce_latitude_rad'' dec_f64 t) (\<lambda>pierce_latitude_rad.
     and_then (nif_field ''pierce_longitude_rad'' dec_f64 t) (\<lambda>pierce_longitude_rad.
     and_then (nif_field ''sun_fixed_longitude_rad'' dec_f64 t) (\<lambda>sun_fixed_longitude_rad.
     and_then (nif_field ''vtec_tecu'' dec_f64 t) (\<lambda>vtec_tecu.
     and_then (nif_field ''mapping_factor'' dec_f64 t) (\<lambda>mapping_factor.
     and_then (nif_field ''stec_tecu'' dec_f64 t) (\<lambda>stec_tecu.
     Inr \<lparr>vlef_pierce_latitude_rad = pierce_latitude_rad,
           vlef_pierce_longitude_rad = pierce_longitude_rad,
           vlef_sun_fixed_longitude_rad = sun_fixed_longitude_rad, vlef_vtec_tecu = vtec_tecu,
           vlef_mapping_factor = mapping_factor, vlef_stec_tecu = stec_tecu\<rparr>))))))"

interpretation vlef: nif_codec enc_SsrVtecLayerEvaluationFields dec_SsrVtecLayerEvaluationFields
  by unfold_locales (simp_all only: enc_SsrVtecLayerEvaluationFields_def dec_SsrVtecLayerEvaluationFields_def nif_lookup codec_simps, simp_all)

lemmas SsrVtecLayerEvaluationFields_codec [codec_simps] =
  vlef.decodes vlef.option_decodes vlef.list_decodes

record SsrVtecEvaluationFields =
  vtef_layers :: "SsrVtecLayerEvaluationFields list"
  vtef_stec_tecu :: f64
  vtef_pseudorange_delay_m :: f64
  vtef_phase_range_advance_m :: f64

definition enc_SsrVtecEvaluationFields :: "SsrVtecEvaluationFields \<Rightarrow> nterm" where
  "enc_SsrVtecEvaluationFields f = nif_map
     [(''layers'', enc_list enc_SsrVtecLayerEvaluationFields (vtef_layers f)),
      (''stec_tecu'', Float (vtef_stec_tecu f)),
      (''pseudorange_delay_m'', Float (vtef_pseudorange_delay_m f)),
      (''phase_range_advance_m'', Float (vtef_phase_range_advance_m f))]"

definition dec_SsrVtecEvaluationFields :: "nterm \<Rightarrow> SsrVtecEvaluationFields NifResult" where
  "dec_SsrVtecEvaluationFields t =
     and_then (nif_field ''layers'' (dec_list dec_SsrVtecLayerEvaluationFields) t) (\<lambda>layers.
     and_then (nif_field ''stec_tecu'' dec_f64 t) (\<lambda>stec_tecu.
     and_then (nif_field ''pseudorange_delay_m'' dec_f64 t) (\<lambda>pseudorange_delay_m.
     and_then (nif_field ''phase_range_advance_m'' dec_f64 t) (\<lambda>phase_range_advance_m.
     Inr \<lparr>vtef_layers = layers, vtef_stec_tecu = stec_tecu,
           vtef_pseudorange_delay_m = pseudorange_delay_m,
           vtef_phase_range_advance_m = phase_range_advance_m\<rparr>))))"

interpretation vtef: nif_codec enc_SsrVtecEvaluationFields dec_SsrVtecEvaluationFields
  by unfold_locales (simp_all only: enc_SsrVtecEvaluationFields_def dec_SsrVtecEvaluationFields_def nif_lookup codec_simps, simp_all)

lemmas SsrVtecEvaluationFields_codec [codec_simps] =
  vtef.decodes vtef.option_decodes vtef.list_decodes

record SsrVtecLayerEvaluation =
  vle_pierce_latitude_rad :: f64
  vle_pierce_longitude_rad :: f64
  vle_sun_fixed_longitude_rad :: f64
  vle_vtec_tecu :: f64
  vle_mapping_factor :: f64
  vle_stec_tecu :: f64

record SsrVtecEvaluation =
  vte_layers :: "SsrVtecLayerEvaluation list"
  vte_stec_tecu :: f64
  vte_pseudorange_delay_m :: f64
  vte_phase_range_advance_m :: f64

definition SsrVtecEvaluationFields_from :: "SsrVtecEvaluation \<Rightarrow> SsrVtecEvaluationFields" where
  "SsrVtecEvaluationFields_from evaluation =
     \<lparr>vtef_layers = map (\<lambda>layer.
        \<lparr>vlef_pierce_latitude_rad = vle_pierce_latitude_rad layer,
         vlef_pierce_longitude_rad = vle_pierce_longitude_rad layer,
         vlef_sun_fixed_longitude_rad = vle_sun_fixed_longitude_rad layer,
         vlef_vtec_tecu = vle_vtec_tecu layer, vlef_mapping_factor = vle_mapping_factor layer,
         vlef_stec_tecu = vle_stec_tecu layer\<rparr>) (vte_layers evaluation),
      vtef_stec_tecu = vte_stec_tecu evaluation,
      vtef_pseudorange_delay_m = vte_pseudorange_delay_m evaluation,
      vtef_phase_range_advance_m = vte_phase_range_advance_m evaluation\<rparr>"

definition three_coordinates :: "string \<Rightarrow> f64 list \<Rightarrow> f64 list NifResult" where
  "three_coordinates message xs = (if length xs = 3 then Inr xs else Inl (error_text message))"

definition rtcm_ssr_vtec_evaluate ::
  "('sys, 'ssr, 'sat, 'err) rtcm_core \<Rightarrow>
   (SsrVtecMessage \<Rightarrow> f64 list \<Rightarrow> f64 list \<Rightarrow> f64 \<Rightarrow> f64 \<Rightarrow> ('sys, 'sat, 'err, SsrVtecEvaluation) core_result) \<Rightarrow>
   SsrVtecFields \<Rightarrow> f64 list \<Rightarrow> f64 list \<Rightarrow> f64 \<Rightarrow> f64 \<Rightarrow> nterm NifResult" where
  "rtcm_ssr_vtec_evaluate C evaluate f receiver_ecef_m satellite_transmit_ecef_m gps_seconds_of_day frequency_hz =
     and_then (three_coordinates ''receiver ECEF must contain three coordinates'' receiver_ecef_m) (\<lambda>receiver.
     and_then (three_coordinates ''satellite ECEF must contain three coordinates'' satellite_transmit_ecef_m) (\<lambda>satellite.
     and_then (build_ssr_vtec (core_layout C) f) (\<lambda>message.
     Inr (case evaluate message receiver satellite gps_seconds_of_day frequency_hz of
        Inr evaluation \<Rightarrow> ok_term (enc_SsrVtecEvaluationFields (SsrVtecEvaluationFields_from evaluation))
      | Inl (RtcmConversion (VtecEvaluation problem)) \<Rightarrow>
          error_term (Tup [Atom ''vtec_evaluation'',
            enc_VtecEvaluationErrorFields (VtecEvaluationErrorFields_from problem)])
      | Inl (RtcmConversion other) \<Rightarrow>
          error_term (Tup [Atom ''rtcm_conversion_error'', enc_RtcmConversionErrorFields
            (rtcm_conversion_error_fields (core_msm C) (show_satellite (core_errors C)) other)])
      | Inl (RtcmEncode error) \<Rightarrow>
          error_term (Tup [Atom ''rtcm_encode_error'',
            enc_RtcmEncodeErrorFields (rtcm_encode_error_fields (core_msm C) error)])
      | Inl error \<Rightarrow>
          error_term (Tup [Atom ''rtcm_conversion_error'', Utf8 (show_error (core_errors C) error)])))))"

end
