(* ===== verification/Rtcm_Props.thy ===== *)
theory Rtcm_Props
  imports RtcmNifs
begin

text \<open>
  Properties of the RTCM boundary: messages survive the way out and back, decoded messages encode
  again as the core would encode them, what is built has the types of its fields, which kinds
  refuse and which kinds reduce a value that does not fit, error maps and raised errors.
\<close>

section \<open>A concrete core\<close>

text \<open>For the witnesses: one constellation, every inferred field an \<open>i32\<close>, SSR messages of one value,
  and bodies that are always written empty.\<close>

definition i32_layout :: layout where
  "i32_layout =
     \<lparr>an_message_number_ty = I32, an_interval_ty = I32, sys_reference_station_id_ty = I32,
      sys_mjd_ty = I32, sys_seconds_of_day_ty = I32, sys_announcement_count_ty = I32,
      sys_leap_seconds_ty = I32, tx_reference_station_id_ty = I32, tx_mjd_ty = I32,
      tx_seconds_of_day_ty = I32, tx_character_count_ty = I32, aux_network_id_ty = I32,
      aux_subnetwork_id_ty = I32, aux_auxiliary_station_count_ty = I32, aux_master_station_id_ty = I32,
      aux_auxiliary_station_id_ty = I32, aux_delta_latitude_ty = I32, aux_delta_longitude_ty = I32,
      aux_delta_height_ty = I32, gb_reference_station_id_ty = I32, gb_reserved_ty = I32,
      gb_l1_ca_ty = I32, gb_l1_p_ty = I32, gb_l2_ca_ty = I32, gb_l2_p_ty = I32,
      nd_satellite_id_ty = I32, nd_ambiguity_status_ty = I32, nd_non_sync_count_ty = I32,
      nd_geometric_ty = I32, nd_iod_ty = I32, nd_ionospheric_ty = I32, ncd_message_number_ty = I32,
      ncd_network_id_ty = I32, ncd_subnetwork_id_ty = I32, ncd_epoch_time_ty = I32,
      ncd_master_station_id_ty = I32, ncd_auxiliary_station_id_ty = I32, ncd_satellite_count_ty = I32,
      hel_message_number_ty = I32, hel_system_id_ty = I32, hel_utilized_messages_ty = I32,
      hel_plate_number_ty = I32, hel_computation_indicator_ty = I32, hel_height_indicator_ty = I32,
      hel_validity_latitude_ty = I32, hel_validity_longitude_ty = I32,
      hel_validity_extension_latitude_ty = I32, hel_validity_extension_longitude_ty = I32,
      hel_dx_ty = I32, hel_dy_ty = I32, hel_dz_ty = I32, hel_r1_ty = I32, hel_r2_ty = I32,
      hel_r3_ty = I32, hel_ds_ty = I32, hel_add_as_ty = I32, hel_add_bs_ty = I32, hel_add_at_ty = I32,
      hel_add_bt_ty = I32, hel_horizontal_quality_ty = I32, hel_vertical_quality_ty = I32,
      gr_horizontal_1_ty = I32, gr_horizontal_2_ty = I32, gr_height_ty = I32,
      rg_message_number_ty = I32, rg_system_id_ty = I32, rg_origin_1_ty = I32, rg_origin_2_ty = I32,
      rg_extension_1_ty = I32, rg_extension_2_ty = I32, rg_mean_offset_1_ty = I32,
      rg_mean_offset_2_ty = I32, rg_mean_height_offset_ty = I32, rg_horizontal_interpolation_ty = I32,
      rg_vertical_interpolation_ty = I32, rg_horizontal_quality_ty = I32, rg_vertical_quality_ty = I32,
      rg_mjd_ty = I32, nr_satellite_id_ty = I32, nr_s_oc_ty = I32, nr_s_od_ty = I32, nr_s_oh_ty = I32,
      nr_s_lc_ty = I32, nr_s_ld_ty = I32, nrs_message_number_ty = I32, nrs_epoch_time_ty = I32,
      nrs_reference_station_id_ty = I32, nrs_reference_station_count_ty = I32,
      nrs_satellite_count_ty = I32, prs_non_physical_station_id_ty = I32,
      prs_physical_station_id_ty = I32, prs_itrf_realization_year_ty = I32, fg_satellite_id_ty = I32,
      fg_iod_ty = I32, fg_geometric_north_ty = I32, fg_geometric_east_ty = I32,
      fg_ionospheric_north_ty = I32, fg_ionospheric_east_ty = I32, fkp_message_number_ty = I32,
      fkp_reference_station_id_ty = I32, fkp_epoch_time_ty = I32, fkp_satellite_count_ty = I32,
      vl_height_ty = I32, vl_degree_ty = I32, vl_order_ty = I32, vl_cosine_ty = I32, vl_sine_ty = I32,
      vt_message_number_ty = I32, vt_igs_ssr_version_ty = I32, vt_epoch_time_s_ty = I32,
      vt_update_interval_ty = I32, vt_iod_ssr_ty = I32, vt_provider_id_ty = I32,
      vt_solution_id_ty = I32, vt_quality_indicator_ty = I32, pp_add_scale_ty = I32,
      pp_false_easting_ty = I32, pp_azimuth_ty = I32, pp_rectified_to_skew_ty = I32,
      pp_easting_ty = I32, prj_system_id_ty = I32, prj_projection_type_ty = I32\<rparr>"

definition one_msm :: "unit msm_core" where
  "one_msm =
     \<lparr>letter = (\<lambda>_. CHR ''G''), from_letter = (\<lambda>_. Some ()), signals_mask = (\<lambda>_. 0),
      kind_number = (\<lambda>k. case k of Msm1 \<Rightarrow> 1 | Msm2 \<Rightarrow> 2 | Msm3 \<Rightarrow> 3 | Msm4 \<Rightarrow> 4 | Msm5 \<Rightarrow> 5
        | Msm6 \<Rightarrow> 6 | Msm7 \<Rightarrow> 7)\<rparr>"

definition one_core :: "(unit, unit, unit, unit) rtcm_core" where
  "one_core =
     \<lparr>core_errors = \<lparr>error_msm = one_msm, show_satellite = (\<lambda>_. ''G01''), show_error = (\<lambda>_. ''error'')\<rparr>,
      core_msm = one_msm, core_layout = i32_layout, station_x_m = (\<lambda>_. 0), station_y_m = (\<lambda>_. 0),
      station_z_m = (\<lambda>_. 0), station_antenna_height_m = (\<lambda>_. None), projection_number = (\<lambda>_. 1025),
      navic_satellite = (\<lambda>_. Inr ()), ssr_message_number = (\<lambda>_. 1057),
      ssr_encode_with_policy = (\<lambda>_ _. Inr ([], [])), body_encode = (\<lambda>_ _. Inr ([], [])),
      decode_with_policy = (\<lambda>_ body. if body = [] then Inr (Message.Ssr (), [])
        else Inr (Message.Unsupported \<lparr>un_message_number = 4090, un_body = body\<rparr>, []))\<rparr>"

lemma i32_layout_laws: "layout_laws i32_layout"
  by (simp add: layout_laws_def i32_layout_def)

lemma one_msm_laws: "msm_laws one_msm"
  by (auto simp: msm_laws_def one_msm_def in_ty_def split: MsmKind.splits)

lemma one_core_laws: "rtcm_laws one_core"
  by (simp add: rtcm_laws_def one_core_def one_msm_laws i32_layout_laws)

definition one_text :: "(unit, unit) Message" where
  "one_text = Message.Text
     \<lparr>tx_reference_station_id = 7, tx_mjd = 60000, tx_seconds_of_day = 86399, tx_character_count = 2,
      tx_code_units = [72, 105], tx_trailing_bits = []\<rparr>"

lemma one_text_carried: "carried_Message one_core one_text"
  by (simp add: one_text_def one_core_def carried_TextMessage_def i32_layout_def in_ty_def)

lemma one_text_encodes: "\<exists>t. encode_message_with_policy one_core policy one_text = Inr t"
  by (simp add: one_text_def one_core_def)

section \<open>Round trips\<close>

text \<open>C6. Every message whose integers have their declared types, sent out as \<open>{type, fields}\<close> under a
  policy, is built again unchanged from that pair under the same policy: all twenty-five message
  types, through the terms that cross the boundary.\<close>

theorem rtcm_message_round_trip:
  assumes "rtcm_laws C" "carried_Message C m" "encode_message_with_policy C policy m = Inr t"
  shows "\<exists>kind given. t = Tup [Atom kind, given] \<and>
    build_message_with_policy C kind given policy = Inr m"
  using assms by (rule build_after_encode)

theorem rtcm_message_round_trip_witness:
  "\<exists>kind given. encode_message_with_policy one_core Strict one_text = Inr (Tup [Atom kind, given]) \<and>
     build_message_with_policy one_core kind given Strict = Inr one_text"
  using rtcm_message_round_trip [OF one_core_laws one_text_carried] one_text_encodes [of Strict] by metis

text \<open>C8. Re-encoding is transparent: if a body decodes under a policy to a message that the boundary
  hands out as \<open>{type, fields}\<close>, then encoding that pair under the policy gives the reply that the core's
  own encoding of the decoded message gives.\<close>

theorem decoded_messages_reencode:
  assumes "rtcm_laws C" "parse_policy policy = Inr p"
    "decode_with_policy C p body = Inr (m, read)" "carried_Message C m"
    "rtcm_decode_message C body policy = Inr (ok_term (Tup [Tup [Atom kind, given], departures]))"
  shows "rtcm_encode_with_policy C message_encode kind given policy =
    Inr (case message_encode p m of
           Inr (again, written) \<Rightarrow> ok_term (Tup [Bin again, departures_term written])
         | Inl error \<Rightarrow> error_term (encode_error_reason (core_errors C) error))"
proof -
  from assms(2,3,5) have "encode_message_with_policy C p m = Inr (Tup [Atom kind, given])"
    by (auto simp: rtcm_decode_message_def split: sum.splits)
  from build_after_encode [OF assms(1,4) this] have "build_message_with_policy C kind given p = Inr m" by simp
  with assms(2) show ?thesis by (simp add: rtcm_encode_with_policy_def)
qed

theorem decoded_messages_reencode_witness:
  "\<exists>given. rtcm_decode_message one_core [255, 160] ''strict'' =
       Inr (ok_term (Tup [Tup [Atom ''unsupported'', given], Lst []])) \<and>
     rtcm_encode_with_policy one_core (\<lambda>_ _. Inr ([255, 160], [])) ''unsupported'' given ''strict'' =
       Inr (ok_term (Tup [Bin [255, 160], Lst []]))"
proof -
  let ?m = "Message.Unsupported \<lparr>un_message_number = 4090, un_body = [255, 160]\<rparr>"
  let ?given = "enc_UnsupportedFields \<lparr>unf_message_number = as_i64 4090, unf_body = [255, 160]\<rparr>"
  have out: "rtcm_decode_message one_core [255, 160] ''strict'' =
      Inr (ok_term (Tup [Tup [Atom ''unsupported'', ?given], Lst []]))"
    by (simp add: rtcm_decode_message_def parse_policy_def one_core_def departures_term_def enc_list_def)
  have "rtcm_encode_with_policy one_core (\<lambda>_ _. Inr ([255, 160], [])) ''unsupported'' ?given ''strict'' =
      Inr (ok_term (Tup [Bin [255, 160], departures_term []]))"
    using decoded_messages_reencode [OF one_core_laws _ _ _ out, of Strict ?m "[]" "\<lambda>_ _. Inr ([255, 160], [])"]
    by (simp add: parse_policy_def one_core_def in_ty_def)
  with out show ?thesis by (auto simp: departures_term_def enc_list_def)
qed

section \<open>Types of fields\<close>



text \<open>For the thirteen kinds whose fields are checked, building alters nothing: the map that was
  accepted, reduced to the keys of its structure, is the map the built message leaves with.\<close>

theorem checked_kinds_exact:
  assumes "kind \<in> set checked_kinds" "build_message_with_policy C kind given policy = Inr m"
    "encode_message_with_policy C policy m = Inr t"
  shows "\<exists>out. t = Tup [Atom kind, out] \<and> canonical_fields kind given = Inr out"
  using assms by (rule encode_after_checked_build)

theorem checked_kinds_exact_witness:
  "\<exists>given out. build_message_with_policy one_core ''text'' given Strict = Inr one_text \<and>
     encode_message_with_policy one_core Strict one_text = Inr (Tup [Atom ''text'', out]) \<and>
     canonical_fields ''text'' given = Inr out"
proof -
  obtain kind given where e: "encode_message_with_policy one_core Strict one_text = Inr (Tup [Atom kind, given])"
    and b: "build_message_with_policy one_core kind given Strict = Inr one_text"
    using build_after_encode [OF one_core_laws one_text_carried] one_text_encodes [of Strict] by metis
  from e have "kind = ''text''" by (auto simp: one_text_def one_core_def)
  with e b checked_kinds_exact [of kind one_core given Strict one_text "Tup [Atom kind, given]"]
  show ?thesis by (auto simp: checked_kinds_def)
qed




section \<open>Lock time indicators\<close>

text \<open>The indicators as a specification: the tracker observes the messages in order.\<close>

fun tracker_run :: "('tracker \<Rightarrow> 'sys MsmMessage \<Rightarrow> CellLli list \<times> 'tracker) \<Rightarrow> 'tracker \<Rightarrow> 'sys MsmMessage list \<Rightarrow>
    CellLli list list" where
  "tracker_run observe tracker [] = []"
| "tracker_run observe tracker (m # ms) =
     fst (observe tracker m) # tracker_run observe (snd (observe tracker m)) ms"

lemma msm_lli_rows_eq:
  "msm_lli_rows C observe tracker fs =
     map_ok (\<lambda>ms. map (map CellLliFields_from) (tracker_run observe tracker ms)) (collect_results (map (build_msm C) fs))"
proof (induction fs arbitrary: tracker)
  case (Cons f fs)
  show ?case
    by (cases "build_msm C f"; cases "collect_results (map (build_msm C) fs)")
      (simp_all add: Cons case_prod_unfold Let_def)
qed simp

text \<open>C10. \<open>rtcm_msm_lli\<close> is one tracker run over the messages the maps build: it answers only when every map
  builds, with the first refusal otherwise, and the rows are those of the tracker in message order.\<close>

theorem msm_lli_is_tracker_run:
  "rtcm_msm_lli C observe tracker fs =
     map_ok (\<lambda>ms. enc_list (enc_list (enc_CellLliFields \<circ> CellLliFields_from)) (tracker_run observe tracker ms))
       (collect_results (map (build_msm C) fs))"
  by (cases "collect_results (map (build_msm C) fs)")
    (simp_all add: rtcm_msm_lli_def msm_lli_rows_eq enc_list_def comp_def)

section \<open>Errors\<close>

text \<open>The integers of an error that its map carries as \<open>i64\<close>, and the errors that have a name here.\<close>

fun mask_problem_ints :: "MsmMaskProblem \<Rightarrow> int list" where
  "mask_problem_ints (SatelliteOutsideMask satellite) = [satellite]"
| "mask_problem_ints (SatelliteListedTwice satellite) = [satellite]"
| "mask_problem_ints (SignalOutsideMask signal) = [signal]"
| "mask_problem_ints (SignalNotInMask signal mask') = [signal, mask']"
| "mask_problem_ints (SignalSatelliteNotListed signal satellite) = [signal, satellite]"
| "mask_problem_ints (CellListedTwice signal satellite) = [signal, satellite]"
| "mask_problem_ints UnnamedMaskProblem = []"

fun departure_ints :: "RtcmDeparture \<Rightarrow> int list" where
  "departure_ints (FrameReservedBits reserved) = [reserved]"
| "departure_ints (TrailingBits message_number bits) = [message_number]"
| "departure_ints (MsmCellMaskOver64 message_number cells) = [message_number, cells]"
| "departure_ints (OrderExceedsDegree message_number layer_index degree order) =
     [message_number, layer_index, degree, order]"
| "departure_ints (SsrRecordsShort message_number declared read') = [message_number, declared, read']"
| "departure_ints (RecordsShort message_number declared read') = [message_number, declared, read']"
| "departure_ints (UnnamedDeparture _) = []"

fun encode_error_ints :: "'sys RtcmEncodeError \<Rightarrow> int list" where
  "encode_error_ints (RtcmEncodeError.FieldOutOfRange message_number field value width encoding) = [message_number, width]"
| "encode_error_ints (RtcmEncodeError.NegativeZeroWithValue message_number field value) = [message_number]"
| "encode_error_ints (RtcmEncodeError.NegativeZeroMask message_number mask') = [message_number]"
| "encode_error_ints (RtcmEncodeError.MessageNumber message_number rec) = [message_number]"
| "encode_error_ints (RtcmEncodeError.FieldPresence message_number rec field carried) = [message_number]"
| "encode_error_ints (RtcmEncodeError.SatelliteFieldPresence message_number rec satellite field carried) = [message_number, satellite]"
| "encode_error_ints (RtcmEncodeError.CountMismatch message_number field expected actual) = [message_number, expected, actual]"
| "encode_error_ints (RtcmEncodeError.ValueOutOfRange message_number field value minimum maximum) = [message_number]"
| "encode_error_ints (RtcmEncodeError.NonLatin1Character field character) = []"
| "encode_error_ints (RtcmEncodeError.SatelliteIdOutOfRange message_number field value width) = [message_number, width]"
| "encode_error_ints (RtcmEncodeError.SsrSatelliteIdOutOfRange message_number value width) = [message_number, value, width]"
| "encode_error_ints (RtcmEncodeError.SsrRecordsNotCarried message_number kind records count) = [message_number, count]"
| "encode_error_ints (RtcmEncodeError.SsrCombinedRecordCounts message_number orbit clock) = [message_number, orbit, clock]"
| "encode_error_ints (RtcmEncodeError.SsrCombinedSatelliteMismatch message_number index' orbit_satellite clock_satellite) = [message_number, index', orbit_satellite, clock_satellite]"
| "encode_error_ints (RtcmEncodeError.SsrHighRateClockTerms message_number satellite c1 c2) = [message_number, satellite, c1, c2]"
| "encode_error_ints (RtcmEncodeError.SsrSatelliteCount message_number declared records) = [message_number, declared, records]"
| "encode_error_ints (RtcmEncodeError.MsmMask message_number problem) = message_number # mask_problem_ints problem"
| "encode_error_ints (RtcmEncodeError.MsmOptional message_number kind satellite signal field problem) =
     message_number # satellite # (case signal of None \<Rightarrow> [] | Some s \<Rightarrow> [s])"
| "encode_error_ints (RtcmEncodeError.TrailingZeroBits message_number bits) = [message_number, bits]"
| "encode_error_ints (RtcmEncodeError.StrictDeparture departure) = departure_ints departure"
| "encode_error_ints (RtcmEncodeError.UnsupportedBodyTooShort message_number) = [message_number]"
| "encode_error_ints (RtcmEncodeError.UnsupportedBodyNumber message_number carried) = [message_number, carried]"
| "encode_error_ints (RtcmEncodeError.UnsupportedDecodedNumber message_number) = [message_number]"
| "encode_error_ints (RtcmEncodeError.FrameBodyTooLong len') = [len']"
| "encode_error_ints (RtcmEncodeError.FrameReservedOutOfRange value) = []"
| "encode_error_ints RtcmEncodeError.UnnamedEncodeError = []"

fun named_encode_error :: "'sys RtcmEncodeError \<Rightarrow> bool" where
  "named_encode_error (RtcmEncodeError.FieldOutOfRange _ _ _ _ encoding) \<longleftrightarrow> encoding \<noteq> UnnamedEncoding"
| "named_encode_error (RtcmEncodeError.MessageNumber _ rec) \<longleftrightarrow> rec \<noteq> UnnamedRecord"
| "named_encode_error (RtcmEncodeError.FieldPresence _ rec _ _) \<longleftrightarrow> rec \<noteq> UnnamedRecord"
| "named_encode_error (RtcmEncodeError.SatelliteFieldPresence _ rec _ _ _) \<longleftrightarrow> rec \<noteq> UnnamedRecord"
| "named_encode_error (RtcmEncodeError.MsmMask _ problem) \<longleftrightarrow> problem \<noteq> UnnamedMaskProblem"
| "named_encode_error (RtcmEncodeError.MsmOptional _ _ _ _ field problem) \<longleftrightarrow>
     field \<noteq> UnnamedOptionalField \<and> problem \<noteq> UnnamedOptionalProblem"
| "named_encode_error (RtcmEncodeError.StrictDeparture departure) \<longleftrightarrow> (\<forall>txt. departure \<noteq> UnnamedDeparture txt)"
| "named_encode_error RtcmEncodeError.UnnamedEncodeError \<longleftrightarrow> False"
| "named_encode_error _ \<longleftrightarrow> True"

definition distinct_errors :: "'sys RtcmEncodeError \<Rightarrow> bool" where
  "distinct_errors e \<longleftrightarrow> named_encode_error e \<and> list_all (in_ty I64) (encode_error_ints e)"

lemma as_i64_inj: "in_ty I64 m \<Longrightarrow> in_ty I64 n \<Longrightarrow> as_i64 m = as_i64 n \<longleftrightarrow> m = n"
  by (metis sint_as_i64)

lemma show_int_inj [simp]: "show_int m = show_int n \<longleftrightarrow> m = n"
proof -
  have "show_nat k \<noteq> CHR ''-'' # cs" "CHR ''-'' # cs \<noteq> show_nat k" for k cs
    using show_nat_digit [of k] by (auto simp: digit_value_sign)
  then show ?thesis by (auto simp: show_int_def)
qed

lemma field_encoding_label_inj: "field_encoding_label a = field_encoding_label b \<longleftrightarrow> a = b"
  by (cases a; cases b; simp add: field_encoding_label_def)

lemma ssr_kind_label_inj: "ssr_kind_label k = ssr_kind_label l \<longleftrightarrow> k = l"
  by (cases k; cases l; simp add: ssr_kind_label_def)

lemma msm_optional_field_label_inj: "msm_optional_field_label f = msm_optional_field_label g \<longleftrightarrow> f = g"
  by (cases f; cases g; simp add: msm_optional_field_label_def)

lemmas label_inj = field_encoding_label_inj ssr_kind_label_inj msm_optional_field_label_inj

lemma msm_core_inj:
  assumes "msm_laws C"
  shows "letter C s = letter C t \<longleftrightarrow> s = t" "kind_number C k = kind_number C l \<longleftrightarrow> k = l"
  using assms by (auto simp: msm_laws_def) (metis option.inject)+

lemma record_kind_label_inj:
  assumes "msm_laws C"
  shows "record_kind_label C a = record_kind_label C b \<longleftrightarrow> a = b"
  by (cases a; cases b; simp add: label_inj msm_core_inj [OF assms])

lemma nested_variant [simp]:
  "eef_variant (msm_mask_fields p F) = eef_variant F"
  "eef_variant (msm_optional_fields o' F) = eef_variant F"
  "eef_variant (strict_departure_fields d F) = eef_variant F"
  by ((cases p; simp), (cases o'; simp), (cases d; simp))

lemmas error_field_inj = as_i64_inj i64_try_from_inj label_inj

lemma msm_mask_inj:
  assumes "msm_mask_fields p (no_encode_fields\<lparr>eef_variant := v, eef_message_number := n\<rparr>) =
     msm_mask_fields q (no_encode_fields\<lparr>eef_variant := w, eef_message_number := k\<rparr>)"
    "list_all (in_ty I64) (mask_problem_ints p)" "list_all (in_ty I64) (mask_problem_ints q)"
  shows "p = q \<and> n = k"
  using assms by (cases p; cases q; simp add: no_encode_fields_def error_field_inj)

lemma msm_optional_inj:
  assumes "msm_optional_fields p (no_encode_fields\<lparr>eef_variant := v, eef_message_number := n, eef_satellite := s,
       eef_record := r, eef_field := f, eef_signal := g\<rparr>) =
     msm_optional_fields q (no_encode_fields\<lparr>eef_variant := v', eef_message_number := n', eef_satellite := s',
       eef_record := r', eef_field := f', eef_signal := g'\<rparr>)"
  shows "p = q \<and> n = n' \<and> s = s' \<and> r = r' \<and> f = f' \<and> g = g'"
  using assms by (cases p; cases q; simp add: no_encode_fields_def)

lemma strict_departure_inj:
  assumes "strict_departure_fields d (no_encode_fields\<lparr>eef_variant := v, eef_detail := Some (departure_label d)\<rparr>) =
     strict_departure_fields d' (no_encode_fields\<lparr>eef_variant := v', eef_detail := Some (departure_label d')\<rparr>)"
    "list_all (in_ty I64) (departure_ints d)" "list_all (in_ty I64) (departure_ints d')"
    "\<forall>txt. d \<noteq> UnnamedDeparture txt" "\<forall>txt. d' \<noteq> UnnamedDeparture txt"
  shows "d = d'"
  using assms by (cases d; cases d'; simp add: no_encode_fields_def error_field_inj)

lemma encode_error_fields_inj:
  assumes "msm_laws C" "distinct_errors e" "distinct_errors e'"
    "rtcm_encode_error_fields C e = rtcm_encode_error_fields C e'"
  shows "e = e'"
proof -
  from assms(4) have v: "eef_variant (rtcm_encode_error_fields C e) = eef_variant (rtcm_encode_error_fields C e')"
    by simp
  note inj = error_field_inj record_kind_label_inj [OF assms(1)] msm_core_inj [OF assms(1)] msm_kind_label_def
  show ?thesis
  proof (cases e)
    case (MsmMask n p)
    with v assms(2-4) show ?thesis
      by (cases e') (auto simp: distinct_errors_def inj dest!: msm_mask_inj)
  next
    case (MsmOptional n k s g f p)
    with v assms(2-4) show ?thesis
      by (cases e') (auto simp: distinct_errors_def inj dest!: msm_optional_inj split: option.splits)
  next
    case (StrictDeparture d)
    with v assms(2-4) show ?thesis
      by (cases e') (auto simp: distinct_errors_def dest!: strict_departure_inj)
  qed (cases e'; (((insert v, simp); fail) |
      (insert assms(2-4), simp add: distinct_errors_def no_encode_fields_def inj)))+
qed

lemma departure_term_inj:
  assumes "departure_term d = departure_term d'" "list_all (in_ty I64) (departure_ints d)"
    "list_all (in_ty I64) (departure_ints d')" "\<forall>txt. d \<noteq> UnnamedDeparture txt" "\<forall>txt. d' \<noteq> UnnamedDeparture txt"
  shows "d = d'"
  using assms
  by (cases d; cases d'; simp add: enc_list_def nif_i64.enc_eq_iff as_i64_inj inj_map_eq_map nif_bool.enc_eq_iff inj_def)

lemma encode_error_reason_other:
  "\<forall>d. e \<noteq> StrictDeparture d \<Longrightarrow> encode_error_reason E (RtcmEncode e) =
     Tup [Atom ''rtcm_encode_error'', enc_RtcmEncodeErrorFields (rtcm_encode_error_fields (error_msm E) e)]"
  by (cases e) simp_all

text \<open>C11. Two refusals of the encoder that differ reach the caller as different terms: no detail of a typed
  refusal is lost, provided its integers are in the range of \<open>i64\<close> and its kind is one the boundary names.\<close>

theorem encode_errors_distinguished:
  assumes "msm_laws (error_msm E)" "distinct_errors e" "distinct_errors e'"
    "encode_error_reason E (RtcmEncode e) = encode_error_reason E (RtcmEncode e')"
  shows "e = e'"
proof (cases "\<exists>d. e = StrictDeparture d")
  case True
  then obtain d where d: "e = StrictDeparture d" ..
  show ?thesis
  proof (cases "\<exists>d'. e' = StrictDeparture d'")
    case True
    then obtain d' where "e' = StrictDeparture d'" ..
    with d assms(2-4) show ?thesis by (auto simp: distinct_errors_def dest: departure_term_inj)
  next
    case False
    with d assms(4) encode_error_reason_other [of e' E] show ?thesis by auto
  qed
next
  case False
  note e = encode_error_reason_other [of e E]
  show ?thesis
  proof (cases "\<exists>d'. e' = StrictDeparture d'")
    case True
    with False e assms(4) show ?thesis by auto
  next
    case False
    then have "Tup [Atom ''rtcm_encode_error'', enc_RtcmEncodeErrorFields (rtcm_encode_error_fields (error_msm E) e)] =
        Tup [Atom ''rtcm_encode_error'', enc_RtcmEncodeErrorFields (rtcm_encode_error_fields (error_msm E) e')]"
      using assms(4) e \<open>\<nexists>d. e = StrictDeparture d\<close> encode_error_reason_other [of e' E] by metis
    then have "rtcm_encode_error_fields (error_msm E) e = rtcm_encode_error_fields (error_msm E) e'"
      by (simp add: eef.enc_eq_iff)
    with assms(1-3) show ?thesis by (intro encode_error_fields_inj)
  qed
qed

theorem encode_errors_distinguished_witness:
  "encode_error_reason (core_errors one_core) (RtcmEncode (RtcmEncodeError.TrailingZeroBits 1005 3)) \<noteq>
   encode_error_reason (core_errors one_core) (RtcmEncode (RtcmEncodeError.TrailingZeroBits 1005 4))"
  using encode_errors_distinguished [of "core_errors one_core" "RtcmEncodeError.TrailingZeroBits 1005 3"
      "RtcmEncodeError.TrailingZeroBits 1005 4"] one_msm_laws
  by (auto simp: one_core_def distinct_errors_def in_ty_def)

text \<open>A raised refusal carries the reason of the returned one, a strict departure excepted: it is raised
  without its \<open>:departure\<close> tag.\<close>

lemma raised_reason_iff:
  "raise_encode_error E e = RaiseTerm (encode_error_reason E e) \<longleftrightarrow> (\<forall>d. e \<noteq> RtcmEncode (StrictDeparture d))"
proof (cases e)
  case (RtcmEncode err)
  then show ?thesis
  proof (cases err)
    case (StrictDeparture d)
    with RtcmEncode show ?thesis by (cases d) simp_all
  qed simp_all
qed simp_all

text \<open>Reserved bits outside \<open>0..255\<close> are refused with a text, before the core's typed refusal.\<close>

lemma reserved_outside_u8:
  assumes "sint reserved < 0 \<or> 255 < sint reserved"
  shows "rtcm_encode_frame_body C encode_frame_with_reserved body reserved =
    Inr (error_term (Tup [Atom ''invalid_input'',
      Utf8 (''RTCM frame reserved bits '' @ show_int (sint reserved) @ '' do not fit six bits'')]))"
  using assms by (auto simp: rtcm_encode_frame_body_def try_from_def in_ty_def)

end
