(* ===== verification/Resources.thy ===== *)
theory Resources
  imports NifTerm
begin

text \<open>
  Resources of the native library: handles, mutexes with poisoning, and sequences of calls. A handle is the
  index of a resource in its table. A mutex is poisoned by a panic while it is held (\<open>std::sync\<close>); the value
  behind a poisoned mutex is never read again. The locale \<open>poisoning\<close> is what the modules that keep a value
  behind a mutex have in common.
\<close>

section \<open>Replies and handles\<close>

text \<open>A call replies with a term, an error, or a panic that rustler raises. A handle names a live resource;
  any other term does not decode as one.\<close>

type_synonym nif_reply = "nif_error fault + nterm"

definition with_resource ::
  "nat \<Rightarrow> 'r list \<Rightarrow> ('r \<Rightarrow> nif_reply \<times> 'st) \<Rightarrow> 'st \<Rightarrow> nif_reply \<times> 'st" where
  "with_resource h rs call s = (if h < length rs then call (rs ! h) else (Inl (Err BadArg), s))"

section \<open>Mutexes\<close>

text \<open>\<open>Mutex<T>\<close> between two critical sections.\<close>

record 'a cell =
  cell_poisoned :: bool
  cell_value :: 'a

definition cell_new :: "'a \<Rightarrow> 'a cell" where
  "cell_new a = \<lparr>cell_poisoned = False, cell_value = a\<rparr>"

definition cell_poison :: "'a cell \<Rightarrow> 'a cell" where
  "cell_poison c = \<lparr>cell_poisoned = True, cell_value = cell_value c\<rparr>"

definition poisoned_at :: "'a cell list \<Rightarrow> nat \<Rightarrow> bool" where
  "poisoned_at cells h \<longleftrightarrow> h < length cells \<and> cell_poisoned (cells ! h)"

lemma cell_simps [simp]:
  "\<not> cell_poisoned (cell_new a)" "cell_value (cell_new a) = a"
  "cell_poisoned (cell_poison c)" "cell_value (cell_poison c) = cell_value c"
  by (simp_all add: cell_new_def cell_poison_def)

lemma poisoned_at_append [simp]: "poisoned_at cells h \<Longrightarrow> poisoned_at (cells @ [c]) h"
  by (simp add: poisoned_at_def nth_append)

lemma poisoned_at_update: "\<not> poisoned_at cells k \<Longrightarrow> poisoned_at cells h \<Longrightarrow> poisoned_at (cells[k := c]) h"
  by (cases "k = h") (auto simp: poisoned_at_def)

lemma poisoned_at_poison: "h < length cells \<Longrightarrow> poisoned_at (cells[h := cell_poison c]) h"
  by (simp add: poisoned_at_def)

text \<open>A table of cells grows at its end only, and of its cells only the locked ones change.\<close>

definition table_kept :: "(nat \<Rightarrow> bool) \<Rightarrow> 'a list \<Rightarrow> 'a list \<Rightarrow> bool" where
  "table_kept locked xs xs' \<longleftrightarrow>
     length xs \<le> length xs' \<and> (\<forall>h < length xs. \<not> locked h \<longrightarrow> xs' ! h = xs ! h)"

lemma table_kept_simps [simp]:
  "table_kept locked xs xs" "table_kept locked xs (xs @ [x])" "locked h \<Longrightarrow> table_kept locked xs (xs[h := x])"
proof -
  show "table_kept locked xs (xs[h := x])" if "locked h"
    using that by (auto simp: table_kept_def) (metis nth_list_update_neq)
qed (simp_all add: table_kept_def nth_append)

lemma table_kept_poison:
  "table_kept locked cells cells' \<Longrightarrow> \<not> locked h \<Longrightarrow> poisoned_at cells h \<Longrightarrow> poisoned_at cells' h"
  by (auto simp: table_kept_def poisoned_at_def)

section \<open>Sequences of calls\<close>

fun run_calls :: "('call \<Rightarrow> 'st \<Rightarrow> 'reply \<times> 'st) \<Rightarrow> 'call list \<Rightarrow> 'st \<Rightarrow> 'st" where
  "run_calls step [] s = s"
| "run_calls step (c # cs) s = run_calls step cs (snd (step c s))"

lemma run_calls_invariant:
  assumes "\<And>c s. P s \<Longrightarrow> P (snd (step c s))" "P s"
  shows "P (run_calls step cs s)"
  using assms(2) by (induction cs arbitrary: s) (simp_all add: assms(1))

lemma run_calls_append: "run_calls step (cs @ ds) s = run_calls step ds (run_calls step cs s)"
  by (induction cs arbitrary: s) simp_all

text \<open>The contract of a resource behind a mutex: a call that locks it and panics poisons it, no call heals it,
  and a call that locks it while it is poisoned is refused and changes nothing.\<close>

locale poisoning =
  fixes step :: "'call \<Rightarrow> 'st \<Rightarrow> 'reply \<times> 'st"
    and poisoned :: "'lock \<Rightarrow> 'st \<Rightarrow> bool"
    and locks :: "'lock \<Rightarrow> 'call \<Rightarrow> 'st \<Rightarrow> bool"
    and panic :: 'reply
    and refused :: "'lock \<Rightarrow> 'reply"
  assumes panic_poisons: "locks h c s \<Longrightarrow> fst (step c s) = panic \<Longrightarrow> poisoned h (snd (step c s))"
    and poisoned_stays: "poisoned h s \<Longrightarrow> poisoned h (snd (step c s))"
    and poisoned_refuses: "poisoned h s \<Longrightarrow> locks h c s \<Longrightarrow> step c s = (refused h, s)"
begin

lemma poisoned_over_runs: "poisoned h s \<Longrightarrow> poisoned h (run_calls step cs s)"
  by (rule run_calls_invariant [where P = "poisoned h"]) (simp_all add: poisoned_stays)

lemma refused_after_panic:
  assumes "locks h c s" "fst (step c s) = panic" "locks h d s'" "s' = run_calls step cs (snd (step c s))"
  shows "step d s' = (refused h, s')"
proof -
  have "poisoned h s'" unfolding assms(4) by (rule poisoned_over_runs [OF panic_poisons [OF assms(1,2)]])
  then show ?thesis using assms(3) by (rule poisoned_refuses)
qed

end

end
