(* ===== verification/Ntrip.thy ===== *)
theory Ntrip
  imports RtcmNifs Resources
begin

text \<open>
  The NTRIP bridge of \<open>native/sidereon_nif/src/ntrip.rs\<close>: four kinds of resource (configurations, client
  machines and RTCM stream assemblers behind a mutex, parsed sourcetables) and the calls on them.

  The core client is the record \<open>ntrip_core\<close>. A step of a machine or assembler may panic (\<open>None\<close>); a
  panic while its mutex is held poisons it, as in \<open>std::sync\<close>, and is raised by the call. The calls are
  functions on \<open>ntrip_state\<close>; a resource handle is the index of the resource in its table, and a call
  appends what it creates. Columns of a sourcetable that the core does not wrap in \<open>Field\<close> are text.
\<close>

section \<open>Core types\<close>

datatype NtripVersion = Rev1 | Rev2

datatype NtripState = Idle | AwaitingStatus | AwaitingHeaders | Streaming | SourcetableState | Closed

record NtripCredentials =
  cred_username :: string
  cred_password :: string

record NtripConfig =
  cfg_host :: string
  cfg_port :: u16
  cfg_mountpoint :: string
  cfg_version :: NtripVersion
  cfg_credentials :: "NtripCredentials option"
  cfg_user_agent_product :: string
  cfg_gga_interval_s :: "f64 option"

record GgaPosition =
  gga_lat_deg :: f64
  gga_lon_deg :: f64
  gga_height_m :: f64
  gga_fix_quality :: u8
  gga_num_satellites :: u8
  gga_hdop :: f64

record NtripHandshake =
  hs_version :: NtripVersion
  hs_chunked :: bool
  hs_headers :: "(string \<times> string) list"

datatype NtripRejection =
    Unauthorized
  | MountpointNotFound
  | DigestRequired
  | CasterError string
  | UnexpectedContentType string
  | HttpError u16 string
  | MalformedHandshake "u8 list"

datatype 'a Field = Parsed 'a | Empty | Raw string

datatype StrAuth = NoAuth | Basic | Digest | OtherAuth string

record StrRecord =
  str_mountpoint :: string
  str_identifier :: string
  str_format :: string
  str_format_details :: string
  str_carrier :: "int Field"
  str_nav_system :: string
  str_network :: string
  str_country :: string
  str_lat_deg :: "f64 Field"
  str_lon_deg :: "f64 Field"
  str_nmea_required :: "bool Field"
  str_network_solution :: "bool Field"
  str_generator :: string
  str_compression :: string
  str_authentication :: StrAuth
  str_fee :: "bool Field"
  str_bitrate :: "int Field"
  str_misc :: string

record CasRecord =
  cas_host :: string
  cas_port :: "int Field"
  cas_identifier :: string
  cas_operator :: string
  cas_nmea_required :: "bool Field"
  cas_country :: string
  cas_lat_deg :: "f64 Field"
  cas_lon_deg :: "f64 Field"
  cas_fallback_host :: string
  cas_fallback_port :: "int Field"
  cas_misc :: string

record NetRecord =
  net_identifier :: string
  net_operator :: string
  net_authentication :: StrAuth
  net_fee :: "bool Field"
  net_web_net :: string
  net_web_str :: string
  net_web_reg :: string
  net_misc :: string

record OtherRecord =
  other_type_tag :: string
  other_fields :: "string list"

datatype SourcetableRecord = Str StrRecord | Cas CasRecord | Net NetRecord | Other OtherRecord

type_synonym Sourcetable = "SourcetableRecord list"

datatype NtripEvent =
    Connected NtripHandshake
  | Payload "u8 list"
  | SourcetableEvent Sourcetable
  | Rejected NtripRejection
  | StreamCorrupted string
  | StreamEnded

datatype HttpClassification = StreamResponse bool | SourcetableResponse bool | Rejection NtripRejection

text \<open>The core client. An error is its text. \<open>default_config\<close> is \<open>NtripConfig::default()\<close>.\<close>

record ('mach, 'asm, 'msg) ntrip_core =
  default_config :: NtripConfig
  request_bytes :: "NtripConfig \<Rightarrow> string + u8 list"
  request_headers :: "NtripConfig \<Rightarrow> string + string \<times> (string \<times> string) list"
  machine_new :: "NtripConfig \<Rightarrow> 'mach"
  machine_push :: "'mach \<Rightarrow> u8 list \<Rightarrow> (NtripEvent list \<times> 'mach) option"
  machine_finish :: "'mach \<Rightarrow> (NtripEvent list \<times> 'mach) option"
  machine_gga :: "'mach \<Rightarrow> f64 \<Rightarrow> GgaPosition \<Rightarrow> f64 \<Rightarrow> ((string + u8 list option) \<times> 'mach) option"
  machine_reset :: "'mach \<Rightarrow> 'mach option"
  machine_state :: "'mach \<Rightarrow> NtripState option"
  classify_http_response :: "u16 \<Rightarrow> string \<Rightarrow> (string \<times> string) list \<Rightarrow> HttpClassification"
  from_utf8 :: "u8 list \<Rightarrow> string + string"
  parse_sourcetable :: "string \<Rightarrow> string + Sourcetable"
  sourcetable_to_text :: "Sourcetable \<Rightarrow> string + string"
  format_gga :: "GgaPosition \<Rightarrow> f64 \<Rightarrow> string + u8 list"
  assembler_new :: 'asm
  assembler_push :: "'asm \<Rightarrow> u8 list \<Rightarrow> ('msg list \<times> 'asm) option"

section \<open>Resources\<close>

record ('mach, 'asm) ntrip_state =
  configs :: "NtripConfig list"
  machines :: "'mach cell list"
  tables :: "Sourcetable list"
  assemblers :: "'asm cell list"

definition lock_machine :: "('mach, 'asm) ntrip_state \<Rightarrow> nat \<Rightarrow> 'mach NifResult" where
  "lock_machine s h =
     (if cell_poisoned (machines s ! h) then Inl (error_text ''ntrip machine lock poisoned'')
      else Inr (cell_value (machines s ! h)))"

definition lock_assembler :: "('mach, 'asm) ntrip_state \<Rightarrow> nat \<Rightarrow> 'asm NifResult" where
  "lock_assembler s h =
     (if cell_poisoned (assemblers s ! h) then Inl (error_text ''rtcm assembler lock poisoned'')
      else Inr (cell_value (assemblers s ! h)))"

definition set_machine :: "nat \<Rightarrow> 'mach cell \<Rightarrow> ('mach, 'asm) ntrip_state \<Rightarrow> ('mach, 'asm) ntrip_state" where
  "set_machine h m s = s\<lparr>machines := (machines s)[h := m]\<rparr>"

definition set_assembler :: "nat \<Rightarrow> 'asm cell \<Rightarrow> ('mach, 'asm) ntrip_state \<Rightarrow> ('mach, 'asm) ntrip_state" where
  "set_assembler h a s = s\<lparr>assemblers := (assemblers s)[h := a]\<rparr>"

text \<open>A critical section on a machine or an assembler: refused when poisoned; a panic poisons, otherwise the
  new value is stored and the rest of the call runs.\<close>

definition with_machine ::
  "nat \<Rightarrow> ('mach \<Rightarrow> ('a \<times> 'mach) option) \<Rightarrow>
   ('a \<Rightarrow> ('mach, 'asm) ntrip_state \<Rightarrow> nterm \<times> ('mach, 'asm) ntrip_state) \<Rightarrow>
   ('mach, 'asm) ntrip_state \<Rightarrow> nif_reply \<times> ('mach, 'asm) ntrip_state" where
  "with_machine h step k s = with_resource h (machines s) (\<lambda>_.
     case lock_machine s h of
       Inl e \<Rightarrow> (Inl (Err e), s)
     | Inr m \<Rightarrow>
         (case step m of
            None \<Rightarrow> (Inl Panic, set_machine h \<lparr>cell_poisoned = True, cell_value = m\<rparr> s)
          | Some (a, m') \<Rightarrow>
              (case k a (set_machine h (cell_new m') s) of (t, s') \<Rightarrow> (Inr t, s')))) s"

definition with_assembler ::
  "nat \<Rightarrow> ('asm \<Rightarrow> ('a \<times> 'asm) option) \<Rightarrow> ('a \<Rightarrow> nterm) \<Rightarrow>
   ('mach, 'asm) ntrip_state \<Rightarrow> nif_reply \<times> ('mach, 'asm) ntrip_state" where
  "with_assembler h step k s = with_resource h (assemblers s) (\<lambda>_.
     case lock_assembler s h of
       Inl e \<Rightarrow> (Inl (Err e), s)
     | Inr m \<Rightarrow>
         (case step m of
            None \<Rightarrow> (Inl Panic, set_assembler h \<lparr>cell_poisoned = True, cell_value = m\<rparr> s)
          | Some (a, m') \<Rightarrow> (Inr (k a), set_assembler h (cell_new m') s))) s"

section \<open>Arguments\<close>

record NtripConfigTerm =
  ct_host :: string
  ct_port :: u16
  ct_mountpoint :: string
  ct_version :: string
  ct_username :: "string option"
  ct_password :: "string option"
  ct_user_agent_product :: "string option"
  ct_gga_interval_s :: "f64 option"

record GgaPositionTerm =
  gt_lat_deg :: f64
  gt_lon_deg :: f64
  gt_height_m :: f64
  gt_fix_quality :: u8
  gt_num_satellites :: u8
  gt_hdop :: f64

definition parse_version :: "string \<Rightarrow> NtripVersion NifResult" where
  "parse_version value =
     (if value = ''rev1'' then Inr Rev1 else if value = ''rev2'' then Inr Rev2
      else Inl (error_text ''invalid NTRIP version''))"

definition config_from_term ::
  "('mach, 'asm, 'msg) ntrip_core \<Rightarrow> NtripConfigTerm \<Rightarrow> NtripConfig NifResult" where
  "config_from_term C t =
     and_then (case (ct_username t, ct_password t) of
        (Some username, Some password) \<Rightarrow> Inr (Some \<lparr>cred_username = username, cred_password = password\<rparr>)
      | (None, None) \<Rightarrow> Inr None
      | _ \<Rightarrow> Inl (error_text ''NTRIP credentials require user and password'')) (\<lambda>credentials.
     and_then (parse_version (ct_version t)) (\<lambda>version.
     Inr ((default_config C)
       \<lparr>cfg_host := ct_host t, cfg_port := ct_port t, cfg_mountpoint := ct_mountpoint t,
        cfg_version := version, cfg_credentials := credentials,
        cfg_user_agent_product :=
          (case ct_user_agent_product t of
             Some product \<Rightarrow> product | None \<Rightarrow> cfg_user_agent_product (default_config C)),
        cfg_gga_interval_s := ct_gga_interval_s t\<rparr>)))"

definition position_from_term :: "GgaPositionTerm \<Rightarrow> GgaPosition" where
  "position_from_term t =
     \<lparr>gga_lat_deg = gt_lat_deg t, gga_lon_deg = gt_lon_deg t, gga_height_m = gt_height_m t,
      gga_fix_quality = gt_fix_quality t, gga_num_satellites = gt_num_satellites t, gga_hdop = gt_hdop t\<rparr>"

section \<open>Terms\<close>

definition version_atom :: "NtripVersion \<Rightarrow> nterm" where
  "version_atom version = (case version of Rev1 \<Rightarrow> Atom ''rev1'' | Rev2 \<Rightarrow> Atom ''rev2'')"

definition state_atom :: "NtripState \<Rightarrow> nterm" where
  "state_atom state =
     (case state of Idle \<Rightarrow> Atom ''idle'' | AwaitingStatus \<Rightarrow> Atom ''awaiting_status''
      | AwaitingHeaders \<Rightarrow> Atom ''awaiting_headers'' | Streaming \<Rightarrow> Atom ''streaming''
      | SourcetableState \<Rightarrow> Atom ''sourcetable'' | Closed \<Rightarrow> Atom ''closed'')"

definition headers_term :: "(string \<times> string) list \<Rightarrow> nterm" where
  "headers_term headers = enc_list (\<lambda>(name, value). Tup [Utf8 name, Utf8 value]) headers"

definition encode_handshake :: "NtripHandshake \<Rightarrow> nterm" where
  "encode_handshake handshake = nif_map
     [(''version'', version_atom (hs_version handshake)), (''chunked'', enc_bool (hs_chunked handshake)),
      (''headers'', headers_term (hs_headers handshake))]"

fun encode_rejection :: "NtripRejection \<Rightarrow> nterm" where
  "encode_rejection Unauthorized = Atom ''unauthorized''"
| "encode_rejection MountpointNotFound = Atom ''mountpoint_not_found''"
| "encode_rejection DigestRequired = Atom ''digest_not_supported''"
| "encode_rejection (CasterError reason) = Tup [Atom ''caster_error'', Utf8 reason]"
| "encode_rejection (UnexpectedContentType content_type) =
     Tup [Atom ''unexpected_content_type'', Utf8 content_type]"
| "encode_rejection (HttpError status reason) =
     Tup [Atom ''http_status'', Integer (uint status), Utf8 reason]"
| "encode_rejection (MalformedHandshake prefix) = Tup [Atom ''malformed_handshake'', Bin prefix]"

fun field_to_term :: "('a \<Rightarrow> nterm) \<Rightarrow> 'a Field \<Rightarrow> nterm" where
  "field_to_term encode_value (Parsed value) = encode_value value"
| "field_to_term encode_value Empty = Atom ''nil''"
| "field_to_term encode_value (Raw value) = Tup [Atom ''raw'', Utf8 value]"

definition int_term :: "int \<Rightarrow> nterm" where
  "int_term value = enc_i64 (as_i64 value)"

fun auth_term :: "StrAuth \<Rightarrow> nterm" where
  "auth_term NoAuth = Atom ''none''"
| "auth_term Basic = Atom ''basic''"
| "auth_term Digest = Atom ''digest''"
| "auth_term (OtherAuth value) = Tup [Atom ''other'', Utf8 value]"

definition encode_str_record :: "StrRecord \<Rightarrow> nterm" where
  "encode_str_record r = Tup [Atom ''str'', nif_map
     [(''mountpoint'', Utf8 (str_mountpoint r)), (''identifier'', Utf8 (str_identifier r)),
      (''format'', Utf8 (str_format r)), (''format_details'', Utf8 (str_format_details r)),
      (''carrier'', field_to_term int_term (str_carrier r)), (''nav_system'', Utf8 (str_nav_system r)),
      (''network'', Utf8 (str_network r)), (''country'', Utf8 (str_country r)),
      (''lat_deg'', field_to_term Float (str_lat_deg r)), (''lon_deg'', field_to_term Float (str_lon_deg r)),
      (''nmea_required'', field_to_term enc_bool (str_nmea_required r)),
      (''network_solution'', field_to_term enc_bool (str_network_solution r)),
      (''generator'', Utf8 (str_generator r)), (''compression'', Utf8 (str_compression r)),
      (''authentication'', auth_term (str_authentication r)), (''fee'', field_to_term enc_bool (str_fee r)),
      (''bitrate'', field_to_term int_term (str_bitrate r)), (''misc'', Utf8 (str_misc r))]]"

definition encode_cas_record :: "CasRecord \<Rightarrow> nterm" where
  "encode_cas_record r = Tup [Atom ''cas'', nif_map
     [(''host'', Utf8 (cas_host r)), (''port'', field_to_term int_term (cas_port r)),
      (''identifier'', Utf8 (cas_identifier r)), (''operator'', Utf8 (cas_operator r)),
      (''nmea_required'', field_to_term enc_bool (cas_nmea_required r)), (''country'', Utf8 (cas_country r)),
      (''lat_deg'', field_to_term Float (cas_lat_deg r)), (''lon_deg'', field_to_term Float (cas_lon_deg r)),
      (''fallback_host'', Utf8 (cas_fallback_host r)),
      (''fallback_port'', field_to_term int_term (cas_fallback_port r)), (''misc'', Utf8 (cas_misc r))]]"

definition encode_net_record :: "NetRecord \<Rightarrow> nterm" where
  "encode_net_record r = Tup [Atom ''net'', nif_map
     [(''identifier'', Utf8 (net_identifier r)), (''operator'', Utf8 (net_operator r)),
      (''authentication'', auth_term (net_authentication r)), (''fee'', field_to_term enc_bool (net_fee r)),
      (''web_net'', Utf8 (net_web_net r)), (''web_str'', Utf8 (net_web_str r)),
      (''web_reg'', Utf8 (net_web_reg r)), (''misc'', Utf8 (net_misc r))]]"

definition encode_other_record :: "OtherRecord \<Rightarrow> nterm" where
  "encode_other_record r = Tup [Atom ''other'', nif_map
     [(''type_tag'', Utf8 (other_type_tag r)), (''fields'', enc_list Utf8 (other_fields r))]]"

fun encode_record :: "SourcetableRecord \<Rightarrow> nterm" where
  "encode_record (Str r) = encode_str_record r"
| "encode_record (Cas r) = encode_cas_record r"
| "encode_record (Net r) = encode_net_record r"
| "encode_record (Other r) = encode_other_record r"

text \<open>Encoding a table creates its resource.\<close>

definition encode_table ::
  "Sourcetable \<Rightarrow> ('mach, 'asm) ntrip_state \<Rightarrow> nterm \<times> ('mach, 'asm) ntrip_state" where
  "encode_table table s =
     (Tup [Resource (length (tables s)), enc_list encode_record table], s\<lparr>tables := tables s @ [table]\<rparr>)"

fun encode_event ::
  "NtripEvent \<Rightarrow> ('mach, 'asm) ntrip_state \<Rightarrow> nterm \<times> ('mach, 'asm) ntrip_state" where
  "encode_event (Connected handshake) s = (Tup [Atom ''connected'', encode_handshake handshake], s)"
| "encode_event (Payload bytes) s = (Tup [Atom ''payload'', Bin bytes], s)"
| "encode_event (SourcetableEvent table) s =
     (case encode_table table s of (t, s') \<Rightarrow> (Tup [Atom ''sourcetable'', t], s'))"
| "encode_event (Rejected rejection) s = (Tup [Atom ''rejected'', encode_rejection rejection], s)"
| "encode_event (StreamCorrupted detail) s = (Tup [Atom ''stream_corrupted'', Utf8 detail], s)"
| "encode_event StreamEnded s = (Atom ''stream_ended'', s)"

fun encode_events ::
  "NtripEvent list \<Rightarrow> ('mach, 'asm) ntrip_state \<Rightarrow> nterm list \<times> ('mach, 'asm) ntrip_state" where
  "encode_events [] s = ([], s)"
| "encode_events (e # es) s =
     (case encode_event e s of (t, s') \<Rightarrow> case encode_events es s' of (ts, s'') \<Rightarrow> (t # ts, s''))"

definition events_reply ::
  "NtripEvent list \<Rightarrow> ('mach, 'asm) ntrip_state \<Rightarrow> nterm \<times> ('mach, 'asm) ntrip_state" where
  "events_reply events s = (case encode_events events s of (ts, s') \<Rightarrow> (Lst ts, s'))"

definition text_result :: "('a \<Rightarrow> nterm) \<Rightarrow> string + 'a \<Rightarrow> nterm" where
  "text_result f r = (case r of Inr a \<Rightarrow> ok_term (f a) | Inl error \<Rightarrow> error_term (Utf8 error))"

section \<open>Calls\<close>

type_synonym ('mach, 'asm) ntrip_result = "nif_reply \<times> ('mach, 'asm) ntrip_state"

definition ntrip_config_new ::
  "('mach, 'asm, 'msg) ntrip_core \<Rightarrow> NtripConfigTerm \<Rightarrow> ('mach, 'asm) ntrip_state \<Rightarrow> ('mach, 'asm) ntrip_result" where
  "ntrip_config_new C t s =
     (case config_from_term C t of
        Inl e \<Rightarrow> (Inl (Err e), s)
      | Inr config \<Rightarrow>
          (case request_bytes C config of
             Inr _ \<Rightarrow> (Inr (ok_term (Resource (length (configs s)))), s\<lparr>configs := configs s @ [config]\<rparr>)
           | Inl error \<Rightarrow> (Inr (error_term (Utf8 error)), s)))"

definition ntrip_request_bytes ::
  "('mach, 'asm, 'msg) ntrip_core \<Rightarrow> nat \<Rightarrow> ('mach, 'asm) ntrip_state \<Rightarrow> ('mach, 'asm) ntrip_result" where
  "ntrip_request_bytes C h s = with_resource h (configs s) (\<lambda>config.
     (Inr (text_result Bin (request_bytes C config)), s)) s"

definition ntrip_request_headers ::
  "('mach, 'asm, 'msg) ntrip_core \<Rightarrow> nat \<Rightarrow> ('mach, 'asm) ntrip_state \<Rightarrow> ('mach, 'asm) ntrip_result" where
  "ntrip_request_headers C h s = with_resource h (configs s) (\<lambda>config.
     (Inr (text_result (\<lambda>(path, headers). Tup [Utf8 path, headers_term headers]) (request_headers C config)), s)) s"

definition ntrip_machine_new ::
  "('mach, 'asm, 'msg) ntrip_core \<Rightarrow> nat \<Rightarrow> ('mach, 'asm) ntrip_state \<Rightarrow> ('mach, 'asm) ntrip_result" where
  "ntrip_machine_new C h s = with_resource h (configs s) (\<lambda>config.
     (Inr (Resource (length (machines s))), s\<lparr>machines := machines s @ [cell_new (machine_new C config)]\<rparr>)) s"

definition ntrip_machine_push ::
  "('mach, 'asm, 'msg) ntrip_core \<Rightarrow> nat \<Rightarrow> u8 list \<Rightarrow> ('mach, 'asm) ntrip_state \<Rightarrow> ('mach, 'asm) ntrip_result" where
  "ntrip_machine_push C h bytes = with_machine h (\<lambda>machine. machine_push C machine bytes) events_reply"

definition ntrip_machine_finish ::
  "('mach, 'asm, 'msg) ntrip_core \<Rightarrow> nat \<Rightarrow> ('mach, 'asm) ntrip_state \<Rightarrow> ('mach, 'asm) ntrip_result" where
  "ntrip_machine_finish C h = with_machine h (machine_finish C) events_reply"

definition ntrip_machine_gga ::
  "('mach, 'asm, 'msg) ntrip_core \<Rightarrow> nat \<Rightarrow> f64 \<Rightarrow> GgaPositionTerm \<Rightarrow> f64 \<Rightarrow>
   ('mach, 'asm) ntrip_state \<Rightarrow> ('mach, 'asm) ntrip_result" where
  "ntrip_machine_gga C h now_s position utc_seconds_of_day =
     with_machine h (\<lambda>machine. machine_gga C machine now_s (position_from_term position) utc_seconds_of_day)
       (\<lambda>result s. (text_result (enc_option Bin) result, s))"

definition ntrip_machine_reset ::
  "('mach, 'asm, 'msg) ntrip_core \<Rightarrow> nat \<Rightarrow> ('mach, 'asm) ntrip_state \<Rightarrow> ('mach, 'asm) ntrip_result" where
  "ntrip_machine_reset C h =
     with_machine h (\<lambda>machine. map_option (Pair ()) (machine_reset C machine)) (\<lambda>_ s. (Atom ''ok'', s))"

definition ntrip_machine_state ::
  "('mach, 'asm, 'msg) ntrip_core \<Rightarrow> nat \<Rightarrow> ('mach, 'asm) ntrip_state \<Rightarrow> ('mach, 'asm) ntrip_result" where
  "ntrip_machine_state C h =
     with_machine h (\<lambda>machine. map_option (\<lambda>state. (state, machine)) (machine_state C machine))
       (\<lambda>state s. (state_atom state, s))"

definition ntrip_classify_http_response ::
  "('mach, 'asm, 'msg) ntrip_core \<Rightarrow> u16 \<Rightarrow> string \<Rightarrow> (string \<times> string) list \<Rightarrow> nterm" where
  "ntrip_classify_http_response C status reason headers =
     (case classify_http_response C status reason headers of
        StreamResponse chunked \<Rightarrow> Tup [Atom ''stream'', nif_map [(''chunked'', enc_bool chunked)]]
      | SourcetableResponse chunked \<Rightarrow> Tup [Atom ''sourcetable'', nif_map [(''chunked'', enc_bool chunked)]]
      | Rejection rejection \<Rightarrow> Tup [Atom ''rejected'', encode_rejection rejection])"

definition ntrip_parse_sourcetable ::
  "('mach, 'asm, 'msg) ntrip_core \<Rightarrow> u8 list \<Rightarrow> ('mach, 'asm) ntrip_state \<Rightarrow> ('mach, 'asm) ntrip_result" where
  "ntrip_parse_sourcetable C bytes s =
     (case and_then (from_utf8 C bytes) (parse_sourcetable C) of
        Inr table \<Rightarrow> (case encode_table table s of (t, s') \<Rightarrow> (Inr (ok_term t), s'))
      | Inl error \<Rightarrow> (Inr (error_term (Utf8 error)), s))"

definition ntrip_sourcetable_to_text ::
  "('mach, 'asm, 'msg) ntrip_core \<Rightarrow> nat \<Rightarrow> ('mach, 'asm) ntrip_state \<Rightarrow> ('mach, 'asm) ntrip_result" where
  "ntrip_sourcetable_to_text C h s = with_resource h (tables s) (\<lambda>table.
     (Inr (text_result Utf8 (sourcetable_to_text C table)), s)) s"

definition ntrip_format_gga ::
  "('mach, 'asm, 'msg) ntrip_core \<Rightarrow> GgaPositionTerm \<Rightarrow> f64 \<Rightarrow> nterm" where
  "ntrip_format_gga C position utc_seconds_of_day =
     text_result Bin (format_gga C (position_from_term position) utc_seconds_of_day)"

section \<open>Stream assemblers\<close>

definition encode_message_result ::
  "('sys, 'ssr, 'sat, 'err) rtcm_core \<Rightarrow> ('sys, 'sat, 'err, ('sys, 'ssr) Message) core_result \<Rightarrow> nterm" where
  "encode_message_result R result =
     (case result of
        Inr message \<Rightarrow>
          (case encode_message R message of
             Inr term \<Rightarrow> ok_term term
           | Inl error \<Rightarrow> error_term (encode_error_reason (core_errors R) error))
      | Inl error \<Rightarrow> error_term (Utf8 (show_error (core_errors R) error)))"

definition rtcm_assembler_new ::
  "('mach, 'asm, 'msg) ntrip_core \<Rightarrow> ('mach, 'asm) ntrip_state \<Rightarrow> ('mach, 'asm) ntrip_result" where
  "rtcm_assembler_new C s =
     (Inr (Resource (length (assemblers s))), s\<lparr>assemblers := assemblers s @ [cell_new (assembler_new C)]\<rparr>)"

definition rtcm_assembler_push ::
  "('sys, 'ssr, 'sat, 'err) rtcm_core \<Rightarrow>
   ('mach, 'asm, ('sys, 'sat, 'err, ('sys, 'ssr) Message) core_result) ntrip_core \<Rightarrow> nat \<Rightarrow> u8 list \<Rightarrow>
   ('mach, 'asm) ntrip_state \<Rightarrow> ('mach, 'asm) ntrip_result" where
  "rtcm_assembler_push R C h bytes =
     with_assembler h (\<lambda>assembler. assembler_push C assembler bytes) (enc_list (encode_message_result R))"

end
