(* ===== verification/Ntrip_Props.thy ===== *)
theory Ntrip_Props
  imports Ntrip Rtcm_Props "HOL-Library.Sublist"
begin

text \<open>
  What holds of the NTRIP resources over any sequence of calls: the configurations kept are those the core
  can make a request of, the handle of a sourcetable keeps naming the table it was returned with, and a
  machine or an assembler that panicked is refused from then on. \<open>ntrip_step\<close> dispatches the calls that
  read or change a resource; the calls of several processes on the same resource are serialized by its
  mutex, so that every interleaving is one of these sequences.
\<close>

section \<open>Sequences of calls\<close>

datatype ntrip_call =
    ConfigNew NtripConfigTerm
  | RequestBytes nat
  | RequestHeaders nat
  | MachineNew nat
  | MachinePush nat "u8 list"
  | MachineFinish nat
  | MachineGga nat f64 GgaPositionTerm f64
  | MachineReset nat
  | MachineState nat
  | ParseSourcetable "u8 list"
  | SourcetableToText nat
  | AssemblerNew
  | AssemblerPush nat "u8 list"

fun ntrip_step ::
  "('sys, 'ssr, 'sat, 'err) rtcm_core \<Rightarrow>
   ('mach, 'asm, ('sys, 'sat, 'err, ('sys, 'ssr) Message) core_result) ntrip_core \<Rightarrow> ntrip_call \<Rightarrow>
   ('mach, 'asm) ntrip_state \<Rightarrow> ('mach, 'asm) ntrip_result" where
  "ntrip_step R C (ConfigNew t) s = ntrip_config_new C t s"
| "ntrip_step R C (RequestBytes h) s = ntrip_request_bytes C h s"
| "ntrip_step R C (RequestHeaders h) s = ntrip_request_headers C h s"
| "ntrip_step R C (MachineNew h) s = ntrip_machine_new C h s"
| "ntrip_step R C (MachinePush h bytes) s = ntrip_machine_push C h bytes s"
| "ntrip_step R C (MachineFinish h) s = ntrip_machine_finish C h s"
| "ntrip_step R C (MachineGga h now_s position utc) s = ntrip_machine_gga C h now_s position utc s"
| "ntrip_step R C (MachineReset h) s = ntrip_machine_reset C h s"
| "ntrip_step R C (MachineState h) s = ntrip_machine_state C h s"
| "ntrip_step R C (ParseSourcetable bytes) s = ntrip_parse_sourcetable C bytes s"
| "ntrip_step R C (SourcetableToText h) s = ntrip_sourcetable_to_text C h s"
| "ntrip_step R C AssemblerNew s = rtcm_assembler_new C s"
| "ntrip_step R C (AssemblerPush h bytes) s = rtcm_assembler_push R C h bytes s"

definition ntrip_init :: "('mach, 'asm) ntrip_state" where
  "ntrip_init = \<lparr>configs = [], machines = [], tables = [], assemblers = []\<rparr>"

text \<open>Which machine or assembler a call locks.\<close>

fun locks_machine :: "nat \<Rightarrow> ntrip_call \<Rightarrow> bool" where
  "locks_machine h (MachinePush k _) \<longleftrightarrow> k = h"
| "locks_machine h (MachineFinish k) \<longleftrightarrow> k = h"
| "locks_machine h (MachineGga k _ _ _) \<longleftrightarrow> k = h"
| "locks_machine h (MachineReset k) \<longleftrightarrow> k = h"
| "locks_machine h (MachineState k) \<longleftrightarrow> k = h"
| "locks_machine h _ \<longleftrightarrow> False"

fun locks_assembler :: "nat \<Rightarrow> ntrip_call \<Rightarrow> bool" where
  "locks_assembler h (AssemblerPush k _) \<longleftrightarrow> k = h"
| "locks_assembler h _ \<longleftrightarrow> False"

section \<open>What a call keeps\<close>

text \<open>Configurations and tables are only appended, cells are only added or locked.\<close>

definition keeps :: "('mach, 'asm) ntrip_state \<Rightarrow> ('mach, 'asm) ntrip_state \<Rightarrow> bool" where
  "keeps s s' \<longleftrightarrow> prefix (configs s) (configs s') \<and> prefix (tables s) (tables s') \<and>
     (\<forall>h. poisoned_at (machines s) h \<longrightarrow> poisoned_at (machines s') h) \<and>
     (\<forall>h. poisoned_at (assemblers s) h \<longrightarrow> poisoned_at (assemblers s') h)"

lemma keeps_refl [simp, intro]: "keeps s s"
  by (simp add: keeps_def)

lemma keeps_trans [trans]: "keeps s t \<Longrightarrow> keeps t u \<Longrightarrow> keeps s u"
  by (auto simp: keeps_def dest: prefix_order.trans)

lemma keeps_appends [simp]:
  "keeps s (s\<lparr>configs := configs s @ [config]\<rparr>)"
  "keeps s (s\<lparr>tables := tables s @ [table]\<rparr>)"
  "keeps s (s\<lparr>machines := machines s @ [m]\<rparr>)"
  "keeps s (s\<lparr>assemblers := assemblers s @ [a]\<rparr>)"
  by (simp_all add: keeps_def)

lemma keeps_sets:
  "\<not> poisoned_at (machines s) h \<Longrightarrow> keeps s (set_machine h m s)"
  "\<not> poisoned_at (assemblers s) h \<Longrightarrow> keeps s (set_assembler h a s)"
  by (auto simp: keeps_def set_machine_def set_assembler_def intro: poisoned_at_update)

text \<open>The configurations are untouched by a call that is not \<open>ntrip_config_new\<close>.\<close>

definition keeps_configs :: "('mach, 'asm) ntrip_state \<Rightarrow> ('mach, 'asm) ntrip_state \<Rightarrow> bool" where
  "keeps_configs s s' \<longleftrightarrow> keeps s s' \<and> configs s' = configs s"

lemma keeps_configs_refl [simp, intro]: "keeps_configs s s"
  by (simp add: keeps_configs_def)

lemma keeps_configs_trans [trans]: "keeps_configs s t \<Longrightarrow> keeps_configs t u \<Longrightarrow> keeps_configs s u"
  by (auto simp: keeps_configs_def dest: keeps_trans)

lemma encode_table_keeps: "keeps_configs s (snd (encode_table table s))"
  by (simp add: encode_table_def keeps_configs_def)

lemma encode_event_keeps: "keeps_configs s (snd (encode_event e s))"
  using encode_table_keeps by (cases e) (simp_all add: case_prod_unfold)

lemma encode_events_keeps: "keeps_configs s (snd (encode_events es s))"
proof (induction es arbitrary: s)
  case (Cons e es)
  show ?case
    using encode_event_keeps [of s e] Cons [of "snd (encode_event e s)"]
    by (auto simp: case_prod_unfold intro: keeps_configs_trans)
qed simp

lemma events_reply_keeps: "keeps_configs s (snd (events_reply es s))"
  using encode_events_keeps [of s es] by (simp add: events_reply_def case_prod_unfold)

lemma lock_fails:
  "poisoned_at (machines s) h \<Longrightarrow>
     with_machine h step k s = (Inl (Err (error_text ''ntrip machine lock poisoned'')), s)"
  "poisoned_at (assemblers s) h \<Longrightarrow>
     with_assembler h step' k' s = (Inl (Err (error_text ''rtcm assembler lock poisoned'')), s)"
  by (simp_all add: poisoned_at_def with_machine_def with_assembler_def with_resource_def lock_machine_def
      lock_assembler_def)

lemma with_machine_keeps:
  assumes "\<And>a s. keeps_configs s (snd (k a s))"
  shows "keeps_configs s (snd (with_machine h step k s))"
proof (cases "h < length (machines s) \<and> \<not> poisoned_at (machines s) h")
  case True
  then have set: "keeps_configs s (set_machine h m s)" for m
    by (simp add: keeps_configs_def keeps_sets) (simp add: set_machine_def)
  with True show ?thesis
    using keeps_configs_trans [OF set assms]
    by (auto simp: with_machine_def with_resource_def lock_machine_def poisoned_at_def
        split: option.splits prod.splits) (metis snd_conv)+
next
  case False
  then consider "length (machines s) \<le> h" | "poisoned_at (machines s) h" by linarith
  then show ?thesis by cases (simp add: with_machine_def with_resource_def, simp add: lock_fails)
qed

lemma with_assembler_keeps: "keeps_configs s (snd (with_assembler h step k s))"
proof (cases "h < length (assemblers s) \<and> \<not> poisoned_at (assemblers s) h")
  case True
  then have "keeps_configs s (set_assembler h m s)" for m
    by (simp add: keeps_configs_def keeps_sets) (simp add: set_assembler_def)
  with True show ?thesis
    by (auto simp: with_assembler_def with_resource_def lock_assembler_def poisoned_at_def
        split: option.splits prod.splits)
next
  case False
  then consider "length (assemblers s) \<le> h" | "poisoned_at (assemblers s) h" by linarith
  then show ?thesis by cases (simp add: with_assembler_def with_resource_def, simp add: lock_fails)
qed

lemmas ntrip_call_defs =
  ntrip_request_bytes_def ntrip_request_headers_def ntrip_machine_new_def ntrip_machine_push_def
  ntrip_machine_finish_def ntrip_machine_gga_def ntrip_machine_reset_def ntrip_machine_state_def
  ntrip_parse_sourcetable_def ntrip_sourcetable_to_text_def rtcm_assembler_new_def rtcm_assembler_push_def

lemma ntrip_step_keeps_configs:
  assumes "\<And>t. c \<noteq> ConfigNew t"
  shows "keeps_configs s (snd (ntrip_step R C c s))"
  using assms
  by (cases c)
    (auto simp: ntrip_call_defs with_resource_def case_prod_unfold encode_table_keeps keeps_configs_def [of _ "machines_update _ _"]
      keeps_configs_def [of _ "assemblers_update _ _"]
      intro: with_machine_keeps with_assembler_keeps events_reply_keeps split: sum.splits)

lemma ntrip_step_keeps: "keeps s (snd (ntrip_step R C c s))"
proof (cases "\<exists>t. c = ConfigNew t")
  case True
  then show ?thesis by (auto simp: ntrip_config_new_def split: sum.splits)
next
  case False
  then have "keeps_configs s (snd (ntrip_step R C c s))"
    by (intro ntrip_step_keeps_configs) auto
  then show ?thesis by (simp add: keeps_configs_def)
qed

lemma run_calls_keeps: "keeps s (run_calls (ntrip_step R C) cs s)"
  by (rule run_calls_invariant [where P = "keeps s"]) (auto intro: ntrip_step_keeps keeps_trans)

section \<open>The poisoning interface\<close>

lemma with_machine_panic:
  assumes "fst (with_machine h step k s) = Inl Panic"
  shows "poisoned_at (machines (snd (with_machine h step k s))) h"
  using assms
  by (auto simp: with_machine_def with_resource_def lock_machine_def poisoned_at_def set_machine_def
      split: if_splits option.splits prod.splits)

lemma with_assembler_panic:
  assumes "fst (with_assembler h step k s) = Inl Panic"
  shows "poisoned_at (assemblers (snd (with_assembler h step k s))) h"
  using assms
  by (auto simp: with_assembler_def with_resource_def lock_assembler_def poisoned_at_def set_assembler_def
      split: if_splits option.splits prod.splits)

interpretation mp: poisoning "ntrip_step R C" "\<lambda>h s. poisoned_at (machines s) h" "\<lambda>h c s. locks_machine h c"
  "Inl Panic" "\<lambda>_. Inl (Err (error_text ''ntrip machine lock poisoned''))" for R C
proof (unfold_locales, goal_cases)
  case (1 h c s)
  then show ?case by (cases c) (simp_all add: ntrip_call_defs with_machine_panic)
next
  case (2 h s c)
  then show ?case using ntrip_step_keeps [of s R C c] by (simp add: keeps_def)
next
  case (3 h s c)
  then show ?case by (cases c) (simp_all add: ntrip_call_defs lock_fails)
qed

interpretation ap: poisoning "ntrip_step R C" "\<lambda>h s. poisoned_at (assemblers s) h" "\<lambda>h c s. locks_assembler h c"
  "Inl Panic" "\<lambda>_. Inl (Err (error_text ''rtcm assembler lock poisoned''))" for R C
proof (unfold_locales, goal_cases)
  case (1 h c s)
  then show ?case by (cases c) (simp_all add: ntrip_call_defs with_assembler_panic)
next
  case (2 h s c)
  then show ?case using ntrip_step_keeps [of s R C c] by (simp add: keeps_def)
next
  case (3 h s c)
  then show ?case by (cases c) (simp_all add: ntrip_call_defs lock_fails)
qed

section \<open>Configurations\<close>

definition configs_accepted :: "('mach, 'asm, 'msg) ntrip_core \<Rightarrow> ('mach, 'asm) ntrip_state \<Rightarrow> bool" where
  "configs_accepted C s \<longleftrightarrow> list_all (\<lambda>config. \<not> isl (request_bytes C config)) (configs s)"

lemma config_new_accepted: "configs_accepted C s \<Longrightarrow> configs_accepted C (snd (ntrip_config_new C t s))"
  by (auto simp: ntrip_config_new_def configs_accepted_def split: sum.splits)

lemma ntrip_step_accepted: "configs_accepted C s \<Longrightarrow> configs_accepted C (snd (ntrip_step R C c s))"
proof (cases "\<exists>t. c = ConfigNew t")
  case True
  moreover assume "configs_accepted C s"
  ultimately show ?thesis by (auto simp: config_new_accepted)
next
  case False
  moreover assume "configs_accepted C s"
  ultimately show ?thesis
    using ntrip_step_keeps_configs [of c s R C] by (auto simp: keeps_configs_def configs_accepted_def)
qed

section \<open>Events and tables\<close>

lemma encode_event_shape:
  "encode_event e s = (t, s') \<Longrightarrow> e = SourcetableEvent table \<Longrightarrow>
     t = Tup [Atom ''sourcetable'', Tup [Resource (length (tables s)), enc_list encode_record table]] \<and>
     tables s' = tables s @ [table]"
  by (auto simp: encode_table_def)

lemma encode_events_tables:
  assumes "encode_events es s = (ts, s')" "i < length es" "es ! i = SourcetableEvent table"
  shows "\<exists>h. ts ! i = Tup [Atom ''sourcetable'', Tup [Resource h, enc_list encode_record table]] \<and>
    h < length (tables s') \<and> tables s' ! h = table"
  using assms
proof (induction es arbitrary: s ts i)
  case (Cons e es)
  obtain t u ts' where e: "encode_event e s = (t, u)" "encode_events es u = (ts', s')" "ts = t # ts'"
    using Cons.prems(1) by (auto split: prod.splits)
  show ?case
  proof (cases i)
    case 0
    with Cons.prems e have "tables u = tables s @ [table]"
      "t = Tup [Atom ''sourcetable'', Tup [Resource (length (tables s)), enc_list encode_record table]]"
      using encode_event_shape [OF e(1)] by simp_all
    moreover have "prefix (tables u) (tables s')"
      using encode_events_keeps [of u es] e(2) by (simp add: keeps_configs_def keeps_def)
    ultimately show ?thesis using 0 e(3) by (auto simp: prefix_def nth_append)
  next
    case (Suc k)
    with Cons.prems e show ?thesis using Cons.IH [OF e(2), of k] by simp
  qed
qed simp

lemma encode_events_length: "encode_events es s = (ts, s') \<Longrightarrow> length ts = length es"
  by (induction es arbitrary: s ts) (auto split: prod.splits)

lemma encode_event_machines: "machines (snd (encode_event e s)) = machines s"
  by (cases e) (simp_all add: encode_table_def)

lemma encode_events_machines: "encode_events es s = (ts, s') \<Longrightarrow> machines s' = machines s"
  by (induction es arbitrary: s ts) (auto split: prod.splits, metis encode_event_machines snd_conv)

lemma table_text_stays:
  assumes "h < length (tables s)"
  shows "fst (ntrip_sourcetable_to_text C h (run_calls (ntrip_step R C) cs s)) =
    Inr (text_result Utf8 (sourcetable_to_text C (tables s ! h)))"
proof -
  have "prefix (tables s) (tables (run_calls (ntrip_step R C) cs s))"
    using run_calls_keeps [of s R C cs] by (simp add: keeps_def)
  with assms show ?thesis
    by (auto simp: prefix_def ntrip_sourcetable_to_text_def with_resource_def nth_append)
qed

section \<open>A concrete client\<close>

text \<open>For the witnesses: a machine that counts its pushes, announces the caster's table on each and panics on
  an empty one; the request of a configuration is its mountpoint, which must not be empty.\<close>

definition small_config :: NtripConfigTerm where
  "small_config =
     \<lparr>ct_host = ''caster'', ct_port = 2101, ct_mountpoint = ''MOUNT'', ct_version = ''rev2'',
      ct_username = None, ct_password = None, ct_user_agent_product = None, ct_gga_interval_s = None\<rparr>"

definition small_table :: Sourcetable where
  "small_table = [Other \<lparr>other_type_tag = ''X'', other_fields = [''a'', ''b'']\<rparr>]"

definition small_client ::
  "(nat, nat, (unit, unit, unit, (unit, unit) Message) core_result) ntrip_core" where
  "small_client =
     \<lparr>default_config = \<lparr>cfg_host = '''', cfg_port = 2101, cfg_mountpoint = '''', cfg_version = Rev2,
        cfg_credentials = None, cfg_user_agent_product = ''NTRIP'', cfg_gga_interval_s = None\<rparr>,
      request_bytes = (\<lambda>config. if cfg_mountpoint config = '''' then Inl ''no mountpoint'' else Inr [71, 69, 84]),
      request_headers = (\<lambda>config. Inr (cfg_mountpoint config, [])), machine_new = (\<lambda>_. 0),
      machine_push = (\<lambda>m bytes. if bytes = [] then None
        else Some ([Payload bytes, SourcetableEvent small_table], m + 1)),
      machine_finish = (\<lambda>m. Some ([StreamEnded], m)), machine_gga = (\<lambda>m _ _ _. Some (Inr None, m)),
      machine_reset = (\<lambda>_. Some 0), machine_state = (\<lambda>_. Some Idle),
      classify_http_response = (\<lambda>_ _ _. StreamResponse False), from_utf8 = (\<lambda>bytes. Inr ''''),
      parse_sourcetable = (\<lambda>_. Inr []), sourcetable_to_text = (\<lambda>table. Inr (show_nat (length table))),
      format_gga = (\<lambda>_ _. Inr []), assembler_new = 0, assembler_push = (\<lambda>a _. Some ([], a))\<rparr>"

abbreviation small_run :: "ntrip_call list \<Rightarrow> (nat, nat) ntrip_state" where
  "small_run cs \<equiv> run_calls (ntrip_step one_core small_client) cs ntrip_init"

lemmas small_simps =
  ntrip_init_def small_config_def small_client_def ntrip_config_new_def config_from_term_def parse_version_def
  ntrip_machine_new_def with_resource_def ntrip_machine_push_def with_machine_def lock_machine_def
  set_machine_def cell_new_def events_reply_def encode_table_def

section \<open>Properties\<close>

text \<open>C31. A configuration handle always makes a request: whatever calls were made since the library was
  loaded, the request of a configuration that exists is bytes, never an error, and asking changes nothing.\<close>

theorem config_handles_make_requests:
  assumes "s = run_calls (ntrip_step R C) cs ntrip_init" "h < length (configs s)"
  shows "\<exists>bytes. request_bytes C (configs s ! h) = Inr bytes \<and>
    ntrip_request_bytes C h s = (Inr (ok_term (Bin bytes)), s)"
proof -
  have "configs_accepted C s"
    unfolding assms(1)
    by (rule run_calls_invariant [where P = "configs_accepted C"])
      (simp_all add: ntrip_step_accepted, simp add: configs_accepted_def ntrip_init_def)
  with assms(2) obtain bytes where "request_bytes C (configs s ! h) = Inr bytes"
    by (cases "request_bytes C (configs s ! h)") (auto simp: configs_accepted_def list_all_length)
  with assms(2) show ?thesis by (simp add: ntrip_request_bytes_def with_resource_def text_result_def)
qed

theorem config_handles_make_requests_witness:
  "length (configs (small_run [ConfigNew small_config])) = 1 \<and>
   (\<exists>bytes. ntrip_request_bytes small_client 0 (small_run [ConfigNew small_config]) =
     (Inr (ok_term (Bin bytes)), small_run [ConfigNew small_config]))"
proof -
  let ?s = "small_run [ConfigNew small_config]"
  have one: "length (configs ?s) = 1" by (simp add: small_simps)
  then have "0 < length (configs ?s)" by simp
  from config_handles_make_requests [OF refl this] one show ?thesis by blast
qed

text \<open>C32. A machine that panicked is never run again: after a call on it panicked, and whatever calls
  followed, every call on that machine is refused with the same error and changes no resource.\<close>

theorem panicked_machine_refused:
  assumes "locks_machine h c" "fst (ntrip_step R C c s) = Inl Panic" "locks_machine h d"
    "s' = run_calls (ntrip_step R C) cs (snd (ntrip_step R C c s))"
  shows "ntrip_step R C d s' = (Inl (Err (error_text ''ntrip machine lock poisoned'')), s')"
  using assms by (rule mp.refused_after_panic)

theorem panicked_machine_refused_witness:
  "\<exists>s. fst (ntrip_machine_push small_client 0 [] s) = Inl Panic \<and>
     fst (ntrip_machine_state small_client 0 (snd (ntrip_machine_push small_client 0 [] s))) =
       Inl (Err (error_text ''ntrip machine lock poisoned''))"
proof -
  let ?s = "small_run [ConfigNew small_config, MachineNew 0]"
  have "fst (ntrip_step one_core small_client (MachinePush 0 []) ?s) = Inl Panic"
    by (simp add: small_simps)
  with panicked_machine_refused [OF _ this, of 0 "MachineState 0" _ "[]"]
  show ?thesis by (intro exI [of _ ?s]) simp
qed

text \<open>The same holds of the assemblers.\<close>

lemma panicked_assembler_refused:
  assumes "fst (rtcm_assembler_push R C h bytes s) = Inl Panic"
    "s' = run_calls (ntrip_step R C) cs (snd (rtcm_assembler_push R C h bytes s))"
  shows "rtcm_assembler_push R C h bytes2 s' = (Inl (Err (error_text ''rtcm assembler lock poisoned'')), s')"
  using ap.refused_after_panic [of h "AssemblerPush h bytes" R C s "AssemblerPush h bytes2" s' cs] assms by simp

text \<open>A push answers one term per event, in order, and the handle it returns with a sourcetable keeps
  naming that table: after any further calls, its text is the text the core makes of the table.\<close>

theorem pushed_tables_keep_handles:
  assumes "h < length (machines s)" "\<not> cell_poisoned (machines s ! h)"
    "machine_push C (cell_value (machines s ! h)) bytes = Some (events, m)"
  shows "\<exists>terms s'. ntrip_machine_push C h bytes s = (Inr (Lst terms), s') \<and> length terms = length events \<and>
    machines s' = (machines s)[h := cell_new m] \<and>
    (\<forall>i < length events. \<forall>table. events ! i = SourcetableEvent table \<longrightarrow>
      (\<exists>k. terms ! i = Tup [Atom ''sourcetable'', Tup [Resource k, enc_list encode_record table]] \<and>
        (\<forall>cs. fst (ntrip_sourcetable_to_text C k (run_calls (ntrip_step R C) cs s')) =
          Inr (text_result Utf8 (sourcetable_to_text C table)))))"
proof -
  obtain terms s' where e: "encode_events events (set_machine h (cell_new m) s) = (terms, s')" by force
  then have "machines s' = (machines s)[h := cell_new m]"
    by (simp add: encode_events_machines [OF e] set_machine_def)
  moreover have "ntrip_machine_push C h bytes s = (Inr (Lst terms), s')"
    using assms e
    by (simp add: ntrip_machine_push_def with_machine_def with_resource_def lock_machine_def events_reply_def)
  ultimately show ?thesis
    using encode_events_length [OF e] encode_events_tables [OF e] table_text_stays by metis
qed

theorem pushed_tables_keep_handles_witness:
  "\<exists>terms s'. ntrip_machine_push small_client 0 [7] (small_run [ConfigNew small_config, MachineNew 0]) =
       (Inr (Lst terms), s') \<and>
     (\<exists>k. terms ! 1 = Tup [Atom ''sourcetable'', Tup [Resource k, enc_list encode_record small_table]] \<and>
       fst (ntrip_sourcetable_to_text small_client k (snd (ntrip_machine_push small_client 0 [] s'))) =
         Inr (text_result Utf8 (sourcetable_to_text small_client small_table)))"
proof -
  let ?s = "small_run [ConfigNew small_config, MachineNew 0]"
  let ?events = "[Payload [7], SourcetableEvent small_table]"
  have "0 < length (machines ?s)" "\<not> cell_poisoned (machines ?s ! 0)"
    "machine_push small_client (cell_value (machines ?s ! 0)) [7] = Some (?events, 1)"
    by (simp_all add: small_simps)
  from pushed_tables_keep_handles [OF this, of one_core]
  obtain terms s' where p: "ntrip_machine_push small_client 0 [7] ?s = (Inr (Lst terms), s')"
    and "\<forall>i < length ?events. \<forall>table. ?events ! i = SourcetableEvent table \<longrightarrow>
      (\<exists>k. terms ! i = Tup [Atom ''sourcetable'', Tup [Resource k, enc_list encode_record table]] \<and>
        (\<forall>cs. fst (ntrip_sourcetable_to_text small_client k (run_calls (ntrip_step one_core small_client) cs s')) =
          Inr (text_result Utf8 (sourcetable_to_text small_client table))))" by blast
  from this(2) [rule_format, of 1 small_table]
  obtain k where "terms ! 1 = Tup [Atom ''sourcetable'', Tup [Resource k, enc_list encode_record small_table]]"
    "\<forall>cs. fst (ntrip_sourcetable_to_text small_client k (run_calls (ntrip_step one_core small_client) cs s')) =
      Inr (text_result Utf8 (sourcetable_to_text small_client small_table))" by auto
  moreover from this(2) [rule_format, of "[MachinePush 0 []]"]
  have "fst (ntrip_sourcetable_to_text small_client k (snd (ntrip_machine_push small_client 0 [] s'))) =
      Inr (text_result Utf8 (sourcetable_to_text small_client small_table))" by simp
  ultimately show ?thesis using p by blast
qed

end
