(* ===== verification/Fusion.thy ===== *)
theory Fusion
  imports Resources
begin

text \<open>
  The values of \<open>native/sidereon_nif/src/fusion.rs\<close>: the boundary structures of the inertial fusion calls, the
  core structures they are decoded into or encoded from, the decoders with their order of refusals, and the
  error terms. The core is the record \<open>fusion_core\<close> of the calls' theory; here the functions of it that a
  decoder uses are \<open>inertial_core\<close>.

  A boundary structure is the record of its fields; arrays of three are triples. \<open>'o\<close> is the type of the core
  values this module never looks into (filters, builders, histories, ephemerides). A configuration that the
  core builds from arguments only is the datatype of that call, and a core structure that starts from its
  default has the fields the module sets.
\<close>

section \<open>Vectors\<close>

type_synonym vec3 = "f64 \<times> f64 \<times> f64"
type_synonym mat3 = "vec3 \<times> vec3 \<times> vec3"

datatype DegradeReason = BeforeCoverage | AfterCoverage

datatype FusionError =
    InvalidInput string string
  | DimensionMismatch string u64 u64
  | SingularInnovation
  | NonPositiveSemidefinite string
  | NonPositiveDefinite string
  | NominalState
  | Ut1OutsideCoverage DegradeReason

datatype InertialError =
    InertialInvalidInput string string
  | NonMonotonicSample
  | SingularCalibration
  | DegenerateAttitude

datatype InertialDecodeError = Fusion FusionError | Inertial InertialError

definition usize_len :: "'a list \<Rightarrow> u64" where
  "usize_len xs = word_of_nat (length xs)"

definition vec3 :: "f64 list \<Rightarrow> string \<Rightarrow> FusionError + vec3" where
  "vec3 values field =
     (case values of [a, b, c] \<Rightarrow> Inr (a, b, c) | _ \<Rightarrow> Inl (DimensionMismatch field 3 (usize_len values)))"

definition mat3 :: "f64 list list \<Rightarrow> string \<Rightarrow> FusionError + mat3" where
  "mat3 values field =
     (case values of
        [r0, r1, r2] \<Rightarrow>
          and_then (vec3 r0 field) (\<lambda>a. and_then (vec3 r1 field) (\<lambda>b. and_then (vec3 r2 field) (\<lambda>c.
          Inr (a, b, c))))
      | _ \<Rightarrow> Inl (DimensionMismatch field 3 (usize_len values)))"

text \<open>\<open>[f64; 3]::to_vec\<close>, and the rows of a matrix.\<close>

fun to_vec :: "vec3 \<Rightarrow> f64 list" where
  "to_vec (a, b, c) = [a, b, c]"

fun rows :: "mat3 \<Rightarrow> f64 list list" where
  "rows (a, b, c) = [to_vec a, to_vec b, to_vec c]"

definition f64_infinity :: f64 where
  "f64_infinity = 0x7FF0000000000000"

section \<open>Boundary structures\<close>

record NavStateTerm =
  nst_t_j2000_s :: f64
  nst_position_ecef_m :: "f64 list"
  nst_velocity_ecef_mps :: "f64 list"
  nst_attitude_body_to_ecef :: "f64 list list"
  nst_accel_bias_mps2 :: "f64 list"
  nst_gyro_bias_rps :: "f64 list"

record FilterStateTerm =
  fist_nominal :: NavStateTerm
  fist_layout :: string
  fist_covariance :: "f64 list list option"
  fist_covariance_diagonal :: "f64 list option"
  fist_accel_scale_factor :: "f64 list"
  fist_gyro_scale_factor :: "f64 list"

record ImuSpecTerm =
  ist_accel_vrw_mps_sqrt_s :: f64
  ist_gyro_arw_rad_sqrt_s :: f64
  ist_accel_bias_instab_mps2 :: f64
  ist_gyro_bias_instab_rps :: f64
  ist_accel_bias_tau_s :: "f64 option"
  ist_gyro_bias_tau_s :: "f64 option"
  ist_accel_scale_instab_ppm :: "f64 option"
  ist_gyro_scale_instab_ppm :: "f64 option"

record ImuBiasTerm =
  ibt_accel_mps2 :: "f64 list"
  ibt_gyro_rps :: "f64 list"

record ImuCalibrationTerm =
  ict_accel_scale_misalignment :: "f64 list list"
  ict_gyro_scale_misalignment :: "f64 list list"

record ImuModelTerm =
  imt_bias :: ImuBiasTerm
  imt_calibration :: ImuCalibrationTerm

record MechanizationTerm =
  mcht_coning_correction :: string

record InnovationGateTerm =
  igt_threshold_sigma :: f64
  igt_min_rows :: u64

record EkfOptionsTerm =
  eot_innovation_gate :: "InnovationGateTerm option"

record IggIiiMeasurementReweightingTerm =
  iggt_k0_sigma :: f64
  iggt_k1_sigma :: f64

record YangPredictionAdaptiveFactorTerm =
  ypt_threshold :: f64
  ypt_outlier_gate_probability :: f64

record FixStatusWeightingTerm =
  fswt_single_sigma_multiplier :: f64
  fswt_float_sigma_multiplier :: f64
  fswt_fixed_sigma_multiplier :: f64

record StationaryDetectorTerm =
  sdt_window_len :: u64
  sdt_max_specific_force_norm_error_mps2 :: f64
  sdt_max_body_rate_wrt_ecef_norm_rps :: f64

record StationaryUpdateTerm =
  sut_detector :: StationaryDetectorTerm
  sut_zero_velocity_sigma_mps :: f64
  sut_zero_angular_rate_sigma_rps :: f64

record NonHolonomicTerm =
  nht_lateral_velocity_sigma_mps :: f64
  nht_vertical_velocity_sigma_mps :: f64
  nht_min_speed_mps :: f64
  nht_max_body_rate_wrt_ecef_norm_rps :: f64

record VelocityMatchingConfigTerm =
  vmct_max_outage_duration_s :: f64

record VelocityMatchStateTerm =
  vmst_t_j2000_s :: f64
  vmst_position_ecef_m :: "f64 list"
  vmst_velocity_ecef_mps :: "f64 list"

record LooseConfigTerm =
  lct_lever_arm_body_m :: "f64 list"
  lct_update_options :: EkfOptionsTerm
  lct_fix_status_weighting :: FixStatusWeightingTerm
  lct_measurement_reweighting :: "IggIiiMeasurementReweightingTerm option"
  lct_prediction_adaptation :: "YangPredictionAdaptiveFactorTerm option"
  lct_stationary_updates :: "StationaryUpdateTerm option"
  lct_non_holonomic :: "NonHolonomicTerm option"

record TightConfigTerm =
  tct_lever_arm_body_m :: "f64 list"
  tct_light_time :: bool
  tct_sagnac :: bool
  tct_initial_clock_bias_variance_m2 :: f64
  tct_initial_clock_drift_variance_m2_s2 :: f64
  tct_clock_bias_random_walk_m2_s :: f64
  tct_clock_drift_random_walk_m2_s3 :: f64
  tct_update_options :: EkfOptionsTerm

record UkfOptionsTerm =
  uot_alpha :: f64
  uot_beta :: f64
  uot_kappa :: f64
  uot_innovation_gate :: "InnovationGateTerm option"

record FilterConfigTerm =
  fict_imu_spec :: ImuSpecTerm
  fict_filter_kind :: string
  fict_imu_model :: ImuModelTerm
  fict_imu_to_body_dcm :: "f64 list list"
  fict_mechanization :: MechanizationTerm
  fict_loose :: LooseConfigTerm
  fict_tight :: TightConfigTerm
  fict_ukf_update_options :: UkfOptionsTerm

record ImuSampleTerm =
  ismt_t_j2000_s :: f64
  ismt_kind :: string
  ismt_specific_force_mps2 :: "f64 list"
  ismt_angular_rate_rps :: "f64 list"
  ismt_delta_velocity_mps :: "f64 list"
  ismt_delta_theta_rad :: "f64 list"
  ismt_dt_s :: f64

record CorrectedImuIncrementTerm =
  ciit_t_j2000_s :: f64
  ciit_delta_velocity_mps :: "f64 list"
  ciit_delta_theta_rad :: "f64 list"
  ciit_dt_s :: f64

record ImuRateRandomWalkTerm =
  irwt_accel_mps2_sqrt_s :: f64
  irwt_gyro_rps_sqrt_s :: f64

record ImuSimulationOptionsTerm =
  isot_output :: string
  isot_seed :: "u64 option"
  isot_initial_bias :: ImuBiasTerm
  isot_calibration :: ImuCalibrationTerm
  isot_rate_random_walk :: "ImuRateRandomWalkTerm option"

record LooseMeasurementTerm =
  lmt_t_j2000_s :: f64
  lmt_position_ecef_m :: "f64 list"
  lmt_velocity_ecef_mps :: "f64 list option"
  lmt_covariance :: "f64 list list"
  lmt_satellites_used :: u64
  lmt_solution_valid :: bool
  lmt_fix_status :: string

record TightRangeRateTerm =
  trrt_measured_range_rate_m_s :: f64
  trrt_sigma_m_s :: f64
  trrt_satellite_clock_drift_m_s :: f64

record TightCarrierPhaseTerm =
  tcpt_phase_range_m :: f64
  tcpt_sigma_m :: f64
  tcpt_float_ambiguity_m :: f64

record TightObservationTerm =
  tot_satellite_id :: string
  tot_pseudorange_m :: f64
  tot_pseudorange_sigma_m :: f64
  tot_range_rate :: "TightRangeRateTerm option"
  tot_carrier_phase :: "TightCarrierPhaseTerm option"
  tot_ionosphere_delay_m :: f64
  tot_troposphere_delay_m :: f64

record TightEpochTerm =
  tept_t_j2000_s :: f64
  tept_observations :: "TightObservationTerm list"

record TimeSyncConfigTerm =
  tsct_imu_capacity :: u64
  tsct_checkpoint_capacity :: u64

record SimulatedImuSequenceTerm =
  sist_samples :: "ImuSampleTerm list"
  sist_bias_history :: "ImuBiasTerm list"
  sist_rate_random_walk_history :: "ImuBiasTerm list"

text \<open>The maps of the structures that also leave.\<close>

definition enc_ImuSpecTerm :: "ImuSpecTerm \<Rightarrow> nterm" where
  "enc_ImuSpecTerm x = nif_map
     [(''accel_vrw_mps_sqrt_s'', Float (ist_accel_vrw_mps_sqrt_s x)),
      (''gyro_arw_rad_sqrt_s'', Float (ist_gyro_arw_rad_sqrt_s x)),
      (''accel_bias_instab_mps2'', Float (ist_accel_bias_instab_mps2 x)),
      (''gyro_bias_instab_rps'', Float (ist_gyro_bias_instab_rps x)),
      (''accel_bias_tau_s'', enc_option Float (ist_accel_bias_tau_s x)),
      (''gyro_bias_tau_s'', enc_option Float (ist_gyro_bias_tau_s x)),
      (''accel_scale_instab_ppm'', enc_option Float (ist_accel_scale_instab_ppm x)),
      (''gyro_scale_instab_ppm'', enc_option Float (ist_gyro_scale_instab_ppm x))]"

definition enc_ImuBiasTerm :: "ImuBiasTerm \<Rightarrow> nterm" where
  "enc_ImuBiasTerm x = nif_map
     [(''accel_mps2'', enc_list Float (ibt_accel_mps2 x)), (''gyro_rps'', enc_list Float (ibt_gyro_rps x))]"

definition enc_ImuSampleTerm :: "ImuSampleTerm \<Rightarrow> nterm" where
  "enc_ImuSampleTerm x = nif_map
     [(''t_j2000_s'', Float (ismt_t_j2000_s x)), (''kind'', Utf8 (ismt_kind x)),
      (''specific_force_mps2'', enc_list Float (ismt_specific_force_mps2 x)),
      (''angular_rate_rps'', enc_list Float (ismt_angular_rate_rps x)),
      (''delta_velocity_mps'', enc_list Float (ismt_delta_velocity_mps x)),
      (''delta_theta_rad'', enc_list Float (ismt_delta_theta_rad x)), (''dt_s'', Float (ismt_dt_s x))]"

definition enc_CorrectedImuIncrementTerm :: "CorrectedImuIncrementTerm \<Rightarrow> nterm" where
  "enc_CorrectedImuIncrementTerm x = nif_map
     [(''t_j2000_s'', Float (ciit_t_j2000_s x)),
      (''delta_velocity_mps'', enc_list Float (ciit_delta_velocity_mps x)),
      (''delta_theta_rad'', enc_list Float (ciit_delta_theta_rad x)), (''dt_s'', Float (ciit_dt_s x))]"

definition enc_VelocityMatchStateTerm :: "VelocityMatchStateTerm \<Rightarrow> nterm" where
  "enc_VelocityMatchStateTerm x = nif_map
     [(''t_j2000_s'', Float (vmst_t_j2000_s x)),
      (''position_ecef_m'', enc_list Float (vmst_position_ecef_m x)),
      (''velocity_ecef_mps'', enc_list Float (vmst_velocity_ecef_mps x))]"

definition enc_SimulatedImuSequenceTerm :: "SimulatedImuSequenceTerm \<Rightarrow> nterm" where
  "enc_SimulatedImuSequenceTerm x = nif_map
     [(''samples'', enc_list enc_ImuSampleTerm (sist_samples x)),
      (''bias_history'', enc_list enc_ImuBiasTerm (sist_bias_history x)),
      (''rate_random_walk_history'', enc_list enc_ImuBiasTerm (sist_rate_random_walk_history x))]"

section \<open>Core structures\<close>

record NavState =
  nav_t_j2000_s :: f64
  nav_position_ecef_m :: vec3
  nav_velocity_ecef_mps :: vec3
  nav_attitude_body_to_ecef :: mat3
  nav_accel_bias_mps2 :: vec3
  nav_gyro_bias_rps :: vec3

datatype ErrorStateLayout = Fifteen | TwentyOne

datatype FusionFilterKind = Ekf | Ukf

record InsFilterState =
  ins_nominal :: NavState
  ins_layout :: ErrorStateLayout
  ins_error_state :: "f64 list"
  ins_covariance :: "f64 list list"
  ins_accel_scale_factor :: vec3
  ins_gyro_scale_factor :: vec3

datatype ImuGrade = Mems | Tactical | Navigation

record ImuSpec =
  spec_accel_vrw_mps_sqrt_s :: f64
  spec_gyro_arw_rad_sqrt_s :: f64
  spec_accel_bias_instab_mps2 :: f64
  spec_gyro_bias_instab_rps :: f64
  spec_accel_bias_tau_s :: f64
  spec_gyro_bias_tau_s :: f64
  spec_accel_scale_instab_ppm :: "f64 option"
  spec_gyro_scale_instab_ppm :: "f64 option"

record ImuBias =
  bias_accel_mps2 :: vec3
  bias_gyro_rps :: vec3

record ImuCalibration =
  cal_accel_scale_misalignment :: mat3
  cal_gyro_scale_misalignment :: mat3

record ImuErrorModel =
  model_bias :: ImuBias
  model_calibration :: ImuCalibration

datatype ConingCorrection = ConingOff

record MechanizationConfig =
  mech_coning_correction :: ConingCorrection

record InnovationGate =
  gate_threshold_sigma :: f64
  gate_min_rows :: u64

record EkfUpdateOptions =
  ekf_innovation_gate :: "InnovationGate option"

record IggIiiMeasurementReweighting =
  igg_k0_sigma :: f64
  igg_k1_sigma :: f64

record YangPredictionAdaptiveFactor =
  yang_threshold :: f64
  yang_outlier_gate_probability :: f64

record GnssFixStatusWeighting =
  fsw_single_sigma_multiplier :: f64
  fsw_float_sigma_multiplier :: f64
  fsw_fixed_sigma_multiplier :: f64

datatype StationaryDetectorConfig = StationaryDetectorConfig_new u64 f64 f64

datatype StationaryUpdateConfig = StationaryUpdateConfig_new StationaryDetectorConfig f64 f64

datatype NonHolonomicConstraintConfig = NonHolonomicConstraintConfig_new f64 f64 f64 f64

datatype VelocityMatchingConfig = VelocityMatchingConfig_new f64

datatype TimeSyncHistoryConfig = TimeSyncHistoryConfig_new u64 u64

record LooseCouplingConfig =
  loose_lever_arm_body_m :: vec3
  loose_update_options :: EkfUpdateOptions
  loose_fix_status_weighting :: GnssFixStatusWeighting
  loose_measurement_reweighting :: "IggIiiMeasurementReweighting option"
  loose_prediction_adaptation :: "YangPredictionAdaptiveFactor option"
  loose_stationary_updates :: "StationaryUpdateConfig option"
  loose_non_holonomic :: "NonHolonomicConstraintConfig option"

record TightCouplingConfig =
  tight_lever_arm_body_m :: vec3
  tight_light_time :: bool
  tight_sagnac :: bool
  tight_initial_clock_bias_variance_m2 :: f64
  tight_initial_clock_drift_variance_m2_s2 :: f64
  tight_clock_bias_random_walk_m2_s :: f64
  tight_clock_drift_random_walk_m2_s3 :: f64
  tight_update_options :: EkfUpdateOptions

record UnscentedTransformOptions =
  ut_alpha :: f64
  ut_beta :: f64
  ut_kappa :: f64

record UkfUpdateOptions =
  ukf_transform :: UnscentedTransformOptions
  ukf_innovation_gate :: "InnovationGate option"

text \<open>\<open>ifc_base\<close> is what \<open>InertialFilterConfig::new\<close> made of the sensor specification.\<close>

record 'o InertialFilterConfig =
  ifc_base :: 'o
  ifc_filter_kind :: FusionFilterKind
  ifc_imu_model :: ImuErrorModel
  ifc_imu_to_body_dcm :: mat3
  ifc_mechanization :: MechanizationConfig
  ifc_loose :: LooseCouplingConfig
  ifc_tight :: TightCouplingConfig
  ifc_ukf_update_options :: UkfUpdateOptions

datatype ImuSampleKind = Rate vec3 vec3 | Increment vec3 vec3 f64

record ImuSample =
  sample_t_j2000_s :: f64
  sample_kind :: ImuSampleKind

record CorrectedImuIncrement =
  inc_t_j2000_s :: f64
  inc_delta_velocity_mps :: vec3
  inc_delta_theta_rad :: vec3
  inc_dt_s :: f64

datatype ImuSimulationOutput = RateOutput | IncrementOutput

record ImuRateRandomWalk =
  walk_accel_mps2_sqrt_s :: f64
  walk_gyro_rps_sqrt_s :: f64

record ImuSimulationOptions =
  sim_output :: ImuSimulationOutput
  sim_seed :: u64
  sim_initial_bias :: ImuBias
  sim_calibration :: ImuCalibration
  sim_rate_random_walk :: "ImuRateRandomWalk option"

datatype GnssFixStatus = Single | FloatFix | FixedFix

record GnssFixMeasurement =
  fix_t_j2000_s :: f64
  fix_position_ecef_m :: vec3
  fix_velocity_ecef_mps :: "vec3 option"
  fix_covariance :: "f64 list list"
  fix_satellites_used :: u64
  fix_solution_valid :: bool
  fix_fix_status :: GnssFixStatus

record TightRangeRateObservation =
  rr_measured_range_rate_m_s :: f64
  rr_sigma_m_s :: f64
  rr_satellite_clock_drift_m_s :: f64

record TightCarrierPhaseObservation =
  cp_phase_range_m :: f64
  cp_sigma_m :: f64
  cp_float_ambiguity_m :: f64

record 'o TightGnssObservation =
  tgo_satellite_id :: 'o
  tgo_pseudorange_m :: f64
  tgo_pseudorange_sigma_m :: f64
  tgo_range_rate :: "TightRangeRateObservation option"
  tgo_carrier_phase :: "TightCarrierPhaseObservation option"
  tgo_ionosphere_delay_m :: f64
  tgo_troposphere_delay_m :: f64

record VelocityMatchState =
  vms_t_j2000_s :: f64
  vms_position_ecef_m :: vec3
  vms_velocity_ecef_mps :: vec3

text \<open>The functions of the core that the decoders call.\<close>

datatype (plugins only: code) 'o nav_core = nav_core
  (core_error_from_inertial: "InertialError \<Rightarrow> FusionError")
  (core_nav_state_new: "f64 \<Rightarrow> vec3 \<Rightarrow> vec3 \<Rightarrow> mat3 \<Rightarrow> InertialError + NavState")
  (core_nav_state_with_biases: "NavState \<Rightarrow> vec3 \<Rightarrow> vec3 \<Rightarrow> InertialError + NavState")
  (core_ins_state_new: "NavState \<Rightarrow> ErrorStateLayout \<Rightarrow> f64 list list \<Rightarrow> FusionError + InsFilterState")
  (core_ins_state_from_diagonal: "NavState \<Rightarrow> ErrorStateLayout \<Rightarrow> f64 list \<Rightarrow> FusionError + InsFilterState")
  (core_ins_state_validate: "InsFilterState \<Rightarrow> FusionError + unit")

datatype (plugins only: code) 'o imu_core = imu_core
  (core_imu_spec_datasheet: "f64 \<Rightarrow> f64 \<Rightarrow> f64 \<Rightarrow> f64 \<Rightarrow> f64 \<Rightarrow> f64 \<Rightarrow> f64 option \<Rightarrow> f64 option \<Rightarrow> ImuSpec")
  (core_imu_spec_validate: "ImuSpec \<Rightarrow> InertialError + unit")
  (core_imu_bias_validate: "ImuBias \<Rightarrow> InertialError + unit")
  (core_imu_calibration_validate: "ImuCalibration \<Rightarrow> InertialError + unit")
  (core_imu_sample_rate: "f64 \<Rightarrow> vec3 \<Rightarrow> vec3 \<Rightarrow> ImuSample")
  (core_imu_sample_increment: "f64 \<Rightarrow> vec3 \<Rightarrow> vec3 \<Rightarrow> f64 \<Rightarrow> ImuSample")
  (core_default_imu_sim_seed: u64)
  (core_sim_options_validate: "ImuSimulationOptions \<Rightarrow> InertialError + unit")
  (core_filter_config_new: "ImuSpec \<Rightarrow> FusionError + 'o")

datatype (plugins only: code) 'o measurement_core = measurement_core
  (core_filter_config_validate: "'o InertialFilterConfig \<Rightarrow> FusionError + unit")
  (core_fix_validate: "GnssFixMeasurement \<Rightarrow> FusionError + unit")
  (core_velocity_match_state_new: "f64 \<Rightarrow> vec3 \<Rightarrow> vec3 \<Rightarrow> FusionError + VelocityMatchState")
  (core_parse_satellite: "string \<Rightarrow> 'o option")
  (core_tight_observation_validate: "'o TightGnssObservation \<Rightarrow> FusionError + unit")
  (core_tight_epoch_new: "f64 \<Rightarrow> 'o TightGnssObservation list \<Rightarrow> FusionError + 'o")

datatype (plugins only: code) 'o inertial_core = inertial_core
  (get_nav_core: "'o nav_core")
  (get_imu_core: "'o imu_core")
  (get_measurement_core: "'o measurement_core")

text \<open>The operations by their names.\<close>

abbreviation error_from_inertial where "error_from_inertial C \<equiv> core_error_from_inertial (get_nav_core C)"
abbreviation nav_state_new where "nav_state_new C \<equiv> core_nav_state_new (get_nav_core C)"
abbreviation nav_state_with_biases where "nav_state_with_biases C \<equiv> core_nav_state_with_biases (get_nav_core C)"
abbreviation ins_state_new where "ins_state_new C \<equiv> core_ins_state_new (get_nav_core C)"
abbreviation ins_state_from_diagonal where "ins_state_from_diagonal C \<equiv> core_ins_state_from_diagonal (get_nav_core C)"
abbreviation ins_state_validate where "ins_state_validate C \<equiv> core_ins_state_validate (get_nav_core C)"
abbreviation imu_spec_datasheet where "imu_spec_datasheet C \<equiv> core_imu_spec_datasheet (get_imu_core C)"
abbreviation imu_spec_validate where "imu_spec_validate C \<equiv> core_imu_spec_validate (get_imu_core C)"
abbreviation imu_bias_validate where "imu_bias_validate C \<equiv> core_imu_bias_validate (get_imu_core C)"
abbreviation imu_calibration_validate where "imu_calibration_validate C \<equiv> core_imu_calibration_validate (get_imu_core C)"
abbreviation imu_sample_rate where "imu_sample_rate C \<equiv> core_imu_sample_rate (get_imu_core C)"
abbreviation imu_sample_increment where "imu_sample_increment C \<equiv> core_imu_sample_increment (get_imu_core C)"
abbreviation default_imu_sim_seed where "default_imu_sim_seed C \<equiv> core_default_imu_sim_seed (get_imu_core C)"
abbreviation sim_options_validate where "sim_options_validate C \<equiv> core_sim_options_validate (get_imu_core C)"
abbreviation filter_config_new where "filter_config_new C \<equiv> core_filter_config_new (get_imu_core C)"
abbreviation filter_config_validate where "filter_config_validate C \<equiv> core_filter_config_validate (get_measurement_core C)"
abbreviation fix_validate where "fix_validate C \<equiv> core_fix_validate (get_measurement_core C)"
abbreviation velocity_match_state_new where "velocity_match_state_new C \<equiv> core_velocity_match_state_new (get_measurement_core C)"
abbreviation parse_satellite where "parse_satellite C \<equiv> core_parse_satellite (get_measurement_core C)"
abbreviation tight_observation_validate where "tight_observation_validate C \<equiv> core_tight_observation_validate (get_measurement_core C)"
abbreviation tight_epoch_new where "tight_epoch_new C \<equiv> core_tight_epoch_new (get_measurement_core C)"

section \<open>Decoders\<close>

definition decode_layout :: "string \<Rightarrow> FusionError + ErrorStateLayout" where
  "decode_layout label =
     (if label = ''fifteen'' then Inr Fifteen else if label = ''twenty_one'' then Inr TwentyOne
      else Inl (InvalidInput ''layout'' ''must be fifteen or twenty_one''))"

definition decode_filter_kind :: "string \<Rightarrow> FusionError + FusionFilterKind" where
  "decode_filter_kind label =
     (if label = ''ekf'' then Inr Ekf else if label = ''ukf'' then Inr Ukf
      else Inl (InvalidInput ''filter_kind'' ''must be ekf or ukf''))"

definition decode_fix_status :: "string \<Rightarrow> FusionError + GnssFixStatus" where
  "decode_fix_status label =
     (if label = ''single'' then Inr Single else if label = ''float'' then Inr FloatFix
      else if label = ''fixed'' then Inr FixedFix
      else Inl (InvalidInput ''fix_status'' ''must be single, float, or fixed''))"

definition decode_nav_state :: "'o inertial_core \<Rightarrow> NavStateTerm \<Rightarrow> FusionError + NavState" where
  "decode_nav_state C t =
     and_then (vec3 (nst_position_ecef_m t) ''position_ecef_m'') (\<lambda>position.
     and_then (vec3 (nst_velocity_ecef_mps t) ''velocity_ecef_mps'') (\<lambda>velocity.
     and_then (mat3 (nst_attitude_body_to_ecef t) ''attitude_body_to_ecef'') (\<lambda>attitude.
     and_then (map_err (error_from_inertial C) (nav_state_new C (nst_t_j2000_s t) position velocity attitude)) (\<lambda>state.
     and_then (vec3 (nst_accel_bias_mps2 t) ''accel_bias_mps2'') (\<lambda>accel_bias.
     and_then (vec3 (nst_gyro_bias_rps t) ''gyro_bias_rps'') (\<lambda>gyro_bias.
     map_err (error_from_inertial C) (nav_state_with_biases C state accel_bias gyro_bias)))))))"

definition decode_nav_state_inertial :: "'o inertial_core \<Rightarrow> NavStateTerm \<Rightarrow> InertialDecodeError + NavState" where
  "decode_nav_state_inertial C t =
     and_then (map_err Fusion (vec3 (nst_position_ecef_m t) ''position_ecef_m'')) (\<lambda>position.
     and_then (map_err Fusion (vec3 (nst_velocity_ecef_mps t) ''velocity_ecef_mps'')) (\<lambda>velocity.
     and_then (map_err Fusion (mat3 (nst_attitude_body_to_ecef t) ''attitude_body_to_ecef'')) (\<lambda>attitude.
     and_then (map_err Inertial (nav_state_new C (nst_t_j2000_s t) position velocity attitude)) (\<lambda>state.
     and_then (map_err Fusion (vec3 (nst_accel_bias_mps2 t) ''accel_bias_mps2'')) (\<lambda>accel_bias.
     and_then (map_err Fusion (vec3 (nst_gyro_bias_rps t) ''gyro_bias_rps'')) (\<lambda>gyro_bias.
     map_err Inertial (nav_state_with_biases C state accel_bias gyro_bias)))))))"

definition decode_filter_state :: "'o inertial_core \<Rightarrow> FilterStateTerm \<Rightarrow> FusionError + InsFilterState" where
  "decode_filter_state C t =
     and_then (decode_layout (fist_layout t)) (\<lambda>layout.
     and_then (decode_nav_state C (fist_nominal t)) (\<lambda>nominal.
     and_then (case (fist_covariance t, fist_covariance_diagonal t) of
        (Some covariance, _) \<Rightarrow> ins_state_new C nominal layout covariance
      | (None, Some diagonal) \<Rightarrow> ins_state_from_diagonal C nominal layout diagonal
      | (None, None) \<Rightarrow> Inl (InvalidInput ''covariance'' ''covariance or covariance_diagonal is required'')) (\<lambda>state.
     and_then (vec3 (fist_accel_scale_factor t) ''accel_scale_factor'') (\<lambda>accel.
     and_then (vec3 (fist_gyro_scale_factor t) ''gyro_scale_factor'') (\<lambda>gyro.
     let state' = state\<lparr>ins_accel_scale_factor := accel, ins_gyro_scale_factor := gyro\<rparr>
     in and_then (ins_state_validate C state') (\<lambda>_. Inr state'))))))"

definition decode_imu_spec_term :: "'o inertial_core \<Rightarrow> ImuSpecTerm \<Rightarrow> ImuSpec" where
  "decode_imu_spec_term C t =
     imu_spec_datasheet C (ist_accel_vrw_mps_sqrt_s t) (ist_gyro_arw_rad_sqrt_s t)
       (ist_accel_bias_instab_mps2 t) (ist_gyro_bias_instab_rps t)
       (case ist_accel_bias_tau_s t of None \<Rightarrow> f64_infinity | Some tau \<Rightarrow> tau)
       (case ist_gyro_bias_tau_s t of None \<Rightarrow> f64_infinity | Some tau \<Rightarrow> tau)
       (ist_accel_scale_instab_ppm t) (ist_gyro_scale_instab_ppm t)"

definition decode_imu_spec :: "'o inertial_core \<Rightarrow> ImuSpecTerm \<Rightarrow> FusionError + ImuSpec" where
  "decode_imu_spec C t =
     (let spec = decode_imu_spec_term C t
      in and_then (map_err (error_from_inertial C) (imu_spec_validate C spec)) (\<lambda>_. Inr spec))"

definition decode_imu_spec_inertial :: "'o inertial_core \<Rightarrow> ImuSpecTerm \<Rightarrow> InertialError + ImuSpec" where
  "decode_imu_spec_inertial C t =
     (let spec = decode_imu_spec_term C t in and_then (imu_spec_validate C spec) (\<lambda>_. Inr spec))"

definition decode_imu_model_term :: "ImuModelTerm \<Rightarrow> FusionError + ImuErrorModel" where
  "decode_imu_model_term t =
     and_then (vec3 (ibt_accel_mps2 (imt_bias t)) ''imu_model.bias.accel_mps2'') (\<lambda>accel.
     and_then (vec3 (ibt_gyro_rps (imt_bias t)) ''imu_model.bias.gyro_rps'') (\<lambda>gyro.
     and_then (mat3 (ict_accel_scale_misalignment (imt_calibration t))
       ''imu_model.calibration.accel_scale_misalignment'') (\<lambda>accel_scale.
     and_then (mat3 (ict_gyro_scale_misalignment (imt_calibration t))
       ''imu_model.calibration.gyro_scale_misalignment'') (\<lambda>gyro_scale.
     Inr \<lparr>model_bias = \<lparr>bias_accel_mps2 = accel, bias_gyro_rps = gyro\<rparr>,
           model_calibration = \<lparr>cal_accel_scale_misalignment = accel_scale,
             cal_gyro_scale_misalignment = gyro_scale\<rparr>\<rparr>))))"

definition decode_imu_model :: "'o inertial_core \<Rightarrow> ImuModelTerm \<Rightarrow> FusionError + ImuErrorModel" where
  "decode_imu_model C t =
     and_then (decode_imu_model_term t) (\<lambda>model.
     and_then (map_err (error_from_inertial C) (imu_bias_validate C (model_bias model))) (\<lambda>_.
     and_then (map_err (error_from_inertial C) (imu_calibration_validate C (model_calibration model))) (\<lambda>_.
     Inr model)))"

definition decode_mechanization :: "MechanizationTerm \<Rightarrow> FusionError + MechanizationConfig" where
  "decode_mechanization t =
     (if mcht_coning_correction t = ''off'' then Inr \<lparr>mech_coning_correction = ConingOff\<rparr>
      else Inl (InvalidInput ''mechanization.coning_correction'' ''must be off''))"

definition decode_innovation_gate :: "InnovationGateTerm \<Rightarrow> InnovationGate" where
  "decode_innovation_gate gate =
     \<lparr>gate_threshold_sigma = igt_threshold_sigma gate, gate_min_rows = igt_min_rows gate\<rparr>"

definition decode_ekf_options :: "EkfOptionsTerm \<Rightarrow> FusionError + EkfUpdateOptions" where
  "decode_ekf_options t =
     Inr \<lparr>ekf_innovation_gate = map_option decode_innovation_gate (eot_innovation_gate t)\<rparr>"

definition decode_igg_iii_reweighting :: "IggIiiMeasurementReweightingTerm \<Rightarrow> IggIiiMeasurementReweighting" where
  "decode_igg_iii_reweighting t = \<lparr>igg_k0_sigma = iggt_k0_sigma t, igg_k1_sigma = iggt_k1_sigma t\<rparr>"

definition decode_yang_prediction_adaptive_factor ::
  "YangPredictionAdaptiveFactorTerm \<Rightarrow> YangPredictionAdaptiveFactor" where
  "decode_yang_prediction_adaptive_factor t =
     \<lparr>yang_threshold = ypt_threshold t, yang_outlier_gate_probability = ypt_outlier_gate_probability t\<rparr>"

definition decode_fix_status_weighting :: "FixStatusWeightingTerm \<Rightarrow> GnssFixStatusWeighting" where
  "decode_fix_status_weighting t =
     \<lparr>fsw_single_sigma_multiplier = fswt_single_sigma_multiplier t,
      fsw_float_sigma_multiplier = fswt_float_sigma_multiplier t,
      fsw_fixed_sigma_multiplier = fswt_fixed_sigma_multiplier t\<rparr>"

definition decode_stationary_update :: "StationaryUpdateTerm \<Rightarrow> StationaryUpdateConfig" where
  "decode_stationary_update t =
     StationaryUpdateConfig_new
       (StationaryDetectorConfig_new (sdt_window_len (sut_detector t))
         (sdt_max_specific_force_norm_error_mps2 (sut_detector t))
         (sdt_max_body_rate_wrt_ecef_norm_rps (sut_detector t)))
       (sut_zero_velocity_sigma_mps t) (sut_zero_angular_rate_sigma_rps t)"

definition decode_non_holonomic :: "NonHolonomicTerm \<Rightarrow> NonHolonomicConstraintConfig" where
  "decode_non_holonomic t =
     NonHolonomicConstraintConfig_new (nht_lateral_velocity_sigma_mps t) (nht_vertical_velocity_sigma_mps t)
       (nht_min_speed_mps t) (nht_max_body_rate_wrt_ecef_norm_rps t)"

definition decode_ukf_options :: "UkfOptionsTerm \<Rightarrow> FusionError + UkfUpdateOptions" where
  "decode_ukf_options t =
     Inr \<lparr>ukf_transform = \<lparr>ut_alpha = uot_alpha t, ut_beta = uot_beta t, ut_kappa = uot_kappa t\<rparr>,
          ukf_innovation_gate = map_option decode_innovation_gate (uot_innovation_gate t)\<rparr>"

definition decode_config :: "'o inertial_core \<Rightarrow> FilterConfigTerm \<Rightarrow> FusionError + 'o InertialFilterConfig" where
  "decode_config C t =
     and_then (decode_imu_spec C (fict_imu_spec t)) (\<lambda>spec.
     and_then (filter_config_new C spec) (\<lambda>base.
     and_then (decode_filter_kind (fict_filter_kind t)) (\<lambda>filter_kind.
     and_then (decode_imu_model C (fict_imu_model t)) (\<lambda>imu_model.
     and_then (mat3 (fict_imu_to_body_dcm t) ''imu_to_body_dcm'') (\<lambda>dcm.
     and_then (decode_mechanization (fict_mechanization t)) (\<lambda>mechanization.
     and_then (vec3 (lct_lever_arm_body_m (fict_loose t)) ''loose.lever_arm_body_m'') (\<lambda>loose_arm.
     and_then (decode_ekf_options (lct_update_options (fict_loose t))) (\<lambda>loose_options.
     and_then (vec3 (tct_lever_arm_body_m (fict_tight t)) ''tight.lever_arm_body_m'') (\<lambda>tight_arm.
     and_then (decode_ekf_options (tct_update_options (fict_tight t))) (\<lambda>tight_options.
     and_then (decode_ukf_options (fict_ukf_update_options t)) (\<lambda>ukf.
     let config =
       \<lparr>ifc_base = base, ifc_filter_kind = filter_kind, ifc_imu_model = imu_model, ifc_imu_to_body_dcm = dcm,
        ifc_mechanization = mechanization,
        ifc_loose =
          \<lparr>loose_lever_arm_body_m = loose_arm, loose_update_options = loose_options,
           loose_fix_status_weighting = decode_fix_status_weighting (lct_fix_status_weighting (fict_loose t)),
           loose_measurement_reweighting =
             map_option decode_igg_iii_reweighting (lct_measurement_reweighting (fict_loose t)),
           loose_prediction_adaptation =
             map_option decode_yang_prediction_adaptive_factor (lct_prediction_adaptation (fict_loose t)),
           loose_stationary_updates = map_option decode_stationary_update (lct_stationary_updates (fict_loose t)),
           loose_non_holonomic = map_option decode_non_holonomic (lct_non_holonomic (fict_loose t))\<rparr>,
        ifc_tight =
          \<lparr>tight_lever_arm_body_m = tight_arm, tight_light_time = tct_light_time (fict_tight t),
           tight_sagnac = tct_sagnac (fict_tight t),
           tight_initial_clock_bias_variance_m2 = tct_initial_clock_bias_variance_m2 (fict_tight t),
           tight_initial_clock_drift_variance_m2_s2 = tct_initial_clock_drift_variance_m2_s2 (fict_tight t),
           tight_clock_bias_random_walk_m2_s = tct_clock_bias_random_walk_m2_s (fict_tight t),
           tight_clock_drift_random_walk_m2_s3 = tct_clock_drift_random_walk_m2_s3 (fict_tight t),
           tight_update_options = tight_options\<rparr>,
        ifc_ukf_update_options = ukf\<rparr>
     in and_then (filter_config_validate C config) (\<lambda>_. Inr config))))))))))))"

definition decode_imu_simulation_options_term ::
  "'o inertial_core \<Rightarrow> ImuSimulationOptionsTerm \<Rightarrow> FusionError + ImuSimulationOptions" where
  "decode_imu_simulation_options_term C t =
     and_then (if isot_output t = ''rate'' then Inr RateOutput
       else if isot_output t = ''increment'' then Inr IncrementOutput
       else Inl (InvalidInput ''imu_simulation.output'' ''must be rate or increment'')) (\<lambda>out.
     and_then (vec3 (ibt_accel_mps2 (isot_initial_bias t)) ''initial_bias.accel_mps2'') (\<lambda>accel.
     and_then (vec3 (ibt_gyro_rps (isot_initial_bias t)) ''initial_bias.gyro_rps'') (\<lambda>gyro.
     and_then (mat3 (ict_accel_scale_misalignment (isot_calibration t))
       ''calibration.accel_scale_misalignment'') (\<lambda>accel_scale.
     and_then (mat3 (ict_gyro_scale_misalignment (isot_calibration t))
       ''calibration.gyro_scale_misalignment'') (\<lambda>gyro_scale.
     Inr \<lparr>sim_output = out,
          sim_seed = (case isot_seed t of None \<Rightarrow> default_imu_sim_seed C | Some seed \<Rightarrow> seed),
          sim_initial_bias = \<lparr>bias_accel_mps2 = accel, bias_gyro_rps = gyro\<rparr>,
          sim_calibration = \<lparr>cal_accel_scale_misalignment = accel_scale,
            cal_gyro_scale_misalignment = gyro_scale\<rparr>,
          sim_rate_random_walk = map_option (\<lambda>walk.
            \<lparr>walk_accel_mps2_sqrt_s = irwt_accel_mps2_sqrt_s walk,
             walk_gyro_rps_sqrt_s = irwt_gyro_rps_sqrt_s walk\<rparr>) (isot_rate_random_walk t)\<rparr>)))))"

definition decode_imu_simulation_options_inertial ::
  "'o inertial_core \<Rightarrow> ImuSimulationOptionsTerm \<Rightarrow> InertialDecodeError + ImuSimulationOptions" where
  "decode_imu_simulation_options_inertial C t =
     and_then (map_err Fusion (decode_imu_simulation_options_term C t)) (\<lambda>options.
     and_then (map_err Inertial (sim_options_validate C options)) (\<lambda>_. Inr options))"

definition decode_corrected_increment :: "CorrectedImuIncrementTerm \<Rightarrow> FusionError + CorrectedImuIncrement" where
  "decode_corrected_increment t =
     and_then (vec3 (ciit_delta_velocity_mps t) ''delta_velocity_mps'') (\<lambda>delta_velocity.
     and_then (vec3 (ciit_delta_theta_rad t) ''delta_theta_rad'') (\<lambda>delta_theta.
     Inr \<lparr>inc_t_j2000_s = ciit_t_j2000_s t, inc_delta_velocity_mps = delta_velocity,
          inc_delta_theta_rad = delta_theta, inc_dt_s = ciit_dt_s t\<rparr>))"

definition decode_imu_sample :: "'o inertial_core \<Rightarrow> ImuSampleTerm \<Rightarrow> FusionError + ImuSample" where
  "decode_imu_sample C t =
     (if ismt_kind t = ''rate'' then
        and_then (vec3 (ismt_specific_force_mps2 t) ''specific_force_mps2'') (\<lambda>force.
        and_then (vec3 (ismt_angular_rate_rps t) ''angular_rate_rps'') (\<lambda>angular_rate.
        Inr (imu_sample_rate C (ismt_t_j2000_s t) force angular_rate)))
      else if ismt_kind t = ''increment'' then
        and_then (vec3 (ismt_delta_velocity_mps t) ''delta_velocity_mps'') (\<lambda>delta_velocity.
        and_then (vec3 (ismt_delta_theta_rad t) ''delta_theta_rad'') (\<lambda>delta_theta.
        Inr (imu_sample_increment C (ismt_t_j2000_s t) delta_velocity delta_theta (ismt_dt_s t))))
      else Inl (InvalidInput ''imu_sample.kind'' ''must be rate or increment''))"

definition decode_loose_measurement ::
  "'o inertial_core \<Rightarrow> LooseMeasurementTerm \<Rightarrow> FusionError + GnssFixMeasurement" where
  "decode_loose_measurement C t =
     and_then (vec3 (lmt_position_ecef_m t) ''position_ecef_m'') (\<lambda>position.
     and_then (transpose_option (map_option (\<lambda>v. vec3 v ''velocity_ecef_mps'') (lmt_velocity_ecef_mps t))) (\<lambda>velocity.
     and_then (decode_fix_status (lmt_fix_status t)) (\<lambda>status.
     let measurement =
       \<lparr>fix_t_j2000_s = lmt_t_j2000_s t, fix_position_ecef_m = position, fix_velocity_ecef_mps = velocity,
        fix_covariance = lmt_covariance t, fix_satellites_used = lmt_satellites_used t,
        fix_solution_valid = lmt_solution_valid t, fix_fix_status = status\<rparr>
     in and_then (fix_validate C measurement) (\<lambda>_. Inr measurement))))"

definition decode_velocity_match_state ::
  "'o inertial_core \<Rightarrow> VelocityMatchStateTerm \<Rightarrow> FusionError + VelocityMatchState" where
  "decode_velocity_match_state C t =
     and_then (vec3 (vmst_position_ecef_m t) ''position_ecef_m'') (\<lambda>position.
     and_then (vec3 (vmst_velocity_ecef_mps t) ''velocity_ecef_mps'') (\<lambda>velocity.
     velocity_match_state_new C (vmst_t_j2000_s t) position velocity))"

definition decode_tight_observation ::
  "'o inertial_core \<Rightarrow> TightObservationTerm \<Rightarrow> FusionError + 'o TightGnssObservation" where
  "decode_tight_observation C t =
     and_then (ok_or (InvalidInput ''satellite_id'' ''invalid GNSS satellite token'')
       (parse_satellite C (tot_satellite_id t))) (\<lambda>satellite_id.
     let observation =
       \<lparr>tgo_satellite_id = satellite_id, tgo_pseudorange_m = tot_pseudorange_m t,
        tgo_pseudorange_sigma_m = tot_pseudorange_sigma_m t,
        tgo_range_rate = map_option (\<lambda>range_rate.
          \<lparr>rr_measured_range_rate_m_s = trrt_measured_range_rate_m_s range_rate,
           rr_sigma_m_s = trrt_sigma_m_s range_rate,
           rr_satellite_clock_drift_m_s = trrt_satellite_clock_drift_m_s range_rate\<rparr>) (tot_range_rate t),
        tgo_carrier_phase = map_option (\<lambda>carrier_phase.
          \<lparr>cp_phase_range_m = tcpt_phase_range_m carrier_phase, cp_sigma_m = tcpt_sigma_m carrier_phase,
           cp_float_ambiguity_m = tcpt_float_ambiguity_m carrier_phase\<rparr>) (tot_carrier_phase t),
        tgo_ionosphere_delay_m = tot_ionosphere_delay_m t, tgo_troposphere_delay_m = tot_troposphere_delay_m t\<rparr>
     in and_then (tight_observation_validate C observation) (\<lambda>_. Inr observation))"

definition decode_tight_epoch :: "'o inertial_core \<Rightarrow> TightEpochTerm \<Rightarrow> FusionError + 'o" where
  "decode_tight_epoch C t =
     and_then (collect_results (map (decode_tight_observation C) (tept_observations t))) (\<lambda>observations.
     tight_epoch_new C (tept_t_j2000_s t) observations)"

section \<open>Encoders\<close>

definition encode_imu_spec :: "ImuSpec \<Rightarrow> ImuSpecTerm" where
  "encode_imu_spec spec =
     \<lparr>ist_accel_vrw_mps_sqrt_s = spec_accel_vrw_mps_sqrt_s spec,
      ist_gyro_arw_rad_sqrt_s = spec_gyro_arw_rad_sqrt_s spec,
      ist_accel_bias_instab_mps2 = spec_accel_bias_instab_mps2 spec,
      ist_gyro_bias_instab_rps = spec_gyro_bias_instab_rps spec,
      ist_accel_bias_tau_s = Some (spec_accel_bias_tau_s spec),
      ist_gyro_bias_tau_s = Some (spec_gyro_bias_tau_s spec),
      ist_accel_scale_instab_ppm = spec_accel_scale_instab_ppm spec,
      ist_gyro_scale_instab_ppm = spec_gyro_scale_instab_ppm spec\<rparr>"

definition encode_imu_bias :: "ImuBias \<Rightarrow> ImuBiasTerm" where
  "encode_imu_bias bias = \<lparr>ibt_accel_mps2 = to_vec (bias_accel_mps2 bias), ibt_gyro_rps = to_vec (bias_gyro_rps bias)\<rparr>"

definition encode_imu_sample :: "ImuSample \<Rightarrow> ImuSampleTerm" where
  "encode_imu_sample sample =
     (case sample_kind sample of
        Rate force angular_rate \<Rightarrow>
          \<lparr>ismt_t_j2000_s = sample_t_j2000_s sample, ismt_kind = ''rate'',
           ismt_specific_force_mps2 = to_vec force, ismt_angular_rate_rps = to_vec angular_rate,
           ismt_delta_velocity_mps = [], ismt_delta_theta_rad = [], ismt_dt_s = 0\<rparr>
      | Increment delta_velocity delta_theta dt_s \<Rightarrow>
          \<lparr>ismt_t_j2000_s = sample_t_j2000_s sample, ismt_kind = ''increment'',
           ismt_specific_force_mps2 = [], ismt_angular_rate_rps = [],
           ismt_delta_velocity_mps = to_vec delta_velocity, ismt_delta_theta_rad = to_vec delta_theta,
           ismt_dt_s = dt_s\<rparr>)"

definition encode_nav_state :: "NavState \<Rightarrow> nterm" where
  "encode_nav_state state = nif_map
     [(''t_j2000_s'', Float (nav_t_j2000_s state)),
      (''position_ecef_m'', enc_list Float (to_vec (nav_position_ecef_m state))),
      (''velocity_ecef_mps'', enc_list Float (to_vec (nav_velocity_ecef_mps state))),
      (''attitude_body_to_ecef'', enc_list (enc_list Float) (rows (nav_attitude_body_to_ecef state))),
      (''accel_bias_mps2'', enc_list Float (to_vec (nav_accel_bias_mps2 state))),
      (''gyro_bias_rps'', enc_list Float (to_vec (nav_gyro_bias_rps state)))]"

definition encode_state :: "InsFilterState \<Rightarrow> nterm" where
  "encode_state state = nif_map
     [(''nominal'', encode_nav_state (ins_nominal state)),
      (''layout'', Utf8 (case ins_layout state of Fifteen \<Rightarrow> ''fifteen'' | TwentyOne \<Rightarrow> ''twenty_one'')),
      (''error_state'', enc_list Float (ins_error_state state)),
      (''covariance'', enc_list (enc_list Float) (ins_covariance state)),
      (''accel_scale_factor'', enc_list Float (to_vec (ins_accel_scale_factor state))),
      (''gyro_scale_factor'', enc_list Float (to_vec (ins_gyro_scale_factor state)))]"

record TightFilterSnapshot =
  tfs_clock_bias_m :: f64
  tfs_clock_drift_m_s :: f64
  tfs_augmented_covariance :: "f64 list list"

definition encode_tight_snapshot :: "TightFilterSnapshot \<Rightarrow> nterm" where
  "encode_tight_snapshot x = nif_map
     [(''clock_bias_m'', Float (tfs_clock_bias_m x)), (''clock_drift_m_s'', Float (tfs_clock_drift_m_s x)),
      (''augmented_covariance'', enc_list (enc_list Float) (tfs_augmented_covariance x))]"

record InertialFilterSnapshot =
  snap_state :: InsFilterState
  snap_last_body_rate_wrt_ecef_rps :: vec3
  snap_tight :: TightFilterSnapshot

definition encode_snapshot :: "InertialFilterSnapshot \<Rightarrow> nterm" where
  "encode_snapshot snapshot = nif_map
     [(''state'', encode_state (snap_state snapshot)),
      (''last_body_rate_wrt_ecef_rps'', enc_list Float (to_vec (snap_last_body_rate_wrt_ecef_rps snapshot))),
      (''tight'', encode_tight_snapshot (snap_tight snapshot))]"

record FusionRtsEpoch =
  rts_t_j2000_s :: f64
  rts_predicted :: InertialFilterSnapshot
  rts_updated :: InertialFilterSnapshot
  rts_transition_from_previous :: "f64 list list option"

definition encode_rts_epoch :: "FusionRtsEpoch \<Rightarrow> nterm" where
  "encode_rts_epoch x = nif_map
     [(''t_j2000_s'', Float (rts_t_j2000_s x)), (''predicted'', encode_snapshot (rts_predicted x)),
      (''updated'', encode_snapshot (rts_updated x)),
      (''transition_from_previous'', enc_option (enc_list (enc_list Float)) (rts_transition_from_previous x))]"

record SmoothedFusionEpoch =
  sfe_t_j2000_s :: f64
  sfe_snapshot :: InertialFilterSnapshot
  sfe_error_state_correction :: "f64 list"
  sfe_covariance :: "f64 list list"
  sfe_rts_gain_to_next :: "f64 list list option"

definition encode_smoothed_epoch :: "SmoothedFusionEpoch \<Rightarrow> nterm" where
  "encode_smoothed_epoch x = nif_map
     [(''t_j2000_s'', Float (sfe_t_j2000_s x)), (''snapshot'', encode_snapshot (sfe_snapshot x)),
      (''error_state_correction'', enc_list Float (sfe_error_state_correction x)),
      (''covariance'', enc_list (enc_list Float) (sfe_covariance x)),
      (''rts_gain_to_next'', enc_option (enc_list (enc_list Float)) (sfe_rts_gain_to_next x))]"

record InnovationGateReport =
  igr_threshold_sigma :: f64
  igr_min_rows :: u64
  igr_input_rows :: u64
  igr_accepted_rows :: u64
  igr_rejected_rows :: u64
  igr_max_abs_normalized_innovation :: "f64 option"
  igr_max_rejected_abs_normalized_innovation :: "f64 option"
  igr_coasted :: bool

definition encode_gate_report :: "InnovationGateReport \<Rightarrow> nterm" where
  "encode_gate_report x = nif_map
     [(''threshold_sigma'', Float (igr_threshold_sigma x)), (''min_rows'', enc_u64 (igr_min_rows x)),
      (''input_rows'', enc_u64 (igr_input_rows x)), (''accepted_rows'', enc_u64 (igr_accepted_rows x)),
      (''rejected_rows'', enc_u64 (igr_rejected_rows x)),
      (''max_abs_normalized_innovation'', enc_option Float (igr_max_abs_normalized_innovation x)),
      (''max_rejected_abs_normalized_innovation'', enc_option Float (igr_max_rejected_abs_normalized_innovation x)),
      (''coasted'', enc_bool (igr_coasted x))]"

record EkfCorrectionReport =
  ecr_applied :: bool
  ecr_normalized_innovation_squared :: f64
  ecr_accepted_rows :: u64
  ecr_rejected_rows :: u64
  ecr_innovation_gate :: "InnovationGateReport option"
  ecr_innovation_covariance :: "f64 list list"
  ecr_kalman_gain :: "f64 list list"
  ecr_dx :: "f64 list"

definition encode_ekf_report :: "EkfCorrectionReport \<Rightarrow> nterm" where
  "encode_ekf_report x = nif_map
     [(''applied'', enc_bool (ecr_applied x)),
      (''normalized_innovation_squared'', Float (ecr_normalized_innovation_squared x)),
      (''accepted_rows'', enc_u64 (ecr_accepted_rows x)), (''rejected_rows'', enc_u64 (ecr_rejected_rows x)),
      (''innovation_gate'', enc_option encode_gate_report (ecr_innovation_gate x)),
      (''innovation_covariance'', enc_list (enc_list Float) (ecr_innovation_covariance x)),
      (''kalman_gain'', enc_list (enc_list Float) (ecr_kalman_gain x)), (''dx'', enc_list Float (ecr_dx x))]"

definition degrade_reason_atom :: "DegradeReason \<Rightarrow> nterm" where
  "degrade_reason_atom reason =
     (case reason of BeforeCoverage \<Rightarrow> Atom ''before_coverage'' | AfterCoverage \<Rightarrow> Atom ''after_coverage'')"

record FusionUpdate =
  upd_applied :: bool
  upd_nis :: f64
  upd_rows :: u64
  upd_accepted_rows :: u64
  upd_rejected_rows :: u64
  upd_ekf :: EkfCorrectionReport
  upd_ut1_degraded :: "DegradeReason option"

definition encode_update :: "FusionUpdate \<Rightarrow> nterm" where
  "encode_update x = nif_map
     [(''applied'', enc_bool (upd_applied x)), (''nis'', Float (upd_nis x)), (''rows'', enc_u64 (upd_rows x)),
      (''accepted_rows'', enc_u64 (upd_accepted_rows x)), (''rejected_rows'', enc_u64 (upd_rejected_rows x)),
      (''ekf'', encode_ekf_report (upd_ekf x)),
      (''ut1_degraded'', enc_option degrade_reason_atom (upd_ut1_degraded x))]"

record TimeSyncUpdate =
  tsu_update :: FusionUpdate
  tsu_late_measurement :: bool
  tsu_replayed_imu_segments :: u64
  tsu_restored_checkpoint_epoch_j2000_s :: f64
  tsu_current_epoch_j2000_s :: f64

definition encode_time_sync_update :: "TimeSyncUpdate \<Rightarrow> nterm" where
  "encode_time_sync_update x = nif_map
     [(''update'', encode_update (tsu_update x)), (''late_measurement'', enc_bool (tsu_late_measurement x)),
      (''replayed_imu_segments'', enc_u64 (tsu_replayed_imu_segments x)),
      (''restored_checkpoint_epoch_j2000_s'', Float (tsu_restored_checkpoint_epoch_j2000_s x)),
      (''current_epoch_j2000_s'', Float (tsu_current_epoch_j2000_s x))]"

record TimeSyncHistoryStatus =
  tss_imu_capacity :: u64
  tss_imu_len :: u64
  tss_checkpoint_capacity :: u64
  tss_checkpoint_len :: u64
  tss_oldest_imu_epoch_j2000_s :: "f64 option"
  tss_newest_imu_epoch_j2000_s :: "f64 option"
  tss_oldest_checkpoint_epoch_j2000_s :: "f64 option"
  tss_newest_checkpoint_epoch_j2000_s :: "f64 option"

definition encode_time_sync_status :: "TimeSyncHistoryStatus \<Rightarrow> nterm" where
  "encode_time_sync_status x = nif_map
     [(''imu_capacity'', enc_u64 (tss_imu_capacity x)), (''imu_len'', enc_u64 (tss_imu_len x)),
      (''checkpoint_capacity'', enc_u64 (tss_checkpoint_capacity x)),
      (''checkpoint_len'', enc_u64 (tss_checkpoint_len x)),
      (''oldest_imu_epoch_j2000_s'', enc_option Float (tss_oldest_imu_epoch_j2000_s x)),
      (''newest_imu_epoch_j2000_s'', enc_option Float (tss_newest_imu_epoch_j2000_s x)),
      (''oldest_checkpoint_epoch_j2000_s'', enc_option Float (tss_oldest_checkpoint_epoch_j2000_s x)),
      (''newest_checkpoint_epoch_j2000_s'', enc_option Float (tss_newest_checkpoint_epoch_j2000_s x))]"

record TightClockState =
  clk_bias_m :: f64
  clk_drift_m_s :: f64
  clk_covariance :: "f64 list list"

definition encode_clock :: "TightClockState \<Rightarrow> nterm" where
  "encode_clock x = nif_map
     [(''bias_m'', Float (clk_bias_m x)), (''drift_m_s'', Float (clk_drift_m_s x)),
      (''covariance'', enc_list (enc_list Float) (clk_covariance x))]"

record VelocityMatchedTrajectory =
  vmt_states :: "VelocityMatchState list"
  vmt_endpoint_position_correction_ecef_m :: vec3
  vmt_endpoint_velocity_correction_ecef_mps :: vec3

definition encode_velocity_matched_trajectory :: "VelocityMatchedTrajectory \<Rightarrow> nterm" where
  "encode_velocity_matched_trajectory value = nif_map
     [(''states'', enc_list (\<lambda>state. enc_VelocityMatchStateTerm
        \<lparr>vmst_t_j2000_s = vms_t_j2000_s state, vmst_position_ecef_m = to_vec (vms_position_ecef_m state),
         vmst_velocity_ecef_mps = to_vec (vms_velocity_ecef_mps state)\<rparr>) (vmt_states value)),
      (''endpoint_position_correction_ecef_m'',
        enc_list Float (to_vec (vmt_endpoint_position_correction_ecef_m value))),
      (''endpoint_velocity_correction_ecef_mps'',
        enc_list Float (to_vec (vmt_endpoint_velocity_correction_ecef_mps value)))]"

section \<open>Errors\<close>

definition ut1_outside_coverage_term :: "DegradeReason \<Rightarrow> nterm" where
  "ut1_outside_coverage_term reason = Tup [Atom ''ut1_outside_coverage'', degrade_reason_atom reason]"

definition fusion_error :: "FusionError \<Rightarrow> nterm" where
  "fusion_error error =
     error_term (case error of
        InvalidInput field reason \<Rightarrow> Tup [Atom ''invalid_input'', Utf8 field, Utf8 reason]
      | DimensionMismatch field expected actual \<Rightarrow>
          Tup [Atom ''dimension_mismatch'', Utf8 field, enc_u64 expected, enc_u64 actual]
      | SingularInnovation \<Rightarrow> Atom ''singular_innovation''
      | NonPositiveSemidefinite field \<Rightarrow> Tup [Atom ''non_positive_semidefinite'', Utf8 field]
      | NonPositiveDefinite field \<Rightarrow> Tup [Atom ''non_positive_definite'', Utf8 field]
      | NominalState \<Rightarrow> Atom ''nominal_state''
      | Ut1OutsideCoverage reason \<Rightarrow> ut1_outside_coverage_term reason)"

definition fusion_inertial_error :: "InertialError \<Rightarrow> nterm" where
  "fusion_inertial_error error =
     error_term (case error of
        InertialInvalidInput field reason \<Rightarrow> Tup [Atom ''invalid_input'', Utf8 field, Utf8 reason]
      | NonMonotonicSample \<Rightarrow> Atom ''non_monotonic_sample''
      | SingularCalibration \<Rightarrow> Atom ''singular_calibration''
      | DegenerateAttitude \<Rightarrow> Atom ''degenerate_attitude'')"

definition fusion_inertial_decode_error :: "InertialDecodeError \<Rightarrow> nterm" where
  "fusion_inertial_decode_error error =
     (case error of Fusion error' \<Rightarrow> fusion_error error' | Inertial error' \<Rightarrow> fusion_inertial_error error')"

definition codec_error :: "string \<Rightarrow> nterm" where
  "codec_error error = error_term (Tup [Atom ''codec'', Utf8 error])"

section \<open>Checkpoints\<close>

text \<open>The serializable state: its retained checkpoints, of which the boundary reads the epoch's bits, and the
  rest.\<close>

record 'o StoredCheckpoint =
  cp_t_bits :: u64
  cp_payload :: 'o

record 'o SerializableState =
  ser_checkpoints :: "'o StoredCheckpoint list"
  ser_rest :: 'o

text \<open>The loop of \<open>dedupe_same_epoch_checkpoints\<close>; \<open>deduped\<close> is its accumulator.\<close>

fun dedupe_loop :: "'o StoredCheckpoint list \<Rightarrow> 'o StoredCheckpoint list \<Rightarrow> 'o StoredCheckpoint list" where
  "dedupe_loop deduped [] = deduped"
| "dedupe_loop deduped (checkpoint # rest) =
     (if deduped \<noteq> [] \<and> cp_t_bits (last deduped) = cp_t_bits checkpoint
      then dedupe_loop (butlast deduped @ [checkpoint]) rest
      else dedupe_loop (deduped @ [checkpoint]) rest)"

definition dedupe_same_epoch_checkpoints :: "'o StoredCheckpoint list \<Rightarrow> 'o StoredCheckpoint list" where
  "dedupe_same_epoch_checkpoints checkpoints = dedupe_loop [] checkpoints"

definition encode_filter_state ::
  "('f \<Rightarrow> string + 'o SerializableState) \<Rightarrow> ('o SerializableState \<Rightarrow> string + u8 list) \<Rightarrow> 'f \<Rightarrow> string + u8 list" where
  "encode_filter_state serializable_state encode_versioned f =
     and_then (serializable_state f) (\<lambda>state.
     encode_versioned (state\<lparr>ser_checkpoints := dedupe_same_epoch_checkpoints (ser_checkpoints state)\<rparr>))"

end
