(* ===== verification/Concurrency.thy ===== *)
theory Concurrency
  imports Resources
begin

text \<open>
  Calls that run at the same time. Erlang processes call the library concurrently, each call on a scheduler
  thread of its own; a call takes its mutexes one after the other, runs, releases them and replies. \<open>plan c s\<close> is
  the mutexes that the call \<open>c\<close> takes, in the order of the code. The locale \<open>ordered_locks\<close> is the discipline
  under which the calls cannot block each other forever and behave as if they ran one after the other.
\<close>

section \<open>Interleaving\<close>

text \<open>A process is inside a call, holding the first \<open>n\<close> mutexes of its plan, or it has its reply.\<close>

datatype ('call, 'reply) process = Calling 'call nat | Replied 'call 'reply

type_synonym ('call, 'reply, 'st) configuration = "('call, 'reply) process list \<times> 'st"

primrec holds :: "('call \<Rightarrow> 'st \<Rightarrow> 'lock list) \<Rightarrow> 'st \<Rightarrow> ('call, 'reply) process \<Rightarrow> 'lock set" where
  "holds plan s (Calling c n) = set (take n (plan c s))"
| "holds plan s (Replied c r) = {}"

primrec replied_process :: "('call, 'reply) process \<Rightarrow> bool" where
  "replied_process (Calling c n) \<longleftrightarrow> False"
| "replied_process (Replied c r) \<longleftrightarrow> True"

definition lock_free ::
  "('call \<Rightarrow> 'st \<Rightarrow> 'lock list) \<Rightarrow> ('call, 'reply, 'st) configuration \<Rightarrow> 'lock \<Rightarrow> bool" where
  "lock_free plan cfg l \<longleftrightarrow> (\<forall>p \<in> set (fst cfg). l \<notin> holds plan (snd cfg) p)"

text \<open>\<open>Mutex::lock\<close> waits until the mutex is free; a poisoned mutex then fails the call, which drops what it
  holds. A call that has all its mutexes runs: nothing else can touch what they guard.\<close>

inductive interleave ::
  "('call \<Rightarrow> 'st \<Rightarrow> 'reply \<times> 'st) \<Rightarrow> ('call \<Rightarrow> 'st \<Rightarrow> 'lock list) \<Rightarrow> ('lock \<Rightarrow> 'st \<Rightarrow> bool) \<Rightarrow>
   ('lock \<Rightarrow> 'reply) \<Rightarrow> ('call, 'reply, 'st) configuration \<Rightarrow> ('call, 'reply, 'st) configuration \<Rightarrow> bool"
  for step plan poisoned refused
where
  acquire: "i < length ps \<Longrightarrow> ps ! i = Calling c n \<Longrightarrow> n < length (plan c s) \<Longrightarrow>
     lock_free plan (ps, s) (plan c s ! n) \<Longrightarrow> \<not> poisoned (plan c s ! n) s \<Longrightarrow>
     interleave step plan poisoned refused (ps, s) (ps[i := Calling c (Suc n)], s)"
| refuse: "i < length ps \<Longrightarrow> ps ! i = Calling c n \<Longrightarrow> n < length (plan c s) \<Longrightarrow>
     lock_free plan (ps, s) (plan c s ! n) \<Longrightarrow> poisoned (plan c s ! n) s \<Longrightarrow>
     interleave step plan poisoned refused (ps, s) (ps[i := Replied c (refused (plan c s ! n))], s)"
| run: "i < length ps \<Longrightarrow> ps ! i = Calling c n \<Longrightarrow> n = length (plan c s) \<Longrightarrow>
     interleave step plan poisoned refused (ps, s) (ps[i := Replied c (fst (step c s))], snd (step c s))"

definition all_calling :: "'call list \<Rightarrow> 'st \<Rightarrow> ('call, 'reply, 'st) configuration" where
  "all_calling cs s = (map (\<lambda>c. Calling c 0) cs, s)"

definition all_replied :: "('call, 'reply, 'st) configuration \<Rightarrow> bool" where
  "all_replied cfg \<longleftrightarrow> list_all replied_process (fst cfg)"

text \<open>Mutual exclusion: no two processes hold one mutex.\<close>

definition exclusive :: "('call \<Rightarrow> 'st \<Rightarrow> 'lock list) \<Rightarrow> ('call, 'reply, 'st) configuration \<Rightarrow> bool" where
  "exclusive plan cfg \<longleftrightarrow> (\<forall>i < length (fst cfg). \<forall>j < length (fst cfg).
     i \<noteq> j \<longrightarrow> holds plan (snd cfg) (fst cfg ! i) \<inter> holds plan (snd cfg) (fst cfg ! j) = {})"

text \<open>\<open>order\<close> is an order in which the calls that have replied, run one after the other, give the state and
  every reply.\<close>

definition serialized ::
  "('call \<Rightarrow> 'st \<Rightarrow> 'reply \<times> 'st) \<Rightarrow> 'call list \<Rightarrow> 'st \<Rightarrow> ('call, 'reply, 'st) configuration \<Rightarrow> nat list \<Rightarrow> bool" where
  "serialized step cs s cfg order \<longleftrightarrow>
     distinct order \<and> set order = {i. i < length (fst cfg) \<and> replied_process (fst cfg ! i)} \<and>
     snd cfg = run_calls step (map ((!) cs) order) s \<and>
     (\<forall>j < length order. fst cfg ! (order ! j) =
        Replied (cs ! (order ! j)) (fst (step (cs ! (order ! j)) (run_calls step (map ((!) cs) (take j order)) s))))"

section \<open>Ordered mutexes\<close>

locale ordered_locks = poisoning step poisoned "\<lambda>l c s. l \<in> set (plan c s)" panic refused
  for step :: "'call \<Rightarrow> 'st \<Rightarrow> 'reply \<times> 'st"
    and poisoned :: "'lock \<Rightarrow> 'st \<Rightarrow> bool"
    and plan :: "'call \<Rightarrow> 'st \<Rightarrow> 'lock list"
    and panic :: 'reply
    and refused :: "'lock \<Rightarrow> 'reply" +
  fixes rank :: "'lock \<Rightarrow> nat" and depth :: nat
  assumes plan_ascends: "sorted_wrt (\<lambda>l k. rank l < rank k) (plan c s)"
    and plan_short: "length (plan c s) \<le> depth"
    and plan_stays: "plan c s \<noteq> [] \<Longrightarrow> plan c (snd (step d s)) = plan c s"
begin

abbreviation steps :: "('call, 'reply, 'st) configuration \<Rightarrow> ('call, 'reply, 'st) configuration \<Rightarrow> bool" where
  "steps \<equiv> interleave step plan poisoned refused"

definition within :: "('call, 'reply, 'st) configuration \<Rightarrow> bool" where
  "within cfg \<longleftrightarrow> (\<forall>c n. Calling c n \<in> set (fst cfg) \<longrightarrow> n \<le> length (plan c (snd cfg)))"

lemma within_nth: "within (ps, s) \<Longrightarrow> i < length ps \<Longrightarrow> ps ! i = Calling c n \<Longrightarrow> n \<le> length (plan c s)"
  unfolding within_def by (metis fst_conv nth_mem snd_conv)

lemma holds_after_step:
  assumes "n \<le> length (plan c s)"
  shows "holds plan (snd (step d s)) (Calling c n) = holds plan s (Calling c n)"
  using assms plan_stays [of c s d] by (cases "plan c s = []") auto

lemma within_steps:
  assumes "steps cfg cfg'" "within cfg"
  shows "within cfg'"
  using assms
proof (induction rule: interleave.induct)
  case (acquire i ps c n s)
  then show ?case by (auto simp: within_def dest: set_update_subset_insert [THEN subsetD])
next
  case (refuse i ps c n s)
  then show ?case by (auto simp: within_def dest: set_update_subset_insert [THEN subsetD])
next
  case (run i ps c n s)
  have "k \<le> length (plan d (snd (step c s)))" if "Calling d k \<in> set (ps[i := Replied c (fst (step c s))])" for d k
  proof -
    have "Calling d k \<in> set ps" using that by (auto dest: set_update_subset_insert [THEN subsetD])
    then have "k \<le> length (plan d s)" using run.prems by (simp add: within_def)
    then show ?thesis using plan_stays [of d s c] by (cases "plan d s = []") auto
  qed
  then show ?case by (simp add: within_def)
qed

lemma holds_nth_after_step:
  assumes "within (ps, s)" "i < length ps"
  shows "holds plan (snd (step d s)) (ps ! i) = holds plan s (ps ! i)"
  using assms within_nth [OF assms] holds_after_step by (cases "ps ! i") simp_all

lemma exclusive_update:
  assumes "exclusive plan (ps, s)" "\<And>j. j < length ps \<Longrightarrow> j \<noteq> i \<Longrightarrow> holds plan s p \<inter> holds plan s (ps ! j) = {}"
  shows "exclusive plan (ps[i := p], s)"
  unfolding exclusive_def
proof (intro allI impI)
  fix j k assume "j < length (fst (ps[i := p], s))" "k < length (fst (ps[i := p], s))" "j \<noteq> k"
  moreover have "holds plan s (ps ! j) \<inter> holds plan s (ps ! k) = {}"
    using assms(1) calculation by (simp add: exclusive_def)
  ultimately show "holds plan (snd (ps[i := p], s)) (fst (ps[i := p], s) ! j) \<inter>
      holds plan (snd (ps[i := p], s)) (fst (ps[i := p], s) ! k) = {}"
    using assms(2) [of j] assms(2) [of k] by (cases "j = i"; cases "k = i") (simp_all add: Int_commute)
qed

lemma exclusive_steps:
  assumes "steps cfg cfg'" "within cfg" "exclusive plan cfg"
  shows "exclusive plan cfg'"
  using assms
proof (induction rule: interleave.induct)
  case (acquire i ps c n s)
  have "holds plan s (Calling c (Suc n)) = insert (plan c s ! n) (holds plan s (ps ! i))"
    using acquire.hyps by (simp add: take_Suc_conv_app_nth)
  moreover have "holds plan s (ps ! i) \<inter> holds plan s (ps ! j) = {}" if "j < length ps" "j \<noteq> i" for j
    using acquire.prems(2) acquire.hyps(1) that unfolding exclusive_def by (simp del: holds.simps)
  ultimately show ?case using acquire by (intro exclusive_update) (auto simp: lock_free_def)
next
  case (refuse i ps c n s)
  then show ?case by (intro exclusive_update) auto
next
  case (run i ps c n s)
  have "exclusive plan (ps[i := Replied c (fst (step c s))], s)" using run by (intro exclusive_update) auto
  moreover have "within (ps[i := Replied c (fst (step c s))], s)"
    using run.prems by (auto simp: within_def dest: set_update_subset_insert [THEN subsetD])
  ultimately show ?case by (simp add: exclusive_def holds_nth_after_step)
qed

text \<open>Progress: of the calls that wait, one waits for the mutex of the highest rank, and nobody holds that.\<close>

lemma waiting_for_higher:
  assumes "n < length (plan c s)" "plan d s ! k \<in> set (take n (plan c s))"
  shows "rank (plan d s ! k) < rank (plan c s ! n)"
proof -
  obtain m where "m < n" "plan c s ! m = plan d s ! k" using assms by (auto simp: in_set_conv_nth)
  then show ?thesis using plan_ascends [of c s] assms(1) by (metis sorted_wrt_nth_less)
qed

lemma progress:
  assumes "within cfg" "\<not> all_replied cfg"
  shows "\<exists>cfg'. steps cfg cfg'"
proof (rule ccontr)
  assume stuck: "\<nexists>cfg'. steps cfg cfg'"
  obtain ps s where cfg: "cfg = (ps, s)" by (cases cfg)
  define waiting where "waiting = {(c, n). Calling c n \<in> set ps}"
  let ?next = "\<lambda>(c, n). rank (plan c s ! n)"
  have finite: "finite waiting"
  proof (rule finite_subset)
    show "waiting \<subseteq> (\<lambda>p. case p of Calling c n \<Rightarrow> (c, n) | Replied c r \<Rightarrow> (c, 0)) ` set ps"
      by (force simp: waiting_def)
  qed simp
  have higher: "\<exists>w' \<in> waiting. ?next w < ?next w'" if waits: "w \<in> waiting" for w
  proof -
    obtain c n where w: "w = (c, n)" "Calling c n \<in> set ps" using waits by (auto simp: waiting_def)
    then obtain i where i: "i < length ps" "ps ! i = Calling c n" by (auto simp: in_set_conv_nth)
    have n: "n < length (plan c s)"
      using within_nth [of ps s i c n] assms(1) stuck interleave.run [OF i, of plan s] cfg i by (force simp: le_less)
    then have "\<not> lock_free plan (ps, s) (plan c s ! n)"
      using stuck interleave.acquire [OF i, of plan s] interleave.refuse [OF i, of plan s] n cfg by blast
    then obtain p where p: "p \<in> set ps" "plan c s ! n \<in> holds plan s p" by (auto simp: lock_free_def)
    then obtain d k where d: "Calling d k \<in> set ps" "plan c s ! n \<in> set (take k (plan d s))"
      by - (cases p, auto)
    then obtain j where j: "j < length ps" "ps ! j = Calling d k" by (auto simp: in_set_conv_nth)
    have "k < length (plan d s)"
      using within_nth [of ps s j d k] assms(1) stuck interleave.run [OF j, of plan s] cfg j by (force simp: le_less)
    then have "?next (c, n) < ?next (d, k)" using d waiting_for_higher [of k d s c n] by simp
    then show ?thesis using d(1) w(1) by (force simp: waiting_def)
  qed
  obtain p where "p \<in> set ps" "\<not> replied_process p" using assms(2) cfg by (auto simp: all_replied_def list_all_iff)
  then have "waiting \<noteq> {}" by - (cases p, auto simp: waiting_def)
  then have "Max (?next ` waiting) \<in> ?next ` waiting" using finite by simp
  then obtain w where w: "w \<in> waiting" "?next w = Max (?next ` waiting)" by auto
  obtain w' where "w' \<in> waiting" "?next w < ?next w'" using higher [OF w(1)] by blast
  moreover have "?next w' \<le> Max (?next ` waiting)" using finite calculation(1) by simp
  ultimately show False using w(2) by simp
qed

text \<open>Every step takes a call closer to its reply.\<close>

primrec remaining :: "('call, 'reply) process \<Rightarrow> nat" where
  "remaining (Calling c n) = Suc depth - n"
| "remaining (Replied c r) = 0"

definition measure_of :: "('call, 'reply, 'st) configuration \<Rightarrow> nat" where
  "measure_of cfg = sum_list (map remaining (fst cfg))"

lemma sum_list_update_less:
  "i < length xs \<Longrightarrow> y < xs ! i \<Longrightarrow> sum_list (xs[i := y]) < (sum_list xs :: nat)"
  by (simp add: sum_list_update) (metis elem_le_sum_list add_less_cancel_left add.commute less_diff_conv2 trans_le_add1)

lemma measure_decreases:
  assumes "steps cfg cfg'" "within cfg"
  shows "measure_of cfg' < measure_of cfg"
  using assms
proof (induction rule: interleave.induct)
  case (acquire i ps c n s)
  have "n \<le> depth" using acquire.hyps plan_short [of c s] by simp
  then show ?case using acquire.hyps
    by (auto simp: measure_of_def map_update intro!: sum_list_update_less)
next
  case (refuse i ps c n s)
  have "n \<le> depth" using refuse.hyps plan_short [of c s] by simp
  then show ?case using refuse.hyps
    by (auto simp: measure_of_def map_update intro!: sum_list_update_less)
next
  case (run i ps c n s)
  have "n \<le> depth" using run.hyps plan_short [of c s] by simp
  then show ?case using run.hyps
    by (auto simp: measure_of_def map_update intro!: sum_list_update_less)
qed

lemma start_within: "within (all_calling cs s)"
  by (auto simp: within_def all_calling_def)

lemma start_measure: "measure_of (all_calling cs s) = Suc depth * length cs"
  by (induction cs) (simp_all add: measure_of_def all_calling_def)

lemma start_exclusive: "exclusive plan (all_calling cs s)"
  by (simp add: exclusive_def all_calling_def)

theorem schedules:
  assumes "(steps ^^ k) (all_calling cs s) cfg"
  shows "within cfg \<and> exclusive plan cfg \<and> k + measure_of cfg \<le> Suc depth * length cs"
  using assms
proof (induction k arbitrary: cfg)
  case 0
  then have "cfg = all_calling cs s" by simp
  then show ?case by (simp only: start_within start_measure start_exclusive add_0 order_refl simp_thms)
next
  case (Suc k)
  then obtain c where c: "(steps ^^ k) (all_calling cs s) c" "steps c cfg" by auto
  then show ?case using Suc.IH [OF c(1)] within_steps [OF c(2)] exclusive_steps [OF c(2)] measure_decreases [OF c(2)]
    by auto
qed

text \<open>Serial order.\<close>

lemma serialized_reply:
  assumes "serialized step cs s0 (ps, s) order" "i < length ps" "ps ! i = Calling (cs ! i) n"
    "r = fst (step (cs ! i) s)" "s' = snd (step (cs ! i) s)"
  shows "serialized step cs s0 (ps[i := Replied (cs ! i) r], s') (order @ [i])"
proof -
  have new: "i \<notin> set order" using assms(1,2,3) by (auto simp: serialized_def)
  then have "\<And>j. j < length order \<Longrightarrow> i \<noteq> order ! j" by (metis nth_mem)
  moreover have "{k. k < length ps \<and> replied_process (ps[i := Replied (cs ! i) r] ! k)} = insert i (set order)"
    using assms(1,2) by (auto simp: serialized_def nth_list_update)
  ultimately show ?thesis using assms new
    by (auto simp: serialized_def run_calls_append nth_append less_Suc_eq)
qed

lemma serialized_acquire:
  assumes "serialized step cs s0 (ps, s) order" "i < length ps" "ps ! i = Calling c n"
  shows "serialized step cs s0 (ps[i := Calling c m], s) order"
proof -
  have new: "i \<notin> set order" using assms by (auto simp: serialized_def)
  then have "\<And>j. j < length order \<Longrightarrow> i \<noteq> order ! j" by (metis nth_mem)
  moreover have "{k. k < length ps \<and> replied_process (ps[i := Calling c m] ! k)} = set order"
    using assms by (auto simp: serialized_def nth_list_update)
  ultimately show ?thesis using assms new by (auto simp: serialized_def)
qed

definition runs :: "'call list \<Rightarrow> ('call, 'reply, 'st) configuration \<Rightarrow> bool" where
  "runs cs cfg \<longleftrightarrow> length (fst cfg) = length cs \<and> (\<forall>i < length cs. \<forall>c n. fst cfg ! i = Calling c n \<longrightarrow> c = cs ! i)"

lemma runs_update: "runs cs (ps, s) \<Longrightarrow> i < length ps \<Longrightarrow> (\<And>c n. p = Calling c n \<Longrightarrow> c = cs ! i) \<Longrightarrow> runs cs (ps[i := p], s')"
  by (auto simp: runs_def nth_list_update)

lemma serial_steps:
  assumes "steps cfg cfg'" "runs cs cfg" "serialized step cs s0 cfg order"
  shows "runs cs cfg' \<and> (\<exists>order'. serialized step cs s0 cfg' order')"
  using assms
proof (induction rule: interleave.induct)
  case (acquire i ps c n s)
  then have "c = cs ! i" by (simp add: runs_def)
  then show ?case using acquire serialized_acquire [of cs s0 ps s order i c n "Suc n"] by (auto intro!: runs_update)
next
  case (refuse i ps c n s)
  then have c: "c = cs ! i" by (simp add: runs_def)
  have "plan c s ! n \<in> set (plan c s)" using refuse.hyps by simp
  then have "step c s = (refused (plan c s ! n), s)" by (rule poisoned_refuses [OF refuse.hyps(5)])
  then have "serialized step cs s0 (ps[i := Replied (cs ! i) (refused (plan c s ! n))], s) (order @ [i])"
    using refuse c by (intro serialized_reply [where s = s]) simp_all
  then show ?case using refuse c by (auto intro!: runs_update)
next
  case (run i ps c n s)
  then have c: "c = cs ! i" by (simp add: runs_def)
  have "serialized step cs s0 (ps[i := Replied (cs ! i) (fst (step c s))], snd (step c s)) (order @ [i])"
    using run c by (intro serialized_reply [where s = s]) simp_all
  then show ?case using run c by (auto intro!: runs_update)
qed

theorem serial_order:
  assumes "(steps ^^ k) (all_calling cs s) cfg"
  shows "\<exists>order. serialized step cs s cfg order"
proof -
  have "runs cs cfg \<and> (\<exists>order. serialized step cs s cfg order)" using assms
  proof (induction k arbitrary: cfg)
    case 0
    have "serialized step cs s (all_calling cs s) []" by (simp add: serialized_def all_calling_def)
    then show ?case using 0 by (auto simp: runs_def all_calling_def)
  next
    case (Suc k)
    then obtain c where c: "(steps ^^ k) (all_calling cs s) c" "steps c cfg" by auto
    obtain order where "runs cs c" "serialized step cs s c order" using Suc.IH [OF c(1)] by blast
    then show ?case by (rule serial_steps [OF c(2)])
  qed
  then show ?thesis by blast
qed

theorem every_schedule_replies:
  assumes "(steps ^^ k) (all_calling cs s) cfg"
  shows "k \<le> Suc depth * length cs \<and> exclusive plan cfg \<and> (all_replied cfg \<or> (\<exists>cfg'. steps cfg cfg'))"
proof -
  have cfg: "within cfg" "exclusive plan cfg" "k + measure_of cfg \<le> Suc depth * length cs"
    using schedules [OF assms] by blast+
  then have "k \<le> Suc depth * length cs" by simp
  then show ?thesis using cfg progress [of cfg] by blast
qed

end

end
