(* ===== verification/FusionNifs.thy ===== *)
theory FusionNifs
  imports Fusion Concurrency
begin

text \<open>
  The fusion calls of \<open>native/sidereon_nif/src/fusion.rs\<close> on their resources: filters, strapdown mechanizers,
  sensor simulators and history builders behind a mutex each, finished histories and smoothed trajectories.
  The core's operations are \<open>fusion_core\<close>. One that runs under a lock may panic (\<open>None\<close>): then every mutex the
  call holds is poisoned. A recorded call locks its filter first and its builder second.
\<close>

section \<open>Core operations\<close>

datatype (plugins only: code) 'o setup_core = setup_core
  (core_inertial: "'o inertial_core")
  (core_imu_spec_preset: "ImuGrade \<Rightarrow> ImuSpec")
  (core_filter_with_config: "InsFilterState \<Rightarrow> 'o InertialFilterConfig \<Rightarrow> FusionError + 'o")
  (core_snapshot_decode: "u8 list \<Rightarrow> string + InsFilterState")
  (core_filter_restore: "'o \<Rightarrow> u8 list \<Rightarrow> ((string + unit) \<times> 'o) option")
  (core_filter_state: "'o \<Rightarrow> InsFilterState")

datatype (plugins only: code) 'o update_core = update_core
  (core_filter_propagate: "'o \<Rightarrow> ImuSample \<Rightarrow> ((FusionError + InsFilterState) \<times> 'o) option")
  (core_filter_propagate_recorded: "'o \<Rightarrow> ImuSample \<Rightarrow> 'o \<Rightarrow> ((FusionError + InsFilterState) \<times> 'o \<times> 'o) option")
  (core_filter_update_loose: "'o \<Rightarrow> GnssFixMeasurement \<Rightarrow> ((FusionError + FusionUpdate) \<times> 'o) option")
  (core_filter_update_loose_recorded: "'o \<Rightarrow> GnssFixMeasurement \<Rightarrow> 'o \<Rightarrow> ((FusionError + FusionUpdate) \<times> 'o \<times> 'o) option")
  (core_filter_update_stationary: "'o \<Rightarrow> ((FusionError + FusionUpdate option) \<times> 'o) option")
  (core_filter_update_stationary_recorded: "'o \<Rightarrow> 'o \<Rightarrow> ((FusionError + FusionUpdate option) \<times> 'o \<times> 'o) option")
  (core_filter_update_non_holonomic: "'o \<Rightarrow> ((FusionError + FusionUpdate option) \<times> 'o) option")
  (core_filter_update_non_holonomic_recorded: "'o \<Rightarrow> 'o \<Rightarrow> ((FusionError + FusionUpdate option) \<times> 'o \<times> 'o) option")

datatype (plugins only: code) 'o sync_core = sync_core
  (core_filter_update_loose_time_sync: "'o \<Rightarrow> GnssFixMeasurement \<Rightarrow> ((FusionError + TimeSyncUpdate) \<times> 'o) option")
  (core_filter_update_tight: "'o \<Rightarrow> 'o \<Rightarrow> 'o \<Rightarrow> ((FusionError + FusionUpdate) \<times> 'o) option")
  (core_filter_update_tight_recorded: "'o \<Rightarrow> 'o \<Rightarrow> 'o \<Rightarrow> 'o \<Rightarrow> ((FusionError + FusionUpdate) \<times> 'o \<times> 'o) option")
  (core_filter_update_tight_time_sync: "'o \<Rightarrow> 'o \<Rightarrow> 'o \<Rightarrow> ((FusionError + TimeSyncUpdate) \<times> 'o) option")
  (core_filter_configure_time_sync: "'o \<Rightarrow> TimeSyncHistoryConfig \<Rightarrow> ((FusionError + unit) \<times> 'o) option")
  (core_filter_time_sync_status: "'o \<Rightarrow> TimeSyncHistoryStatus")
  (core_filter_tight_clock_state: "'o \<Rightarrow> FusionError + TightClockState")
  (core_serializable_state: "'o \<Rightarrow> string + 'o SerializableState")
  (core_encode_versioned: "'o SerializableState \<Rightarrow> string + u8 list")

datatype (plugins only: code) 'o history_core = history_core
  (core_builder_empty: 'o)
  (core_builder_from_filter: "'o \<Rightarrow> FusionError + 'o")
  (core_builder_finish: "'o \<Rightarrow> FusionError + 'o")
  (core_history_epochs: "'o \<Rightarrow> FusionRtsEpoch list")
  (core_smooth_fusion_rts: "'o \<Rightarrow> FusionError + 'o")
  (core_trajectory_epochs: "'o \<Rightarrow> SmoothedFusionEpoch list")
  (core_velocity_match_outage: "VelocityMatchState list \<Rightarrow> GnssFixMeasurement \<Rightarrow> VelocityMatchingConfig \<Rightarrow> FusionError + VelocityMatchedTrajectory")

datatype (plugins only: code) 'o mechanizer_core = mechanizer_core
  (core_mechanizer_new: "NavState \<Rightarrow> InertialError + 'o")
  (core_mechanizer_with_imu_model: "'o \<Rightarrow> ImuErrorModel \<Rightarrow> InertialError + 'o")
  (core_mechanizer_with_config: "'o \<Rightarrow> MechanizationConfig \<Rightarrow> 'o")
  (core_mechanizer_state: "'o \<Rightarrow> NavState")
  (core_mechanizer_propagate: "'o \<Rightarrow> ImuSample \<Rightarrow> ((InertialError + NavState) \<times> 'o) option")

datatype (plugins only: code) 'o simulator_core = simulator_core
  (core_simulator_new: "ImuSpec \<Rightarrow> ImuSimulationOptions \<Rightarrow> InertialError + 'o")
  (core_simulator_sample_increment: "'o \<Rightarrow> CorrectedImuIncrement \<Rightarrow> ((InertialError + ImuSample) \<times> 'o) option")
  (core_simulator_bias: "'o \<Rightarrow> ImuBias")
  (core_simulator_rate_random_walk: "'o \<Rightarrow> ImuBias")
  (core_true_imu_increment_between: "NavState \<Rightarrow> NavState \<Rightarrow> InertialError + CorrectedImuIncrement")
  (core_simulate_imu_samples: "NavState list \<Rightarrow> ImuSpec \<Rightarrow> ImuSimulationOptions \<Rightarrow> InertialError + ImuSample list \<times> ImuBias list \<times> ImuBias list")
  (core_simulate_imu_samples_from_increments: "CorrectedImuIncrement list \<Rightarrow> ImuSpec \<Rightarrow> ImuSimulationOptions \<Rightarrow>
     InertialError + ImuSample list \<times> ImuBias list \<times> ImuBias list")

datatype (plugins only: code) 'o fusion_core = fusion_core
  (get_setup_core: "'o setup_core")
  (get_update_core: "'o update_core")
  (get_sync_core: "'o sync_core")
  (get_history_core: "'o history_core")
  (get_mechanizer_core: "'o mechanizer_core")
  (get_simulator_core: "'o simulator_core")

text \<open>The operations by their names.\<close>

abbreviation inertial where "inertial C \<equiv> core_inertial (get_setup_core C)"
abbreviation imu_spec_preset where "imu_spec_preset C \<equiv> core_imu_spec_preset (get_setup_core C)"
abbreviation filter_with_config where "filter_with_config C \<equiv> core_filter_with_config (get_setup_core C)"
abbreviation snapshot_decode where "snapshot_decode C \<equiv> core_snapshot_decode (get_setup_core C)"
abbreviation filter_restore where "filter_restore C \<equiv> core_filter_restore (get_setup_core C)"
abbreviation filter_state where "filter_state C \<equiv> core_filter_state (get_setup_core C)"
abbreviation filter_propagate where "filter_propagate C \<equiv> core_filter_propagate (get_update_core C)"
abbreviation filter_propagate_recorded where "filter_propagate_recorded C \<equiv> core_filter_propagate_recorded (get_update_core C)"
abbreviation filter_update_loose where "filter_update_loose C \<equiv> core_filter_update_loose (get_update_core C)"
abbreviation filter_update_loose_recorded where "filter_update_loose_recorded C \<equiv> core_filter_update_loose_recorded (get_update_core C)"
abbreviation filter_update_stationary where "filter_update_stationary C \<equiv> core_filter_update_stationary (get_update_core C)"
abbreviation filter_update_stationary_recorded where "filter_update_stationary_recorded C \<equiv> core_filter_update_stationary_recorded (get_update_core C)"
abbreviation filter_update_non_holonomic where "filter_update_non_holonomic C \<equiv> core_filter_update_non_holonomic (get_update_core C)"
abbreviation filter_update_non_holonomic_recorded where "filter_update_non_holonomic_recorded C \<equiv> core_filter_update_non_holonomic_recorded (get_update_core C)"
abbreviation filter_update_loose_time_sync where "filter_update_loose_time_sync C \<equiv> core_filter_update_loose_time_sync (get_sync_core C)"
abbreviation filter_update_tight where "filter_update_tight C \<equiv> core_filter_update_tight (get_sync_core C)"
abbreviation filter_update_tight_recorded where "filter_update_tight_recorded C \<equiv> core_filter_update_tight_recorded (get_sync_core C)"
abbreviation filter_update_tight_time_sync where "filter_update_tight_time_sync C \<equiv> core_filter_update_tight_time_sync (get_sync_core C)"
abbreviation filter_configure_time_sync where "filter_configure_time_sync C \<equiv> core_filter_configure_time_sync (get_sync_core C)"
abbreviation filter_time_sync_status where "filter_time_sync_status C \<equiv> core_filter_time_sync_status (get_sync_core C)"
abbreviation filter_tight_clock_state where "filter_tight_clock_state C \<equiv> core_filter_tight_clock_state (get_sync_core C)"
abbreviation serializable_state where "serializable_state C \<equiv> core_serializable_state (get_sync_core C)"
abbreviation encode_versioned where "encode_versioned C \<equiv> core_encode_versioned (get_sync_core C)"
abbreviation builder_empty where "builder_empty C \<equiv> core_builder_empty (get_history_core C)"
abbreviation builder_from_filter where "builder_from_filter C \<equiv> core_builder_from_filter (get_history_core C)"
abbreviation builder_finish where "builder_finish C \<equiv> core_builder_finish (get_history_core C)"
abbreviation history_epochs where "history_epochs C \<equiv> core_history_epochs (get_history_core C)"
abbreviation smooth_fusion_rts where "smooth_fusion_rts C \<equiv> core_smooth_fusion_rts (get_history_core C)"
abbreviation trajectory_epochs where "trajectory_epochs C \<equiv> core_trajectory_epochs (get_history_core C)"
abbreviation velocity_match_outage where "velocity_match_outage C \<equiv> core_velocity_match_outage (get_history_core C)"
abbreviation mechanizer_new where "mechanizer_new C \<equiv> core_mechanizer_new (get_mechanizer_core C)"
abbreviation mechanizer_with_imu_model where "mechanizer_with_imu_model C \<equiv> core_mechanizer_with_imu_model (get_mechanizer_core C)"
abbreviation mechanizer_with_config where "mechanizer_with_config C \<equiv> core_mechanizer_with_config (get_mechanizer_core C)"
abbreviation mechanizer_state where "mechanizer_state C \<equiv> core_mechanizer_state (get_mechanizer_core C)"
abbreviation mechanizer_propagate where "mechanizer_propagate C \<equiv> core_mechanizer_propagate (get_mechanizer_core C)"
abbreviation simulator_new where "simulator_new C \<equiv> core_simulator_new (get_simulator_core C)"
abbreviation simulator_sample_increment where "simulator_sample_increment C \<equiv> core_simulator_sample_increment (get_simulator_core C)"
abbreviation simulator_bias where "simulator_bias C \<equiv> core_simulator_bias (get_simulator_core C)"
abbreviation simulator_rate_random_walk where "simulator_rate_random_walk C \<equiv> core_simulator_rate_random_walk (get_simulator_core C)"
abbreviation true_imu_increment_between where "true_imu_increment_between C \<equiv> core_true_imu_increment_between (get_simulator_core C)"
abbreviation simulate_imu_samples where "simulate_imu_samples C \<equiv> core_simulate_imu_samples (get_simulator_core C)"
abbreviation simulate_imu_samples_from_increments where "simulate_imu_samples_from_increments C \<equiv> core_simulate_imu_samples_from_increments (get_simulator_core C)"

section \<open>Resources\<close>

record 'o fusion_resources =
  filters :: "'o cell list"
  mechanizers :: "'o cell list"
  simulators :: "'o cell list"
  builders :: "'o cell list"
  histories :: "'o list"
  trajectories :: "'o list"

type_synonym 'o fusion_result = "nif_reply \<times> 'o fusion_resources"

definition poisoned_term :: nterm where
  "poisoned_term = error_term (Atom ''poisoned_resource'')"

text \<open>A critical section on one cell: what it replies, and the cell afterwards.\<close>

definition cell_section :: "'a cell \<Rightarrow> ('a \<Rightarrow> (nterm \<times> 'a) option) \<Rightarrow> nif_reply \<times> 'a cell" where
  "cell_section c f =
     (if cell_poisoned c then (Inr poisoned_term, c)
      else case f (cell_value c) of
        None \<Rightarrow> (Inl Panic, cell_poison c)
      | Some (t, v) \<Rightarrow> (Inr t, cell_new v))"

definition with_filter ::
  "nat \<Rightarrow> ('o \<Rightarrow> (nterm \<times> 'o) option) \<Rightarrow> 'o fusion_resources \<Rightarrow> 'o fusion_result" where
  "with_filter h f s = with_resource h (filters s) (\<lambda>c.
     case cell_section c f of (r, c') \<Rightarrow> (r, s\<lparr>filters := (filters s)[h := c']\<rparr>)) s"

definition with_mechanizer ::
  "nat \<Rightarrow> ('o \<Rightarrow> (nterm \<times> 'o) option) \<Rightarrow> 'o fusion_resources \<Rightarrow> 'o fusion_result" where
  "with_mechanizer h f s = with_resource h (mechanizers s) (\<lambda>c.
     case cell_section c f of (r, c') \<Rightarrow> (r, s\<lparr>mechanizers := (mechanizers s)[h := c']\<rparr>)) s"

definition with_simulator ::
  "nat \<Rightarrow> ('o \<Rightarrow> (nterm \<times> 'o) option) \<Rightarrow> 'o fusion_resources \<Rightarrow> 'o fusion_result" where
  "with_simulator h f s = with_resource h (simulators s) (\<lambda>c.
     case cell_section c f of (r, c') \<Rightarrow> (r, s\<lparr>simulators := (simulators s)[h := c']\<rparr>)) s"

text \<open>A recorded call: the filter's lock, then the builder's, then the core on both.\<close>

definition with_recorded ::
  "nat \<Rightarrow> nat \<Rightarrow> ('o \<Rightarrow> 'o \<Rightarrow> (nterm \<times> 'o \<times> 'o) option) \<Rightarrow> 'o fusion_resources \<Rightarrow> 'o fusion_result" where
  "with_recorded h b f s = with_resource h (filters s) (\<lambda>c. with_resource b (builders s) (\<lambda>d.
     if cell_poisoned c then (Inr poisoned_term, s)
     else if cell_poisoned d then (Inr poisoned_term, s)
     else case f (cell_value c) (cell_value d) of
        None \<Rightarrow> (Inl Panic, s\<lparr>filters := (filters s)[h := cell_poison c], builders := (builders s)[b := cell_poison d]\<rparr>)
      | Some (t, v, w) \<Rightarrow>
          (Inr t, s\<lparr>filters := (filters s)[h := cell_new v], builders := (builders s)[b := cell_new w]\<rparr>)) s) s"

text \<open>The arguments of a call decode before its body runs: a handle that names no resource is refused first.\<close>

definition filter_arg ::
  "nat \<Rightarrow> ('o fusion_resources \<Rightarrow> 'o fusion_result) \<Rightarrow> 'o fusion_resources \<Rightarrow> 'o fusion_result" where
  "filter_arg h body s = with_resource h (filters s) (\<lambda>_. body s) s"

definition builder_arg ::
  "nat \<Rightarrow> ('o fusion_resources \<Rightarrow> 'o fusion_result) \<Rightarrow> 'o fusion_resources \<Rightarrow> 'o fusion_result" where
  "builder_arg b body s = with_resource b (builders s) (\<lambda>_. body s) s"

definition mechanizer_arg ::
  "nat \<Rightarrow> ('o fusion_resources \<Rightarrow> 'o fusion_result) \<Rightarrow> 'o fusion_resources \<Rightarrow> 'o fusion_result" where
  "mechanizer_arg h body s = with_resource h (mechanizers s) (\<lambda>_. body s) s"

definition simulator_arg ::
  "nat \<Rightarrow> ('o fusion_resources \<Rightarrow> 'o fusion_result) \<Rightarrow> 'o fusion_resources \<Rightarrow> 'o fusion_result" where
  "simulator_arg h body s = with_resource h (simulators s) (\<lambda>_. body s) s"

text \<open>An argument that does not decode is refused before any lock is taken.\<close>

definition decoded :: "('e \<Rightarrow> nterm) \<Rightarrow> 'e + 'a \<Rightarrow> ('a \<Rightarrow> 's \<Rightarrow> nif_reply \<times> 's) \<Rightarrow> 's \<Rightarrow> nif_reply \<times> 's" where
  "decoded err r k s = (case r of Inl e \<Rightarrow> (Inr (err e), s) | Inr a \<Rightarrow> k a s)"

text \<open>The reply of an operation of the core, beside what it leaves in the cells.\<close>

definition replied :: "('e \<Rightarrow> nterm) \<Rightarrow> ('a \<Rightarrow> nterm) \<Rightarrow> (('e + 'a) \<times> 'c) option \<Rightarrow> (nterm \<times> 'c) option" where
  "replied err enc = map_option (\<lambda>(r, c). (case r of Inl e \<Rightarrow> err e | Inr a \<Rightarrow> ok_term (enc a), c))"

section \<open>Filters\<close>

definition fusion_new ::
  "'o fusion_core \<Rightarrow> FilterStateTerm \<Rightarrow> FilterConfigTerm \<Rightarrow> 'o fusion_resources \<Rightarrow> 'o fusion_result" where
  "fusion_new C state config =
     decoded fusion_error (decode_filter_state (inertial C) state) (\<lambda>state.
     decoded fusion_error (decode_config (inertial C) config) (\<lambda>config.
     decoded fusion_error (filter_with_config C state config) (\<lambda>f s.
       (Inr (ok_term (Resource (length (filters s)))), s\<lparr>filters := filters s @ [cell_new f]\<rparr>))))"

definition fusion_from_state_bytes ::
  "'o fusion_core \<Rightarrow> u8 list \<Rightarrow> FilterConfigTerm \<Rightarrow> 'o fusion_resources \<Rightarrow> 'o fusion_result" where
  "fusion_from_state_bytes C bytes config =
     decoded fusion_error (decode_config (inertial C) config) (\<lambda>config.
     decoded codec_error (snapshot_decode C bytes) (\<lambda>snapshot_state.
     decoded fusion_error (filter_with_config C snapshot_state config) (\<lambda>f s.
       case filter_restore C f bytes of
         None \<Rightarrow> (Inl Panic, s)
       | Some (Inl error, _) \<Rightarrow> (Inr (codec_error error), s)
       | Some (Inr _, f') \<Rightarrow>
           (Inr (ok_term (Resource (length (filters s)))), s\<lparr>filters := filters s @ [cell_new f']\<rparr>))))"

definition fusion_state ::
  "'o fusion_core \<Rightarrow> nat \<Rightarrow> 'o fusion_resources \<Rightarrow> 'o fusion_result" where
  "fusion_state C h = with_filter h (\<lambda>f. Some (ok_term (encode_state (filter_state C f)), f))"

definition fusion_propagate ::
  "'o fusion_core \<Rightarrow> nat \<Rightarrow> ImuSampleTerm \<Rightarrow> 'o fusion_resources \<Rightarrow> 'o fusion_result" where
  "fusion_propagate C h sample =
     filter_arg h (
     decoded fusion_error (decode_imu_sample (inertial C) sample) (\<lambda>sample.
     with_filter h (\<lambda>f. replied fusion_error encode_state (filter_propagate C f sample))))"

definition fusion_propagate_recorded ::
  "'o fusion_core \<Rightarrow> nat \<Rightarrow> ImuSampleTerm \<Rightarrow> nat \<Rightarrow> 'o fusion_resources \<Rightarrow> 'o fusion_result" where
  "fusion_propagate_recorded C h sample history =
     filter_arg h (builder_arg history (
     decoded fusion_error (decode_imu_sample (inertial C) sample) (\<lambda>sample.
     with_recorded h history (\<lambda>f b. replied fusion_error encode_state (filter_propagate_recorded C f sample b)))))"

definition fusion_update_loose ::
  "'o fusion_core \<Rightarrow> nat \<Rightarrow> LooseMeasurementTerm \<Rightarrow> 'o fusion_resources \<Rightarrow> 'o fusion_result" where
  "fusion_update_loose C h measurement =
     filter_arg h (
     decoded fusion_error (decode_loose_measurement (inertial C) measurement) (\<lambda>measurement.
     with_filter h (\<lambda>f. replied fusion_error encode_update (filter_update_loose C f measurement))))"

definition fusion_update_loose_recorded ::
  "'o fusion_core \<Rightarrow> nat \<Rightarrow> LooseMeasurementTerm \<Rightarrow> nat \<Rightarrow> 'o fusion_resources \<Rightarrow> 'o fusion_result" where
  "fusion_update_loose_recorded C h measurement history =
     filter_arg h (builder_arg history (
     decoded fusion_error (decode_loose_measurement (inertial C) measurement) (\<lambda>measurement.
     with_recorded h history (\<lambda>f b.
       replied fusion_error encode_update (filter_update_loose_recorded C f measurement b)))))"

definition fusion_update_stationary ::
  "'o fusion_core \<Rightarrow> nat \<Rightarrow> 'o fusion_resources \<Rightarrow> 'o fusion_result" where
  "fusion_update_stationary C h =
     with_filter h (\<lambda>f. replied fusion_error (enc_option encode_update) (filter_update_stationary C f))"

definition fusion_update_stationary_recorded ::
  "'o fusion_core \<Rightarrow> nat \<Rightarrow> nat \<Rightarrow> 'o fusion_resources \<Rightarrow> 'o fusion_result" where
  "fusion_update_stationary_recorded C h history =
     with_recorded h history (\<lambda>f b.
       replied fusion_error (enc_option encode_update) (filter_update_stationary_recorded C f b))"

definition fusion_update_non_holonomic ::
  "'o fusion_core \<Rightarrow> nat \<Rightarrow> 'o fusion_resources \<Rightarrow> 'o fusion_result" where
  "fusion_update_non_holonomic C h =
     with_filter h (\<lambda>f. replied fusion_error (enc_option encode_update) (filter_update_non_holonomic C f))"

definition fusion_update_non_holonomic_recorded ::
  "'o fusion_core \<Rightarrow> nat \<Rightarrow> nat \<Rightarrow> 'o fusion_resources \<Rightarrow> 'o fusion_result" where
  "fusion_update_non_holonomic_recorded C h history =
     with_recorded h history (\<lambda>f b.
       replied fusion_error (enc_option encode_update) (filter_update_non_holonomic_recorded C f b))"

definition fusion_update_loose_time_sync ::
  "'o fusion_core \<Rightarrow> nat \<Rightarrow> LooseMeasurementTerm \<Rightarrow> 'o fusion_resources \<Rightarrow> 'o fusion_result" where
  "fusion_update_loose_time_sync C h measurement =
     filter_arg h (
     decoded fusion_error (decode_loose_measurement (inertial C) measurement) (\<lambda>measurement.
     with_filter h (\<lambda>f.
       replied fusion_error encode_time_sync_update (filter_update_loose_time_sync C f measurement))))"

text \<open>\<open>source\<close> is the ephemeris of the resource that the call is given.\<close>

definition fusion_update_tight_sp3 ::
  "'o fusion_core \<Rightarrow> nat \<Rightarrow> 'o \<Rightarrow> TightEpochTerm \<Rightarrow> 'o fusion_resources \<Rightarrow> 'o fusion_result" where
  "fusion_update_tight_sp3 C h source epoch =
     filter_arg h (
     decoded fusion_error (decode_tight_epoch (inertial C) epoch) (\<lambda>epoch.
     with_filter h (\<lambda>f. replied fusion_error encode_update (filter_update_tight C f source epoch))))"

definition fusion_update_tight_broadcast ::
  "'o fusion_core \<Rightarrow> nat \<Rightarrow> 'o \<Rightarrow> TightEpochTerm \<Rightarrow> 'o fusion_resources \<Rightarrow> 'o fusion_result" where
  "fusion_update_tight_broadcast C h source epoch =
     filter_arg h (
     decoded fusion_error (decode_tight_epoch (inertial C) epoch) (\<lambda>epoch.
     with_filter h (\<lambda>f. replied fusion_error encode_update (filter_update_tight C f source epoch))))"

definition fusion_update_tight_recorded_sp3 ::
  "'o fusion_core \<Rightarrow> nat \<Rightarrow> 'o \<Rightarrow> TightEpochTerm \<Rightarrow> nat \<Rightarrow> 'o fusion_resources \<Rightarrow> 'o fusion_result" where
  "fusion_update_tight_recorded_sp3 C h source epoch history =
     filter_arg h (builder_arg history (
     decoded fusion_error (decode_tight_epoch (inertial C) epoch) (\<lambda>epoch.
     with_recorded h history (\<lambda>f b.
       replied fusion_error encode_update (filter_update_tight_recorded C f source epoch b)))))"

definition fusion_update_tight_recorded_broadcast ::
  "'o fusion_core \<Rightarrow> nat \<Rightarrow> 'o \<Rightarrow> TightEpochTerm \<Rightarrow> nat \<Rightarrow> 'o fusion_resources \<Rightarrow> 'o fusion_result" where
  "fusion_update_tight_recorded_broadcast C h source epoch history =
     filter_arg h (builder_arg history (
     decoded fusion_error (decode_tight_epoch (inertial C) epoch) (\<lambda>epoch.
     with_recorded h history (\<lambda>f b.
       replied fusion_error encode_update (filter_update_tight_recorded C f source epoch b)))))"

definition fusion_update_tight_time_sync_sp3 ::
  "'o fusion_core \<Rightarrow> nat \<Rightarrow> 'o \<Rightarrow> TightEpochTerm \<Rightarrow> 'o fusion_resources \<Rightarrow> 'o fusion_result" where
  "fusion_update_tight_time_sync_sp3 C h source epoch =
     filter_arg h (
     decoded fusion_error (decode_tight_epoch (inertial C) epoch) (\<lambda>epoch.
     with_filter h (\<lambda>f.
       replied fusion_error encode_time_sync_update (filter_update_tight_time_sync C f source epoch))))"

definition fusion_update_tight_time_sync_broadcast ::
  "'o fusion_core \<Rightarrow> nat \<Rightarrow> 'o \<Rightarrow> TightEpochTerm \<Rightarrow> 'o fusion_resources \<Rightarrow> 'o fusion_result" where
  "fusion_update_tight_time_sync_broadcast C h source epoch =
     filter_arg h (
     decoded fusion_error (decode_tight_epoch (inertial C) epoch) (\<lambda>epoch.
     with_filter h (\<lambda>f.
       replied fusion_error encode_time_sync_update (filter_update_tight_time_sync C f source epoch))))"

definition fusion_configure_time_sync ::
  "'o fusion_core \<Rightarrow> nat \<Rightarrow> TimeSyncConfigTerm \<Rightarrow> 'o fusion_resources \<Rightarrow> 'o fusion_result" where
  "fusion_configure_time_sync C h config =
     with_filter h (\<lambda>f. map_option (\<lambda>(r, f').
       (case r of
          Inl error \<Rightarrow> fusion_error error
        | Inr _ \<Rightarrow> ok_term (encode_time_sync_status (filter_time_sync_status C f')), f'))
       (filter_configure_time_sync C f
         (TimeSyncHistoryConfig_new (tsct_imu_capacity config) (tsct_checkpoint_capacity config))))"

definition fusion_time_sync_status ::
  "'o fusion_core \<Rightarrow> nat \<Rightarrow> 'o fusion_resources \<Rightarrow> 'o fusion_result" where
  "fusion_time_sync_status C h =
     with_filter h (\<lambda>f. Some (ok_term (encode_time_sync_status (filter_time_sync_status C f)), f))"

definition fusion_tight_clock_state ::
  "'o fusion_core \<Rightarrow> nat \<Rightarrow> 'o fusion_resources \<Rightarrow> 'o fusion_result" where
  "fusion_tight_clock_state C h =
     with_filter h (\<lambda>f. replied fusion_error encode_clock (Some (filter_tight_clock_state C f, f)))"

definition fusion_encode_state ::
  "'o fusion_core \<Rightarrow> nat \<Rightarrow> 'o fusion_resources \<Rightarrow> 'o fusion_result" where
  "fusion_encode_state C h =
     with_filter h (\<lambda>f. replied codec_error Bin
       (Some (encode_filter_state (serializable_state C) (encode_versioned C) f, f)))"

definition fusion_restore_state ::
  "'o fusion_core \<Rightarrow> nat \<Rightarrow> u8 list \<Rightarrow> 'o fusion_resources \<Rightarrow> 'o fusion_result" where
  "fusion_restore_state C h bytes =
     with_filter h (\<lambda>f. map_option (\<lambda>(r, f').
       (case r of Inl error \<Rightarrow> codec_error error | Inr _ \<Rightarrow> ok_term (encode_state (filter_state C f')), f'))
       (filter_restore C f bytes))"

section \<open>Histories\<close>

definition fusion_rts_history_builder_new :: "'o fusion_core \<Rightarrow> 'o fusion_resources \<Rightarrow> 'o fusion_result" where
  "fusion_rts_history_builder_new C s =
     (Inr (Resource (length (builders s))), s\<lparr>builders := builders s @ [cell_new (builder_empty C)]\<rparr>)"

definition fusion_rts_history_builder_from_filter ::
  "'o fusion_core \<Rightarrow> nat \<Rightarrow> 'o fusion_resources \<Rightarrow> 'o fusion_result" where
  "fusion_rts_history_builder_from_filter C h s = with_resource h (filters s) (\<lambda>c.
     if cell_poisoned c then (Inr poisoned_term, s)
     else decoded fusion_error (builder_from_filter C (cell_value c)) (\<lambda>b s.
       (Inr (ok_term (Resource (length (builders s)))), s\<lparr>builders := builders s @ [cell_new b]\<rparr>)) s) s"

definition fusion_rts_history_builder_finish ::
  "'o fusion_core \<Rightarrow> nat \<Rightarrow> 'o fusion_resources \<Rightarrow> 'o fusion_result" where
  "fusion_rts_history_builder_finish C b s = with_resource b (builders s) (\<lambda>c.
     if cell_poisoned c then (Inr poisoned_term, s)
     else decoded fusion_error (builder_finish C (cell_value c)) (\<lambda>history s.
       (Inr (ok_term (Resource (length (histories s)))), s\<lparr>histories := histories s @ [history]\<rparr>)) s) s"

definition fusion_rts_history_epoch_count ::
  "'o fusion_core \<Rightarrow> nat \<Rightarrow> 'o fusion_resources \<Rightarrow> 'o fusion_result" where
  "fusion_rts_history_epoch_count C h s = with_resource h (histories s) (\<lambda>history.
     (Inr (enc_u64 (usize_len (history_epochs C history))), s)) s"

definition fusion_rts_history_epochs ::
  "'o fusion_core \<Rightarrow> nat \<Rightarrow> 'o fusion_resources \<Rightarrow> 'o fusion_result" where
  "fusion_rts_history_epochs C h s = with_resource h (histories s) (\<lambda>history.
     (Inr (enc_list encode_rts_epoch (history_epochs C history)), s)) s"

definition fusion_smooth_rts :: "'o fusion_core \<Rightarrow> nat \<Rightarrow> 'o fusion_resources \<Rightarrow> 'o fusion_result" where
  "fusion_smooth_rts C h s = with_resource h (histories s) (\<lambda>history.
     decoded fusion_error (smooth_fusion_rts C history) (\<lambda>trajectory s.
       (Inr (ok_term (Resource (length (trajectories s)))), s\<lparr>trajectories := trajectories s @ [trajectory]\<rparr>)) s) s"

definition fusion_smoothed_trajectory_epoch_count ::
  "'o fusion_core \<Rightarrow> nat \<Rightarrow> 'o fusion_resources \<Rightarrow> 'o fusion_result" where
  "fusion_smoothed_trajectory_epoch_count C h s = with_resource h (trajectories s) (\<lambda>trajectory.
     (Inr (enc_u64 (usize_len (trajectory_epochs C trajectory))), s)) s"

definition fusion_smoothed_trajectory_epochs ::
  "'o fusion_core \<Rightarrow> nat \<Rightarrow> 'o fusion_resources \<Rightarrow> 'o fusion_result" where
  "fusion_smoothed_trajectory_epochs C h s = with_resource h (trajectories s) (\<lambda>trajectory.
     (Inr (enc_list encode_smoothed_epoch (trajectory_epochs C trajectory)), s)) s"

definition fusion_velocity_match_outage ::
  "'o fusion_core \<Rightarrow> VelocityMatchStateTerm list \<Rightarrow> LooseMeasurementTerm \<Rightarrow> VelocityMatchingConfigTerm \<Rightarrow> nterm" where
  "fusion_velocity_match_outage C states first_good_fix config =
     (case and_then (collect_results (map (decode_velocity_match_state (inertial C)) states)) (\<lambda>states.
        and_then (decode_loose_measurement (inertial C) first_good_fix) (\<lambda>fix'.
        velocity_match_outage C states fix' (VelocityMatchingConfig_new (vmct_max_outage_duration_s config)))) of
        Inl error \<Rightarrow> fusion_error error
      | Inr matched \<Rightarrow> ok_term (encode_velocity_matched_trajectory matched))"

section \<open>Mechanizers and simulators\<close>

definition fusion_imu_spec_preset :: "'o fusion_core \<Rightarrow> string \<Rightarrow> nterm" where
  "fusion_imu_spec_preset C grade =
     (if grade = ''mems'' then ok_term (enc_ImuSpecTerm (encode_imu_spec (imu_spec_preset C Mems)))
      else if grade = ''tactical'' then ok_term (enc_ImuSpecTerm (encode_imu_spec (imu_spec_preset C Tactical)))
      else if grade = ''navigation'' then ok_term (enc_ImuSpecTerm (encode_imu_spec (imu_spec_preset C Navigation)))
      else fusion_error (InvalidInput ''grade'' ''must be mems, tactical, or navigation''))"

definition fusion_strapdown_new ::
  "'o fusion_core \<Rightarrow> NavStateTerm \<Rightarrow> ImuModelTerm \<Rightarrow> MechanizationTerm \<Rightarrow> 'o fusion_resources \<Rightarrow> 'o fusion_result" where
  "fusion_strapdown_new C state model config =
     decoded fusion_inertial_decode_error (decode_nav_state_inertial (inertial C) state) (\<lambda>state.
     decoded fusion_error (decode_imu_model_term model) (\<lambda>model.
     decoded fusion_error (decode_mechanization config) (\<lambda>config.
     decoded fusion_inertial_error (and_then (mechanizer_new C state) (\<lambda>m. mechanizer_with_imu_model C m model)) (\<lambda>m s.
       (Inr (ok_term (Resource (length (mechanizers s)))),
        s\<lparr>mechanizers := mechanizers s @ [cell_new (mechanizer_with_config C m config)]\<rparr>)))))"

definition fusion_strapdown_state :: "'o fusion_core \<Rightarrow> nat \<Rightarrow> 'o fusion_resources \<Rightarrow> 'o fusion_result" where
  "fusion_strapdown_state C h =
     with_mechanizer h (\<lambda>m. Some (ok_term (encode_nav_state (mechanizer_state C m)), m))"

definition fusion_strapdown_propagate ::
  "'o fusion_core \<Rightarrow> nat \<Rightarrow> ImuSampleTerm \<Rightarrow> 'o fusion_resources \<Rightarrow> 'o fusion_result" where
  "fusion_strapdown_propagate C h sample =
     mechanizer_arg h (
     decoded fusion_error (decode_imu_sample (inertial C) sample) (\<lambda>sample.
     with_mechanizer h (\<lambda>m. replied fusion_inertial_error encode_nav_state (mechanizer_propagate C m sample))))"

definition fusion_imu_simulator_new ::
  "'o fusion_core \<Rightarrow> ImuSpecTerm \<Rightarrow> ImuSimulationOptionsTerm \<Rightarrow> 'o fusion_resources \<Rightarrow> 'o fusion_result" where
  "fusion_imu_simulator_new C spec options =
     decoded fusion_inertial_error (decode_imu_spec_inertial (inertial C) spec) (\<lambda>spec.
     decoded fusion_inertial_decode_error (decode_imu_simulation_options_inertial (inertial C) options) (\<lambda>options.
     decoded fusion_inertial_error (simulator_new C spec options) (\<lambda>m s.
       (Inr (ok_term (Resource (length (simulators s)))), s\<lparr>simulators := simulators s @ [cell_new m]\<rparr>))))"

definition fusion_imu_simulator_sample_increment ::
  "'o fusion_core \<Rightarrow> nat \<Rightarrow> CorrectedImuIncrementTerm \<Rightarrow> 'o fusion_resources \<Rightarrow> 'o fusion_result" where
  "fusion_imu_simulator_sample_increment C h truth =
     simulator_arg h (
     decoded fusion_error (decode_corrected_increment truth) (\<lambda>truth.
     with_simulator h (\<lambda>m. replied fusion_inertial_error (enc_ImuSampleTerm \<circ> encode_imu_sample)
       (simulator_sample_increment C m truth))))"

definition fusion_imu_simulator_bias :: "'o fusion_core \<Rightarrow> nat \<Rightarrow> 'o fusion_resources \<Rightarrow> 'o fusion_result" where
  "fusion_imu_simulator_bias C h =
     with_simulator h (\<lambda>m. Some (ok_term (enc_ImuBiasTerm (encode_imu_bias (simulator_bias C m))), m))"

definition fusion_imu_simulator_rate_random_walk :: "'o fusion_core \<Rightarrow> nat \<Rightarrow> 'o fusion_resources \<Rightarrow> 'o fusion_result" where
  "fusion_imu_simulator_rate_random_walk C h =
     with_simulator h (\<lambda>m. Some (ok_term (enc_ImuBiasTerm (encode_imu_bias (simulator_rate_random_walk C m))), m))"

definition fusion_true_imu_increment_between :: "'o fusion_core \<Rightarrow> NavStateTerm \<Rightarrow> NavStateTerm \<Rightarrow> nterm" where
  "fusion_true_imu_increment_between C start end' =
     (case decode_nav_state_inertial (inertial C) start of
        Inl error \<Rightarrow> fusion_inertial_decode_error error
      | Inr start \<Rightarrow>
          (case decode_nav_state_inertial (inertial C) end' of
             Inl error \<Rightarrow> fusion_inertial_decode_error error
           | Inr end' \<Rightarrow>
               (case true_imu_increment_between C start end' of
                  Inl error \<Rightarrow> fusion_inertial_error error
                | Inr increment \<Rightarrow> ok_term (enc_CorrectedImuIncrementTerm
                    \<lparr>ciit_t_j2000_s = inc_t_j2000_s increment,
                     ciit_delta_velocity_mps = to_vec (inc_delta_velocity_mps increment),
                     ciit_delta_theta_rad = to_vec (inc_delta_theta_rad increment),
                     ciit_dt_s = inc_dt_s increment\<rparr>))))"

definition simulated_sequence_reply ::
  "InertialError + ImuSample list \<times> ImuBias list \<times> ImuBias list \<Rightarrow> nterm" where
  "simulated_sequence_reply result =
     (case result of
        Inl error \<Rightarrow> fusion_inertial_error error
      | Inr (samples, bias_history, rate_random_walk_history) \<Rightarrow>
          ok_term (enc_SimulatedImuSequenceTerm
            \<lparr>sist_samples = map encode_imu_sample samples, sist_bias_history = map encode_imu_bias bias_history,
             sist_rate_random_walk_history = map encode_imu_bias rate_random_walk_history\<rparr>))"

definition fusion_simulate_imu_samples ::
  "'o fusion_core \<Rightarrow> NavStateTerm list \<Rightarrow> ImuSpecTerm \<Rightarrow> ImuSimulationOptionsTerm \<Rightarrow> nterm" where
  "fusion_simulate_imu_samples C trajectory spec options =
     (case collect_results (map (decode_nav_state_inertial (inertial C)) trajectory) of
        Inl error \<Rightarrow> fusion_inertial_decode_error error
      | Inr trajectory \<Rightarrow>
          (case decode_imu_spec_inertial (inertial C) spec of
             Inl error \<Rightarrow> fusion_inertial_error error
           | Inr spec \<Rightarrow>
               (case decode_imu_simulation_options_inertial (inertial C) options of
                  Inl error \<Rightarrow> fusion_inertial_decode_error error
                | Inr options \<Rightarrow> simulated_sequence_reply (simulate_imu_samples C trajectory spec options))))"

definition fusion_simulate_imu_samples_from_increments ::
  "'o fusion_core \<Rightarrow> CorrectedImuIncrementTerm list \<Rightarrow> ImuSpecTerm \<Rightarrow> ImuSimulationOptionsTerm \<Rightarrow> nterm" where
  "fusion_simulate_imu_samples_from_increments C increments spec options =
     (case collect_results (map decode_corrected_increment increments) of
        Inl error \<Rightarrow> fusion_error error
      | Inr increments \<Rightarrow>
          (case decode_imu_spec_inertial (inertial C) spec of
             Inl error \<Rightarrow> fusion_inertial_error error
           | Inr spec \<Rightarrow>
               (case decode_imu_simulation_options_inertial (inertial C) options of
                  Inl error \<Rightarrow> fusion_inertial_decode_error error
                | Inr options \<Rightarrow>
                    simulated_sequence_reply (simulate_imu_samples_from_increments C increments spec options))))"

section \<open>Calls\<close>

text \<open>The calls that work on resources.\<close>

datatype (plugins only: code) 'o fusion_call =
    New FilterStateTerm FilterConfigTerm
  | FromStateBytes "u8 list" FilterConfigTerm
  | State nat
  | Propagate nat ImuSampleTerm
  | PropagateRecorded nat ImuSampleTerm nat
  | UpdateLoose nat LooseMeasurementTerm
  | UpdateLooseRecorded nat LooseMeasurementTerm nat
  | UpdateStationary nat
  | UpdateStationaryRecorded nat nat
  | UpdateNonHolonomic nat
  | UpdateNonHolonomicRecorded nat nat
  | UpdateLooseTimeSync nat LooseMeasurementTerm
  | UpdateTightSp3 nat 'o TightEpochTerm
  | UpdateTightBroadcast nat 'o TightEpochTerm
  | UpdateTightRecordedSp3 nat 'o TightEpochTerm nat
  | UpdateTightRecordedBroadcast nat 'o TightEpochTerm nat
  | UpdateTightTimeSyncSp3 nat 'o TightEpochTerm
  | UpdateTightTimeSyncBroadcast nat 'o TightEpochTerm
  | ConfigureTimeSync nat TimeSyncConfigTerm
  | GetTimeSyncStatus nat
  | GetTightClockState nat
  | EncodeState nat
  | RestoreState nat "u8 list"
  | BuilderNew
  | BuilderFromFilter nat
  | BuilderFinish nat
  | HistoryEpochCount nat
  | HistoryEpochs nat
  | SmoothRts nat
  | TrajectoryEpochCount nat
  | TrajectoryEpochs nat
  | StrapdownNew NavStateTerm ImuModelTerm MechanizationTerm
  | StrapdownState nat
  | StrapdownPropagate nat ImuSampleTerm
  | SimulatorNew ImuSpecTerm ImuSimulationOptionsTerm
  | SimulatorSampleIncrement nat CorrectedImuIncrementTerm
  | SimulatorBias nat
  | SimulatorRateRandomWalk nat

primrec fusion_step :: "'o fusion_core \<Rightarrow> 'o fusion_call \<Rightarrow> 'o fusion_resources \<Rightarrow> 'o fusion_result" where
  "fusion_step C (New a b) = fusion_new C a b"
| "fusion_step C (FromStateBytes a b) = fusion_from_state_bytes C a b"
| "fusion_step C (State a) = fusion_state C a"
| "fusion_step C (Propagate a b) = fusion_propagate C a b"
| "fusion_step C (PropagateRecorded a b c) = fusion_propagate_recorded C a b c"
| "fusion_step C (UpdateLoose a b) = fusion_update_loose C a b"
| "fusion_step C (UpdateLooseRecorded a b c) = fusion_update_loose_recorded C a b c"
| "fusion_step C (UpdateStationary a) = fusion_update_stationary C a"
| "fusion_step C (UpdateStationaryRecorded a b) = fusion_update_stationary_recorded C a b"
| "fusion_step C (UpdateNonHolonomic a) = fusion_update_non_holonomic C a"
| "fusion_step C (UpdateNonHolonomicRecorded a b) = fusion_update_non_holonomic_recorded C a b"
| "fusion_step C (UpdateLooseTimeSync a b) = fusion_update_loose_time_sync C a b"
| "fusion_step C (UpdateTightSp3 a b c) = fusion_update_tight_sp3 C a b c"
| "fusion_step C (UpdateTightBroadcast a b c) = fusion_update_tight_broadcast C a b c"
| "fusion_step C (UpdateTightRecordedSp3 a b c d) = fusion_update_tight_recorded_sp3 C a b c d"
| "fusion_step C (UpdateTightRecordedBroadcast a b c d) = fusion_update_tight_recorded_broadcast C a b c d"
| "fusion_step C (UpdateTightTimeSyncSp3 a b c) = fusion_update_tight_time_sync_sp3 C a b c"
| "fusion_step C (UpdateTightTimeSyncBroadcast a b c) = fusion_update_tight_time_sync_broadcast C a b c"
| "fusion_step C (ConfigureTimeSync a b) = fusion_configure_time_sync C a b"
| "fusion_step C (GetTimeSyncStatus a) = fusion_time_sync_status C a"
| "fusion_step C (GetTightClockState a) = fusion_tight_clock_state C a"
| "fusion_step C (EncodeState a) = fusion_encode_state C a"
| "fusion_step C (RestoreState a b) = fusion_restore_state C a b"
| "fusion_step C (BuilderNew) = fusion_rts_history_builder_new C"
| "fusion_step C (BuilderFromFilter a) = fusion_rts_history_builder_from_filter C a"
| "fusion_step C (BuilderFinish a) = fusion_rts_history_builder_finish C a"
| "fusion_step C (HistoryEpochCount a) = fusion_rts_history_epoch_count C a"
| "fusion_step C (HistoryEpochs a) = fusion_rts_history_epochs C a"
| "fusion_step C (SmoothRts a) = fusion_smooth_rts C a"
| "fusion_step C (TrajectoryEpochCount a) = fusion_smoothed_trajectory_epoch_count C a"
| "fusion_step C (TrajectoryEpochs a) = fusion_smoothed_trajectory_epochs C a"
| "fusion_step C (StrapdownNew a b c) = fusion_strapdown_new C a b c"
| "fusion_step C (StrapdownState a) = fusion_strapdown_state C a"
| "fusion_step C (StrapdownPropagate a b) = fusion_strapdown_propagate C a b"
| "fusion_step C (SimulatorNew a b) = fusion_imu_simulator_new C a b"
| "fusion_step C (SimulatorSampleIncrement a b) = fusion_imu_simulator_sample_increment C a b"
| "fusion_step C (SimulatorBias a) = fusion_imu_simulator_bias C a"
| "fusion_step C (SimulatorRateRandomWalk a) = fusion_imu_simulator_rate_random_walk C a"

text \<open>The mutexes, and those that a call takes, in the order of its \<open>lock\<close> calls: none when a handle names no
  resource or an argument does not decode.\<close>

datatype fusion_lock = FilterLock nat | BuilderLock nat | MechanizerLock nat | SimulatorLock nat

primrec fusion_poisoned :: "fusion_lock \<Rightarrow> 'o fusion_resources \<Rightarrow> bool" where
  "fusion_poisoned (FilterLock h) s = poisoned_at (filters s) h"
| "fusion_poisoned (BuilderLock h) s = poisoned_at (builders s) h"
| "fusion_poisoned (MechanizerLock h) s = poisoned_at (mechanizers s) h"
| "fusion_poisoned (SimulatorLock h) s = poisoned_at (simulators s) h"

definition filter_plan :: "bool \<Rightarrow> nat \<Rightarrow> 'o fusion_resources \<Rightarrow> fusion_lock list" where
  "filter_plan args h s = (if args \<and> h < length (filters s) then [FilterLock h] else [])"

definition recorded_plan :: "bool \<Rightarrow> nat \<Rightarrow> nat \<Rightarrow> 'o fusion_resources \<Rightarrow> fusion_lock list" where
  "recorded_plan args h b s =
     (if args \<and> h < length (filters s) \<and> b < length (builders s) then [FilterLock h, BuilderLock b] else [])"

definition builder_plan :: "nat \<Rightarrow> 'o fusion_resources \<Rightarrow> fusion_lock list" where
  "builder_plan b s = (if b < length (builders s) then [BuilderLock b] else [])"

definition mechanizer_plan :: "bool \<Rightarrow> nat \<Rightarrow> 'o fusion_resources \<Rightarrow> fusion_lock list" where
  "mechanizer_plan args h s = (if args \<and> h < length (mechanizers s) then [MechanizerLock h] else [])"

definition simulator_plan :: "bool \<Rightarrow> nat \<Rightarrow> 'o fusion_resources \<Rightarrow> fusion_lock list" where
  "simulator_plan args h s = (if args \<and> h < length (simulators s) then [SimulatorLock h] else [])"

primrec lock_plan :: "'o fusion_core \<Rightarrow> 'o fusion_call \<Rightarrow> 'o fusion_resources \<Rightarrow> fusion_lock list" where
  "lock_plan C (New a b) = (\<lambda>s. [])"
| "lock_plan C (FromStateBytes a b) = (\<lambda>s. [])"
| "lock_plan C (State a) = filter_plan True a"
| "lock_plan C (Propagate a b) = filter_plan (\<not> isl (decode_imu_sample (inertial C) b)) a"
| "lock_plan C (PropagateRecorded a b c) = recorded_plan (\<not> isl (decode_imu_sample (inertial C) b)) a c"
| "lock_plan C (UpdateLoose a b) = filter_plan (\<not> isl (decode_loose_measurement (inertial C) b)) a"
| "lock_plan C (UpdateLooseRecorded a b c) = recorded_plan (\<not> isl (decode_loose_measurement (inertial C) b)) a c"
| "lock_plan C (UpdateStationary a) = filter_plan True a"
| "lock_plan C (UpdateStationaryRecorded a b) = recorded_plan True a b"
| "lock_plan C (UpdateNonHolonomic a) = filter_plan True a"
| "lock_plan C (UpdateNonHolonomicRecorded a b) = recorded_plan True a b"
| "lock_plan C (UpdateLooseTimeSync a b) = filter_plan (\<not> isl (decode_loose_measurement (inertial C) b)) a"
| "lock_plan C (UpdateTightSp3 a b c) = filter_plan (\<not> isl (decode_tight_epoch (inertial C) c)) a"
| "lock_plan C (UpdateTightBroadcast a b c) = filter_plan (\<not> isl (decode_tight_epoch (inertial C) c)) a"
| "lock_plan C (UpdateTightRecordedSp3 a b c d) = recorded_plan (\<not> isl (decode_tight_epoch (inertial C) c)) a d"
| "lock_plan C (UpdateTightRecordedBroadcast a b c d) = recorded_plan (\<not> isl (decode_tight_epoch (inertial C) c)) a d"
| "lock_plan C (UpdateTightTimeSyncSp3 a b c) = filter_plan (\<not> isl (decode_tight_epoch (inertial C) c)) a"
| "lock_plan C (UpdateTightTimeSyncBroadcast a b c) = filter_plan (\<not> isl (decode_tight_epoch (inertial C) c)) a"
| "lock_plan C (ConfigureTimeSync a b) = filter_plan True a"
| "lock_plan C (GetTimeSyncStatus a) = filter_plan True a"
| "lock_plan C (GetTightClockState a) = filter_plan True a"
| "lock_plan C (EncodeState a) = filter_plan True a"
| "lock_plan C (RestoreState a b) = filter_plan True a"
| "lock_plan C (BuilderNew) = (\<lambda>s. [])"
| "lock_plan C (BuilderFromFilter a) = filter_plan True a"
| "lock_plan C (BuilderFinish a) = builder_plan a"
| "lock_plan C (HistoryEpochCount a) = (\<lambda>s. [])"
| "lock_plan C (HistoryEpochs a) = (\<lambda>s. [])"
| "lock_plan C (SmoothRts a) = (\<lambda>s. [])"
| "lock_plan C (TrajectoryEpochCount a) = (\<lambda>s. [])"
| "lock_plan C (TrajectoryEpochs a) = (\<lambda>s. [])"
| "lock_plan C (StrapdownNew a b c) = (\<lambda>s. [])"
| "lock_plan C (StrapdownState a) = mechanizer_plan True a"
| "lock_plan C (StrapdownPropagate a b) = mechanizer_plan (\<not> isl (decode_imu_sample (inertial C) b)) a"
| "lock_plan C (SimulatorNew a b) = (\<lambda>s. [])"
| "lock_plan C (SimulatorSampleIncrement a b) = simulator_plan (\<not> isl (decode_corrected_increment b)) a"
| "lock_plan C (SimulatorBias a) = simulator_plan True a"
| "lock_plan C (SimulatorRateRandomWalk a) = simulator_plan True a"

end
