(* ===== verification/Fusion_Props.thy ===== *)
theory Fusion_Props
  imports FusionNifs
begin

text \<open>
  What the fusion calls guarantee: which mutexes a call takes and what it may change (\<open>obeys\<close>, proved once for
  every call), that concurrent calls never block each other forever and act as if they ran one after the other
  (\<open>ordered_locks\<close> on \<open>fusion_step\<close>), what a panic leaves behind, and the codecs of the state snapshot and the
  sensor samples.
\<close>

section \<open>What a call may touch\<close>

definition extends :: "fusion_lock list \<Rightarrow> 'o fusion_resources \<Rightarrow> 'o fusion_resources \<Rightarrow> bool" where
  "extends plan s s' \<longleftrightarrow>
     table_kept (\<lambda>h. FilterLock h \<in> set plan) (filters s) (filters s') \<and>
     table_kept (\<lambda>h. BuilderLock h \<in> set plan) (builders s) (builders s') \<and>
     table_kept (\<lambda>h. MechanizerLock h \<in> set plan) (mechanizers s) (mechanizers s') \<and>
     table_kept (\<lambda>h. SimulatorLock h \<in> set plan) (simulators s) (simulators s') \<and>
     table_kept (\<lambda>h. False) (histories s) (histories s') \<and>
     table_kept (\<lambda>h. False) (trajectories s) (trajectories s')"

definition obeys :: "fusion_lock list \<Rightarrow> 'o fusion_resources \<Rightarrow> 'o fusion_result \<Rightarrow> bool" where
  "obeys plan s r \<longleftrightarrow>
     extends plan s (snd r) \<and>
     (\<forall>l \<in> set plan. fst r = Inl Panic \<longrightarrow> fusion_poisoned l (snd r)) \<and>
     (\<forall>l \<in> set plan. fusion_poisoned l s \<longrightarrow> r = (Inr poisoned_term, s))"

named_theorems obedience \<comment> \<open>the shapes of the calls, for \<open>obeys\<close>\<close>

lemma extends_poison: "extends plan s s' \<Longrightarrow> l \<notin> set plan \<Longrightarrow> fusion_poisoned l s \<Longrightarrow> fusion_poisoned l s'"
  by (cases l) (auto simp: extends_def elim: table_kept_poison)

lemma extends_same [obedience]: "extends plan s s"
  by (simp add: extends_def)

lemma extends_created [obedience]:
  "extends plan s (s\<lparr>filters := filters s @ [c]\<rparr>)" "extends plan s (s\<lparr>builders := builders s @ [c]\<rparr>)"
  "extends plan s (s\<lparr>mechanizers := mechanizers s @ [c]\<rparr>)" "extends plan s (s\<lparr>simulators := simulators s @ [c]\<rparr>)"
  "extends plan s (s\<lparr>histories := histories s @ [x]\<rparr>)" "extends plan s (s\<lparr>trajectories := trajectories s @ [x]\<rparr>)"
  by (simp_all add: extends_def)

lemma extends_decoded [obedience]:
  "(\<And>a. extends plan s (snd (k a s))) \<Longrightarrow> extends plan s (snd (decoded err r k s))"
  by (cases r) (simp_all add: decoded_def extends_same)

lemma extends_with_resource [obedience]:
  "(\<And>c. extends plan s (snd (k c))) \<Longrightarrow> extends plan s (snd (with_resource h rs k s))"
  by (simp add: with_resource_def extends_same)

lemma obeys_nothing [obedience]: "extends [] s (snd r) \<Longrightarrow> obeys [] s r"
  by (simp add: obeys_def)

lemmas plan_defs = filter_plan_def recorded_plan_def builder_plan_def mechanizer_plan_def simulator_plan_def

lemmas section_defs = with_filter_def with_mechanizer_def with_simulator_def with_recorded_def with_resource_def
  cell_section_def

lemma obeys_with_filter [obedience]: "obeys (filter_plan True h s) s (with_filter h f s)"
  by (auto simp: obeys_def extends_def plan_defs section_defs poisoned_at_def split: option.splits)

lemma obeys_with_mechanizer [obedience]: "obeys (mechanizer_plan True h s) s (with_mechanizer h f s)"
  by (auto simp: obeys_def extends_def plan_defs section_defs poisoned_at_def split: option.splits)

lemma obeys_with_simulator [obedience]: "obeys (simulator_plan True h s) s (with_simulator h f s)"
  by (auto simp: obeys_def extends_def plan_defs section_defs poisoned_at_def split: option.splits)

lemma obeys_with_recorded [obedience]: "obeys (recorded_plan True h b s) s (with_recorded h b f s)"
  by (auto simp: obeys_def extends_def plan_defs section_defs poisoned_at_def split: option.splits)

lemma obeys_filter_arg [obedience]:
  "obeys (filter_plan (\<not> isl r) h s) s (filter_arg h (decoded err r (\<lambda>a. with_filter h (f a))) s)"
  using obeys_with_filter [of h s "f (projr r)"]
  by (cases r) (auto simp: filter_arg_def with_resource_def decoded_def plan_defs extends_same obeys_nothing)

lemma obeys_mechanizer_arg [obedience]:
  "obeys (mechanizer_plan (\<not> isl r) h s) s (mechanizer_arg h (decoded err r (\<lambda>a. with_mechanizer h (f a))) s)"
  using obeys_with_mechanizer [of h s "f (projr r)"]
  by (cases r) (auto simp: mechanizer_arg_def with_resource_def decoded_def plan_defs extends_same obeys_nothing)

lemma obeys_simulator_arg [obedience]:
  "obeys (simulator_plan (\<not> isl r) h s) s (simulator_arg h (decoded err r (\<lambda>a. with_simulator h (f a))) s)"
  using obeys_with_simulator [of h s "f (projr r)"]
  by (cases r) (auto simp: simulator_arg_def with_resource_def decoded_def plan_defs extends_same obeys_nothing)

lemma obeys_recorded_arg [obedience]:
  "obeys (recorded_plan (\<not> isl r) h b s) s
     (filter_arg h (builder_arg b (decoded err r (\<lambda>a. with_recorded h b (f a)))) s)"
  using obeys_with_recorded [of h b s "f (projr r)"]
  by (cases r)
    (auto simp: filter_arg_def builder_arg_def with_resource_def decoded_def plan_defs extends_same obeys_nothing)

lemma obeys_from_filter [obedience]:
  "obeys (filter_plan True h s) s (fusion_rts_history_builder_from_filter C h s)"
  by (auto simp: obeys_def extends_def plan_defs fusion_rts_history_builder_from_filter_def with_resource_def
      decoded_def poisoned_at_def split: sum.splits)

lemma obeys_finish [obedience]: "obeys (builder_plan b s) s (fusion_rts_history_builder_finish C b s)"
  by (auto simp: obeys_def extends_def plan_defs fusion_rts_history_builder_finish_def with_resource_def
      decoded_def poisoned_at_def split: sum.splits)

lemmas filter_call_defs =
  fusion_state_def fusion_propagate_def fusion_propagate_recorded_def fusion_update_loose_def
  fusion_update_loose_recorded_def fusion_update_stationary_def fusion_update_stationary_recorded_def
  fusion_update_non_holonomic_def fusion_update_non_holonomic_recorded_def fusion_update_loose_time_sync_def
  fusion_update_tight_sp3_def fusion_update_tight_broadcast_def fusion_update_tight_recorded_sp3_def
  fusion_update_tight_recorded_broadcast_def fusion_update_tight_time_sync_sp3_def
  fusion_update_tight_time_sync_broadcast_def fusion_configure_time_sync_def fusion_time_sync_status_def
  fusion_tight_clock_state_def fusion_encode_state_def fusion_restore_state_def fusion_strapdown_state_def
  fusion_strapdown_propagate_def fusion_imu_simulator_sample_increment_def fusion_imu_simulator_bias_def
  fusion_imu_simulator_rate_random_walk_def

lemma extends_new [obedience]: "extends plan s (snd (fusion_new C state config s))"
  unfolding fusion_new_def by (intro obedience | simp)+

lemma extends_from_state_bytes [obedience]: "extends plan s (snd (fusion_from_state_bytes C bytes config s))"
  unfolding fusion_from_state_bytes_def
  by (intro obedience) (auto split: option.splits sum.splits intro: obedience)

lemma extends_creating_calls [obedience]:
  "extends plan s (snd (fusion_strapdown_new C state model mech s))"
  "extends plan s (snd (fusion_imu_simulator_new C spec options s))"
  "extends plan s (snd (fusion_rts_history_builder_new C s))"
  "extends plan s (snd (fusion_smooth_rts C h s))"
  unfolding fusion_strapdown_new_def fusion_imu_simulator_new_def fusion_rts_history_builder_new_def
    fusion_smooth_rts_def
  by (intro obedience | simp)+

lemma extends_reading_calls [obedience]:
  "extends plan s (snd (fusion_rts_history_epoch_count C h s))"
  "extends plan s (snd (fusion_rts_history_epochs C h s))"
  "extends plan s (snd (fusion_smoothed_trajectory_epoch_count C h s))"
  "extends plan s (snd (fusion_smoothed_trajectory_epochs C h s))"
  unfolding fusion_rts_history_epoch_count_def fusion_rts_history_epochs_def
    fusion_smoothed_trajectory_epoch_count_def fusion_smoothed_trajectory_epochs_def
  by (intro obedience | simp)+

lemma fusion_step_obeys: "obeys (lock_plan C c s) s (fusion_step C c s)"
  by (cases c; simp only: fusion_step.simps lock_plan.simps filter_call_defs; intro obedience)

section \<open>Locks\<close>

primrec fusion_rank :: "fusion_lock \<Rightarrow> nat" where
  "fusion_rank (FilterLock h) = 0"
| "fusion_rank (BuilderLock h) = 1"
| "fusion_rank (MechanizerLock h) = 0"
| "fusion_rank (SimulatorLock h) = 0"

lemma lock_plan_kept:
  assumes "extends p s s'" "lock_plan C c s \<noteq> []"
  shows "lock_plan C c s' = lock_plan C c s"
  using assms by (cases c) (auto simp: plan_defs extends_def table_kept_def split: if_splits)

lemma lock_plan_shape:
  "sorted_wrt (\<lambda>l k. fusion_rank l < fusion_rank k) (lock_plan C c s) \<and> length (lock_plan C c s) \<le> 2"
  by (cases c) (simp_all add: plan_defs)

interpretation fl: ordered_locks "fusion_step C" fusion_poisoned "lock_plan C" "Inl Panic"
  "\<lambda>_. Inr poisoned_term" fusion_rank 2 for C
proof (unfold_locales, goal_cases)
  case (1 h c s)
  then show ?case using fusion_step_obeys [of C c s] by (simp add: obeys_def)
next
  case (2 h s c)
  then show ?case using fusion_step_obeys [of C c s] extends_poison [of "lock_plan C c s" s "snd (fusion_step C c s)" h]
    by (cases "h \<in> set (lock_plan C c s)") (auto simp: obeys_def)
next
  case (3 h s c)
  then show ?case using fusion_step_obeys [of C c s] by (auto simp: obeys_def)
next
  case (4 c s)
  then show ?case by (simp add: lock_plan_shape)
next
  case (5 c s)
  then show ?case by (simp add: lock_plan_shape)
next
  case (6 c s d)
  have "extends (lock_plan C d s) s (snd (fusion_step C d s))" using fusion_step_obeys [of C d s] by (simp add: obeys_def)
  then show ?case using 6 by (rule lock_plan_kept)
qed

abbreviation fusion_interleave where
  "fusion_interleave C \<equiv> interleave (fusion_step C) (lock_plan C) fusion_poisoned (\<lambda>_. Inr poisoned_term)"

section \<open>A core for the witnesses\<close>

text \<open>Values are counters; a recorded stationary update panics, the other updates count.\<close>

definition bench_nav :: NavState where
  "bench_nav = \<lparr>nav_t_j2000_s = 0, nav_position_ecef_m = (0, 0, 0), nav_velocity_ecef_mps = (0, 0, 0),
     nav_attitude_body_to_ecef = ((0, 0, 0), (0, 0, 0), (0, 0, 0)), nav_accel_bias_mps2 = (0, 0, 0),
     nav_gyro_bias_rps = (0, 0, 0)\<rparr>"

definition bench_state :: InsFilterState where
  "bench_state = \<lparr>ins_nominal = bench_nav, ins_layout = Fifteen, ins_error_state = [], ins_covariance = [],
     ins_accel_scale_factor = (0, 0, 0), ins_gyro_scale_factor = (0, 0, 0)\<rparr>"

definition bench_spec :: ImuSpec where
  "bench_spec = \<lparr>spec_accel_vrw_mps_sqrt_s = 0, spec_gyro_arw_rad_sqrt_s = 0, spec_accel_bias_instab_mps2 = 0,
     spec_gyro_bias_instab_rps = 0, spec_accel_bias_tau_s = 0, spec_gyro_bias_tau_s = 0,
     spec_accel_scale_instab_ppm = None, spec_gyro_scale_instab_ppm = None\<rparr>"

definition bench_bias :: ImuBias where
  "bench_bias = \<lparr>bias_accel_mps2 = (0, 0, 0), bias_gyro_rps = (0, 0, 0)\<rparr>"

definition bench_inertial :: "nat inertial_core" where
  "bench_inertial = inertial_core
     (nav_core (\<lambda>_. NominalState) (\<lambda>_ _ _ _. Inr bench_nav) (\<lambda>n _ _. Inr n) (\<lambda>_ _ _. Inr bench_state)
       (\<lambda>_ _ _. Inr bench_state) (\<lambda>_. Inr ()))
     (imu_core (\<lambda>_ _ _ _ _ _ _ _. bench_spec) (\<lambda>_. Inr ()) (\<lambda>_. Inr ()) (\<lambda>_. Inr ())
       (\<lambda>t f w. \<lparr>sample_t_j2000_s = t, sample_kind = Rate f w\<rparr>)
       (\<lambda>t v a d. \<lparr>sample_t_j2000_s = t, sample_kind = Increment v a d\<rparr>) 0 (\<lambda>_. Inr ()) (\<lambda>_. Inr 0))
     (measurement_core (\<lambda>_. Inr ()) (\<lambda>_. Inr ()) (\<lambda>_ _ _. Inl NominalState) (\<lambda>_. None) (\<lambda>_. Inr ()) (\<lambda>_ _. Inr 0))"

definition bench_status :: TimeSyncHistoryStatus where
  "bench_status = \<lparr>tss_imu_capacity = 0, tss_imu_len = 0, tss_checkpoint_capacity = 0, tss_checkpoint_len = 0,
     tss_oldest_imu_epoch_j2000_s = None, tss_newest_imu_epoch_j2000_s = None,
     tss_oldest_checkpoint_epoch_j2000_s = None, tss_newest_checkpoint_epoch_j2000_s = None\<rparr>"

definition bench_core :: "nat fusion_core" where
  "bench_core = fusion_core
     (setup_core bench_inertial (\<lambda>_. bench_spec) (\<lambda>_ _. Inr 0) (\<lambda>_. Inr bench_state) (\<lambda>f _. Some (Inr (), f)) (\<lambda>_. bench_state))
     (update_core (\<lambda>f _. Some (Inr bench_state, Suc f)) (\<lambda>f _ b. Some (Inr bench_state, Suc f, Suc b))
       (\<lambda>f _. Some (Inl SingularInnovation, f)) (\<lambda>f _ b. Some (Inl SingularInnovation, f, b))
       (\<lambda>f. Some (Inr None, Suc f)) (\<lambda>f b. None) (\<lambda>f. Some (Inr None, Suc f)) (\<lambda>f b. Some (Inr None, Suc f, Suc b)))
     (sync_core (\<lambda>f _. Some (Inl NominalState, f)) (\<lambda>f _ _. Some (Inl NominalState, f))
       (\<lambda>f _ _ b. Some (Inl NominalState, f, b)) (\<lambda>f _ _. Some (Inl NominalState, f)) (\<lambda>f _. Some (Inr (), f))
       (\<lambda>_. bench_status) (\<lambda>_. Inl NominalState) (\<lambda>_. Inl []) (\<lambda>_. Inl []))
     (history_core 0 (\<lambda>f. Inr f) (\<lambda>b. Inr b) (\<lambda>_. []) (\<lambda>h. Inr h) (\<lambda>_. []) (\<lambda>_ _ _. Inl NominalState))
     (mechanizer_core (\<lambda>_. Inr 0) (\<lambda>m _. Inr m) (\<lambda>m _. m) (\<lambda>_. bench_nav) (\<lambda>m _. Some (Inr bench_nav, Suc m)))
     (simulator_core (\<lambda>_ _. Inr 0) (\<lambda>m _. Some (Inl NonMonotonicSample, m)) (\<lambda>_. bench_bias) (\<lambda>_. bench_bias)
       (\<lambda>_ _. Inl NonMonotonicSample) (\<lambda>_ _ _. Inr ([], [], [])) (\<lambda>_ _ _. Inr ([], [], [])))"

definition bench_resources :: "nat fusion_resources" where
  "bench_resources = \<lparr>filters = [cell_new 0], mechanizers = [], simulators = [], builders = [cell_new 0],
     histories = [], trajectories = []\<rparr>"

lemma bench_plans [simp]:
  "lock_plan bench_core (UpdateStationaryRecorded 0 0) bench_resources = [FilterLock 0, BuilderLock 0]"
  "lock_plan bench_core (BuilderFinish 0) bench_resources = [BuilderLock 0]"
  by (simp_all add: recorded_plan_def builder_plan_def bench_resources_def)

section \<open>Properties\<close>

text \<open>C16. Concurrent fusion calls cannot deadlock or starve: however the calls of any number of processes
  interleave, no mutex is held twice, at most three steps per call happen in all, and as long as some call has
  no reply, some call can go on. So every schedule ends, with a reply for every call.\<close>

theorem fusion_calls_all_reply:
  assumes "(fusion_interleave C ^^ k) (all_calling cs s) cfg"
  shows "k \<le> 3 * length cs \<and> exclusive (lock_plan C) cfg \<and>
    (all_replied cfg \<or> (\<exists>cfg'. fusion_interleave C cfg cfg'))"
  using fl.every_schedule_replies [OF assms] by simp

abbreviation bench_calls :: "nat fusion_call list" where
  "bench_calls \<equiv> [UpdateStationaryRecorded 0 0, BuilderFinish 0]"

abbreviation bench_config :: "(nat fusion_call, nif_reply, nat fusion_resources) configuration" where
  "bench_config \<equiv> ([Calling (UpdateStationaryRecorded 0 0) 1, Calling (BuilderFinish 0) 0], bench_resources)"

text \<open>A recorded call has the filter, the builder is still free.\<close>

lemma bench_run:
  "(fusion_interleave bench_core ^^ 1) (all_calling bench_calls bench_resources)
     bench_config"
proof -
  let ?ps = "[Calling (UpdateStationaryRecorded 0 0) 0, Calling (BuilderFinish 0) 0]"
  have "lock_free (lock_plan bench_core) (?ps, bench_resources) (FilterLock 0)"
    "\<not> fusion_poisoned (FilterLock 0) bench_resources"
    by (simp_all add: lock_free_def bench_resources_def poisoned_at_def)
  then have "fusion_interleave bench_core (?ps, bench_resources)
      (?ps[0 := Calling (UpdateStationaryRecorded 0 0) (Suc 0)], bench_resources)"
    by (intro interleave.acquire) (simp_all del: lock_plan.simps)
  then show ?thesis by (simp add: all_calling_def eq_OO del: lock_plan.simps)
qed

theorem fusion_calls_all_reply_witness:
  "all_replied bench_config \<or>
   (\<exists>cfg'. fusion_interleave bench_core
      bench_config cfg')"
  using fusion_calls_all_reply [OF bench_run] by blast




text \<open>C19. A panic of the core inside a recorded call poisons both the filter and the history builder: after
  any further calls, every call that takes either mutex is refused with \<open>poisoned_resource\<close> and changes
  nothing.\<close>

theorem fusion_panic_poisons_both:
  assumes "lock_plan C c s = [FilterLock h, BuilderLock b]" "fst (fusion_step C c s) = Inl Panic"
    "s' = run_calls (fusion_step C) cs (snd (fusion_step C c s))"
    "FilterLock h \<in> set (lock_plan C d s') \<or> BuilderLock b \<in> set (lock_plan C d s')"
  shows "fusion_step C d s' = (Inr poisoned_term, s')"
  using assms fl.refused_after_panic [of "FilterLock h" C c s d s' cs] fl.refused_after_panic [of "BuilderLock b" C c s d s' cs]
  by auto

lemma bench_panics:
  "fusion_step bench_core (UpdateStationaryRecorded 0 0) bench_resources = (Inl Panic, bench_resources
     \<lparr>filters := [cell_poison (cell_new 0)], builders := [cell_poison (cell_new 0)]\<rparr>)"
  by (simp add: fusion_update_stationary_recorded_def section_defs bench_resources_def bench_core_def replied_def)

theorem fusion_panic_poisons_both_witness:
  "fusion_step bench_core (BuilderFinish 0) (snd (fusion_step bench_core (UpdateStationaryRecorded 0 0) bench_resources)) =
     (Inr poisoned_term, snd (fusion_step bench_core (UpdateStationaryRecorded 0 0) bench_resources))"
  by (rule fusion_panic_poisons_both [where cs = "[]" and h = 0 and b = 0 and c = "UpdateStationaryRecorded 0 0"
        and s = bench_resources, OF bench_plans(1)])
    (simp_all add: bench_panics builder_plan_def del: fusion_step.simps)

section \<open>Codecs\<close>

text \<open>The last checkpoint of every run of equal epochs.\<close>

fun last_of_runs :: "'o StoredCheckpoint list \<Rightarrow> 'o StoredCheckpoint list" where
  "last_of_runs [] = []"
| "last_of_runs [c] = [c]"
| "last_of_runs (c # d # cs) =
     (if cp_t_bits c = cp_t_bits d then last_of_runs (d # cs) else c # last_of_runs (d # cs))"

lemma dedupe_loop_runs: "dedupe_loop (done @ [c]) cs = done @ last_of_runs (c # cs)"
  by (induction cs arbitrary: "done" c) (simp_all, metis append.assoc append_Cons append_Nil)

lemma dedupe_runs: "dedupe_same_epoch_checkpoints cs = last_of_runs cs"
  using dedupe_loop_runs [of "[]"] by (cases cs) (simp_all add: dedupe_same_epoch_checkpoints_def)

lemma last_of_runs_epochs: "map cp_t_bits (last_of_runs cs) = remdups_adj (map cp_t_bits cs)"
  by (induction cs rule: last_of_runs.induct) simp_all

lemma last_of_runs_fixed: "distinct_adj (map cp_t_bits cs) \<Longrightarrow> last_of_runs cs = cs"
  by (induction cs rule: last_of_runs.induct) (simp_all add: distinct_adj_Cons)

text \<open>C20. Before a snapshot is encoded, the checkpoints are reduced to the last one of every run of equal
  epochs; the epochs left are those of the runs, in order, no two neighbours are equal, and a second pass
  changes nothing.\<close>

theorem dedupe_keeps_last_of_each_run:
  "dedupe_same_epoch_checkpoints cs = last_of_runs cs \<and>
   map cp_t_bits (dedupe_same_epoch_checkpoints cs) = remdups_adj (map cp_t_bits cs) \<and>
   distinct_adj (map cp_t_bits (dedupe_same_epoch_checkpoints cs)) \<and>
   dedupe_same_epoch_checkpoints (dedupe_same_epoch_checkpoints cs) = dedupe_same_epoch_checkpoints cs"
  by (simp add: dedupe_runs last_of_runs_epochs last_of_runs_fixed distinct_adj_remdups_adj)

text \<open>C21. An IMU sample that the library hands out, handed back in, is the same sample: both kinds survive
  \<open>encode_imu_sample\<close> and \<open>decode_imu_sample\<close>, given that the core's constructors store their arguments.\<close>

theorem imu_sample_roundtrip:
  assumes "\<And>t f w. imu_sample_rate C t f w = \<lparr>sample_t_j2000_s = t, sample_kind = Rate f w\<rparr>"
    "\<And>t v a d. imu_sample_increment C t v a d = \<lparr>sample_t_j2000_s = t, sample_kind = Increment v a d\<rparr>"
  shows "decode_imu_sample C (encode_imu_sample sample) = Inr sample"
proof (cases "sample_kind sample")
  case (Rate f w)
  then show ?thesis by (cases f; cases w)
    (simp add: decode_imu_sample_def encode_imu_sample_def assms vec3_def and_then_def)
next
  case (Increment v a d)
  then show ?thesis by (cases v; cases a)
    (simp add: decode_imu_sample_def encode_imu_sample_def assms vec3_def and_then_def)
qed

theorem imu_sample_roundtrip_witness:
  "decode_imu_sample bench_inertial
     (encode_imu_sample \<lparr>sample_t_j2000_s = 7, sample_kind = Increment (1, 2, 3) (4, 5, 6) 8\<rparr>) =
   Inr \<lparr>sample_t_j2000_s = 7, sample_kind = Increment (1, 2, 3) (4, 5, 6) 8\<rparr>"
  by (rule imu_sample_roundtrip) (simp_all add: bench_inertial_def)

end
