(* ===== verification/Tdm.thy ===== *)
theory Tdm
  imports Resources
begin

text \<open>
  \<open>native/sidereon_nif/src/tdm.rs\<close>: tracking data messages. The boundary structures are the records named
  \<open>\<dots>Term\<close>; the core's structures have the same fields under their own names. Reading, writing and deriving are
  the core's and are \<open>tdm_core\<close>. Names that clash with keywords or other modules have the prefix \<open>tdm_\<close>.
\<close>

section \<open>Boundary structures\<close>

record TdmFieldTerm =
  tft_key :: string
  tft_value :: string

record TdmCommentTerm =
  tct_text :: string
  tct_before_record :: u64

record TdmObservableTerm =
  tot_kind :: string
  tot_participant :: "u8 option"
  tot_name :: "string option"

record TdmScalarTerm =
  tst_text :: string
  tst_value :: f64

record TdmDataRecordTerm =
  trt_observable :: TdmObservableTerm
  trt_keyword :: string
  trt_epoch :: string
  trt_value :: TdmScalarTerm
  trt_unit :: string

record TdmDataSectionTerm =
  tdt_comments :: "TdmCommentTerm list"
  tdt_records :: "TdmDataRecordTerm list"

record TdmParticipantTerm =
  tpt_index :: u8
  tpt_name :: string

record TdmPathTerm =
  tht_key :: string
  tht_index :: "u8 option"
  tht_participants :: "u8 list"

record TdmMetadataTerm =
  tmt_comments :: "TdmCommentTerm list"
  tmt_fields :: "TdmFieldTerm list"
  tmt_participants :: "TdmParticipantTerm list"
  tmt_mode :: "string option"
  tmt_paths :: "TdmPathTerm list"
  tmt_timetag_ref :: "string option"
  tmt_time_system :: "string option"
  tmt_range_units :: string

record TdmSegmentTerm =
  tsg_metadata :: TdmMetadataTerm
  tsg_data :: TdmDataSectionTerm

record TdmTerm =
  tmg_version :: string
  tmg_comments :: "TdmCommentTerm list"
  tmg_creation_date :: "string option"
  tmg_originator :: "string option"
  tmg_message_id :: "string option"
  tmg_header_fields :: "TdmFieldTerm list"
  tmg_segments :: "TdmSegmentTerm list"

record TdmPolicyTerm =
  tpo_non_printable :: string
  tpo_missing_keywords :: string
  tpo_long_lines :: string
  tpo_empty_data_sections :: string
  tpo_record_order :: string
  tpo_duplicate_records :: string
  tpo_keyword_order :: string
  tpo_final_terminator :: string

record TdmWritePolicyTerm =
  twp_non_printable :: string
  twp_missing_keywords :: string
  twp_long_lines :: string
  twp_empty_data_sections :: string
  twp_record_order :: string
  twp_duplicate_records :: string
  twp_keyword_order :: string
  twp_final_terminator :: string
  twp_repeated_keywords :: string

record TdmWarningTerm =
  twt_tag :: string
  twt_line :: "u64 option"
  twt_keyword :: "string option"
  twt_column :: "u64 option"
  twt_character :: "string option"
  twt_length :: "u64 option"
  twt_section :: "nterm option"
  twt_segment :: "u64 option"
  twt_epoch :: "string option"
  twt_message :: string

record TdmDepartureTerm =
  tde_tag :: string
  tde_keyword :: "string option"
  tde_character :: "string option"
  tde_length :: "u64 option"
  tde_segment :: "u64 option"
  tde_epoch :: "string option"
  tde_section :: "nterm option"
  tde_message :: string

text \<open>The maps that leave.\<close>

definition enc_TdmFieldTerm :: "TdmFieldTerm \<Rightarrow> nterm" where
  "enc_TdmFieldTerm x = nif_map
     [(''key'', Utf8 (tft_key x)), (''value'', Utf8 (tft_value x))]"

definition enc_TdmCommentTerm :: "TdmCommentTerm \<Rightarrow> nterm" where
  "enc_TdmCommentTerm x = nif_map
     [(''text'', Utf8 (tct_text x)), (''before_record'', enc_u64 (tct_before_record x))]"

definition enc_TdmObservableTerm :: "TdmObservableTerm \<Rightarrow> nterm" where
  "enc_TdmObservableTerm x = nif_map
     [(''kind'', Utf8 (tot_kind x)), (''participant'', enc_option enc_u8 (tot_participant x)),
      (''name'', enc_option Utf8 (tot_name x))]"

definition enc_TdmScalarTerm :: "TdmScalarTerm \<Rightarrow> nterm" where
  "enc_TdmScalarTerm x = nif_map
     [(''text'', Utf8 (tst_text x)), (''value'', Float (tst_value x))]"

definition enc_TdmDataRecordTerm :: "TdmDataRecordTerm \<Rightarrow> nterm" where
  "enc_TdmDataRecordTerm x = nif_map
     [(''observable'', enc_TdmObservableTerm (trt_observable x)), (''keyword'', Utf8 (trt_keyword x)),
      (''epoch'', Utf8 (trt_epoch x)), (''value'', enc_TdmScalarTerm (trt_value x)),
      (''unit'', Utf8 (trt_unit x))]"

definition enc_TdmDataSectionTerm :: "TdmDataSectionTerm \<Rightarrow> nterm" where
  "enc_TdmDataSectionTerm x = nif_map
     [(''comments'', enc_list enc_TdmCommentTerm (tdt_comments x)),
      (''records'', enc_list enc_TdmDataRecordTerm (tdt_records x))]"

definition enc_TdmParticipantTerm :: "TdmParticipantTerm \<Rightarrow> nterm" where
  "enc_TdmParticipantTerm x = nif_map
     [(''index'', enc_u8 (tpt_index x)), (''name'', Utf8 (tpt_name x))]"

definition enc_TdmPathTerm :: "TdmPathTerm \<Rightarrow> nterm" where
  "enc_TdmPathTerm x = nif_map
     [(''key'', Utf8 (tht_key x)), (''index'', enc_option enc_u8 (tht_index x)),
      (''participants'', enc_list enc_u8 (tht_participants x))]"

definition enc_TdmMetadataTerm :: "TdmMetadataTerm \<Rightarrow> nterm" where
  "enc_TdmMetadataTerm x = nif_map
     [(''comments'', enc_list enc_TdmCommentTerm (tmt_comments x)),
      (''fields'', enc_list enc_TdmFieldTerm (tmt_fields x)),
      (''participants'', enc_list enc_TdmParticipantTerm (tmt_participants x)),
      (''mode'', enc_option Utf8 (tmt_mode x)), (''paths'', enc_list enc_TdmPathTerm (tmt_paths x)),
      (''timetag_ref'', enc_option Utf8 (tmt_timetag_ref x)),
      (''time_system'', enc_option Utf8 (tmt_time_system x)), (''range_units'', Utf8 (tmt_range_units x))]"

definition enc_TdmSegmentTerm :: "TdmSegmentTerm \<Rightarrow> nterm" where
  "enc_TdmSegmentTerm x = nif_map
     [(''metadata'', enc_TdmMetadataTerm (tsg_metadata x)), (''data'', enc_TdmDataSectionTerm (tsg_data x))]"

definition enc_TdmTerm :: "TdmTerm \<Rightarrow> nterm" where
  "enc_TdmTerm x = nif_map
     [(''version'', Utf8 (tmg_version x)), (''comments'', enc_list enc_TdmCommentTerm (tmg_comments x)),
      (''creation_date'', enc_option Utf8 (tmg_creation_date x)),
      (''originator'', enc_option Utf8 (tmg_originator x)),
      (''message_id'', enc_option Utf8 (tmg_message_id x)),
      (''header_fields'', enc_list enc_TdmFieldTerm (tmg_header_fields x)),
      (''segments'', enc_list enc_TdmSegmentTerm (tmg_segments x))]"

definition enc_TdmWarningTerm :: "TdmWarningTerm \<Rightarrow> nterm" where
  "enc_TdmWarningTerm x = nif_map
     [(''tag'', Atom (twt_tag x)), (''line'', enc_option enc_u64 (twt_line x)),
      (''keyword'', enc_option Utf8 (twt_keyword x)), (''column'', enc_option enc_u64 (twt_column x)),
      (''character'', enc_option Utf8 (twt_character x)), (''length'', enc_option enc_u64 (twt_length x)),
      (''section'', enc_option id (twt_section x)), (''segment'', enc_option enc_u64 (twt_segment x)),
      (''epoch'', enc_option Utf8 (twt_epoch x)), (''message'', Utf8 (twt_message x))]"

definition enc_TdmDepartureTerm :: "TdmDepartureTerm \<Rightarrow> nterm" where
  "enc_TdmDepartureTerm x = nif_map
     [(''tag'', Atom (tde_tag x)), (''keyword'', enc_option Utf8 (tde_keyword x)),
      (''character'', enc_option Utf8 (tde_character x)), (''length'', enc_option enc_u64 (tde_length x)),
      (''segment'', enc_option enc_u64 (tde_segment x)), (''epoch'', enc_option Utf8 (tde_epoch x)),
      (''section'', enc_option id (tde_section x)), (''message'', Utf8 (tde_message x))]"

section \<open>Core structures\<close>

record TdmField =
  fld_key :: string
  fld_value :: string

record TdmComment =
  com_text :: string
  com_before_record :: u64

datatype TdmObservable =
    Range
  | DopplerInstantaneous
  | DopplerIntegrated
  | ReceiveFreq "u8 option"
  | TransmitFreq "u8 option"
  | TransmitFreqRate "u8 option"
  | Angle1
  | Angle2
  | Other string

datatype TdmUnit =
    Kilometers | Seconds | RangeUnits | KilometersPerSecond | Hertz | HertzPerSecond | Degrees | DecibelWatts
  | DecibelHertz | SquareMeters | Meters | SecondsPerSecond | Percent | Kelvin | Hectopascals
  | TotalElectronContentUnits | Dimensionless | Unknown string

record TdmScalar =
  sca_text :: string
  sca_value :: f64

record TdmDataRecord =
  rec_observable :: TdmObservable
  rec_keyword :: string
  rec_epoch :: string
  rec_value :: TdmScalar
  rec_unit :: TdmUnit

record TdmDataSection =
  sec_comments :: "TdmComment list"
  sec_records :: "TdmDataRecord list"

record TdmParticipant =
  par_index :: u8
  par_name :: string

record TdmPath =
  pth_key :: string
  pth_index :: "u8 option"
  pth_participants :: "u8 list"

record TdmMetadata =
  met_comments :: "TdmComment list"
  met_fields :: "TdmField list"
  met_participants :: "TdmParticipant list"
  met_mode :: "string option"
  met_paths :: "TdmPath list"
  met_timetag_ref :: "string option"
  met_time_system :: "string option"
  met_range_units :: TdmUnit

record TdmSegment =
  seg_metadata :: TdmMetadata
  seg_data :: TdmDataSection

record Tdm =
  msg_version :: string
  msg_comments :: "TdmComment list"
  msg_creation_date :: "string option"
  msg_originator :: "string option"
  msg_message_id :: "string option"
  msg_header_fields :: "TdmField list"
  msg_segments :: "TdmSegment list"

datatype TdmLeniency = Strict | Forgive

record TdmPolicy =
  pol_non_printable :: TdmLeniency
  pol_missing_keywords :: TdmLeniency
  pol_long_lines :: TdmLeniency
  pol_empty_data_sections :: TdmLeniency
  pol_record_order :: TdmLeniency
  pol_duplicate_records :: TdmLeniency
  pol_keyword_order :: TdmLeniency
  pol_final_terminator :: TdmLeniency

record TdmWritePolicy =
  wpol_non_printable :: TdmLeniency
  wpol_missing_keywords :: TdmLeniency
  wpol_long_lines :: TdmLeniency
  wpol_empty_data_sections :: TdmLeniency
  wpol_record_order :: TdmLeniency
  wpol_duplicate_records :: TdmLeniency
  wpol_keyword_order :: TdmLeniency
  wpol_final_terminator :: TdmLeniency
  wpol_repeated_keywords :: TdmLeniency

datatype TdmInputErrorKind =
    Missing | FloatParse | NonFinite | NotPositive | OutOfRange | InvalidIndex | UnknownKeyword | UnexpectedUnit
  | NonInteger | Negative | NegativeZero | UnitMismatch | DecimalMismatch | OtherKind string

text \<open>A \<open>char\<close> is its text, as \<open>char::to_string\<close> gives it. The last variant of each enum stands for those that
  the binding does not name, with the core's text.\<close>

datatype TdmError =
    NoSegments
  | Section u64 string
  | MalformedLine u64 string
  | NonPrintableCharacter "u64 option" string u64 string
  | LineTooLong "u64 option" string u64
  | MalformedEpoch "u64 option" string string
  | RecordsOutOfOrder u64 string string
  | DuplicateRecord u64 string string
  | UnterminatedFinalLine u64
  | Unwritable string string
  | KeywordOutOfOrder "u64 option" string string
  | UndefinedParticipant u64 string u8
  | ConflictingKeyword "u64 option" string string string string
  | RepeatedKeyword "u64 option" string string
  | UndefinedKeyword u64 string string
  | MissingKeyword string "u64 option"
  | EmptyDataSection u64
  | EmptyValue "u64 option" string
  | InvalidVersion "u64 option" string
  | KeywordNotAssignable string
  | MalformedRecord u64 string
  | InvalidField string TdmInputErrorKind
  | OtherError string

datatype TdmWarning =
    WarnNonPrintableCharacter u64 string u64 string
  | WarnLineTooLong u64 string u64
  | WarnRepeatedKeyword u64 string string
  | WarnMissingKeyword string "u64 option"
  | WarnEmptyDataSection u64
  | WarnRecordsOutOfOrder u64 string string
  | WarnUnterminatedFinalLine u64
  | WarnKeywordOutOfOrder u64 string string
  | WarnDuplicateRecord u64 string string
  | WarnOther string

datatype TdmDeparture =
    DepNonPrintableCharacter string string
  | DepLineTooLong string u64
  | DepMissingKeyword string "u64 option"
  | DepEmptyDataSection u64
  | DepRecordsOutOfOrder u64 string string
  | DepDuplicateRecord u64 string string
  | DepRepeatedKeyword string string
  | DepKeywordOutOfOrder string string
  | DepUnterminatedFinalLine
  | DepOther string

datatype (plugins only: code) tdm_core = tdm_core
  (tdm_unit_as_str: "TdmUnit \<Rightarrow> string")
  (tdm_error_display: "TdmError \<Rightarrow> string")
  (tdm_warning_display: "TdmWarning \<Rightarrow> string")
  (tdm_departure_display: "TdmDeparture \<Rightarrow> string")
  (parse_kvn: "string \<Rightarrow> TdmError + Tdm")
  (parse_kvn_with_policy: "string \<Rightarrow> TdmPolicy \<Rightarrow> TdmError + Tdm \<times> TdmWarning list")
  (encode_kvn: "Tdm \<Rightarrow> TdmError + string")
  (encode_kvn_with_policy: "Tdm \<Rightarrow> TdmWritePolicy \<Rightarrow> TdmError + string \<times> TdmDeparture list")
  (metadata_from_raw: "TdmField list \<Rightarrow> TdmComment list \<Rightarrow> TdmError + TdmMetadata")
  (metadata_from_raw_with_policy:
    "TdmField list \<Rightarrow> TdmComment list \<Rightarrow> TdmWritePolicy \<Rightarrow> TdmError + TdmMetadata \<times> TdmDeparture list")
  (metadata_replace_raw: "TdmMetadata \<Rightarrow> TdmField list \<Rightarrow> TdmComment list \<Rightarrow> TdmError + TdmMetadata")
  (metadata_replace_raw_with_policy:
    "TdmMetadata \<Rightarrow> TdmField list \<Rightarrow> TdmComment list \<Rightarrow> TdmWritePolicy \<Rightarrow> TdmError + TdmMetadata \<times> TdmDeparture list")
  (write_policy_lenient: TdmWritePolicy)

section \<open>Conversions\<close>

definition tdm_field_term :: "TdmField \<Rightarrow> TdmFieldTerm" where
  "tdm_field_term v = \<lparr>tft_key = fld_key v, tft_value = fld_value v\<rparr>"

definition tdm_field :: "TdmFieldTerm \<Rightarrow> TdmField" where
  "tdm_field v = \<lparr>fld_key = tft_key v, fld_value = tft_value v\<rparr>"

definition tdm_comment_term :: "TdmComment \<Rightarrow> TdmCommentTerm" where
  "tdm_comment_term v = \<lparr>tct_text = com_text v, tct_before_record = com_before_record v\<rparr>"

definition tdm_comment :: "TdmCommentTerm \<Rightarrow> TdmComment" where
  "tdm_comment v = \<lparr>com_text = tct_text v, com_before_record = tct_before_record v\<rparr>"

definition observable_term :: "TdmObservable \<Rightarrow> TdmObservableTerm" where
  "observable_term v =
     (case (case v of
              Range \<Rightarrow> (''range'', None, None)
            | DopplerInstantaneous \<Rightarrow> (''doppler_instantaneous'', None, None)
            | DopplerIntegrated \<Rightarrow> (''doppler_integrated'', None, None)
            | ReceiveFreq p \<Rightarrow> (''receive_freq'', p, None)
            | TransmitFreq p \<Rightarrow> (''transmit_freq'', p, None)
            | TransmitFreqRate p \<Rightarrow> (''transmit_freq_rate'', p, None)
            | Angle1 \<Rightarrow> (''angle_1'', None, None)
            | Angle2 \<Rightarrow> (''angle_2'', None, None)
            | Other name \<Rightarrow> (''other'', None, Some name)) of
        (kind, participant, name) \<Rightarrow> \<lparr>tot_kind = kind, tot_participant = participant, tot_name = name\<rparr>)"

definition observable :: "TdmObservableTerm \<Rightarrow> TdmObservable" where
  "observable v =
     (if tot_kind v = ''range'' then Range
      else if tot_kind v = ''doppler_instantaneous'' then DopplerInstantaneous
      else if tot_kind v = ''doppler_integrated'' then DopplerIntegrated
      else if tot_kind v = ''receive_freq'' then ReceiveFreq (tot_participant v)
      else if tot_kind v = ''transmit_freq'' then TransmitFreq (tot_participant v)
      else if tot_kind v = ''transmit_freq_rate'' then TransmitFreqRate (tot_participant v)
      else if tot_kind v = ''angle_1'' then Angle1
      else if tot_kind v = ''angle_2'' then Angle2
      else if tot_kind v = ''other'' then Other (case tot_name v of None \<Rightarrow> [] | Some name \<Rightarrow> name)
      else Other (tot_kind v))"

definition unit_label :: "tdm_core \<Rightarrow> TdmUnit \<Rightarrow> string" where
  "unit_label C v = tdm_unit_as_str C v"

definition tdm_unit :: "string \<Rightarrow> TdmUnit" where
  "tdm_unit v =
     (if v = ''km'' then Kilometers else if v = ''s'' then Seconds else if v = ''RU'' then RangeUnits
      else if v = ''km/s'' then KilometersPerSecond else if v = ''Hz'' then Hertz
      else if v = ''Hz/s'' then HertzPerSecond else if v = ''deg'' then Degrees
      else if v = ''dBW'' then DecibelWatts else if v = ''dBHz'' then DecibelHertz
      else if v = ''m**2'' then SquareMeters else if v = ''m'' then Meters
      else if v = ''s/s'' then SecondsPerSecond else if v = ''%'' then Percent else if v = ''K'' then Kelvin
      else if v = ''hPa'' then Hectopascals else if v = ''TECU'' then TotalElectronContentUnits
      else if v = ''n/a'' then Dimensionless else Unknown v)"

definition record_term :: "tdm_core \<Rightarrow> TdmDataRecord \<Rightarrow> TdmDataRecordTerm" where
  "record_term C v =
     \<lparr>trt_observable = observable_term (rec_observable v), trt_keyword = rec_keyword v, trt_epoch = rec_epoch v,
      trt_value = \<lparr>tst_text = sca_text (rec_value v), tst_value = sca_value (rec_value v)\<rparr>,
      trt_unit = unit_label C (rec_unit v)\<rparr>"

definition tdm_record :: "TdmDataRecordTerm \<Rightarrow> TdmDataRecord" where
  "tdm_record v =
     \<lparr>rec_observable = observable (trt_observable v), rec_keyword = trt_keyword v, rec_epoch = trt_epoch v,
      rec_value = \<lparr>sca_text = tst_text (trt_value v), sca_value = tst_value (trt_value v)\<rparr>,
      rec_unit = tdm_unit (trt_unit v)\<rparr>"

definition data_section_term :: "tdm_core \<Rightarrow> TdmDataSection \<Rightarrow> TdmDataSectionTerm" where
  "data_section_term C v =
     \<lparr>tdt_comments = map tdm_comment_term (sec_comments v), tdt_records = map (record_term C) (sec_records v)\<rparr>"

definition data_section :: "TdmDataSectionTerm \<Rightarrow> TdmDataSection" where
  "data_section v =
     \<lparr>sec_comments = map tdm_comment (tdt_comments v), sec_records = map tdm_record (tdt_records v)\<rparr>"

definition participant_term :: "TdmParticipant \<Rightarrow> TdmParticipantTerm" where
  "participant_term v = \<lparr>tpt_index = par_index v, tpt_name = par_name v\<rparr>"

definition participant :: "TdmParticipantTerm \<Rightarrow> TdmParticipant" where
  "participant v = \<lparr>par_index = tpt_index v, par_name = tpt_name v\<rparr>"

definition path_term :: "TdmPath \<Rightarrow> TdmPathTerm" where
  "path_term v = \<lparr>tht_key = pth_key v, tht_index = pth_index v, tht_participants = pth_participants v\<rparr>"

definition tdm_path :: "TdmPathTerm \<Rightarrow> TdmPath" where
  "tdm_path v = \<lparr>pth_key = tht_key v, pth_index = tht_index v, pth_participants = tht_participants v\<rparr>"

definition metadata_term :: "tdm_core \<Rightarrow> TdmMetadata \<Rightarrow> TdmMetadataTerm" where
  "metadata_term C v =
     \<lparr>tmt_comments = map tdm_comment_term (met_comments v), tmt_fields = map tdm_field_term (met_fields v),
      tmt_participants = map participant_term (met_participants v), tmt_mode = met_mode v,
      tmt_paths = map path_term (met_paths v), tmt_timetag_ref = met_timetag_ref v,
      tmt_time_system = met_time_system v, tmt_range_units = unit_label C (met_range_units v)\<rparr>"

definition metadata_as_given :: "TdmMetadataTerm \<Rightarrow> TdmMetadata" where
  "metadata_as_given v =
     \<lparr>met_comments = map tdm_comment (tmt_comments v), met_fields = map tdm_field (tmt_fields v),
      met_participants = map participant (tmt_participants v), met_mode = tmt_mode v,
      met_paths = map tdm_path (tmt_paths v), met_timetag_ref = tmt_timetag_ref v,
      met_time_system = tmt_time_system v, met_range_units = tdm_unit (tmt_range_units v)\<rparr>"

text \<open>The first derived property on which the caller's metadata and its raw fields disagree.\<close>

definition stale_property :: "tdm_core \<Rightarrow> TdmMetadataTerm \<Rightarrow> string option" where
  "stale_property C given =
     (case metadata_from_raw_with_policy C (map tdm_field (tmt_fields given)) (map tdm_comment (tmt_comments given))
             (write_policy_lenient C) of
        Inl _ \<Rightarrow> None
      | Inr (derived, _) \<Rightarrow>
          (let derived = metadata_term C derived in
             if tmt_participants derived \<noteq> tmt_participants given then Some ''participants''
             else if tmt_mode derived \<noteq> tmt_mode given then Some ''mode''
             else if tmt_paths derived \<noteq> tmt_paths given then Some ''paths''
             else if tmt_timetag_ref derived \<noteq> tmt_timetag_ref given then Some ''timetag_ref''
             else if tmt_time_system derived \<noteq> tmt_time_system given then Some ''time_system''
             else if tmt_range_units derived \<noteq> tmt_range_units given then Some ''range_units''
             else None))"

definition segment_term :: "tdm_core \<Rightarrow> TdmSegment \<Rightarrow> TdmSegmentTerm" where
  "segment_term C v = \<lparr>tsg_metadata = metadata_term C (seg_metadata v), tsg_data = data_section_term C (seg_data v)\<rparr>"

definition tdm_term :: "tdm_core \<Rightarrow> Tdm \<Rightarrow> TdmTerm" where
  "tdm_term C v =
     \<lparr>tmg_version = msg_version v, tmg_comments = map tdm_comment_term (msg_comments v),
      tmg_creation_date = msg_creation_date v, tmg_originator = msg_originator v, tmg_message_id = msg_message_id v,
      tmg_header_fields = map tdm_field_term (msg_header_fields v), tmg_segments = map (segment_term C) (msg_segments v)\<rparr>"

definition tagged :: "string \<Rightarrow> (string \<times> nterm) list \<Rightarrow> nterm" where
  "tagged tag pairs = Tup [Atom tag, Dict (foldl (\<lambda>m (k, v). map_put k v m) [] pairs)]"

text \<open>The loop over the segments; \<open>usize\<close> positions saturate.\<close>

definition saturating_add1 :: "u64 \<Rightarrow> u64" where
  "saturating_add1 n = (if n = - 1 then n else n + 1)"

fun tdm_segments :: "tdm_core \<Rightarrow> u64 \<Rightarrow> TdmSegmentTerm list \<Rightarrow> nterm + TdmSegment list" where
  "tdm_segments C i [] = Inr []"
| "tdm_segments C i (segment # rest) =
     (case stale_property C (tsg_metadata segment) of
        Some property \<Rightarrow>
          Inl (tagged ''metadata_not_derived''
            [(''segment'', enc_u64 (saturating_add1 i)), (''property'', Atom property)])
      | None \<Rightarrow> map_ok ((#) \<lparr>seg_metadata = metadata_as_given (tsg_metadata segment),
                              seg_data = data_section (tsg_data segment)\<rparr>)
                  (tdm_segments C (i + 1) rest))"

definition tdm :: "tdm_core \<Rightarrow> TdmTerm \<Rightarrow> nterm + Tdm" where
  "tdm C v =
     and_then (tdm_segments C 0 (tmg_segments v)) (\<lambda>segments.
       Inr \<lparr>msg_version = tmg_version v, msg_comments = map tdm_comment (tmg_comments v),
            msg_creation_date = tmg_creation_date v, msg_originator = tmg_originator v,
            msg_message_id = tmg_message_id v, msg_header_fields = map tdm_field (tmg_header_fields v),
            msg_segments = segments\<rparr>)"

section \<open>Policies\<close>

definition leniency :: "string \<Rightarrow> string \<Rightarrow> TdmLeniency NifResult" where
  "leniency v name =
     (if v = ''strict'' then Inr Strict
      else if v = ''forgive'' then Inr Forgive
      else Inl (ErrorTerm (Tup [Atom ''invalid_policy_value'', Utf8 name, Atom v])))"

definition read_policy :: "TdmPolicyTerm \<Rightarrow> TdmPolicy NifResult" where
  "read_policy t =
     and_then (leniency (tpo_non_printable t) ''non_printable'') (\<lambda>a.
     and_then (leniency (tpo_missing_keywords t) ''missing_keywords'') (\<lambda>b.
     and_then (leniency (tpo_long_lines t) ''long_lines'') (\<lambda>c.
     and_then (leniency (tpo_empty_data_sections t) ''empty_data_sections'') (\<lambda>d.
     and_then (leniency (tpo_record_order t) ''record_order'') (\<lambda>e.
     and_then (leniency (tpo_duplicate_records t) ''duplicate_records'') (\<lambda>f.
     and_then (leniency (tpo_keyword_order t) ''keyword_order'') (\<lambda>g.
     and_then (leniency (tpo_final_terminator t) ''final_terminator'') (\<lambda>h.
       Inr \<lparr>pol_non_printable = a, pol_missing_keywords = b, pol_long_lines = c, pol_empty_data_sections = d,
            pol_record_order = e, pol_duplicate_records = f, pol_keyword_order = g, pol_final_terminator = h\<rparr>))))))))"

definition write_policy :: "TdmWritePolicyTerm \<Rightarrow> TdmWritePolicy NifResult" where
  "write_policy t =
     and_then (leniency (twp_non_printable t) ''non_printable'') (\<lambda>a.
     and_then (leniency (twp_missing_keywords t) ''missing_keywords'') (\<lambda>b.
     and_then (leniency (twp_long_lines t) ''long_lines'') (\<lambda>c.
     and_then (leniency (twp_empty_data_sections t) ''empty_data_sections'') (\<lambda>d.
     and_then (leniency (twp_record_order t) ''record_order'') (\<lambda>e.
     and_then (leniency (twp_duplicate_records t) ''duplicate_records'') (\<lambda>f.
     and_then (leniency (twp_keyword_order t) ''keyword_order'') (\<lambda>g.
     and_then (leniency (twp_final_terminator t) ''final_terminator'') (\<lambda>h.
     and_then (leniency (twp_repeated_keywords t) ''repeated_keywords'') (\<lambda>i.
       Inr \<lparr>wpol_non_printable = a, wpol_missing_keywords = b, wpol_long_lines = c, wpol_empty_data_sections = d,
            wpol_record_order = e, wpol_duplicate_records = f, wpol_keyword_order = g, wpol_final_terminator = h,
            wpol_repeated_keywords = i\<rparr>)))))))))"

section \<open>Errors\<close>

definition section_term :: "string \<Rightarrow> nterm" where
  "section_term s =
     (if s = ''header'' then Atom ''header'' else if s = ''metadata'' then Atom ''metadata''
      else if s = ''data'' then Atom ''data'' else Utf8 s)"

text \<open>\<open>serde_json::Value\<close>; the objects here have distinct keys.\<close>

datatype json = JNull | JBool bool | JNumber int | JString string | JArray "json list" | JObject "(string \<times> json) list"

definition json_usize :: "u64 \<Rightarrow> json" where
  "json_usize n = JNumber (uint n)"

definition json_option :: "('a \<Rightarrow> json) \<Rightarrow> 'a option \<Rightarrow> json" where
  "json_option f x = (case x of None \<Rightarrow> JNull | Some a \<Rightarrow> f a)"

fun json_insert :: "string \<Rightarrow> json \<Rightarrow> (string \<times> json) list \<Rightarrow> (string \<times> json) list" where
  "json_insert k v [] = [(k, v)]"
| "json_insert k v ((k', v') # rest) = (if k = k' then (k, v) # rest else (k', v') # json_insert k v rest)"

text \<open>\<open>derive(Debug)\<close> of a kind.\<close>

primrec kind_debug :: "TdmInputErrorKind \<Rightarrow> string" where
  "kind_debug Missing = ''Missing''"
| "kind_debug FloatParse = ''FloatParse''"
| "kind_debug NonFinite = ''NonFinite''"
| "kind_debug NotPositive = ''NotPositive''"
| "kind_debug OutOfRange = ''OutOfRange''"
| "kind_debug InvalidIndex = ''InvalidIndex''"
| "kind_debug UnknownKeyword = ''UnknownKeyword''"
| "kind_debug UnexpectedUnit = ''UnexpectedUnit''"
| "kind_debug NonInteger = ''NonInteger''"
| "kind_debug Negative = ''Negative''"
| "kind_debug NegativeZero = ''NegativeZero''"
| "kind_debug UnitMismatch = ''UnitMismatch''"
| "kind_debug DecimalMismatch = ''DecimalMismatch''"
| "kind_debug (OtherKind s) = s"

definition kind_term :: "string \<Rightarrow> nterm" where
  "kind_term v =
     (if v = ''Missing'' then Atom ''missing'' else if v = ''FloatParse'' then Atom ''float_parse''
      else if v = ''NonFinite'' then Atom ''non_finite'' else if v = ''NotPositive'' then Atom ''not_positive''
      else if v = ''OutOfRange'' then Atom ''out_of_range'' else if v = ''InvalidIndex'' then Atom ''invalid_index''
      else if v = ''UnknownKeyword'' then Atom ''unknown_keyword''
      else if v = ''UnexpectedUnit'' then Atom ''unexpected_unit''
      else if v = ''NonInteger'' then Atom ''non_integer'' else if v = ''Negative'' then Atom ''negative''
      else if v = ''NegativeZero'' then Atom ''negative_zero'' else if v = ''UnitMismatch'' then Atom ''unit_mismatch''
      else if v = ''DecimalMismatch'' then Atom ''decimal_mismatch'' else Utf8 v)"

definition error_field_term :: "string \<Rightarrow> json \<Rightarrow> nif_reply" where
  "error_field_term key v =
     (case v of
        JNull \<Rightarrow> Inr (Atom ''nil'')
      | JBool b \<Rightarrow> Inr (enc_bool b)
      | JNumber n \<Rightarrow> if in_ty I64 n \<or> in_ty U64 n then Inr (Integer n) else Inl Panic
      | JString s \<Rightarrow>
          if key = ''section'' then Inr (section_term s)
          else if key = ''kind'' then Inr (kind_term s)
          else Inr (Utf8 s)
      | _ \<Rightarrow> Inl Panic)"

definition error_contract :: "tdm_core \<Rightarrow> TdmError \<Rightarrow> string \<times> (string \<times> json) list" where
  "error_contract C error =
     (let message = tdm_error_display C error in
      case (case error of
         NoSegments \<Rightarrow> (''no_segments'', [])
       | Section line detail \<Rightarrow> (''section'', [(''line'', json_usize line), (''detail'', JString detail)])
       | MalformedLine line t \<Rightarrow> (''malformed_line'', [(''line'', json_usize line), (''text'', JString t)])
       | NonPrintableCharacter line keyword column character \<Rightarrow>
           (''non_printable_character'',
            [(''line'', json_option json_usize line), (''keyword'', JString keyword),
             (''column'', json_usize column), (''character'', JString character)])
       | LineTooLong line keyword length' \<Rightarrow>
           (''line_too_long'',
            [(''line'', json_option json_usize line), (''keyword'', JString keyword), (''length'', json_usize length')])
       | MalformedEpoch line keyword t \<Rightarrow>
           (''malformed_epoch'',
            [(''line'', json_option json_usize line), (''keyword'', JString keyword), (''text'', JString t)])
       | RecordsOutOfOrder segment keyword epoch \<Rightarrow>
           (''records_out_of_order'',
            [(''segment'', json_usize segment), (''keyword'', JString keyword), (''epoch'', JString epoch)])
       | DuplicateRecord segment keyword epoch \<Rightarrow>
           (''duplicate_record'',
            [(''segment'', json_usize segment), (''keyword'', JString keyword), (''epoch'', JString epoch)])
       | UnterminatedFinalLine line \<Rightarrow> (''unterminated_final_line'', [(''line'', json_usize line)])
       | Unwritable keyword reason \<Rightarrow> (''unwritable'', [(''keyword'', JString keyword), (''reason'', JString reason)])
       | KeywordOutOfOrder line keyword section' \<Rightarrow>
           (''keyword_out_of_order'',
            [(''line'', json_option json_usize line), (''keyword'', JString keyword), (''section'', JString section')])
       | UndefinedParticipant segment keyword i \<Rightarrow>
           (''undefined_participant'',
            [(''segment'', json_usize segment), (''keyword'', JString keyword), (''index'', JNumber (uint i))])
       | ConflictingKeyword line keyword section' first second \<Rightarrow>
           (''conflicting_keyword'',
            [(''line'', json_option json_usize line), (''keyword'', JString keyword), (''section'', JString section'),
             (''first'', JString first), (''second'', JString second)])
       | RepeatedKeyword line keyword section' \<Rightarrow>
           (''repeated_keyword'',
            [(''line'', json_option json_usize line), (''keyword'', JString keyword), (''section'', JString section')])
       | UndefinedKeyword line keyword section' \<Rightarrow>
           (''undefined_keyword'',
            [(''line'', json_usize line), (''keyword'', JString keyword), (''section'', JString section')])
       | MissingKeyword keyword segment \<Rightarrow>
           (''missing_keyword'', [(''keyword'', JString keyword), (''segment'', json_option json_usize segment)])
       | EmptyDataSection segment \<Rightarrow> (''empty_data_section'', [(''segment'', json_usize segment)])
       | EmptyValue line keyword \<Rightarrow>
           (''empty_value'', [(''line'', json_option json_usize line), (''keyword'', JString keyword)])
       | InvalidVersion line value' \<Rightarrow>
           (''invalid_version'', [(''line'', json_option json_usize line), (''value'', JString value')])
       | KeywordNotAssignable keyword \<Rightarrow> (''keyword_not_assignable'', [(''keyword'', JString keyword)])
       | MalformedRecord line keyword \<Rightarrow>
           (''malformed_record'', [(''line'', json_usize line), (''keyword'', JString keyword)])
       | InvalidField keyword kind \<Rightarrow>
           (''invalid_field'', [(''keyword'', JString keyword), (''kind'', JString (kind_debug kind))])
       | OtherError _ \<Rightarrow> (''unhandled'', [(''message'', JString (tdm_error_display C error))])) of
      (tag, fs) \<Rightarrow> (tag, json_insert ''message'' (JString message) fs))"

text \<open>The atoms of the module: \<open>Atom::try_from_bytes\<close> finds these.\<close>

definition tdm_atoms :: "string list" where
  "tdm_atoms =
     [''ok'', ''error'', ''strict'', ''forgive'', ''unhandled'', ''invalid_policy_value'', ''header'',
      ''metadata'', ''data'', ''no_segments'', ''section'', ''malformed_line'',
      ''non_printable_character'', ''line_too_long'', ''malformed_epoch'', ''records_out_of_order'',
      ''duplicate_record'', ''unterminated_final_line'', ''unwritable'', ''keyword_out_of_order'',
      ''undefined_participant'', ''conflicting_keyword'', ''repeated_keyword'', ''undefined_keyword'',
      ''missing_keyword'', ''empty_data_section'', ''empty_value'', ''invalid_version'',
      ''keyword_not_assignable'', ''malformed_record'', ''invalid_field'', ''metadata_not_derived'',
      ''missing'', ''float_parse'', ''non_finite'', ''not_positive'', ''out_of_range'',
      ''invalid_index'', ''unknown_keyword'', ''unexpected_unit'', ''non_integer'', ''negative'',
      ''negative_zero'', ''unit_mismatch'', ''decimal_mismatch'', ''line'', ''detail'', ''text'',
      ''keyword'', ''column'', ''character'', ''length'', ''segment'', ''epoch'', ''reason'', ''index'',
      ''first'', ''second'', ''value'', ''kind'', ''message'', ''property'', ''participants'', ''mode'',
      ''paths'', ''timetag_ref'', ''time_system'', ''range_units'']"

definition tdm_atom :: "string \<Rightarrow> nif_error fault + string" where
  "tdm_atom name = (if name \<in> set tdm_atoms then Inr name else Inl Panic)"

definition tdm_error_term :: "tdm_core \<Rightarrow> TdmError \<Rightarrow> nif_reply" where
  "tdm_error_term C error =
     (case error_contract C error of (tag, fs) \<Rightarrow>
      and_then (tdm_atom tag) (\<lambda>tag.
      and_then (collect_results (map (\<lambda>(key, v).
          and_then (tdm_atom key) (\<lambda>k. map_ok (Pair k) (error_field_term key v))) fs)) (\<lambda>pairs.
      Inr (tagged tag pairs))))"

section \<open>Warnings and departures\<close>

definition warning_base :: "string \<Rightarrow> string \<Rightarrow> TdmWarningTerm" where
  "warning_base tag message =
     \<lparr>twt_tag = tag, twt_line = None, twt_keyword = None, twt_column = None, twt_character = None, twt_length = None,
      twt_section = None, twt_segment = None, twt_epoch = None, twt_message = message\<rparr>"

definition warning_term :: "tdm_core \<Rightarrow> TdmWarning \<Rightarrow> TdmWarningTerm" where
  "warning_term C w =
     (let message = tdm_warning_display C w in
      case w of
        WarnNonPrintableCharacter line keyword column character \<Rightarrow>
          (warning_base ''non_printable_character'' message)
            \<lparr>twt_line := Some line, twt_keyword := Some keyword, twt_column := Some column, twt_character := Some character\<rparr>
      | WarnLineTooLong line keyword length' \<Rightarrow>
          (warning_base ''line_too_long'' message)
            \<lparr>twt_line := Some line, twt_keyword := Some keyword, twt_length := Some length'\<rparr>
      | WarnRepeatedKeyword line keyword section' \<Rightarrow>
          (warning_base ''repeated_keyword'' message)
            \<lparr>twt_line := Some line, twt_keyword := Some keyword, twt_section := Some (section_term section')\<rparr>
      | WarnMissingKeyword keyword segment \<Rightarrow>
          (warning_base ''missing_keyword'' message)\<lparr>twt_keyword := Some keyword, twt_segment := segment\<rparr>
      | WarnEmptyDataSection segment \<Rightarrow> (warning_base ''empty_data_section'' message)\<lparr>twt_segment := Some segment\<rparr>
      | WarnRecordsOutOfOrder segment keyword epoch \<Rightarrow>
          (warning_base ''records_out_of_order'' message)
            \<lparr>twt_segment := Some segment, twt_keyword := Some keyword, twt_epoch := Some epoch\<rparr>
      | WarnUnterminatedFinalLine line \<Rightarrow> (warning_base ''unterminated_final_line'' message)\<lparr>twt_line := Some line\<rparr>
      | WarnKeywordOutOfOrder line keyword section' \<Rightarrow>
          (warning_base ''keyword_out_of_order'' message)
            \<lparr>twt_line := Some line, twt_keyword := Some keyword, twt_section := Some (section_term section')\<rparr>
      | WarnDuplicateRecord segment keyword epoch \<Rightarrow>
          (warning_base ''duplicate_record'' message)
            \<lparr>twt_segment := Some segment, twt_keyword := Some keyword, twt_epoch := Some epoch\<rparr>
      | WarnOther _ \<Rightarrow> warning_base ''unhandled'' message)"

definition departure_base :: "string \<Rightarrow> string \<Rightarrow> TdmDepartureTerm" where
  "departure_base tag message =
     \<lparr>tde_tag = tag, tde_keyword = None, tde_character = None, tde_length = None, tde_segment = None, tde_epoch = None,
      tde_section = None, tde_message = message\<rparr>"

definition tdm_departure_term :: "tdm_core \<Rightarrow> TdmDeparture \<Rightarrow> TdmDepartureTerm" where
  "tdm_departure_term C d =
     (let message = tdm_departure_display C d in
      case d of
        DepNonPrintableCharacter keyword character \<Rightarrow>
          (departure_base ''non_printable_character'' message)
            \<lparr>tde_keyword := Some keyword, tde_character := Some character\<rparr>
      | DepLineTooLong keyword length' \<Rightarrow>
          (departure_base ''line_too_long'' message)\<lparr>tde_keyword := Some keyword, tde_length := Some length'\<rparr>
      | DepMissingKeyword keyword segment \<Rightarrow>
          (departure_base ''missing_keyword'' message)\<lparr>tde_keyword := Some keyword, tde_segment := segment\<rparr>
      | DepEmptyDataSection segment \<Rightarrow> (departure_base ''empty_data_section'' message)\<lparr>tde_segment := Some segment\<rparr>
      | DepRecordsOutOfOrder segment keyword epoch \<Rightarrow>
          (departure_base ''records_out_of_order'' message)
            \<lparr>tde_segment := Some segment, tde_keyword := Some keyword, tde_epoch := Some epoch\<rparr>
      | DepDuplicateRecord segment keyword epoch \<Rightarrow>
          (departure_base ''duplicate_record'' message)
            \<lparr>tde_segment := Some segment, tde_keyword := Some keyword, tde_epoch := Some epoch\<rparr>
      | DepRepeatedKeyword keyword section' \<Rightarrow>
          (departure_base ''repeated_keyword'' message)
            \<lparr>tde_keyword := Some keyword, tde_section := Some (section_term section')\<rparr>
      | DepKeywordOutOfOrder keyword section' \<Rightarrow>
          (departure_base ''keyword_out_of_order'' message)
            \<lparr>tde_keyword := Some keyword, tde_section := Some (section_term section')\<rparr>
      | DepUnterminatedFinalLine \<Rightarrow> departure_base ''unterminated_final_line'' message
      | DepOther _ \<Rightarrow> departure_base ''unhandled'' message)"

definition departure_terms :: "tdm_core \<Rightarrow> TdmDeparture list \<Rightarrow> TdmDepartureTerm list" where
  "departure_terms C departures = map (tdm_departure_term C) departures"

section \<open>Calls\<close>

definition tdm_refusal :: "tdm_core \<Rightarrow> TdmError \<Rightarrow> nif_reply" where
  "tdm_refusal C error = map_ok error_term (tdm_error_term C error)"

definition ok_list :: "nterm list \<Rightarrow> nif_reply" where
  "ok_list ts = Inr (Tup (Atom ''ok'' # ts))"

definition tdm_parse_kvn :: "tdm_core \<Rightarrow> string \<Rightarrow> nif_reply" where
  "tdm_parse_kvn C t =
     (case parse_kvn C t of
        Inr parsed \<Rightarrow> ok_list [enc_TdmTerm (tdm_term C parsed)]
      | Inl error \<Rightarrow> tdm_refusal C error)"

definition tdm_parse_kvn_with_policy :: "tdm_core \<Rightarrow> string \<Rightarrow> TdmPolicyTerm \<Rightarrow> nif_reply" where
  "tdm_parse_kvn_with_policy C t policy =
     and_then (map_err Err (read_policy policy)) (\<lambda>policy.
     case parse_kvn_with_policy C t policy of
       Inr (parsed, warnings) \<Rightarrow>
         ok_list [enc_TdmTerm (tdm_term C parsed), enc_list enc_TdmWarningTerm (map (warning_term C) warnings)]
     | Inl error \<Rightarrow> tdm_refusal C error)"

definition tdm_encode_kvn :: "tdm_core \<Rightarrow> TdmTerm \<Rightarrow> nif_reply" where
  "tdm_encode_kvn C fs =
     (case tdm C fs of
        Inl reason \<Rightarrow> Inr (error_term reason)
      | Inr value' \<Rightarrow>
          (case encode_kvn C value' of
             Inr t \<Rightarrow> ok_list [Utf8 t]
           | Inl error \<Rightarrow> tdm_refusal C error))"

definition tdm_encode_kvn_with_policy :: "tdm_core \<Rightarrow> TdmTerm \<Rightarrow> TdmWritePolicyTerm \<Rightarrow> nif_reply" where
  "tdm_encode_kvn_with_policy C fs policy =
     and_then (map_err Err (write_policy policy)) (\<lambda>policy.
     case tdm C fs of
       Inl reason \<Rightarrow> Inr (error_term reason)
     | Inr value' \<Rightarrow>
         (case encode_kvn_with_policy C value' policy of
            Inr (t, departures) \<Rightarrow>
              ok_list [Utf8 t, enc_list enc_TdmDepartureTerm (departure_terms C departures)]
          | Inl error \<Rightarrow> tdm_refusal C error))"

definition raw_parts :: "TdmFieldTerm list \<Rightarrow> TdmCommentTerm list \<Rightarrow> TdmField list \<times> TdmComment list" where
  "raw_parts fs comments = (map tdm_field fs, map tdm_comment comments)"

definition tdm_metadata_from_raw :: "tdm_core \<Rightarrow> TdmFieldTerm list \<Rightarrow> TdmCommentTerm list \<Rightarrow> nif_reply" where
  "tdm_metadata_from_raw C fs comments =
     (case raw_parts fs comments of (fs, comments) \<Rightarrow>
      case metadata_from_raw C fs comments of
        Inr metadata \<Rightarrow> ok_list [enc_TdmMetadataTerm (metadata_term C metadata)]
      | Inl error \<Rightarrow> tdm_refusal C error)"

definition tdm_metadata_from_raw_with_policy ::
  "tdm_core \<Rightarrow> TdmFieldTerm list \<Rightarrow> TdmCommentTerm list \<Rightarrow> TdmWritePolicyTerm \<Rightarrow> nif_reply" where
  "tdm_metadata_from_raw_with_policy C fs comments policy =
     and_then (map_err Err (write_policy policy)) (\<lambda>policy.
     case raw_parts fs comments of (fs, comments) \<Rightarrow>
     case metadata_from_raw_with_policy C fs comments policy of
       Inr (metadata, departures) \<Rightarrow>
         ok_list [enc_TdmMetadataTerm (metadata_term C metadata),
           enc_list enc_TdmDepartureTerm (departure_terms C departures)]
     | Inl error \<Rightarrow> tdm_refusal C error)"

definition tdm_metadata_replace_raw ::
  "tdm_core \<Rightarrow> TdmMetadataTerm \<Rightarrow> TdmFieldTerm list \<Rightarrow> TdmCommentTerm list \<Rightarrow> nif_reply" where
  "tdm_metadata_replace_raw C current fs comments =
     (case raw_parts fs comments of (fs, comments) \<Rightarrow>
      case metadata_replace_raw C (metadata_as_given current) fs comments of
        Inr metadata \<Rightarrow> ok_list [enc_TdmMetadataTerm (metadata_term C metadata)]
      | Inl error \<Rightarrow> tdm_refusal C error)"

definition tdm_metadata_replace_raw_with_policy ::
  "tdm_core \<Rightarrow> TdmMetadataTerm \<Rightarrow> TdmFieldTerm list \<Rightarrow> TdmCommentTerm list \<Rightarrow> TdmWritePolicyTerm \<Rightarrow> nif_reply" where
  "tdm_metadata_replace_raw_with_policy C current fs comments policy =
     and_then (map_err Err (write_policy policy)) (\<lambda>policy.
     case raw_parts fs comments of (fs, comments) \<Rightarrow>
     case metadata_replace_raw_with_policy C (metadata_as_given current) fs comments policy of
       Inr (metadata, departures) \<Rightarrow>
         ok_list [enc_TdmMetadataTerm (metadata_term C metadata),
           enc_list enc_TdmDepartureTerm (departure_terms C departures)]
     | Inl error \<Rightarrow> tdm_refusal C error)"

end
