(* ===== verification/Tdm_Props.thy ===== *)
theory Tdm_Props
  imports Tdm
begin

text \<open>
  What the tracking data message boundary guarantees: messages survive their term, derived metadata that
  disagrees with its raw fields is refused by name, policies are read axis by axis, and errors, warnings and
  departures reach the caller without a panic and without being confused.
\<close>

section \<open>Conversions and their inverses\<close>

text \<open>The labels of the units, as the core prints them (\<open>TdmUnit::as_str\<close>).\<close>

primrec unit_text :: "TdmUnit \<Rightarrow> string" where
  "unit_text Kilometers = ''km''"
| "unit_text Seconds = ''s''"
| "unit_text RangeUnits = ''RU''"
| "unit_text KilometersPerSecond = ''km/s''"
| "unit_text Hertz = ''Hz''"
| "unit_text HertzPerSecond = ''Hz/s''"
| "unit_text Degrees = ''deg''"
| "unit_text DecibelWatts = ''dBW''"
| "unit_text DecibelHertz = ''dBHz''"
| "unit_text SquareMeters = ''m**2''"
| "unit_text Meters = ''m''"
| "unit_text SecondsPerSecond = ''s/s''"
| "unit_text Percent = ''%''"
| "unit_text Kelvin = ''K''"
| "unit_text Hectopascals = ''hPa''"
| "unit_text TotalElectronContentUnits = ''TECU''"
| "unit_text Dimensionless = ''n/a''"
| "unit_text (Unknown s) = s"

definition tdm_unit_laws :: "tdm_core \<Rightarrow> bool" where
  "tdm_unit_laws C \<longleftrightarrow> tdm_unit_as_str C = unit_text"

text \<open>An unknown unit has no label of a known one.\<close>

definition carried_unit :: "TdmUnit \<Rightarrow> bool" where
  "carried_unit u \<longleftrightarrow> (case u of Unknown s \<Rightarrow> tdm_unit s = Unknown s | _ \<Rightarrow> True)"

lemma tdm_unit_returns: "carried_unit u \<Longrightarrow> tdm_unit (unit_text u) = u"
  by (cases u) (simp_all add: carried_unit_def tdm_unit_def)

lemma observable_returns [simp]: "observable (observable_term v) = v"
  by (cases v) (simp_all add: observable_def observable_term_def)

lemma tdm_plain_returns [simp]:
  "tdm_field (tdm_field_term f) = f" "tdm_comment (tdm_comment_term c) = c" "participant (participant_term p) = p"
  "tdm_path (path_term q) = q"
  by (simp_all add: tdm_field_def tdm_field_term_def tdm_comment_def tdm_comment_term_def participant_def
      participant_term_def tdm_path_def path_term_def)

lemma tdm_plain_maps [simp]:
  "map (tdm_field \<circ> tdm_field_term) fs = fs" "map (tdm_comment \<circ> tdm_comment_term) cs = cs"
  "map (participant \<circ> participant_term) ps = ps" "map (tdm_path \<circ> path_term) qs = qs"
  by (simp_all add: comp_def)

definition carried_metadata :: "TdmMetadata \<Rightarrow> bool" where
  "carried_metadata m \<longleftrightarrow> carried_unit (met_range_units m)"

definition carried_segment :: "TdmSegment \<Rightarrow> bool" where
  "carried_segment s \<longleftrightarrow>
     carried_metadata (seg_metadata s) \<and> list_all (\<lambda>r. carried_unit (rec_unit r)) (sec_records (seg_data s))"

definition carried_tdm :: "Tdm \<Rightarrow> bool" where
  "carried_tdm m \<longleftrightarrow> list_all carried_segment (msg_segments m)"

lemma metadata_returns:
  "tdm_unit_laws C \<Longrightarrow> carried_metadata m \<Longrightarrow> metadata_as_given (metadata_term C m) = m"
  by (simp add: metadata_as_given_def metadata_term_def carried_metadata_def unit_label_def tdm_unit_laws_def
      tdm_unit_returns)

lemma record_returns: "tdm_unit_laws C \<Longrightarrow> carried_unit (rec_unit r) \<Longrightarrow> tdm_record (record_term C r) = r"
  by (simp add: tdm_record_def record_term_def unit_label_def tdm_unit_laws_def tdm_unit_returns)

lemma records_return:
  "tdm_unit_laws C \<Longrightarrow> list_all (\<lambda>r. carried_unit (rec_unit r)) rs \<Longrightarrow> map (tdm_record \<circ> record_term C) rs = rs"
  by (induction rs) (simp_all add: record_returns)

lemma data_section_returns:
  "tdm_unit_laws C \<Longrightarrow> list_all (\<lambda>r. carried_unit (rec_unit r)) (sec_records d) \<Longrightarrow>
   data_section (data_section_term C d) = d"
  by (simp add: data_section_def data_section_term_def records_return)

section \<open>Derived metadata\<close>

text \<open>The raw fields of a block, read leniently, give the block itself, or they do not derive.\<close>

definition derived :: "tdm_core \<Rightarrow> TdmMetadata \<Rightarrow> bool" where
  "derived C m \<longleftrightarrow>
     (case metadata_from_raw_with_policy C (met_fields m) (met_comments m) (write_policy_lenient C) of
        Inl _ \<Rightarrow> True
      | Inr (d, _) \<Rightarrow> d = m)"

text \<open>The six derived properties of the caller's block are those of its raw fields.\<close>

definition agrees :: "tdm_core \<Rightarrow> TdmMetadataTerm \<Rightarrow> bool" where
  "agrees C given \<longleftrightarrow>
     (case metadata_from_raw_with_policy C (map tdm_field (tmt_fields given)) (map tdm_comment (tmt_comments given))
             (write_policy_lenient C) of
        Inl _ \<Rightarrow> True
      | Inr (d, _) \<Rightarrow>
          (let derived = metadata_term C d in
             tmt_participants derived = tmt_participants given \<and> tmt_mode derived = tmt_mode given \<and>
             tmt_paths derived = tmt_paths given \<and> tmt_timetag_ref derived = tmt_timetag_ref given \<and>
             tmt_time_system derived = tmt_time_system given \<and> tmt_range_units derived = tmt_range_units given))"

lemma stale_property_None: "stale_property C given = None \<longleftrightarrow> agrees C given"
  by (auto simp: stale_property_def agrees_def Let_def split: sum.splits prod.splits)

lemma derived_agrees: "derived C m \<Longrightarrow> agrees C (metadata_term C m)"
  by (auto simp: derived_def agrees_def Let_def metadata_term_def comp_def split: sum.splits prod.splits)

definition given_segment :: "TdmSegmentTerm \<Rightarrow> TdmSegment" where
  "given_segment s = \<lparr>seg_metadata = metadata_as_given (tsg_metadata s), seg_data = data_section (tsg_data s)\<rparr>"

lemma tdm_segments_accepted:
  "\<forall>s \<in> set segments. stale_property C (tsg_metadata s) = None \<Longrightarrow>
   tdm_segments C i segments = Inr (map given_segment segments)"
  by (induction segments arbitrary: i) (simp_all add: given_segment_def)

lemma tdm_segments_refused:
  assumes "\<forall>s \<in> set before. stale_property C (tsg_metadata s) = None" "stale_property C (tsg_metadata s) = Some p"
  shows "tdm_segments C i (before @ s # after) =
    Inl (tagged ''metadata_not_derived''
      [(''segment'', enc_u64 (saturating_add1 (i + word_of_nat (length before)))), (''property'', Atom p)])"
  using assms by (induction before arbitrary: i) (simp_all add: ac_simps)

lemma isl_map_ok [simp]: "isl (map_ok f r) \<longleftrightarrow> isl r"
  by (cases r) simp_all

lemma tdm_segments_iff:
  "isl (tdm_segments C i segments) \<longleftrightarrow> (\<exists>s \<in> set segments. stale_property C (tsg_metadata s) \<noteq> None)"
  by (induction segments arbitrary: i) (auto split: option.splits)

section \<open>Policies\<close>

definition leniency_atom :: "TdmLeniency \<Rightarrow> string" where
  "leniency_atom l = (case l of Strict \<Rightarrow> ''strict'' | Forgive \<Rightarrow> ''forgive'')"

definition policy_value :: "string \<Rightarrow> bool" where
  "policy_value v \<longleftrightarrow> v \<in> {''strict'', ''forgive''}"

definition invalid_axis :: "string \<times> string \<Rightarrow> nif_error" where
  "invalid_axis a = ErrorTerm (Tup [Atom ''invalid_policy_value'', Utf8 (fst a), Atom (snd a)])"

lemma leniency_Inr: "leniency v name = Inr l \<longleftrightarrow> v = leniency_atom l"
  by (cases l) (auto simp: leniency_def leniency_atom_def)

lemma leniency_cases:
  "leniency v name = (if policy_value v then Inr (if v = ''strict'' then Strict else Forgive) else Inl (invalid_axis (name, v)))"
  by (simp add: leniency_def policy_value_def invalid_axis_def)

text \<open>The axes of a policy term, in the order in which they are read.\<close>

definition read_axes :: "TdmPolicyTerm \<Rightarrow> (string \<times> string) list" where
  "read_axes t =
     [(''non_printable'', tpo_non_printable t), (''missing_keywords'', tpo_missing_keywords t),
      (''long_lines'', tpo_long_lines t), (''empty_data_sections'', tpo_empty_data_sections t),
      (''record_order'', tpo_record_order t), (''duplicate_records'', tpo_duplicate_records t),
      (''keyword_order'', tpo_keyword_order t), (''final_terminator'', tpo_final_terminator t)]"

definition write_axes :: "TdmWritePolicyTerm \<Rightarrow> (string \<times> string) list" where
  "write_axes t =
     [(''non_printable'', twp_non_printable t), (''missing_keywords'', twp_missing_keywords t),
      (''long_lines'', twp_long_lines t), (''empty_data_sections'', twp_empty_data_sections t),
      (''record_order'', twp_record_order t), (''duplicate_records'', twp_duplicate_records t),
      (''keyword_order'', twp_keyword_order t), (''final_terminator'', twp_final_terminator t),
      (''repeated_keywords'', twp_repeated_keywords t)]"

definition read_policy_axes :: "TdmPolicy \<Rightarrow> TdmLeniency list" where
  "read_policy_axes p =
     [pol_non_printable p, pol_missing_keywords p, pol_long_lines p, pol_empty_data_sections p, pol_record_order p,
      pol_duplicate_records p, pol_keyword_order p, pol_final_terminator p]"

definition write_policy_axes :: "TdmWritePolicy \<Rightarrow> TdmLeniency list" where
  "write_policy_axes p =
     [wpol_non_printable p, wpol_missing_keywords p, wpol_long_lines p, wpol_empty_data_sections p,
      wpol_record_order p, wpol_duplicate_records p, wpol_keyword_order p, wpol_final_terminator p,
      wpol_repeated_keywords p]"

lemma read_policy_Inr: "read_policy t = Inr p \<longleftrightarrow> map snd (read_axes t) = map leniency_atom (read_policy_axes p)"
  by (cases p) (auto simp: read_policy_def and_then_eq_Inr leniency_Inr read_axes_def read_policy_axes_def)

lemma write_policy_Inr: "write_policy t = Inr p \<longleftrightarrow> map snd (write_axes t) = map leniency_atom (write_policy_axes p)"
  by (cases p) (auto simp: write_policy_def and_then_eq_Inr leniency_Inr write_axes_def write_policy_axes_def)

lemma read_policy_Inl:
  "read_policy t = Inl e \<longleftrightarrow> map_option invalid_axis (find (\<lambda>a. \<not> policy_value (snd a)) (read_axes t)) = Some e"
  by (simp add: read_policy_def leniency_cases read_axes_def)

lemma write_policy_Inl:
  "write_policy t = Inl e \<longleftrightarrow> map_option invalid_axis (find (\<lambda>a. \<not> policy_value (snd a)) (write_axes t)) = Some e"
  by (simp add: write_policy_def leniency_cases write_axes_def)

section \<open>Errors\<close>

lemma tdm_declared_atoms [simp]:
  "tdm_atom ''line'' = Inr ''line''" "tdm_atom ''detail'' = Inr ''detail''"
  "tdm_atom ''text'' = Inr ''text''" "tdm_atom ''keyword'' = Inr ''keyword''"
  "tdm_atom ''column'' = Inr ''column''" "tdm_atom ''character'' = Inr ''character''"
  "tdm_atom ''length'' = Inr ''length''" "tdm_atom ''segment'' = Inr ''segment''"
  "tdm_atom ''epoch'' = Inr ''epoch''" "tdm_atom ''reason'' = Inr ''reason''"
  "tdm_atom ''index'' = Inr ''index''" "tdm_atom ''first'' = Inr ''first''"
  "tdm_atom ''second'' = Inr ''second''" "tdm_atom ''value'' = Inr ''value''"
  "tdm_atom ''kind'' = Inr ''kind''" "tdm_atom ''message'' = Inr ''message''"
  "tdm_atom ''section'' = Inr ''section''" "tdm_atom ''no_segments'' = Inr ''no_segments''"
  "tdm_atom ''malformed_line'' = Inr ''malformed_line''"
  "tdm_atom ''non_printable_character'' = Inr ''non_printable_character''"
  "tdm_atom ''line_too_long'' = Inr ''line_too_long''"
  "tdm_atom ''malformed_epoch'' = Inr ''malformed_epoch''"
  "tdm_atom ''records_out_of_order'' = Inr ''records_out_of_order''"
  "tdm_atom ''duplicate_record'' = Inr ''duplicate_record''"
  "tdm_atom ''unterminated_final_line'' = Inr ''unterminated_final_line''"
  "tdm_atom ''unwritable'' = Inr ''unwritable''"
  "tdm_atom ''keyword_out_of_order'' = Inr ''keyword_out_of_order''"
  "tdm_atom ''undefined_participant'' = Inr ''undefined_participant''"
  "tdm_atom ''conflicting_keyword'' = Inr ''conflicting_keyword''"
  "tdm_atom ''repeated_keyword'' = Inr ''repeated_keyword''"
  "tdm_atom ''undefined_keyword'' = Inr ''undefined_keyword''"
  "tdm_atom ''missing_keyword'' = Inr ''missing_keyword''"
  "tdm_atom ''empty_data_section'' = Inr ''empty_data_section''"
  "tdm_atom ''empty_value'' = Inr ''empty_value''" "tdm_atom ''invalid_version'' = Inr ''invalid_version''"
  "tdm_atom ''keyword_not_assignable'' = Inr ''keyword_not_assignable''"
  "tdm_atom ''malformed_record'' = Inr ''malformed_record''"
  "tdm_atom ''invalid_field'' = Inr ''invalid_field''" "tdm_atom ''unhandled'' = Inr ''unhandled''"
  by (simp_all add: tdm_atom_def tdm_atoms_def)

lemma json_usize_term: "error_field_term key (json_usize n) = Inr (Integer (uint n))"
  using uint_range_size [of n] by (simp add: error_field_term_def json_usize_def in_ty_def word_size)

lemma json_option_term:
  "error_field_term key (json_option json_usize x) = Inr (enc_option (\<lambda>n. Integer (uint n)) x)"
  by (cases x) (simp_all add: json_option_def enc_option_def json_usize_term, simp add: error_field_term_def)

lemma json_u8_term: "error_field_term key (JNumber (uint (n :: u8))) = Inr (Integer (uint n))"
  using uint_range_size [of n] by (simp add: error_field_term_def in_ty_def word_size)

lemma json_string_term:
  "error_field_term key (JString t) =
     Inr (if key = ''section'' then section_term t else if key = ''kind'' then kind_term t else Utf8 t)"
  by (simp add: error_field_term_def)

lemmas json_terms = json_usize_term json_option_term json_u8_term json_string_term

text \<open>The pairs that an error of the contract leaves as.\<close>

definition error_pairs :: "tdm_core \<Rightarrow> TdmError \<Rightarrow> (string \<times> nterm) list" where
  "error_pairs C e = map (\<lambda>(k, v). (k, projr (error_field_term k v))) (snd (error_contract C e))"

lemma tdm_error_term_pairs: "tdm_error_term C e = Inr (tagged (fst (error_contract C e)) (error_pairs C e))"
  by (cases e) (simp_all add: tdm_error_term_def error_contract_def error_pairs_def json_terms)

lemma map_of_foldl_map_put:
  "map_of (foldl (\<lambda>m (k, v). map_put k v m) d ps) = map_of d ++ map_of (rev ps)"
  by (induction ps arbitrary: d) (auto simp: map_add_def split: option.splits)

lemma tagged_eq: "tagged t ps = tagged t' ps' \<Longrightarrow> t = t' \<and> map_of (rev ps) = map_of (rev ps')"
  using map_of_foldl_map_put [of "[]" ps] map_of_foldl_map_put [of "[]" ps'] by (simp add: tagged_def)

lemma section_term_inj [simp]: "section_term a = section_term b \<longleftrightarrow> a = b"
  by (simp add: section_term_def)

text \<open>A kind that the binding does not name is none of the named ones.\<close>

definition named_kind :: "TdmInputErrorKind \<Rightarrow> bool" where
  "named_kind k \<longleftrightarrow> (case k of OtherKind s \<Rightarrow> kind_term s = Utf8 s | _ \<Rightarrow> True)"

definition named_error :: "TdmError \<Rightarrow> bool" where
  "named_error e \<longleftrightarrow> (case e of OtherError s \<Rightarrow> False | InvalidField keyword k \<Rightarrow> named_kind k | _ \<Rightarrow> True)"

text \<open>Tags tell the variants apart.\<close>

primrec error_index :: "TdmError \<Rightarrow> nat" where
  "error_index NoSegments = 0"
| "error_index (Section a b) = 1"
| "error_index (MalformedLine a b) = 2"
| "error_index (NonPrintableCharacter a b c d) = 3"
| "error_index (LineTooLong a b c) = 4"
| "error_index (MalformedEpoch a b c) = 5"
| "error_index (RecordsOutOfOrder a b c) = 6"
| "error_index (DuplicateRecord a b c) = 7"
| "error_index (UnterminatedFinalLine a) = 8"
| "error_index (Unwritable a b) = 9"
| "error_index (KeywordOutOfOrder a b c) = 10"
| "error_index (UndefinedParticipant a b c) = 11"
| "error_index (ConflictingKeyword a b c d e) = 12"
| "error_index (RepeatedKeyword a b c) = 13"
| "error_index (UndefinedKeyword a b c) = 14"
| "error_index (MissingKeyword a b) = 15"
| "error_index (EmptyDataSection a) = 16"
| "error_index (EmptyValue a b) = 17"
| "error_index (InvalidVersion a b) = 18"
| "error_index (KeywordNotAssignable a) = 19"
| "error_index (MalformedRecord a b) = 20"
| "error_index (InvalidField a b) = 21"
| "error_index (OtherError a) = 22"

definition error_tags :: "string list" where
  "error_tags =
     [''no_segments'', ''section'', ''malformed_line'', ''non_printable_character'', ''line_too_long'',
      ''malformed_epoch'', ''records_out_of_order'', ''duplicate_record'', ''unterminated_final_line'',
      ''unwritable'', ''keyword_out_of_order'', ''undefined_participant'', ''conflicting_keyword'',
      ''repeated_keyword'', ''undefined_keyword'', ''missing_keyword'', ''empty_data_section'',
      ''empty_value'', ''invalid_version'', ''keyword_not_assignable'', ''malformed_record'',
      ''invalid_field'', ''unhandled'']"

lemma error_tag: "fst (error_contract C e) = error_tags ! error_index e"
  by (cases e; simp add: error_contract_def error_tags_def)

lemma error_index_range: "error_index e < length error_tags"
  by (cases e; simp add: error_tags_def)

lemma error_tags_distinct: "distinct error_tags"
  by (simp add: error_tags_def)

lemma error_tag_inj: "fst (error_contract C e) = fst (error_contract C e') \<Longrightarrow> error_index e = error_index e'"
  using error_index_range [of e] error_index_range [of e'] error_tags_distinct unfolding error_tag by (simp add: nth_eq_iff_index_eq)

definition error_keys :: "string list" where
  "error_keys =
     [''line'', ''detail'', ''text'', ''keyword'', ''column'', ''character'', ''length'', ''segment'',
      ''epoch'', ''reason'', ''index'', ''first'', ''second'', ''value'', ''kind'', ''section'']"

lemma kind_term_inj: "kind_term a = kind_term b \<longleftrightarrow> a = b"
  by (simp add: kind_term_def)

lemma kind_debug_inj: "named_kind k \<Longrightarrow> named_kind k' \<Longrightarrow> kind_debug k = kind_debug k' \<Longrightarrow> k = k'"
  by (cases k; cases k'; auto simp: named_kind_def kind_term_def)

lemma enc_option_uint_inj [simp]:
  "enc_option (\<lambda>n. Integer (uint n)) x = enc_option (\<lambda>n. Integer (uint n)) y \<longleftrightarrow> x = y"
  by (cases x; cases y; simp add: enc_option_def word_uint_eq_iff)

lemma error_terms_inj:
  assumes "named_error e" "named_error e'" "tdm_error_term C e = tdm_error_term C e'"
  shows "e = e'"
proof -
  have eq: "fst (error_contract C e) = fst (error_contract C e')"
    "map_of (rev (error_pairs C e)) = map_of (rev (error_pairs C e'))"
    using assms(3) tagged_eq unfolding tdm_error_term_pairs by blast+
  have i: "error_index e = error_index e'" by (rule error_tag_inj [OF eq(1)])
  have keys: "map (map_of (rev (error_pairs C e))) error_keys = map (map_of (rev (error_pairs C e'))) error_keys"
    by (simp only: eq)
  show ?thesis
    by (cases e; cases e';
        ((insert i, simp; fail)
        | (insert keys assms(1,2) kind_debug_inj, simp add: error_pairs_def error_contract_def json_terms
            error_keys_def kind_term_inj named_error_def word_uint_eq_iff)))
qed

section \<open>Warnings and departures\<close>

definition named_warning :: "TdmWarning \<Rightarrow> bool" where
  "named_warning w \<longleftrightarrow> (case w of WarnOther s \<Rightarrow> False | _ \<Rightarrow> True)"

definition named_departure :: "TdmDeparture \<Rightarrow> bool" where
  "named_departure d \<longleftrightarrow> (case d of DepOther s \<Rightarrow> False | _ \<Rightarrow> True)"

lemma warning_terms_inj:
  "named_warning w \<Longrightarrow> named_warning w' \<Longrightarrow> warning_term C w = warning_term C w' \<Longrightarrow> w = w'"
  by (cases w; cases w'; simp add: named_warning_def warning_term_def warning_base_def Let_def)

lemma departure_terms_inj:
  "named_departure d \<Longrightarrow> named_departure d' \<Longrightarrow> tdm_departure_term C d = tdm_departure_term C d' \<Longrightarrow> d = d'"
  by (cases d; cases d'; simp add: named_departure_def tdm_departure_term_def departure_base_def Let_def)

section \<open>A core for the witnesses\<close>

definition plain_metadata :: "TdmField list \<Rightarrow> TdmComment list \<Rightarrow> TdmMetadata" where
  "plain_metadata fs cs =
     \<lparr>met_comments = cs, met_fields = fs, met_participants = [], met_mode = None, met_paths = [],
      met_timetag_ref = None, met_time_system = None, met_range_units = Kilometers\<rparr>"

definition lenient_policy :: TdmWritePolicy where
  "lenient_policy =
     \<lparr>wpol_non_printable = Forgive, wpol_missing_keywords = Forgive, wpol_long_lines = Forgive,
      wpol_empty_data_sections = Forgive, wpol_record_order = Forgive, wpol_duplicate_records = Forgive,
      wpol_keyword_order = Forgive, wpol_final_terminator = Forgive, wpol_repeated_keywords = Forgive\<rparr>"

definition plain_core :: tdm_core where
  "plain_core = tdm_core unit_text (\<lambda>_. []) (\<lambda>_. []) (\<lambda>_. []) (\<lambda>_. Inl NoSegments) (\<lambda>_ _. Inl NoSegments)
     (\<lambda>_. Inr []) (\<lambda>_ _. Inr ([], [])) (\<lambda>fs cs. Inr (plain_metadata fs cs))
     (\<lambda>fs cs _. Inr (plain_metadata fs cs, [])) (\<lambda>_ fs cs. Inr (plain_metadata fs cs))
     (\<lambda>_ fs cs _. Inr (plain_metadata fs cs, [])) lenient_policy"

definition plain_tdm :: "TdmMetadata list \<Rightarrow> Tdm" where
  "plain_tdm ms =
     \<lparr>msg_version = ''2.0'', msg_comments = [], msg_creation_date = None, msg_originator = None, msg_message_id = None,
      msg_header_fields = [],
      msg_segments = map (\<lambda>m. \<lparr>seg_metadata = m, seg_data = \<lparr>sec_comments = [], sec_records = []\<rparr>\<rparr>) ms\<rparr>"

lemmas plain_simps = plain_core_def plain_tdm_def plain_metadata_def tdm_unit_laws_def carried_tdm_def
  carried_segment_def carried_metadata_def carried_unit_def derived_def

section \<open>Properties\<close>

text \<open>C22. A message survives its term: what the library hands out for a message whose units have their own
  labels and whose metadata is what its raw fields derive to, handed back in, is accepted and is the same
  message, provided the core prints the labels that the binding reads.\<close>

theorem tdm_message_round_trip:
  assumes "tdm_unit_laws C" "carried_tdm m" "list_all (\<lambda>s. derived C (seg_metadata s)) (msg_segments m)"
  shows "tdm C (tdm_term C m) = Inr m"
proof -
  let ?segments = "map (segment_term C) (msg_segments m)"
  have "\<forall>s \<in> set ?segments. stale_property C (tsg_metadata s) = None"
    using assms(3) by (auto simp: stale_property_None segment_term_def list_all_iff intro!: derived_agrees)
  then have "tdm_segments C 0 ?segments = Inr (map given_segment ?segments)" by (rule tdm_segments_accepted)
  moreover have "map given_segment ?segments = msg_segments m"
    using assms(1,2) by (auto simp: given_segment_def segment_term_def carried_tdm_def carried_segment_def list_all_iff
        metadata_returns data_section_returns intro!: map_idI)
  ultimately show ?thesis by (simp add: tdm_def tdm_term_def)
qed

theorem tdm_message_round_trip_witness:
  "tdm plain_core (tdm_term plain_core (plain_tdm [plain_metadata [] []])) = Inr (plain_tdm [plain_metadata [] []])"
  by (rule tdm_message_round_trip) (simp_all add: plain_simps)

text \<open>C23. A message is accepted exactly when, in every segment whose raw fields derive, all six derived
  properties are those of the raw fields; then every part of it reaches the core as given.\<close>

theorem tdm_accepts_exactly_derived:
  "(\<exists>m. tdm C v = Inr m) \<longleftrightarrow> (\<forall>s \<in> set (tmg_segments v). agrees C (tsg_metadata s))"
  using tdm_segments_iff [of C 0 "tmg_segments v"]
  by (cases "tdm_segments C 0 (tmg_segments v)") (auto simp: tdm_def stale_property_None simp flip: stale_property_None)

theorem tdm_accepts_exactly_derived_witness:
  "\<exists>m. tdm plain_core (tdm_term plain_core (plain_tdm [plain_metadata [] []])) = Inr m"
  unfolding tdm_accepts_exactly_derived
  by (simp add: plain_simps agrees_def tdm_term_def segment_term_def metadata_term_def)

text \<open>C24. A refused message names the first segment with a stale property, counted from one without
  wrapping, and the first stale property of that segment.\<close>

theorem tdm_names_first_stale:
  assumes "tmg_segments v = before @ s # after" "length before < 2 ^ 64 - 1"
    "list_all (\<lambda>s. agrees C (tsg_metadata s)) before" "stale_property C (tsg_metadata s) = Some p"
  shows "tdm C v = Inl (tagged ''metadata_not_derived''
    [(''segment'', Integer (int (length before) + 1)), (''property'', Atom p)])"
proof -
  have "unat (word_of_nat (length before) :: u64) = length before" using assms(2) by (simp add: unat_of_nat)
  then have n: "uint (word_of_nat (length before) :: u64) = int (length before)" by (simp add: uint_nat)
  then have "(word_of_nat (length before) :: u64) \<noteq> - 1" using assms(2) by (auto simp: unsigned_minus_1_eq_mask mask_eq_exp_minus_1)
  then have "enc_u64 (saturating_add1 (word_of_nat (length before))) = Integer (int (length before) + 1)"
    using n assms(2) by (simp add: saturating_add1_def enc_u64_def uint_word_ariths)
  moreover have "\<forall>s \<in> set before. stale_property C (tsg_metadata s) = None"
    using assms(3) by (simp add: stale_property_None list_all_iff)
  ultimately show ?thesis using assms(1,4) tdm_segments_refused [of before C s p 0 after] by (simp add: tdm_def)
qed

text \<open>A caller edited the mode of the second segment without its field.\<close>

definition edited_message :: TdmTerm where
  "edited_message = tdm_term plain_core (plain_tdm [plain_metadata [] [], (plain_metadata [] [])\<lparr>met_mode := Some ''SEQUENTIAL''\<rparr>])"

theorem tdm_names_first_stale_witness:
  "tdm plain_core edited_message =
     Inl (tagged ''metadata_not_derived'' [(''segment'', Integer 2), (''property'', Atom ''mode'')])"
  using tdm_names_first_stale [where C = plain_core and v = edited_message and before = "[hd (tmg_segments edited_message)]"
      and s = "tmg_segments edited_message ! 1" and after = "[]" and p = "''mode''"]
  by (simp add: edited_message_def tdm_term_def segment_term_def metadata_term_def plain_simps agrees_def
      stale_property_def)

text \<open>Reader policies are read axis by axis: a policy term is accepted exactly when every axis is
  \<open>strict\<close> or \<open>forgive\<close>, with each axis of the policy as the term has it, and a refusal names the first axis
  that has another value, with that value.\<close>

theorem tdm_read_policy_exact:
  "(read_policy t = Inr p \<longleftrightarrow> map snd (read_axes t) = map leniency_atom (read_policy_axes p)) \<and>
   (read_policy t = Inl e \<longleftrightarrow>
      map_option invalid_axis (find (\<lambda>a. snd a \<notin> {''strict'', ''forgive''}) (read_axes t)) = Some e)"
  using read_policy_Inr [of t p] read_policy_Inl [of t e] by (simp add: policy_value_def)

text \<open>The same for writer policies, over their nine axes.\<close>

theorem tdm_write_policy_exact:
  "(write_policy t = Inr p \<longleftrightarrow> map snd (write_axes t) = map leniency_atom (write_policy_axes p)) \<and>
   (write_policy t = Inl e \<longleftrightarrow>
      map_option invalid_axis (find (\<lambda>a. snd a \<notin> {''strict'', ''forgive''}) (write_axes t)) = Some e)"
  using write_policy_Inr [of t p] write_policy_Inl [of t e] by (simp add: policy_value_def)

text \<open>C25. Every core error becomes a term without a panic: its tag and the names of its fields are declared
  atoms and its numbers fit. Two errors of named variants have the same term only when they are equal, so no
  field is lost.\<close>

theorem tdm_errors_encode_losslessly:
  assumes "named_error e" "named_error e'"
  shows "(\<exists>t. tdm_error_term C e = Inr t) \<and> (tdm_error_term C e = tdm_error_term C e' \<longleftrightarrow> e = e')"
  using tdm_error_term_pairs [of C e] error_terms_inj [OF assms, of C] by blast

theorem tdm_errors_encode_losslessly_witness:
  "tdm_error_term plain_core (RepeatedKeyword None ''START_TIME'' ''metadata'') \<noteq>
   tdm_error_term plain_core (RepeatedKeyword None ''START_TIME'' ''header'')"
  using tdm_errors_encode_losslessly [of "RepeatedKeyword None ''START_TIME'' ''metadata''"
      "RepeatedKeyword None ''START_TIME'' ''header''" plain_core]
  by (simp add: named_error_def)

text \<open>C26. No TDM call panics: whatever the core answers, the caller gets a reply or the refusal of a policy.\<close>

theorem tdm_calls_reply:
  "tdm_parse_kvn C t \<noteq> Inl Panic \<and> tdm_parse_kvn_with_policy C t rp \<noteq> Inl Panic \<and> tdm_encode_kvn C v \<noteq> Inl Panic \<and>
   tdm_encode_kvn_with_policy C v wp \<noteq> Inl Panic \<and> tdm_metadata_from_raw C fs cs \<noteq> Inl Panic \<and>
   tdm_metadata_from_raw_with_policy C fs cs wp \<noteq> Inl Panic \<and> tdm_metadata_replace_raw C m fs cs \<noteq> Inl Panic \<and>
   tdm_metadata_replace_raw_with_policy C m fs cs wp \<noteq> Inl Panic"
proof -
  have refusal: "tdm_refusal C e \<noteq> Inl Panic" for e by (simp add: tdm_refusal_def tdm_error_term_pairs)
  have [simp]: "ok_list ts \<noteq> Inl Panic" "tdm_refusal C e \<noteq> Inl Panic" for ts e
    by (simp_all add: ok_list_def refusal)
  have policy: "and_then (map_err Err r) k \<noteq> Inl Panic" if "\<And>p. k p \<noteq> Inl Panic"
    for r :: "'p NifResult" and k :: "'p \<Rightarrow> nif_reply"
    using that by (cases r) simp_all
  have "tdm_parse_kvn C t \<noteq> Inl Panic" by (simp add: tdm_parse_kvn_def split: sum.splits)
  moreover have "tdm_parse_kvn_with_policy C t rp \<noteq> Inl Panic"
    unfolding tdm_parse_kvn_with_policy_def by (rule policy) (simp split: sum.splits prod.splits)
  moreover have "tdm_encode_kvn C v \<noteq> Inl Panic" by (simp add: tdm_encode_kvn_def split: sum.splits)
  moreover have "tdm_encode_kvn_with_policy C v wp \<noteq> Inl Panic"
    unfolding tdm_encode_kvn_with_policy_def by (rule policy) (simp split: sum.splits prod.splits)
  moreover have "tdm_metadata_from_raw C fs cs \<noteq> Inl Panic" by (simp add: tdm_metadata_from_raw_def split: sum.splits prod.splits)
  moreover have "tdm_metadata_from_raw_with_policy C fs cs wp \<noteq> Inl Panic"
    unfolding tdm_metadata_from_raw_with_policy_def by (rule policy) (simp split: sum.splits prod.splits)
  moreover have "tdm_metadata_replace_raw C m fs cs \<noteq> Inl Panic"
    by (simp add: tdm_metadata_replace_raw_def split: sum.splits prod.splits)
  moreover have "tdm_metadata_replace_raw_with_policy C m fs cs wp \<noteq> Inl Panic"
    unfolding tdm_metadata_replace_raw_with_policy_def by (rule policy) (simp split: sum.splits prod.splits)
  ultimately show ?thesis by blast
qed

text \<open>Warnings and departures of named variants are told apart by their structures.\<close>

theorem tdm_remarks_distinguished:
  "(named_warning w \<and> named_warning w' \<and> warning_term C w = warning_term C w' \<longrightarrow> w = w') \<and>
   (named_departure d \<and> named_departure d' \<and> tdm_departure_term C d = tdm_departure_term C d' \<longrightarrow> d = d')"
  using warning_terms_inj departure_terms_inj by blast

end
