(* ===== verification/Terrain.thy ===== *)
theory Terrain
  imports Resources
begin

text \<open>
  \<open>native/sidereon_nif/src/terrain_store.rs\<close> and the DTED calls of \<open>astro_phase_b.rs\<close>: terrain stores behind a
  \<open>RwLock\<close>, 15-minute geoid grids, DTED trees behind a mutex, and single DTED tiles. A lookup runs under the
  read lock, which a panic does not poison (\<open>std::sync::RwLock\<close>); \<open>verify\<close> takes the write lock, which a panic
  does poison, and the \<open>expect\<close> on a poisoned lock panics again. Core values are of the type \<open>'o\<close>; a core
  operation under a lock may panic (\<open>None\<close>). Integers of the error variants are \<open>int\<close>.
\<close>

section \<open>Core structures\<close>

datatype DtedHorizontalDatum = Wgs84 | Wgs72 | Unstated | OtherDatum string

datatype DtedTileError =
    TileIo string string
  | TooShort string
  | MissingUhl1 string
  | InvalidEncoding string
  | TileInvalidField string
  | TileInvalidDimensions string int int
  | Truncated string int int
  | Outside f64 f64 f64 f64
  | PostingIndexOutOfBounds int int
  | MissingDataSentinel int
  | TileChecksum int int int
  | EmptyCoordinate
  | InvalidHemisphere string
  | NegativePostingIndex int
  | CoordinateOutOfRange string string
  | WrongHemisphere string string string
  | OriginNotWholeDegree string string
  | IntervalCountMismatch string int int
  | ProfileLongitudeCountMismatch int int
  | UnsupportedPartialProfile int int
  | NullPosting int int
  | OtherTileError string

text \<open>The variants of \<open>sidereon_core::Error\<close> that the lookups name, and the others with their text.\<close>

datatype CoreError =
    UnknownTerrainElevation int int int int
  | NonWgs84TerrainTile int int DtedHorizontalDatum
  | MissingTerrainTile int int
  | TerrainTile int int DtedTileError
  | TerrainTileOrigin string int int int int
  | CoreInvalidInput string
  | CoreParse string
  | OtherCoreError string

record TerrainTileId =
  tile_lat_index :: i32
  tile_lon_index :: i32

datatype TerrainStoreError =
    StoreIo string string
  | StoreParse string
  | UnsupportedVersion int
  | UnsupportedDatum int
  | DuplicateTile int int
  | TileIdMismatch string TerrainTileId TerrainTileId
  | StoreChecksum int int u64 u64
  | AttestedChecksumMismatch u64 u64
  | TileIdOutOfRange int int
  | TileBoundsMismatch int int string
  | NonWgs84Tile string DtedHorizontalDatum
  | StoreTile string DtedTileError
  | OtherStoreError string

datatype GeoidError =
    GeoidInvalidDimensions int int
  | GeoidInvalidSpacing string
  | GeoidNonFiniteValue int
  | GeoidParse string

datatype TerrainDatumError =
    DatumTerrain CoreError
  | DatumGeoid GeoidError
  | DatumIo string string
  | MissingEgm96Dac string string

datatype VerticalDatum = Egm96MslOrthometric

datatype DigestProvenance = Verified | Attested

datatype DtedInterpolation = NearestPosting | Bilinear

text \<open>Lookup options are the core's defaults with the interpolation set, so that is all that varies.\<close>

record DtedLookupOptions =
  opt_interpolation :: DtedInterpolation

datatype OrthometricHeightM = OrthometricHeightM (ortho_metres: f64)

datatype EllipsoidalHeightM = EllipsoidalHeightM (ellip_metres: f64)

datatype 'o TerrainGeoidModel = Egm96OneDegree | Egm96FifteenMinute 'o

record TerrainStoreTileIndex =
  ti_lat_index :: i32
  ti_lon_index :: i32
  ti_min_longitude_deg :: f64
  ti_min_latitude_deg :: f64
  ti_max_longitude_deg :: f64
  ti_max_latitude_deg :: f64
  ti_lon_count :: u32
  ti_lat_count :: u32
  ti_data_offset :: u64
  ti_data_len :: u64
  ti_checksum64 :: u64
  ti_vertical_datum :: VerticalDatum

record TerrainStoreTileIndexTerm =
  tit_lat_index :: i32
  tit_lon_index :: i32
  tit_min_longitude_deg :: f64
  tit_min_latitude_deg :: f64
  tit_max_longitude_deg :: f64
  tit_max_latitude_deg :: f64
  tit_lon_count :: u32
  tit_lat_count :: u32
  tit_data_offset :: u64
  tit_data_len :: u64
  tit_checksum64 :: u64
  tit_vertical_datum :: string

record DtedTileListEntryTerm =
  tle_tile_id :: "i32 \<times> i32"
  tle_path :: string

record DtedTileListEntry =
  entry_id :: TerrainTileId
  entry_path :: string

text \<open>The files that conversions read and write are the core's; what is written shows in nothing here.\<close>

datatype (plugins only: code) convert_core = convert_core
  (dted_tree_to_mmap_store: "string \<Rightarrow> TerrainStoreError + u8 list")
  (write_dted_tree_to_mmap_store: "string \<Rightarrow> string \<Rightarrow> TerrainStoreError + unit")
  (dted_tile_list_to_mmap_store: "DtedTileListEntry list \<Rightarrow> TerrainStoreError + u8 list")
  (write_dted_tile_list_to_mmap_store: "DtedTileListEntry list \<Rightarrow> string \<Rightarrow> TerrainStoreError + unit")
  (terrain_store_checksum64: "u8 list \<Rightarrow> u64")

datatype (plugins only: code) 'o store_core = store_core
  (mmap_from_vec: "u8 list \<Rightarrow> TerrainStoreError + 'o")
  (mmap_from_path: "string \<Rightarrow> TerrainStoreError + 'o")
  (mmap_from_path_attested: "string \<Rightarrow> u64 \<Rightarrow> TerrainStoreError + 'o")
  (orthometric_height_m_with_options:
    "'o \<Rightarrow> f64 \<Rightarrow> f64 \<Rightarrow> DtedLookupOptions \<Rightarrow> (CoreError + OrthometricHeightM) option")
  (orthometric_height_batch:
    "'o \<Rightarrow> (f64 \<times> f64) list \<Rightarrow> DtedLookupOptions \<Rightarrow> (CoreError + OrthometricHeightM) list option")
  (ellipsoidal_height_m_with_options:
    "'o \<Rightarrow> f64 \<Rightarrow> f64 \<Rightarrow> DtedLookupOptions \<Rightarrow> (TerrainDatumError + EllipsoidalHeightM) option")
  (ellipsoidal_height_m_with_model:
    "'o \<Rightarrow> f64 \<Rightarrow> f64 \<Rightarrow> DtedLookupOptions \<Rightarrow> 'o TerrainGeoidModel \<Rightarrow> (TerrainDatumError + EllipsoidalHeightM) option")
  (mmap_verify: "'o \<Rightarrow> ((TerrainStoreError + unit) \<times> 'o) option")

datatype (plugins only: code) 'o inspect_core = inspect_core
  (mmap_tile_index: "'o \<Rightarrow> TerrainStoreTileIndex list")
  (mmap_vertical_datum: "'o \<Rightarrow> VerticalDatum")
  (mmap_digest_provenance: "'o \<Rightarrow> DigestProvenance")
  (mmap_checksum64: "'o \<Rightarrow> u64")
  (mmap_to_bytes: "'o \<Rightarrow> u8 list")
  (geoid_from_bytes: "u8 list \<Rightarrow> TerrainDatumError + 'o")
  (geoid_from_path: "string \<Rightarrow> TerrainDatumError + 'o")
  (to_ellipsoidal_height_deg:
    "OrthometricHeightM \<Rightarrow> f64 \<Rightarrow> f64 \<Rightarrow> 'o TerrainGeoidModel \<Rightarrow> TerrainDatumError + EllipsoidalHeightM")
  (to_ellipsoidal_height_rad:
    "OrthometricHeightM \<Rightarrow> f64 \<Rightarrow> f64 \<Rightarrow> 'o TerrainGeoidModel \<Rightarrow> TerrainDatumError + EllipsoidalHeightM")

datatype (plugins only: code) 'o dted_core = dted_core
  (dted_terrain_new: "string \<Rightarrow> 'o")
  (dted_height_m_with_options: "'o \<Rightarrow> f64 \<Rightarrow> f64 \<Rightarrow> DtedLookupOptions \<Rightarrow> ((CoreError + f64) \<times> 'o) option")
  (dted_height_batch: "'o \<Rightarrow> (f64 \<times> f64) list \<Rightarrow> DtedLookupOptions \<Rightarrow> ((CoreError + f64) list \<times> 'o) option")
  (dted_tile_from_path: "string \<Rightarrow> DtedTileError + 'o")
  (dted_tile_get_elevation: "'o \<Rightarrow> f64 \<Rightarrow> f64 \<Rightarrow> DtedTileError + int")
  (dted_tile_horizontal_datum: "'o \<Rightarrow> DtedHorizontalDatum")

section \<open>Error terms\<close>

definition horizontal_datum_term :: "DtedHorizontalDatum \<Rightarrow> nterm" where
  "horizontal_datum_term datum =
     (case datum of
        Wgs84 \<Rightarrow> Atom ''wgs84''
      | Wgs72 \<Rightarrow> Atom ''wgs72''
      | Unstated \<Rightarrow> Atom ''unstated''
      | OtherDatum t \<Rightarrow> Tup [Atom ''other'', Utf8 t])"

definition dted_tile_error_term :: "DtedTileError \<Rightarrow> nterm" where
  "dted_tile_error_term error =
     (case error of
        TileIo path message \<Rightarrow> Tup [Atom ''io'', Tup [Utf8 path, Utf8 message]]
      | TooShort path \<Rightarrow> Tup [Atom ''too_short'', Utf8 path]
      | MissingUhl1 path \<Rightarrow> Tup [Atom ''missing_uhl1'', Utf8 path]
      | InvalidEncoding message \<Rightarrow> Tup [Atom ''invalid_encoding'', Utf8 message]
      | TileInvalidField message \<Rightarrow> Tup [Atom ''invalid_field'', Utf8 message]
      | TileInvalidDimensions path lon_count lat_count \<Rightarrow>
          Tup [Atom ''invalid_dimensions'', Tup [Utf8 path, Integer lon_count, Integer lat_count]]
      | Truncated path actual expected \<Rightarrow> Tup [Atom ''truncated'', Tup [Utf8 path, Integer actual, Integer expected]]
      | Outside longitude latitude origin_longitude origin_latitude \<Rightarrow>
          Tup [Atom ''outside'', Tup [Float longitude, Float latitude, Float origin_longitude, Float origin_latitude]]
      | PostingIndexOutOfBounds longitude_index latitude_index \<Rightarrow>
          Tup [Atom ''posting_index_out_of_bounds'', Tup [Integer longitude_index, Integer latitude_index]]
      | MissingDataSentinel longitude_index \<Rightarrow> Tup [Atom ''missing_data_sentinel'', Integer longitude_index]
      | TileChecksum longitude_index checksum added \<Rightarrow>
          Tup [Atom ''checksum'', Tup [Integer longitude_index, Integer checksum, Integer added]]
      | EmptyCoordinate \<Rightarrow> Atom ''empty_coordinate''
      | InvalidHemisphere hemisphere \<Rightarrow> Tup [Atom ''invalid_hemisphere'', Utf8 hemisphere]
      | NegativePostingIndex i \<Rightarrow> Tup [Atom ''negative_posting_index'', Integer i]
      | CoordinateOutOfRange field t \<Rightarrow> Tup [Atom ''coordinate_out_of_range'', Tup [Utf8 field, Utf8 t]]
      | WrongHemisphere field hemisphere expected \<Rightarrow>
          Tup [Atom ''wrong_hemisphere'', Tup [Utf8 field, Utf8 hemisphere, Utf8 expected]]
      | OriginNotWholeDegree field t \<Rightarrow> Tup [Atom ''origin_not_whole_degree'', Tup [Utf8 field, Utf8 t]]
      | IntervalCountMismatch field interval_tenths_arcsec count \<Rightarrow>
          Tup [Atom ''interval_count_mismatch'', Tup [Utf8 field, Integer interval_tenths_arcsec, Integer count]]
      | ProfileLongitudeCountMismatch longitude_index declared \<Rightarrow>
          Tup [Atom ''profile_longitude_count_mismatch'', Tup [Integer longitude_index, Integer declared]]
      | UnsupportedPartialProfile longitude_index first_latitude_index \<Rightarrow>
          Tup [Atom ''unsupported_partial_profile'', Tup [Integer longitude_index, Integer first_latitude_index]]
      | NullPosting longitude_index latitude_index \<Rightarrow>
          Tup [Atom ''null_posting'', Tup [Integer longitude_index, Integer latitude_index]]
      | OtherTileError t \<Rightarrow> Tup [Atom ''other'', Utf8 t])"

definition terrain_lookup_error_term :: "CoreError \<Rightarrow> nterm option" where
  "terrain_lookup_error_term error =
     (case error of
        UnknownTerrainElevation lat_index lon_index latitude_posting longitude_posting \<Rightarrow>
          Some (Tup [Atom ''unknown_terrain_elevation'', Integer lat_index, Integer lon_index,
            Integer latitude_posting, Integer longitude_posting])
      | NonWgs84TerrainTile lat_index lon_index datum \<Rightarrow>
          Some (Tup [Atom ''non_wgs84_terrain_tile'', Integer lat_index, Integer lon_index, horizontal_datum_term datum])
      | MissingTerrainTile lat_index lon_index \<Rightarrow>
          Some (Tup [Atom ''missing_terrain_tile'', Integer lat_index, Integer lon_index])
      | TerrainTile lat_index lon_index error \<Rightarrow>
          Some (Tup [Atom ''terrain_tile'', Integer lat_index, Integer lon_index, dted_tile_error_term error])
      | TerrainTileOrigin path lat_index lon_index origin_latitude origin_longitude \<Rightarrow>
          Some (Tup [Atom ''terrain_tile_origin'', Utf8 path, Integer lat_index, Integer lon_index,
            Integer origin_latitude, Integer origin_longitude])
      | CoreInvalidInput message \<Rightarrow> Some (Tup [Atom ''invalid_input'', Utf8 message])
      | CoreParse message \<Rightarrow> Some (Tup [Atom ''parse'', Utf8 message])
      | OtherCoreError _ \<Rightarrow> None)"

text \<open>\<open>error.to_string()\<close> is the core's; \<open>display\<close> stands for it.\<close>

definition store_lookup_error_term :: "(CoreError \<Rightarrow> string) \<Rightarrow> CoreError \<Rightarrow> nterm" where
  "store_lookup_error_term display error =
     (case terrain_lookup_error_term error of Some t \<Rightarrow> t | None \<Rightarrow> Utf8 (display error))"

definition enc_tile_id :: "TerrainTileId \<Rightarrow> nterm" where
  "enc_tile_id i = Tup [enc_i32 (tile_lat_index i), enc_i32 (tile_lon_index i)]"

definition store_error_term :: "(DtedTileError \<Rightarrow> string) \<Rightarrow> TerrainStoreError \<Rightarrow> nterm" where
  "store_error_term display error =
     (case error of
        StoreIo path message \<Rightarrow> Tup [Atom ''io'', Utf8 path, Utf8 message]
      | StoreParse reason \<Rightarrow> Tup [Atom ''parse'', Utf8 reason]
      | UnsupportedVersion version \<Rightarrow> Tup [Atom ''unsupported_version'', Integer version]
      | UnsupportedDatum tag \<Rightarrow> Tup [Atom ''unsupported_datum'', Integer tag]
      | TileIdMismatch path expected found \<Rightarrow>
          Tup [Atom ''tile_id_mismatch'', Utf8 path, enc_tile_id expected, enc_tile_id found]
      | DuplicateTile lat_index lon_index \<Rightarrow> Tup [Atom ''duplicate_tile'', Integer lat_index, Integer lon_index]
      | StoreChecksum lat_index lon_index expected found \<Rightarrow>
          Tup [Atom ''checksum'', Integer lat_index, Integer lon_index, enc_u64 expected, enc_u64 found]
      | AttestedChecksumMismatch expected found \<Rightarrow>
          Tup [Atom ''attested_checksum_mismatch'', enc_u64 expected, enc_u64 found]
      | TileIdOutOfRange lat_index lon_index \<Rightarrow>
          Tup [Atom ''tile_id_out_of_range'', Integer lat_index, Integer lon_index]
      | TileBoundsMismatch lat_index lon_index field \<Rightarrow>
          Tup [Atom ''tile_bounds_mismatch'', Integer lat_index, Integer lon_index, Utf8 field]
      | NonWgs84Tile path datum \<Rightarrow> Tup [Atom ''non_wgs84_tile'', Utf8 path, horizontal_datum_term datum]
      | StoreTile path error \<Rightarrow>
          Tup [Atom ''tile'', Utf8 path, Utf8 (display error), dted_tile_error_term error]
      | OtherStoreError t \<Rightarrow> Tup [Atom ''unhandled'', Utf8 t])"

definition geoid_error_term :: "GeoidError \<Rightarrow> nterm" where
  "geoid_error_term error =
     (case error of
        GeoidInvalidDimensions expected found \<Rightarrow>
          Tup [Atom ''geoid_invalid_dimensions'', Integer expected, Integer found]
      | GeoidInvalidSpacing field \<Rightarrow> Tup [Atom ''geoid_invalid_spacing'', Utf8 field]
      | GeoidNonFiniteValue i \<Rightarrow> Tup [Atom ''geoid_non_finite_value'', Integer i]
      | GeoidParse reason \<Rightarrow> Tup [Atom ''geoid_parse'', Utf8 reason])"

text \<open>The texts of the core's errors, and its operations.\<close>

datatype (plugins only: code) 'o terrain_core = terrain_core
  (core_error_display: "CoreError \<Rightarrow> string")
  (tile_error_display: "DtedTileError \<Rightarrow> string")
  (convert: convert_core)
  (store: "'o store_core")
  (inspect: "'o inspect_core")
  (dted: "'o dted_core")

definition datum_error_term :: "'o terrain_core \<Rightarrow> TerrainDatumError \<Rightarrow> nterm" where
  "datum_error_term C error =
     (case error of
        DatumTerrain error \<Rightarrow> Tup [Atom ''terrain'', store_lookup_error_term (core_error_display C) error]
      | DatumGeoid error \<Rightarrow> Tup [Atom ''geoid'', geoid_error_term error]
      | DatumIo path message \<Rightarrow> Tup [Atom ''io'', Utf8 path, Utf8 message]
      | MissingEgm96Dac path remediation \<Rightarrow> Tup [Atom ''missing_egm96_dac'', Utf8 path, Utf8 remediation])"

section \<open>Results\<close>

abbreviation invalid_input_term :: nterm where
  "invalid_input_term \<equiv> error_term (Atom ''invalid_input'')"

abbreviation store_refusal :: "'o terrain_core \<Rightarrow> TerrainStoreError \<Rightarrow> nterm" where
  "store_refusal C error \<equiv> error_term (store_error_term (tile_error_display C) error)"

definition interpolation_from_str :: "string \<Rightarrow> DtedInterpolation NifResult" where
  "interpolation_from_str interpolation =
     (if interpolation = ''nearest_posting'' then Inr NearestPosting
      else if interpolation = ''bilinear'' then Inr Bilinear
      else Inl (error_text ''unknown terrain interpolation''))"

definition lookup_options :: "string \<Rightarrow> DtedLookupOptions NifResult" where
  "lookup_options interpolation = map_ok (\<lambda>i. \<lparr>opt_interpolation = i\<rparr>) (interpolation_from_str interpolation)"

definition vertical_datum_name :: "VerticalDatum \<Rightarrow> string" where
  "vertical_datum_name datum = (case datum of Egm96MslOrthometric \<Rightarrow> ''egm96_msl_orthometric'')"

definition vertical_datum_atom :: "VerticalDatum \<Rightarrow> nterm" where
  "vertical_datum_atom datum = (case datum of Egm96MslOrthometric \<Rightarrow> Atom ''egm96_msl_orthometric'')"

definition tile_index_term :: "TerrainStoreTileIndex \<Rightarrow> TerrainStoreTileIndexTerm" where
  "tile_index_term x =
     \<lparr>tit_lat_index = ti_lat_index x, tit_lon_index = ti_lon_index x, tit_min_longitude_deg = ti_min_longitude_deg x,
      tit_min_latitude_deg = ti_min_latitude_deg x, tit_max_longitude_deg = ti_max_longitude_deg x,
      tit_max_latitude_deg = ti_max_latitude_deg x, tit_lon_count = ti_lon_count x, tit_lat_count = ti_lat_count x,
      tit_data_offset = ti_data_offset x, tit_data_len = ti_data_len x, tit_checksum64 = ti_checksum64 x,
      tit_vertical_datum = vertical_datum_name (ti_vertical_datum x)\<rparr>"

definition enc_TerrainStoreTileIndexTerm :: "TerrainStoreTileIndexTerm \<Rightarrow> nterm" where
  "enc_TerrainStoreTileIndexTerm x = nif_map
     [(''lat_index'', enc_i32 (tit_lat_index x)), (''lon_index'', enc_i32 (tit_lon_index x)),
      (''min_longitude_deg'', Float (tit_min_longitude_deg x)), (''min_latitude_deg'', Float (tit_min_latitude_deg x)),
      (''max_longitude_deg'', Float (tit_max_longitude_deg x)), (''max_latitude_deg'', Float (tit_max_latitude_deg x)),
      (''lon_count'', Integer (uint (tit_lon_count x))), (''lat_count'', Integer (uint (tit_lat_count x))),
      (''data_offset'', enc_u64 (tit_data_offset x)), (''data_len'', enc_u64 (tit_data_len x)),
      (''checksum64'', enc_u64 (tit_checksum64 x)), (''vertical_datum'', Utf8 (tit_vertical_datum x))]"

definition digest_provenance_atom :: "DigestProvenance \<Rightarrow> nterm" where
  "digest_provenance_atom provenance = (case provenance of Verified \<Rightarrow> Atom ''verified'' | Attested \<Rightarrow> Atom ''attested'')"

definition terrain_result_term :: "'o terrain_core \<Rightarrow> CoreError + f64 \<Rightarrow> nterm" where
  "terrain_result_term C result =
     (case result of
        Inr height \<Rightarrow> ok_term (Float height)
      | Inl error \<Rightarrow> error_term (store_lookup_error_term (core_error_display C) error))"

definition orthometric_result_term :: "'o terrain_core \<Rightarrow> CoreError + OrthometricHeightM \<Rightarrow> nterm" where
  "orthometric_result_term C result =
     (case result of
        Inr height \<Rightarrow> ok_term (Float (ortho_metres height))
      | Inl error \<Rightarrow> error_term (store_lookup_error_term (core_error_display C) error))"

definition ellipsoidal_result_term :: "'o terrain_core \<Rightarrow> TerrainDatumError + EllipsoidalHeightM \<Rightarrow> nterm" where
  "ellipsoidal_result_term C result =
     (case result of
        Inr height \<Rightarrow> ok_term (Float (ellip_metres height))
      | Inl error \<Rightarrow> error_term (datum_error_term C error))"

end
