(* ===== verification/TerrainNifs.thy ===== *)
theory TerrainNifs
  imports Terrain
begin

text \<open>The terrain calls on their resources.\<close>

section \<open>Resources and locks\<close>

text \<open>\<open>stores\<close> are behind a \<open>RwLock\<close> each, \<open>dted_trees\<close> behind a mutex each.\<close>

record 'o terrain_resources =
  stores :: "'o cell list"
  geoids :: "'o list"
  dted_trees :: "'o cell list"
  dted_tiles :: "'o list"

type_synonym 'o terrain_result = "nif_reply \<times> 'o terrain_resources"

text \<open>\<open>handle.read()\<close> and an operation that may panic: the guard is dropped, the lock is not poisoned.\<close>

definition store_read ::
  "nat \<Rightarrow> ('o \<Rightarrow> nterm option) \<Rightarrow> 'o terrain_resources \<Rightarrow> 'o terrain_result" where
  "store_read h f s = with_resource h (stores s) (\<lambda>c.
     if cell_poisoned c then (Inl Panic, s)
     else case f (cell_value c) of None \<Rightarrow> (Inl Panic, s) | Some t \<Rightarrow> (Inr t, s)) s"

text \<open>\<open>handle.write()\<close>: a panic poisons the lock.\<close>

definition store_write ::
  "nat \<Rightarrow> ('o \<Rightarrow> (nterm \<times> 'o) option) \<Rightarrow> 'o terrain_resources \<Rightarrow> 'o terrain_result" where
  "store_write h f s = with_resource h (stores s) (\<lambda>c.
     if cell_poisoned c then (Inl Panic, s)
     else case f (cell_value c) of
        None \<Rightarrow> (Inl Panic, s\<lparr>stores := (stores s)[h := cell_poison c]\<rparr>)
      | Some (t, v) \<Rightarrow> (Inr t, s\<lparr>stores := (stores s)[h := cell_new v]\<rparr>)) s"

definition store_arg ::
  "nat \<Rightarrow> ('o terrain_resources \<Rightarrow> 'o terrain_result) \<Rightarrow> 'o terrain_resources \<Rightarrow> 'o terrain_result" where
  "store_arg h body s = with_resource h (stores s) (\<lambda>_. body s) s"

text \<open>\<open>Option<ResourceArc<\<dots>>>\<close>: absent, or a handle that must name a grid.\<close>

definition geoid_arg ::
  "nat option \<Rightarrow> ('o option \<Rightarrow> 'o terrain_resources \<Rightarrow> 'o terrain_result) \<Rightarrow> 'o terrain_resources \<Rightarrow> 'o terrain_result" where
  "geoid_arg g body s =
     (case g of
        None \<Rightarrow> body None s
      | Some h \<Rightarrow> with_resource h (geoids s) (\<lambda>geoid. body (Some geoid) s) s)"

definition opened_store :: "'o terrain_core \<Rightarrow> TerrainStoreError + 'o \<Rightarrow> 'o terrain_resources \<Rightarrow> 'o terrain_result" where
  "opened_store C result s =
     (case result of
        Inr terrain \<Rightarrow> (Inr (ok_term (Resource (length (stores s)))), s\<lparr>stores := stores s @ [cell_new terrain]\<rparr>)
      | Inl error \<Rightarrow> (Inr (store_refusal C error), s))"

definition mmap_from_bytes_term :: "'o terrain_core \<Rightarrow> u8 list \<Rightarrow> 'o terrain_resources \<Rightarrow> 'o terrain_result" where
  "mmap_from_bytes_term C bytes = opened_store C (mmap_from_vec (store C) bytes)"

section \<open>Conversion calls\<close>

definition terrain_store_dted_tree_to_mmap_store :: "'o terrain_core \<Rightarrow> string \<Rightarrow> nterm" where
  "terrain_store_dted_tree_to_mmap_store C root =
     (case dted_tree_to_mmap_store (convert C) root of Inr bytes \<Rightarrow> ok_term (Bin bytes) | Inl error \<Rightarrow> store_refusal C error)"

definition terrain_store_write_dted_tree_to_mmap_store :: "'o terrain_core \<Rightarrow> string \<Rightarrow> string \<Rightarrow> nterm" where
  "terrain_store_write_dted_tree_to_mmap_store C root out_path =
     (case write_dted_tree_to_mmap_store (convert C) root out_path of
        Inr _ \<Rightarrow> Atom ''ok'' | Inl error \<Rightarrow> store_refusal C error)"

definition tile_list_entry :: "DtedTileListEntryTerm \<Rightarrow> DtedTileListEntry" where
  "tile_list_entry entry =
     (case tle_tile_id entry of (lat_index, lon_index) \<Rightarrow>
        \<lparr>entry_id = \<lparr>tile_lat_index = lat_index, tile_lon_index = lon_index\<rparr>, entry_path = tle_path entry\<rparr>)"

definition terrain_store_dted_tile_list_to_mmap_store ::
  "'o terrain_core \<Rightarrow> DtedTileListEntryTerm list \<Rightarrow> nterm" where
  "terrain_store_dted_tile_list_to_mmap_store C entries =
     (case dted_tile_list_to_mmap_store (convert C) (map tile_list_entry entries) of
        Inr bytes \<Rightarrow> ok_term (Bin bytes) | Inl error \<Rightarrow> store_refusal C error)"

definition terrain_store_write_dted_tile_list_to_mmap_store ::
  "'o terrain_core \<Rightarrow> DtedTileListEntryTerm list \<Rightarrow> string \<Rightarrow> nterm" where
  "terrain_store_write_dted_tile_list_to_mmap_store C entries out_path =
     (case write_dted_tile_list_to_mmap_store (convert C) (map tile_list_entry entries) out_path of
        Inr _ \<Rightarrow> Atom ''ok'' | Inl error \<Rightarrow> store_refusal C error)"

definition terrain_store_checksum64_bytes :: "'o terrain_core \<Rightarrow> u8 list \<Rightarrow> nterm" where
  "terrain_store_checksum64_bytes C bytes = enc_u64 (terrain_store_checksum64 (convert C) bytes)"

section \<open>Opening calls\<close>

definition terrain_store_mmap_from_bytes ::
  "'o terrain_core \<Rightarrow> u8 list \<Rightarrow> 'o terrain_resources \<Rightarrow> 'o terrain_result" where
  "terrain_store_mmap_from_bytes C bytes = mmap_from_bytes_term C bytes"

definition terrain_store_mmap_from_vec ::
  "'o terrain_core \<Rightarrow> u8 list \<Rightarrow> 'o terrain_resources \<Rightarrow> 'o terrain_result" where
  "terrain_store_mmap_from_vec C bytes = mmap_from_bytes_term C bytes"

definition terrain_store_mmap_from_path ::
  "'o terrain_core \<Rightarrow> string \<Rightarrow> 'o terrain_resources \<Rightarrow> 'o terrain_result" where
  "terrain_store_mmap_from_path C path = opened_store C (mmap_from_path (store C) path)"

definition terrain_store_mmap_from_path_attested ::
  "'o terrain_core \<Rightarrow> string \<Rightarrow> u64 \<Rightarrow> 'o terrain_resources \<Rightarrow> 'o terrain_result" where
  "terrain_store_mmap_from_path_attested C path claimed_checksum64 =
     opened_store C (mmap_from_path_attested (store C) path claimed_checksum64)"

section \<open>Lookup calls\<close>

definition bilinear_options :: DtedLookupOptions where
  "bilinear_options = \<lparr>opt_interpolation = Bilinear\<rparr>"

definition terrain_store_height_m ::
  "'o terrain_core \<Rightarrow> nat \<Rightarrow> f64 \<Rightarrow> f64 \<Rightarrow> 'o terrain_resources \<Rightarrow> 'o terrain_result" where
  "terrain_store_height_m C h longitude_deg latitude_deg =
     store_read h (\<lambda>terrain. map_option (terrain_result_term C \<circ> map_ok ortho_metres)
       (orthometric_height_m_with_options (store C) terrain longitude_deg latitude_deg bilinear_options))"

definition terrain_store_height_m_with_options ::
  "'o terrain_core \<Rightarrow> nat \<Rightarrow> f64 \<Rightarrow> f64 \<Rightarrow> string \<Rightarrow> 'o terrain_resources \<Rightarrow> 'o terrain_result" where
  "terrain_store_height_m_with_options C h longitude_deg latitude_deg interpolation =
     store_arg h (case lookup_options interpolation of
        Inr options \<Rightarrow>
          store_read h (\<lambda>terrain. map_option (terrain_result_term C \<circ> map_ok ortho_metres)
            (orthometric_height_m_with_options (store C) terrain longitude_deg latitude_deg options))
      | Inl _ \<Rightarrow> Pair (Inr invalid_input_term))"

definition terrain_store_orthometric_height_m ::
  "'o terrain_core \<Rightarrow> nat \<Rightarrow> f64 \<Rightarrow> f64 \<Rightarrow> 'o terrain_resources \<Rightarrow> 'o terrain_result" where
  "terrain_store_orthometric_height_m C h longitude_deg latitude_deg =
     store_read h (\<lambda>terrain. map_option (orthometric_result_term C)
       (orthometric_height_m_with_options (store C) terrain longitude_deg latitude_deg bilinear_options))"

definition terrain_store_orthometric_height_m_with_options ::
  "'o terrain_core \<Rightarrow> nat \<Rightarrow> f64 \<Rightarrow> f64 \<Rightarrow> string \<Rightarrow> 'o terrain_resources \<Rightarrow> 'o terrain_result" where
  "terrain_store_orthometric_height_m_with_options C h longitude_deg latitude_deg interpolation =
     store_arg h (case lookup_options interpolation of
        Inr options \<Rightarrow>
          store_read h (\<lambda>terrain. map_option (orthometric_result_term C)
            (orthometric_height_m_with_options (store C) terrain longitude_deg latitude_deg options))
      | Inl _ \<Rightarrow> Pair (Inr invalid_input_term))"

definition terrain_store_height_batch ::
  "'o terrain_core \<Rightarrow> nat \<Rightarrow> (f64 \<times> f64) list \<Rightarrow> string \<Rightarrow> 'o terrain_resources \<Rightarrow> 'o terrain_result" where
  "terrain_store_height_batch C h points interpolation =
     store_arg h (case lookup_options interpolation of
        Inr options \<Rightarrow>
          store_read h (\<lambda>terrain. map_option (\<lambda>results. Lst (map (terrain_result_term C \<circ> map_ok ortho_metres) results))
            (orthometric_height_batch (store C) terrain points options))
      | Inl _ \<Rightarrow> Pair (Inr (Lst (map (\<lambda>_. invalid_input_term) points))))"

definition terrain_store_orthometric_height_batch ::
  "'o terrain_core \<Rightarrow> nat \<Rightarrow> (f64 \<times> f64) list \<Rightarrow> string \<Rightarrow> 'o terrain_resources \<Rightarrow> 'o terrain_result" where
  "terrain_store_orthometric_height_batch C h points interpolation =
     store_arg h (case lookup_options interpolation of
        Inr options \<Rightarrow>
          store_read h (\<lambda>terrain. map_option (\<lambda>results. Lst (map (orthometric_result_term C) results))
            (orthometric_height_batch (store C) terrain points options))
      | Inl _ \<Rightarrow> Pair (Inr (Lst (map (\<lambda>_. invalid_input_term) points))))"

definition terrain_store_ellipsoidal_height_m ::
  "'o terrain_core \<Rightarrow> nat \<Rightarrow> f64 \<Rightarrow> f64 \<Rightarrow> 'o terrain_resources \<Rightarrow> 'o terrain_result" where
  "terrain_store_ellipsoidal_height_m C h longitude_deg latitude_deg =
     store_read h (\<lambda>terrain. map_option (ellipsoidal_result_term C)
       (ellipsoidal_height_m_with_options (store C) terrain longitude_deg latitude_deg bilinear_options))"

definition terrain_store_ellipsoidal_height_m_with_options ::
  "'o terrain_core \<Rightarrow> nat \<Rightarrow> f64 \<Rightarrow> f64 \<Rightarrow> string \<Rightarrow> 'o terrain_resources \<Rightarrow> 'o terrain_result" where
  "terrain_store_ellipsoidal_height_m_with_options C h longitude_deg latitude_deg interpolation =
     store_arg h (case lookup_options interpolation of
        Inr options \<Rightarrow>
          store_read h (\<lambda>terrain. map_option (ellipsoidal_result_term C)
            (ellipsoidal_height_m_with_options (store C) terrain longitude_deg latitude_deg options))
      | Inl _ \<Rightarrow> Pair (Inr invalid_input_term))"

definition ellipsoidal_with_model ::
  "'o terrain_core \<Rightarrow> nat \<Rightarrow> f64 \<Rightarrow> f64 \<Rightarrow> DtedLookupOptions \<Rightarrow> string \<Rightarrow> 'o option \<Rightarrow> 'o terrain_resources \<Rightarrow> 'o terrain_result" where
  "ellipsoidal_with_model C h longitude_deg latitude_deg options model geoid =
     (let lookup = (\<lambda>m. store_read h (\<lambda>terrain. map_option (ellipsoidal_result_term C)
            (ellipsoidal_height_m_with_model (store C) terrain longitude_deg latitude_deg options m))) in
      if model = ''egm96_one_degree'' then lookup Egm96OneDegree
      else if model = ''egm96_fifteen_minute'' then
        (case geoid of
           Some geoid \<Rightarrow> lookup (Egm96FifteenMinute geoid)
         | None \<Rightarrow> Pair (Inr invalid_input_term))
      else Pair (Inr invalid_input_term))"

definition terrain_store_ellipsoidal_height_m_with_model ::
  "'o terrain_core \<Rightarrow> nat \<Rightarrow> f64 \<Rightarrow> f64 \<Rightarrow> string \<Rightarrow> string \<Rightarrow> nat option \<Rightarrow> 'o terrain_resources \<Rightarrow> 'o terrain_result" where
  "terrain_store_ellipsoidal_height_m_with_model C h longitude_deg latitude_deg interpolation model geoid =
     store_arg h (geoid_arg geoid (\<lambda>geoid. case lookup_options interpolation of
        Inr options \<Rightarrow> ellipsoidal_with_model C h longitude_deg latitude_deg options model geoid
      | Inl _ \<Rightarrow> Pair (Inr invalid_input_term)))"

section \<open>Inspection calls\<close>

definition terrain_store_tile_index ::
  "'o terrain_core \<Rightarrow> nat \<Rightarrow> 'o terrain_resources \<Rightarrow> 'o terrain_result" where
  "terrain_store_tile_index C h = store_read h (\<lambda>terrain.
     Some (enc_list (enc_TerrainStoreTileIndexTerm \<circ> tile_index_term) (mmap_tile_index (inspect C) terrain)))"

definition terrain_store_vertical_datum ::
  "'o terrain_core \<Rightarrow> nat \<Rightarrow> 'o terrain_resources \<Rightarrow> 'o terrain_result" where
  "terrain_store_vertical_datum C h = store_read h (\<lambda>terrain.
     Some (vertical_datum_atom (mmap_vertical_datum (inspect C) terrain)))"

definition terrain_store_digest_provenance ::
  "'o terrain_core \<Rightarrow> nat \<Rightarrow> 'o terrain_resources \<Rightarrow> 'o terrain_result" where
  "terrain_store_digest_provenance C h = store_read h (\<lambda>terrain.
     Some (digest_provenance_atom (mmap_digest_provenance (inspect C) terrain)))"

definition terrain_store_mmap_checksum64 ::
  "'o terrain_core \<Rightarrow> nat \<Rightarrow> 'o terrain_resources \<Rightarrow> 'o terrain_result" where
  "terrain_store_mmap_checksum64 C h = store_read h (\<lambda>terrain. Some (enc_u64 (mmap_checksum64 (inspect C) terrain)))"

definition terrain_store_mmap_verify ::
  "'o terrain_core \<Rightarrow> nat \<Rightarrow> 'o terrain_resources \<Rightarrow> 'o terrain_result" where
  "terrain_store_mmap_verify C h = store_write h (\<lambda>terrain. map_option (\<lambda>(r, terrain').
     (case r of Inr _ \<Rightarrow> Atom ''ok'' | Inl error \<Rightarrow> store_refusal C error, terrain')) (mmap_verify (store C) terrain))"

definition terrain_store_to_bytes :: "'o terrain_core \<Rightarrow> nat \<Rightarrow> 'o terrain_resources \<Rightarrow> 'o terrain_result" where
  "terrain_store_to_bytes C h = store_read h (\<lambda>terrain. Some (Bin (mmap_to_bytes (inspect C) terrain)))"

section \<open>Geoid calls\<close>

definition opened_geoid :: "'o terrain_core \<Rightarrow> TerrainDatumError + 'o \<Rightarrow> 'o terrain_resources \<Rightarrow> 'o terrain_result" where
  "opened_geoid C result s =
     (case result of
        Inr geoid \<Rightarrow> (Inr (ok_term (Resource (length (geoids s)))), s\<lparr>geoids := geoids s @ [geoid]\<rparr>)
      | Inl error \<Rightarrow> (Inr (error_term (datum_error_term C error)), s))"

definition terrain_store_egm96_fifteen_minute_geoid_from_bytes ::
  "'o terrain_core \<Rightarrow> u8 list \<Rightarrow> 'o terrain_resources \<Rightarrow> 'o terrain_result" where
  "terrain_store_egm96_fifteen_minute_geoid_from_bytes C bytes = opened_geoid C (geoid_from_bytes (inspect C) bytes)"

definition terrain_store_egm96_fifteen_minute_geoid_from_path ::
  "'o terrain_core \<Rightarrow> string \<Rightarrow> 'o terrain_resources \<Rightarrow> 'o terrain_result" where
  "terrain_store_egm96_fifteen_minute_geoid_from_path C path = opened_geoid C (geoid_from_path (inspect C) path)"

definition orthometric_to_ellipsoidal_with_model ::
  "'o terrain_core \<Rightarrow> OrthometricHeightM \<Rightarrow> f64 \<Rightarrow> f64 \<Rightarrow> string \<Rightarrow> 'o option \<Rightarrow> bool \<Rightarrow> nterm" where
  "orthometric_to_ellipsoidal_with_model C height latitude longitude model geoid radians =
     (if model = ''egm96_one_degree'' then
        ellipsoidal_result_term C
          (if radians then to_ellipsoidal_height_rad (inspect C) height latitude longitude Egm96OneDegree
           else to_ellipsoidal_height_deg (inspect C) height latitude longitude Egm96OneDegree)
      else if model = ''egm96_fifteen_minute'' then
        (case geoid of
           Some geoid \<Rightarrow>
             ellipsoidal_result_term C
               (if radians then to_ellipsoidal_height_rad (inspect C) height latitude longitude (Egm96FifteenMinute geoid)
                else to_ellipsoidal_height_deg (inspect C) height latitude longitude (Egm96FifteenMinute geoid))
         | None \<Rightarrow> invalid_input_term)
      else invalid_input_term)"

definition terrain_store_orthometric_to_ellipsoidal_height_deg ::
  "'o terrain_core \<Rightarrow> f64 \<Rightarrow> f64 \<Rightarrow> f64 \<Rightarrow> string \<Rightarrow> nat option \<Rightarrow> 'o terrain_resources \<Rightarrow> 'o terrain_result" where
  "terrain_store_orthometric_to_ellipsoidal_height_deg C height latitude_deg longitude_deg model geoid =
     geoid_arg geoid (\<lambda>geoid. Pair (Inr (orthometric_to_ellipsoidal_with_model C (OrthometricHeightM height)
       latitude_deg longitude_deg model geoid False)))"

definition terrain_store_orthometric_to_ellipsoidal_height_rad ::
  "'o terrain_core \<Rightarrow> f64 \<Rightarrow> f64 \<Rightarrow> f64 \<Rightarrow> string \<Rightarrow> nat option \<Rightarrow> 'o terrain_resources \<Rightarrow> 'o terrain_result" where
  "terrain_store_orthometric_to_ellipsoidal_height_rad C height latitude_rad longitude_rad model geoid =
     geoid_arg geoid (\<lambda>geoid. Pair (Inr (orthometric_to_ellipsoidal_with_model C (OrthometricHeightM height)
       latitude_rad longitude_rad model geoid True)))"

section \<open>DTED calls\<close>

definition dted_interpolation :: "string \<Rightarrow> DtedInterpolation NifResult" where
  "dted_interpolation interpolation =
     (if interpolation = ''nearest_posting'' then Inr NearestPosting
      else if interpolation = ''bilinear'' then Inr Bilinear
      else Inl (error_text ''unknown DTED interpolation''))"

definition dted_height_term :: "CoreError + f64 \<Rightarrow> nterm" where
  "dted_height_term result =
     (case result of
        Inr height \<Rightarrow> ok_term (Float height)
      | Inl error \<Rightarrow>
          (case terrain_lookup_error_term error of
             Some reason \<Rightarrow> error_term reason
           | None \<Rightarrow> invalid_input_term))"

definition dted_locked ::
  "nat \<Rightarrow> string \<Rightarrow> (DtedLookupOptions \<Rightarrow> 'o \<Rightarrow> (nterm \<times> 'o) option) \<Rightarrow> 'o terrain_resources \<Rightarrow> 'o terrain_result" where
  "dted_locked h interpolation f s = with_resource h (dted_trees s) (\<lambda>c.
     case dted_interpolation interpolation of
       Inl error \<Rightarrow> (Inl (Err error), s)
     | Inr interpolation \<Rightarrow>
         if cell_poisoned c then (Inl (Err (error_text ''terrain lock poisoned'')), s)
         else case f \<lparr>opt_interpolation = interpolation\<rparr> (cell_value c) of
            None \<Rightarrow> (Inl Panic, s\<lparr>dted_trees := (dted_trees s)[h := cell_poison c]\<rparr>)
          | Some (t, v) \<Rightarrow> (Inr t, s\<lparr>dted_trees := (dted_trees s)[h := cell_new v]\<rparr>)) s"

definition terrain_dted_new :: "'o terrain_core \<Rightarrow> string \<Rightarrow> 'o terrain_resources \<Rightarrow> 'o terrain_result" where
  "terrain_dted_new C root s =
     (Inr (Resource (length (dted_trees s))),
      s\<lparr>dted_trees := dted_trees s @ [cell_new (dted_terrain_new (dted C) root)]\<rparr>)"

definition terrain_dted_height ::
  "'o terrain_core \<Rightarrow> nat \<Rightarrow> f64 \<Rightarrow> f64 \<Rightarrow> string \<Rightarrow> 'o terrain_resources \<Rightarrow> 'o terrain_result" where
  "terrain_dted_height C h longitude_deg latitude_deg interpolation =
     dted_locked h interpolation (\<lambda>options terrain. map_option (map_prod dted_height_term id)
       (dted_height_m_with_options (dted C) terrain longitude_deg latitude_deg options))"

definition terrain_dted_height_batch ::
  "'o terrain_core \<Rightarrow> nat \<Rightarrow> (f64 \<times> f64) list \<Rightarrow> string \<Rightarrow> 'o terrain_resources \<Rightarrow> 'o terrain_result" where
  "terrain_dted_height_batch C h points interpolation =
     dted_locked h interpolation (\<lambda>options terrain. map_option (map_prod (Lst \<circ> map dted_height_term) id)
       (dted_height_batch (dted C) terrain points options))"

definition terrain_dted_tile_load :: "'o terrain_core \<Rightarrow> string \<Rightarrow> 'o terrain_resources \<Rightarrow> 'o terrain_result" where
  "terrain_dted_tile_load C path s =
     (case dted_tile_from_path (dted C) path of
        Inr tile \<Rightarrow> (Inr (ok_term (Resource (length (dted_tiles s)))), s\<lparr>dted_tiles := dted_tiles s @ [tile]\<rparr>)
      | Inl error \<Rightarrow> (Inr (error_term (dted_tile_error_term error)), s))"

definition terrain_dted_tile_elevation ::
  "'o terrain_core \<Rightarrow> nat \<Rightarrow> f64 \<Rightarrow> f64 \<Rightarrow> 'o terrain_resources \<Rightarrow> 'o terrain_result" where
  "terrain_dted_tile_elevation C h longitude_deg latitude_deg s = with_resource h (dted_tiles s) (\<lambda>tile.
     (Inr (case dted_tile_get_elevation (dted C) tile longitude_deg latitude_deg of
             Inr height \<Rightarrow> ok_term (Integer height)
           | Inl error \<Rightarrow> error_term (dted_tile_error_term error)), s)) s"

definition terrain_dted_tile_horizontal_datum ::
  "'o terrain_core \<Rightarrow> nat \<Rightarrow> 'o terrain_resources \<Rightarrow> 'o terrain_result" where
  "terrain_dted_tile_horizontal_datum C h s = with_resource h (dted_tiles s) (\<lambda>tile.
     (Inr (horizontal_datum_term (dted_tile_horizontal_datum (dted C) tile)), s)) s"

section \<open>Calls\<close>

datatype (plugins only: code) terrain_call =
    FromBytes "u8 list"
  | FromVec "u8 list"
  | FromPath string
  | FromPathAttested string u64
  | HeightM nat f64 f64
  | HeightMWithOptions nat f64 f64 string
  | OrthometricHeight nat f64 f64
  | OrthometricHeightWithOptions nat f64 f64 string
  | HeightBatch nat "(f64 \<times> f64) list" string
  | OrthometricHeightBatch nat "(f64 \<times> f64) list" string
  | EllipsoidalHeight nat f64 f64
  | EllipsoidalHeightWithOptions nat f64 f64 string
  | EllipsoidalHeightWithModel nat f64 f64 string string "nat option"
  | TileIndex nat
  | StoreVerticalDatum nat
  | StoreDigestProvenance nat
  | MmapChecksum nat
  | Verify nat
  | ToBytes nat
  | GeoidFromBytes "u8 list"
  | GeoidFromPath string
  | ToEllipsoidalDeg f64 f64 f64 string "nat option"
  | ToEllipsoidalRad f64 f64 f64 string "nat option"
  | DtedNew string
  | DtedHeight nat f64 f64 string
  | DtedHeightBatch nat "(f64 \<times> f64) list" string
  | DtedTileLoad string
  | DtedTileElevation nat f64 f64
  | DtedTileHorizontalDatum nat

primrec terrain_step :: "'o terrain_core \<Rightarrow> terrain_call \<Rightarrow> 'o terrain_resources \<Rightarrow> 'o terrain_result" where
  "terrain_step C (FromBytes a) = terrain_store_mmap_from_bytes C a"
| "terrain_step C (FromVec a) = terrain_store_mmap_from_vec C a"
| "terrain_step C (FromPath a) = terrain_store_mmap_from_path C a"
| "terrain_step C (FromPathAttested a b) = terrain_store_mmap_from_path_attested C a b"
| "terrain_step C (HeightM a b c) = terrain_store_height_m C a b c"
| "terrain_step C (HeightMWithOptions a b c d) = terrain_store_height_m_with_options C a b c d"
| "terrain_step C (OrthometricHeight a b c) = terrain_store_orthometric_height_m C a b c"
| "terrain_step C (OrthometricHeightWithOptions a b c d) = terrain_store_orthometric_height_m_with_options C a b c d"
| "terrain_step C (HeightBatch a b c) = terrain_store_height_batch C a b c"
| "terrain_step C (OrthometricHeightBatch a b c) = terrain_store_orthometric_height_batch C a b c"
| "terrain_step C (EllipsoidalHeight a b c) = terrain_store_ellipsoidal_height_m C a b c"
| "terrain_step C (EllipsoidalHeightWithOptions a b c d) = terrain_store_ellipsoidal_height_m_with_options C a b c d"
| "terrain_step C (EllipsoidalHeightWithModel a b c d e f) = terrain_store_ellipsoidal_height_m_with_model C a b c d e f"
| "terrain_step C (TileIndex a) = terrain_store_tile_index C a"
| "terrain_step C (StoreVerticalDatum a) = terrain_store_vertical_datum C a"
| "terrain_step C (StoreDigestProvenance a) = terrain_store_digest_provenance C a"
| "terrain_step C (MmapChecksum a) = terrain_store_mmap_checksum64 C a"
| "terrain_step C (Verify a) = terrain_store_mmap_verify C a"
| "terrain_step C (ToBytes a) = terrain_store_to_bytes C a"
| "terrain_step C (GeoidFromBytes a) = terrain_store_egm96_fifteen_minute_geoid_from_bytes C a"
| "terrain_step C (GeoidFromPath a) = terrain_store_egm96_fifteen_minute_geoid_from_path C a"
| "terrain_step C (ToEllipsoidalDeg a b c d e) = terrain_store_orthometric_to_ellipsoidal_height_deg C a b c d e"
| "terrain_step C (ToEllipsoidalRad a b c d e) = terrain_store_orthometric_to_ellipsoidal_height_rad C a b c d e"
| "terrain_step C (DtedNew a) = terrain_dted_new C a"
| "terrain_step C (DtedHeight a b c d) = terrain_dted_height C a b c d"
| "terrain_step C (DtedHeightBatch a b c) = terrain_dted_height_batch C a b c"
| "terrain_step C (DtedTileLoad a) = terrain_dted_tile_load C a"
| "terrain_step C (DtedTileElevation a b c) = terrain_dted_tile_elevation C a b c"
| "terrain_step C (DtedTileHorizontalDatum a) = terrain_dted_tile_horizontal_datum C a"

end
