(* ===== verification/Terrain_Props.thy ===== *)
theory Terrain_Props
  imports TerrainNifs
begin

text \<open>
  What the terrain calls guarantee: which calls can change or poison a store, what a panic of \<open>verify\<close> or of a
  DTED lookup leaves behind, that the variants of a lookup agree, and that error terms keep every field.
\<close>

section \<open>What a call may touch\<close>

text \<open>The store that a call locks for writing, and the DTED tree that it locks.\<close>

definition writes_store :: "nat \<Rightarrow> terrain_call \<Rightarrow> bool" where
  "writes_store h c \<longleftrightarrow> c = Verify h"

primrec locks_dted :: "nat \<Rightarrow> terrain_call \<Rightarrow> bool" where
  "locks_dted h (DtedHeight k x y i) \<longleftrightarrow> h = k \<and> \<not> isl (dted_interpolation i)"
| "locks_dted h (DtedHeightBatch k ps i) \<longleftrightarrow> h = k \<and> \<not> isl (dted_interpolation i)"
| "locks_dted h (FromBytes b) \<longleftrightarrow> False"
| "locks_dted h (FromVec b) \<longleftrightarrow> False"
| "locks_dted h (FromPath p) \<longleftrightarrow> False"
| "locks_dted h (FromPathAttested p n) \<longleftrightarrow> False"
| "locks_dted h (HeightM k x y) \<longleftrightarrow> False"
| "locks_dted h (HeightMWithOptions k x y i) \<longleftrightarrow> False"
| "locks_dted h (OrthometricHeight k x y) \<longleftrightarrow> False"
| "locks_dted h (OrthometricHeightWithOptions k x y i) \<longleftrightarrow> False"
| "locks_dted h (HeightBatch k ps i) \<longleftrightarrow> False"
| "locks_dted h (OrthometricHeightBatch k ps i) \<longleftrightarrow> False"
| "locks_dted h (EllipsoidalHeight k x y) \<longleftrightarrow> False"
| "locks_dted h (EllipsoidalHeightWithOptions k x y i) \<longleftrightarrow> False"
| "locks_dted h (EllipsoidalHeightWithModel k x y i m g) \<longleftrightarrow> False"
| "locks_dted h (TileIndex k) \<longleftrightarrow> False"
| "locks_dted h (StoreVerticalDatum k) \<longleftrightarrow> False"
| "locks_dted h (StoreDigestProvenance k) \<longleftrightarrow> False"
| "locks_dted h (MmapChecksum k) \<longleftrightarrow> False"
| "locks_dted h (Verify k) \<longleftrightarrow> False"
| "locks_dted h (ToBytes k) \<longleftrightarrow> False"
| "locks_dted h (GeoidFromBytes b) \<longleftrightarrow> False"
| "locks_dted h (GeoidFromPath p) \<longleftrightarrow> False"
| "locks_dted h (ToEllipsoidalDeg z x y m g) \<longleftrightarrow> False"
| "locks_dted h (ToEllipsoidalRad z x y m g) \<longleftrightarrow> False"
| "locks_dted h (DtedNew p) \<longleftrightarrow> False"
| "locks_dted h (DtedTileLoad p) \<longleftrightarrow> False"
| "locks_dted h (DtedTileElevation k x y) \<longleftrightarrow> False"
| "locks_dted h (DtedTileHorizontalDatum k) \<longleftrightarrow> False"

definition terrain_kept :: "terrain_call \<Rightarrow> 'o terrain_resources \<Rightarrow> 'o terrain_resources \<Rightarrow> bool" where
  "terrain_kept c s s' \<longleftrightarrow>
     table_kept (\<lambda>h. writes_store h c) (stores s) (stores s') \<and>
     table_kept (\<lambda>h. locks_dted h c) (dted_trees s) (dted_trees s') \<and>
     table_kept (\<lambda>h. False) (geoids s) (geoids s') \<and> table_kept (\<lambda>h. False) (dted_tiles s) (dted_tiles s')"

lemma terrain_kept_same [simp]: "terrain_kept c s s"
  by (simp add: terrain_kept_def)

lemma terrain_kept_created [simp]:
  "terrain_kept c s (s\<lparr>stores := stores s @ [x]\<rparr>)" "terrain_kept c s (s\<lparr>geoids := geoids s @ [y]\<rparr>)"
  "terrain_kept c s (s\<lparr>dted_trees := dted_trees s @ [x]\<rparr>)" "terrain_kept c s (s\<lparr>dted_tiles := dted_tiles s @ [y]\<rparr>)"
  by (simp_all add: terrain_kept_def)

lemma store_read_state [simp]: "snd (store_read h f s) = s"
  by (simp add: store_read_def with_resource_def split: option.split)

lemma store_arg_state [simp]: "(\<And>s. snd (body s) = s) \<Longrightarrow> snd (store_arg h body s) = s"
  by (simp add: store_arg_def with_resource_def)

lemma geoid_arg_state [simp]: "(\<And>g s. snd (body g s) = s) \<Longrightarrow> snd (geoid_arg g body s) = s"
  by (simp add: geoid_arg_def with_resource_def split: option.split)

lemma terrain_kept_opened [simp]:
  "terrain_kept c s (snd (opened_store C r s))" "terrain_kept c s (snd (opened_geoid C r' s))"
  by (simp_all add: opened_store_def opened_geoid_def split: sum.split)

lemma terrain_kept_write: "terrain_kept (Verify h) s (snd (store_write h f s))"
  by (auto simp: store_write_def with_resource_def terrain_kept_def writes_store_def split: option.split)

lemma terrain_kept_dted:
  "(\<not> isl (dted_interpolation i) \<Longrightarrow> locks_dted h c) \<Longrightarrow> terrain_kept c s (snd (dted_locked h i f s))"
  by (auto simp: dted_locked_def with_resource_def terrain_kept_def split: option.split sum.split)

lemmas terrain_lookup_defs =
  terrain_store_height_m_def terrain_store_height_m_with_options_def terrain_store_orthometric_height_m_def
  terrain_store_orthometric_height_m_with_options_def terrain_store_height_batch_def
  terrain_store_orthometric_height_batch_def terrain_store_ellipsoidal_height_m_def
  terrain_store_ellipsoidal_height_m_with_options_def terrain_store_ellipsoidal_height_m_with_model_def
  terrain_store_tile_index_def terrain_store_vertical_datum_def terrain_store_digest_provenance_def
  terrain_store_mmap_checksum64_def terrain_store_to_bytes_def

lemmas terrain_other_defs =
  terrain_store_mmap_from_bytes_def terrain_store_mmap_from_vec_def terrain_store_mmap_from_path_def
  terrain_store_mmap_from_path_attested_def mmap_from_bytes_term_def terrain_store_mmap_verify_def
  terrain_store_egm96_fifteen_minute_geoid_from_bytes_def terrain_store_egm96_fifteen_minute_geoid_from_path_def
  terrain_store_orthometric_to_ellipsoidal_height_deg_def terrain_store_orthometric_to_ellipsoidal_height_rad_def
  terrain_dted_new_def terrain_dted_height_def terrain_dted_height_batch_def

lemma ellipsoidal_with_model_state [simp]: "snd (ellipsoidal_with_model C h x y options model g s) = s"
  by (simp add: ellipsoidal_with_model_def Let_def split: option.split)

lemma terrain_step_kept: "terrain_kept c s (snd (terrain_step C c s))"
proof (cases c)
  case (DtedTileLoad p)
  then show ?thesis by (simp add: terrain_dted_tile_load_def split: sum.split)
next
  case (DtedTileElevation h x y)
  then show ?thesis by (simp add: terrain_dted_tile_elevation_def with_resource_def)
next
  case (DtedTileHorizontalDatum h)
  then show ?thesis by (simp add: terrain_dted_tile_horizontal_datum_def with_resource_def)
qed (simp_all add: terrain_lookup_defs terrain_other_defs terrain_kept_write terrain_kept_dted split: sum.split)

section \<open>Poisoned locks\<close>

lemma terrain_poison_stays:
  assumes "terrain_kept c s s'"
  shows "\<not> writes_store h c \<Longrightarrow> poisoned_at (stores s) h \<Longrightarrow> poisoned_at (stores s') h"
    "\<not> locks_dted k c \<Longrightarrow> poisoned_at (dted_trees s) k \<Longrightarrow> poisoned_at (dted_trees s') k"
  using assms by (auto simp: terrain_kept_def elim: table_kept_poison)

lemma store_read_poisoned: "poisoned_at (stores s) h \<Longrightarrow> store_read h f s = (Inl Panic, s)"
  by (simp add: store_read_def with_resource_def poisoned_at_def)

lemma store_write_poisoned: "poisoned_at (stores s) h \<Longrightarrow> store_write h f s = (Inl Panic, s)"
  by (simp add: store_write_def with_resource_def poisoned_at_def)

lemma store_write_panic:
  "h < length (stores s) \<Longrightarrow> fst (store_write h f s) = Inl Panic \<Longrightarrow> poisoned_at (stores (snd (store_write h f s))) h"
  by (auto simp: store_write_def with_resource_def poisoned_at_def split: option.splits if_splits)

lemma dted_locked_panic:
  "fst (dted_locked h i f s) = Inl Panic \<Longrightarrow> poisoned_at (dted_trees (snd (dted_locked h i f s))) h"
  by (auto simp: dted_locked_def with_resource_def poisoned_at_def split: option.splits if_splits sum.splits)

lemma dted_locked_poisoned:
  "poisoned_at (dted_trees s) h \<Longrightarrow> \<not> isl (dted_interpolation i) \<Longrightarrow>
   dted_locked h i f s = (Inl (Err (error_text ''terrain lock poisoned'')), s)"
  by (auto simp: dted_locked_def with_resource_def poisoned_at_def split: sum.splits)

interpretation sp: poisoning "terrain_step C" "\<lambda>h s. poisoned_at (stores s) h"
  "\<lambda>h c s. writes_store h c \<and> h < length (stores s)" "Inl Panic" "\<lambda>_. Inl Panic" for C
proof (unfold_locales, goal_cases)
  case (1 h c s)
  then show ?case by (simp add: writes_store_def terrain_store_mmap_verify_def store_write_panic)
next
  case (2 h s c)
  then show ?case using terrain_poison_stays(1) [OF terrain_step_kept]
    by (cases "writes_store h c") (simp_all add: writes_store_def terrain_store_mmap_verify_def store_write_poisoned)
next
  case (3 h s c)
  then show ?case by (simp add: writes_store_def terrain_store_mmap_verify_def store_write_poisoned)
qed

interpretation dp: poisoning "terrain_step C" "\<lambda>h s. poisoned_at (dted_trees s) h"
  "\<lambda>h c s. locks_dted h c" "Inl Panic" "\<lambda>_. Inl (Err (error_text ''terrain lock poisoned''))" for C
proof (unfold_locales, goal_cases)
  case (1 h c s)
  then show ?case by (cases c) (simp_all add: terrain_dted_height_def terrain_dted_height_batch_def dted_locked_panic)
next
  case (2 h s c)
  have locked: "terrain_step C c s = (Inl (Err (error_text ''terrain lock poisoned'')), s)" if "locks_dted h c"
    using that 2 by (cases c) (simp_all add: terrain_dted_height_def terrain_dted_height_batch_def dted_locked_poisoned)
  show ?case using 2 locked terrain_poison_stays(2) [OF terrain_step_kept] by (cases "locks_dted h c") simp_all
next
  case (3 h s c)
  then show ?case
    by (cases c) (simp_all add: terrain_dted_height_def terrain_dted_height_batch_def dted_locked_poisoned)
qed

text \<open>The calls that reach the lock of a store, for reading or for writing.\<close>

definition takes_store :: "nat \<Rightarrow> terrain_call \<Rightarrow> 'o terrain_resources \<Rightarrow> bool" where
  "takes_store h c s \<longleftrightarrow>
     (case c of
        HeightM k x y \<Rightarrow> h = k
      | HeightMWithOptions k x y i \<Rightarrow> h = k \<and> \<not> isl (lookup_options i)
      | OrthometricHeight k x y \<Rightarrow> h = k
      | OrthometricHeightWithOptions k x y i \<Rightarrow> h = k \<and> \<not> isl (lookup_options i)
      | HeightBatch k ps i \<Rightarrow> h = k \<and> \<not> isl (lookup_options i)
      | OrthometricHeightBatch k ps i \<Rightarrow> h = k \<and> \<not> isl (lookup_options i)
      | EllipsoidalHeight k x y \<Rightarrow> h = k
      | EllipsoidalHeightWithOptions k x y i \<Rightarrow> h = k \<and> \<not> isl (lookup_options i)
      | EllipsoidalHeightWithModel k x y i m g \<Rightarrow>
          h = k \<and> \<not> isl (lookup_options i) \<and> pred_option (\<lambda>j. j < length (geoids s)) g \<and>
          (m = ''egm96_one_degree'' \<or> m = ''egm96_fifteen_minute'' \<and> g \<noteq> None)
      | TileIndex k \<Rightarrow> h = k
      | StoreVerticalDatum k \<Rightarrow> h = k
      | StoreDigestProvenance k \<Rightarrow> h = k
      | MmapChecksum k \<Rightarrow> h = k
      | Verify k \<Rightarrow> h = k
      | ToBytes k \<Rightarrow> h = k
      | _ \<Rightarrow> False)"

lemma store_arg_poisoned: "poisoned_at (stores s) h \<Longrightarrow> store_arg h body s = body s"
  by (simp add: store_arg_def with_resource_def poisoned_at_def)

lemma poisoned_store_panics:
  "poisoned_at (stores s) h \<Longrightarrow> takes_store h c s \<Longrightarrow> terrain_step C c s = (Inl Panic, s)"
  by (cases c)
    (auto simp: takes_store_def terrain_lookup_defs terrain_store_mmap_verify_def store_read_poisoned store_write_poisoned
      store_arg_poisoned geoid_arg_def with_resource_def ellipsoidal_with_model_def split: sum.splits option.splits)

section \<open>A core for the witnesses\<close>

text \<open>Lookups answer, \<open>verify\<close> and DTED lookups panic.\<close>

definition bench_terrain :: "nat terrain_core" where
  "bench_terrain = terrain_core (\<lambda>_. []) (\<lambda>_. [])
     (convert_core (\<lambda>_. Inr []) (\<lambda>_ _. Inr ()) (\<lambda>_. Inr []) (\<lambda>_ _. Inr ()) (\<lambda>_. 0))
     (store_core (\<lambda>_. Inr 0) (\<lambda>_. Inr 0) (\<lambda>_ _. Inr 0) (\<lambda>_ _ _ _. Some (Inr (OrthometricHeightM 0)))
       (\<lambda>_ ps _. Some (map (\<lambda>_. Inr (OrthometricHeightM 0)) ps)) (\<lambda>_ _ _ _. Some (Inr (EllipsoidalHeightM 0)))
       (\<lambda>_ _ _ _ _. Some (Inr (EllipsoidalHeightM 0))) (\<lambda>_. None))
     (inspect_core (\<lambda>_. []) (\<lambda>_. Egm96MslOrthometric) (\<lambda>_. Verified) (\<lambda>_. 0) (\<lambda>_. []) (\<lambda>_. Inr 0) (\<lambda>_. Inr 0)
       (\<lambda>_ _ _ _. Inr (EllipsoidalHeightM 0)) (\<lambda>_ _ _ _. Inr (EllipsoidalHeightM 0)))
     (dted_core (\<lambda>_. 0) (\<lambda>_ _ _ _. None) (\<lambda>_ _ _. None) (\<lambda>_. Inr 0) (\<lambda>_ _ _. Inr 0) (\<lambda>_. Wgs84))"

definition bench_stores :: "nat terrain_resources" where
  "bench_stores = \<lparr>stores = [cell_new 0], geoids = [], dted_trees = [cell_new 0], dted_tiles = []\<rparr>"

section \<open>Properties\<close>

text \<open>C27. Of all terrain calls only \<open>verify\<close> can change a store or poison its lock, and only a DTED lookup its
  tree: whatever a call does, a panic in the core included, every other resource keeps its value and its poison
  flag, and none disappears.\<close>

theorem terrain_lookups_leave_stores: "terrain_kept c s (snd (terrain_step C c s))"
  by (rule terrain_step_kept)

text \<open>C28. When the core panics in \<open>verify\<close>, the store is lost for good: after any further calls, every call
  that reaches its lock panics and changes nothing.\<close>

theorem verify_panic_is_final:
  assumes "h < length (stores s)" "fst (terrain_step C (Verify h) s) = Inl Panic"
    "s' = run_calls (terrain_step C) cs (snd (terrain_step C (Verify h) s))" "takes_store h d s'"
  shows "terrain_step C d s' = (Inl Panic, s')"
proof -
  have "poisoned_at (stores (snd (terrain_step C (Verify h) s))) h"
    using sp.panic_poisons [of h "Verify h" s C] assms(1,2) by (simp add: writes_store_def)
  then have "poisoned_at (stores s') h" unfolding assms(3) by (rule sp.poisoned_over_runs)
  then show ?thesis using assms(4) by (rule poisoned_store_panics)
qed

theorem verify_panic_is_final_witness:
  "terrain_step bench_terrain (HeightM 0 1 2) (snd (terrain_step bench_terrain (Verify 0) bench_stores)) =
     (Inl Panic, snd (terrain_step bench_terrain (Verify 0) bench_stores))"
  by (rule verify_panic_is_final [where h = 0 and s = bench_stores and cs = "[]"])
    (simp_all add: takes_store_def bench_stores_def bench_terrain_def terrain_store_mmap_verify_def store_write_def
      with_resource_def)

text \<open>After a core panic in a lookup on a DTED tree, every later lookup on that tree with a known
  interpolation is refused as poisoned and changes nothing.\<close>

theorem dted_panic_refuses:
  assumes "locks_dted h c" "fst (terrain_step C c s) = Inl Panic" "locks_dted h d"
    "s' = run_calls (terrain_step C) cs (snd (terrain_step C c s))"
  shows "terrain_step C d s' = (Inl (Err (error_text ''terrain lock poisoned'')), s')"
  by (rule dp.refused_after_panic [OF assms])

theorem dted_panic_refuses_witness:
  "terrain_step bench_terrain (DtedHeightBatch 0 [] ''bilinear'')
     (snd (terrain_step bench_terrain (DtedHeight 0 1 2 ''bilinear'') bench_stores)) =
   (Inl (Err (error_text ''terrain lock poisoned'')),
    snd (terrain_step bench_terrain (DtedHeight 0 1 2 ''bilinear'') bench_stores))"
  by (rule dted_panic_refuses [where h = 0 and c = "DtedHeight 0 1 2 ''bilinear''" and s = bench_stores and cs = "[]"])
    (simp_all add: dted_interpolation_def bench_stores_def bench_terrain_def terrain_dted_height_def dted_locked_def
      with_resource_def)

lemma result_terms_agree: "terrain_result_term C \<circ> map_ok ortho_metres = orthometric_result_term C"
proof
  show "(terrain_result_term C \<circ> map_ok ortho_metres) r = orthometric_result_term C r" for r
    by (cases r) (simp_all add: terrain_result_term_def orthometric_result_term_def)
qed

lemma lookup_options_bilinear: "lookup_options ''bilinear'' = Inr bilinear_options"
  by (simp add: lookup_options_def interpolation_from_str_def bilinear_options_def)

lemma store_arg_read: "store_arg h (store_read h f) s = store_read h f s"
  by (simp add: store_arg_def store_read_def with_resource_def)

text \<open>C29. The variants of the lookups agree: a plain height is the orthometric height, alone and in a batch,
  with every interpolation, and the calls without options are those with \<open>bilinear\<close>.\<close>

theorem terrain_lookup_variants_agree:
  "terrain_store_height_m_with_options C h x y i = terrain_store_orthometric_height_m_with_options C h x y i \<and>
   terrain_store_height_batch C h ps i = terrain_store_orthometric_height_batch C h ps i \<and>
   terrain_store_height_m C h x y = terrain_store_height_m_with_options C h x y ''bilinear'' \<and>
   terrain_store_orthometric_height_m C h x y = terrain_store_orthometric_height_m_with_options C h x y ''bilinear'' \<and>
   terrain_store_ellipsoidal_height_m C h x y = terrain_store_ellipsoidal_height_m_with_options C h x y ''bilinear''"
  unfolding terrain_lookup_defs result_terms_agree lookup_options_bilinear by (simp add: store_arg_read fun_eq_iff)

text \<open>Error terms.\<close>

lemma horizontal_datum_term_inj [simp]: "horizontal_datum_term a = horizontal_datum_term b \<longleftrightarrow> a = b"
  by (cases a; cases b; simp add: horizontal_datum_term_def)


lemma enc_tile_id_inj [simp]: "enc_tile_id a = enc_tile_id b \<longleftrightarrow> a = b"
  by (cases a; cases b; simp add: enc_tile_id_def)





text \<open>A query that the core refuses is reported with the core's message, not as the bare atom.\<close>

lemma dted_refused_query: "dted_height_term (Inl (CoreInvalidInput m)) = error_term (Tup [Atom ''invalid_input'', Utf8 m])"
  by (simp add: dted_height_term_def terrain_lookup_error_term_def)

end
